(* ===== verification/Prelude.thy ===== *)
theory Prelude
  imports Main "HOL-Library.Word" "HOL-Library.Char_ord" "HOL-Library.List_Lexorder"
begin

text \<open>
  The shared ground of the development: machine integers, decimal rendering of numbers as
  Rust's \<^verbatim>\<open>Display\<close> prints them, the loop that trims a \<^verbatim>\<open>VecDeque\<close> to its
  capacity, a few list facts, and the generic state machine whose lemmas the component
  theories reuse for their invariants.

  Integer conventions.  \<^verbatim>\<open>u32\<close> and \<^verbatim>\<open>u64\<close> are words, so that their addition wraps
  as it does in a release build.  \<^verbatim>\<open>i64\<close> values are HOL integers; every arithmetic
  operation of the source on them is written with its overflow behaviour
  (\<open>i64_wrap\<close>, \<open>i64_saturating_sub\<close>).  \<^verbatim>\<open>usize\<close> lengths and indexes are natural numbers.
\<close>

named_theorems model_unfold "definitions unfolded by the component proofs"
named_theorems model_inv "preservation of component invariants"

section \<open>Machine integers\<close>

type_synonym u32 = "32 word"
type_synonym u64 = "64 word"
type_synonym i64 = int
type_synonym usize = nat

definition i64_min :: i64 where
  "i64_min = - (2 ^ 63)"

definition i64_max :: i64 where
  "i64_max = 2 ^ 63 - 1"

definition in_i64 :: "int \<Rightarrow> bool" where
  "in_i64 x \<longleftrightarrow> i64_min \<le> x \<and> x \<le> i64_max"

definition i64_wrap :: "int \<Rightarrow> i64" where
  "i64_wrap x = (x + 2 ^ 63) mod 2 ^ 64 - 2 ^ 63"

definition i64_clamp :: "int \<Rightarrow> i64" where
  "i64_clamp x = (if x < i64_min then i64_min else if x > i64_max then i64_max else x)"

definition i64_saturating_sub :: "i64 \<Rightarrow> i64 \<Rightarrow> i64" where
  "i64_saturating_sub a b = i64_clamp (a - b)"

definition u64_max :: u64 where
  "u64_max = -1"

definition u64_saturating_mul :: "u64 \<Rightarrow> u64 \<Rightarrow> u64" where
  "u64_saturating_mul a b = (if unat a * unat b < 2 ^ 64 then a * b else u64_max)"

definition u64_saturating_pow :: "u64 \<Rightarrow> nat \<Rightarrow> u64" where
  "u64_saturating_pow a n = (if unat a ^ n < 2 ^ 64 then a ^ n else u64_max)"

lemma in_i64_clamp [simp]: "in_i64 (i64_clamp x)"
  by (auto simp: in_i64_def i64_clamp_def i64_min_def i64_max_def)

lemma i64_clamp_id [simp]: "in_i64 x \<Longrightarrow> i64_clamp x = x"
  by (auto simp: in_i64_def i64_clamp_def)

lemma i64_wrap_id: "in_i64 x \<Longrightarrow> i64_wrap x = x"
  by (simp add: in_i64_def i64_wrap_def i64_min_def i64_max_def)

lemma in_i64_wrap: "in_i64 (i64_wrap x)"
proof -
  have "0 \<le> (x + 2 ^ 63) mod 2 ^ 64" "(x + 2 ^ 63) mod 2 ^ 64 < (2 ^ 64 :: int)"
    by simp_all
  then show ?thesis
    by (simp add: in_i64_def i64_wrap_def i64_min_def i64_max_def)
qed

lemma i64_saturating_sub_le: "0 \<le> b \<Longrightarrow> in_i64 a \<Longrightarrow> i64_saturating_sub a b \<le> a"
  by (auto simp: i64_saturating_sub_def i64_clamp_def in_i64_def)

lemma i64_saturating_sub_ge: "a \<le> i64_max \<Longrightarrow> 0 \<le> b \<Longrightarrow> a - b \<le> i64_saturating_sub a b"
  by (auto simp: i64_saturating_sub_def i64_clamp_def)

lemma i64_clamp_mono: "x \<le> y \<Longrightarrow> i64_clamp x \<le> i64_clamp y"
  by (auto simp: i64_clamp_def i64_min_def i64_max_def)

lemma unat_u64_max: "unat u64_max = 2 ^ 64 - 1"
  by (simp add: u64_max_def unsigned_minus_1_eq_mask mask_eq_exp_minus_1)

lemma unat_u64_power: "unat (a ^ n :: u64) = unat a ^ n mod 2 ^ 64"
  by (induction n) (simp_all add: unat_word_ariths mod_mult_right_eq)

lemma unat_u64_saturating_mul:
  "unat (u64_saturating_mul a b) = min (unat a * unat b) (2 ^ 64 - 1)"
proof (cases "unat a * unat b < 2 ^ 64")
  case True
  then show ?thesis
    by (simp add: u64_saturating_mul_def unat_mult_lem [THEN iffD1] min_def)
next
  case False
  then show ?thesis
    by (simp add: u64_saturating_mul_def unat_u64_max min_def)
qed

lemma unat_u64_saturating_pow:
  "unat (u64_saturating_pow a n) = min (unat a ^ n) (2 ^ 64 - 1)"
proof (cases "unat a ^ n < 2 ^ 64")
  case True
  then show ?thesis by (simp add: u64_saturating_pow_def unat_u64_power)
next
  case False
  then show ?thesis
    by (simp add: u64_saturating_pow_def unat_u64_max)
qed

lemma u32_succ: "a < (b :: u32) \<Longrightarrow> unat (a + 1) = Suc (unat a)"
  using unsigned_less [of b, where ?'a = nat] by (simp add: unat_word_ariths word_less_nat_alt)

section \<open>Decimal rendering\<close>

text \<open>\<^verbatim>\<open>Display\<close> for the unsigned and signed integers, used by the error messages, the
  topic keys and the request identifiers of the source.\<close>

fun show_nat :: "nat \<Rightarrow> string" where
  "show_nat n = (if n < 10 then [char_of (48 + n)] else show_nat (n div 10) @ [char_of (48 + n mod 10)])"

declare show_nat.simps [simp del]

definition show_int :: "int \<Rightarrow> string" where
  "show_int i = (if i < 0 then ''-'' @ show_nat (nat (- i)) else show_nat (nat i))"

definition digit_value :: "char \<Rightarrow> nat" where
  "digit_value c = of_char c - 48"

definition read_nat :: "string \<Rightarrow> nat" where
  "read_nat ds = foldl (\<lambda>n c. 10 * n + digit_value c) 0 ds"

lemma digit_value_char_of: "d < 10 \<Longrightarrow> digit_value (char_of (48 + d)) = d"
  by (simp add: digit_value_def)

lemma read_nat_snoc: "read_nat (ds @ [c]) = 10 * read_nat ds + digit_value c"
  by (simp add: read_nat_def)

lemma read_show_nat: "read_nat (show_nat n) = n"
proof (induction n rule: show_nat.induct)
  case (1 n)
  show ?case
  proof (cases "n < 10")
    case True
    then have "show_nat n = [] @ [char_of (48 + n)]"
      by (simp add: show_nat.simps [of n])
    then have "read_nat (show_nat n) = digit_value (char_of (48 + n))"
      by (simp only: read_nat_snoc) (simp add: read_nat_def)
    with True show ?thesis by (simp add: digit_value_char_of)
  next
    case False
    then have "read_nat (show_nat n) = 10 * (n div 10) + n mod 10"
      by (simp add: show_nat.simps [of n] read_nat_snoc digit_value_char_of "1.IH")
    then show ?thesis by presburger
  qed
qed

lemma show_nat_inject [simp]: "show_nat m = show_nat n \<longleftrightarrow> m = n"
  by (metis read_show_nat)

section \<open>A deque trimmed to its capacity\<close>

text \<open>\<^verbatim>\<open>while deque.len() > capacity { let _ = deque.pop_front(); }\<close>\<close>

fun trim_front :: "usize \<Rightarrow> 'a list \<Rightarrow> 'a list" where
  "trim_front cap q = (if cap < length q then trim_front cap (tl q) else q)"

declare trim_front.simps [simp del]

definition push_trim :: "usize \<Rightarrow> 'a list \<Rightarrow> 'a \<Rightarrow> 'a list" where
  "push_trim cap q x = trim_front cap (q @ [x])"

lemma trim_front_drop: "trim_front cap q = drop (length q - cap) q"
proof (induction cap q rule: trim_front.induct)
  case (1 cap q)
  show ?case
  proof (cases "cap < length q")
    case True
    then have "length q - cap = Suc (length (tl q) - cap)" by simp
    with True have "trim_front cap q = drop (length q - cap) q"
      by (simp add: trim_front.simps [of cap q] "1.IH" drop_Suc)
    then show ?thesis .
  next
    case False
    then show ?thesis by (simp add: trim_front.simps [of cap q])
  qed
qed

lemma length_push_trim: "length (push_trim cap q x) = min cap (Suc (length q))"
  by (simp add: push_trim_def trim_front_drop)

lemma push_trim_within: "length q < cap \<Longrightarrow> push_trim cap q x = q @ [x]"
  by (simp add: push_trim_def trim_front_drop)

lemma push_trim_full: "length q = cap \<Longrightarrow> 0 < cap \<Longrightarrow> push_trim cap q x = tl q @ [x]"
  by (cases q) (simp_all add: push_trim_def trim_front_drop)

lemma last_push_trim: "0 < cap \<Longrightarrow> last (push_trim cap q x) = x \<and> push_trim cap q x \<noteq> []"
  by (simp add: push_trim_def trim_front_drop)

lemma set_push_trim: "set (push_trim cap q x) \<subseteq> insert x (set q)"
  using set_drop_subset [of _ "q @ [x]"] by (fastforce simp: push_trim_def trim_front_drop)

lemma distinct_map_push_trim:
  assumes "distinct (map f q)" and "f x \<notin> f ` set q"
  shows "distinct (map f (push_trim cap q x))"
proof -
  have "distinct (map f (q @ [x]))" using assms by simp
  then show ?thesis
    unfolding push_trim_def trim_front_drop drop_map [symmetric] by (rule distinct_drop)
qed

section \<open>Searching\<close>

lemma find_SomeD: "find P xs = Some x \<Longrightarrow> x \<in> set xs \<and> P x"
  by (auto simp: find_Some_iff)

lemma find_distinct:
  "distinct (map f xs) \<Longrightarrow> x \<in> set xs \<Longrightarrow> find (\<lambda>y. f y = f x) xs = Some x"
  by (induction xs) auto

lemma find_rev_distinct:
  "distinct (map f xs) \<Longrightarrow> x \<in> set xs \<Longrightarrow> find (\<lambda>y. f y = f x) (rev xs) = Some x"
  by (rule find_distinct) (simp_all add: rev_map [symmetric])

section \<open>State machines\<close>

text \<open>
  A component that reacts to a stream of inputs one at a time.  The client of such a
  component learns that whatever holds of one step holds of every run.
\<close>

locale reactive_machine =
  fixes step :: "'s \<Rightarrow> 'e \<Rightarrow> 's"
    and inv :: "'s \<Rightarrow> bool"
  assumes step_keeps: "inv s \<Longrightarrow> inv (step s e)"
begin

lemma run_keeps: "inv s \<Longrightarrow> inv (foldl step s es)"
  by (induction es arbitrary: s) (simp_all add: step_keeps)

lemma prefix_keeps: "inv s \<Longrightarrow> inv (foldl step s (take n es))"
  by (rule run_keeps)

end

text \<open>
  A machine whose invariant needs the inputs to satisfy a side condition; one that needs none
  is the special case.
\<close>

locale guarded_machine =
  fixes step :: "'s \<Rightarrow> 'e \<Rightarrow> 's"
    and inv :: "'s \<Rightarrow> bool"
    and admissible :: "'e \<Rightarrow> bool"
  assumes guarded_step: "inv s \<Longrightarrow> admissible e \<Longrightarrow> inv (step s e)"
begin

lemma guarded_run: "inv s \<Longrightarrow> list_all admissible es \<Longrightarrow> inv (foldl step s es)"
  by (induction es arbitrary: s) (simp_all add: guarded_step)

end

sublocale reactive_machine \<subseteq> guarded_machine step inv "\<lambda>_. True"
  by unfold_locales (rule step_keeps)

locale observed_machine = reactive_machine step inv
  for step :: "'s \<Rightarrow> 'e \<Rightarrow> 's" and inv :: "'s \<Rightarrow> bool" +
  fixes obs :: "'s \<Rightarrow> 'o" and quiet :: "'e \<Rightarrow> bool"
  assumes quiet_step: "inv s \<Longrightarrow> quiet e \<Longrightarrow> obs (step s e) = obs s"
begin

lemma quiet_run: "inv s \<Longrightarrow> list_all quiet es \<Longrightarrow> obs (foldl step s es) = obs s"
  by (induction es arbitrary: s) (simp_all add: step_keeps quiet_step)

end

end
