(* ===== verification/BTree_Map.thy ===== *)
theory BTree_Map
  imports Prelude
begin

text \<open>
  \<^verbatim>\<open>std::collections::BTreeMap\<close> and \<^verbatim>\<open>BTreeSet\<close> as the source uses them: insertion that
  overwrites, lookup, removal, \<^verbatim>\<open>retain\<close>, and iteration in ascending key order.  The order of
  iteration is observable (the balances, positions and orders are listed in it, and the
  derived account summary takes its timestamp from the first balance), so a map is an
  association list kept strictly sorted by key.  The locale \<open>ordered_map\<close> is the interface its
  clients rely on; \<open>bt\<close> interprets it on the list representation.
\<close>

type_synonym ('k, 'v) btree_map = "('k \<times> 'v) list"

definition bt_keys :: "('k, 'v) btree_map \<Rightarrow> 'k list" where
  "bt_keys m = map fst m"

definition bt_values :: "('k, 'v) btree_map \<Rightarrow> 'v list" where
  "bt_values m = map snd m"

definition bt_wf :: "('k::linorder, 'v) btree_map \<Rightarrow> bool" where
  "bt_wf m \<longleftrightarrow> sorted_wrt (<) (bt_keys m)"

definition bt_get :: "('k, 'v) btree_map \<Rightarrow> 'k \<Rightarrow> 'v option" where
  "bt_get m = map_of m"

definition bt_contains :: "('k, 'v) btree_map \<Rightarrow> 'k \<Rightarrow> bool" where
  "bt_contains m k \<longleftrightarrow> bt_get m k \<noteq> None"

fun bt_insert :: "'k::linorder \<Rightarrow> 'v \<Rightarrow> ('k, 'v) btree_map \<Rightarrow> ('k, 'v) btree_map" where
  "bt_insert k v [] = [(k, v)]"
| "bt_insert k v (e # m) =
     (if fst e < k then e # bt_insert k v m
      else if fst e = k then (k, v) # m
      else (k, v) # e # m)"

definition bt_remove :: "'k \<Rightarrow> ('k, 'v) btree_map \<Rightarrow> ('k, 'v) btree_map" where
  "bt_remove k m = filter (\<lambda>e. fst e \<noteq> k) m"

definition bt_retain :: "('k \<Rightarrow> 'v \<Rightarrow> bool) \<Rightarrow> ('k, 'v) btree_map \<Rightarrow> ('k, 'v) btree_map" where
  "bt_retain P m = filter (\<lambda>e. P (fst e) (snd e)) m"

text \<open>\<^verbatim>\<open>iter.map(|x| (key(x), x)).collect::<BTreeMap<_, _>>()\<close>, starting from \<open>m\<close>.\<close>

definition bt_extend :: "('a \<Rightarrow> 'k::linorder) \<Rightarrow> ('a \<Rightarrow> 'v) \<Rightarrow> ('k, 'v) btree_map \<Rightarrow> 'a list \<Rightarrow> ('k, 'v) btree_map" where
  "bt_extend key val m xs = foldl (\<lambda>acc x. bt_insert (key x) (val x) acc) m xs"

definition bt_collect :: "('v \<Rightarrow> 'k::linorder) \<Rightarrow> 'v list \<Rightarrow> ('k, 'v) btree_map" where
  "bt_collect key xs = bt_extend key (\<lambda>x. x) [] xs"

section \<open>The interface\<close>

locale ordered_map =
  fixes empty :: 'm
    and get :: "'m \<Rightarrow> 'k::linorder \<Rightarrow> 'v option"
    and insert_at :: "'k \<Rightarrow> 'v \<Rightarrow> 'm \<Rightarrow> 'm"
    and remove_at :: "'k \<Rightarrow> 'm \<Rightarrow> 'm"
    and retain :: "('k \<Rightarrow> 'v \<Rightarrow> bool) \<Rightarrow> 'm \<Rightarrow> 'm"
    and keys :: "'m \<Rightarrow> 'k list"
    and vals :: "'m \<Rightarrow> 'v list"
    and wf :: "'m \<Rightarrow> bool"
  assumes wf_empty: "wf empty"
    and wf_insert: "wf m \<Longrightarrow> wf (insert_at k v m)"
    and wf_remove: "wf m \<Longrightarrow> wf (remove_at k m)"
    and wf_retain: "wf m \<Longrightarrow> wf (retain P m)"
    and get_empty: "get empty k = None"
    and get_insert: "wf m \<Longrightarrow> get (insert_at k v m) = (get m)(k \<mapsto> v)"
    and get_remove: "wf m \<Longrightarrow> get (remove_at k m) = (get m)(k := None)"
    and get_retain: "wf m \<Longrightarrow>
      get (retain P m) k = (case get m k of None \<Rightarrow> None | Some v \<Rightarrow> if P k v then Some v else None)"
    and keys_sorted: "wf m \<Longrightarrow> sorted_wrt (<) (keys m)"
    and keys_dom: "wf m \<Longrightarrow> set (keys m) = dom (get m)"
    and vals_keys: "wf m \<Longrightarrow> vals m = map (\<lambda>k. the (get m k)) (keys m)"
begin

lemma vals_iff: "wf m \<Longrightarrow> v \<in> set (vals m) \<longleftrightarrow> (\<exists>k. get m k = Some v)"
  by (force simp: vals_keys keys_dom)

lemma distinct_keys: "wf m \<Longrightarrow> distinct (keys m)"
  using keys_sorted strict_sorted_iff by blast

lemma observationally_equal:
  assumes "wf m" "wf m'" "get m = get m'"
  shows "keys m = keys m' \<and> vals m = vals m'"
proof -
  have "keys m = keys m'"
    using assms by (intro strict_sorted_equal) (simp_all add: keys_sorted keys_dom)
  with assms show ?thesis by (simp add: vals_keys)
qed

lemma wf_bulk: "wf m \<Longrightarrow> wf (foldl (\<lambda>acc x. insert_at (key x) (val x) acc) m xs)"
  by (induction xs arbitrary: m) (simp_all add: wf_insert)

lemma get_bulk:
  assumes "wf m"
  shows "get (foldl (\<lambda>acc x. insert_at (key x) (val x) acc) m xs) k =
    (case find (\<lambda>x. key x = k) (rev xs) of None \<Rightarrow> get m k | Some x \<Rightarrow> Some (val x))"
  using assms
proof (induction xs rule: rev_induct)
  case Nil
  then show ?case by simp
next
  case (snoc x xs)
  then show ?case by (simp add: get_insert wf_bulk)
qed

lemma vals_insert:
  assumes "wf m"
  shows "set (vals (insert_at k v m)) = insert v (ran ((get m)(k := None)))"
  using assms by (auto simp: vals_iff wf_insert get_insert ran_def split: if_splits)

end

section \<open>The sorted association list is an ordered map\<close>

lemma bt_get_insert: "bt_get (bt_insert k v m) = (bt_get m)(k \<mapsto> v)"
  unfolding bt_get_def by (induction m) (auto simp: fun_eq_iff)

lemma bt_keys_insert: "set (bt_keys (bt_insert k v m)) = insert k (set (bt_keys m))"
  unfolding bt_keys_def by (induction m) auto

lemma bt_wf_insert: "bt_wf m \<Longrightarrow> bt_wf (bt_insert k v m)"
proof (induction m)
  case Nil
  then show ?case by (simp add: bt_wf_def bt_keys_def)
next
  case (Cons e m)
  then have "set (map fst (bt_insert k v m)) = insert k (set (map fst m))"
    using bt_keys_insert [of k v m] by (simp add: bt_keys_def)
  with Cons show ?case
    by (auto simp: bt_wf_def bt_keys_def)
qed

lemma bt_wf_filter: "bt_wf m \<Longrightarrow> bt_wf (filter P m)"
  by (induction m) (auto simp: bt_wf_def bt_keys_def)

lemma bt_get_filter:
  "bt_wf m \<Longrightarrow>
    bt_get (filter P m) k = (case bt_get m k of None \<Rightarrow> None | Some v \<Rightarrow> if P (k, v) then Some v else None)"
proof (induction m)
  case Nil
  then show ?case by (simp add: bt_get_def)
next
  case (Cons e m)
  then have "map_of m (fst e) = None"
    by (auto simp: bt_wf_def bt_keys_def map_of_eq_None_iff)
  with Cons show ?case
    by (cases e) (auto simp: bt_wf_def bt_keys_def bt_get_def split: option.splits)
qed

lemma bt_values_keys: "bt_wf m \<Longrightarrow> bt_values m = map (\<lambda>k. the (bt_get m k)) (bt_keys m)"
proof -
  assume "bt_wf m"
  then have "distinct (map fst m)"
    by (simp add: bt_wf_def bt_keys_def strict_sorted_iff)
  then have "snd e = the (map_of m (fst e))" if "e \<in> set m" for e
    using that by (metis map_of_is_SomeI option.sel prod.collapse)
  then show ?thesis by (simp add: bt_values_def bt_keys_def bt_get_def)
qed

interpretation bt: ordered_map "[]" bt_get bt_insert bt_remove bt_retain bt_keys bt_values bt_wf
proof (unfold_locales, goal_cases)
  case 8
  then show ?case by (simp add: bt_retain_def bt_get_filter split: option.split)
next
  case 7
  then show ?case
    by (auto simp: fun_eq_iff bt_remove_def bt_get_filter split: option.splits)
next
  case 10
  then show ?case by (simp add: bt_keys_def bt_get_def dom_map_of_conv_image_fst)
qed (auto simp: bt_wf_def bt_keys_def bt_get_def bt_remove_def bt_retain_def
      bt_wf_insert [unfolded bt_wf_def bt_keys_def] bt_get_insert [unfolded bt_get_def]
      bt_wf_filter [unfolded bt_wf_def bt_keys_def] bt_values_keys [unfolded bt_wf_def bt_keys_def bt_get_def])

lemmas bt_wf_laws [simp, intro] = bt.wf_empty bt.wf_insert bt.wf_remove bt.wf_retain
lemmas bt_get_laws [simp] = bt.get_empty bt_get_insert bt.get_remove bt.get_retain

lemma bt_wf_extend [simp, intro]: "bt_wf m \<Longrightarrow> bt_wf (bt_extend key val m xs)"
  unfolding bt_extend_def by (rule bt.wf_bulk)

lemma bt_wf_collect [simp, intro]: "bt_wf (bt_collect key xs)"
  by (simp add: bt_collect_def)

lemma bt_get_extend:
  "bt_wf m \<Longrightarrow> bt_get (bt_extend key val m xs) k =
    (case find (\<lambda>x. key x = k) (rev xs) of None \<Rightarrow> bt_get m k | Some x \<Rightarrow> Some (val x))"
  unfolding bt_extend_def by (rule bt.get_bulk)

lemma bt_get_collect: "bt_get (bt_collect key xs) k = find (\<lambda>x. key x = k) (rev xs)"
  by (simp add: bt_collect_def bt_get_extend split: option.splits)

lemma bt_contains_collect: "bt_contains (bt_collect key xs) k \<longleftrightarrow> (\<exists>x\<in>set xs. key x = k)"
  by (auto simp: bt_contains_def bt_get_collect find_None_iff2 find_None_iff)

lemma bt_insert_twice [simp]: "bt_insert k v (bt_insert k w m) = bt_insert k v m"
  by (induction m) auto

section \<open>Maps filed by a key of their values\<close>

definition bt_filed :: "('v \<Rightarrow> 'k::linorder) \<Rightarrow> ('k, 'v) btree_map \<Rightarrow> bool" where
  "bt_filed key m \<longleftrightarrow> bt_wf m \<and> (\<forall>k v. bt_get m k = Some v \<longrightarrow> key v = k)"

lemma bt_filed_wf [simp, intro]: "bt_filed key m \<Longrightarrow> bt_wf m"
  by (simp add: bt_filed_def)

lemma bt_filed_key: "bt_filed key m \<Longrightarrow> bt_get m k = Some v \<Longrightarrow> key v = k"
  by (simp add: bt_filed_def)

lemma bt_filed_empty [simp, intro]: "bt_filed key []"
  by (simp add: bt_filed_def)

lemma bt_filed_insert [simp, intro]: "bt_filed key m \<Longrightarrow> bt_filed key (bt_insert (key v) v m)"
  by (auto simp: bt_filed_def)

lemma bt_filed_retain [simp, intro]: "bt_filed key m \<Longrightarrow> bt_filed key (bt_retain P m)"
  by (auto simp: bt_filed_def split: option.splits if_splits)

lemma bt_filed_extend [simp, intro]:
  "bt_filed key m \<Longrightarrow> bt_filed key (bt_extend key (\<lambda>x. x) m xs)"
  unfolding bt_extend_def by (induction xs arbitrary: m) simp_all

lemma bt_filed_collect [simp, intro]: "bt_filed key (bt_collect key xs)"
  by (simp add: bt_collect_def)

lemma bt_filed_values:
  "bt_filed key m \<Longrightarrow> v \<in> set (bt_values m) \<longleftrightarrow> bt_get m (key v) = Some v"
  by (auto simp: bt_filed_def bt.vals_iff)

end
