(* ===== verification/Core_Types.thy ===== *)
theory Core_Types
  imports BTree_Map
begin

text \<open>
  The vocabulary of \<^verbatim>\<open>bat-markets-core\<close>: \<^verbatim>\<open>types.rs\<close> (enumerations), \<^verbatim>\<open>ids.rs\<close> (string
  identifiers), \<^verbatim>\<open>primitives.rs\<close> (sequence numbers and timestamps) and \<^verbatim>\<open>error.rs\<close> (the
  error value and its builders).

  Where two enumerations share a constructor name it is written with its type, as in the
  source: \<open>OrderStatus.Rejected\<close>, \<open>CommandStatus.Rejected\<close>.  A field \<open>f\<close> of a struct is
  the record selector \<open>p_f\<close>, where \<open>p\<close> abbreviates the struct's name.
\<close>

section \<open>Enumerations\<close>

datatype Venue = Binance | Bybit | Mexc

datatype Product = LinearUsdt

datatype MarketType = LinearPerpetual

datatype Side = Buy | Sell

datatype AggressorSide = Buyer | Seller

datatype OrderType =
  Market | Limit | StopMarket | StopLimit | TakeProfitMarket | TakeProfitLimit

datatype TimeInForce = Gtc | Ioc | Fok | PostOnly

datatype MarginMode = Cross | Isolated

datatype PositionMode = OneWay | Hedge

datatype PositionDirection = Long | Short | Flat

datatype OrderStatus =
  New | PartiallyFilled | Filled | Canceled | Rejected | Expired | PendingCancel

datatype TriggerType = LastPrice | MarkPrice | IndexPrice

fun display_venue :: "Venue \<Rightarrow> string" where
  "display_venue Binance = ''binance''"
| "display_venue Bybit = ''bybit''"
| "display_venue Mexc = ''mexc''"

fun display_product :: "Product \<Rightarrow> string" where
  "display_product LinearUsdt = ''linear_usdt''"

section \<open>Identifiers\<close>

text \<open>
  The macro \<^verbatim>\<open>string_id!\<close> generates one wrapper type per identifier, all with the same
  operations and the derived lexicographic order.  Here it is one type with a phantom tag.
\<close>

datatype 'tag string_id = StringId (as_str: string)

datatype asset_tag = AssetTag
datatype instrument_tag = InstrumentTag
datatype order_tag = OrderTag
datatype client_order_tag = ClientOrderTag
datatype position_tag = PositionTag
datatype request_tag = RequestTag
datatype trade_tag = TradeTag

type_synonym AssetCode = "asset_tag string_id"
type_synonym InstrumentId = "instrument_tag string_id"
type_synonym OrderId = "order_tag string_id"
type_synonym ClientOrderId = "client_order_tag string_id"
type_synonym PositionId = "position_tag string_id"
type_synonym RequestId = "request_tag string_id"
type_synonym TradeId = "trade_tag string_id"

instantiation string_id :: (type) linorder
begin

definition less_eq_string_id :: "'a string_id \<Rightarrow> 'a string_id \<Rightarrow> bool" where
  "less_eq_string_id a b \<longleftrightarrow> as_str a \<le> as_str b"

definition less_string_id :: "'a string_id \<Rightarrow> 'a string_id \<Rightarrow> bool" where
  "less_string_id a b \<longleftrightarrow> as_str a < as_str b"

instance
  by standard
    (auto simp: less_eq_string_id_def less_string_id_def intro: string_id.expand)

end

lemma StringId_less [simp]: "StringId a < StringId b \<longleftrightarrow> a < b"
  by (simp add: less_string_id_def)

lemma StringId_less_eq [simp]: "StringId a \<le> StringId b \<longleftrightarrow> a \<le> b"
  by (simp add: less_eq_string_id_def)

section \<open>Primitives\<close>

datatype SequenceNumber = SequenceNumber (sequence_value: u64)

datatype TimestampMs = TimestampMs (timestamp_value: i64)

instantiation TimestampMs :: linorder
begin

definition less_eq_TimestampMs :: "TimestampMs \<Rightarrow> TimestampMs \<Rightarrow> bool" where
  "less_eq_TimestampMs a b \<longleftrightarrow> timestamp_value a \<le> timestamp_value b"

definition less_TimestampMs :: "TimestampMs \<Rightarrow> TimestampMs \<Rightarrow> bool" where
  "less_TimestampMs a b \<longleftrightarrow> timestamp_value a < timestamp_value b"

instance
  by standard
    (auto simp: less_eq_TimestampMs_def less_TimestampMs_def intro: TimestampMs.expand)

end

text \<open>\<^verbatim>\<open>Iterator::max\<close> over timestamps: nothing for an empty iterator.\<close>

fun iter_max :: "('a::linorder) list \<Rightarrow> 'a option" where
  "iter_max [] = None"
| "iter_max (x # xs) = Some (foldl max x xs)"

fun iter_min :: "('a::linorder) list \<Rightarrow> 'a option" where
  "iter_min [] = None"
| "iter_min (x # xs) = Some (foldl min x xs)"

lemma foldl_max_ge: "\<forall>y\<in>set (x # xs). y \<le> foldl max x (xs :: 'a::linorder list)"
  by (induction xs arbitrary: x) (auto, meson dual_order.trans max.cobounded1,
      meson dual_order.trans max.cobounded2)

lemma foldl_max_in: "foldl max x (xs :: 'a::linorder list) \<in> set (x # xs)"
  by (induction xs arbitrary: x) (auto, metis max_def)

lemma foldl_min_le: "\<forall>y\<in>set (x # xs). foldl min x (xs :: 'a::linorder list) \<le> y"
  by (induction xs arbitrary: x) (auto, meson order_trans min.cobounded1,
      meson order_trans min.cobounded2)

lemma foldl_min_in: "foldl min x (xs :: 'a::linorder list) \<in> set (x # xs)"
  by (induction xs arbitrary: x) (auto, metis min_def)

lemma iter_max_Some: "iter_max xs = Some m \<longleftrightarrow> m \<in> set xs \<and> (\<forall>x\<in>set xs. x \<le> m)"
proof (cases xs)
  case (Cons y ys)
  from foldl_max_ge [of y ys] foldl_max_in [of y ys] show ?thesis
    unfolding Cons iter_max.simps option.inject by (blast intro: order_antisym)
qed simp

lemma iter_min_Some: "iter_min xs = Some m \<longleftrightarrow> m \<in> set xs \<and> (\<forall>x\<in>set xs. m \<le> x)"
proof (cases xs)
  case (Cons y ys)
  from foldl_min_le [of y ys] foldl_min_in [of y ys] show ?thesis
    unfolding Cons iter_min.simps option.inject by (blast intro: order_antisym)
qed simp

lemma iter_max_None [simp]: "iter_max xs = None \<longleftrightarrow> xs = []"
  by (cases xs) simp_all

lemma iter_min_None [simp]: "iter_min xs = None \<longleftrightarrow> xs = []"
  by (cases xs) simp_all

section \<open>Errors\<close>

datatype ErrorKind =
    ConfigError | TransportError | Timeout | RateLimited | AuthError | PermissionDenied
  | Unsupported | DecodeError | ExchangeReject | UnknownExecution | StateDivergence
  | ComplianceRequired | TemporaryUnavailable

record ErrorContext =
  ec_venue :: "Venue option"
  ec_product :: "Product option"
  ec_operation :: "string option"
  ec_request_id :: "RequestId option"
  ec_native_code :: "string option"
  ec_retriable :: bool

record MarketError =
  me_kind :: ErrorKind
  me_message :: string
  me_context :: ErrorContext

definition error_context_default :: ErrorContext where
  "error_context_default =
     \<lparr>ec_venue = None, ec_product = None, ec_operation = None, ec_request_id = None,
      ec_native_code = None, ec_retriable = False\<rparr>"

definition market_error :: "ErrorKind \<Rightarrow> string \<Rightarrow> MarketError" where
  "market_error kind message =
     \<lparr>me_kind = kind, me_message = message, me_context = error_context_default\<rparr>"

definition with_venue :: "Venue \<Rightarrow> Product \<Rightarrow> MarketError \<Rightarrow> MarketError" where
  "with_venue v p e =
     e\<lparr>me_context := (me_context e)\<lparr>ec_venue := Some v, ec_product := Some p\<rparr>\<rparr>"

definition with_operation :: "string \<Rightarrow> MarketError \<Rightarrow> MarketError" where
  "with_operation op e = e\<lparr>me_context := (me_context e)\<lparr>ec_operation := Some op\<rparr>\<rparr>"

definition with_request_id :: "RequestId \<Rightarrow> MarketError \<Rightarrow> MarketError" where
  "with_request_id rid e = e\<lparr>me_context := (me_context e)\<lparr>ec_request_id := Some rid\<rparr>\<rparr>"

definition with_native_code :: "string \<Rightarrow> MarketError \<Rightarrow> MarketError" where
  "with_native_code code e = e\<lparr>me_context := (me_context e)\<lparr>ec_native_code := Some code\<rparr>\<rparr>"

definition with_retriable :: "bool \<Rightarrow> MarketError \<Rightarrow> MarketError" where
  "with_retriable b e = e\<lparr>me_context := (me_context e)\<lparr>ec_retriable := b\<rparr>\<rparr>"

lemmas error_builders [simp] =
  market_error_def with_venue_def with_operation_def with_request_id_def
  with_native_code_def with_retriable_def

text \<open>
  The result of a fallible call.  A panic (a decimal scale out of range, a failed
  \<^verbatim>\<open>expect\<close>) unwinds past the caller's error handling, so it is an outcome of its own.
\<close>

datatype Failure = Panicked | Failed MarketError

type_synonym 'a result = "Failure + 'a"

abbreviation Ok :: "'a \<Rightarrow> 'a result" where
  "Ok x \<equiv> Inr x"

abbreviation Err :: "MarketError \<Rightarrow> 'a result" where
  "Err e \<equiv> Inl (Failed e)"

abbreviation Panic :: "'a result" where
  "Panic \<equiv> Inl Panicked"

text \<open>The operator \<^verbatim>\<open>?\<close> of the source.\<close>

fun and_then :: "'a result \<Rightarrow> ('a \<Rightarrow> 'b result) \<Rightarrow> 'b result" where
  "and_then (Inl f) k = Inl f"
| "and_then (Inr x) k = k x"

fun map_result :: "('a \<Rightarrow> 'b) \<Rightarrow> 'a result \<Rightarrow> 'b result" where
  "map_result g (Inl f) = Inl f"
| "map_result g (Inr x) = Inr (g x)"

definition ok_or :: "MarketError \<Rightarrow> 'a option \<Rightarrow> 'a result" where
  "ok_or e x = (case x of None \<Rightarrow> Err e | Some v \<Rightarrow> Ok v)"

definition or_panic :: "'a option \<Rightarrow> 'a result" where
  "or_panic x = (case x of None \<Rightarrow> Panic | Some v \<Rightarrow> Ok v)"

lemma and_then_Ok_iff: "and_then r k = Ok y \<longleftrightarrow> (\<exists>x. r = Ok x \<and> k x = Ok y)"
  by (cases r) auto

lemma and_then_Err_iff: "and_then r k = Err e \<longleftrightarrow> r = Err e \<or> (\<exists>x. r = Ok x \<and> k x = Err e)"
  by (cases r) auto

lemma and_then_Panic_iff: "and_then r k = Panic \<longleftrightarrow> r = Panic \<or> (\<exists>x. r = Ok x \<and> k x = Panic)"
  by (cases r) auto

lemma ok_or_simps [simp]: "ok_or e None = Err e" "ok_or e (Some v) = Ok v"
  by (simp_all add: ok_or_def)

lemma or_panic_simps [simp]: "or_panic None = Panic" "or_panic (Some v) = Ok v"
  by (simp_all add: or_panic_def)

end
