(* ===== verification/Numeric.thy ===== *)
theory Numeric
  imports Core_Types
begin

text \<open>
  \<^verbatim>\<open>bat-markets-core/src/numeric.rs\<close>: the decimal wrappers of the public API, the quantized
  \<^verbatim>\<open>i64\<close> wrappers of the hot path, and the conversions between them.

  \<^verbatim>\<open>rust_decimal::Decimal\<close> is third-party code.  It is the type parameter \<open>'d\<close> together with
  the operations the source calls, passed as the record \<open>'d Decimal_ops\<close>.  \<open>None\<close> in the
  result of \<open>dec_new\<close> and \<open>dec_mul\<close> is the panic of \<^verbatim>\<open>Decimal::new\<close> (scale above 28) and of
  the operator \<^verbatim>\<open>*\<close> (overflow).  What the source relies on is the predicate \<open>decimal_laws\<close>.
\<close>

record 'd Decimal_ops =
  dec_new :: "i64 \<Rightarrow> u32 \<Rightarrow> 'd option"
  dec_rescale :: "'d \<Rightarrow> u32 \<Rightarrow> 'd"
  dec_mantissa :: "'d \<Rightarrow> int"
  dec_scale :: "'d \<Rightarrow> u32"
  dec_zero :: 'd
  dec_checked_add :: "'d \<Rightarrow> 'd \<Rightarrow> 'd option"
  dec_mul :: "'d \<Rightarrow> 'd \<Rightarrow> 'd option"
  dec_div :: "'d \<Rightarrow> 'd \<Rightarrow> 'd option"
  dec_less :: "'d \<Rightarrow> 'd \<Rightarrow> bool"
  dec_is_zero :: "'d \<Rightarrow> bool"
  dec_normalize :: "'d \<Rightarrow> 'd"
  dec_to_string :: "'d \<Rightarrow> string"
  dec_one :: 'd
  dec_abs :: "'d \<Rightarrow> 'd"
  dec_from_i64 :: "i64 \<Rightarrow> 'd"
  dec_parse :: "string \<Rightarrow> string + 'd"
  dec_parse_exact :: "string \<Rightarrow> string + 'd"

text \<open>
  The documented behaviour the quantization relies on: a number built from a mantissa and a
  scale of at most 28 has them; a larger scale panics; rescaling to a scale that is not
  smaller appends zeros as long as the mantissa stays within the 96 bits of the representation.
\<close>

definition decimal_laws :: "'d Decimal_ops \<Rightarrow> bool" where
  "decimal_laws D \<longleftrightarrow>
     (\<forall>m s. in_i64 m \<longrightarrow> s \<le> 28 \<longrightarrow>
        (\<exists>d. dec_new D m s = Some d \<and> dec_mantissa D d = m \<and> dec_scale D d = s)) \<and>
     (\<forall>m s. 28 < s \<longrightarrow> dec_new D m s = None) \<and>
     (\<forall>d s. dec_scale D d \<le> s \<longrightarrow> s \<le> 28 \<longrightarrow>
        \<bar>dec_mantissa D d\<bar> * 10 ^ (unat s - unat (dec_scale D d)) < 2 ^ 96 \<longrightarrow>
        dec_mantissa D (dec_rescale D d s) =
          dec_mantissa D d * 10 ^ (unat s - unat (dec_scale D d)) \<and>
        dec_scale D (dec_rescale D d s) = s)"

section \<open>Wrappers\<close>

text \<open>The macros \<^verbatim>\<open>decimal_value!\<close> and \<^verbatim>\<open>fast_value!\<close>, with a phantom tag per generated type.\<close>

datatype ('tag, 'd) decimal_value = DecimalValue (decimal: 'd)

datatype 'tag fast_value = FastValue (fast: i64)

datatype amount_tag = AmountTag
datatype price_tag = PriceTag
datatype quantity_tag = QuantityTag
datatype notional_tag = NotionalTag
datatype leverage_tag = LeverageTag
datatype rate_tag = RateTag

type_synonym 'd Amount = "(amount_tag, 'd) decimal_value"
type_synonym 'd Price = "(price_tag, 'd) decimal_value"
type_synonym 'd Quantity = "(quantity_tag, 'd) decimal_value"
type_synonym 'd Notional = "(notional_tag, 'd) decimal_value"
type_synonym 'd Leverage = "(leverage_tag, 'd) decimal_value"
type_synonym 'd Rate = "(rate_tag, 'd) decimal_value"
type_synonym FastPrice = "price_tag fast_value"
type_synonym FastQuantity = "quantity_tag fast_value"
type_synonym FastNotional = "notional_tag fast_value"

section \<open>Conversions\<close>

definition from_price_qty :: "'d Decimal_ops \<Rightarrow> 'd Price \<Rightarrow> 'd Quantity \<Rightarrow> 'd Notional option" where
  "from_price_qty D p q = map_option DecimalValue (dec_mul D (decimal p) (decimal q))"

definition quantize_decimal :: "'d Decimal_ops \<Rightarrow> 'd \<Rightarrow> u32 \<Rightarrow> i64 result" where
  "quantize_decimal D v scale =
     (let w = dec_rescale D v scale in
      if in_i64 (dec_mantissa D w) then Ok (dec_mantissa D w)
      else Err (market_error ConfigError
        (''value '' @ dec_to_string D w @ '' does not fit into fast-path i64 representation'')))"

definition price_quantize :: "'d Decimal_ops \<Rightarrow> 'd Price \<Rightarrow> u32 \<Rightarrow> FastPrice result" where
  "price_quantize D p scale = map_result FastValue (quantize_decimal D (decimal p) scale)"

definition quantity_quantize :: "'d Decimal_ops \<Rightarrow> 'd Quantity \<Rightarrow> u32 \<Rightarrow> FastQuantity result" where
  "quantity_quantize D q scale = map_result FastValue (quantize_decimal D (decimal q) scale)"

definition notional_quantize :: "'d Decimal_ops \<Rightarrow> 'd Notional \<Rightarrow> u32 \<Rightarrow> FastNotional result" where
  "notional_quantize D n scale = map_result FastValue (quantize_decimal D (decimal n) scale)"

definition to_price :: "'d Decimal_ops \<Rightarrow> FastPrice \<Rightarrow> u32 \<Rightarrow> 'd Price option" where
  "to_price D v scale = map_option DecimalValue (dec_new D (fast v) scale)"

definition to_quantity :: "'d Decimal_ops \<Rightarrow> FastQuantity \<Rightarrow> u32 \<Rightarrow> 'd Quantity option" where
  "to_quantity D v scale = map_option DecimalValue (dec_new D (fast v) scale)"

definition to_notional :: "'d Decimal_ops \<Rightarrow> FastNotional \<Rightarrow> u32 \<Rightarrow> 'd Notional option" where
  "to_notional D v scale = map_option DecimalValue (dec_new D (fast v) scale)"

section \<open>Laws of the conversions\<close>

lemma decimal_laws_new:
  "decimal_laws D \<Longrightarrow> in_i64 m \<Longrightarrow> s \<le> 28 \<Longrightarrow>
    \<exists>d. dec_new D m s = Some d \<and> dec_mantissa D d = m \<and> dec_scale D d = s"
  by (simp add: decimal_laws_def)

lemma decimal_laws_new_panics: "decimal_laws D \<Longrightarrow> 28 < s \<Longrightarrow> dec_new D m s = None"
  by (simp add: decimal_laws_def)

lemma decimal_laws_rescale:
  "decimal_laws D \<Longrightarrow> dec_scale D d \<le> s \<Longrightarrow> s \<le> 28 \<Longrightarrow>
    \<bar>dec_mantissa D d\<bar> * 10 ^ (unat s - unat (dec_scale D d)) < 2 ^ 96 \<Longrightarrow>
    dec_mantissa D (dec_rescale D d s) = dec_mantissa D d * 10 ^ (unat s - unat (dec_scale D d))"
  by (simp add: decimal_laws_def)

lemma in_i64_abs: "in_i64 m \<Longrightarrow> \<bar>m\<bar> \<le> 2 ^ 63"
  by (auto simp: in_i64_def i64_min_def i64_max_def)

lemma quantize_new:
  assumes "decimal_laws D" and "in_i64 m" and "s \<le> 28" and "dec_new D m s = Some d"
  shows "quantize_decimal D d s = Ok m"
proof -
  from decimal_laws_new [OF assms(1-3)] assms(4)
  have d: "dec_mantissa D d = m" "dec_scale D d = s" by auto
  have "\<bar>m\<bar> < 2 ^ 96" using in_i64_abs [OF assms(2)] by simp
  then have "dec_mantissa D (dec_rescale D d s) = m"
    using decimal_laws_rescale [OF assms(1), of d s] d assms(3) by simp
  then show ?thesis using assms(2) by (simp add: quantize_decimal_def)
qed

text \<open>
  A quantized price converts to a unified price and back without loss: for every \<^verbatim>\<open>i64\<close>
  value and every scale up to 28, \<^verbatim>\<open>FastPrice::to_price\<close> does not panic and
  \<^verbatim>\<open>Price::quantize\<close> at the same scale returns the value it started from.
\<close>

theorem price_quantize_roundtrip:
  assumes "decimal_laws D" and "in_i64 m" and "s \<le> 28"
  shows "\<exists>p. to_price D (FastValue m) s = Some p \<and> price_quantize D p s = Ok (FastValue m)"
proof -
  obtain d where d: "dec_new D m s = Some d"
    using decimal_laws_new [OF assms] by blast
  with quantize_new [OF assms d] show ?thesis
    by (simp add: to_price_def price_quantize_def)
qed

text \<open>
  Quantizing to a scale at least as fine as the number's own scale is exact: either the
  result is the same rational number (mantissa times the missing power of ten) or it lies
  outside \<^verbatim>\<open>i64\<close> and the call reports \<^verbatim>\<open>ConfigError\<close>; it is never rounded or wrapped.
\<close>

theorem quantize_exact_or_error:
  assumes "decimal_laws D" and "dec_scale D (decimal q) \<le> s" and "s \<le> 28"
    and "\<bar>dec_mantissa D (decimal q)\<bar> * 10 ^ (unat s - unat (dec_scale D (decimal q))) < 2 ^ 96"
  shows "let exact = dec_mantissa D (decimal q) * 10 ^ (unat s - unat (dec_scale D (decimal q))) in
    (in_i64 exact \<and> quantity_quantize D q s = Ok (FastValue exact)) \<or>
    (\<exists>e. me_kind e = ConfigError \<and> quantity_quantize D q s = Err e \<and> exact \<notin> {i64_min..i64_max})"
proof -
  let ?exact = "dec_mantissa D (decimal q) * 10 ^ (unat s - unat (dec_scale D (decimal q)))"
  have m: "dec_mantissa D (dec_rescale D (decimal q) s) = ?exact"
    by (rule decimal_laws_rescale [OF assms])
  show ?thesis
    by (cases "in_i64 ?exact")
      (auto simp: Let_def quantity_quantize_def quantize_decimal_def m in_i64_def)
qed

section \<open>A concrete decimal\<close>

text \<open>
  Mantissa and scale as a pair, used to evaluate the definitions on concrete inputs.
\<close>

definition pair_parse :: "string \<Rightarrow> string + int \<times> u32" where
  "pair_parse raw =
     (let body = (if raw \<noteq> [] \<and> hd raw = CHR ''-'' then tl raw else raw);
          whole = takeWhile (\<lambda>c. c \<noteq> CHR ''.'') body;
          frac = drop 1 (dropWhile (\<lambda>c. c \<noteq> CHR ''.'') body);
          value = int (read_nat (whole @ frac)) in
      if whole \<noteq> [] \<and> list_all (\<lambda>c. c \<in> set ''0123456789'') (whole @ frac) \<and> length frac \<le> 28
      then Inr (if raw \<noteq> body then - value else value, of_nat (length frac))
      else Inl ''Invalid decimal'')"

definition pair_decimal :: "(int \<times> u32) Decimal_ops" where
  "pair_decimal =
     \<lparr>dec_new = (\<lambda>m s. if s \<le> 28 then Some (m, s) else None),
      dec_rescale = (\<lambda>(m, s) t. if s \<le> t then (m * 10 ^ (unat t - unat s), t)
                                else (m div 10 ^ (unat s - unat t), t)),
      dec_mantissa = fst, dec_scale = snd, dec_zero = (0, 0),
      dec_checked_add = (\<lambda>(m, s) (n, t).
        Some (m * 10 ^ unat t + n * 10 ^ unat s, s + t)),
      dec_mul = (\<lambda>(m, s) (n, t). Some (m * n, s + t)),
      dec_div = (\<lambda>(m, s) (n, t). if n = 0 then None
        else Some (if 28 \<le> s then ((m * 10 ^ unat t) div n, s) else ((m * 10 ^ (unat t + 1)) div n, s + 1))),
      dec_less = (\<lambda>(m, s) (n, t). m * 10 ^ unat t < n * 10 ^ unat s),
      dec_is_zero = (\<lambda>(m, s). m = 0), dec_normalize = id,
      dec_to_string = (\<lambda>(m, s). show_int m @ ''e-'' @ show_nat (unat s)),
      dec_one = (1, 0), dec_abs = (\<lambda>(m, s). (\<bar>m\<bar>, s)), dec_from_i64 = (\<lambda>m. (m, 0)),
      dec_parse = pair_parse, dec_parse_exact = pair_parse\<rparr>"

lemma decimal_laws_pair: "decimal_laws pair_decimal"
  by (auto simp: decimal_laws_def pair_decimal_def)

theorem price_quantize_roundtrip_witness:
  "\<exists>p. to_price pair_decimal (FastValue 7000050) 2 = Some p \<and>
       price_quantize pair_decimal p 2 = Ok (FastValue 7000050)"
  by (rule price_quantize_roundtrip)
    (simp_all add: decimal_laws_pair in_i64_def i64_min_def i64_max_def)

theorem quantize_exact_or_error_witness:
  "let exact = dec_mantissa pair_decimal (5, 1) * 10 ^ (unat (3 :: u32) - unat (dec_scale pair_decimal (5, 1))) in
    (in_i64 exact \<and> quantity_quantize pair_decimal (DecimalValue (5, 1)) 3 = Ok (FastValue exact)) \<or>
    (\<exists>e. me_kind e = ConfigError \<and>
         quantity_quantize pair_decimal (DecimalValue (5, 1)) 3 = Err e \<and> exact \<notin> {i64_min..i64_max})"
  using quantize_exact_or_error [of pair_decimal "DecimalValue (5, 1)" 3, OF decimal_laws_pair]
  by (simp add: pair_decimal_def)

end
