(* ===== verification/Instrument.thy ===== *)
theory Instrument
  imports Numeric
begin

text \<open>
  \<^verbatim>\<open>instrument.rs\<close> (the instrument specification and its fast-value conversions) and
  \<^verbatim>\<open>catalog.rs\<close> (the two-way index the adapters resolve symbols with).
\<close>

datatype InstrumentStatus = Active | Halted | Settled

record InstrumentSupport =
  sup_public_streams :: bool
  sup_private_trading :: bool
  sup_leverage_set :: bool
  sup_margin_mode_set :: bool
  sup_funding_rate :: bool
  sup_open_interest :: bool

record 'd InstrumentSpec =
  is_venue :: Venue
  is_product :: Product
  is_market_type :: MarketType
  is_instrument_id :: InstrumentId
  is_canonical_symbol :: string
  is_native_symbol :: string
  is_base :: AssetCode
  is_quote :: AssetCode
  is_settle :: AssetCode
  is_contract_size :: "'d Quantity"
  is_tick_size :: "'d Price"
  is_step_size :: "'d Quantity"
  is_min_qty :: "'d Quantity"
  is_min_notional :: "'d Notional"
  is_price_scale :: u32
  is_qty_scale :: u32
  is_quote_scale :: u32
  is_max_leverage :: "'d Leverage option"
  is_support :: InstrumentSupport
  is_status :: InstrumentStatus

definition price_from_fast :: "'d Decimal_ops \<Rightarrow> 'd InstrumentSpec \<Rightarrow> FastPrice \<Rightarrow> 'd Price option" where
  "price_from_fast D spec v = to_price D v (is_price_scale spec)"

definition quantity_from_fast :: "'d Decimal_ops \<Rightarrow> 'd InstrumentSpec \<Rightarrow> FastQuantity \<Rightarrow> 'd Quantity option" where
  "quantity_from_fast D spec v = to_quantity D v (is_qty_scale spec)"

definition matches_native_symbol :: "'d InstrumentSpec \<Rightarrow> string \<Rightarrow> bool" where
  "matches_native_symbol spec symbol \<longleftrightarrow> is_native_symbol spec = symbol"

text \<open>A specification whose three scales \<^verbatim>\<open>Decimal::new\<close> accepts.\<close>

definition scales_ok :: "'d InstrumentSpec \<Rightarrow> bool" where
  "scales_ok spec \<longleftrightarrow> is_price_scale spec \<le> 28 \<and> is_qty_scale spec \<le> 28 \<and> is_quote_scale spec \<le> 28"

lemma from_fast_defined:
  assumes "decimal_laws D" and "in_i64 (fast v)" and "scales_ok spec"
  shows "\<exists>p. price_from_fast D spec v = Some p"
  using decimal_laws_new [OF assms(1,2), of "is_price_scale spec"] assms(3)
  by (auto simp: price_from_fast_def to_price_def scales_ok_def)

lemma quantity_from_fast_defined:
  assumes "decimal_laws D" and "in_i64 (fast v)" and "scales_ok spec"
  shows "\<exists>p. quantity_from_fast D spec v = Some p"
  using decimal_laws_new [OF assms(1,2), of "is_qty_scale spec"] assms(3)
  by (auto simp: quantity_from_fast_def to_quantity_def scales_ok_def)

lemma to_notional_defined:
  assumes "decimal_laws D" and "in_i64 (fast v)" and "scales_ok spec"
  shows "\<exists>p. to_notional D v (is_quote_scale spec) = Some p"
  using decimal_laws_new [OF assms(1,2), of "is_quote_scale spec"] assms(3)
  by (auto simp: to_notional_def scales_ok_def)

section \<open>The catalog\<close>

record 'd InstrumentCatalog =
  cat_by_id :: "(InstrumentId, 'd InstrumentSpec) btree_map"
  cat_by_native_symbol :: "(string, InstrumentId) btree_map"

definition catalog_add :: "'d InstrumentCatalog \<Rightarrow> 'd InstrumentSpec \<Rightarrow> 'd InstrumentCatalog" where
  "catalog_add c spec =
     c\<lparr>cat_by_native_symbol := bt_insert (is_native_symbol spec) (is_instrument_id spec) (cat_by_native_symbol c),
       cat_by_id := bt_insert (is_instrument_id spec) spec (cat_by_id c)\<rparr>"

definition catalog_new :: "'d InstrumentSpec list \<Rightarrow> 'd InstrumentCatalog" where
  "catalog_new specs = foldl catalog_add \<lparr>cat_by_id = [], cat_by_native_symbol = []\<rparr> specs"

definition catalog_replace :: "'d InstrumentCatalog \<Rightarrow> 'd InstrumentSpec list \<Rightarrow> 'd InstrumentCatalog" where
  "catalog_replace c specs = catalog_new specs"

definition catalog_all :: "'d InstrumentCatalog \<Rightarrow> 'd InstrumentSpec list" where
  "catalog_all c = bt_values (cat_by_id c)"

definition catalog_get :: "'d InstrumentCatalog \<Rightarrow> InstrumentId \<Rightarrow> 'd InstrumentSpec option" where
  "catalog_get c iid = bt_get (cat_by_id c) iid"

definition by_native_symbol :: "'d InstrumentCatalog \<Rightarrow> string \<Rightarrow> 'd InstrumentSpec option" where
  "by_native_symbol c symbol = Option.bind (bt_get (cat_by_native_symbol c) symbol) (catalog_get c)"

text \<open>
  Well-formed catalogs: both indexes are ordered maps, a specification is filed under its own
  identifier, and every native symbol points at a known instrument.
\<close>

definition catalog_wf :: "'d InstrumentCatalog \<Rightarrow> bool" where
  "catalog_wf c \<longleftrightarrow> bt_wf (cat_by_id c) \<and> bt_wf (cat_by_native_symbol c) \<and>
     (\<forall>iid spec. catalog_get c iid = Some spec \<longrightarrow> is_instrument_id spec = iid) \<and>
     (\<forall>symbol iid. bt_get (cat_by_native_symbol c) symbol = Some iid \<longrightarrow> bt_contains (cat_by_id c) iid)"

lemma catalog_add_wf: "catalog_wf c \<Longrightarrow> catalog_wf (catalog_add c spec)"
  by (auto simp: catalog_wf_def catalog_add_def catalog_get_def bt_contains_def)

interpretation catalog: reactive_machine catalog_add catalog_wf
  by unfold_locales (rule catalog_add_wf)

lemma catalog_new_wf: "catalog_wf (catalog_new specs)"
  unfolding catalog_new_def
  by (rule catalog.run_keeps) (simp add: catalog_wf_def catalog_get_def)

lemma catalog_new_indexes:
  "cat_by_id (catalog_new specs) = bt_collect is_instrument_id specs \<and>
   cat_by_native_symbol (catalog_new specs) = bt_extend is_native_symbol is_instrument_id [] specs"
  unfolding catalog_new_def bt_collect_def bt_extend_def
  by (induction specs rule: rev_induct) (simp_all add: catalog_add_def)

lemma catalog_get_new:
  "catalog_get (catalog_new specs) iid = find (\<lambda>s. is_instrument_id s = iid) (rev specs)"
  by (simp add: catalog_get_def catalog_new_indexes bt_get_collect)

lemma native_index_new:
  "bt_get (cat_by_native_symbol (catalog_new specs)) symbol =
    map_option is_instrument_id (find (\<lambda>s. is_native_symbol s = symbol) (rev specs))"
  by (simp add: catalog_new_indexes bt_get_extend split: option.splits)

text \<open>
  The catalog resolves every instrument it was built from, by identifier and by native
  symbol, when neither repeats; \<^verbatim>\<open>all\<close> lists exactly those instruments, in ascending order
  of their identifiers.
\<close>

theorem catalog_resolves:
  assumes "distinct (map is_instrument_id specs)" and "distinct (map is_native_symbol specs)"
    and "spec \<in> set specs"
  shows "catalog_get (catalog_new specs) (is_instrument_id spec) = Some spec \<and>
    by_native_symbol (catalog_new specs) (is_native_symbol spec) = Some spec \<and>
    set (catalog_all (catalog_new specs)) = set specs \<and>
    sorted_wrt (<) (map is_instrument_id (catalog_all (catalog_new specs)))"
proof (intro conjI)
  let ?m = "cat_by_id (catalog_new specs)"
  have get: "catalog_get (catalog_new specs) (is_instrument_id s) = Some s" if "s \<in> set specs" for s
    using that assms(1) by (simp add: catalog_get_new find_rev_distinct)
  from assms(3) show "catalog_get (catalog_new specs) (is_instrument_id spec) = Some spec"
    by (rule get)
  with assms show "by_native_symbol (catalog_new specs) (is_native_symbol spec) = Some spec"
    by (simp add: by_native_symbol_def native_index_new find_rev_distinct)
  have wf: "bt_wf ?m" and own: "bt_get ?m iid = Some s \<Longrightarrow> is_instrument_id s = iid" for iid s
    using catalog_new_wf [of specs] by (simp_all add: catalog_wf_def catalog_get_def)
  have "bt_get ?m iid = Some s \<Longrightarrow> s \<in> set specs" for iid s
    using catalog_get_new [of specs iid] find_SomeD [of _ "rev specs" s]
    by (fastforce simp: catalog_get_def)
  then show "set (catalog_all (catalog_new specs)) = set specs"
    using get by (force simp: catalog_all_def catalog_get_def bt.vals_iff [OF wf])
  have "map is_instrument_id (bt_values ?m) = bt_keys ?m"
    using own by (auto simp: bt.vals_keys [OF wf] bt.keys_dom [OF wf] intro!: map_idI)
  then show "sorted_wrt (<) (map is_instrument_id (catalog_all (catalog_new specs)))"
    using bt.keys_sorted [OF wf] by (simp add: catalog_all_def)
qed

definition sample_spec :: "string \<Rightarrow> string \<Rightarrow> (int \<times> u32) InstrumentSpec" where
  "sample_spec iid symbol =
     \<lparr>is_venue = Binance, is_product = LinearUsdt, is_market_type = LinearPerpetual,
      is_instrument_id = StringId iid, is_canonical_symbol = iid, is_native_symbol = symbol,
      is_base = StringId ''BTC'', is_quote = StringId ''USDT'', is_settle = StringId ''USDT'',
      is_contract_size = DecimalValue (1, 0), is_tick_size = DecimalValue (1, 2),
      is_step_size = DecimalValue (1, 3), is_min_qty = DecimalValue (1, 3),
      is_min_notional = DecimalValue (5, 0), is_price_scale = 2, is_qty_scale = 3,
      is_quote_scale = 2, is_max_leverage = None,
      is_support = \<lparr>sup_public_streams = True, sup_private_trading = True,
        sup_leverage_set = True, sup_margin_mode_set = True, sup_funding_rate = True,
        sup_open_interest = True\<rparr>,
      is_status = Active\<rparr>"

lemma sample_spec_simps [simp]:
  "is_instrument_id (sample_spec iid symbol) = StringId iid"
  "is_native_symbol (sample_spec iid symbol) = symbol"
  "scales_ok (sample_spec iid symbol)"
  "is_price_scale (sample_spec iid symbol) = 2" "is_qty_scale (sample_spec iid symbol) = 3"
  by (simp_all add: sample_spec_def scales_ok_def)

theorem catalog_resolves_witness:
  "let specs = [sample_spec ''ETH/USDT:USDT'' ''ETHUSDT'', sample_spec ''BTC/USDT:USDT'' ''BTCUSDT''] in
   by_native_symbol (catalog_new specs) ''BTCUSDT'' = Some (sample_spec ''BTC/USDT:USDT'' ''BTCUSDT'') \<and>
   sorted_wrt (<) (map is_instrument_id (catalog_all (catalog_new specs)))"
  using catalog_resolves
    [of "[sample_spec ''ETH/USDT:USDT'' ''ETHUSDT'', sample_spec ''BTC/USDT:USDT'' ''BTCUSDT'']"
        "sample_spec ''BTC/USDT:USDT'' ''BTCUSDT''"]
  by (simp add: Let_def)

end
