(* ===== verification/Market.thy ===== *)
theory Market
  imports Instrument "HOL-Library.Monad_Syntax"
begin

text \<open>
  \<^verbatim>\<open>bat-markets-core/src/market.rs\<close>: the quantized ("fast") market-data snapshots of the hot
  path, the unified snapshots they convert to, the candle intervals, and the validated
  request types of the public reads.

  The conversions call \<^verbatim>\<open>Decimal::new\<close>, so each returns \<open>None\<close> where that call panics.  The
  calendar functions of the third-party crate \<^verbatim>\<open>time\<close> are the parameter \<open>Time_ops\<close>.
\<close>

section \<open>Fast snapshots\<close>

record FastTicker =
  ft_instrument_id :: InstrumentId
  ft_last_price :: FastPrice
  ft_mark_price :: "FastPrice option"
  ft_index_price :: "FastPrice option"
  ft_volume_24h :: "FastQuantity option"
  ft_turnover_24h :: "FastNotional option"
  ft_event_time :: TimestampMs

record FastTrade =
  ftr_instrument_id :: InstrumentId
  ftr_trade_id :: TradeId
  ftr_price :: FastPrice
  ftr_quantity :: FastQuantity
  ftr_aggressor_side :: AggressorSide
  ftr_event_time :: TimestampMs

record FastBookTop =
  fbt_instrument_id :: InstrumentId
  fbt_bid_price :: FastPrice
  fbt_bid_quantity :: FastQuantity
  fbt_ask_price :: FastPrice
  fbt_ask_quantity :: FastQuantity
  fbt_event_time :: TimestampMs

record FastOrderBookDelta =
  fob_instrument_id :: InstrumentId
  fob_bids :: "(FastPrice \<times> FastQuantity) list"
  fob_asks :: "(FastPrice \<times> FastQuantity) list"
  fob_event_time :: TimestampMs

record FastKline =
  fk_instrument_id :: InstrumentId
  fk_interval :: string
  fk_open :: FastPrice
  fk_high :: FastPrice
  fk_low :: FastPrice
  fk_close :: FastPrice
  fk_volume :: FastQuantity
  fk_open_time :: TimestampMs
  fk_close_time :: TimestampMs
  fk_closed :: bool

record 'd FastMarkPrice =
  fmp_instrument_id :: InstrumentId
  fmp_price :: FastPrice
  fmp_funding_rate :: "'d Rate option"
  fmp_event_time :: TimestampMs

record 'd FastFundingRate =
  ffr_instrument_id :: InstrumentId
  ffr_value :: "'d Rate"
  ffr_mark_price :: "FastPrice option"
  ffr_event_time :: TimestampMs

record FastLiquidation =
  fl_instrument_id :: InstrumentId
  fl_side :: Side
  fl_price :: FastPrice
  fl_quantity :: FastQuantity
  fl_event_time :: TimestampMs

section \<open>Unified snapshots\<close>

record 'd Ticker =
  tk_instrument_id :: InstrumentId
  tk_last_price :: "'d Price"
  tk_mark_price :: "'d Price option"
  tk_index_price :: "'d Price option"
  tk_volume_24h :: "'d Quantity option"
  tk_turnover_24h :: "'d Notional option"
  tk_event_time :: TimestampMs

record 'd TradeTick =
  tt_instrument_id :: InstrumentId
  tt_trade_id :: TradeId
  tt_price :: "'d Price"
  tt_quantity :: "'d Quantity"
  tt_aggressor_side :: AggressorSide
  tt_event_time :: TimestampMs

record 'd BookLevel =
  bl_price :: "'d Price"
  bl_quantity :: "'d Quantity"

record 'd OrderBookLevel =
  obl_price :: "'d Price"
  obl_quantity :: "'d Quantity"

record 'd BookTop =
  bk_instrument_id :: InstrumentId
  bk_bid :: "'d BookLevel"
  bk_ask :: "'d BookLevel"
  bk_event_time :: TimestampMs

record 'd BookDelta =
  bd_instrument_id :: InstrumentId
  bd_bids :: "'d BookLevel list"
  bd_asks :: "'d BookLevel list"
  bd_event_time :: TimestampMs

record 'd OrderBookSnapshot =
  obs_instrument_id :: InstrumentId
  obs_bids :: "'d OrderBookLevel list"
  obs_asks :: "'d OrderBookLevel list"
  obs_event_time :: TimestampMs

record 'd OrderBookDelta =
  obd_instrument_id :: InstrumentId
  obd_bids :: "'d OrderBookLevel list"
  obd_asks :: "'d OrderBookLevel list"
  obd_event_time :: TimestampMs

record 'd Kline =
  kl_instrument_id :: InstrumentId
  kl_interval :: string
  kl_open :: "'d Price"
  kl_high :: "'d Price"
  kl_low :: "'d Price"
  kl_close :: "'d Price"
  kl_volume :: "'d Quantity"
  kl_open_time :: TimestampMs
  kl_close_time :: TimestampMs
  kl_closed :: bool

record 'd MarkPrice =
  mp_instrument_id :: InstrumentId
  mp_price :: "'d Price"
  mp_funding_rate :: "'d Rate option"
  mp_event_time :: TimestampMs

record 'd Liquidation =
  lq_instrument_id :: InstrumentId
  lq_side :: Side
  lq_price :: "'d Price"
  lq_quantity :: "'d Quantity"
  lq_event_time :: TimestampMs

record 'd FundingRate =
  fr_instrument_id :: InstrumentId
  fr_value :: "'d Rate"
  fr_mark_price :: "'d Price option"
  fr_event_time :: TimestampMs

record 'd OpenInterest =
  oi_instrument_id :: InstrumentId
  oi_value :: "'d Quantity"
  oi_event_time :: TimestampMs

section \<open>Conversions to the unified snapshots\<close>

definition opt_try :: "('a \<Rightarrow> 'b option) \<Rightarrow> 'a option \<Rightarrow> 'b option option" where
  "opt_try f x = (case x of None \<Rightarrow> Some None | Some v \<Rightarrow> map_option Some (f v))"

definition ticker_to_unified :: "'d Decimal_ops \<Rightarrow> 'd InstrumentSpec \<Rightarrow> FastTicker \<Rightarrow> 'd Ticker option" where
  "ticker_to_unified D spec t = do {
     last_price \<leftarrow> price_from_fast D spec (ft_last_price t);
     mark \<leftarrow> opt_try (price_from_fast D spec) (ft_mark_price t);
     index \<leftarrow> opt_try (price_from_fast D spec) (ft_index_price t);
     volume \<leftarrow> opt_try (quantity_from_fast D spec) (ft_volume_24h t);
     turnover \<leftarrow> opt_try (\<lambda>v. to_notional D v (is_quote_scale spec)) (ft_turnover_24h t);
     Some \<lparr>tk_instrument_id = ft_instrument_id t, tk_last_price = last_price, tk_mark_price = mark,
           tk_index_price = index, tk_volume_24h = volume, tk_turnover_24h = turnover,
           tk_event_time = ft_event_time t\<rparr> }"

definition trade_to_unified :: "'d Decimal_ops \<Rightarrow> 'd InstrumentSpec \<Rightarrow> FastTrade \<Rightarrow> 'd TradeTick option" where
  "trade_to_unified D spec t = do {
     p \<leftarrow> price_from_fast D spec (ftr_price t);
     q \<leftarrow> quantity_from_fast D spec (ftr_quantity t);
     Some \<lparr>tt_instrument_id = ftr_instrument_id t, tt_trade_id = ftr_trade_id t, tt_price = p,
           tt_quantity = q, tt_aggressor_side = ftr_aggressor_side t,
           tt_event_time = ftr_event_time t\<rparr> }"

definition book_top_to_unified :: "'d Decimal_ops \<Rightarrow> 'd InstrumentSpec \<Rightarrow> FastBookTop \<Rightarrow> 'd BookTop option" where
  "book_top_to_unified D spec b = do {
     bp \<leftarrow> price_from_fast D spec (fbt_bid_price b);
     bq \<leftarrow> quantity_from_fast D spec (fbt_bid_quantity b);
     ap \<leftarrow> price_from_fast D spec (fbt_ask_price b);
     aq \<leftarrow> quantity_from_fast D spec (fbt_ask_quantity b);
     Some \<lparr>bk_instrument_id = fbt_instrument_id b,
           bk_bid = \<lparr>bl_price = bp, bl_quantity = bq\<rparr>,
           bk_ask = \<lparr>bl_price = ap, bl_quantity = aq\<rparr>,
           bk_event_time = fbt_event_time b\<rparr> }"

definition level_to_unified ::
  "'d Decimal_ops \<Rightarrow> 'd InstrumentSpec \<Rightarrow> FastPrice \<times> FastQuantity \<Rightarrow> 'd OrderBookLevel option" where
  "level_to_unified D spec lvl = do {
     p \<leftarrow> price_from_fast D spec (fst lvl);
     q \<leftarrow> quantity_from_fast D spec (snd lvl);
     Some \<lparr>obl_price = p, obl_quantity = q\<rparr> }"

definition order_book_to_unified ::
  "'d Decimal_ops \<Rightarrow> 'd InstrumentSpec \<Rightarrow> FastOrderBookDelta \<Rightarrow> 'd OrderBookDelta option" where
  "order_book_to_unified D spec b = do {
     bids \<leftarrow> those (map (level_to_unified D spec) (fob_bids b));
     asks \<leftarrow> those (map (level_to_unified D spec) (fob_asks b));
     Some \<lparr>obd_instrument_id = fob_instrument_id b, obd_bids = bids, obd_asks = asks,
           obd_event_time = fob_event_time b\<rparr> }"

definition kline_to_unified :: "'d Decimal_ops \<Rightarrow> 'd InstrumentSpec \<Rightarrow> FastKline \<Rightarrow> 'd Kline option" where
  "kline_to_unified D spec k = do {
     op \<leftarrow> price_from_fast D spec (fk_open k);
     hi \<leftarrow> price_from_fast D spec (fk_high k);
     lo \<leftarrow> price_from_fast D spec (fk_low k);
     cl \<leftarrow> price_from_fast D spec (fk_close k);
     vol \<leftarrow> quantity_from_fast D spec (fk_volume k);
     Some \<lparr>kl_instrument_id = fk_instrument_id k, kl_interval = fk_interval k, kl_open = op,
           kl_high = hi, kl_low = lo, kl_close = cl, kl_volume = vol,
           kl_open_time = fk_open_time k, kl_close_time = fk_close_time k,
           kl_closed = fk_closed k\<rparr> }"

definition mark_price_to_unified ::
  "'d Decimal_ops \<Rightarrow> 'd InstrumentSpec \<Rightarrow> 'd FastMarkPrice \<Rightarrow> 'd MarkPrice option" where
  "mark_price_to_unified D spec m = do {
     p \<leftarrow> price_from_fast D spec (fmp_price m);
     Some \<lparr>mp_instrument_id = fmp_instrument_id m, mp_price = p,
           mp_funding_rate = fmp_funding_rate m, mp_event_time = fmp_event_time m\<rparr> }"

definition funding_rate_to_unified ::
  "'d Decimal_ops \<Rightarrow> 'd InstrumentSpec \<Rightarrow> 'd FastFundingRate \<Rightarrow> 'd FundingRate option" where
  "funding_rate_to_unified D spec f = do {
     mark \<leftarrow> opt_try (price_from_fast D spec) (ffr_mark_price f);
     Some \<lparr>fr_instrument_id = ffr_instrument_id f, fr_value = ffr_value f, fr_mark_price = mark,
           fr_event_time = ffr_event_time f\<rparr> }"

definition liquidation_to_unified ::
  "'d Decimal_ops \<Rightarrow> 'd InstrumentSpec \<Rightarrow> FastLiquidation \<Rightarrow> 'd Liquidation option" where
  "liquidation_to_unified D spec l = do {
     p \<leftarrow> price_from_fast D spec (fl_price l);
     q \<leftarrow> quantity_from_fast D spec (fl_quantity l);
     Some \<lparr>lq_instrument_id = fl_instrument_id l, lq_side = fl_side l, lq_price = p,
           lq_quantity = q, lq_event_time = fl_event_time l\<rparr> }"

end
