(* ===== verification/Domain.thy ===== *)
theory Domain
  imports Market
begin

text \<open>
  The private-state and command vocabulary of the core crate: \<^verbatim>\<open>account.rs\<close>,
  \<^verbatim>\<open>position.rs\<close>, \<^verbatim>\<open>trade.rs\<close>, \<^verbatim>\<open>reconcile.rs\<close>, \<^verbatim>\<open>command.rs\<close> and \<^verbatim>\<open>execution.rs\<close> (the
  events of the three lanes).
\<close>

section \<open>Account and positions\<close>

record 'd Balance =
  bal_asset :: AssetCode
  bal_wallet_balance :: "'d Amount"
  bal_available_balance :: "'d Amount"
  bal_updated_at :: TimestampMs

record 'd AccountSummary =
  sum_total_wallet_balance :: "'d Amount"
  sum_total_available_balance :: "'d Amount"
  sum_total_unrealized_pnl :: "'d Amount"
  sum_updated_at :: TimestampMs

record 'd Position =
  pos_position_id :: PositionId
  pos_instrument_id :: InstrumentId
  pos_direction :: PositionDirection
  pos_size :: "'d Quantity"
  pos_entry_price :: "'d Price option"
  pos_mark_price :: "'d Price option"
  pos_unrealized_pnl :: "'d Amount option"
  pos_leverage :: "'d Leverage option"
  pos_margin_mode :: MarginMode
  pos_position_mode :: PositionMode
  pos_updated_at :: TimestampMs

section \<open>Orders and executions\<close>

record 'd Order =
  ord_order_id :: OrderId
  ord_client_order_id :: "ClientOrderId option"
  ord_instrument_id :: InstrumentId
  ord_side :: Side
  ord_order_type :: OrderType
  ord_time_in_force :: "TimeInForce option"
  ord_status :: OrderStatus
  ord_price :: "'d Price option"
  ord_quantity :: "'d Quantity"
  ord_filled_quantity :: "'d Quantity"
  ord_average_fill_price :: "'d Price option"
  ord_reduce_only :: bool
  ord_post_only :: bool
  ord_created_at :: TimestampMs
  ord_updated_at :: TimestampMs
  ord_venue_status :: "string option"

datatype Liquidity = Maker | Taker

record 'd Execution =
  exe_execution_id :: TradeId
  exe_order_id :: OrderId
  exe_client_order_id :: "ClientOrderId option"
  exe_instrument_id :: InstrumentId
  exe_side :: Side
  exe_quantity :: "'d Quantity"
  exe_price :: "'d Price"
  exe_fee :: "'d Amount option"
  exe_fee_asset :: "AssetCode option"
  exe_liquidity :: "Liquidity option"
  exe_executed_at :: TimestampMs

section \<open>Command requests\<close>

record 'd CreateOrderRequest =
  cr_request_id :: "RequestId option"
  cr_instrument_id :: InstrumentId
  cr_client_order_id :: "ClientOrderId option"
  cr_side :: Side
  cr_order_type :: OrderType
  cr_time_in_force :: "TimeInForce option"
  cr_quantity :: "'d Quantity"
  cr_price :: "'d Price option"
  cr_trigger_price :: "'d Price option"
  cr_trigger_type :: "TriggerType option"
  cr_reduce_only :: bool
  cr_post_only :: bool

record OrderTarget =
  ot_instrument_id :: InstrumentId
  ot_order_id :: "OrderId option"
  ot_client_order_id :: "ClientOrderId option"

record 'd CreateOrdersRequest =
  crs_request_id :: "RequestId option"
  crs_orders :: "'d CreateOrderRequest list"

record 'd AmendOrderRequest =
  am_request_id :: "RequestId option"
  am_instrument_id :: InstrumentId
  am_order_id :: "OrderId option"
  am_client_order_id :: "ClientOrderId option"
  am_quantity :: "'d Quantity option"
  am_price :: "'d Price option"
  am_trigger_price :: "'d Price option"

record 'd AmendOrdersRequest =
  ams_request_id :: "RequestId option"
  ams_orders :: "'d AmendOrderRequest list"

record CancelOrderRequest =
  co_request_id :: "RequestId option"
  co_instrument_id :: InstrumentId
  co_order_id :: "OrderId option"
  co_client_order_id :: "ClientOrderId option"

record CancelOrdersRequest =
  cos_request_id :: "RequestId option"
  cos_orders :: "OrderTarget list"

record CancelAllOrdersRequest =
  ca_request_id :: "RequestId option"
  ca_instrument_id :: "InstrumentId option"

record GetOrderRequest =
  go_request_id :: "RequestId option"
  go_instrument_id :: InstrumentId
  go_order_id :: "OrderId option"
  go_client_order_id :: "ClientOrderId option"

record ListOpenOrdersRequest =
  lo_instrument_id :: "InstrumentId option"

record ListExecutionsRequest =
  le_instrument_id :: "InstrumentId option"
  le_limit :: "usize option"

record 'd SetLeverageRequest =
  sl_request_id :: "RequestId option"
  sl_instrument_id :: InstrumentId
  sl_leverage :: "'d Leverage"

record SetMarginModeRequest =
  sm_request_id :: "RequestId option"
  sm_instrument_id :: InstrumentId
  sm_margin_mode :: MarginMode

record 'd ClosePositionRequest =
  cp_request_id :: "RequestId option"
  cp_instrument_id :: InstrumentId
  cp_quantity :: "'d Quantity option"
  cp_client_order_id :: "ClientOrderId option"
  cp_price :: "'d Price option"
  cp_time_in_force :: "TimeInForce option"
  cp_post_only :: bool

record 'd ValidateOrderRequest =
  vo_request_id :: "RequestId option"
  vo_order :: "'d CreateOrderRequest"

record SetPositionModeRequest =
  sp_request_id :: "RequestId option"
  sp_instrument_id :: "InstrumentId option"
  sp_position_mode :: PositionMode

section \<open>Reconciliation\<close>

datatype ReconcileTrigger = Manual | Reconnect | SequenceGap | UnknownExecution | Periodic

datatype ReconcileOutcome = Synchronized | StillUncertain | Diverged

record ReconcileReport =
  rep_trigger :: ReconcileTrigger
  rep_outcome :: ReconcileOutcome
  rep_repaired_at :: TimestampMs
  rep_note :: "string option"

record 'd AccountSnapshot =
  acc_balances :: "'d Balance list"
  acc_summary :: "'d AccountSummary option"

record 'd PrivateSnapshot =
  snap_account :: "'d AccountSnapshot option"
  snap_positions :: "'d Position list"
  snap_open_orders :: "'d Order list"

section \<open>Commands\<close>

datatype CommandOperation =
    CreateOrder | CreateOrders | AmendOrder | AmendOrders | CancelOrder | CancelOrders
  | CancelAllOrders | ClosePosition | ValidateOrder | GetOrder | SetLeverage | SetMarginMode
  | SetPositionMode

datatype CommandStatus = Accepted | Rejected | UnknownExecution

record CommandReceipt =
  rcp_operation :: CommandOperation
  rcp_status :: CommandStatus
  rcp_venue :: Venue
  rcp_product :: Product
  rcp_instrument_id :: "InstrumentId option"
  rcp_order_id :: "OrderId option"
  rcp_client_order_id :: "ClientOrderId option"
  rcp_request_id :: "RequestId option"
  rcp_message :: "string option"
  rcp_native_code :: "string option"
  rcp_retriable :: bool

datatype CommandTransport = Auto | Rest | WebSocket

record CommandAck =
  ack_receipt :: CommandReceipt
  ack_transport :: CommandTransport
  ack_acknowledged_at :: TimestampMs

datatype CommandLifecycleEvent =
    Ack CommandAck
  | Receipt CommandReceipt
  | RecoveryScheduled CommandAck
  | RecoveryCompleted CommandAck ReconcileReport

section \<open>Lanes\<close>

record LanePolicy =
  lp_lossless :: bool
  lp_coalescing_allowed :: bool
  lp_buffer_capacity :: usize
  lp_reconnect_required :: bool
  lp_idempotent :: bool

record LaneSet =
  ls_public :: LanePolicy
  ls_private :: LanePolicy
  ls_command :: LanePolicy

definition lane_set_defaults :: LaneSet where
  "lane_set_defaults =
     \<lparr>ls_public = \<lparr>lp_lossless = False, lp_coalescing_allowed = True, lp_buffer_capacity = 4096,
        lp_reconnect_required = True, lp_idempotent = False\<rparr>,
      ls_private = \<lparr>lp_lossless = True, lp_coalescing_allowed = False, lp_buffer_capacity = 8192,
        lp_reconnect_required = True, lp_idempotent = True\<rparr>,
      ls_command = \<lparr>lp_lossless = True, lp_coalescing_allowed = False, lp_buffer_capacity = 1024,
        lp_reconnect_required = True, lp_idempotent = True\<rparr>\<rparr>"

datatype DivergenceEvent =
    ReconcileRequired
  | StateDivergence
  | SequenceGap "SequenceNumber option"

datatype 'd PublicLaneEvent =
    Ticker FastTicker
  | Trade FastTrade
  | BookTop FastBookTop
  | OrderBookDelta FastOrderBookDelta
  | Kline FastKline
  | MarkPrice "'d FastMarkPrice"
  | FundingRate "'d FundingRate"
  | OpenInterest "'d OpenInterest"
  | Liquidation FastLiquidation
  | Divergence DivergenceEvent

datatype 'd PrivateLaneEvent =
    Balance "'d Balance"
  | Position "'d Position"
  | Order "'d Order"
  | Execution "'d Execution"
  | Divergence DivergenceEvent

datatype CommandLaneEvent =
    Receipt CommandReceipt
  | Lifecycle CommandLifecycleEvent

end
