(* ===== verification/Config.thy ===== *)
theory Config
  imports Core_Types
begin

text \<open>
  \<^verbatim>\<open>config.rs\<close> (the per-engine policies and the default endpoints of each venue) and
  \<^verbatim>\<open>capability.rs\<close> (what an adapter declares it can do).
\<close>

section \<open>Configuration\<close>

datatype AuthConfig =
    AuthNone
  | Env (api_key_var: string) (api_secret_var: string)
  | Inline (api_key: string) (api_secret: string)

record EndpointConfig =
  ep_rest_base :: string
  ep_public_ws_base :: string
  ep_private_ws_base :: string
  ep_command_ws_base :: string
  ep_sandbox :: bool

record HealthPolicy =
  hp_clock_skew_threshold_ms :: u64
  hp_snapshot_stale_after_ms :: u64
  hp_health_check_interval_ms :: u64
  hp_periodic_private_reconcile_ms :: "u64 option"
  hp_periodic_metadata_refresh_ms :: "u64 option"

record TimeoutPolicy =
  to_connect_ms :: u64
  to_request_ms :: u64
  to_command_ms :: u64
  to_ws_handshake_ms :: u64
  to_ws_idle_ms :: u64

record RateLimitPolicy =
  rl_command_burst :: u32
  rl_command_refill_per_second :: u32

record RetryPolicy =
  rp_rest_retries :: u32
  rp_rest_initial_backoff_ms :: u64
  rp_rest_max_backoff_ms :: u64

record ReconnectPolicy =
  rc_ws_initial_backoff_ms :: u64
  rc_ws_max_backoff_ms :: u64
  rc_max_reconnect_attempts :: "u32 option"
  rc_refresh_metadata_on_reconnect :: bool
  rc_reconcile_private_on_reconnect :: bool

record StatePolicy =
  st_recent_trade_capacity :: usize
  st_execution_capacity :: usize

record BatMarketsConfig =
  cfg_venue :: Venue
  cfg_product :: Product
  cfg_auth :: AuthConfig
  cfg_endpoints :: EndpointConfig
  cfg_health :: HealthPolicy
  cfg_timeouts :: TimeoutPolicy
  cfg_rate_limits :: RateLimitPolicy
  cfg_retry :: RetryPolicy
  cfg_reconnect :: ReconnectPolicy
  cfg_state :: StatePolicy

fun sandbox_defaults :: "Venue \<Rightarrow> EndpointConfig" where
  "sandbox_defaults Binance =
     \<lparr>ep_rest_base = ''https://demo-fapi.binance.com'',
      ep_public_ws_base = ''wss://stream.binancefuture.com/ws'',
      ep_private_ws_base = ''wss://stream.binancefuture.com/ws'',
      ep_command_ws_base = ''wss://testnet.binancefuture.com/ws-fapi/v1'',
      ep_sandbox = True\<rparr>"
| "sandbox_defaults Bybit =
     \<lparr>ep_rest_base = ''https://api-testnet.bybit.com'',
      ep_public_ws_base = ''wss://stream-testnet.bybit.com/v5/public/linear'',
      ep_private_ws_base = ''wss://stream-testnet.bybit.com/v5/private'',
      ep_command_ws_base = ''wss://stream-testnet.bybit.com/v5/trade'',
      ep_sandbox = True\<rparr>"
| "sandbox_defaults Mexc =
     \<lparr>ep_rest_base = ''https://contract.mexc.com'',
      ep_public_ws_base = ''wss://contract.mexc.com/edge'',
      ep_private_ws_base = ''wss://contract.mexc.com/edge'',
      ep_command_ws_base = ''wss://contract.mexc.com/edge'',
      ep_sandbox = False\<rparr>"

fun mainnet_defaults :: "Venue \<Rightarrow> EndpointConfig" where
  "mainnet_defaults Binance =
     \<lparr>ep_rest_base = ''https://fapi.binance.com'',
      ep_public_ws_base = ''wss://fstream.binance.com/market/ws'',
      ep_private_ws_base = ''wss://fstream.binance.com/ws'',
      ep_command_ws_base = ''wss://ws-fapi.binance.com/ws-fapi/v1'',
      ep_sandbox = False\<rparr>"
| "mainnet_defaults Bybit =
     \<lparr>ep_rest_base = ''https://api.bybit.com'',
      ep_public_ws_base = ''wss://stream.bybit.com/v5/public/linear'',
      ep_private_ws_base = ''wss://stream.bybit.com/v5/private'',
      ep_command_ws_base = ''wss://stream.bybit.com/v5/trade'',
      ep_sandbox = False\<rparr>"
| "mainnet_defaults Mexc =
     \<lparr>ep_rest_base = ''https://contract.mexc.com'',
      ep_public_ws_base = ''wss://contract.mexc.com/edge'',
      ep_private_ws_base = ''wss://contract.mexc.com/edge'',
      ep_command_ws_base = ''wss://contract.mexc.com/edge'',
      ep_sandbox = False\<rparr>"

definition config_new :: "Venue \<Rightarrow> Product \<Rightarrow> BatMarketsConfig" where
  "config_new venue product =
     \<lparr>cfg_venue = venue, cfg_product = product, cfg_auth = AuthNone,
      cfg_endpoints = sandbox_defaults venue,
      cfg_health = \<lparr>hp_clock_skew_threshold_ms = 250, hp_snapshot_stale_after_ms = 5000,
        hp_health_check_interval_ms = 1000, hp_periodic_private_reconcile_ms = Some 15000,
        hp_periodic_metadata_refresh_ms = Some 300000\<rparr>,
      cfg_timeouts = \<lparr>to_connect_ms = 2000, to_request_ms = 5000, to_command_ms = 7500,
        to_ws_handshake_ms = 10000, to_ws_idle_ms = 30000\<rparr>,
      cfg_rate_limits =
        (case venue of
           Mexc \<Rightarrow> \<lparr>rl_command_burst = 20, rl_command_refill_per_second = 10\<rparr>
         | _ \<Rightarrow> \<lparr>rl_command_burst = 8, rl_command_refill_per_second = 4\<rparr>),
      cfg_retry = \<lparr>rp_rest_retries = 2, rp_rest_initial_backoff_ms = 100,
        rp_rest_max_backoff_ms = 1000\<rparr>,
      cfg_reconnect = \<lparr>rc_ws_initial_backoff_ms = 250, rc_ws_max_backoff_ms = 5000,
        rc_max_reconnect_attempts = None, rc_refresh_metadata_on_reconnect = True,
        rc_reconcile_private_on_reconnect = True\<rparr>,
      cfg_state = \<lparr>st_recent_trade_capacity = 128, st_execution_capacity = 1024\<rparr>\<rparr>"

section \<open>Capabilities\<close>

record MarketCapabilities =
  mc_ticker :: bool
  mc_recent_trades :: bool
  mc_book_top :: bool
  mc_order_book :: bool
  mc_klines :: bool
  mc_mark_price :: bool
  mc_funding_rate :: bool
  mc_open_interest :: bool
  mc_liquidations :: bool
  mc_public_streams :: bool
  mc_multi_symbol_streams :: bool

record TradeCapabilities =
  tc_create :: bool
  tc_batch_create :: bool
  tc_amend :: bool
  tc_cancel :: bool
  tc_batch_cancel :: bool
  tc_cancel_all :: bool
  tc_get :: bool
  tc_list_open :: bool
  tc_history :: bool
  tc_validate :: bool

record PositionCapabilities =
  pc_read :: bool
  pc_leverage_set :: bool
  pc_margin_mode_set :: bool
  pc_position_mode_set :: bool
  pc_hedge_mode :: bool

record AccountCapabilities =
  ac_read_balances :: bool
  ac_read_summary :: bool
  ac_private_streams :: bool

record AssetCapabilities =
  as_read :: bool
  as_transfer :: bool
  as_withdraw :: bool
  as_convert :: bool

record NativeCapabilities =
  nc_fast_stream :: bool
  nc_special_orders :: bool
  nc_ws_order_entry :: bool

record CapabilitySet =
  cap_market :: MarketCapabilities
  cap_trade :: TradeCapabilities
  cap_position :: PositionCapabilities
  cap_account :: AccountCapabilities
  cap_asset :: AssetCapabilities
  cap_native :: NativeCapabilities

definition linear_futures_defaults :: CapabilitySet where
  "linear_futures_defaults =
     \<lparr>cap_market = \<lparr>mc_ticker = True, mc_recent_trades = True, mc_book_top = True,
        mc_order_book = True, mc_klines = True, mc_mark_price = True, mc_funding_rate = True,
        mc_open_interest = True, mc_liquidations = False, mc_public_streams = True,
        mc_multi_symbol_streams = True\<rparr>,
      cap_trade = \<lparr>tc_create = True, tc_batch_create = True, tc_amend = True, tc_cancel = True,
        tc_batch_cancel = True, tc_cancel_all = True, tc_get = True, tc_list_open = True,
        tc_history = True, tc_validate = True\<rparr>,
      cap_position = \<lparr>pc_read = True, pc_leverage_set = True, pc_margin_mode_set = True,
        pc_position_mode_set = True, pc_hedge_mode = True\<rparr>,
      cap_account = \<lparr>ac_read_balances = True, ac_read_summary = True, ac_private_streams = True\<rparr>,
      cap_asset = \<lparr>as_read = False, as_transfer = False, as_withdraw = False, as_convert = False\<rparr>,
      cap_native = \<lparr>nc_fast_stream = True, nc_special_orders = True, nc_ws_order_entry = True\<rparr>\<rparr>"

definition supports_private_trading :: "CapabilitySet \<Rightarrow> bool" where
  "supports_private_trading c \<longleftrightarrow> tc_create (cap_trade c) \<and> ac_private_streams (cap_account c)"

text \<open>
  A freshly built configuration never points at a live trading endpoint on a venue that has a
  sandbox, and carries no credentials.
\<close>

lemma config_new_safe:
  "cfg_auth (config_new v p) = AuthNone \<and>
   (ep_sandbox (cfg_endpoints (config_new v p)) \<longleftrightarrow> sandbox_defaults v \<noteq> mainnet_defaults v)"
  by (cases v) (simp_all add: config_new_def)

lemma config_new_capacities [simp]:
  "st_recent_trade_capacity (cfg_state (config_new v p)) = 128"
  "st_execution_capacity (cfg_state (config_new v p)) = 1024"
  by (simp_all add: config_new_def)

end
