(* ===== verification/Health.thy ===== *)
theory Health
  imports Core_Types
begin

text \<open>
  \<^verbatim>\<open>health.rs\<close>: the health snapshot of the engine and its transitions.  The whole set of
  transitions is the alphabet \<open>HealthInput\<close>, so that the properties speak of arbitrary
  interleavings of stream messages, disconnects, gaps and reconciliations.
\<close>

datatype HealthStatus =
    Healthy | DegradedPublicStream | DegradedPrivateStream | ReconcileRequired
  | CommandUncertain | ReadOnlySafe | Disconnected

datatype DegradedReason =
    PublicStreamGap | PrivateStreamGap | ReconcileRequired | CommandUncertain | SnapshotStale
  | StateDivergence | Disconnected

record HealthReport =
  hr_status :: HealthStatus
  hr_rest_ok :: bool
  hr_ws_public_ok :: bool
  hr_ws_private_ok :: bool
  hr_clock_skew_ms :: "i64 option"
  hr_last_public_msg_at :: "TimestampMs option"
  hr_last_private_msg_at :: "TimestampMs option"
  hr_reconnect_count :: u64
  hr_snapshot_age_ms :: "u64 option"
  hr_state_divergence :: bool
  hr_degraded_reason :: "DegradedReason option"

record HealthNotification =
  hn_previous :: HealthReport
  hn_current :: HealthReport

definition health_default :: HealthReport where
  "health_default =
     \<lparr>hr_status = HealthStatus.Disconnected, hr_rest_ok = False, hr_ws_public_ok = False,
      hr_ws_private_ok = False, hr_clock_skew_ms = None, hr_last_public_msg_at = None,
      hr_last_private_msg_at = None, hr_reconnect_count = 0, hr_snapshot_age_ms = None,
      hr_state_divergence = False, hr_degraded_reason = Some DegradedReason.Disconnected\<rparr>"

section \<open>Transitions\<close>

definition observe_public_message :: "TimestampMs \<Rightarrow> HealthReport \<Rightarrow> HealthReport" where
  "observe_public_message ts h =
     (let h1 = h\<lparr>hr_last_public_msg_at := Some ts, hr_ws_public_ok := True\<rparr> in
      if hr_status h1 \<in> {HealthStatus.Disconnected, DegradedPublicStream, ReadOnlySafe}
         \<and> \<not> hr_state_divergence h1
         \<and> hr_degraded_reason h1 \<notin> {Some DegradedReason.ReconcileRequired,
              Some DegradedReason.CommandUncertain, Some DegradedReason.StateDivergence}
      then h1\<lparr>hr_status := Healthy, hr_degraded_reason := None\<rparr>
      else h1)"

definition observe_private_message :: "TimestampMs \<Rightarrow> HealthReport \<Rightarrow> HealthReport" where
  "observe_private_message ts h =
     (let h1 = h\<lparr>hr_last_private_msg_at := Some ts, hr_ws_private_ok := True\<rparr> in
      if hr_status h1 \<in> {HealthStatus.Disconnected, DegradedPrivateStream, ReadOnlySafe}
      then h1\<lparr>hr_status := Healthy, hr_degraded_reason := None\<rparr>
      else h1)"

definition observe_rest_success :: "i64 option \<Rightarrow> HealthReport \<Rightarrow> HealthReport" where
  "observe_rest_success skew h =
     (let h1 = h\<lparr>hr_rest_ok := True\<rparr>;
          h2 = (if skew \<noteq> None then h1\<lparr>hr_clock_skew_ms := skew\<rparr> else h1) in
      if hr_status h2 = HealthStatus.Disconnected
      then h2\<lparr>hr_status := Healthy, hr_degraded_reason := None\<rparr>
      else h2)"

definition mark_public_disconnect :: "HealthReport \<Rightarrow> HealthReport" where
  "mark_public_disconnect h =
     (let h1 = h\<lparr>hr_ws_public_ok := False\<rparr> in
      if hr_ws_private_ok h1 \<or> hr_rest_ok h1
      then h1\<lparr>hr_status := DegradedPublicStream, hr_degraded_reason := Some PublicStreamGap\<rparr>
      else h1\<lparr>hr_status := HealthStatus.Disconnected,
              hr_degraded_reason := Some DegradedReason.Disconnected\<rparr>)"

definition mark_public_gap :: "HealthReport \<Rightarrow> HealthReport" where
  "mark_public_gap h =
     h\<lparr>hr_status := DegradedPublicStream, hr_ws_public_ok := False,
       hr_degraded_reason := Some PublicStreamGap\<rparr>"

definition mark_private_disconnect :: "HealthReport \<Rightarrow> HealthReport" where
  "mark_private_disconnect h =
     (let h1 = h\<lparr>hr_ws_private_ok := False\<rparr> in
      if hr_ws_public_ok h1 \<or> hr_rest_ok h1
      then h1\<lparr>hr_status := ReadOnlySafe, hr_degraded_reason := Some PrivateStreamGap\<rparr>
      else h1\<lparr>hr_status := HealthStatus.Disconnected,
              hr_degraded_reason := Some DegradedReason.Disconnected\<rparr>)"

definition mark_private_gap :: "HealthReport \<Rightarrow> HealthReport" where
  "mark_private_gap h =
     h\<lparr>hr_status := HealthStatus.ReconcileRequired, hr_ws_private_ok := False,
       hr_degraded_reason := Some PrivateStreamGap\<rparr>"

definition mark_snapshot_age :: "u64 \<Rightarrow> u64 \<Rightarrow> HealthReport \<Rightarrow> HealthReport" where
  "mark_snapshot_age age stale_after h =
     (let h1 = h\<lparr>hr_snapshot_age_ms := Some age\<rparr> in
      if stale_after \<le> age
         \<and> hr_degraded_reason h1 \<notin> {Some DegradedReason.CommandUncertain,
              Some DegradedReason.StateDivergence}
      then h1\<lparr>hr_status := HealthStatus.ReconcileRequired,
              hr_degraded_reason := Some SnapshotStale\<rparr>
      else h1)"

definition mark_reconnect :: "HealthReport \<Rightarrow> HealthReport" where
  "mark_reconnect h = h\<lparr>hr_reconnect_count := hr_reconnect_count h + 1\<rparr>"

definition mark_reconcile_required :: "HealthReport \<Rightarrow> HealthReport" where
  "mark_reconcile_required h =
     h\<lparr>hr_status := HealthStatus.ReconcileRequired,
       hr_degraded_reason := Some DegradedReason.ReconcileRequired\<rparr>"

definition mark_command_uncertain :: "HealthReport \<Rightarrow> HealthReport" where
  "mark_command_uncertain h =
     h\<lparr>hr_status := HealthStatus.CommandUncertain,
       hr_degraded_reason := Some DegradedReason.CommandUncertain\<rparr>"

definition mark_state_divergence :: "HealthReport \<Rightarrow> HealthReport" where
  "mark_state_divergence h =
     h\<lparr>hr_status := HealthStatus.ReconcileRequired, hr_state_divergence := True,
       hr_degraded_reason := Some DegradedReason.StateDivergence\<rparr>"

definition mark_reconcile_complete :: "HealthReport \<Rightarrow> HealthReport" where
  "mark_reconcile_complete h =
     (let h1 = h\<lparr>hr_state_divergence := False, hr_snapshot_age_ms := Some 0\<rparr> in
      if hr_ws_public_ok h1 \<and> (hr_ws_private_ok h1 \<or> hr_rest_ok h1)
      then h1\<lparr>hr_status := Healthy, hr_degraded_reason := None\<rparr>
      else if hr_ws_public_ok h1
      then h1\<lparr>hr_status := ReadOnlySafe, hr_degraded_reason := Some PrivateStreamGap\<rparr>
      else h1\<lparr>hr_status := HealthStatus.Disconnected,
              hr_degraded_reason := Some DegradedReason.Disconnected\<rparr>)"

lemmas health_defs [model_unfold] =
  observe_public_message_def observe_private_message_def observe_rest_success_def
  mark_public_disconnect_def mark_public_gap_def mark_private_disconnect_def
  mark_private_gap_def mark_snapshot_age_def mark_reconnect_def mark_reconcile_required_def
  mark_command_uncertain_def mark_state_divergence_def mark_reconcile_complete_def

section \<open>The machine\<close>

datatype HealthInput =
    PublicMessage TimestampMs
  | PrivateMessage TimestampMs
  | RestSuccess "i64 option"
  | PublicDisconnect
  | PublicGap
  | PrivateDisconnect
  | PrivateGap
  | SnapshotAge u64 u64
  | HealthReconnect
  | NeedReconcile
  | CommandDoubt
  | Diverge
  | ReconcileComplete

fun health_step :: "HealthReport \<Rightarrow> HealthInput \<Rightarrow> HealthReport" where
  "health_step h (PublicMessage t) = observe_public_message t h"
| "health_step h (PrivateMessage t) = observe_private_message t h"
| "health_step h (RestSuccess s) = observe_rest_success s h"
| "health_step h PublicDisconnect = mark_public_disconnect h"
| "health_step h PublicGap = mark_public_gap h"
| "health_step h PrivateDisconnect = mark_private_disconnect h"
| "health_step h PrivateGap = mark_private_gap h"
| "health_step h (SnapshotAge a s) = mark_snapshot_age a s h"
| "health_step h HealthReconnect = mark_reconnect h"
| "health_step h NeedReconcile = mark_reconcile_required h"
| "health_step h CommandDoubt = mark_command_uncertain h"
| "health_step h Diverge = mark_state_divergence h"
| "health_step h ReconcileComplete = mark_reconcile_complete h"

text \<open>
  The consistency of a report: it is healthy exactly when it names no reason, the reason fits
  the status, a healthy or read-only engine has a transport that works, and a message time is
  recorded for a stream that is up.
\<close>

fun reason_fits :: "HealthStatus \<Rightarrow> DegradedReason option \<Rightarrow> bool" where
  "reason_fits Healthy r = (r = None)"
| "reason_fits DegradedPublicStream r = (r = Some PublicStreamGap)"
| "reason_fits DegradedPrivateStream r = False"
| "reason_fits HealthStatus.ReconcileRequired r =
     (r \<in> {Some DegradedReason.ReconcileRequired, Some PrivateStreamGap, Some SnapshotStale,
           Some DegradedReason.StateDivergence})"
| "reason_fits HealthStatus.CommandUncertain r = (r = Some DegradedReason.CommandUncertain)"
| "reason_fits ReadOnlySafe r = (r = Some PrivateStreamGap)"
| "reason_fits HealthStatus.Disconnected r = (r = Some DegradedReason.Disconnected)"

definition health_inv :: "HealthReport \<Rightarrow> bool" where
  "health_inv h \<longleftrightarrow>
     reason_fits (hr_status h) (hr_degraded_reason h) \<and>
     (hr_status h \<in> {Healthy, ReadOnlySafe} \<longrightarrow>
        hr_ws_public_ok h \<or> hr_ws_private_ok h \<or> hr_rest_ok h) \<and>
     (hr_status h = HealthStatus.Disconnected \<and> \<not> hr_state_divergence h \<longrightarrow> \<not> hr_ws_public_ok h) \<and>
     (hr_ws_public_ok h \<longrightarrow> hr_last_public_msg_at h \<noteq> None) \<and>
     (hr_ws_private_ok h \<longrightarrow> hr_last_private_msg_at h \<noteq> None) \<and>
     (hr_degraded_reason h = Some DegradedReason.StateDivergence \<longrightarrow> hr_state_divergence h)"

lemma health_inv_default: "health_inv health_default"
  by (simp add: health_inv_def health_default_def)

lemma health_step_inv: "health_inv h \<Longrightarrow> health_inv (health_step h i)"
  by (cases "hr_status h"; cases i)
    (auto simp: health_inv_def health_defs Let_def)

interpretation health: reactive_machine health_step health_inv
  by unfold_locales (rule health_step_inv)

text \<open>The divergence flag moves on two inputs only, and doubt about a command on few more.\<close>

fun divergence_input :: "HealthInput \<Rightarrow> bool" where
  "divergence_input Diverge = True"
| "divergence_input ReconcileComplete = True"
| "divergence_input _ = False"

fun traffic_input :: "HealthInput \<Rightarrow> bool" where
  "traffic_input (PublicMessage t) = True"
| "traffic_input (PrivateMessage t) = True"
| "traffic_input (RestSuccess s) = True"
| "traffic_input (SnapshotAge a s) = True"
| "traffic_input HealthReconnect = True"
| "traffic_input _ = False"

interpretation divergence_flag: observed_machine health_step health_inv hr_state_divergence
    "\<lambda>i. \<not> divergence_input i"
proof
  fix h i
  assume "\<not> divergence_input i"
  then show "hr_state_divergence (health_step h i) = hr_state_divergence h"
    by (cases i) (simp_all add: health_defs Let_def)
qed

interpretation command_doubt: observed_machine health_step health_inv
    "\<lambda>h. hr_status h = HealthStatus.CommandUncertain" traffic_input
proof
  fix h i
  assume "health_inv h" and "traffic_input i"
  then show "(hr_status (health_step h i) = HealthStatus.CommandUncertain) =
      (hr_status h = HealthStatus.CommandUncertain)"
    by (cases "hr_status h"; cases i) (auto simp: health_defs Let_def health_inv_def)
qed

section \<open>Properties\<close>

text \<open>
  Every report reachable from the default one, by any interleaving of stream messages,
  REST answers, disconnects, gaps, divergences and reconciliations, is consistent: it is
  healthy exactly when it names no degradation reason, the reason fits the status, an engine
  reported healthy or read-only has a transport that works, and a stream that is up has a
  last-message time.
\<close>

theorem health_report_consistent:
  "health_inv (foldl health_step health_default inputs) \<and>
   (hr_status (foldl health_step health_default inputs) = Healthy \<longleftrightarrow>
     hr_degraded_reason (foldl health_step health_default inputs) = None)"
proof -
  let ?h = "foldl health_step health_default inputs"
  have "health_inv ?h" by (rule health.run_keeps) (rule health_inv_default)
  moreover from this have "hr_status ?h = Healthy \<longleftrightarrow> hr_degraded_reason ?h = None"
    by (cases "hr_status ?h") (auto simp: health_inv_def)
  ultimately show ?thesis by blast
qed

text \<open>
  A state divergence stays on record until a reconciliation completes: whatever else
  happens after it, the flag is still set, and completing a reconciliation clears it.
\<close>

theorem divergence_until_reconciled:
  assumes "ReconcileComplete \<notin> set after"
  shows "hr_state_divergence (foldl health_step health_default (before @ Diverge # after)) \<and>
    \<not> hr_state_divergence (foldl health_step health_default (before @ Diverge # after @ [ReconcileComplete]))"
proof -
  have keep: "hr_state_divergence (foldl health_step h after)"
    if "health_inv h" and "hr_state_divergence h" for h
    using assms that
  proof (induction after arbitrary: h)
    case (Cons i rest)
    have "hr_state_divergence (health_step h i)"
    proof (cases "divergence_input i")
      case True
      with Cons.prems(1) show ?thesis by (cases i) (simp_all add: health_defs)
    next
      case False
      with Cons.prems(2,3) show ?thesis by (simp add: divergence_flag.quiet_step)
    qed
    with Cons show ?case by (simp add: health_step_inv)
  qed simp
  have "health_inv (foldl health_step health_default before)"
    by (rule health.run_keeps) (rule health_inv_default)
  from keep [OF health_step_inv [OF this, of Diverge]] show ?thesis
    by (simp add: health_defs Let_def)
qed

theorem divergence_until_reconciled_witness:
  "hr_state_divergence (foldl health_step health_default
     ([PublicMessage (TimestampMs 1)] @ Diverge # [PrivateDisconnect, PrivateMessage (TimestampMs 2)]))"
  using divergence_until_reconciled
    [of "[PrivateDisconnect, PrivateMessage (TimestampMs 2)]" "[PublicMessage (TimestampMs 1)]"]
  by simp

text \<open>
  Traffic neither hides nor invents doubt about a command: stream messages, REST answers,
  snapshot-age checks and reconnect counts leave the answer to the question whether the engine
  is in \<^verbatim>\<open>CommandUncertain\<close> as it was.
\<close>

theorem traffic_keeps_command_doubt:
  assumes "list_all traffic_input traffic"
  shows "hr_status (foldl health_step (foldl health_step health_default before) traffic)
      = HealthStatus.CommandUncertain \<longleftrightarrow>
    hr_status (foldl health_step health_default before) = HealthStatus.CommandUncertain"
  by (rule command_doubt.quiet_run [OF health.run_keeps [OF health_inv_default] assms])

theorem traffic_keeps_command_doubt_witness:
  "hr_status (foldl health_step (foldl health_step health_default [PublicMessage (TimestampMs 1), CommandDoubt])
      [PublicMessage (TimestampMs 2), PrivateMessage (TimestampMs 3), SnapshotAge 9000 5000])
      = HealthStatus.CommandUncertain"
  using traffic_keeps_command_doubt
    [of "[PublicMessage (TimestampMs 2), PrivateMessage (TimestampMs 3), SnapshotAge 9000 5000]"
        "[PublicMessage (TimestampMs 1), CommandDoubt]"]
  by (simp add: health_defs Let_def)

text \<open>
  The private lane and REST do not look at the divergence flag before they report the
  engine healthy, as the public lane does: after a divergence followed by a private
  disconnect, the next private message reports \<^verbatim>\<open>Healthy\<close> with the divergence still
  unrepaired, while a public message in the same state does not.
\<close>

theorem private_message_masks_divergence:
  "let h = foldl health_step health_default
       [PublicMessage (TimestampMs 1), Diverge, PrivateDisconnect] in
   hr_state_divergence (health_step h (PrivateMessage (TimestampMs 2))) \<and>
   hr_status (health_step h (PrivateMessage (TimestampMs 2))) = Healthy \<and>
   hr_status (health_step h (PublicMessage (TimestampMs 2))) = ReadOnlySafe"
  by (simp add: health_defs health_default_def Let_def)

end
