(* ===== verification/Engine_State.thy ===== *)
theory Engine_State
  imports Domain Config Health
begin

text \<open>
  \<^verbatim>\<open>bat-markets-core/src/state.rs\<close>: the in-memory state of an engine, one definition per
  method.  The state-changing methods that can fail return the result together with the
  state after the call, so that what a failed call leaves behind is visible.
\<close>

record 'd EngineState =
  es_venue :: Venue
  es_product :: Product
  es_state_policy :: StatePolicy
  es_instruments :: "(InstrumentId, 'd InstrumentSpec) btree_map"
  es_tickers :: "(InstrumentId, 'd Ticker) btree_map"
  es_recent_trades :: "(InstrumentId, 'd TradeTick list) btree_map"
  es_book_tops :: "(InstrumentId, 'd BookTop) btree_map"
  es_klines :: "(InstrumentId, 'd Kline) btree_map"
  es_mark_prices :: "(InstrumentId, 'd MarkPrice) btree_map"
  es_funding_rates :: "(InstrumentId, 'd FundingRate) btree_map"
  es_open_interest :: "(InstrumentId, 'd OpenInterest) btree_map"
  es_liquidations :: "(InstrumentId, 'd Liquidation list) btree_map"
  es_balances :: "(AssetCode, 'd Balance) btree_map"
  es_account_summary :: "'d AccountSummary option"
  es_positions :: "(InstrumentId, 'd Position) btree_map"
  es_orders :: "(OrderId, 'd Order) btree_map"
  es_executions :: "'d Execution list"
  es_health :: HealthReport

definition engine_new :: "Venue \<Rightarrow> Product \<Rightarrow> StatePolicy \<Rightarrow> 'd InstrumentSpec list \<Rightarrow> 'd EngineState" where
  "engine_new venue product policy instruments =
     \<lparr>es_venue = venue, es_product = product, es_state_policy = policy,
      es_instruments = bt_collect is_instrument_id instruments,
      es_tickers = [], es_recent_trades = [], es_book_tops = [], es_klines = [],
      es_mark_prices = [], es_funding_rates = [], es_open_interest = [], es_liquidations = [],
      es_balances = [], es_account_summary = None, es_positions = [], es_orders = [],
      es_executions = [], es_health = health_default\<rparr>"

section \<open>The public lane\<close>

definition engine_spec :: "'d EngineState \<Rightarrow> InstrumentId \<Rightarrow> 'd InstrumentSpec result" where
  "engine_spec s iid =
     ok_or (market_error ConfigError
       (''unknown instrument '' @ as_str iid @ '' for '' @ display_venue (es_venue s) @ '' '' @
        display_product (es_product s)))
     (bt_get (es_instruments s) iid)"

text \<open>
  The block every \<^verbatim>\<open>apply_fast_*\<close> method begins with: look the specification up (an error
  returns), convert (the conversion may panic), then continue with the unified value.
\<close>

definition with_unified ::
  "'d EngineState \<Rightarrow> InstrumentId \<Rightarrow> ('d InstrumentSpec \<Rightarrow> 'u option) \<Rightarrow> ('u \<Rightarrow> 'd EngineState)
     \<Rightarrow> unit result \<times> 'd EngineState" where
  "with_unified s iid conv k =
     (case engine_spec s iid of
        Inl f \<Rightarrow> (Inl f, s)
      | Inr spec \<Rightarrow> (case conv spec of None \<Rightarrow> (Panic, s) | Some u \<Rightarrow> (Ok (), k u)))"

definition entry_or_default :: "('k, 'v list) btree_map \<Rightarrow> 'k \<Rightarrow> 'v list" where
  "entry_or_default m k = (case bt_get m k of None \<Rightarrow> [] | Some q \<Rightarrow> q)"

definition apply_fast_ticker :: "'d Decimal_ops \<Rightarrow> FastTicker \<Rightarrow> 'd EngineState \<Rightarrow> unit result \<times> 'd EngineState" where
  "apply_fast_ticker D t s =
     with_unified s (ft_instrument_id t) (\<lambda>spec. ticker_to_unified D spec t) (\<lambda>u.
       s\<lparr>es_health := observe_public_message (ft_event_time t) (es_health s),
         es_tickers := bt_insert (ft_instrument_id t) u (es_tickers s)\<rparr>)"

definition apply_fast_trade :: "'d Decimal_ops \<Rightarrow> FastTrade \<Rightarrow> 'd EngineState \<Rightarrow> unit result \<times> 'd EngineState" where
  "apply_fast_trade D t s =
     with_unified s (ftr_instrument_id t) (\<lambda>spec. trade_to_unified D spec t) (\<lambda>u.
       let s1 = s\<lparr>es_health := observe_public_message (ftr_event_time t) (es_health s)\<rparr>;
           entry = entry_or_default (es_recent_trades s) (ftr_instrument_id t) in
       if entry \<noteq> [] \<and> tt_trade_id (last entry) = tt_trade_id u
       then s1\<lparr>es_recent_trades := bt_insert (ftr_instrument_id t) entry (es_recent_trades s)\<rparr>
       else s1\<lparr>es_recent_trades := bt_insert (ftr_instrument_id t)
              (push_trim (st_recent_trade_capacity (es_state_policy s)) entry u)
              (es_recent_trades s)\<rparr>)"

definition apply_fast_book_top :: "'d Decimal_ops \<Rightarrow> FastBookTop \<Rightarrow> 'd EngineState \<Rightarrow> unit result \<times> 'd EngineState" where
  "apply_fast_book_top D b s =
     with_unified s (fbt_instrument_id b) (\<lambda>spec. book_top_to_unified D spec b) (\<lambda>u.
       s\<lparr>es_health := observe_public_message (fbt_event_time b) (es_health s),
         es_book_tops := bt_insert (fbt_instrument_id b) u (es_book_tops s)\<rparr>)"

definition apply_fast_kline :: "'d Decimal_ops \<Rightarrow> FastKline \<Rightarrow> 'd EngineState \<Rightarrow> unit result \<times> 'd EngineState" where
  "apply_fast_kline D k s =
     with_unified s (fk_instrument_id k) (\<lambda>spec. kline_to_unified D spec k) (\<lambda>u.
       s\<lparr>es_health := observe_public_message (fk_close_time k) (es_health s),
         es_klines := bt_insert (fk_instrument_id k) u (es_klines s)\<rparr>)"

definition apply_fast_mark_price :: "'d Decimal_ops \<Rightarrow> 'd FastMarkPrice \<Rightarrow> 'd EngineState \<Rightarrow> unit result \<times> 'd EngineState" where
  "apply_fast_mark_price D m s =
     with_unified s (fmp_instrument_id m) (\<lambda>spec. mark_price_to_unified D spec m) (\<lambda>u.
       s\<lparr>es_health := observe_public_message (fmp_event_time m) (es_health s),
         es_mark_prices := bt_insert (fmp_instrument_id m) u (es_mark_prices s)\<rparr>)"

definition apply_fast_liquidation :: "'d Decimal_ops \<Rightarrow> FastLiquidation \<Rightarrow> 'd EngineState \<Rightarrow> unit result \<times> 'd EngineState" where
  "apply_fast_liquidation D l s =
     with_unified s (fl_instrument_id l) (\<lambda>spec. liquidation_to_unified D spec l) (\<lambda>u.
       s\<lparr>es_health := observe_public_message (fl_event_time l) (es_health s),
         es_liquidations := bt_insert (fl_instrument_id l)
            (push_trim (st_recent_trade_capacity (es_state_policy s))
              (entry_or_default (es_liquidations s) (fl_instrument_id l)) u)
            (es_liquidations s)\<rparr>)"

fun apply_public_event :: "'d Decimal_ops \<Rightarrow> 'd PublicLaneEvent \<Rightarrow> 'd EngineState \<Rightarrow> unit result \<times> 'd EngineState" where
  "apply_public_event D (Ticker t) s = apply_fast_ticker D t s"
| "apply_public_event D (Trade t) s = apply_fast_trade D t s"
| "apply_public_event D (BookTop b) s = apply_fast_book_top D b s"
| "apply_public_event D (OrderBookDelta b) s = (Ok (), s)"
| "apply_public_event D (Kline k) s = apply_fast_kline D k s"
| "apply_public_event D (PublicLaneEvent.MarkPrice m) s = apply_fast_mark_price D m s"
| "apply_public_event D (FundingRate f) s =
     (Ok (), s\<lparr>es_health := observe_public_message (fr_event_time f) (es_health s),
               es_funding_rates := bt_insert (fr_instrument_id f) f (es_funding_rates s)\<rparr>)"
| "apply_public_event D (OpenInterest i) s =
     (Ok (), s\<lparr>es_health := observe_public_message (oi_event_time i) (es_health s),
               es_open_interest := bt_insert (oi_instrument_id i) i (es_open_interest s)\<rparr>)"
| "apply_public_event D (Liquidation l) s = apply_fast_liquidation D l s"
| "apply_public_event D (PublicLaneEvent.Divergence d) s =
     (Ok (), case d of
        DivergenceEvent.StateDivergence \<Rightarrow> s\<lparr>es_health := mark_state_divergence (es_health s)\<rparr>
      | _ \<Rightarrow> s\<lparr>es_health := mark_public_gap (es_health s)\<rparr>)"

section \<open>The private lane\<close>

definition push_execution :: "'d Execution \<Rightarrow> 'd EngineState \<Rightarrow> 'd EngineState" where
  "push_execution e s =
     (if list_ex (\<lambda>x. exe_execution_id x = exe_execution_id e) (es_executions s) then s
      else s\<lparr>es_executions :=
             push_trim (st_execution_capacity (es_state_policy s)) (es_executions s) e\<rparr>)"

fun apply_private_event :: "'d PrivateLaneEvent \<Rightarrow> 'd EngineState \<Rightarrow> 'd EngineState" where
  "apply_private_event (Balance b) s =
     s\<lparr>es_health := observe_private_message (bal_updated_at b) (es_health s),
       es_balances := bt_insert (bal_asset b) b (es_balances s)\<rparr>"
| "apply_private_event (Position p) s =
     s\<lparr>es_health := observe_private_message (pos_updated_at p) (es_health s),
       es_positions := bt_insert (pos_instrument_id p) p (es_positions s)\<rparr>"
| "apply_private_event (Order r) s =
     s\<lparr>es_health := observe_private_message (ord_updated_at r) (es_health s),
       es_orders := bt_insert (ord_order_id r) r (es_orders s)\<rparr>"
| "apply_private_event (Execution e) s =
     push_execution e (s\<lparr>es_health := observe_private_message (exe_executed_at e) (es_health s)\<rparr>)"
| "apply_private_event (PrivateLaneEvent.Divergence d) s =
     s\<lparr>es_health := (case d of
          DivergenceEvent.ReconcileRequired \<Rightarrow> mark_reconcile_required (es_health s)
        | SequenceGap at \<Rightarrow> mark_private_gap (es_health s)
        | DivergenceEvent.StateDivergence \<Rightarrow> mark_state_divergence (es_health s))\<rparr>"

definition engine_apply_command_receipt :: "CommandReceipt \<Rightarrow> 'd EngineState \<Rightarrow> 'd EngineState" where
  "engine_apply_command_receipt r s =
     (case rcp_status r of
        Accepted \<Rightarrow> s
      | CommandStatus.Rejected \<Rightarrow> s
      | CommandStatus.UnknownExecution \<Rightarrow> s\<lparr>es_health := mark_command_uncertain (es_health s)\<rparr>)"

section \<open>Replacement and merging\<close>

definition prune_orphan_market_state :: "'d EngineState \<Rightarrow> 'd EngineState" where
  "prune_orphan_market_state s =
     s\<lparr>es_tickers := bt_retain (\<lambda>iid _. bt_contains (es_instruments s) iid) (es_tickers s),
       es_recent_trades := bt_retain (\<lambda>iid _. bt_contains (es_instruments s) iid) (es_recent_trades s),
       es_book_tops := bt_retain (\<lambda>iid _. bt_contains (es_instruments s) iid) (es_book_tops s),
       es_klines := bt_retain (\<lambda>iid _. bt_contains (es_instruments s) iid) (es_klines s),
       es_mark_prices := bt_retain (\<lambda>iid _. bt_contains (es_instruments s) iid) (es_mark_prices s),
       es_funding_rates := bt_retain (\<lambda>iid _. bt_contains (es_instruments s) iid) (es_funding_rates s),
       es_open_interest := bt_retain (\<lambda>iid _. bt_contains (es_instruments s) iid) (es_open_interest s),
       es_liquidations := bt_retain (\<lambda>iid _. bt_contains (es_instruments s) iid) (es_liquidations s)\<rparr>"

definition replace_instruments :: "'d InstrumentSpec list \<Rightarrow> 'd EngineState \<Rightarrow> 'd EngineState" where
  "replace_instruments instruments s =
     prune_orphan_market_state (s\<lparr>es_instruments := bt_collect is_instrument_id instruments\<rparr>)"

definition touch_private :: "TimestampMs option \<Rightarrow> 'd EngineState \<Rightarrow> 'd EngineState" where
  "touch_private updated_at s =
     (case updated_at of
        None \<Rightarrow> s
      | Some t \<Rightarrow> s\<lparr>es_health := observe_private_message t (es_health s)\<rparr>)"

definition replace_account_snapshot :: "'d AccountSnapshot \<Rightarrow> 'd EngineState \<Rightarrow> 'd EngineState" where
  "replace_account_snapshot snapshot s =
     (let s1 = s\<lparr>es_balances := bt_collect bal_asset (acc_balances snapshot),
                 es_account_summary := acc_summary snapshot\<rparr>;
          updated_at = (case es_account_summary s1 of
              Some summary \<Rightarrow> Some (sum_updated_at summary)
            | None \<Rightarrow> iter_max (map bal_updated_at (bt_values (es_balances s1)))) in
      touch_private updated_at s1)"

definition replace_positions :: "'d Position list \<Rightarrow> 'd EngineState \<Rightarrow> 'd EngineState" where
  "replace_positions ps s =
     touch_private (iter_max (map pos_updated_at ps))
       (s\<lparr>es_positions := bt_collect pos_instrument_id ps\<rparr>)"

definition order_is_open :: "'d Order \<Rightarrow> bool" where
  "order_is_open r \<longleftrightarrow> ord_status r \<in> {New, PartiallyFilled}"

definition replace_open_orders :: "'d Order list \<Rightarrow> 'd EngineState \<Rightarrow> 'd EngineState" where
  "replace_open_orders rs s =
     touch_private (iter_max (map ord_updated_at rs))
       (s\<lparr>es_orders := bt_extend ord_order_id (\<lambda>r. r)
            (bt_retain (\<lambda>_ r. \<not> order_is_open r) (es_orders s)) rs\<rparr>)"

definition merge_order_history :: "'d Order list \<Rightarrow> 'd EngineState \<Rightarrow> 'd EngineState" where
  "merge_order_history rs s =
     touch_private (iter_max (map ord_updated_at rs))
       (s\<lparr>es_orders := bt_extend ord_order_id (\<lambda>r. r) (es_orders s) rs\<rparr>)"

definition merge_executions :: "'d Execution list \<Rightarrow> 'd EngineState \<Rightarrow> 'd EngineState" where
  "merge_executions es s =
     touch_private (iter_max (map exe_executed_at es))
       (foldl (\<lambda>st e. push_execution e st) s es)"

definition apply_private_snapshot :: "'d PrivateSnapshot \<Rightarrow> 'd EngineState \<Rightarrow> 'd EngineState" where
  "apply_private_snapshot snapshot s =
     (let s1 = (case snap_account snapshot of
                  None \<Rightarrow> s | Some account \<Rightarrow> replace_account_snapshot account s) in
      replace_open_orders (snap_open_orders snapshot)
        (replace_positions (snap_positions snapshot) s1))"

definition apply_reconcile_report :: "ReconcileReport \<Rightarrow> 'd EngineState \<Rightarrow> 'd EngineState" where
  "apply_reconcile_report report s =
     s\<lparr>es_health := (case rep_outcome report of
          Synchronized \<Rightarrow> mark_reconcile_complete (es_health s)
        | StillUncertain \<Rightarrow> mark_reconcile_required (es_health s)
        | Diverged \<Rightarrow> mark_state_divergence (es_health s))\<rparr>"

section \<open>Health marks\<close>

definition engine_mark_rest_success :: "i64 option \<Rightarrow> 'd EngineState \<Rightarrow> 'd EngineState" where
  "engine_mark_rest_success skew s = s\<lparr>es_health := observe_rest_success skew (es_health s)\<rparr>"

definition engine_mark_public_disconnect :: "'d EngineState \<Rightarrow> 'd EngineState" where
  "engine_mark_public_disconnect s = s\<lparr>es_health := mark_public_disconnect (es_health s)\<rparr>"

definition engine_mark_private_disconnect :: "'d EngineState \<Rightarrow> 'd EngineState" where
  "engine_mark_private_disconnect s = s\<lparr>es_health := mark_private_disconnect (es_health s)\<rparr>"

definition engine_mark_reconnect :: "'d EngineState \<Rightarrow> 'd EngineState" where
  "engine_mark_reconnect s = s\<lparr>es_health := mark_reconnect (es_health s)\<rparr>"

definition engine_mark_snapshot_age :: "u64 \<Rightarrow> u64 \<Rightarrow> 'd EngineState \<Rightarrow> 'd EngineState" where
  "engine_mark_snapshot_age age stale_after s =
     s\<lparr>es_health := mark_snapshot_age age stale_after (es_health s)\<rparr>"

section \<open>Reads\<close>

definition engine_ticker :: "'d EngineState \<Rightarrow> InstrumentId \<Rightarrow> 'd Ticker option" where
  "engine_ticker s iid = bt_get (es_tickers s) iid"

definition engine_recent_trades :: "'d EngineState \<Rightarrow> InstrumentId \<Rightarrow> 'd TradeTick list option" where
  "engine_recent_trades s iid = bt_get (es_recent_trades s) iid"

definition engine_book_top :: "'d EngineState \<Rightarrow> InstrumentId \<Rightarrow> 'd BookTop option" where
  "engine_book_top s iid = bt_get (es_book_tops s) iid"

definition engine_funding_rate :: "'d EngineState \<Rightarrow> InstrumentId \<Rightarrow> 'd FundingRate option" where
  "engine_funding_rate s iid = bt_get (es_funding_rates s) iid"

definition engine_mark_price :: "'d EngineState \<Rightarrow> InstrumentId \<Rightarrow> 'd MarkPrice option" where
  "engine_mark_price s iid = bt_get (es_mark_prices s) iid"

definition engine_open_interest :: "'d EngineState \<Rightarrow> InstrumentId \<Rightarrow> 'd OpenInterest option" where
  "engine_open_interest s iid = bt_get (es_open_interest s) iid"

definition engine_liquidations :: "'d EngineState \<Rightarrow> InstrumentId \<Rightarrow> 'd Liquidation list option" where
  "engine_liquidations s iid = bt_get (es_liquidations s) iid"

definition engine_balances :: "'d EngineState \<Rightarrow> 'd Balance list" where
  "engine_balances s = bt_values (es_balances s)"

text \<open>The summary derived from the balances when the venue sent none.\<close>

fun sum_balances ::
  "'d Decimal_ops \<Rightarrow> 'd Amount \<Rightarrow> 'd Amount \<Rightarrow> 'd Balance list \<Rightarrow> ('d Amount \<times> 'd Amount) option" where
  "sum_balances D wallet available [] = Some (wallet, available)"
| "sum_balances D wallet available (b # bs) = do {
     w \<leftarrow> dec_checked_add D (decimal wallet) (decimal (bal_wallet_balance b));
     a \<leftarrow> dec_checked_add D (decimal available) (decimal (bal_available_balance b));
     sum_balances D (DecimalValue w) (DecimalValue a) bs }"

definition engine_account_summary :: "'d Decimal_ops \<Rightarrow> 'd EngineState \<Rightarrow> 'd AccountSummary option" where
  "engine_account_summary D s =
     (case es_account_summary s of
        Some summary \<Rightarrow> Some summary
      | None \<Rightarrow>
          (case bt_values (es_balances s) of
             [] \<Rightarrow> None
           | first # balances \<Rightarrow> do {
               (wallet, available) \<leftarrow>
                 sum_balances D (bal_wallet_balance first) (bal_available_balance first) balances;
               Some \<lparr>sum_total_wallet_balance = wallet, sum_total_available_balance = available,
                     sum_total_unrealized_pnl = DecimalValue (dec_zero D),
                     sum_updated_at = bal_updated_at first\<rparr> }))"

definition engine_positions :: "'d EngineState \<Rightarrow> 'd Position list" where
  "engine_positions s = bt_values (es_positions s)"

definition engine_orders :: "'d EngineState \<Rightarrow> 'd Order list" where
  "engine_orders s = bt_values (es_orders s)"

definition engine_open_orders :: "'d EngineState \<Rightarrow> 'd Order list" where
  "engine_open_orders s = filter order_is_open (bt_values (es_orders s))"

definition engine_executions :: "'d EngineState \<Rightarrow> 'd Execution list" where
  "engine_executions s = es_executions s"

definition latest_order_update_at :: "'d EngineState \<Rightarrow> InstrumentId \<Rightarrow> TimestampMs option" where
  "latest_order_update_at s iid =
     iter_max (map ord_updated_at (filter (\<lambda>r. ord_instrument_id r = iid) (bt_values (es_orders s))))"

definition latest_execution_at :: "'d EngineState \<Rightarrow> InstrumentId \<Rightarrow> TimestampMs option" where
  "latest_execution_at s iid =
     iter_max (map exe_executed_at (filter (\<lambda>e. exe_instrument_id e = iid) (es_executions s)))"

definition instrument_specs :: "'d EngineState \<Rightarrow> 'd InstrumentSpec list" where
  "instrument_specs s = bt_values (es_instruments s)"

section \<open>Which public events can be refused\<close>

text \<open>
  \<^verbatim>\<open>client.rs\<close> checks a batch of public events against the known instruments before it
  applies any of them; these two functions are that check's vocabulary.
\<close>

fun fallible_public_event_instrument_id :: "'d PublicLaneEvent \<Rightarrow> InstrumentId option" where
  "fallible_public_event_instrument_id (Ticker t) = Some (ft_instrument_id t)"
| "fallible_public_event_instrument_id (Trade t) = Some (ftr_instrument_id t)"
| "fallible_public_event_instrument_id (BookTop b) = Some (fbt_instrument_id b)"
| "fallible_public_event_instrument_id (Kline k) = Some (fk_instrument_id k)"
| "fallible_public_event_instrument_id (PublicLaneEvent.MarkPrice m) = Some (fmp_instrument_id m)"
| "fallible_public_event_instrument_id (Liquidation l) = Some (fl_instrument_id l)"
| "fallible_public_event_instrument_id (OrderBookDelta b) = None"
| "fallible_public_event_instrument_id (FundingRate f) = None"
| "fallible_public_event_instrument_id (OpenInterest i) = None"
| "fallible_public_event_instrument_id (PublicLaneEvent.Divergence d) = None"

definition unknown_public_event_error :: "'d EngineState \<Rightarrow> InstrumentId \<Rightarrow> MarketError" where
  "unknown_public_event_error s iid =
     market_error ConfigError
       (''unknown instrument '' @ as_str iid @ '' for '' @ display_venue (es_venue s) @ '' '' @
        display_product (es_product s))"

end
