(* ===== verification/Engine_Laws.thy ===== *)
theory Engine_Laws
  imports Complex_Main Engine_State
begin

text \<open>
  The invariant of the engine state and the laws of its operations: every method keeps the
  invariant, failed calls change nothing, the lanes do not interfere, the private lane is
  idempotent, and replacement installs exactly what the venue reported.
\<close>

section \<open>The state machine\<close>

text \<open>Every state-changing method of \<^verbatim>\<open>EngineState\<close>, as the alphabet of one machine.\<close>

datatype 'd EngineInput =
    PublicIn "'d PublicLaneEvent"
  | PrivateIn "'d PrivateLaneEvent"
  | ReceiptIn CommandReceipt
  | InstrumentsIn "'d InstrumentSpec list"
  | AccountIn "'d AccountSnapshot"
  | PositionsIn "'d Position list"
  | OpenOrdersIn "'d Order list"
  | OrderHistoryIn "'d Order list"
  | ExecutionsIn "'d Execution list"
  | SnapshotIn "'d PrivateSnapshot"
  | ReportIn ReconcileReport
  | RestIn "i64 option"
  | PublicDownIn
  | PrivateDownIn
  | ReconnectIn
  | SnapshotAgeIn u64 u64

fun engine_step :: "'d Decimal_ops \<Rightarrow> 'd EngineState \<Rightarrow> 'd EngineInput \<Rightarrow> 'd EngineState" where
  "engine_step D s (PublicIn e) = snd (apply_public_event D e s)"
| "engine_step D s (PrivateIn e) = apply_private_event e s"
| "engine_step D s (ReceiptIn r) = engine_apply_command_receipt r s"
| "engine_step D s (InstrumentsIn specs) = replace_instruments specs s"
| "engine_step D s (AccountIn a) = replace_account_snapshot a s"
| "engine_step D s (PositionsIn ps) = replace_positions ps s"
| "engine_step D s (OpenOrdersIn rs) = replace_open_orders rs s"
| "engine_step D s (OrderHistoryIn rs) = merge_order_history rs s"
| "engine_step D s (ExecutionsIn es) = merge_executions es s"
| "engine_step D s (SnapshotIn p) = apply_private_snapshot p s"
| "engine_step D s (ReportIn r) = apply_reconcile_report r s"
| "engine_step D s (RestIn k) = engine_mark_rest_success k s"
| "engine_step D s PublicDownIn = engine_mark_public_disconnect s"
| "engine_step D s PrivateDownIn = engine_mark_private_disconnect s"
| "engine_step D s ReconnectIn = engine_mark_reconnect s"
| "engine_step D s (SnapshotAgeIn a l) = engine_mark_snapshot_age a l s"

section \<open>Invariant\<close>

text \<open>
  A market map holds, under known instruments only, values of that instrument; a queue of
  trades or liquidations is bounded by the configured capacity, and no trade repeats the
  identifier of its predecessor.
\<close>

definition known_filed ::
  "('v \<Rightarrow> InstrumentId) \<Rightarrow> (InstrumentId, 'd InstrumentSpec) btree_map
     \<Rightarrow> (InstrumentId, 'v) btree_map \<Rightarrow> bool" where
  "known_filed key known m \<longleftrightarrow>
     bt_filed key m \<and> (\<forall>k v. bt_get m k = Some v \<longrightarrow> bt_contains known k)"

definition known_queues ::
  "('v \<Rightarrow> InstrumentId) \<Rightarrow> ('v list \<Rightarrow> bool) \<Rightarrow> usize \<Rightarrow> (InstrumentId, 'd InstrumentSpec) btree_map
     \<Rightarrow> (InstrumentId, 'v list) btree_map \<Rightarrow> bool" where
  "known_queues key P cap known m \<longleftrightarrow>
     bt_wf m \<and>
     (\<forall>k q. bt_get m k = Some q \<longrightarrow>
        bt_contains known k \<and> length q \<le> cap \<and> (\<forall>x\<in>set q. key x = k) \<and> P q)"

definition trade_ids_alternate :: "'d TradeTick list \<Rightarrow> bool" where
  "trade_ids_alternate q \<longleftrightarrow> distinct_adj (map tt_trade_id q)"

definition market_wf :: "'d EngineState \<Rightarrow> bool" where
  "market_wf s \<longleftrightarrow>
     bt_filed is_instrument_id (es_instruments s) \<and>
     known_filed tk_instrument_id (es_instruments s) (es_tickers s) \<and>
     known_queues tt_instrument_id trade_ids_alternate
       (st_recent_trade_capacity (es_state_policy s)) (es_instruments s) (es_recent_trades s) \<and>
     known_filed bk_instrument_id (es_instruments s) (es_book_tops s) \<and>
     known_filed kl_instrument_id (es_instruments s) (es_klines s) \<and>
     known_filed mp_instrument_id (es_instruments s) (es_mark_prices s) \<and>
     bt_filed fr_instrument_id (es_funding_rates s) \<and>
     bt_filed oi_instrument_id (es_open_interest s) \<and>
     known_queues lq_instrument_id (\<lambda>_. True)
       (st_recent_trade_capacity (es_state_policy s)) (es_instruments s) (es_liquidations s)"

definition private_wf :: "'d EngineState \<Rightarrow> bool" where
  "private_wf s \<longleftrightarrow>
     bt_filed bal_asset (es_balances s) \<and>
     bt_filed pos_instrument_id (es_positions s) \<and>
     bt_filed ord_order_id (es_orders s) \<and>
     length (es_executions s) \<le> st_execution_capacity (es_state_policy s) \<and>
     distinct (map exe_execution_id (es_executions s))"

definition engine_wf :: "'d EngineState \<Rightarrow> bool" where
  "engine_wf s \<longleftrightarrow> market_wf s \<and> private_wf s \<and> health_inv (es_health s)"

subsection \<open>Building blocks\<close>

lemma known_filed_empty [simp, intro]: "known_filed key known []"
  by (simp add: known_filed_def)

lemma known_filed_insert [model_inv]:
  "known_filed key known m \<Longrightarrow> bt_contains known k \<Longrightarrow> key v = k \<Longrightarrow>
    known_filed key known (bt_insert k v m)"
  by (auto simp: known_filed_def)

lemma known_filed_retain [model_inv]:
  "known_filed key known m \<Longrightarrow> known_filed key known' (bt_retain (\<lambda>k _. bt_contains known' k) m)"
  by (auto simp: known_filed_def split: option.splits if_splits)

lemma known_queues_empty [simp, intro]: "known_queues key P cap known []"
  by (simp add: known_queues_def)

lemma known_queues_insert [model_inv]:
  assumes "known_queues key P cap known m" and "bt_contains known k"
    and "length q \<le> cap" and "\<forall>x\<in>set q. key x = k" and "P q"
  shows "known_queues key P cap known (bt_insert k q m)"
  using assms by (auto simp: known_queues_def)

lemma known_queues_retain [model_inv]:
  "known_queues key P cap known m \<Longrightarrow>
    known_queues key P cap known' (bt_retain (\<lambda>k _. bt_contains known' k) m)"
  by (auto simp: known_queues_def split: option.splits if_splits)

lemma entry_ok:
  assumes "known_queues key P cap known m" and "P []"
  shows "length (entry_or_default m k) \<le> cap \<and> (\<forall>x\<in>set (entry_or_default m k). key x = k) \<and>
    P (entry_or_default m k)"
  using assms by (auto simp: known_queues_def entry_or_default_def split: option.splits)

lemma known_queues_push:
  assumes "known_queues key P cap known m" and "bt_contains known k" and "key x = k" and "P []"
    and "P (push_trim cap (entry_or_default m k) x)"
  shows "known_queues key P cap known (bt_insert k (push_trim cap (entry_or_default m k) x) m)"
proof (rule known_queues_insert [OF assms(1,2)])
  show "length (push_trim cap (entry_or_default m k) x) \<le> cap"
    by (simp add: length_push_trim)
  show "\<forall>y\<in>set (push_trim cap (entry_or_default m k) x). key y = k"
    using set_push_trim [of cap "entry_or_default m k" x] entry_ok [OF assms(1,4), of k] assms(3)
    by blast
qed (rule assms(5))

lemma distinct_adj_drop: "distinct_adj xs \<Longrightarrow> distinct_adj (drop n xs)"
  by (metis append_take_drop_id distinct_adj_appendD2)

lemma trade_ids_alternate_push:
  assumes "trade_ids_alternate q" and "q = [] \<or> tt_trade_id (last q) \<noteq> tt_trade_id x"
  shows "trade_ids_alternate (push_trim cap q x)"
proof -
  have "distinct_adj (map tt_trade_id (q @ [x]))"
    using assms by (auto simp: trade_ids_alternate_def distinct_adj_append_iff last_map)
  then show ?thesis
    unfolding trade_ids_alternate_def push_trim_def trim_front_drop drop_map [symmetric]
    by (rule distinct_adj_drop)
qed

text \<open>Conversions keep the instrument (and the trade identifier).\<close>

lemma ticker_unified_id: "ticker_to_unified D spec t = Some u \<Longrightarrow> tk_instrument_id u = ft_instrument_id t"
  by (auto simp: ticker_to_unified_def bind_eq_Some_conv)

lemma trade_unified_id: "trade_to_unified D spec t = Some u \<Longrightarrow> tt_instrument_id u = ftr_instrument_id t"
  by (auto simp: trade_to_unified_def bind_eq_Some_conv)

lemma book_top_unified_id: "book_top_to_unified D spec b = Some u \<Longrightarrow> bk_instrument_id u = fbt_instrument_id b"
  by (auto simp: book_top_to_unified_def bind_eq_Some_conv)

lemma kline_unified_id: "kline_to_unified D spec k = Some u \<Longrightarrow> kl_instrument_id u = fk_instrument_id k"
  by (auto simp: kline_to_unified_def bind_eq_Some_conv)

lemma mark_price_unified_id: "mark_price_to_unified D spec m = Some u \<Longrightarrow> mp_instrument_id u = fmp_instrument_id m"
  by (auto simp: mark_price_to_unified_def bind_eq_Some_conv)

lemma liquidation_unified_id: "liquidation_to_unified D spec l = Some u \<Longrightarrow> lq_instrument_id u = fl_instrument_id l"
  by (auto simp: liquidation_to_unified_def bind_eq_Some_conv)

lemma with_unified_keeps:
  assumes "Q s"
    and "\<And>spec u. Q s \<Longrightarrow> bt_contains (es_instruments s) iid \<Longrightarrow> conv spec = Some u \<Longrightarrow> Q (k u)"
  shows "Q (snd (with_unified s iid conv k))"
  using assms
  by (cases "bt_get (es_instruments s) iid")
    (auto simp: with_unified_def engine_spec_def bt_contains_def split: option.splits)

lemma health_inv_step_each [model_inv]:
  assumes "health_inv h"
  shows "health_inv (observe_public_message t h)" "health_inv (observe_private_message t h)"
    "health_inv (observe_rest_success r h)" "health_inv (mark_public_disconnect h)"
    "health_inv (mark_public_gap h)" "health_inv (mark_private_disconnect h)"
    "health_inv (mark_private_gap h)" "health_inv (mark_snapshot_age a l h)"
    "health_inv (mark_reconnect h)" "health_inv (mark_reconcile_required h)"
    "health_inv (mark_command_uncertain h)" "health_inv (mark_state_divergence h)"
    "health_inv (mark_reconcile_complete h)"
  using health_step_inv [OF assms, of "PublicMessage t"] health_step_inv [OF assms, of "PrivateMessage t"]
    health_step_inv [OF assms, of "RestSuccess r"] health_step_inv [OF assms, of PublicDisconnect]
    health_step_inv [OF assms, of PublicGap] health_step_inv [OF assms, of PrivateDisconnect]
    health_step_inv [OF assms, of PrivateGap] health_step_inv [OF assms, of "SnapshotAge a l"]
    health_step_inv [OF assms, of HealthReconnect] health_step_inv [OF assms, of NeedReconcile]
    health_step_inv [OF assms, of CommandDoubt] health_step_inv [OF assms, of Diverge]
    health_step_inv [OF assms, of ReconcileComplete]
  by simp_all

subsection \<open>Preservation\<close>

text \<open>A call that only touches the health, or one market map, keeps the rest.\<close>

lemma engine_wf_health [model_inv]:
  "engine_wf s \<Longrightarrow> health_inv h \<Longrightarrow> engine_wf (s\<lparr>es_health := h\<rparr>)"
  by (simp add: engine_wf_def market_wf_def private_wf_def)

lemma engine_wf_healthD: "engine_wf s \<Longrightarrow> health_inv (es_health s)"
  by (simp add: engine_wf_def)

lemma engine_wf_marketD: "engine_wf s \<Longrightarrow> market_wf s"
  by (simp add: engine_wf_def)

lemma apply_fast_ticker_wf: "engine_wf s \<Longrightarrow> engine_wf (snd (apply_fast_ticker D t s))"
  unfolding apply_fast_ticker_def
  by (erule with_unified_keeps)
    (simp add: engine_wf_def market_wf_def private_wf_def model_inv ticker_unified_id)

lemma apply_fast_book_top_wf: "engine_wf s \<Longrightarrow> engine_wf (snd (apply_fast_book_top D t s))"
  unfolding apply_fast_book_top_def
  by (erule with_unified_keeps)
    (simp add: engine_wf_def market_wf_def private_wf_def model_inv book_top_unified_id)

lemma apply_fast_kline_wf: "engine_wf s \<Longrightarrow> engine_wf (snd (apply_fast_kline D t s))"
  unfolding apply_fast_kline_def
  by (erule with_unified_keeps)
    (simp add: engine_wf_def market_wf_def private_wf_def model_inv kline_unified_id)

lemma apply_fast_mark_price_wf: "engine_wf s \<Longrightarrow> engine_wf (snd (apply_fast_mark_price D t s))"
  unfolding apply_fast_mark_price_def
  by (erule with_unified_keeps)
    (simp add: engine_wf_def market_wf_def private_wf_def model_inv mark_price_unified_id)

lemma apply_fast_liquidation_wf: "engine_wf s \<Longrightarrow> engine_wf (snd (apply_fast_liquidation D t s))"
  unfolding apply_fast_liquidation_def
  by (erule with_unified_keeps)
    (simp add: engine_wf_def market_wf_def private_wf_def model_inv known_queues_push
      liquidation_unified_id)

lemma apply_fast_trade_wf: "engine_wf s \<Longrightarrow> engine_wf (snd (apply_fast_trade D t s))"
  unfolding apply_fast_trade_def
proof (erule with_unified_keeps)
  fix spec u
  let ?iid = "ftr_instrument_id t" and ?cap = "st_recent_trade_capacity (es_state_policy s)"
  let ?entry = "entry_or_default (es_recent_trades s) ?iid"
  assume wf: "engine_wf s" and known: "bt_contains (es_instruments s) ?iid"
    and u: "trade_to_unified D spec t = Some u"
  have q: "known_queues tt_instrument_id trade_ids_alternate ?cap (es_instruments s) (es_recent_trades s)"
    using wf by (simp add: engine_wf_def market_wf_def)
  have nil: "trade_ids_alternate []" by (simp add: trade_ids_alternate_def)
  note entry = entry_ok [OF q nil, of ?iid]
  have same: "known_queues tt_instrument_id trade_ids_alternate ?cap (es_instruments s)
      (bt_insert ?iid ?entry (es_recent_trades s))"
    using q known entry by (simp add: known_queues_insert)
  have push: "known_queues tt_instrument_id trade_ids_alternate ?cap (es_instruments s)
      (bt_insert ?iid (push_trim ?cap ?entry u) (es_recent_trades s))"
    if "\<not> (?entry \<noteq> [] \<and> tt_trade_id (last ?entry) = tt_trade_id u)"
    using q known nil entry that
    by (intro known_queues_push) (auto simp: trade_unified_id [OF u] intro!: trade_ids_alternate_push)
  show "engine_wf
     (let s1 = s\<lparr>es_health := observe_public_message (ftr_event_time t) (es_health s)\<rparr>; entry = ?entry
      in if entry \<noteq> [] \<and> tt_trade_id (last entry) = tt_trade_id u
         then s1\<lparr>es_recent_trades := bt_insert ?iid entry (es_recent_trades s)\<rparr>
         else s1\<lparr>es_recent_trades := bt_insert ?iid (push_trim ?cap entry u) (es_recent_trades s)\<rparr>)"
    using wf same push
    by (simp add: Let_def engine_wf_def market_wf_def private_wf_def health_inv_step_each)
qed

lemma engine_wf_funding: "engine_wf s \<Longrightarrow> engine_wf (s\<lparr>es_health := observe_public_message t (es_health s),
    es_funding_rates := bt_insert (fr_instrument_id f) f (es_funding_rates s)\<rparr>)"
  by (simp add: engine_wf_def market_wf_def private_wf_def health_inv_step_each)

lemma engine_wf_open_interest: "engine_wf s \<Longrightarrow> engine_wf (s\<lparr>es_health := observe_public_message t (es_health s),
    es_open_interest := bt_insert (oi_instrument_id f) f (es_open_interest s)\<rparr>)"
  by (simp add: engine_wf_def market_wf_def private_wf_def health_inv_step_each)

lemma apply_public_event_wf: "engine_wf s \<Longrightarrow> engine_wf (snd (apply_public_event D e s))"
  by (cases e)
    (simp_all add: apply_fast_ticker_wf apply_fast_book_top_wf apply_fast_kline_wf
      apply_fast_mark_price_wf apply_fast_liquidation_wf apply_fast_trade_wf
      engine_wf_funding engine_wf_open_interest engine_wf_health engine_wf_healthD
      health_inv_step_each split: DivergenceEvent.split)

lemma push_execution_wf: "engine_wf s \<Longrightarrow> engine_wf (push_execution e s)"
proof (cases "list_ex (\<lambda>x. exe_execution_id x = exe_execution_id e) (es_executions s)")
  case False
  then have "exe_execution_id e \<notin> exe_execution_id ` set (es_executions s)"
    by (auto simp: list_ex_iff)
  moreover assume "engine_wf s"
  ultimately show ?thesis using False
    by (simp add: push_execution_def engine_wf_def market_wf_def private_wf_def
        distinct_map_push_trim length_push_trim)
qed (simp add: push_execution_def)

lemma apply_private_event_wf: "engine_wf s \<Longrightarrow> engine_wf (apply_private_event e s)"
proof (cases e)
  case (Execution x)
  moreover assume "engine_wf s"
  ultimately show ?thesis
    by (simp add: push_execution_wf engine_wf_health engine_wf_healthD health_inv_step_each)
qed (simp_all add: engine_wf_def market_wf_def private_wf_def health_inv_step_each
      split: DivergenceEvent.split)

lemma touch_private_wf [model_inv]: "engine_wf s \<Longrightarrow> engine_wf (touch_private t s)"
  by (auto simp: touch_private_def engine_wf_health engine_wf_healthD health_inv_step_each
      split: option.split)

lemma replace_instruments_wf: "engine_wf s \<Longrightarrow> engine_wf (replace_instruments specs s)"
  by (auto simp: engine_wf_def market_wf_def private_wf_def replace_instruments_def
      prune_orphan_market_state_def intro: known_filed_retain known_queues_retain)

lemma replace_account_snapshot_wf: "engine_wf s \<Longrightarrow> engine_wf (replace_account_snapshot a s)"
  unfolding replace_account_snapshot_def Let_def
  by (rule touch_private_wf) (simp add: engine_wf_def market_wf_def private_wf_def)

lemma replace_positions_wf: "engine_wf s \<Longrightarrow> engine_wf (replace_positions ps s)"
  unfolding replace_positions_def
  by (rule touch_private_wf) (simp add: engine_wf_def market_wf_def private_wf_def)

lemma replace_open_orders_wf: "engine_wf s \<Longrightarrow> engine_wf (replace_open_orders rs s)"
  unfolding replace_open_orders_def
  by (rule touch_private_wf) (simp add: engine_wf_def market_wf_def private_wf_def)

lemma merge_order_history_wf: "engine_wf s \<Longrightarrow> engine_wf (merge_order_history rs s)"
  unfolding merge_order_history_def
  by (rule touch_private_wf) (simp add: engine_wf_def market_wf_def private_wf_def)

lemma merge_executions_wf: "engine_wf s \<Longrightarrow> engine_wf (merge_executions es s)"
proof -
  have "engine_wf s \<Longrightarrow> engine_wf (foldl (\<lambda>st e. push_execution e st) s es)"
    by (induction es arbitrary: s) (simp_all add: push_execution_wf)
  then show "engine_wf s \<Longrightarrow> engine_wf (merge_executions es s)"
    by (simp add: merge_executions_def touch_private_wf)
qed

lemma apply_private_snapshot_wf: "engine_wf s \<Longrightarrow> engine_wf (apply_private_snapshot p s)"
  by (simp add: apply_private_snapshot_def Let_def replace_open_orders_wf replace_positions_wf
      replace_account_snapshot_wf split: option.split)

lemma engine_step_wf: "engine_wf s \<Longrightarrow> engine_wf (engine_step D s i)"
  by (cases i)
    (simp_all add: apply_public_event_wf apply_private_event_wf replace_instruments_wf
      replace_account_snapshot_wf replace_positions_wf replace_open_orders_wf
      merge_order_history_wf merge_executions_wf apply_private_snapshot_wf
      engine_apply_command_receipt_def apply_reconcile_report_def engine_mark_rest_success_def
      engine_mark_public_disconnect_def engine_mark_private_disconnect_def
      engine_mark_reconnect_def engine_mark_snapshot_age_def
      engine_wf_health engine_wf_healthD health_inv_step_each
      split: CommandStatus.split ReconcileOutcome.split)

interpretation engine: reactive_machine "engine_step D" engine_wf for D
  by unfold_locales (rule engine_step_wf)

lemma engine_new_wf: "engine_wf (engine_new v p policy specs)"
  by (simp add: engine_new_def engine_wf_def market_wf_def private_wf_def health_inv_default)

interpretation engine_policy: observed_machine "engine_step D" engine_wf es_state_policy "\<lambda>_. True" for D
proof
  fix s :: "'a EngineState" and i
  have "es_state_policy (foldl (\<lambda>st e. push_execution e st) s es) = es_state_policy s" for es and s :: "'a EngineState"
    by (induction es arbitrary: s) (simp_all add: push_execution_def)
  moreover have "es_state_policy (snd (apply_public_event D e s)) = es_state_policy s" for e
    by (cases e) (simp_all add: with_unified_def apply_fast_ticker_def apply_fast_trade_def
        apply_fast_book_top_def apply_fast_kline_def apply_fast_mark_price_def
        apply_fast_liquidation_def Let_def split: sum.split option.split DivergenceEvent.split)
  moreover have "es_state_policy (apply_private_event e s) = es_state_policy s" for e
    by (cases e) (simp_all add: push_execution_def)
  ultimately show "es_state_policy (engine_step D s i) = es_state_policy s"
    by (cases i) (simp_all add: engine_apply_command_receipt_def replace_instruments_def
        prune_orphan_market_state_def replace_account_snapshot_def touch_private_def Let_def
        replace_positions_def replace_open_orders_def merge_order_history_def merge_executions_def
        apply_private_snapshot_def apply_reconcile_report_def engine_mark_rest_success_def
        engine_mark_public_disconnect_def engine_mark_private_disconnect_def
        engine_mark_reconnect_def engine_mark_snapshot_age_def
        split: CommandStatus.split option.split)
qed

section \<open>Properties\<close>

text \<open>
  C5. Whatever sequence of stream events, snapshots, receipts, metadata refreshes and health
  marks an engine sees, its state stays well formed: executions never repeat an identifier and
  never exceed their capacity, the trade tape of an instrument is bounded, belongs to that
  instrument and never repeats the identifier of the preceding trade, and every map is filed
  under the keys of its values.
\<close>

theorem engine_state_invariant:
  "let s = foldl (engine_step D) (engine_new v p policy specs) inputs in
   engine_wf s \<and>
   distinct (map exe_execution_id (engine_executions s)) \<and>
   length (engine_executions s) \<le> st_execution_capacity policy \<and>
   (case engine_recent_trades s iid of
      None \<Rightarrow> True
    | Some q \<Rightarrow> length q \<le> st_recent_trade_capacity policy \<and>
        set (map tt_instrument_id q) \<subseteq> {iid} \<and> distinct_adj (map tt_trade_id q)) \<and>
   health_inv (es_health s)"
proof -
  let ?s = "foldl (engine_step D) (engine_new v p policy specs) inputs"
  have wf: "engine_wf ?s" by (rule engine.run_keeps) (rule engine_new_wf)
  have policy: "es_state_policy ?s = policy"
    using engine_policy.quiet_run [OF engine_new_wf, of inputs D v p policy specs]
    by (simp add: engine_new_def list_all_iff)
  show ?thesis using wf policy
    by (auto simp: Let_def engine_wf_def private_wf_def market_wf_def known_queues_def
        trade_ids_alternate_def engine_executions_def engine_recent_trades_def split: option.splits)
qed

lemma with_unified_fail: "fst (with_unified s iid conv k) = Ok () \<or> snd (with_unified s iid conv k) = s"
  by (auto simp: with_unified_def split: sum.split option.split)

lemma with_unified_Err:
  "fst (with_unified s iid conv k) = Err err \<longleftrightarrow>
    \<not> bt_contains (es_instruments s) iid \<and> err = unknown_public_event_error s iid"
  by (cases "bt_get (es_instruments s) iid")
    (auto simp: with_unified_def engine_spec_def bt_contains_def unknown_public_event_error_def
      split: option.split)

lemmas apply_fast_defs =
  apply_fast_ticker_def apply_fast_trade_def apply_fast_book_top_def apply_fast_kline_def
  apply_fast_mark_price_def apply_fast_liquidation_def

lemma public_event_fail_same:
  "fst (apply_public_event D e s) = Ok () \<or> snd (apply_public_event D e s) = s"
  by (cases e) (simp_all only: apply_public_event.simps apply_fast_defs with_unified_fail fst_conv simp_thms)

lemma public_event_Err:
  "fst (apply_public_event D e s) = Err err \<longleftrightarrow>
    (\<exists>iid. fallible_public_event_instrument_id e = Some iid \<and>
       \<not> bt_contains (es_instruments s) iid \<and> err = unknown_public_event_error s iid)"
  by (cases e) (simp_all add: apply_fast_defs with_unified_Err)

text \<open>
  A public event that fails changes nothing, and it is refused with an error exactly when
  it is of a kind that needs a specification and names an instrument the engine does not
  know; the error is the one \<^verbatim>\<open>client.rs\<close> reports for a refused batch.
\<close>

theorem public_event_failure_atomic:
  "(fst (apply_public_event D e s) = Ok () \<or> snd (apply_public_event D e s) = s) \<and>
   (fst (apply_public_event D e s) = Err err \<longleftrightarrow>
     (\<exists>iid. fallible_public_event_instrument_id e = Some iid \<and>
        \<not> bt_contains (es_instruments s) iid \<and> err = unknown_public_event_error s iid))"
  by (intro conjI) (rule public_event_fail_same, rule public_event_Err)

lemma observe_private_twice [simp]:
  "observe_private_message t (observe_private_message t h) = observe_private_message t h"
  by (auto simp: observe_private_message_def Let_def)

lemma push_execution_twice: "push_execution e (push_execution e s) = push_execution e s"
proof (cases "st_execution_capacity (es_state_policy s)")
  case 0
  then show ?thesis by (auto simp: push_execution_def push_trim_def trim_front_drop)
next
  case (Suc n)
  then have "e \<in> set (push_trim (st_execution_capacity (es_state_policy s)) (es_executions s) e)"
    using last_push_trim [of "st_execution_capacity (es_state_policy s)" "es_executions s" e]
    by (metis last_in_set zero_less_Suc)
  then show ?thesis by (auto simp: push_execution_def list_ex_iff)
qed

lemma push_execution_health:
  "es_health_update f (push_execution e s) = push_execution e (es_health_update f s)"
  by (simp add: push_execution_def)

text \<open>
  C11. The private lane is idempotent, as its lane policy declares: delivering any private event
  a second time leaves the whole state, health included, as the first delivery left it, also
  when an execution queue is full or has capacity zero.
\<close>

theorem private_lane_idempotent:
  "lp_idempotent (ls_private lane_set_defaults) \<and>
   apply_private_event e (apply_private_event e s) = apply_private_event e s"
proof (cases e)
  case (Execution x)
  have "es_health (push_execution x t) = es_health t" for t :: "'a EngineState"
    by (simp add: push_execution_def)
  with Execution show ?thesis
    by (simp add: push_execution_health push_execution_twice lane_set_defaults_def)
next
  case (Divergence d)
  then show ?thesis
    by (cases d) (simp_all add: lane_set_defaults_def health_defs)
qed (simp_all add: lane_set_defaults_def)

subsection \<open>Lanes\<close>

text \<open>What the market-data reads can see, and what the account reads can see.\<close>

definition market_view :: "'d EngineState \<Rightarrow> _" where
  "market_view s = (es_venue s, es_product s, es_state_policy s, es_instruments s, es_tickers s,
     es_recent_trades s, es_book_tops s, es_klines s, es_mark_prices s, es_funding_rates s,
     es_open_interest s, es_liquidations s)"

definition private_view :: "'d EngineState \<Rightarrow> _" where
  "private_view s = (es_state_policy s, es_balances s, es_account_summary s, es_positions s,
     es_orders s, es_executions s)"

lemma with_unified_views:
  assumes "market_view s = market_view s'" and "\<And>u. market_view (k u) = market_view (k' u)"
  shows "fst (with_unified s iid conv k) = fst (with_unified s' iid conv k') \<and>
    market_view (snd (with_unified s iid conv k)) = market_view (snd (with_unified s' iid conv k'))"
proof -
  have "engine_spec s iid = engine_spec s' iid"
    using assms(1) by (simp add: engine_spec_def market_view_def)
  with assms show ?thesis
    by (auto simp: with_unified_def split: sum.split option.split)
qed

lemma apply_public_event_view:
  assumes "market_view s = market_view s'"
  shows "fst (apply_public_event D e s) = fst (apply_public_event D e s') \<and>
    market_view (snd (apply_public_event D e s)) = market_view (snd (apply_public_event D e s'))"
proof -
  have eqs: "es_tickers s = es_tickers s'" "es_recent_trades s = es_recent_trades s'"
    "es_book_tops s = es_book_tops s'" "es_klines s = es_klines s'"
    "es_mark_prices s = es_mark_prices s'" "es_liquidations s = es_liquidations s'"
    "es_state_policy s = es_state_policy s'"
    using assms by (simp_all add: market_view_def)
  show ?thesis
    by (cases e; hypsubst; (unfold apply_public_event.simps apply_fast_defs)?;
        (rule with_unified_views [OF assms])?)
      (use assms eqs in \<open>simp_all add: market_view_def Let_def split: DivergenceEvent.split\<close>)
qed

lemma private_view_with_unified:
  "(\<And>u. private_view (k u) = private_view s) \<Longrightarrow>
    private_view (snd (with_unified s iid conv k)) = private_view s"
  by (auto simp: with_unified_def split: sum.split option.split)

lemma apply_public_event_private:
  "private_view (snd (apply_public_event D e s)) = private_view s"
  by (cases e; hypsubst; (unfold apply_public_event.simps apply_fast_defs)?;
      (rule private_view_with_unified)?)
    (simp_all add: private_view_def Let_def split: DivergenceEvent.split)

lemma apply_private_event_market: "market_view (apply_private_event e s) = market_view s"
  by (cases e) (simp_all add: market_view_def push_execution_def)

lemma apply_private_event_view:
  "private_view s = private_view s' \<Longrightarrow>
    private_view (apply_private_event e s) = private_view (apply_private_event e s')"
  by (cases e) (simp_all add: private_view_def push_execution_def)

text \<open>
  The lanes do not interfere: a public event leaves balances, positions, orders and
  executions alone, a private event leaves the market data and the instruments alone, whether
  a public event is accepted does not depend on private traffic, and the data both lanes
  produce does not depend on the order in which two of their events are interleaved.
\<close>

theorem lanes_do_not_interfere:
  "private_view (snd (apply_public_event D e s)) = private_view s \<and>
   market_view (apply_private_event p s) = market_view s \<and>
   fst (apply_public_event D e (apply_private_event p s)) = fst (apply_public_event D e s) \<and>
   market_view (snd (apply_public_event D e (apply_private_event p s))) =
     market_view (apply_private_event p (snd (apply_public_event D e s))) \<and>
   private_view (snd (apply_public_event D e (apply_private_event p s))) =
     private_view (apply_private_event p (snd (apply_public_event D e s)))"
  using apply_public_event_view [OF apply_private_event_market]
  by (simp add: apply_public_event_private apply_private_event_market
      apply_private_event_view [OF apply_public_event_private])

subsection \<open>Replacement\<close>

lemma touch_private_data [simp]:
  "es_orders (touch_private t s) = es_orders s" "es_positions (touch_private t s) = es_positions s"
  "es_balances (touch_private t s) = es_balances s"
  "es_account_summary (touch_private t s) = es_account_summary s"
  by (simp_all add: touch_private_def split: option.split)

lemma values_collect:
  assumes "distinct (map key xs)"
  shows "set (bt_values (bt_collect key xs)) = set xs"
proof -
  have "v \<in> set (bt_values (bt_collect key xs)) \<longleftrightarrow> v \<in> set xs" for v
    using find_rev_distinct [OF assms, of v] find_SomeD [of "\<lambda>x. key x = key v" "rev xs" v]
    by (auto simp: bt_filed_values [OF bt_filed_collect] bt_get_collect)
  then show ?thesis by blast
qed

lemma open_orders_replaced:
  assumes "bt_filed ord_order_id m" and "distinct (map ord_order_id rs)"
  shows "bt_get (bt_extend ord_order_id (\<lambda>r. r) (bt_retain (\<lambda>_ r. \<not> order_is_open r) m) rs) k = Some r \<longleftrightarrow>
    ord_order_id r = k \<and> (r \<in> set rs \<or>
      (k \<notin> ord_order_id ` set rs \<and> bt_get m k = Some r \<and> \<not> order_is_open r))"
proof (cases "k \<in> ord_order_id ` set rs")
  case True
  then obtain x where x: "x \<in> set rs" "ord_order_id x = k" by auto
  then have "find (\<lambda>y. ord_order_id y = k) (rev rs) = Some x"
    using find_rev_distinct [OF assms(2) x(1)] by simp
  moreover have "r = x" if "r \<in> set rs" "ord_order_id r = k"
    using that x assms(2) by (metis distinct_map inj_onD)
  ultimately show ?thesis using x assms by (auto simp: bt_get_extend)
next
  case False
  then have "find (\<lambda>y. ord_order_id y = k) (rev rs) = None"
    by (auto simp: find_None_iff)
  with False assms show ?thesis
    by (auto simp: bt_get_extend dest: bt_filed_key split: option.splits)
qed

lemma orders_after_replacement:
  assumes "bt_filed ord_order_id (es_orders s)" and "distinct (map ord_order_id rs)"
  shows "set (engine_orders (replace_open_orders rs s)) =
    set rs \<union> {r \<in> set (engine_orders s). \<not> order_is_open r \<and> ord_order_id r \<notin> ord_order_id ` set rs}"
    (is "?after = ?expected")
proof -
  have "bt_filed ord_order_id (bt_extend ord_order_id (\<lambda>r. r)
      (bt_retain (\<lambda>_ r. \<not> order_is_open r) (es_orders s)) rs)"
    using assms(1) by simp
  from bt_filed_values [OF this] have "r \<in> ?after \<longleftrightarrow> r \<in> ?expected" for r
    using bt_filed_values [OF assms(1)]
    by (simp add: engine_orders_def replace_open_orders_def open_orders_replaced [OF assms])
      (metis image_eqI)
  then show ?thesis by blast
qed

text \<open>
  C22. Replacing the open orders installs exactly what the venue reported: afterwards the open
  orders are those of the report (and no open order survives that the report does not
  contain), every reported order is stored, and the finished orders the report does not
  mention are kept as history.
\<close>

theorem replace_open_orders_exact:
  assumes "engine_wf s" and "distinct (map ord_order_id rs)"
  shows "set (engine_open_orders (replace_open_orders rs s)) = {r \<in> set rs. order_is_open r} \<and>
    set (engine_orders (replace_open_orders rs s)) =
      set rs \<union> {r \<in> set (engine_orders s). \<not> order_is_open r \<and> ord_order_id r \<notin> ord_order_id ` set rs}"
proof -
  have filed: "bt_filed ord_order_id (es_orders s)"
    using assms(1) by (simp add: engine_wf_def private_wf_def)
  from orders_after_replacement [OF filed assms(2)] show ?thesis
    by (auto simp: engine_open_orders_def engine_orders_def)
qed

text \<open>
  A private snapshot is installed completely: the positions and open orders read back are
  those of the snapshot, and the balances too when the snapshot carries an account.
\<close>

theorem private_snapshot_installs:
  assumes "engine_wf s" and "distinct (map ord_order_id (snap_open_orders p))"
    and "distinct (map pos_instrument_id (snap_positions p))"
    and "snap_account p = Some account" and "distinct (map bal_asset (acc_balances account))"
  shows "set (engine_positions (apply_private_snapshot p s)) = set (snap_positions p) \<and>
    set (engine_open_orders (apply_private_snapshot p s)) = {r \<in> set (snap_open_orders p). order_is_open r} \<and>
    set (engine_balances (apply_private_snapshot p s)) = set (acc_balances account)"
proof (intro conjI)
  let ?s1 = "replace_account_snapshot account s"
  let ?s2 = "replace_positions (snap_positions p) ?s1"
  have snap: "apply_private_snapshot p s = replace_open_orders (snap_open_orders p) ?s2"
    using assms(4) by (simp add: apply_private_snapshot_def)
  have "engine_wf ?s2"
    by (intro replace_positions_wf replace_account_snapshot_wf assms(1))
  then have filed: "bt_filed ord_order_id (es_orders ?s2)"
    by (simp add: engine_wf_def private_wf_def)
  from orders_after_replacement [OF filed assms(2)]
  show "set (engine_open_orders (apply_private_snapshot p s)) = {r \<in> set (snap_open_orders p). order_is_open r}"
    by (auto simp: snap engine_open_orders_def engine_orders_def)
  show "set (engine_positions (apply_private_snapshot p s)) = set (snap_positions p)"
    by (simp add: snap replace_open_orders_def replace_positions_def engine_positions_def
        values_collect assms(3))
  show "set (engine_balances (apply_private_snapshot p s)) = set (acc_balances account)"
    by (simp add: snap replace_open_orders_def replace_positions_def engine_balances_def Let_def
        replace_account_snapshot_def values_collect assms(5))
qed

text \<open>
  A metadata refresh drops the market data of the instruments that disappeared, all eight
  kinds of it, and keeps the data of the others untouched; account state is not affected.
\<close>

theorem replace_instruments_prunes:
  assumes "engine_wf s"
  shows "let s' = replace_instruments specs s; known = iid \<in> is_instrument_id ` set specs in
    engine_ticker s' iid = (if known then engine_ticker s iid else None) \<and>
    engine_recent_trades s' iid = (if known then engine_recent_trades s iid else None) \<and>
    engine_book_top s' iid = (if known then engine_book_top s iid else None) \<and>
    bt_get (es_klines s') iid = (if known then bt_get (es_klines s) iid else None) \<and>
    engine_mark_price s' iid = (if known then engine_mark_price s iid else None) \<and>
    engine_funding_rate s' iid = (if known then engine_funding_rate s iid else None) \<and>
    engine_open_interest s' iid = (if known then engine_open_interest s iid else None) \<and>
    engine_liquidations s' iid = (if known then engine_liquidations s iid else None) \<and>
    private_view s' = private_view s"
proof -
  have known: "bt_contains (bt_collect is_instrument_id specs) iid \<longleftrightarrow> iid \<in> is_instrument_id ` set specs"
    by (auto simp: bt_contains_collect)
  have retain: "bt_wf m \<Longrightarrow> bt_get (bt_retain (\<lambda>iid _. bt_contains (bt_collect is_instrument_id specs) iid) m) iid =
      (if iid \<in> is_instrument_id ` set specs then bt_get m iid else None)"
    for m :: "(InstrumentId, 'v) btree_map"
    by (simp add: known split: option.split)
  from assms show ?thesis
    by (simp add: Let_def replace_instruments_def prune_orphan_market_state_def private_view_def
        engine_ticker_def engine_recent_trades_def engine_book_top_def engine_mark_price_def
        engine_funding_rate_def engine_open_interest_def engine_liquidations_def
        engine_wf_def market_wf_def known_filed_def known_queues_def retain bt_filed_def
        del: bt_get_laws)
qed

subsection \<open>Conversions never panic\<close>

text \<open>Every fast value of an event is an \<^verbatim>\<open>i64\<close>, as its Rust type says.\<close>

definition opt_i64 :: "'t fast_value option \<Rightarrow> bool" where
  "opt_i64 v \<longleftrightarrow> (case v of None \<Rightarrow> True | Some x \<Rightarrow> in_i64 (fast x))"

fun event_i64 :: "'d PublicLaneEvent \<Rightarrow> bool" where
  "event_i64 (Ticker t) \<longleftrightarrow> in_i64 (fast (ft_last_price t)) \<and> opt_i64 (ft_mark_price t) \<and>
     opt_i64 (ft_index_price t) \<and> opt_i64 (ft_volume_24h t) \<and> opt_i64 (ft_turnover_24h t)"
| "event_i64 (Trade t) \<longleftrightarrow> in_i64 (fast (ftr_price t)) \<and> in_i64 (fast (ftr_quantity t))"
| "event_i64 (BookTop b) \<longleftrightarrow> in_i64 (fast (fbt_bid_price b)) \<and> in_i64 (fast (fbt_bid_quantity b)) \<and>
     in_i64 (fast (fbt_ask_price b)) \<and> in_i64 (fast (fbt_ask_quantity b))"
| "event_i64 (Kline k) \<longleftrightarrow> in_i64 (fast (fk_open k)) \<and> in_i64 (fast (fk_high k)) \<and>
     in_i64 (fast (fk_low k)) \<and> in_i64 (fast (fk_close k)) \<and> in_i64 (fast (fk_volume k))"
| "event_i64 (PublicLaneEvent.MarkPrice m) \<longleftrightarrow> in_i64 (fast (fmp_price m))"
| "event_i64 (Liquidation l) \<longleftrightarrow> in_i64 (fast (fl_price l)) \<and> in_i64 (fast (fl_quantity l))"
| "event_i64 _ \<longleftrightarrow> True"

lemma opt_try_defined:
  "opt_i64 v \<Longrightarrow> (\<And>x. in_i64 (fast x) \<Longrightarrow> \<exists>p. f x = Some p) \<Longrightarrow> \<exists>p. opt_try f v = Some p"
  by (cases v) (auto simp: opt_i64_def opt_try_def)

lemma with_unified_no_panic:
  "(\<And>spec. bt_get (es_instruments s) iid = Some spec \<Longrightarrow> \<exists>u. conv spec = Some u) \<Longrightarrow>
    fst (with_unified s iid conv k) \<noteq> Panic"
  by (cases "bt_get (es_instruments s) iid")
    (auto simp: with_unified_def engine_spec_def split: option.split)

lemma conversion_defined:
  assumes "decimal_laws D" and "scales_ok spec"
  shows "event_i64 (Ticker t) \<Longrightarrow> \<exists>u. ticker_to_unified D spec t = Some u"
    and "event_i64 (Trade tr) \<Longrightarrow> \<exists>u. trade_to_unified D spec tr = Some u"
    and "event_i64 (BookTop b) \<Longrightarrow> \<exists>u. book_top_to_unified D spec b = Some u"
    and "event_i64 (Kline k) \<Longrightarrow> \<exists>u. kline_to_unified D spec k = Some u"
    and "event_i64 (PublicLaneEvent.MarkPrice m) \<Longrightarrow> \<exists>u. mark_price_to_unified D spec m = Some u"
    and "event_i64 (Liquidation l) \<Longrightarrow> \<exists>u. liquidation_to_unified D spec l = Some u"
proof -
  note price = from_fast_defined [OF assms(1) _ assms(2)]
  note quantity = quantity_from_fast_defined [OF assms(1) _ assms(2)]
  note notional = to_notional_defined [OF assms(1) _ assms(2)]
  show "event_i64 (Ticker t) \<Longrightarrow> \<exists>u. ticker_to_unified D spec t = Some u"
    using price [of "ft_last_price t"]
      opt_try_defined [of "ft_mark_price t" "price_from_fast D spec", OF _ price]
      opt_try_defined [of "ft_index_price t" "price_from_fast D spec", OF _ price]
      opt_try_defined [of "ft_volume_24h t" "quantity_from_fast D spec", OF _ quantity]
      opt_try_defined [of "ft_turnover_24h t" "\<lambda>v. to_notional D v (is_quote_scale spec)", OF _ notional]
    by (auto simp: ticker_to_unified_def)
  show "event_i64 (Trade tr) \<Longrightarrow> \<exists>u. trade_to_unified D spec tr = Some u"
    using price [of "ftr_price tr"] quantity [of "ftr_quantity tr"] by (auto simp: trade_to_unified_def)
  show "event_i64 (BookTop b) \<Longrightarrow> \<exists>u. book_top_to_unified D spec b = Some u"
    using price [of "fbt_bid_price b"] quantity [of "fbt_bid_quantity b"]
      price [of "fbt_ask_price b"] quantity [of "fbt_ask_quantity b"]
    by (auto simp: book_top_to_unified_def)
  show "event_i64 (Kline k) \<Longrightarrow> \<exists>u. kline_to_unified D spec k = Some u"
    using price [of "fk_open k"] price [of "fk_high k"] price [of "fk_low k"] price [of "fk_close k"]
      quantity [of "fk_volume k"] by (auto simp: kline_to_unified_def)
  show "event_i64 (PublicLaneEvent.MarkPrice m) \<Longrightarrow> \<exists>u. mark_price_to_unified D spec m = Some u"
    using price [of "fmp_price m"] by (auto simp: mark_price_to_unified_def)
  show "event_i64 (Liquidation l) \<Longrightarrow> \<exists>u. liquidation_to_unified D spec l = Some u"
    using price [of "fl_price l"] quantity [of "fl_quantity l"] by (auto simp: liquidation_to_unified_def)
qed

definition specs_ok :: "'d EngineState \<Rightarrow> bool" where
  "specs_ok s \<longleftrightarrow> list_all scales_ok (instrument_specs s)"

lemma specs_okD: "specs_ok s \<Longrightarrow> bt_wf (es_instruments s) \<Longrightarrow> bt_get (es_instruments s) iid = Some spec \<Longrightarrow> scales_ok spec"
  by (auto simp: specs_ok_def instrument_specs_def list_all_iff bt.vals_iff)

lemma outcome_cases [case_names Ok Err Panic]:
  "(r = Ok () \<Longrightarrow> P) \<Longrightarrow> (\<And>e. r = Err e \<Longrightarrow> P) \<Longrightarrow> (r = Panic \<Longrightarrow> P) \<Longrightarrow> P"
  by (cases r) (auto intro: Failure.exhaust)

lemma public_event_no_panic:
  assumes "decimal_laws D" and "specs_ok s" and "bt_wf (es_instruments s)" and "event_i64 e"
  shows "fst (apply_public_event D e s) \<noteq> Panic"
proof -
  note defined = conversion_defined [OF assms(1) specs_okD [OF assms(2,3)]]
  show ?thesis
    using assms(4) defined
    by (cases e) (auto simp: apply_fast_defs intro!: with_unified_no_panic)
qed

text \<open>
  With specifications whose scales \<^verbatim>\<open>Decimal\<close> accepts, no public event makes the
  engine panic: an event is applied when its instrument is known or it needs none, and is
  refused with the unknown-instrument error otherwise.
\<close>

theorem public_event_total:
  assumes "decimal_laws D" and "engine_wf s" and "specs_ok s" and "event_i64 e"
  shows "fst (apply_public_event D e s) =
    (case fallible_public_event_instrument_id e of
       None \<Rightarrow> Ok ()
     | Some iid \<Rightarrow> if bt_contains (es_instruments s) iid then Ok ()
                   else Err (unknown_public_event_error s iid))"
proof -
  have "bt_wf (es_instruments s)" using assms(2) by (auto simp: engine_wf_def market_wf_def)
  note no_panic = public_event_no_panic [OF assms(1,3) this assms(4)]
  show ?thesis
  proof (cases "fst (apply_public_event D e s)" rule: outcome_cases)
    case Ok
    with public_event_Err [of D e s] show ?thesis by (auto split: option.split)
  next
    case (Err err)
    with public_event_Err [of D e s err] show ?thesis by auto
  qed (use no_panic in simp)
qed

subsection \<open>The derived account summary\<close>

lemma sum_balances_value:
  assumes add: "\<And>a b c. dec_checked_add D a b = Some c \<Longrightarrow> val c = val a + (val b :: rat)"
    and "sum_balances D w a bs = Some (w', a')"
  shows "val (decimal w') = val (decimal w) + (\<Sum>b\<leftarrow>bs. val (decimal (bal_wallet_balance b))) \<and>
    val (decimal a') = val (decimal a) + (\<Sum>b\<leftarrow>bs. val (decimal (bal_available_balance b)))"
  using assms(2)
proof (induction bs arbitrary: w a)
  case (Cons b bs)
  then obtain x y where xy: "dec_checked_add D (decimal w) (decimal (bal_wallet_balance b)) = Some x"
    "dec_checked_add D (decimal a) (decimal (bal_available_balance b)) = Some y"
    "sum_balances D (DecimalValue x) (DecimalValue y) bs = Some (w', a')"
    by (auto simp: bind_eq_Some_conv)
  from Cons.IH [OF xy(3)] add [OF xy(1)] add [OF xy(2)] show ?case by simp
qed simp

text \<open>
  When the venue sent no summary, the one derived from the balances adds up: its wallet
  and available totals are the exact sums over all assets (for any reading of decimals as
  rationals under which a successful \<^verbatim>\<open>checked_add\<close> is addition), its unrealized PnL is
  zero, and its time is that of the alphabetically first asset.
\<close>

theorem derived_summary_adds_up:
  assumes "\<And>a b c. dec_checked_add D a b = Some c \<Longrightarrow> val c = val a + (val b :: rat)"
    and "engine_wf s" and "es_account_summary s = None"
    and "engine_account_summary D s = Some summary"
  shows "val (decimal (sum_total_wallet_balance summary)) =
      (\<Sum>b\<leftarrow>engine_balances s. val (decimal (bal_wallet_balance b))) \<and>
    val (decimal (sum_total_available_balance summary)) =
      (\<Sum>b\<leftarrow>engine_balances s. val (decimal (bal_available_balance b))) \<and>
    sum_total_unrealized_pnl summary = DecimalValue (dec_zero D) \<and>
    (\<exists>b\<in>set (engine_balances s). bal_updated_at b = sum_updated_at summary \<and>
       bal_asset b = Min (bal_asset ` set (engine_balances s)))"
proof -
  have filed: "bt_filed bal_asset (es_balances s)" using assms(2) by (simp add: engine_wf_def private_wf_def)
  have "map bal_asset (bt_values (es_balances s)) = bt_keys (es_balances s)"
    using filed by (auto simp: bt.vals_keys bt.keys_dom bt_filed_key intro!: map_idI)
  with bt.keys_sorted [of "es_balances s"] filed
  have sorted: "sorted_wrt (<) (map bal_asset (bt_values (es_balances s)))" by simp
  from assms(3,4) obtain first rest w a where split: "bt_values (es_balances s) = first # rest"
    and sums: "sum_balances D (bal_wallet_balance first) (bal_available_balance first) rest = Some (w, a)"
      "summary = \<lparr>sum_total_wallet_balance = w, sum_total_available_balance = a,
         sum_total_unrealized_pnl = DecimalValue (dec_zero D), sum_updated_at = bal_updated_at first\<rparr>"
    by (auto simp: engine_account_summary_def bind_eq_Some_conv split: list.splits)
  have "bal_asset first = Min (bal_asset ` set (first # rest))"
    using sorted split by (intro Min_eqI [symmetric]) auto
  with sum_balances_value [where val = val, OF assms(1) sums(1)] split sums(2) show ?thesis
    by (simp add: engine_balances_def)
qed

section \<open>Concrete instances\<close>

definition sample_order :: "string \<Rightarrow> OrderStatus \<Rightarrow> (int \<times> u32) Order" where
  "sample_order rid status =
     \<lparr>ord_order_id = StringId rid, ord_client_order_id = None,
      ord_instrument_id = StringId ''BTC/USDT:USDT'', ord_side = Buy, ord_order_type = Limit,
      ord_time_in_force = Some Gtc, ord_status = status, ord_price = Some (DecimalValue (70000, 0)),
      ord_quantity = DecimalValue (1, 3), ord_filled_quantity = DecimalValue (0, 0),
      ord_average_fill_price = None, ord_reduce_only = False, ord_post_only = False,
      ord_created_at = TimestampMs 1, ord_updated_at = TimestampMs 2, ord_venue_status = None\<rparr>"

definition sample_engine :: "(int \<times> u32) EngineState" where
  "sample_engine = engine_new Binance LinearUsdt
     \<lparr>st_recent_trade_capacity = 2, st_execution_capacity = 2\<rparr>
     [sample_spec ''BTC/USDT:USDT'' ''BTCUSDT'']"

definition sample_trade :: "string \<Rightarrow> string \<Rightarrow> FastTrade" where
  "sample_trade iid tid =
     \<lparr>ftr_instrument_id = StringId iid, ftr_trade_id = StringId tid, ftr_price = FastValue 7000050,
      ftr_quantity = FastValue 5, ftr_aggressor_side = Buyer, ftr_event_time = TimestampMs 10\<rparr>"

definition sample_balance :: "string \<Rightarrow> int \<Rightarrow> (int \<times> u32) Balance" where
  "sample_balance asset amount =
     \<lparr>bal_asset = StringId asset, bal_wallet_balance = DecimalValue (amount, 2),
      bal_available_balance = DecimalValue (amount, 2), bal_updated_at = TimestampMs 7\<rparr>"

lemma sample_engine_wf: "engine_wf sample_engine"
  unfolding sample_engine_def by (rule engine_new_wf)

lemma sample_engine_specs_ok: "specs_ok sample_engine"
  by (simp add: specs_ok_def instrument_specs_def sample_engine_def engine_new_def bt_collect_def
      bt_extend_def bt_values_def)

lemma sample_order_simps [simp]:
  "ord_order_id (sample_order rid status) = StringId rid"
  "order_is_open (sample_order rid status) \<longleftrightarrow> status \<in> {New, PartiallyFilled}"
  by (simp_all add: sample_order_def order_is_open_def)

theorem replace_open_orders_exact_witness:
  "set (engine_open_orders (replace_open_orders [sample_order ''b'' New]
      (apply_private_event (Order (sample_order ''a'' New)) sample_engine))) = {sample_order ''b'' New}"
  using replace_open_orders_exact
    [OF apply_private_event_wf [OF sample_engine_wf, of "Order (sample_order ''a'' New)"],
      of "[sample_order ''b'' New]"]
  by auto

theorem private_snapshot_installs_witness:
  "set (engine_open_orders (apply_private_snapshot
      \<lparr>snap_account = Some \<lparr>acc_balances = [sample_balance ''USDT'' 5], acc_summary = None\<rparr>,
       snap_positions = [], snap_open_orders = [sample_order ''a'' New, sample_order ''b'' Filled]\<rparr>
      sample_engine)) = {sample_order ''a'' New}"
  using private_snapshot_installs
    [OF sample_engine_wf, of "\<lparr>snap_account = Some \<lparr>acc_balances = [sample_balance ''USDT'' 5], acc_summary = None\<rparr>,
       snap_positions = [], snap_open_orders = [sample_order ''a'' New, sample_order ''b'' Filled]\<rparr>"
     "\<lparr>acc_balances = [sample_balance ''USDT'' 5], acc_summary = None\<rparr>"]
  by auto

theorem replace_instruments_prunes_witness:
  "engine_recent_trades (replace_instruments [sample_spec ''ETH/USDT:USDT'' ''ETHUSDT'']
      (snd (apply_public_event pair_decimal (Trade (sample_trade ''BTC/USDT:USDT'' ''1'')) sample_engine)))
      (StringId ''BTC/USDT:USDT'') = None"
  using replace_instruments_prunes
    [OF apply_public_event_wf [OF sample_engine_wf, of pair_decimal "Trade (sample_trade ''BTC/USDT:USDT'' ''1'')"],
      of "[sample_spec ''ETH/USDT:USDT'' ''ETHUSDT'']" "StringId ''BTC/USDT:USDT''"]
  by (simp add: Let_def)

theorem public_event_total_witness:
  "fst (apply_public_event pair_decimal (Trade (sample_trade ''BTC/USDT:USDT'' ''1'')) sample_engine) = Ok ()"
  using public_event_total
    [OF decimal_laws_pair sample_engine_wf sample_engine_specs_ok, of "Trade (sample_trade ''BTC/USDT:USDT'' ''1'')"]
  by (simp add: sample_trade_def in_i64_def i64_min_def i64_max_def sample_engine_def engine_new_def
      bt_contains_collect)

definition cents_decimal :: "(int \<times> u32) Decimal_ops" where
  "cents_decimal = pair_decimal
     \<lparr>dec_checked_add := \<lambda>(m, s) (n, t). if s = t then Some (m + n, s) else None\<rparr>"

theorem derived_summary_adds_up_witness:
  "\<exists>summary. engine_account_summary cents_decimal
      (apply_private_event (Balance (sample_balance ''USDT'' 5))
        (apply_private_event (Balance (sample_balance ''BTC'' 7)) sample_engine)) = Some summary \<and>
    rat_of_int (fst (decimal (sum_total_wallet_balance summary))) /
      10 ^ unat (snd (decimal (sum_total_wallet_balance summary))) = 12 / 100"
proof -
  let ?s = "apply_private_event (Balance (sample_balance ''USDT'' 5))
        (apply_private_event (Balance (sample_balance ''BTC'' 7)) sample_engine)"
  let ?val = "\<lambda>d. rat_of_int (fst d) / 10 ^ unat (snd (d :: int \<times> u32))"
  have add: "?val c = ?val a + ?val b" if "dec_checked_add cents_decimal a b = Some c" for a b c
    using that by (auto simp: cents_decimal_def add_divide_distrib split: if_splits prod.splits)
  have bals: "bt_values (es_balances ?s) = [sample_balance ''BTC'' 7, sample_balance ''USDT'' 5]"
    and none: "es_account_summary ?s = None"
    by (simp_all add: sample_engine_def engine_new_def bt_values_def sample_balance_def)
  have "\<exists>summary. engine_account_summary cents_decimal ?s = Some summary"
    by (simp only: engine_account_summary_def none bals) (simp add: cents_decimal_def sample_balance_def)
  then obtain summary where summary: "engine_account_summary cents_decimal ?s = Some summary" by blast
  have "engine_wf ?s" by (intro apply_private_event_wf sample_engine_wf)
  from derived_summary_adds_up [where val = ?val, OF add this none summary] summary show ?thesis
    by (simp add: engine_balances_def bals del: apply_private_event.simps) (simp add: sample_balance_def)
qed

end
