(* ===== verification/Shared_State.thy ===== *)
theory Shared_State
  imports Engine_Laws
begin

text \<open>
  \<^verbatim>\<open>bat-markets/src/client.rs\<close>: the lock-protected engine state with its event channels, the
  builder and the credentials.

  A channel is the list of the values sent through it, oldest first; the queues the receivers
  see are those of the \<^verbatim>\<open>tokio\<close> channels and are not part of the state.  The lock makes
  every \<^verbatim>\<open>write\<close> one atomic step.  A closure that panics unwinds out of \<^verbatim>\<open>write\<close> before
  the health change is published.
\<close>

record 'd SharedState =
  sh_state :: "'d EngineState"
  sh_health_watch :: HealthReport
  sh_health_notifications :: "HealthNotification list"
  sh_public_events :: "'d PublicLaneEvent list"
  sh_private_events :: "'d PrivateLaneEvent list"
  sh_command_events :: "CommandLaneEvent list"

definition shared_new :: "'d EngineState \<Rightarrow> 'd SharedState" where
  "shared_new state =
     \<lparr>sh_state = state, sh_health_watch = es_health state, sh_health_notifications = [],
      sh_public_events = [], sh_private_events = [], sh_command_events = []\<rparr>"

definition should_publish_health_change :: "HealthReport \<Rightarrow> HealthReport \<Rightarrow> bool" where
  "should_publish_health_change before after \<longleftrightarrow>
     hr_status before \<noteq> hr_status after
     \<or> hr_rest_ok before \<noteq> hr_rest_ok after
     \<or> hr_ws_public_ok before \<noteq> hr_ws_public_ok after
     \<or> hr_ws_private_ok before \<noteq> hr_ws_private_ok after
     \<or> hr_clock_skew_ms before \<noteq> hr_clock_skew_ms after
     \<or> hr_reconnect_count before \<noteq> hr_reconnect_count after
     \<or> hr_state_divergence before \<noteq> hr_state_divergence after
     \<or> hr_degraded_reason before \<noteq> hr_degraded_reason after"

definition shared_read :: "('d EngineState \<Rightarrow> 'a) \<Rightarrow> 'd SharedState \<Rightarrow> 'a" where
  "shared_read f sh = f (sh_state sh)"

definition shared_write ::
  "('d EngineState \<Rightarrow> 'a result \<times> 'd EngineState) \<Rightarrow> 'd SharedState \<Rightarrow> 'a result \<times> 'd SharedState" where
  "shared_write f sh =
     (let before = es_health (sh_state sh);
          (result, state) = f (sh_state sh);
          after = es_health state;
          sh1 = sh\<lparr>sh_state := state\<rparr> in
      if result = Panic then (Panic, sh1)
      else if should_publish_health_change before after
      then (result, sh1\<lparr>sh_health_watch := after,
              sh_health_notifications := sh_health_notifications sh1 @
                [\<lparr>hn_previous = before, hn_current = after\<rparr>]\<rparr>)
      else (result, sh1))"

definition health_snapshot :: "'d SharedState \<Rightarrow> HealthReport" where
  "health_snapshot sh = shared_read es_health sh"

section \<open>Applying events\<close>

text \<open>The preflight of a batch: the first event whose instrument is unknown refuses it.\<close>

definition event_unknown :: "'d EngineState \<Rightarrow> 'd PublicLaneEvent \<Rightarrow> bool" where
  "event_unknown state e \<longleftrightarrow>
     (case fallible_public_event_instrument_id e of
        None \<Rightarrow> False
      | Some iid \<Rightarrow> \<not> list_ex (\<lambda>spec. is_instrument_id spec = iid) (instrument_specs state))"

definition preflight :: "'d EngineState \<Rightarrow> 'd PublicLaneEvent list \<Rightarrow> MarketError option" where
  "preflight state events =
     (if 1 < length events then
        (case find (event_unknown state) events of
           None \<Rightarrow> None
         | Some e \<Rightarrow> map_option (unknown_public_event_error state) (fallible_public_event_instrument_id e))
      else None)"

fun apply_each :: "'d Decimal_ops \<Rightarrow> 'd PublicLaneEvent list \<Rightarrow> 'd EngineState \<Rightarrow> unit result \<times> 'd EngineState" where
  "apply_each D [] state = (Ok (), state)"
| "apply_each D (e # es) state =
     (case apply_public_event D e state of
        (Inl f, state') \<Rightarrow> (Inl f, state')
      | (Inr _, state') \<Rightarrow> apply_each D es state')"

definition apply_public_events ::
  "'d Decimal_ops \<Rightarrow> 'd PublicLaneEvent list \<Rightarrow> 'd SharedState \<Rightarrow> unit result \<times> 'd SharedState" where
  "apply_public_events D events sh =
     (if events = [] then (Ok (), sh)
      else case shared_write (\<lambda>state.
             case preflight state events of
               Some err \<Rightarrow> (Err err, state)
             | None \<Rightarrow> apply_each D events state) sh of
           (Inl f, sh1) \<Rightarrow> (Inl f, sh1)
         | (Inr _, sh1) \<Rightarrow> (Ok (), sh1\<lparr>sh_public_events := sh_public_events sh1 @ events\<rparr>))"

definition shared_apply_public_event ::
  "'d Decimal_ops \<Rightarrow> 'd PublicLaneEvent \<Rightarrow> 'd SharedState \<Rightarrow> unit result \<times> 'd SharedState" where
  "shared_apply_public_event D e sh =
     (case shared_write (apply_public_event D e) sh of
        (Inl f, sh1) \<Rightarrow> (Inl f, sh1)
      | (Inr _, sh1) \<Rightarrow> (Ok (), sh1\<lparr>sh_public_events := sh_public_events sh1 @ [e]\<rparr>))"

text \<open>Closures that cannot fail.\<close>

definition shared_update :: "('d EngineState \<Rightarrow> 'd EngineState) \<Rightarrow> 'd SharedState \<Rightarrow> 'd SharedState" where
  "shared_update f sh = snd (shared_write (\<lambda>state. (Ok (), f state)) sh)"

definition apply_private_events :: "'d PrivateLaneEvent list \<Rightarrow> 'd SharedState \<Rightarrow> 'd SharedState" where
  "apply_private_events events sh =
     (if events = [] then sh
      else let sh1 = shared_update (\<lambda>state. foldl (\<lambda>st e. apply_private_event e st) state events) sh in
           sh1\<lparr>sh_private_events := sh_private_events sh1 @ events\<rparr>)"

definition shared_apply_private_event :: "'d PrivateLaneEvent \<Rightarrow> 'd SharedState \<Rightarrow> 'd SharedState" where
  "shared_apply_private_event e sh =
     (let sh1 = shared_update (apply_private_event e) sh in
      sh1\<lparr>sh_private_events := sh_private_events sh1 @ [e]\<rparr>)"

definition emit_command_event :: "CommandLaneEvent \<Rightarrow> 'd SharedState \<Rightarrow> 'd SharedState" where
  "emit_command_event e sh = sh\<lparr>sh_command_events := sh_command_events sh @ [e]\<rparr>"

text \<open>\<^verbatim>\<open>AdvancedClient::ingest_public_json\<close> and \<^verbatim>\<open>ingest_private_json\<close>; the adapter's parser
  is an argument.\<close>

definition ingest_public_json ::
  "'d Decimal_ops \<Rightarrow> (string \<Rightarrow> 'd PublicLaneEvent list result) \<Rightarrow> string \<Rightarrow> 'd SharedState
     \<Rightarrow> 'd PublicLaneEvent list result \<times> 'd SharedState" where
  "ingest_public_json D parse_public payload sh =
     (case parse_public payload of
        Inl f \<Rightarrow> (Inl f, sh)
      | Inr events \<Rightarrow> (case apply_public_events D events sh of
            (Inl f, sh1) \<Rightarrow> (Inl f, sh1)
          | (Inr _, sh1) \<Rightarrow> (Ok events, sh1)))"

definition ingest_private_json ::
  "(string \<Rightarrow> 'd PrivateLaneEvent list result) \<Rightarrow> string \<Rightarrow> 'd SharedState
     \<Rightarrow> 'd PrivateLaneEvent list result \<times> 'd SharedState" where
  "ingest_private_json parse_private payload sh =
     (case parse_private payload of
        Inl f \<Rightarrow> (Inl f, sh)
      | Inr events \<Rightarrow> (Ok events, apply_private_events events sh))"

definition require_instrument :: "InstrumentId \<Rightarrow> 'd SharedState \<Rightarrow> 'd InstrumentSpec result" where
  "require_instrument iid sh =
     ok_or (market_error Unsupported (''unknown instrument '' @ as_str iid))
       (find (\<lambda>spec. is_instrument_id spec = iid) (shared_read instrument_specs sh))"

section \<open>Builder and credentials\<close>

datatype Signer = MemorySigner string | EnvSigner string

text \<open>\<^verbatim>\<open>hmac_hex secret payload\<close> stands for HMAC-SHA256 with a hexadecimal digest; \<open>None\<close> is a
  key length it refuses.\<close>

fun sign_hex :: "(string \<Rightarrow> string option) \<Rightarrow> (string \<Rightarrow> string \<Rightarrow> string option) \<Rightarrow> Signer \<Rightarrow> string \<Rightarrow> string result" where
  "sign_hex env hmac_hex (MemorySigner secret) payload =
     ok_or (market_error ConfigError ''invalid hmac key length'') (hmac_hex secret payload)"
| "sign_hex env hmac_hex (EnvSigner secret_var) payload =
     and_then (ok_or (market_error AuthError (''missing env secret '' @ secret_var)) (env secret_var))
       (\<lambda>secret. ok_or (market_error ConfigError ''invalid hmac key length'') (hmac_hex secret payload))"

record BatMarketsBuilder =
  bb_venue :: "Venue option"
  bb_product :: "Product option"
  bb_config :: "BatMarketsConfig option"

definition builder_default :: BatMarketsBuilder where
  "builder_default = \<lparr>bb_venue = None, bb_product = None, bb_config = None\<rparr>"

definition builder_venue :: "Venue \<Rightarrow> BatMarketsBuilder \<Rightarrow> BatMarketsBuilder" where
  "builder_venue v b = b\<lparr>bb_venue := Some v\<rparr>"

definition builder_product :: "Product \<Rightarrow> BatMarketsBuilder \<Rightarrow> BatMarketsBuilder" where
  "builder_product p b = b\<lparr>bb_product := Some p\<rparr>"

definition builder_config :: "BatMarketsConfig \<Rightarrow> BatMarketsBuilder \<Rightarrow> BatMarketsBuilder" where
  "builder_config c b =
     b\<lparr>bb_venue := Some (cfg_venue c), bb_product := Some (cfg_product c), bb_config := Some c\<rparr>"

fun default_env_auth :: "Venue \<Rightarrow> AuthConfig" where
  "default_env_auth Binance = Env ''BINANCE_API_KEY'' ''BINANCE_API_SECRET''"
| "default_env_auth Bybit = Env ''BYBIT_API_KEY'' ''BYBIT_API_SECRET''"
| "default_env_auth Mexc = Env ''MEXC_API_KEY'' ''MEXC_API_SECRET''"

definition resolve_config :: "bool \<Rightarrow> BatMarketsBuilder \<Rightarrow> BatMarketsConfig result" where
  "resolve_config live_mode b =
     and_then (ok_or (market_error ConfigError ''missing venue for BatMarkets builder'') (bb_venue b))
       (\<lambda>venue.
          let product = (case bb_product b of None \<Rightarrow> LinearUsdt | Some p \<Rightarrow> p);
              config = (case bb_config b of None \<Rightarrow> config_new venue product | Some c \<Rightarrow> c) in
          Ok (if live_mode \<and> cfg_auth config = AuthNone
              then config\<lparr>cfg_auth := default_env_auth (cfg_venue config)\<rparr>
              else config))"

definition resolve_auth :: "(string \<Rightarrow> string option) \<Rightarrow> BatMarketsConfig \<Rightarrow> string option \<times> Signer option" where
  "resolve_auth env config =
     (case cfg_auth config of
        AuthNone \<Rightarrow> (None, None)
      | Env key_var secret_var \<Rightarrow> (env key_var, Some (EnvSigner secret_var))
      | Inline key secret \<Rightarrow> (Some key, Some (MemorySigner secret)))"

section \<open>Laws\<close>

text \<open>The fields of a report whose change is published.\<close>

definition published :: "HealthReport \<Rightarrow> _" where
  "published h = (hr_status h, hr_rest_ok h, hr_ws_public_ok h, hr_ws_private_ok h,
     hr_clock_skew_ms h, hr_reconnect_count h, hr_state_divergence h, hr_degraded_reason h)"

lemma should_publish_iff: "should_publish_health_change a b \<longleftrightarrow> published a \<noteq> published b"
  by (auto simp: should_publish_health_change_def published_def)

text \<open>
  The notifications lead from one report to another: each starts where the previous one
  ended, as far as published fields go, and each changes at least one of them.
\<close>

fun notification_chain :: "HealthReport \<Rightarrow> HealthNotification list \<Rightarrow> HealthReport \<Rightarrow> bool" where
  "notification_chain a [] b \<longleftrightarrow> published a = published b"
| "notification_chain a (n # ns) b \<longleftrightarrow>
     published a = published (hn_previous n) \<and> published (hn_previous n) \<noteq> published (hn_current n) \<and>
     notification_chain (hn_current n) ns b"

lemma notification_chain_target:
  "published b = published b' \<Longrightarrow> notification_chain a ns b = notification_chain a ns b'"
  by (induction ns arbitrary: a) auto

lemma notification_chain_snoc:
  "notification_chain a ns b \<Longrightarrow> published b \<noteq> published c \<Longrightarrow>
    notification_chain a (ns @ [\<lparr>hn_previous = b, hn_current = c\<rparr>]) c"
  by (induction ns arbitrary: a) auto

definition health_tracked :: "HealthReport \<Rightarrow> 'd SharedState \<Rightarrow> bool" where
  "health_tracked h0 sh \<longleftrightarrow>
     published (sh_health_watch sh) = published (es_health (sh_state sh)) \<and>
     notification_chain h0 (sh_health_notifications sh) (es_health (sh_state sh))"

lemma shared_write_tracked:
  assumes "health_tracked h0 sh" and "fst (shared_write f sh) \<noteq> Panic"
  shows "health_tracked h0 (snd (shared_write f sh))"
proof -
  obtain r st where f: "f (sh_state sh) = (r, st)" by fastforce
  with assms(2) have "r \<noteq> Panic" by (auto simp: shared_write_def Let_def split: if_splits)
  show ?thesis
  proof (cases "published (es_health (sh_state sh)) = published (es_health st)")
    case True
    with f \<open>r \<noteq> Panic\<close> assms(1) notification_chain_target [OF True] show ?thesis
      by (simp add: health_tracked_def shared_write_def Let_def should_publish_iff)
  next
    case False
    with f \<open>r \<noteq> Panic\<close> assms(1) show ?thesis
      by (simp add: health_tracked_def shared_write_def Let_def should_publish_iff notification_chain_snoc)
  qed
qed

lemma shared_write_state:
  "sh_state (snd (shared_write f sh)) = snd (f (sh_state sh)) \<and> fst (shared_write f sh) = fst (f (sh_state sh))"
  by (simp add: shared_write_def Let_def split: prod.splits)

lemma shared_write_unchanged:
  "snd (f (sh_state sh)) = sh_state sh \<Longrightarrow> snd (shared_write f sh) = sh"
  by (auto simp: shared_write_def Let_def should_publish_health_change_def split: prod.splits)

lemma shared_write_frame [simp]:
  "sh_public_events (snd (shared_write f sh)) = sh_public_events sh"
  "sh_private_events (snd (shared_write f sh)) = sh_private_events sh"
  "sh_command_events (snd (shared_write f sh)) = sh_command_events sh"
  by (simp_all add: shared_write_def Let_def split: prod.splits)

lemma health_tracked_channels [simp]:
  "health_tracked h0 (sh\<lparr>sh_public_events := x\<rparr>) = health_tracked h0 sh"
  "health_tracked h0 (sh\<lparr>sh_private_events := y\<rparr>) = health_tracked h0 sh"
  "health_tracked h0 (sh\<lparr>sh_command_events := z\<rparr>) = health_tracked h0 sh"
  by (simp_all add: health_tracked_def)

subsection \<open>Batches\<close>

lemma event_unknown_iff:
  assumes "engine_wf s"
  shows "event_unknown s e \<longleftrightarrow>
    (\<exists>iid. fallible_public_event_instrument_id e = Some iid \<and> \<not> bt_contains (es_instruments s) iid)"
proof -
  have filed: "bt_filed is_instrument_id (es_instruments s)"
    using assms by (simp add: engine_wf_def market_wf_def)
  then have "list_ex (\<lambda>spec. is_instrument_id spec = iid) (instrument_specs s) \<longleftrightarrow>
      bt_contains (es_instruments s) iid" for iid
    by (auto simp: list_ex_iff instrument_specs_def bt_contains_def Bex_def bt_filed_values [OF filed]
        dest: bt_filed_key)
  then show ?thesis by (auto simp: event_unknown_def split: option.split)
qed

lemma apply_public_event_instruments:
  "es_instruments (snd (apply_public_event D e s)) = es_instruments s \<and>
   es_venue (snd (apply_public_event D e s)) = es_venue s \<and>
   es_product (snd (apply_public_event D e s)) = es_product s"
  by (cases e) (simp_all add: with_unified_def apply_fast_defs Let_def
      split: sum.split option.split DivergenceEvent.split)

lemma apply_private_event_instruments:
  "es_instruments (apply_private_event e s) = es_instruments s"
  by (cases e) (simp_all add: push_execution_def)

lemma specs_ok_public [simp]: "specs_ok (snd (apply_public_event D e s)) = specs_ok s"
  by (simp add: specs_ok_def instrument_specs_def apply_public_event_instruments)

lemma apply_each_wf: "engine_wf s \<Longrightarrow> engine_wf (snd (apply_each D es s))"
proof (induction es arbitrary: s)
  case (Cons e es)
  with apply_public_event_wf [OF Cons.prems, of D e] show ?case
    by (auto split: prod.split sum.split)
qed simp

lemma apply_each_instruments: "es_instruments (snd (apply_each D es s)) = es_instruments s"
proof (induction es arbitrary: s)
  case (Cons e es)
  with apply_public_event_instruments [of D e s] show ?case
    by (auto split: prod.split sum.split)
qed simp

lemma apply_each_known:
  assumes "decimal_laws D" and "engine_wf s" and "specs_ok s"
    and "list_all event_i64 es" and "list_all (\<lambda>e. \<not> event_unknown s e) es"
  shows "apply_each D es s = (Ok (), foldl (\<lambda>st e. snd (apply_public_event D e st)) s es)"
  using assms(2-)
proof (induction es arbitrary: s)
  case (Cons e es)
  let ?s' = "snd (apply_public_event D e s)"
  have wf: "engine_wf ?s'" by (rule apply_public_event_wf) (rule Cons.prems)
  have known: "event_unknown ?s' x = event_unknown s x" for x
    by (simp add: event_unknown_iff wf Cons.prems(1) apply_public_event_instruments)
  have "bt_wf (es_instruments s)" using Cons.prems(1) by (auto simp: engine_wf_def market_wf_def)
  then have "fst (apply_public_event D e s) \<noteq> Panic"
    using assms(1) Cons.prems by (simp add: public_event_no_panic)
  moreover have "fst (apply_public_event D e s) \<noteq> Err err" for err
    using Cons.prems event_unknown_iff [OF Cons.prems(1)] by (auto simp: public_event_Err)
  ultimately have ok: "fst (apply_public_event D e s) = Ok ()"
    using outcome_cases [of "fst (apply_public_event D e s)"] by blast
  have "apply_each D es ?s' = (Ok (), foldl (\<lambda>st e. snd (apply_public_event D e st)) ?s' es)"
    by (rule Cons.IH) (use wf Cons.prems known in simp_all)
  with ok show ?case by (cases "apply_public_event D e s") simp
qed simp

lemma preflight_known:
  "list_all (\<lambda>e. \<not> event_unknown s e) es \<Longrightarrow> preflight s es = None"
  by (auto simp: preflight_def list_all_iff find_Some_iff split: option.split)

lemma preflight_refuses:
  assumes "\<not> list_all (\<lambda>e. \<not> event_unknown s e) es" and "1 < length es"
  shows "\<exists>err. preflight s es = Some err \<and> me_kind err = ConfigError"
proof -
  obtain e where e: "find (event_unknown s) es = Some e"
    using assms(1) by (cases "find (event_unknown s) es") (auto simp: find_None_iff list_all_iff)
  then have "event_unknown s e" by (auto simp: find_Some_iff)
  then obtain iid where "fallible_public_event_instrument_id e = Some iid"
    by (auto simp: event_unknown_def split: option.splits)
  with e assms(2) show ?thesis by (simp add: preflight_def unknown_public_event_error_def)
qed

text \<open>What the closure of \<^verbatim>\<open>apply_public_events\<close> does to the engine state.\<close>

definition batch_closure ::
  "'d Decimal_ops \<Rightarrow> 'd PublicLaneEvent list \<Rightarrow> 'd EngineState \<Rightarrow> unit result \<times> 'd EngineState" where
  "batch_closure D events state =
     (case preflight state events of
        Some err \<Rightarrow> (Err err, state)
      | None \<Rightarrow> apply_each D events state)"

lemma batch_closure_outcome:
  assumes "decimal_laws D" and "engine_wf s" and "specs_ok s" and "list_all event_i64 es"
  shows "batch_closure D es s =
    (if list_all (\<lambda>e. \<not> event_unknown s e) es
     then (Ok (), foldl (\<lambda>st e. snd (apply_public_event D e st)) s es)
     else (fst (batch_closure D es s), s)) \<and>
    (\<not> list_all (\<lambda>e. \<not> event_unknown s e) es \<longrightarrow>
      (\<exists>err. fst (batch_closure D es s) = Err err \<and> me_kind err = ConfigError))"
proof (cases "list_all (\<lambda>e. \<not> event_unknown s e) es")
  case True
  then show ?thesis
    by (simp add: batch_closure_def preflight_known apply_each_known assms)
next
  case False
  show ?thesis
  proof (cases "1 < length es")
    case True
    with False preflight_refuses [OF False] show ?thesis by (auto simp: batch_closure_def)
  next
    case short: False
    with False obtain e where es: "es = [e]" by (cases es) (auto simp: length_Suc_conv)
    from False es obtain iid where "fst (apply_public_event D e s) = Err (unknown_public_event_error s iid)"
      by (auto simp: event_unknown_iff [OF assms(2)] public_event_Err)
    with public_event_fail_same [of D e s] es False show ?thesis
      by (cases "apply_public_event D e s")
        (auto simp: batch_closure_def preflight_def unknown_public_event_error_def)
  qed
qed

lemma apply_public_events_closure:
  "apply_public_events D events sh =
     (if events = [] then (Ok (), sh)
      else case shared_write (batch_closure D events) sh of
           (Inl f, sh1) \<Rightarrow> (Inl f, sh1)
         | (Inr _, sh1) \<Rightarrow> (Ok (), sh1\<lparr>sh_public_events := sh_public_events sh1 @ events\<rparr>))"
  by (simp add: apply_public_events_def batch_closure_def [abs_def])

subsection \<open>The machine\<close>

datatype 'd SharedInput =
    PublicBatch "'d PublicLaneEvent list"
  | PublicOne "'d PublicLaneEvent"
  | PrivateBatch "'d PrivateLaneEvent list"
  | PrivateOne "'d PrivateLaneEvent"
  | CommandOut CommandLaneEvent
  | WriteState "'d EngineInput"

fun shared_step :: "'d Decimal_ops \<Rightarrow> 'd SharedState \<Rightarrow> 'd SharedInput \<Rightarrow> 'd SharedState" where
  "shared_step D sh (PublicBatch es) = snd (apply_public_events D es sh)"
| "shared_step D sh (PublicOne e) = snd (shared_apply_public_event D e sh)"
| "shared_step D sh (PrivateBatch es) = apply_private_events es sh"
| "shared_step D sh (PrivateOne e) = shared_apply_private_event e sh"
| "shared_step D sh (CommandOut e) = emit_command_event e sh"
| "shared_step D sh (WriteState i) = shared_update (\<lambda>s. engine_step D s i) sh"

text \<open>
  Events carry \<^verbatim>\<open>i64\<close> values, refreshed specifications have acceptable scales, and public
  events enter through their own entry points.
\<close>

fun shared_admissible :: "'d SharedInput \<Rightarrow> bool" where
  "shared_admissible (PublicBatch es) = list_all event_i64 es"
| "shared_admissible (PublicOne e) = event_i64 e"
| "shared_admissible (WriteState (PublicIn e)) = False"
| "shared_admissible (WriteState (InstrumentsIn specs)) = list_all scales_ok specs"
| "shared_admissible _ = True"

definition shared_inv :: "'d Decimal_ops \<Rightarrow> HealthReport \<Rightarrow> 'd SharedState \<Rightarrow> bool" where
  "shared_inv D h0 sh \<longleftrightarrow>
     decimal_laws D \<and> engine_wf (sh_state sh) \<and> specs_ok (sh_state sh) \<and> health_tracked h0 sh"

lemma shared_write_inv:
  assumes "shared_inv D h0 sh" and "fst (f (sh_state sh)) \<noteq> Panic"
    and "engine_wf (snd (f (sh_state sh)))" and "specs_ok (snd (f (sh_state sh)))"
  shows "shared_inv D h0 (snd (shared_write f sh))"
  using assms shared_write_tracked [of h0 sh f]
  by (simp add: shared_inv_def shared_write_state)

lemma shared_inv_channels [simp]:
  "shared_inv D h0 (sh\<lparr>sh_public_events := x\<rparr>) = shared_inv D h0 sh"
  "shared_inv D h0 (sh\<lparr>sh_private_events := y\<rparr>) = shared_inv D h0 sh"
  "shared_inv D h0 (sh\<lparr>sh_command_events := z\<rparr>) = shared_inv D h0 sh"
  by (simp_all add: shared_inv_def)

lemma shared_update_inv:
  assumes "shared_inv D h0 sh" and "engine_wf (f (sh_state sh))" and "specs_ok (f (sh_state sh))"
  shows "shared_inv D h0 (shared_update f sh)"
  unfolding shared_update_def by (rule shared_write_inv [OF assms(1)]) (use assms in simp_all)

lemma specs_ok_same: "es_instruments s = es_instruments s' \<Longrightarrow> specs_ok s = specs_ok s'"
  by (simp add: specs_ok_def instrument_specs_def)

lemma engine_step_specs_ok:
  assumes "specs_ok s" and "shared_admissible (WriteState i)"
  shows "specs_ok (engine_step D s i)"
proof -
  have push: "es_instruments (foldl (\<lambda>st e. push_execution e st) t es) = es_instruments t"
    for es and t :: "'a EngineState"
    by (induction es arbitrary: t) (simp_all add: push_execution_def)
  have collect: "list_all scales_ok specs \<Longrightarrow> list_all scales_ok (bt_values (bt_collect is_instrument_id specs))"
    for specs :: "'a InstrumentSpec list"
    by (auto simp: list_all_iff bt_filed_values [OF bt_filed_collect] bt_get_collect dest!: find_SomeD)
  show ?thesis
  proof (cases i)
    case (InstrumentsIn specs)
    with assms(2) collect [of specs] show ?thesis
      by (simp add: specs_ok_def instrument_specs_def replace_instruments_def prune_orphan_market_state_def)
  next
    case (PublicIn e)
    with assms show ?thesis by simp
  qed (use assms(1) in \<open>simp_all add: specs_ok_def instrument_specs_def push apply_private_event_instruments
        engine_apply_command_receipt_def replace_account_snapshot_def touch_private_def Let_def
        replace_positions_def replace_open_orders_def merge_order_history_def merge_executions_def
        apply_private_snapshot_def apply_reconcile_report_def engine_mark_rest_success_def
        engine_mark_public_disconnect_def engine_mark_private_disconnect_def engine_mark_reconnect_def
        engine_mark_snapshot_age_def split: CommandStatus.split option.split\<close>)
qed

lemma private_fold:
  "engine_wf s \<Longrightarrow> specs_ok s \<Longrightarrow>
    engine_wf (foldl (\<lambda>st e. apply_private_event e st) s es) \<and>
    specs_ok (foldl (\<lambda>st e. apply_private_event e st) s es)"
proof (induction es arbitrary: s)
  case (Cons e es)
  then show ?case
    using specs_ok_same [OF apply_private_event_instruments, of e s]
    by (simp add: apply_private_event_wf)
qed simp

lemma public_one_inv:
  assumes "shared_inv D h0 sh" and "event_i64 e"
  shows "shared_inv D h0 (snd (shared_write (apply_public_event D e) sh))"
proof (rule shared_write_inv [OF assms(1)])
  have "bt_wf (es_instruments (sh_state sh))"
    using assms(1) by (auto simp: shared_inv_def engine_wf_def market_wf_def)
  then show "fst (apply_public_event D e (sh_state sh)) \<noteq> Panic"
    using assms by (simp add: shared_inv_def public_event_no_panic)
qed (use assms in \<open>simp_all add: shared_inv_def apply_public_event_wf\<close>)

lemma batch_inv:
  assumes "shared_inv D h0 sh" and "list_all event_i64 es"
  shows "shared_inv D h0 (snd (shared_write (batch_closure D es) sh))"
proof (rule shared_write_inv [OF assms(1)])
  let ?s = "sh_state sh"
  have s: "decimal_laws D" "engine_wf ?s" "specs_ok ?s" using assms(1) by (simp_all add: shared_inv_def)
  note outcome = batch_closure_outcome [OF s assms(2)]
  show "fst (batch_closure D es ?s) \<noteq> Panic"
    using outcome by (cases "list_all (\<lambda>e. \<not> event_unknown ?s e) es") (metis fst_conv Inr_Inl_False, auto)
  show "engine_wf (snd (batch_closure D es ?s))"
    using s(2) by (simp add: batch_closure_def apply_each_wf split: option.split)
  show "specs_ok (snd (batch_closure D es ?s))"
    using s(3) specs_ok_same [OF apply_each_instruments, of D es ?s]
    by (simp add: batch_closure_def split: option.split)
qed

interpretation shared: guarded_machine "shared_step D" "shared_inv D h0" shared_admissible for D h0
proof
  fix sh :: "'a SharedState" and i :: "'a SharedInput"
  assume inv: "shared_inv D h0 sh" and ok: "shared_admissible i"
  then have s: "engine_wf (sh_state sh)" "specs_ok (sh_state sh)" by (simp_all add: shared_inv_def)
  show "shared_inv D h0 (shared_step D sh i)"
  proof (cases i)
    case (PublicBatch es)
    with ok batch_inv [OF inv, of es] inv show ?thesis
      by (auto simp: apply_public_events_closure split: prod.split sum.split)
  next
    case (PublicOne e)
    with ok public_one_inv [OF inv, of e] show ?thesis
      by (auto simp: shared_apply_public_event_def split: prod.split sum.split)
  next
    case (PrivateBatch es)
    with inv private_fold [OF s, of es] show ?thesis
      by (simp add: apply_private_events_def Let_def shared_update_inv)
  next
    case (PrivateOne e)
    with inv private_fold [OF s, of "[e]"] show ?thesis
      by (simp add: shared_apply_private_event_def Let_def shared_update_inv)
  next
    case (WriteState j)
    with inv ok s show ?thesis
      by (simp add: shared_update_inv engine_step_wf engine_step_specs_ok)
  qed (use inv in \<open>simp_all add: emit_command_event_def\<close>)
qed

section \<open>Properties\<close>

text \<open>
  C12. A batch of public events is atomic.  When every event that needs a specification names
  a known instrument, all events are applied in order and then published in order; otherwise
  the call reports \<^verbatim>\<open>ConfigError\<close> and neither the state nor any channel changes.
\<close>

theorem public_batch_atomic:
  assumes "decimal_laws D" and "engine_wf (sh_state sh)" and "specs_ok (sh_state sh)"
    and "list_all event_i64 events"
  shows "if list_all (\<lambda>e. \<not> event_unknown (sh_state sh) e) events
    then fst (apply_public_events D events sh) = Ok () \<and>
      sh_state (snd (apply_public_events D events sh)) =
        foldl (\<lambda>st e. snd (apply_public_event D e st)) (sh_state sh) events \<and>
      sh_public_events (snd (apply_public_events D events sh)) = sh_public_events sh @ events
    else (\<exists>err. apply_public_events D events sh = (Err err, sh) \<and> me_kind err = ConfigError)"
proof (cases "list_all (\<lambda>e. \<not> event_unknown (sh_state sh) e) events")
  case True
  with batch_closure_outcome [OF assms] have closure: "batch_closure D events (sh_state sh) =
      (Ok (), foldl (\<lambda>st e. snd (apply_public_event D e st)) (sh_state sh) events)"
    by simp
  show ?thesis
  proof (cases "events = []")
    case False
    with True closure shared_write_state [of "batch_closure D events" sh]
      shared_write_frame(1) [of "batch_closure D events" sh] show ?thesis
      by (cases "shared_write (batch_closure D events) sh") (simp add: apply_public_events_closure)
  qed (simp add: apply_public_events_closure)
next
  case False
  then have "events \<noteq> []" by auto
  from False batch_closure_outcome [OF assms] obtain err
    where closure: "batch_closure D events (sh_state sh) = (Err err, sh_state sh)"
      and err: "me_kind err = ConfigError" by (metis fst_conv)
  from closure shared_write_state [of "batch_closure D events" sh]
    shared_write_unchanged [of "batch_closure D events" sh]
  have "shared_write (batch_closure D events) sh = (Err err, sh)"
    by (cases "shared_write (batch_closure D events) sh") simp
  with False \<open>events \<noteq> []\<close> err show ?thesis by (simp add: apply_public_events_closure)
qed


text \<open>
  Building without a venue is refused; otherwise the configuration is the one given (or the
  default of the venue), a live client always ends up with credentials to look for, explicit
  credentials are never replaced, and a venue selected after a full configuration does not
  override the configuration's own venue.
\<close>

theorem builder_resolves:
  "(\<exists>e. resolve_config live builder_default = Err e \<and> me_kind e = ConfigError) \<and>
   (\<exists>c. resolve_config True (builder_venue v b) = Ok c \<and> cfg_auth c \<noteq> AuthNone) \<and>
   resolve_config False (builder_config c b) = Ok c \<and>
   (\<exists>c'. resolve_config live (builder_venue v (builder_config c b)) = Ok c' \<and>
      cfg_venue c' = cfg_venue c \<and> (cfg_auth c = AuthNone \<or> c' = c))"
proof -
  have "default_env_auth x \<noteq> AuthNone" for x by (cases x) simp_all
  then show ?thesis
    by (auto simp: resolve_config_def builder_default_def builder_venue_def builder_config_def Let_def)
qed

section \<open>Concrete instances\<close>

lemma sample_trade_i64: "event_i64 (Trade (sample_trade iid tid))"
  by (simp add: sample_trade_def in_i64_def i64_min_def i64_max_def)

theorem public_batch_atomic_witness:
  "\<exists>err. apply_public_events pair_decimal
      [Trade (sample_trade ''BTC/USDT:USDT'' ''1''), Trade (sample_trade ''ETH/USDT:USDT'' ''2'')]
      (shared_new sample_engine) = (Err err, shared_new sample_engine)"
proof -
  let ?es = "[Trade (sample_trade ''BTC/USDT:USDT'' ''1''), Trade (sample_trade ''ETH/USDT:USDT'' ''2'')]
    :: (int \<times> u32) PublicLaneEvent list"
  have "event_unknown sample_engine (Trade (sample_trade ''ETH/USDT:USDT'' ''2''))"
    by (simp add: event_unknown_iff [OF sample_engine_wf])
      (simp add: sample_trade_def sample_engine_def engine_new_def bt_contains_collect)
  then show ?thesis
    using public_batch_atomic [of pair_decimal "shared_new sample_engine" ?es]
      decimal_laws_pair sample_engine_wf sample_engine_specs_ok
    by (auto simp: shared_new_def sample_trade_i64 simp del: event_i64.simps)
qed


end
