(* ===== verification/Json_Value.thy ===== *)
theory Json_Value
  imports Core_Types "HOL-Library.Monad_Syntax"
begin

text \<open>
  JSON as the source handles it.  The text of a document is read and written by \<^verbatim>\<open>serde_json\<close>,
  a third-party crate: the two directions are arguments of the definitions that use them, and
  a document is the value they exchange.  The readers below are what
  \<^verbatim>\<open>#[derive(Deserialize)]\<close> generates for the venue messages: a required field, an optional one
  (absent or \<^verbatim>\<open>null\<close>), one with a default for its absence; unknown fields are ignored.  A
  struct is read from an object; the positional array that serde accepts as well is not a form
  any venue sends and is not modelled.
\<close>

section \<open>Values\<close>

text \<open>A number carries its text and, when it is one, its \<^verbatim>\<open>i64\<close> value.\<close>

datatype Json =
    JNull
  | JBool bool
  | JNumber string "int option"
  | JString string
  | JArray "Json list"
  | JObject "(string \<times> Json) list"

type_synonym json_parser = "string \<Rightarrow> string + Json"

definition json_i64 :: "i64 \<Rightarrow> Json" where
  "json_i64 n = JNumber (show_int n) (Some n)"

fun json_get :: "string \<Rightarrow> Json \<Rightarrow> Json option" where
  "json_get key (JObject fs) = bt_get fs key"
| "json_get key _ = None"

fun json_as_bool :: "Json \<Rightarrow> bool option" where
  "json_as_bool (JBool b) = Some b"
| "json_as_bool _ = None"

fun json_as_i64 :: "Json \<Rightarrow> int option" where
  "json_as_i64 (JNumber _ n) = n"
| "json_as_i64 _ = None"

fun json_as_str :: "Json \<Rightarrow> string option" where
  "json_as_str (JString x) = Some x"
| "json_as_str _ = None"

definition or_else :: "'a option \<Rightarrow> 'a option \<Rightarrow> 'a option" where
  "or_else x y = (case x of None \<Rightarrow> y | Some v \<Rightarrow> Some v)"

section \<open>Reading a typed value\<close>

type_synonym 'a json_reader = "Json \<Rightarrow> 'a option"

fun json_int_within :: "int \<Rightarrow> int json_reader" where
  "json_int_within bound (JNumber _ (Some n)) = (if 0 \<le> n \<and> n < bound then Some n else None)"
| "json_int_within bound _ = None"

definition json_as_u32 :: "u32 json_reader" where
  "json_as_u32 v = map_option of_int (json_int_within (2 ^ 32) v)"

definition json_as_u8 :: "nat json_reader" where
  "json_as_u8 v = map_option nat (json_int_within 256 v)"

fun json_as_vec :: "'a json_reader \<Rightarrow> 'a list json_reader" where
  "json_as_vec r (JArray vs) = those (map r vs)"
| "json_as_vec r _ = None"

text \<open>\<^verbatim>\<open>[T; 2]\<close> and, for the candle rows, \<^verbatim>\<open>[T; 7]\<close>.\<close>

definition json_as_array :: "nat \<Rightarrow> 'a json_reader \<Rightarrow> 'a list json_reader" where
  "json_as_array n r v = Option.bind (json_as_vec r v) (\<lambda>xs. if length xs = n then Some xs else None)"

fun json_as_pair :: "'a json_reader \<Rightarrow> ('a \<times> 'a) json_reader" where
  "json_as_pair r (JArray [v, w]) = Option.bind (r v) (\<lambda>x. map_option (Pair x) (r w))"
| "json_as_pair r _ = None"

definition json_as_value :: "Json json_reader" where
  "json_as_value v = Some v"

fun req_field :: "string \<Rightarrow> 'a json_reader \<Rightarrow> 'a json_reader" where
  "req_field name r (JObject fs) = Option.bind (bt_get fs name) r"
| "req_field name r _ = None"

fun opt_field :: "string \<Rightarrow> 'a json_reader \<Rightarrow> 'a option json_reader" where
  "opt_field name r (JObject fs) =
     (case bt_get fs name of
        None \<Rightarrow> Some None
      | Some JNull \<Rightarrow> Some None
      | Some v \<Rightarrow> map_option Some (r v))"
| "opt_field name r _ = None"

fun dflt_field :: "string \<Rightarrow> 'a \<Rightarrow> 'a json_reader \<Rightarrow> 'a json_reader" where
  "dflt_field name x r (JObject fs) = (case bt_get fs name of None \<Rightarrow> Some x | Some v \<Rightarrow> r v)"
| "dflt_field name x r _ = None"

text \<open>\<^verbatim>\<open>str::parse\<close> for a signed integer of \<open>w\<close> bits: an optional sign and decimal digits within range.\<close>

definition parse_signed :: "nat \<Rightarrow> string \<Rightarrow> int option" where
  "parse_signed w raw =
     (let digits = (if raw \<noteq> [] \<and> hd raw \<in> {CHR ''+'', CHR ''-''} then tl raw else raw);
          value = (if raw \<noteq> [] \<and> hd raw = CHR ''-'' then - int (read_nat digits) else int (read_nat digits)) in
      if digits \<noteq> [] \<and> list_all (\<lambda>c. c \<in> set ''0123456789'') digits \<and> - (2 ^ (w - 1)) \<le> value \<and> value < 2 ^ (w - 1)
      then Some value else None)"

definition parse_i64 :: "string \<Rightarrow> i64 option" where
  "parse_i64 raw = parse_signed 64 raw"

text \<open>Readers for numbers sent as strings.\<close>

fun json_i64_from_string :: "i64 json_reader" where
  "json_i64_from_string (JString raw) = parse_i64 raw"
| "json_i64_from_string _ = None"

end
