(* ===== verification/Command_Ws.thy ===== *)
theory Command_Ws
  imports Shared_State Json_Value "HOL-Library.Multiset"
begin

text \<open>
  \<^verbatim>\<open>bat-markets/src/transport.rs\<close>: the command websocket.  The hub opens a session on
  demand, hands a request to it and retries once when the session turned out not to be
  running; the session task matches responses to the requests in flight.

  The network is an argument: what connecting yields for the n-th session, and how a session
  answers.
\<close>

section \<open>Response identifiers\<close>

fun value_to_id :: "Json \<Rightarrow> string option" where
  "value_to_id (JString x) = Some x"
| "value_to_id (JNumber text _) = Some text"
| "value_to_id _ = None"

definition extract_response_id :: "json_parser \<Rightarrow> Venue \<Rightarrow> string \<Rightarrow> string option" where
  "extract_response_id parse venue payload =
     (case parse payload of
        Inl _ \<Rightarrow> None
      | Inr v \<Rightarrow>
          (case venue of
             Binance \<Rightarrow> Option.bind (json_get ''id'' v) value_to_id
           | Bybit \<Rightarrow> Option.bind (or_else (json_get ''reqId'' v) (json_get ''req_id'' v)) value_to_id
           | Mexc \<Rightarrow> Option.bind (or_else (json_get ''id'' v) (json_get ''reqId'' v)) value_to_id))"

definition is_bybit_auth_success :: "Json \<Rightarrow> bool" where
  "is_bybit_auth_success v \<longleftrightarrow>
     Option.bind (json_get ''success'' v) json_as_bool = Some True
     \<or> Option.bind (json_get ''retCode'' v) json_as_i64 = Some 0"

section \<open>Errors\<close>

datatype CommandWsRequestError = Unavailable MarketError | Uncertain MarketError

definition command_ws_error :: "Venue \<Rightarrow> string \<Rightarrow> string \<Rightarrow> MarketError" where
  "command_ws_error venue operation message =
     with_retriable True (with_operation operation
       (with_venue venue LinearUsdt (market_error TransportError message)))"

definition ws_auth_error :: "Venue \<Rightarrow> string \<Rightarrow> string \<Rightarrow> MarketError" where
  "ws_auth_error venue operation message =
     with_retriable False (with_operation operation
       (with_venue venue LinearUsdt (market_error AuthError message)))"

definition ws_timeout_error :: "Venue \<Rightarrow> string \<Rightarrow> string \<Rightarrow> MarketError" where
  "ws_timeout_error venue operation message =
     with_retriable True (with_operation operation
       (with_venue venue LinearUsdt (market_error Timeout message)))"

section \<open>The authentication handshake\<close>

text \<open>The messages a session can read.  A failed write is reported with its text.\<close>

datatype WsMessage =
    WsText string
  | WsPing
  | WsClose
  | WsOther

datatype WsRead =
    WsEnded
  | WsFailed string
  | WsMessage WsMessage

text \<open>
  The loop of \<^verbatim>\<open>authenticate_bybit_trade_session\<close> over the frames read before the deadline;
  \<open>pong_error\<close> is the error of answering a ping, if any.  When the frames run out first, the
  five-second deadline ends the handshake.
\<close>

fun auth_frames ::
  "json_parser \<Rightarrow> Venue \<Rightarrow> string option \<Rightarrow> WsRead list \<Rightarrow> CommandWsRequestError option" where
  "auth_frames parse venue pong_error [] =
     Some (Unavailable (ws_timeout_error venue ''bybit.command_ws.auth'' ''timed out waiting for auth response''))"
| "auth_frames parse venue pong_error (WsEnded # _) =
     Some (Unavailable (command_ws_error venue ''bybit.command_ws.auth'' ''connection closed before auth response''))"
| "auth_frames parse venue pong_error (WsFailed err # _) =
     Some (Unavailable (command_ws_error venue ''bybit.command_ws.auth'' err))"
| "auth_frames parse venue pong_error (WsMessage (WsText payload) # frames) =
     (case parse payload of
        Inl err \<Rightarrow> Some (Unavailable (command_ws_error venue ''bybit.command_ws.auth''
          (''failed to decode auth response: '' @ err)))
      | Inr v \<Rightarrow>
          (if is_bybit_auth_success v then None
           else if Option.bind (json_get ''op'' v) json_as_str \<in> {Some ''ping'', Some ''pong''}
           then auth_frames parse venue pong_error frames
           else Some (Unavailable (ws_auth_error venue ''bybit.command_ws.auth''
                  (case Option.bind (or_else (json_get ''retMsg'' v) (json_get ''ret_msg'' v)) json_as_str of
                     None \<Rightarrow> ''bybit trade websocket authentication rejected''
                   | Some m \<Rightarrow> m)))))"
| "auth_frames parse venue pong_error (WsMessage WsPing # frames) =
     (case pong_error of
        Some err \<Rightarrow> Some (Unavailable (command_ws_error venue ''bybit.command_ws.auth'' err))
      | None \<Rightarrow> auth_frames parse venue pong_error frames)"
| "auth_frames parse venue pong_error (WsMessage WsClose # frames) =
     Some (Unavailable (command_ws_error venue ''bybit.command_ws.auth'' ''connection closed during auth handshake''))"
| "auth_frames parse venue pong_error (WsMessage WsOther # frames) = auth_frames parse venue pong_error frames"

section \<open>The hub\<close>

record SessionRequest =
  sq_id :: string
  sq_operation :: string
  sq_payload :: string

text \<open>How a session disposes of a request: the answers of \<^verbatim>\<open>CommandWsSession::request\<close>.\<close>

datatype SessionReply =
    NotRunning
  | Answered "CommandWsRequestError + string"
  | ResponderDropped
  | ResponseTimeout

text \<open>
  The network of the hub.  For the n-th session: the connection error, the signed and
  serialized authentication frame or the error of making it, the error of sending it or a
  pong, and the frames read before the deadline; and the reply of a session to a request,
  given the requests the sessions accepted before.
\<close>

record WsNetwork =
  wn_parse :: json_parser
  wn_connect :: "nat \<Rightarrow> string option"
  wn_auth_frame :: "nat \<Rightarrow> MarketError + string"
  wn_auth_send :: "nat \<Rightarrow> string option"
  wn_auth_pong :: "nat \<Rightarrow> string option"
  wn_auth_reads :: "nat \<Rightarrow> WsRead list"
  wn_reply :: "(nat \<times> SessionRequest) list \<Rightarrow> nat \<Rightarrow> SessionRequest \<Rightarrow> SessionReply"

record CommandTransportHub =
  ch_next_request_id :: u64
  ch_session :: "nat option"
  ch_opened :: nat
  ch_accepted :: "(nat \<times> SessionRequest) list"

definition hub_new :: CommandTransportHub where
  "hub_new = \<lparr>ch_next_request_id = 1, ch_session = None, ch_opened = 0, ch_accepted = []\<rparr>"

definition next_request_id :: "string \<Rightarrow> CommandTransportHub \<Rightarrow> string \<times> CommandTransportHub" where
  "next_request_id prefix hub =
     (prefix @ ''-'' @ show_nat (unat (ch_next_request_id hub)),
      hub\<lparr>ch_next_request_id := ch_next_request_id hub + 1\<rparr>)"

definition authenticate_bybit_trade_session :: "WsNetwork \<Rightarrow> Venue \<Rightarrow> nat \<Rightarrow> CommandWsRequestError option" where
  "authenticate_bybit_trade_session net venue n =
     (case wn_auth_frame net n of
        Inl err \<Rightarrow> Some (Unavailable err)
      | Inr frame \<Rightarrow>
          (case wn_auth_send net n of
             Some err \<Rightarrow> Some (Unavailable (command_ws_error venue ''bybit.command_ws.auth'' err))
           | None \<Rightarrow> auth_frames (wn_parse net) venue (wn_auth_pong net n) (wn_auth_reads net n)))"

definition connect_session ::
  "WsNetwork \<Rightarrow> Venue \<Rightarrow> string option \<Rightarrow> Signer option \<Rightarrow> nat \<Rightarrow> CommandWsRequestError option" where
  "connect_session net venue key signer n =
     (if key = None then
        Some (Unavailable (ws_auth_error venue ''command_ws.connect'' ''missing API key for command websocket flow''))
      else if signer = None then
        Some (Unavailable (ws_auth_error venue ''command_ws.connect'' ''missing signer for command websocket flow''))
      else case wn_connect net n of
        Some err \<Rightarrow> Some (Unavailable (command_ws_error venue ''command_ws.connect'' err))
      | None \<Rightarrow> (if venue = Bybit then authenticate_bybit_trade_session net venue n else None))"

definition hub_session ::
  "WsNetwork \<Rightarrow> Venue \<Rightarrow> string option \<Rightarrow> Signer option \<Rightarrow> CommandTransportHub \<Rightarrow>
     (CommandWsRequestError + nat) \<times> CommandTransportHub" where
  "hub_session net venue key signer hub =
     (case ch_session hub of
        Some n \<Rightarrow> (Inr n, hub)
      | None \<Rightarrow>
          (let n = ch_opened hub in
           case connect_session net venue key signer n of
             Some err \<Rightarrow> (Inl err, hub\<lparr>ch_opened := n + 1\<rparr>)
           | None \<Rightarrow> (Inr n, hub\<lparr>ch_opened := n + 1, ch_session := Some n\<rparr>)))"

definition invalidate_session :: "nat \<Rightarrow> CommandTransportHub \<Rightarrow> CommandTransportHub" where
  "invalidate_session n hub = (if ch_session hub = Some n then hub\<lparr>ch_session := None\<rparr> else hub)"

text \<open>A request is accepted when the session's channel takes it; \<^verbatim>\<open>NotRunning\<close> is the closed channel.\<close>

definition session_request ::
  "WsNetwork \<Rightarrow> Venue \<Rightarrow> nat \<Rightarrow> SessionRequest \<Rightarrow> CommandTransportHub \<Rightarrow>
     (CommandWsRequestError + string) \<times> CommandTransportHub" where
  "session_request net venue n request hub =
     (let accepted = hub\<lparr>ch_accepted := ch_accepted hub @ [(n, request)]\<rparr> in
      case wn_reply net (ch_accepted hub) n request of
        NotRunning \<Rightarrow>
          (Inl (Unavailable (command_ws_error venue (sq_operation request)
             ''command websocket session is not running'')), hub)
      | Answered r \<Rightarrow> (r, accepted)
      | ResponderDropped \<Rightarrow>
          (Inl (Uncertain (command_ws_error venue (sq_operation request)
             ''command websocket closed before response was delivered'')), accepted)
      | ResponseTimeout \<Rightarrow>
          (Inl (Uncertain (ws_timeout_error venue (sq_operation request)
             ''command websocket response timed out'')), accepted))"

fun request_attempts ::
  "WsNetwork \<Rightarrow> Venue \<Rightarrow> string option \<Rightarrow> Signer option \<Rightarrow> SessionRequest \<Rightarrow> nat \<Rightarrow> CommandTransportHub \<Rightarrow>
     (CommandWsRequestError + string) \<times> CommandTransportHub" where
  "request_attempts net venue key signer request remaining hub =
     (case hub_session net venue key signer hub of
        (Inl err, hub1) \<Rightarrow> (Inl err, hub1)
      | (Inr n, hub1) \<Rightarrow>
          (case session_request net venue n request hub1 of
             (Inr response, hub2) \<Rightarrow> (Inr response, hub2)
           | (Inl (Unavailable err), hub2) \<Rightarrow>
               (case remaining of
                  0 \<Rightarrow> (Inl (Unavailable err), invalidate_session n hub2)
                | Suc k \<Rightarrow> request_attempts net venue key signer request k (invalidate_session n hub2))
           | (Inl (Uncertain err), hub2) \<Rightarrow> (Inl (Uncertain err), invalidate_session n hub2)))"

declare request_attempts.simps [simp del]

text \<open>The loop \<^verbatim>\<open>for attempt in 0..2\<close> always returns from its body: one retry remains at first.\<close>

definition request_text ::
  "WsNetwork \<Rightarrow> Venue \<Rightarrow> string option \<Rightarrow> Signer option \<Rightarrow> SessionRequest \<Rightarrow> CommandTransportHub \<Rightarrow>
     (CommandWsRequestError + string) \<times> CommandTransportHub" where
  "request_text net venue key signer request hub =
     request_attempts net venue key signer request 1 hub"

section \<open>The session task\<close>

text \<open>
  The state of \<^verbatim>\<open>run_command_ws_session\<close>.  The responder of a request is a number, counted up
  as requests arrive; \<open>se_answers\<close> records what was sent to a responder, \<open>se_dropped\<close> the
  responders that went out of scope unanswered (their request sees a closed channel), and
  \<open>se_result\<close> how the task ended, if it did.
\<close>

record PendingResponse =
  pr_operation :: string
  pr_responder :: nat

record WsSession =
  se_pending :: "(string, PendingResponse) btree_map"
  se_sent :: "string list"
  se_next :: nat
  se_answers :: "(nat \<times> (CommandWsRequestError + string)) list"
  se_dropped :: "nat list"
  se_result :: "unit result option"

definition session_new :: WsSession where
  "session_new = \<lparr>se_pending = [], se_sent = [], se_next = 0, se_answers = [], se_dropped = [], se_result = None\<rparr>"

text \<open>What the task's \<^verbatim>\<open>select!\<close> can wake up with; a write carries its error, if any.\<close>

datatype SessionEvent =
    Requested SessionRequest "string option"
  | RequestsClosed
  | HeartbeatTick "string option"
  | ReadEnded
  | ReadFailed string
  | ReadText string
  | ReadPing "string option"
  | ReadClose
  | ReadOther

definition fail_pending :: "Venue \<Rightarrow> string \<Rightarrow> WsSession \<Rightarrow> WsSession" where
  "fail_pending venue message s =
     s\<lparr>se_answers := se_answers s @
         map (\<lambda>p. (pr_responder p, Inl (Uncertain (command_ws_error venue (pr_operation p) message))))
           (bt_values (se_pending s)),
       se_pending := []\<rparr>"

text \<open>Returning from the task drops what is still pending.\<close>

definition session_return :: "unit result \<Rightarrow> WsSession \<Rightarrow> WsSession" where
  "session_return r s =
     s\<lparr>se_result := Some r,
       se_dropped := se_dropped s @ map pr_responder (bt_values (se_pending s)),
       se_pending := []\<rparr>"

fun run_command_ws_session :: "json_parser \<Rightarrow> Venue \<Rightarrow> WsSession \<Rightarrow> SessionEvent \<Rightarrow> WsSession" where
  "run_command_ws_session parse venue s (Requested request send_error) =
     (let responder = se_next s; s1 = s\<lparr>se_next := se_next s + 1\<rparr> in
      if se_result s \<noteq> None then s
      else case send_error of
        Some err \<Rightarrow>
          session_return (Err (command_ws_error venue (sq_operation request)
              (''failed to send command websocket frame: '' @ err)))
            (s1\<lparr>se_dropped := se_dropped s @ [responder]\<rparr>)
      | None \<Rightarrow>
          s1\<lparr>se_sent := se_sent s @ [sq_payload request],
             se_dropped := se_dropped s @
               (case bt_get (se_pending s) (sq_id request) of None \<Rightarrow> [] | Some old \<Rightarrow> [pr_responder old]),
             se_pending := bt_insert (sq_id request)
               \<lparr>pr_operation = sq_operation request, pr_responder = responder\<rparr> (se_pending s)\<rparr>)"
| "run_command_ws_session parse venue s RequestsClosed =
     (if se_result s \<noteq> None then s else session_return (Ok ()) s)"
| "run_command_ws_session parse venue s (HeartbeatTick send_error) =
     (if se_result s \<noteq> None then s
      else case send_error of
        None \<Rightarrow> s
      | Some err \<Rightarrow> session_return (Err (command_ws_error venue ''command_ws.ping'' err)) s)"
| "run_command_ws_session parse venue s ReadEnded =
     (if se_result s \<noteq> None then s
      else session_return (Err (command_ws_error venue ''command_ws.read'' ''command websocket closed''))
        (fail_pending venue ''command websocket closed while requests were in flight'' s))"
| "run_command_ws_session parse venue s (ReadFailed err) =
     (if se_result s \<noteq> None then s
      else session_return (Err (command_ws_error venue ''command_ws.read'' err))
        (fail_pending venue (''command websocket read failed: '' @ err) s))"
| "run_command_ws_session parse venue s (ReadText payload) =
     (if se_result s \<noteq> None then s
      else case extract_response_id parse venue payload of
        None \<Rightarrow> s
      | Some rid \<Rightarrow>
          (case bt_get (se_pending s) rid of
             None \<Rightarrow> s
           | Some p \<Rightarrow> s\<lparr>se_pending := bt_remove rid (se_pending s),
                          se_answers := se_answers s @ [(pr_responder p, Inr payload)]\<rparr>))"
| "run_command_ws_session parse venue s (ReadPing send_error) =
     (if se_result s \<noteq> None then s
      else case send_error of
        None \<Rightarrow> s
      | Some err \<Rightarrow> session_return (Err (command_ws_error venue ''command_ws.pong'' err)) s)"
| "run_command_ws_session parse venue s ReadClose =
     (if se_result s \<noteq> None then s
      else session_return (Err (command_ws_error venue ''command_ws.read'' ''command websocket closed by peer''))
        (fail_pending venue ''command websocket connection closed by remote peer'' s))"
| "run_command_ws_session parse venue s ReadOther = s"

section \<open>At most one submission\<close>

lemma session_request_accepts:
  "case session_request net venue n request hub of
     (Inl (Unavailable err), hub') \<Rightarrow>
       (wn_reply net (ch_accepted hub) n request = NotRunning \<and> hub' = hub) \<or>
       (\<exists>e. wn_reply net (ch_accepted hub) n request = Answered (Inl (Unavailable e)))
   | (_, hub') \<Rightarrow> ch_accepted hub' = ch_accepted hub @ [(n, request)]"
  by (auto simp: session_request_def Let_def split: SessionReply.split sum.split CommandWsRequestError.split)

text \<open>
  What the hub relies on: a session never reports to a request it accepted that it was not
  available.  \<open>session_replies\<close> below shows that the session task behaves so.
\<close>

definition replies_honest :: "WsNetwork \<Rightarrow> bool" where
  "replies_honest net \<longleftrightarrow> (\<forall>log n request e. wn_reply net log n request \<noteq> Answered (Inl (Unavailable e)))"

lemma auth_frames_unavailable:
  "auth_frames parse venue pong frames \<noteq> Some (Uncertain err)"
  by (induction parse venue pong frames rule: auth_frames.induct)
    (auto split: sum.split option.split simp: Let_def)

lemma connect_unavailable: "connect_session net venue key signer n \<noteq> Some (Uncertain err)"
  by (simp add: connect_session_def authenticate_bybit_trade_session_def auth_frames_unavailable
      split: option.split sum.split)

lemma hub_session_outcome:
  "hub_session net venue key signer hub = (r, hub') \<Longrightarrow>
    ch_accepted hub' = ch_accepted hub \<and> r \<noteq> Inl (Uncertain err)"
  using connect_unavailable [of net venue key signer "ch_opened hub" err]
  by (auto simp: hub_session_def Let_def split: option.splits)

lemma invalidate_accepted [simp]: "ch_accepted (invalidate_session n hub) = ch_accepted hub"
  by (simp add: invalidate_session_def)

definition submitted :: "SessionRequest \<Rightarrow> CommandTransportHub \<Rightarrow> CommandTransportHub \<Rightarrow> bool" where
  "submitted request hub hub' \<longleftrightarrow> (\<exists>n. ch_accepted hub' = ch_accepted hub @ [(n, request)])"

fun submission_agrees ::
  "SessionRequest \<Rightarrow> CommandTransportHub \<Rightarrow> (CommandWsRequestError + string) \<times> CommandTransportHub \<Rightarrow> bool" where
  "submission_agrees request hub (Inl (Unavailable err), hub') = (ch_accepted hub' = ch_accepted hub)"
| "submission_agrees request hub (Inl (Uncertain err), hub') = submitted request hub hub'"
| "submission_agrees request hub (Inr response, hub') = submitted request hub hub'"

lemma ws_reply_cases [case_names Unavailable Uncertain Answered]:
  "(\<And>e hub. x = (Inl (Unavailable e), hub) \<Longrightarrow> P) \<Longrightarrow> (\<And>e hub. x = (Inl (Uncertain e), hub) \<Longrightarrow> P) \<Longrightarrow>
    (\<And>r hub. x = (Inr r, hub) \<Longrightarrow> P) \<Longrightarrow> P"
  by (cases x, cases "fst x") (auto intro: CommandWsRequestError.exhaust)

lemma session_request_agrees:
  assumes "replies_honest net"
  shows "submission_agrees request hub (session_request net venue n request hub)"
proof (cases "wn_reply net (ch_accepted hub) n request")
  case (Answered r)
  with assms have "\<not> (\<exists>e. r = Inl (Unavailable e))" by (auto simp: replies_honest_def)
  then have "submission_agrees request hub (r, hub\<lparr>ch_accepted := ch_accepted hub @ [(n, request)]\<rparr>)"
    by (cases "(r, hub)" rule: ws_reply_cases) (auto simp: submitted_def)
  with Answered show ?thesis by (simp add: session_request_def)
qed (simp_all add: session_request_def submitted_def)

lemma request_attempts_agrees:
  assumes "replies_honest net"
  shows "submission_agrees request hub (request_attempts net venue key signer request remaining hub)"
proof (induction remaining arbitrary: hub)
  case 0
  obtain r hub1 where session: "hub_session net venue key signer hub = (r, hub1)" by fastforce
  note out = hub_session_outcome [OF session]
  show ?case
  proof (cases r)
    case (Inr n)
    with session out session_request_agrees [OF assms, of request hub1 venue n] show ?thesis
      by (cases "session_request net venue n request hub1" rule: ws_reply_cases)
        (auto simp: request_attempts.simps [of _ _ _ _ _ 0] submitted_def)
  next
    case (Inl err)
    with session out show ?thesis
      by (cases err) (auto simp: request_attempts.simps [of _ _ _ _ _ 0])
  qed
next
  case (Suc k)
  obtain r hub1 where session: "hub_session net venue key signer hub = (r, hub1)" by fastforce
  note out = hub_session_outcome [OF session]
  show ?case
  proof (cases r)
    case (Inr n)
    note agrees = session_request_agrees [OF assms, of request hub1 venue n]
    show ?thesis
    proof (cases "session_request net venue n request hub1" rule: ws_reply_cases)
      case (Unavailable e hub2)
      from Suc [of "invalidate_session n hub2"] Unavailable agrees out session Inr show ?thesis
        by (cases "request_attempts net venue key signer request k (invalidate_session n hub2)" rule: ws_reply_cases)
          (auto simp: request_attempts.simps [of _ _ _ _ _ "Suc k"] submitted_def)
    qed (use session out agrees Inr in \<open>auto simp: request_attempts.simps [of _ _ _ _ _ "Suc k"] submitted_def\<close>)
  next
    case (Inl err)
    with session out show ?thesis
      by (cases err) (auto simp: request_attempts.simps [of _ _ _ _ _ "Suc k"])
  qed
qed

section \<open>Conservation of responders\<close>

text \<open>
  Every responder that ever arrived is in exactly one place: pending, answered or dropped;
  a positive answer was addressed to the responder's request; nothing stays pending in a task
  that has ended.
\<close>

definition session_responders :: "WsSession \<Rightarrow> nat list" where
  "session_responders s = map pr_responder (bt_values (se_pending s)) @ map fst (se_answers s) @ se_dropped s"

definition session_inv :: "WsSession \<Rightarrow> bool" where
  "session_inv s \<longleftrightarrow>
     bt_wf (se_pending s) \<and> mset (session_responders s) = mset [0 ..< se_next s] \<and>
     (\<forall>r e. (r, Inl e) \<in> set (se_answers s) \<longrightarrow> (\<exists>m. e = Uncertain m)) \<and>
     (case se_result s of None \<Rightarrow> True | Some _ \<Rightarrow> se_pending s = [])"

lemma bt_get_above: "bt_wf (e # m) \<Longrightarrow> \<not> fst e < k \<Longrightarrow> bt_get m k = None"
  by (auto simp: bt_wf_def bt_keys_def bt_get_def map_of_eq_None_iff)

lemma bt_wf_tail: "bt_wf (e # m) \<Longrightarrow> bt_wf m"
  by (simp add: bt_wf_def bt_keys_def)

lemma bt_values_insert_mset:
  "bt_wf m \<Longrightarrow> mset (map f (bt_values (bt_insert k v m))) + (case bt_get m k of None \<Rightarrow> {#} | Some w \<Rightarrow> {#f w#}) =
    add_mset (f v) (mset (map f (bt_values m)))"
proof (induction m)
  case Nil
  show ?case by (simp add: bt_values_def)
next
  case (Cons e m)
  show ?case
  proof (cases "fst e < k")
    case True
    then have "bt_get (e # m) k = bt_get m k" by (cases e) (auto simp: bt_get_def)
    with True Cons.IH [OF bt_wf_tail [OF Cons.prems]] show ?thesis by (simp add: bt_values_def)
  next
    case False
    from bt_get_above [OF Cons.prems this] False show ?thesis
      by (cases e) (auto simp: bt_values_def bt_get_def)
  qed
qed

lemma bt_values_remove_mset:
  "bt_wf m \<Longrightarrow> bt_get m k = Some v \<Longrightarrow>
    add_mset (f v) (mset (map f (bt_values (bt_remove k m)))) = mset (map f (bt_values m))"
proof (induction m)
  case Nil
  then show ?case by simp
next
  case (Cons e m)
  show ?case
  proof (cases "fst e = k")
    case True
    then have "filter (\<lambda>e. fst e \<noteq> k) m = m"
      using Cons.prems(1) by (auto simp: bt_wf_def bt_keys_def filter_id_conv)
    with True Cons.prems(2) show ?thesis by (cases e) (simp add: bt_remove_def bt_values_def bt_get_def)
  next
    case False
    with Cons.prems(2) have "bt_get m k = Some v" by (cases e) (simp add: bt_get_def)
    with False Cons.IH [OF bt_wf_tail [OF Cons.prems(1)]] show ?thesis
      by (simp add: bt_remove_def bt_values_def add_mset_commute)
  qed
qed

lemma session_inv_return:
  "session_inv s \<Longrightarrow> session_inv (session_return r s)"
  by (auto simp: session_inv_def session_return_def session_responders_def bt_values_def ac_simps)

lemma session_inv_fail: "session_inv s \<Longrightarrow> session_inv (fail_pending venue message s)"
proof -
  have "map (fst \<circ> (\<lambda>p. (pr_responder p, g p))) xs = map pr_responder xs" for g :: "PendingResponse \<Rightarrow> 'b" and xs
    by simp
  then show "session_inv s \<Longrightarrow> ?thesis"
    by (auto simp: session_inv_def fail_pending_def session_responders_def bt_values_def ac_simps comp_def split: option.splits)
qed

lemma session_inv_request:
  assumes "session_inv s" and "se_result s = None"
  shows "session_inv (run_command_ws_session parse venue s (Requested request send_error))"
proof (cases send_error)
  case None
  have "mset (map pr_responder (bt_values (bt_insert (sq_id request) p (se_pending s)))) +
      (case bt_get (se_pending s) (sq_id request) of None \<Rightarrow> {#} | Some w \<Rightarrow> {#pr_responder w#}) =
      add_mset (pr_responder p) (mset (map pr_responder (bt_values (se_pending s))))" for p
    using assms(1) by (intro bt_values_insert_mset) (simp add: session_inv_def)
  note moved = this [of "\<lparr>pr_operation = sq_operation request, pr_responder = se_next s\<rparr>"]
  let ?s = "run_command_ws_session parse venue s (Requested request send_error)"
  have "mset (session_responders ?s) = add_mset (se_next s) (mset (session_responders s))"
    using None assms(2) moved
    by (auto simp: session_responders_def Let_def ac_simps split: option.splits)
  then show ?thesis
    using assms None by (simp add: session_inv_def Let_def)
next
  case (Some err)
  have "session_inv (s\<lparr>se_next := se_next s + 1, se_dropped := se_dropped s @ [se_next s]\<rparr>)"
    using assms by (auto simp: session_inv_def session_responders_def ac_simps)
  from session_inv_return [OF this] Some assms(2) show ?thesis by (simp add: Let_def)
qed

lemma session_inv_text:
  assumes "session_inv s"
  shows "session_inv (run_command_ws_session parse venue s (ReadText payload))"
proof -
  have removed: "mset (map pr_responder (bt_values (se_pending s))) =
      add_mset (pr_responder p) (mset (map pr_responder (bt_values (bt_remove rid (se_pending s)))))"
    if "bt_get (se_pending s) rid = Some p" for rid p
    using assms that bt_values_remove_mset [of "se_pending s" rid p pr_responder] by (simp add: session_inv_def)
  let ?s = "\<lambda>rid p. s\<lparr>se_pending := bt_remove rid (se_pending s),
      se_answers := se_answers s @ [(pr_responder p, Inr payload)]\<rparr>"
  have same: "mset (session_responders (?s rid p)) = mset (session_responders s)"
    if "bt_get (se_pending s) rid = Some p" for rid p
    unfolding session_responders_def mset_append removed [OF that] by simp
  have "session_inv (?s rid p)" if "bt_get (se_pending s) rid = Some p" "se_result s = None" for rid p
    using assms that same [OF that(1)] by (simp add: session_inv_def)
  with assms show ?thesis by (simp split: option.split)
qed

lemma session_step_inv: "session_inv s \<Longrightarrow> session_inv (run_command_ws_session parse venue s e)"
proof (cases e)
  case (Requested request err)
  then show "session_inv s \<Longrightarrow> ?thesis"
    using session_inv_request [of s parse venue request err] by (cases "se_result s") (auto simp: Let_def)
next
  case (ReadText payload)
  then show "session_inv s \<Longrightarrow> ?thesis" using session_inv_text by blast
qed (auto simp: session_inv_return session_inv_fail split: option.split)

interpretation ws_session: reactive_machine "run_command_ws_session parse venue" session_inv for parse venue
  by unfold_locales (rule session_step_inv)

text \<open>The reply a request sees, read off the session task that accepted it.\<close>

definition session_reply :: "WsSession \<Rightarrow> nat \<Rightarrow> SessionReply" where
  "session_reply s responder =
     (case map_of (se_answers s) responder of
        Some a \<Rightarrow> Answered a
      | None \<Rightarrow> (if responder \<in> set (se_dropped s) then ResponderDropped else ResponseTimeout))"

lemma session_inv_new: "session_inv session_new"
  by (simp add: session_inv_def session_new_def session_responders_def bt_values_def)

lemma session_replies: "session_inv s \<Longrightarrow> session_reply s responder \<noteq> Answered (Inl (Unavailable e))"
  by (auto simp: session_reply_def session_inv_def dest!: map_of_SomeD split: option.split)

section \<open>Properties\<close>

text \<open>
  C25. A command is handed to a websocket session at most once.  \<^verbatim>\<open>request_text\<close> reports
  \<^verbatim>\<open>Unavailable\<close> only when no session accepted the request, so that falling back to REST cannot
  submit it twice; with any other outcome exactly one session accepted it, once, in spite of
  the retry.
\<close>

theorem ws_request_at_most_once:
  assumes "replies_honest net"
  shows "case request_text net venue key signer request hub of
     (Inl (Unavailable err), hub') \<Rightarrow> ch_accepted hub' = ch_accepted hub
   | (Inl (Uncertain err), hub') \<Rightarrow> \<exists>n. ch_accepted hub' = ch_accepted hub @ [(n, request)]
   | (Inr response, hub') \<Rightarrow> \<exists>n. ch_accepted hub' = ch_accepted hub @ [(n, request)]"
  using request_attempts_agrees [OF assms, of request hub venue key signer 1]
  unfolding request_text_def
  by (cases "request_attempts net venue key signer request 1 hub" rule: ws_reply_cases)
    (simp_all add: submitted_def)


section \<open>A concrete network\<close>

text \<open>The first session is not running any more, the second one answers.\<close>

definition sample_ws_network :: WsNetwork where
  "sample_ws_network =
     \<lparr>wn_parse = (\<lambda>_. Inr (JObject [(''success'', JBool True)])), wn_connect = (\<lambda>_. None),
      wn_auth_frame = (\<lambda>_. Inr []), wn_auth_send = (\<lambda>_. None), wn_auth_pong = (\<lambda>_. None),
      wn_auth_reads = (\<lambda>_. [WsMessage WsPing, WsMessage (WsText ''auth'')]),
      wn_reply = (\<lambda>_ n _. if n = 0 then NotRunning else Answered (Inr ''done''))\<rparr>"

lemma sample_ws_honest: "replies_honest sample_ws_network"
  by (simp add: replies_honest_def sample_ws_network_def)

theorem ws_request_at_most_once_witness:
  "let request = \<lparr>sq_id = ''bybit-1'', sq_operation = ''op'', sq_payload = ''{}''\<rparr>;
       (r, hub) = request_text sample_ws_network Bybit (Some ''key'') (Some (MemorySigner ''secret'')) request hub_new in
   r = Inr ''done'' \<and> (\<exists>n. ch_accepted hub = [(n, request)])"
proof -
  let ?request = "\<lparr>sq_id = ''bybit-1'', sq_operation = ''op'', sq_payload = ''{}''\<rparr>"
  let ?r = "request_text sample_ws_network Bybit (Some ''key'') (Some (MemorySigner ''secret'')) ?request hub_new"
  have "fst ?r = Inr ''done''"
    by (simp add: request_text_def request_attempts.simps hub_session_def connect_session_def hub_new_def
        authenticate_bybit_trade_session_def sample_ws_network_def is_bybit_auth_success_def bt_get_def
        session_request_def invalidate_session_def Let_def)
  moreover from this ws_request_at_most_once [OF sample_ws_honest,
      where venue = Bybit and key = "Some ''key''" and signer = "Some (MemorySigner ''secret'')"
        and request = ?request and hub = hub_new]
  have "\<exists>n. ch_accepted (snd ?r) = [(n, ?request)]"
    by (cases ?r) (simp add: hub_new_def)
  ultimately show ?thesis by (simp add: Let_def split_def)
qed

end
