(* ===== verification/Sequence.thy ===== *)
theory Sequence
  imports BTree_Map
begin

text \<open>
  The sequence tracker of \<^verbatim>\<open>bat-markets/src/runtime.rs\<close>, which a stream session consults for
  every frame that carries an update number: one watermark per topic, a gap when a number
  goes backwards, and, for the topics whose updates are numbered consecutively, when one is
  skipped.
\<close>

record Watermark =
  wm_value :: i64
  wm_strict_gap :: bool

record SequenceObservation =
  so_topic :: string
  so_value :: i64
  so_strict_gap :: bool
  so_reset :: bool

type_synonym SequenceTracker = "(string, Watermark) btree_map"

text \<open>\<^verbatim>\<open>Err\<close> carries the number the gap was noticed at.  The sum \<^verbatim>\<open>existing.value + 1\<close> is only
  reached when the observed value is larger, so that it cannot overflow.\<close>

definition observe :: "SequenceObservation \<Rightarrow> SequenceTracker \<Rightarrow> (i64 + unit) \<times> SequenceTracker" where
  "observe seen tracker =
     (let current = \<lparr>wm_value = so_value seen, wm_strict_gap = so_strict_gap seen\<rparr> in
      if so_reset seen then (Inr (), bt_insert (so_topic seen) current tracker)
      else case bt_get tracker (so_topic seen) of
        None \<Rightarrow> (Inr (), bt_insert (so_topic seen) current tracker)
      | Some existing \<Rightarrow>
          (if so_value seen = wm_value existing then (Inr (), tracker)
           else if so_value seen < wm_value existing then (Inl (so_value seen), tracker)
           else if wm_strict_gap existing \<and> i64_wrap (wm_value existing + 1) < so_value seen
             then (Inl (i64_wrap (wm_value existing + 1)), tracker)
           else (Inr (), bt_insert (so_topic seen) current tracker)))"

text \<open>The loop over the observations of a frame, which stops at the first gap.\<close>

fun observe_all :: "SequenceObservation list \<Rightarrow> SequenceTracker \<Rightarrow> i64 option \<times> SequenceTracker" where
  "observe_all [] tracker = (None, tracker)"
| "observe_all (seen # rest) tracker =
     (case observe seen tracker of
        (Inl at, tracker1) \<Rightarrow> (Some at, tracker1)
      | (Inr _, tracker1) \<Rightarrow> observe_all rest tracker1)"

section \<open>The tracker against its specification\<close>

text \<open>
  What the tracker is for, said of two consecutive observations of one topic: the number does
  not go back and, on a strict topic, no number is left out, unless the second one announces
  a fresh snapshot.
\<close>

definition follows :: "SequenceObservation \<Rightarrow> SequenceObservation \<Rightarrow> bool" where
  "follows a b \<longleftrightarrow> so_reset b \<or>
     so_value a \<le> so_value b \<and> (if so_strict_gap a then so_value b \<le> so_value a + 1 else True)"

definition of_topic :: "string \<Rightarrow> SequenceObservation list \<Rightarrow> SequenceObservation list" where
  "of_topic t = filter (\<lambda>seen. so_topic seen = t)"

definition gapless :: "SequenceObservation list \<Rightarrow> bool" where
  "gapless seen = list_all (\<lambda>t. successively follows (of_topic t seen)) (map so_topic seen)"

text \<open>The observations of a topic agree on whether its numbers are consecutive.\<close>

definition uniform :: "SequenceObservation list \<Rightarrow> bool" where
  "uniform seen = list_all (\<lambda>a. list_all (\<lambda>b.
     if so_topic a = so_topic b then so_strict_gap a = so_strict_gap b else True) seen) seen"

lemma i64_succ: "in_i64 a \<Longrightarrow> in_i64 b \<Longrightarrow> a < b \<Longrightarrow> i64_wrap (a + 1) = a + 1"
  by (intro i64_wrap_id) (auto simp: in_i64_def)

lemma successively_snoc:
  "successively P (xs @ [x]) \<longleftrightarrow> successively P xs \<and> (xs = [] \<or> P (last xs) x)"
  by (auto simp: successively_append_iff)

text \<open>The tracker remembers the last observation of every topic.\<close>

definition tracks :: "SequenceTracker \<Rightarrow> SequenceObservation list \<Rightarrow> bool" where
  "tracks tracker seen \<longleftrightarrow> bt_wf tracker \<and>
     (\<forall>t. bt_get tracker t = (if of_topic t seen = [] then None
       else Some \<lparr>wm_value = so_value (last (of_topic t seen)),
                  wm_strict_gap = so_strict_gap (last (of_topic t seen))\<rparr>))"

lemma of_topic_snoc: "of_topic t (seen @ [x]) = of_topic t seen @ (if so_topic x = t then [x] else [])"
  by (simp add: of_topic_def)

lemma of_topic_mem: "x \<in> set (of_topic t seen) \<longleftrightarrow> x \<in> set seen \<and> so_topic x = t"
  by (auto simp: of_topic_def)

lemma observe_tracks:
  assumes tracks: "tracks tracker seen" and ok: "list_all (\<lambda>s. in_i64 (so_value s)) (seen @ [x])"
    and same: "uniform (seen @ [x])"
  shows "case observe x tracker of
      (Inr _, tracker1) \<Rightarrow> tracks tracker1 (seen @ [x]) \<and>
        (of_topic (so_topic x) seen = [] \<or> follows (last (of_topic (so_topic x) seen)) x)
    | (Inl at, tracker1) \<Rightarrow>
        of_topic (so_topic x) seen \<noteq> [] \<and> \<not> follows (last (of_topic (so_topic x) seen)) x"
proof -
  let ?mine = "of_topic (so_topic x) seen"
  let ?w = "\<lparr>wm_value = so_value x, wm_strict_gap = so_strict_gap x\<rparr>"
  have insert: "tracks (bt_insert (so_topic x) ?w tracker) (seen @ [x])"
    using tracks by (auto simp: tracks_def of_topic_snoc bt.wf_insert bt.get_insert)
  show ?thesis
  proof (cases "?mine = []")
    case True
    then have "bt_get tracker (so_topic x) = None" using tracks by (simp add: tracks_def)
    with True insert show ?thesis by (simp add: observe_def Let_def)
  next
    case False
    let ?l = "last ?mine"
    have get: "bt_get tracker (so_topic x) = Some \<lparr>wm_value = so_value ?l, wm_strict_gap = so_strict_gap ?l\<rparr>"
      using False tracks by (simp add: tracks_def)
    have l: "?l \<in> set seen" "so_topic ?l = so_topic x"
      using last_in_set [OF False] by (simp_all add: of_topic_mem)
    then have strict: "so_strict_gap ?l = so_strict_gap x"
      using same unfolding uniform_def list_all_iff by (metis in_set_conv_decomp append_is_Nil_conv Un_iff set_append)
    have ranges: "in_i64 (so_value ?l)" "in_i64 (so_value x)" using ok l(1) by (simp_all add: list_all_iff)
    have keep: "tracks tracker (seen @ [x])" if "so_value x = so_value ?l"
      using tracks that strict False by (auto simp: tracks_def of_topic_snoc)
    let ?e = "\<lparr>wm_value = so_value ?l, wm_strict_gap = so_strict_gap ?l\<rparr>"
    consider "so_reset x" | "\<not> so_reset x" "so_value x = so_value ?l" | "\<not> so_reset x" "so_value x < so_value ?l"
      | "\<not> so_reset x" "so_value ?l < so_value x" "so_strict_gap x" "so_value ?l + 1 < so_value x"
      | "\<not> so_reset x" "so_value ?l < so_value x" "so_strict_gap x \<longrightarrow> so_value x \<le> so_value ?l + 1"
      by linarith
    then show ?thesis
    proof cases
      case 1
      with insert show ?thesis by (simp add: observe_def follows_def)
    next
      case 2
      with get keep show ?thesis by (simp add: observe_def follows_def)
    next
      case 3
      with get False show ?thesis by (simp add: observe_def follows_def)
    next
      case 4
      with get False strict i64_succ [OF ranges] show ?thesis by (simp add: observe_def follows_def)
    next
      case 5
      with get insert strict i64_succ [OF ranges] show ?thesis by (auto simp: observe_def follows_def)
    qed
  qed
qed

lemma successively_of_topic:
  "(\<forall>t. successively follows (of_topic t (seen @ [x]))) \<longleftrightarrow>
    (\<forall>t. successively follows (of_topic t seen)) \<and>
    (of_topic (so_topic x) seen = [] \<or> follows (last (of_topic (so_topic x) seen)) x)"
  by (auto simp: of_topic_snoc successively_snoc)

lemma successively_prefix: "successively P (xs @ ys) \<Longrightarrow> successively P xs"
  by (simp add: successively_append_iff)

lemma observe_all_equiv:
  assumes "tracks tracker seen" and "list_all (\<lambda>s. in_i64 (so_value s)) (seen @ xs)" and "uniform (seen @ xs)"
    and "\<forall>t. successively follows (of_topic t seen)"
  shows "fst (observe_all xs tracker) = None \<longleftrightarrow> (\<forall>t. successively follows (of_topic t (seen @ xs)))"
  using assms
proof (induction xs arbitrary: tracker seen)
  case Nil
  then show ?case by simp
next
  case (Cons x xs)
  have sub: "list_all (\<lambda>s. in_i64 (so_value s)) (seen @ [x])" "uniform (seen @ [x])"
    using Cons.prems(2,3) by (auto simp: uniform_def list_all_iff)
  note step = observe_tracks [OF Cons.prems(1) sub]
  show ?case
  proof (cases "observe x tracker")
    case (Pair r tracker1)
    show ?thesis
    proof (cases r)
      case (Inl at)
      with Pair step have "\<not> successively follows (of_topic (so_topic x) (seen @ [x]))"
        by (simp add: of_topic_snoc successively_snoc)
      then have "\<not> successively follows (of_topic (so_topic x) ((seen @ [x]) @ xs))"
        by (metis of_topic_def filter_append successively_prefix)
      then have "\<not> (\<forall>t. successively follows (of_topic t (seen @ x # xs)))" by force
      with Pair Inl show ?thesis by simp
    next
      case (Inr u)
      with Pair step have next_step: "tracks tracker1 (seen @ [x])"
        "of_topic (so_topic x) seen = [] \<or> follows (last (of_topic (so_topic x) seen)) x" by simp_all
      with Cons.prems(4) have "\<forall>t. successively follows (of_topic t (seen @ [x]))"
        by (simp only: successively_of_topic) simp
      with Cons.IH [OF next_step(1)] Cons.prems(2,3) Pair Inr show ?thesis by simp
    qed
  qed
qed

text \<open>
  C21. The tracker accepts a run of observations exactly when no topic has a gap: taken topic by
  topic, whatever the interleaving, the numbers never go back and the numbers of a strict
  topic are consecutive, except across an announced snapshot.
\<close>

theorem tracker_detects_gaps:
  assumes "uniform seen" and "list_all (\<lambda>s. in_i64 (so_value s)) seen"
  shows "(fst (observe_all seen []) = None) = gapless seen"
proof -
  have "successively follows (of_topic t seen)" if "t \<notin> set (map so_topic seen)" for t
  proof -
    have "of_topic t seen = []" using that by (auto simp: of_topic_def filter_empty_conv)
    then show ?thesis by simp
  qed
  then have "gapless seen \<longleftrightarrow> (\<forall>t. successively follows (of_topic t seen))"
    unfolding gapless_def list_all_iff by (metis)
  moreover have "fst (observe_all seen []) = None \<longleftrightarrow> (\<forall>t. successively follows (of_topic t ([] @ seen)))"
    using assms by (intro observe_all_equiv) (simp_all add: tracks_def of_topic_def bt.wf_empty bt.get_empty)
  ultimately show ?thesis by simp
qed

definition trade_seen :: "string \<Rightarrow> i64 \<Rightarrow> SequenceObservation" where
  "trade_seen t n = \<lparr>so_topic = t, so_value = n, so_strict_gap = True, so_reset = False\<rparr>"

theorem tracker_detects_gaps_witness:
  "\<not> gapless [trade_seen ''a'' 1, trade_seen ''b'' 7, trade_seen ''a'' 3] \<and>
   fst (observe_all [trade_seen ''a'' 1, trade_seen ''b'' 7, trade_seen ''a'' 3] []) \<noteq> None"
  using tracker_detects_gaps [of "[trade_seen ''a'' 1, trade_seen ''b'' 7, trade_seen ''a'' 3]"]
  by (simp add: trade_seen_def uniform_def in_i64_def i64_min_def i64_max_def gapless_def of_topic_def follows_def)

end
