(* ===== verification/Bybit_Native.thy ===== *)
theory Bybit_Native
  imports Json_Value
begin

text \<open>
  \<^verbatim>\<open>bat-markets-bybit/src/native.rs\<close>: the messages of the venue with the readers that serde
  derives for them.
\<close>

fun read_optional_i64 :: "i64 option json_reader" where
  "read_optional_i64 JNull = Some None"
| "read_optional_i64 (JNumber _ n) = map_option Some n"
| "read_optional_i64 (JString raw) = map_option Some (parse_i64 raw)"
| "read_optional_i64 _ = None"

record BybitPublicEnvelope =
  by_pe_topic :: string
  by_pe_message_type :: "string option"
  by_pe_ts :: i64
  by_pe_data :: Json

definition read_BybitPublicEnvelope :: "BybitPublicEnvelope json_reader" where
  "read_BybitPublicEnvelope v = do {
     v_topic \<leftarrow> req_field ''topic'' json_as_str v;
     v_message_type \<leftarrow> opt_field ''type'' json_as_str v;
     v_ts \<leftarrow> dflt_field ''ts'' 0 json_as_i64 v;
     v_data \<leftarrow> req_field ''data'' json_as_value v;
     Some \<lparr>by_pe_topic = v_topic,
       by_pe_message_type = v_message_type,
       by_pe_ts = v_ts,
       by_pe_data = v_data\<rparr>}"

record BybitPrivateEnvelope =
  by_pex_topic :: string
  by_pex_creation_time :: i64
  by_pex_data :: Json

definition read_BybitPrivateEnvelope :: "BybitPrivateEnvelope json_reader" where
  "read_BybitPrivateEnvelope v = do {
     v_topic \<leftarrow> req_field ''topic'' json_as_str v;
     v_creation_time \<leftarrow> dflt_field ''creationTime'' 0 json_as_i64 v;
     v_data \<leftarrow> req_field ''data'' json_as_value v;
     Some \<lparr>by_pex_topic = v_topic,
       by_pex_creation_time = v_creation_time,
       by_pex_data = v_data\<rparr>}"

record BybitTickerData =
  by_td_symbol :: string
  by_td_last_price :: string
  by_td_mark_price :: string
  by_td_index_price :: string
  by_td_open_interest :: string
  by_td_funding_rate :: string
  by_td_volume_24h :: string
  by_td_turnover_24h :: string
  by_td_bid1_price :: "string option"
  by_td_bid1_size :: "string option"
  by_td_ask1_price :: "string option"
  by_td_ask1_size :: "string option"

definition read_BybitTickerData :: "BybitTickerData json_reader" where
  "read_BybitTickerData v = do {
     v_symbol \<leftarrow> req_field ''symbol'' json_as_str v;
     v_last_price \<leftarrow> req_field ''lastPrice'' json_as_str v;
     v_mark_price \<leftarrow> req_field ''markPrice'' json_as_str v;
     v_index_price \<leftarrow> req_field ''indexPrice'' json_as_str v;
     v_open_interest \<leftarrow> req_field ''openInterest'' json_as_str v;
     v_funding_rate \<leftarrow> req_field ''fundingRate'' json_as_str v;
     v_volume_24h \<leftarrow> req_field ''volume24h'' json_as_str v;
     v_turnover_24h \<leftarrow> req_field ''turnover24h'' json_as_str v;
     v_bid1_price \<leftarrow> opt_field ''bid1Price'' json_as_str v;
     v_bid1_size \<leftarrow> opt_field ''bid1Size'' json_as_str v;
     v_ask1_price \<leftarrow> opt_field ''ask1Price'' json_as_str v;
     v_ask1_size \<leftarrow> opt_field ''ask1Size'' json_as_str v;
     Some \<lparr>by_td_symbol = v_symbol,
       by_td_last_price = v_last_price,
       by_td_mark_price = v_mark_price,
       by_td_index_price = v_index_price,
       by_td_open_interest = v_open_interest,
       by_td_funding_rate = v_funding_rate,
       by_td_volume_24h = v_volume_24h,
       by_td_turnover_24h = v_turnover_24h,
       by_td_bid1_price = v_bid1_price,
       by_td_bid1_size = v_bid1_size,
       by_td_ask1_price = v_ask1_price,
       by_td_ask1_size = v_ask1_size\<rparr>}"

text \<open>The adapter's cache of tickers, by symbol.\<close>

type_synonym TickerCache = "(string, BybitTickerData) btree_map"

record BybitTickerPatch =
  by_tp_symbol :: "string option"
  by_tp_last_price :: "string option"
  by_tp_mark_price :: "string option"
  by_tp_index_price :: "string option"
  by_tp_open_interest :: "string option"
  by_tp_funding_rate :: "string option"
  by_tp_volume_24h :: "string option"
  by_tp_turnover_24h :: "string option"
  by_tp_bid1_price :: "string option"
  by_tp_bid1_size :: "string option"
  by_tp_ask1_price :: "string option"
  by_tp_ask1_size :: "string option"

definition read_BybitTickerPatch :: "BybitTickerPatch json_reader" where
  "read_BybitTickerPatch v = do {
     v_symbol \<leftarrow> opt_field ''symbol'' json_as_str v;
     v_last_price \<leftarrow> opt_field ''lastPrice'' json_as_str v;
     v_mark_price \<leftarrow> opt_field ''markPrice'' json_as_str v;
     v_index_price \<leftarrow> opt_field ''indexPrice'' json_as_str v;
     v_open_interest \<leftarrow> opt_field ''openInterest'' json_as_str v;
     v_funding_rate \<leftarrow> opt_field ''fundingRate'' json_as_str v;
     v_volume_24h \<leftarrow> opt_field ''volume24h'' json_as_str v;
     v_turnover_24h \<leftarrow> opt_field ''turnover24h'' json_as_str v;
     v_bid1_price \<leftarrow> opt_field ''bid1Price'' json_as_str v;
     v_bid1_size \<leftarrow> opt_field ''bid1Size'' json_as_str v;
     v_ask1_price \<leftarrow> opt_field ''ask1Price'' json_as_str v;
     v_ask1_size \<leftarrow> opt_field ''ask1Size'' json_as_str v;
     Some \<lparr>by_tp_symbol = v_symbol,
       by_tp_last_price = v_last_price,
       by_tp_mark_price = v_mark_price,
       by_tp_index_price = v_index_price,
       by_tp_open_interest = v_open_interest,
       by_tp_funding_rate = v_funding_rate,
       by_tp_volume_24h = v_volume_24h,
       by_tp_turnover_24h = v_turnover_24h,
       by_tp_bid1_price = v_bid1_price,
       by_tp_bid1_size = v_bid1_size,
       by_tp_ask1_price = v_ask1_price,
       by_tp_ask1_size = v_ask1_size\<rparr>}"

record BybitPublicTradeData =
  by_ptd_trade_time :: i64
  by_ptd_symbol :: string
  by_ptd_side :: string
  by_ptd_quantity :: string
  by_ptd_price :: string
  by_ptd_trade_id :: string

definition read_BybitPublicTradeData :: "BybitPublicTradeData json_reader" where
  "read_BybitPublicTradeData v = do {
     v_trade_time \<leftarrow> req_field ''T'' json_as_i64 v;
     v_symbol \<leftarrow> req_field ''s'' json_as_str v;
     v_side \<leftarrow> req_field ''S'' json_as_str v;
     v_quantity \<leftarrow> req_field ''v'' json_as_str v;
     v_price \<leftarrow> req_field ''p'' json_as_str v;
     v_trade_id \<leftarrow> req_field ''i'' json_as_str v;
     Some \<lparr>by_ptd_trade_time = v_trade_time,
       by_ptd_symbol = v_symbol,
       by_ptd_side = v_side,
       by_ptd_quantity = v_quantity,
       by_ptd_price = v_price,
       by_ptd_trade_id = v_trade_id\<rparr>}"

record BybitRecentPublicTradeData =
  by_rptd_exec_id :: string
  by_rptd_symbol :: string
  by_rptd_price :: string
  by_rptd_size :: string
  by_rptd_side :: string
  by_rptd_time :: string

definition read_BybitRecentPublicTradeData :: "BybitRecentPublicTradeData json_reader" where
  "read_BybitRecentPublicTradeData v = do {
     v_exec_id \<leftarrow> req_field ''execId'' json_as_str v;
     v_symbol \<leftarrow> req_field ''symbol'' json_as_str v;
     v_price \<leftarrow> req_field ''price'' json_as_str v;
     v_size \<leftarrow> req_field ''size'' json_as_str v;
     v_side \<leftarrow> req_field ''side'' json_as_str v;
     v_time \<leftarrow> req_field ''time'' json_as_str v;
     Some \<lparr>by_rptd_exec_id = v_exec_id,
       by_rptd_symbol = v_symbol,
       by_rptd_price = v_price,
       by_rptd_size = v_size,
       by_rptd_side = v_side,
       by_rptd_time = v_time\<rparr>}"

record BybitOrderBookData =
  by_obd_symbol :: string
  by_obd_bids :: "(string \<times> string) list"
  by_obd_asks :: "(string \<times> string) list"
  by_obd_ts :: "i64 option"
  by_obd_update_id :: "i64 option"
  by_obd_seq :: "i64 option"
  by_obd_cts :: "i64 option"

definition read_BybitOrderBookData :: "BybitOrderBookData json_reader" where
  "read_BybitOrderBookData v = do {
     v_symbol \<leftarrow> req_field ''s'' json_as_str v;
     v_bids \<leftarrow> req_field ''b'' (json_as_vec (json_as_pair json_as_str)) v;
     v_asks \<leftarrow> req_field ''a'' (json_as_vec (json_as_pair json_as_str)) v;
     v_ts \<leftarrow> opt_field ''ts'' json_as_i64 v;
     v_update_id \<leftarrow> opt_field ''u'' json_as_i64 v;
     v_seq \<leftarrow> opt_field ''seq'' json_as_i64 v;
     v_cts \<leftarrow> opt_field ''cts'' json_as_i64 v;
     Some \<lparr>by_obd_symbol = v_symbol,
       by_obd_bids = v_bids,
       by_obd_asks = v_asks,
       by_obd_ts = v_ts,
       by_obd_update_id = v_update_id,
       by_obd_seq = v_seq,
       by_obd_cts = v_cts\<rparr>}"

record BybitAllLiquidationData =
  by_ald_updated_time :: i64
  by_ald_symbol :: string
  by_ald_side :: string
  by_ald_quantity :: string
  by_ald_price :: string

definition read_BybitAllLiquidationData :: "BybitAllLiquidationData json_reader" where
  "read_BybitAllLiquidationData v = do {
     v_updated_time \<leftarrow> req_field ''T'' json_as_i64 v;
     v_symbol \<leftarrow> req_field ''s'' json_as_str v;
     v_side \<leftarrow> req_field ''S'' json_as_str v;
     v_quantity \<leftarrow> req_field ''v'' json_as_str v;
     v_price \<leftarrow> req_field ''p'' json_as_str v;
     Some \<lparr>by_ald_updated_time = v_updated_time,
       by_ald_symbol = v_symbol,
       by_ald_side = v_side,
       by_ald_quantity = v_quantity,
       by_ald_price = v_price\<rparr>}"

record BybitKlineData =
  by_kd_symbol :: "string option"
  by_kd_start :: i64
  by_kd_end :: i64
  by_kd_interval :: string
  by_kd_open :: string
  by_kd_close :: string
  by_kd_high :: string
  by_kd_low :: string
  by_kd_volume :: string
  by_kd_confirm :: bool

definition read_BybitKlineData :: "BybitKlineData json_reader" where
  "read_BybitKlineData v = do {
     v_symbol \<leftarrow> opt_field ''symbol'' json_as_str v;
     v_start \<leftarrow> req_field ''start'' json_as_i64 v;
     v_end \<leftarrow> req_field ''end'' json_as_i64 v;
     v_interval \<leftarrow> req_field ''interval'' json_as_str v;
     v_open \<leftarrow> req_field ''open'' json_as_str v;
     v_close \<leftarrow> req_field ''close'' json_as_str v;
     v_high \<leftarrow> req_field ''high'' json_as_str v;
     v_low \<leftarrow> req_field ''low'' json_as_str v;
     v_volume \<leftarrow> req_field ''volume'' json_as_str v;
     v_confirm \<leftarrow> req_field ''confirm'' json_as_bool v;
     Some \<lparr>by_kd_symbol = v_symbol,
       by_kd_start = v_start,
       by_kd_end = v_end,
       by_kd_interval = v_interval,
       by_kd_open = v_open,
       by_kd_close = v_close,
       by_kd_high = v_high,
       by_kd_low = v_low,
       by_kd_volume = v_volume,
       by_kd_confirm = v_confirm\<rparr>}"

record BybitServerTimeResult =
  by_strx_time_second :: string
  by_strx_time_nano :: string

definition read_BybitServerTimeResult :: "BybitServerTimeResult json_reader" where
  "read_BybitServerTimeResult v = do {
     v_time_second \<leftarrow> req_field ''timeSecond'' json_as_str v;
     v_time_nano \<leftarrow> req_field ''timeNano'' json_as_str v;
     Some \<lparr>by_strx_time_second = v_time_second,
       by_strx_time_nano = v_time_nano\<rparr>}"

record BybitServerTimeResponse =
  by_str_ret_code :: i64
  by_str_ret_msg :: string
  by_str_result :: BybitServerTimeResult

definition read_BybitServerTimeResponse :: "BybitServerTimeResponse json_reader" where
  "read_BybitServerTimeResponse v = do {
     v_ret_code \<leftarrow> req_field ''retCode'' json_as_i64 v;
     v_ret_msg \<leftarrow> req_field ''retMsg'' json_as_str v;
     v_result \<leftarrow> req_field ''result'' read_BybitServerTimeResult v;
     Some \<lparr>by_str_ret_code = v_ret_code,
       by_str_ret_msg = v_ret_msg,
       by_str_result = v_result\<rparr>}"

record BybitPriceFilter =
  by_pf_tick_size :: string

definition read_BybitPriceFilter :: "BybitPriceFilter json_reader" where
  "read_BybitPriceFilter v = do {
     v_tick_size \<leftarrow> req_field ''tickSize'' json_as_str v;
     Some \<lparr>by_pf_tick_size = v_tick_size\<rparr>}"

record BybitLotSizeFilter =
  by_lsf_qty_step :: string
  by_lsf_min_order_qty :: string
  by_lsf_min_notional_value :: string

definition read_BybitLotSizeFilter :: "BybitLotSizeFilter json_reader" where
  "read_BybitLotSizeFilter v = do {
     v_qty_step \<leftarrow> req_field ''qtyStep'' json_as_str v;
     v_min_order_qty \<leftarrow> req_field ''minOrderQty'' json_as_str v;
     v_min_notional_value \<leftarrow> req_field ''minNotionalValue'' json_as_str v;
     Some \<lparr>by_lsf_qty_step = v_qty_step,
       by_lsf_min_order_qty = v_min_order_qty,
       by_lsf_min_notional_value = v_min_notional_value\<rparr>}"

record BybitLeverageFilter =
  by_lf_max_leverage :: string

definition read_BybitLeverageFilter :: "BybitLeverageFilter json_reader" where
  "read_BybitLeverageFilter v = do {
     v_max_leverage \<leftarrow> req_field ''maxLeverage'' json_as_str v;
     Some \<lparr>by_lf_max_leverage = v_max_leverage\<rparr>}"

record BybitInstrumentInfo =
  by_ii_symbol :: string
  by_ii_contract_type :: string
  by_ii_status :: string
  by_ii_base_coin :: string
  by_ii_quote_coin :: string
  by_ii_settle_coin :: string
  by_ii_price_scale :: string
  by_ii_price_filter :: BybitPriceFilter
  by_ii_lot_size_filter :: BybitLotSizeFilter
  by_ii_leverage_filter :: BybitLeverageFilter

definition read_BybitInstrumentInfo :: "BybitInstrumentInfo json_reader" where
  "read_BybitInstrumentInfo v = do {
     v_symbol \<leftarrow> req_field ''symbol'' json_as_str v;
     v_contract_type \<leftarrow> req_field ''contractType'' json_as_str v;
     v_status \<leftarrow> req_field ''status'' json_as_str v;
     v_base_coin \<leftarrow> req_field ''baseCoin'' json_as_str v;
     v_quote_coin \<leftarrow> req_field ''quoteCoin'' json_as_str v;
     v_settle_coin \<leftarrow> req_field ''settleCoin'' json_as_str v;
     v_price_scale \<leftarrow> req_field ''priceScale'' json_as_str v;
     v_price_filter \<leftarrow> req_field ''priceFilter'' read_BybitPriceFilter v;
     v_lot_size_filter \<leftarrow> req_field ''lotSizeFilter'' read_BybitLotSizeFilter v;
     v_leverage_filter \<leftarrow> req_field ''leverageFilter'' read_BybitLeverageFilter v;
     Some \<lparr>by_ii_symbol = v_symbol,
       by_ii_contract_type = v_contract_type,
       by_ii_status = v_status,
       by_ii_base_coin = v_base_coin,
       by_ii_quote_coin = v_quote_coin,
       by_ii_settle_coin = v_settle_coin,
       by_ii_price_scale = v_price_scale,
       by_ii_price_filter = v_price_filter,
       by_ii_lot_size_filter = v_lot_size_filter,
       by_ii_leverage_filter = v_leverage_filter\<rparr>}"

record BybitInstrumentsInfoResult =
  by_iirx_list :: "BybitInstrumentInfo list"

definition read_BybitInstrumentsInfoResult :: "BybitInstrumentsInfoResult json_reader" where
  "read_BybitInstrumentsInfoResult v = do {
     v_list \<leftarrow> req_field ''list'' (json_as_vec read_BybitInstrumentInfo) v;
     Some \<lparr>by_iirx_list = v_list\<rparr>}"

record BybitInstrumentsInfoResponse =
  by_iir_ret_code :: i64
  by_iir_ret_msg :: string
  by_iir_result :: BybitInstrumentsInfoResult

definition read_BybitInstrumentsInfoResponse :: "BybitInstrumentsInfoResponse json_reader" where
  "read_BybitInstrumentsInfoResponse v = do {
     v_ret_code \<leftarrow> req_field ''retCode'' json_as_i64 v;
     v_ret_msg \<leftarrow> req_field ''retMsg'' json_as_str v;
     v_result \<leftarrow> req_field ''result'' read_BybitInstrumentsInfoResult v;
     Some \<lparr>by_iir_ret_code = v_ret_code,
       by_iir_ret_msg = v_ret_msg,
       by_iir_result = v_result\<rparr>}"

record BybitMarketTickersResult =
  by_mtrx_list :: "BybitTickerData list"

definition read_BybitMarketTickersResult :: "BybitMarketTickersResult json_reader" where
  "read_BybitMarketTickersResult v = do {
     v_list \<leftarrow> req_field ''list'' (json_as_vec read_BybitTickerData) v;
     Some \<lparr>by_mtrx_list = v_list\<rparr>}"

record BybitMarketTickersResponse =
  by_mtr_ret_code :: i64
  by_mtr_ret_msg :: string
  by_mtr_result :: BybitMarketTickersResult

definition read_BybitMarketTickersResponse :: "BybitMarketTickersResponse json_reader" where
  "read_BybitMarketTickersResponse v = do {
     v_ret_code \<leftarrow> req_field ''retCode'' json_as_i64 v;
     v_ret_msg \<leftarrow> req_field ''retMsg'' json_as_str v;
     v_result \<leftarrow> req_field ''result'' read_BybitMarketTickersResult v;
     Some \<lparr>by_mtr_ret_code = v_ret_code,
       by_mtr_ret_msg = v_ret_msg,
       by_mtr_result = v_result\<rparr>}"

record BybitRecentPublicTradesResult =
  by_rptrx_list :: "BybitRecentPublicTradeData list"

definition read_BybitRecentPublicTradesResult :: "BybitRecentPublicTradesResult json_reader" where
  "read_BybitRecentPublicTradesResult v = do {
     v_list \<leftarrow> req_field ''list'' (json_as_vec read_BybitRecentPublicTradeData) v;
     Some \<lparr>by_rptrx_list = v_list\<rparr>}"

record BybitRecentPublicTradesResponse =
  by_rptr_ret_code :: i64
  by_rptr_ret_msg :: string
  by_rptr_result :: BybitRecentPublicTradesResult

definition read_BybitRecentPublicTradesResponse :: "BybitRecentPublicTradesResponse json_reader" where
  "read_BybitRecentPublicTradesResponse v = do {
     v_ret_code \<leftarrow> req_field ''retCode'' json_as_i64 v;
     v_ret_msg \<leftarrow> req_field ''retMsg'' json_as_str v;
     v_result \<leftarrow> req_field ''result'' read_BybitRecentPublicTradesResult v;
     Some \<lparr>by_rptr_ret_code = v_ret_code,
       by_rptr_ret_msg = v_ret_msg,
       by_rptr_result = v_result\<rparr>}"

record BybitOrderBookResponse =
  by_obr_ret_code :: i64
  by_obr_ret_msg :: string
  by_obr_result :: BybitOrderBookData

definition read_BybitOrderBookResponse :: "BybitOrderBookResponse json_reader" where
  "read_BybitOrderBookResponse v = do {
     v_ret_code \<leftarrow> req_field ''retCode'' json_as_i64 v;
     v_ret_msg \<leftarrow> req_field ''retMsg'' json_as_str v;
     v_result \<leftarrow> req_field ''result'' read_BybitOrderBookData v;
     Some \<lparr>by_obr_ret_code = v_ret_code,
       by_obr_ret_msg = v_ret_msg,
       by_obr_result = v_result\<rparr>}"

record BybitWalletCoin =
  by_wc_coin :: string
  by_wc_wallet_balance :: string
  by_wc_available_to_withdraw :: string

definition read_BybitWalletCoin :: "BybitWalletCoin json_reader" where
  "read_BybitWalletCoin v = do {
     v_coin \<leftarrow> req_field ''coin'' json_as_str v;
     v_wallet_balance \<leftarrow> req_field ''walletBalance'' json_as_str v;
     v_available_to_withdraw \<leftarrow> req_field ''availableToWithdraw'' json_as_str v;
     Some \<lparr>by_wc_coin = v_coin,
       by_wc_wallet_balance = v_wallet_balance,
       by_wc_available_to_withdraw = v_available_to_withdraw\<rparr>}"

record BybitWalletData =
  by_wd_account_type :: string
  by_wd_coins :: "BybitWalletCoin list"

definition read_BybitWalletData :: "BybitWalletData json_reader" where
  "read_BybitWalletData v = do {
     v_account_type \<leftarrow> req_field ''accountType'' json_as_str v;
     v_coins \<leftarrow> req_field ''coin'' (json_as_vec read_BybitWalletCoin) v;
     Some \<lparr>by_wd_account_type = v_account_type,
       by_wd_coins = v_coins\<rparr>}"

record BybitWalletBalanceAccount =
  by_wba_account_type :: string
  by_wba_total_wallet_balance :: string
  by_wba_total_available_balance :: string
  by_wba_total_perp_upl :: "string option"
  by_wba_coin :: "BybitWalletCoin list"

definition read_BybitWalletBalanceAccount :: "BybitWalletBalanceAccount json_reader" where
  "read_BybitWalletBalanceAccount v = do {
     v_account_type \<leftarrow> req_field ''accountType'' json_as_str v;
     v_total_wallet_balance \<leftarrow> req_field ''totalWalletBalance'' json_as_str v;
     v_total_available_balance \<leftarrow> req_field ''totalAvailableBalance'' json_as_str v;
     v_total_perp_upl \<leftarrow> opt_field ''totalPerpUPL'' json_as_str v;
     v_coin \<leftarrow> req_field ''coin'' (json_as_vec read_BybitWalletCoin) v;
     Some \<lparr>by_wba_account_type = v_account_type,
       by_wba_total_wallet_balance = v_total_wallet_balance,
       by_wba_total_available_balance = v_total_available_balance,
       by_wba_total_perp_upl = v_total_perp_upl,
       by_wba_coin = v_coin\<rparr>}"

record BybitWalletBalanceResult =
  by_wbrx_list :: "BybitWalletBalanceAccount list"

definition read_BybitWalletBalanceResult :: "BybitWalletBalanceResult json_reader" where
  "read_BybitWalletBalanceResult v = do {
     v_list \<leftarrow> req_field ''list'' (json_as_vec read_BybitWalletBalanceAccount) v;
     Some \<lparr>by_wbrx_list = v_list\<rparr>}"

record BybitWalletBalanceResponse =
  by_wbr_ret_code :: i64
  by_wbr_ret_msg :: string
  by_wbr_result :: BybitWalletBalanceResult

definition read_BybitWalletBalanceResponse :: "BybitWalletBalanceResponse json_reader" where
  "read_BybitWalletBalanceResponse v = do {
     v_ret_code \<leftarrow> req_field ''retCode'' json_as_i64 v;
     v_ret_msg \<leftarrow> req_field ''retMsg'' json_as_str v;
     v_result \<leftarrow> req_field ''result'' read_BybitWalletBalanceResult v;
     Some \<lparr>by_wbr_ret_code = v_ret_code,
       by_wbr_ret_msg = v_ret_msg,
       by_wbr_result = v_result\<rparr>}"

record BybitPositionData =
  by_pd_symbol :: string
  by_pd_side :: string
  by_pd_size :: string
  by_pd_entry_price :: string
  by_pd_unrealised_pnl :: string
  by_pd_trade_mode :: nat
  by_pd_position_idx :: nat
  by_pd_leverage :: "string option"
  by_pd_seq :: "i64 option"

definition read_BybitPositionData :: "BybitPositionData json_reader" where
  "read_BybitPositionData v = do {
     v_symbol \<leftarrow> req_field ''symbol'' json_as_str v;
     v_side \<leftarrow> req_field ''side'' json_as_str v;
     v_size \<leftarrow> req_field ''size'' json_as_str v;
     v_entry_price \<leftarrow> req_field ''entryPrice'' json_as_str v;
     v_unrealised_pnl \<leftarrow> req_field ''unrealisedPnl'' json_as_str v;
     v_trade_mode \<leftarrow> req_field ''tradeMode'' json_as_u8 v;
     v_position_idx \<leftarrow> req_field ''positionIdx'' json_as_u8 v;
     v_leverage \<leftarrow> opt_field ''leverage'' json_as_str v;
     v_seq \<leftarrow> dflt_field ''seq'' None read_optional_i64 v;
     Some \<lparr>by_pd_symbol = v_symbol,
       by_pd_side = v_side,
       by_pd_size = v_size,
       by_pd_entry_price = v_entry_price,
       by_pd_unrealised_pnl = v_unrealised_pnl,
       by_pd_trade_mode = v_trade_mode,
       by_pd_position_idx = v_position_idx,
       by_pd_leverage = v_leverage,
       by_pd_seq = v_seq\<rparr>}"

record BybitPositionListResult =
  by_plrx_list :: "BybitPositionData list"

definition read_BybitPositionListResult :: "BybitPositionListResult json_reader" where
  "read_BybitPositionListResult v = do {
     v_list \<leftarrow> req_field ''list'' (json_as_vec read_BybitPositionData) v;
     Some \<lparr>by_plrx_list = v_list\<rparr>}"

record BybitPositionListResponse =
  by_plr_ret_code :: i64
  by_plr_ret_msg :: string
  by_plr_result :: BybitPositionListResult

definition read_BybitPositionListResponse :: "BybitPositionListResponse json_reader" where
  "read_BybitPositionListResponse v = do {
     v_ret_code \<leftarrow> req_field ''retCode'' json_as_i64 v;
     v_ret_msg \<leftarrow> req_field ''retMsg'' json_as_str v;
     v_result \<leftarrow> req_field ''result'' read_BybitPositionListResult v;
     Some \<lparr>by_plr_ret_code = v_ret_code,
       by_plr_ret_msg = v_ret_msg,
       by_plr_result = v_result\<rparr>}"

record BybitOrderData =
  by_od_symbol :: string
  by_od_order_id :: string
  by_od_order_link_id :: "string option"
  by_od_side :: string
  by_od_order_type :: string
  by_od_price :: string
  by_od_quantity :: string
  by_od_order_status :: string
  by_od_cumulative_exec_qty :: string
  by_od_average_price :: "string option"
  by_od_time_in_force :: string
  by_od_reduce_only :: bool
  by_od_created_time :: i64
  by_od_updated_time :: i64

definition read_BybitOrderData :: "BybitOrderData json_reader" where
  "read_BybitOrderData v = do {
     v_symbol \<leftarrow> req_field ''symbol'' json_as_str v;
     v_order_id \<leftarrow> req_field ''orderId'' json_as_str v;
     v_order_link_id \<leftarrow> opt_field ''orderLinkId'' json_as_str v;
     v_side \<leftarrow> req_field ''side'' json_as_str v;
     v_order_type \<leftarrow> req_field ''orderType'' json_as_str v;
     v_price \<leftarrow> req_field ''price'' json_as_str v;
     v_quantity \<leftarrow> req_field ''qty'' json_as_str v;
     v_order_status \<leftarrow> req_field ''orderStatus'' json_as_str v;
     v_cumulative_exec_qty \<leftarrow> req_field ''cumExecQty'' json_as_str v;
     v_average_price \<leftarrow> opt_field ''avgPrice'' json_as_str v;
     v_time_in_force \<leftarrow> req_field ''timeInForce'' json_as_str v;
     v_reduce_only \<leftarrow> req_field ''reduceOnly'' json_as_bool v;
     v_created_time \<leftarrow> req_field ''createdTime'' json_i64_from_string v;
     v_updated_time \<leftarrow> req_field ''updatedTime'' json_i64_from_string v;
     Some \<lparr>by_od_symbol = v_symbol,
       by_od_order_id = v_order_id,
       by_od_order_link_id = v_order_link_id,
       by_od_side = v_side,
       by_od_order_type = v_order_type,
       by_od_price = v_price,
       by_od_quantity = v_quantity,
       by_od_order_status = v_order_status,
       by_od_cumulative_exec_qty = v_cumulative_exec_qty,
       by_od_average_price = v_average_price,
       by_od_time_in_force = v_time_in_force,
       by_od_reduce_only = v_reduce_only,
       by_od_created_time = v_created_time,
       by_od_updated_time = v_updated_time\<rparr>}"

record BybitOrderListResult =
  by_olrx_list :: "BybitOrderData list"

definition read_BybitOrderListResult :: "BybitOrderListResult json_reader" where
  "read_BybitOrderListResult v = do {
     v_list \<leftarrow> req_field ''list'' (json_as_vec read_BybitOrderData) v;
     Some \<lparr>by_olrx_list = v_list\<rparr>}"

record BybitOrderListResponse =
  by_olr_ret_code :: i64
  by_olr_ret_msg :: string
  by_olr_result :: BybitOrderListResult

definition read_BybitOrderListResponse :: "BybitOrderListResponse json_reader" where
  "read_BybitOrderListResponse v = do {
     v_ret_code \<leftarrow> req_field ''retCode'' json_as_i64 v;
     v_ret_msg \<leftarrow> req_field ''retMsg'' json_as_str v;
     v_result \<leftarrow> req_field ''result'' read_BybitOrderListResult v;
     Some \<lparr>by_olr_ret_code = v_ret_code,
       by_olr_ret_msg = v_ret_msg,
       by_olr_result = v_result\<rparr>}"

record BybitExecutionData =
  by_ed_symbol :: string
  by_ed_exec_id :: string
  by_ed_order_id :: string
  by_ed_order_link_id :: "string option"
  by_ed_side :: string
  by_ed_exec_qty :: string
  by_ed_exec_price :: string
  by_ed_exec_fee :: string
  by_ed_fee_currency :: "string option"
  by_ed_exec_time :: i64
  by_ed_seq :: "i64 option"

definition read_BybitExecutionData :: "BybitExecutionData json_reader" where
  "read_BybitExecutionData v = do {
     v_symbol \<leftarrow> req_field ''symbol'' json_as_str v;
     v_exec_id \<leftarrow> req_field ''execId'' json_as_str v;
     v_order_id \<leftarrow> req_field ''orderId'' json_as_str v;
     v_order_link_id \<leftarrow> opt_field ''orderLinkId'' json_as_str v;
     v_side \<leftarrow> req_field ''side'' json_as_str v;
     v_exec_qty \<leftarrow> req_field ''execQty'' json_as_str v;
     v_exec_price \<leftarrow> req_field ''execPrice'' json_as_str v;
     v_exec_fee \<leftarrow> req_field ''execFee'' json_as_str v;
     v_fee_currency \<leftarrow> opt_field ''feeCurrency'' json_as_str v;
     v_exec_time \<leftarrow> req_field ''execTime'' json_i64_from_string v;
     v_seq \<leftarrow> dflt_field ''seq'' None read_optional_i64 v;
     Some \<lparr>by_ed_symbol = v_symbol,
       by_ed_exec_id = v_exec_id,
       by_ed_order_id = v_order_id,
       by_ed_order_link_id = v_order_link_id,
       by_ed_side = v_side,
       by_ed_exec_qty = v_exec_qty,
       by_ed_exec_price = v_exec_price,
       by_ed_exec_fee = v_exec_fee,
       by_ed_fee_currency = v_fee_currency,
       by_ed_exec_time = v_exec_time,
       by_ed_seq = v_seq\<rparr>}"

record BybitExecutionListResult =
  by_elrx_list :: "BybitExecutionData list"

definition read_BybitExecutionListResult :: "BybitExecutionListResult json_reader" where
  "read_BybitExecutionListResult v = do {
     v_list \<leftarrow> req_field ''list'' (json_as_vec read_BybitExecutionData) v;
     Some \<lparr>by_elrx_list = v_list\<rparr>}"

record BybitExecutionListResponse =
  by_elr_ret_code :: i64
  by_elr_ret_msg :: string
  by_elr_result :: BybitExecutionListResult

definition read_BybitExecutionListResponse :: "BybitExecutionListResponse json_reader" where
  "read_BybitExecutionListResponse v = do {
     v_ret_code \<leftarrow> req_field ''retCode'' json_as_i64 v;
     v_ret_msg \<leftarrow> req_field ''retMsg'' json_as_str v;
     v_result \<leftarrow> req_field ''result'' read_BybitExecutionListResult v;
     Some \<lparr>by_elr_ret_code = v_ret_code,
       by_elr_ret_msg = v_ret_msg,
       by_elr_result = v_result\<rparr>}"

record BybitAccountInfoResult =
  by_airx_unified_margin_status :: "nat option"
  by_airx_margin_mode :: "string option"

definition read_BybitAccountInfoResult :: "BybitAccountInfoResult json_reader" where
  "read_BybitAccountInfoResult v = do {
     v_unified_margin_status \<leftarrow> opt_field ''unifiedMarginStatus'' json_as_u8 v;
     v_margin_mode \<leftarrow> opt_field ''marginMode'' json_as_str v;
     Some \<lparr>by_airx_unified_margin_status = v_unified_margin_status,
       by_airx_margin_mode = v_margin_mode\<rparr>}"

record BybitAccountInfoResponse =
  by_air_ret_code :: i64
  by_air_ret_msg :: string
  by_air_result :: BybitAccountInfoResult

definition read_BybitAccountInfoResponse :: "BybitAccountInfoResponse json_reader" where
  "read_BybitAccountInfoResponse v = do {
     v_ret_code \<leftarrow> req_field ''retCode'' json_as_i64 v;
     v_ret_msg \<leftarrow> req_field ''retMsg'' json_as_str v;
     v_result \<leftarrow> req_field ''result'' read_BybitAccountInfoResult v;
     Some \<lparr>by_air_ret_code = v_ret_code,
       by_air_ret_msg = v_ret_msg,
       by_air_result = v_result\<rparr>}"

record BybitRetCodeResponse =
  by_rcr_ret_code :: i64
  by_rcr_ret_msg :: string
  by_rcr_result :: "Json option"

definition read_BybitRetCodeResponse :: "BybitRetCodeResponse json_reader" where
  "read_BybitRetCodeResponse v = do {
     v_ret_code \<leftarrow> req_field ''retCode'' json_as_i64 v;
     v_ret_msg \<leftarrow> req_field ''retMsg'' json_as_str v;
     v_result \<leftarrow> opt_field ''result'' json_as_value v;
     Some \<lparr>by_rcr_ret_code = v_ret_code,
       by_rcr_ret_msg = v_ret_msg,
       by_rcr_result = v_result\<rparr>}"

record BybitOrderResult =
  by_or_symbol :: "string option"
  by_or_order_id :: "string option"
  by_or_order_link_id :: "string option"

definition read_BybitOrderResult :: "BybitOrderResult json_reader" where
  "read_BybitOrderResult v = do {
     v_symbol \<leftarrow> opt_field ''symbol'' json_as_str v;
     v_order_id \<leftarrow> opt_field ''orderId'' json_as_str v;
     v_order_link_id \<leftarrow> opt_field ''orderLinkId'' json_as_str v;
     Some \<lparr>by_or_symbol = v_symbol,
       by_or_order_id = v_order_id,
       by_or_order_link_id = v_order_link_id\<rparr>}"

end
