(* ===== verification/Interval.thy ===== *)
theory Interval
  imports Core_Types
begin

text \<open>
  The second half of \<^verbatim>\<open>market.rs\<close>: the candle intervals with their spellings and closing
  times, and the public request types with their validation.
\<close>

section \<open>Candle intervals\<close>

datatype KlineInterval =
    Minute1 | Minute3 | Minute5 | Minute15 | Minute30
  | Hour1 | Hour2 | Hour4 | Hour6 | Hour12 | Day1 | Day3 | Week1 | Month1

definition interval_parse :: "string \<Rightarrow> KlineInterval option" where
  "interval_parse raw =
     (if raw = ''1'' \<or> raw = ''1m'' then Some Minute1
      else if raw = ''3'' \<or> raw = ''3m'' then Some Minute3
      else if raw = ''5'' \<or> raw = ''5m'' then Some Minute5
      else if raw = ''15'' \<or> raw = ''15m'' then Some Minute15
      else if raw = ''30'' \<or> raw = ''30m'' then Some Minute30
      else if raw = ''60'' \<or> raw = ''1h'' then Some Hour1
      else if raw = ''120'' \<or> raw = ''2h'' then Some Hour2
      else if raw = ''240'' \<or> raw = ''4h'' then Some Hour4
      else if raw = ''360'' \<or> raw = ''6h'' then Some Hour6
      else if raw = ''720'' \<or> raw = ''12h'' then Some Hour12
      else if raw = ''D'' \<or> raw = ''1d'' then Some Day1
      else if raw = ''3d'' then Some Day3
      else if raw = ''W'' \<or> raw = ''1w'' then Some Week1
      else if raw = ''M'' \<or> raw = ''1M'' then Some Month1
      else None)"

fun as_interval_str :: "KlineInterval \<Rightarrow> string" where
  "as_interval_str Minute1 = ''1m''"
| "as_interval_str Minute3 = ''3m''"
| "as_interval_str Minute5 = ''5m''"
| "as_interval_str Minute15 = ''15m''"
| "as_interval_str Minute30 = ''30m''"
| "as_interval_str Hour1 = ''1h''"
| "as_interval_str Hour2 = ''2h''"
| "as_interval_str Hour4 = ''4h''"
| "as_interval_str Hour6 = ''6h''"
| "as_interval_str Hour12 = ''12h''"
| "as_interval_str Day1 = ''1d''"
| "as_interval_str Day3 = ''3d''"
| "as_interval_str Week1 = ''1w''"
| "as_interval_str Month1 = ''1M''"

definition as_binance_str :: "KlineInterval \<Rightarrow> string" where
  "as_binance_str i = as_interval_str i"

fun as_bybit_str :: "KlineInterval \<Rightarrow> string" where
  "as_bybit_str Minute1 = ''1''"
| "as_bybit_str Minute3 = ''3''"
| "as_bybit_str Minute5 = ''5''"
| "as_bybit_str Minute15 = ''15''"
| "as_bybit_str Minute30 = ''30''"
| "as_bybit_str Hour1 = ''60''"
| "as_bybit_str Hour2 = ''120''"
| "as_bybit_str Hour4 = ''240''"
| "as_bybit_str Hour6 = ''360''"
| "as_bybit_str Hour12 = ''720''"
| "as_bybit_str Day1 = ''D''"
| "as_bybit_str Day3 = ''3d''"
| "as_bybit_str Week1 = ''W''"
| "as_bybit_str Month1 = ''M''"

section \<open>Closing times\<close>

datatype Month =
    January | February | March | April | May | June | July | August
  | September | October | November | December

fun next_month :: "Month \<Rightarrow> Month" where
  "next_month January = February"
| "next_month February = March"
| "next_month March = April"
| "next_month April = May"
| "next_month May = June"
| "next_month June = July"
| "next_month July = August"
| "next_month August = September"
| "next_month September = October"
| "next_month October = November"
| "next_month November = December"
| "next_month December = January"

text \<open>
  The calendar of the crate \<^verbatim>\<open>time\<close>, as the source calls it: \<open>'t\<close> is \<^verbatim>\<open>OffsetDateTime\<close>,
  \<open>'date\<close> is \<^verbatim>\<open>Date\<close>, and \<open>midnight_utc_nanos\<close> is
  \<^verbatim>\<open>PrimitiveDateTime::new(date, Time::MIDNIGHT).assume_utc().unix_timestamp_nanos()\<close>.
\<close>

record ('t, 'date) Time_ops =
  from_unix_timestamp_nanos :: "int \<Rightarrow> 't option"
  odt_year :: "'t \<Rightarrow> int"
  odt_month :: "'t \<Rightarrow> Month"
  from_calendar_date :: "int \<Rightarrow> Month \<Rightarrow> nat \<Rightarrow> 'date option"
  midnight_utc_nanos :: "'date \<Rightarrow> int"

text \<open>Division of the source's integers truncates towards zero.\<close>

definition trunc_div :: "int \<Rightarrow> int \<Rightarrow> int" where
  "trunc_div a b = sgn a * sgn b * (\<bar>a\<bar> div \<bar>b\<bar>)"

fun duration_ms :: "KlineInterval \<Rightarrow> i64 option" where
  "duration_ms Minute1 = Some 60000"
| "duration_ms Minute3 = Some (3 * 60000)"
| "duration_ms Minute5 = Some (5 * 60000)"
| "duration_ms Minute15 = Some (15 * 60000)"
| "duration_ms Minute30 = Some (30 * 60000)"
| "duration_ms Hour1 = Some (60 * 60000)"
| "duration_ms Hour2 = Some (120 * 60000)"
| "duration_ms Hour4 = Some (240 * 60000)"
| "duration_ms Hour6 = Some (360 * 60000)"
| "duration_ms Hour12 = Some (720 * 60000)"
| "duration_ms Day1 = Some (24 * 60 * 60000)"
| "duration_ms Day3 = Some (3 * 24 * 60 * 60000)"
| "duration_ms Week1 = Some (7 * 24 * 60 * 60000)"
| "duration_ms Month1 = None"

definition close_time_ms :: "('t, 'date) Time_ops \<Rightarrow> KlineInterval \<Rightarrow> i64 \<Rightarrow> i64 option" where
  "close_time_ms TO interval open_time_ms =
     (case duration_ms interval of
        Some dur \<Rightarrow> Some (i64_wrap (i64_wrap (open_time_ms + dur) - 1))
      | None \<Rightarrow>
          (case from_unix_timestamp_nanos TO (open_time_ms * 1000000) of
             None \<Rightarrow> None
           | Some open_time \<Rightarrow>
               (let (year, month) =
                  (if odt_month TO open_time = December then (odt_year TO open_time + 1, January)
                   else (odt_year TO open_time, next_month (odt_month TO open_time)))
                in (case from_calendar_date TO year month 1 of
                      None \<Rightarrow> None
                    | Some next_open \<Rightarrow>
                        Some (i64_wrap (i64_wrap (trunc_div (midnight_utc_nanos TO next_open) 1000000) - 1))))))"

section \<open>Requests\<close>

definition FETCH_OHLCV_MAX_INSTRUMENTS_PER_CALL :: usize where
  "FETCH_OHLCV_MAX_INSTRUMENTS_PER_CALL = 30"

record FetchOhlcvRequest =
  fo_instrument_ids :: "InstrumentId list"
  fo_interval :: string
  fo_start_time :: "TimestampMs option"
  fo_end_time :: "TimestampMs option"
  fo_limit :: "usize option"

record FetchTradesRequest =
  ftq_instrument_id :: InstrumentId
  ftq_limit :: "usize option"

record FetchTickersRequest =
  ftk_instrument_ids :: "InstrumentId list"

record FetchOrderBookRequest =
  fbq_instrument_id :: InstrumentId
  fbq_limit :: "usize option"

record WatchFastFeedRequest =
  wf_instrument_ids :: "InstrumentId list"
  wf_ticker :: bool
  wf_trades :: bool
  wf_book_top :: bool
  wf_mark_price :: bool
  wf_funding_rate :: bool
  wf_open_interest :: bool
  wf_liquidations :: bool

record WatchOrderBookRequest =
  wob_instrument_id :: InstrumentId
  wob_limit :: "usize option"

definition ohlcv_for_instruments ::
  "InstrumentId list \<Rightarrow> string \<Rightarrow> TimestampMs option \<Rightarrow> TimestampMs option \<Rightarrow> usize option \<Rightarrow> FetchOhlcvRequest" where
  "ohlcv_for_instruments ids interval start_time end_time limit =
     \<lparr>fo_instrument_ids = ids, fo_interval = interval, fo_start_time = start_time,
      fo_end_time = end_time, fo_limit = limit\<rparr>"

definition ohlcv_for_instrument ::
  "InstrumentId \<Rightarrow> string \<Rightarrow> TimestampMs option \<Rightarrow> TimestampMs option \<Rightarrow> usize option \<Rightarrow> FetchOhlcvRequest" where
  "ohlcv_for_instrument iid interval start_time end_time limit =
     \<lparr>fo_instrument_ids = [iid], fo_interval = interval, fo_start_time = start_time,
      fo_end_time = end_time, fo_limit = limit\<rparr>"

definition ohlcv_instrument_ids :: "FetchOhlcvRequest \<Rightarrow> InstrumentId list result" where
  "ohlcv_instrument_ids req =
     (if fo_instrument_ids req = [] then
        Err (market_error ConfigError ''fetch_ohlcv requires at least one instrument'')
      else if length (fo_instrument_ids req) > FETCH_OHLCV_MAX_INSTRUMENTS_PER_CALL then
        Err (market_error Unsupported
          (''fetch_ohlcv supports at most '' @ show_nat FETCH_OHLCV_MAX_INSTRUMENTS_PER_CALL @
           '' instruments per call''))
      else Ok (fo_instrument_ids req))"

definition single_instrument_id :: "FetchOhlcvRequest \<Rightarrow> InstrumentId result" where
  "single_instrument_id req = and_then (ohlcv_instrument_ids req) (\<lambda>ids.
     case ids of
       [iid] \<Rightarrow> Ok iid
     | _ \<Rightarrow> Err (market_error Unsupported
         ''single-instrument OHLCV parsing requires exactly one instrument_id''))"

definition trades_validated_limit :: "FetchTradesRequest \<Rightarrow> usize option result" where
  "trades_validated_limit req =
     (if ftq_limit req = Some 0 then
        Err (market_error ConfigError ''fetch_trades limit must be greater than zero'')
      else Ok (ftq_limit req))"

definition tickers_instrument_ids :: "FetchTickersRequest \<Rightarrow> InstrumentId list result" where
  "tickers_instrument_ids req =
     (if ftk_instrument_ids req = [] then
        Err (market_error ConfigError ''fetch_tickers requires at least one instrument'')
      else Ok (ftk_instrument_ids req))"

definition order_book_validated_limit :: "FetchOrderBookRequest \<Rightarrow> usize option result" where
  "order_book_validated_limit req =
     (if fbq_limit req = Some 0 then
        Err (market_error ConfigError ''fetch_order_book limit must be greater than zero'')
      else Ok (fbq_limit req))"

definition fast_feed_all_for :: "InstrumentId list \<Rightarrow> WatchFastFeedRequest" where
  "fast_feed_all_for ids =
     \<lparr>wf_instrument_ids = ids, wf_ticker = True, wf_trades = True, wf_book_top = True,
      wf_mark_price = True, wf_funding_rate = True, wf_open_interest = True,
      wf_liquidations = True\<rparr>"

definition fast_feed_instrument_ids :: "WatchFastFeedRequest \<Rightarrow> InstrumentId list result" where
  "fast_feed_instrument_ids req =
     (if wf_instrument_ids req = [] then
        Err (market_error ConfigError ''watch_fast_feed requires at least one instrument'')
      else Ok (wf_instrument_ids req))"

section \<open>Laws\<close>

text \<open>
  Every interval survives its spelling on both venues: parsing the unified (Binance) string
  and the Bybit string of an interval gives the interval back, so no two intervals share a
  spelling.
\<close>

theorem interval_spelling_roundtrip:
  "interval_parse (as_binance_str i) = Some i \<and> interval_parse (as_interval_str i) = Some i \<and>
   interval_parse (as_bybit_str i) = Some i"
  by (cases i) (simp_all add: interval_parse_def as_binance_str_def)

lemma duration_pos: "duration_ms i = Some d \<Longrightarrow> 60000 \<le> d \<and> d \<le> 604800000"
  by (cases i) auto

lemma close_time_fixed:
  assumes "duration_ms i = Some d" and "in_i64 t" and "in_i64 (t + d)"
  shows "close_time_ms TO i t = Some (t + d - 1)"
proof -
  have "in_i64 (t + d - 1)"
    using assms duration_pos [OF assms(1)] by (auto simp: in_i64_def)
  then show ?thesis
    using assms by (simp add: close_time_ms_def i64_wrap_id)
qed

lemma single_instrument_id_Ok:
  "single_instrument_id req = Ok iid \<longleftrightarrow> fo_instrument_ids req = [iid]"
  by (auto simp: single_instrument_id_def ohlcv_instrument_ids_def and_then_Ok_iff
      FETCH_OHLCV_MAX_INSTRUMENTS_PER_CALL_def split: list.splits if_splits)

end
