(* ===== verification/Http.thy ===== *)
theory Http
  imports Command_Ws Sequence Bybit_Native Interval
begin

text \<open>
  The transport layer of \<^verbatim>\<open>bat-markets/src/runtime.rs\<close>: the live context, credentials,
  signed and unsigned REST requests, error classification, retries and backoff.

  The network is the function \<open>lc_http\<close>: it answers a call given the calls made before it, so
  the answers may change from call to call.  The clock is \<open>lc_now\<close>, read at the same points.
  URL encoding, HMAC and the decoding of venue payloads belong to other crates and to the
  adapters; they are fields of the context.
\<close>

section \<open>Context and state\<close>

record HttpCall =
  hc_method :: string
  hc_url :: string
  hc_headers :: "(string \<times> string) list"
  hc_body :: "string option"

text \<open>A transport failure (with its timeout flag) or a response with status and body.\<close>

datatype HttpOutcome =
    HttpFailed bool string
  | HttpResponse nat string

record 'd AdapterParsers =
  pa_account_with_positions :: "string \<Rightarrow> TimestampMs \<Rightarrow> ('d AccountSnapshot \<times> 'd Position list) result"
  pa_account :: "string \<Rightarrow> TimestampMs \<Rightarrow> 'd AccountSnapshot result"
  pa_positions :: "string \<Rightarrow> TimestampMs \<Rightarrow> 'd Position list result"
  pa_open_orders :: "string \<Rightarrow> TimestampMs \<Rightarrow> 'd Order list result"
  pa_open_algo_orders :: "string \<Rightarrow> TimestampMs \<Rightarrow> 'd Order list result"
  pa_order :: "string \<Rightarrow> TimestampMs \<Rightarrow> 'd Order result"
  pa_order_history :: "string \<Rightarrow> TimestampMs \<Rightarrow> 'd Order list result"
  pa_executions :: "string \<Rightarrow> 'd Execution list result"
  pa_metadata :: "string \<Rightarrow> 'd InstrumentSpec list result"
  pa_server_time :: "string \<Rightarrow> TimestampMs result"
  pa_account_context :: "string \<Rightarrow> string result"
  pa_public :: "string \<Rightarrow> TickerCache \<Rightarrow> 'd PublicLaneEvent list result \<times> TickerCache"
  pa_private :: "string \<Rightarrow> 'd PrivateLaneEvent list result"
  pa_public_observations :: "string \<Rightarrow> SequenceObservation list result"
  pa_private_observations :: "string \<Rightarrow> SequenceObservation list result"
  pa_open_interest :: "string \<Rightarrow> 'd InstrumentSpec \<Rightarrow> i64 \<Rightarrow> 'd OpenInterest result"
  pa_ticker :: "string \<Rightarrow> InstrumentId \<Rightarrow> 'd InstrumentSpec \<Rightarrow> 'd Ticker result"
  pa_mark_price :: "string \<Rightarrow> 'd InstrumentSpec \<Rightarrow> i64 \<Rightarrow> 'd MarkPrice result"
  pa_funding_rate :: "string \<Rightarrow> 'd InstrumentSpec \<Rightarrow> i64 \<Rightarrow> 'd FundingRate result"
  pa_trades :: "string \<Rightarrow> FetchTradesRequest \<Rightarrow> 'd InstrumentSpec \<Rightarrow> 'd TradeTick list result"
  pa_order_book :: "string \<Rightarrow> 'd InstrumentSpec \<Rightarrow> i64 \<Rightarrow> 'd OrderBookSnapshot result"
  pa_ohlcv :: "string \<Rightarrow> FetchOhlcvRequest \<Rightarrow> 'd Kline list result"
  pa_classify_command :: "CommandOperation \<Rightarrow> string option \<Rightarrow> RequestId option \<Rightarrow> CommandReceipt result"

datatype CommandTransportMode = Auto | WebSocketOnly

record 'd LiveContext =
  lc_config :: BatMarketsConfig
  lc_api_key :: "string option"
  lc_signer :: "Signer option"
  lc_env :: "string \<Rightarrow> string option"
  lc_hmac_hex :: "string \<Rightarrow> string \<Rightarrow> string option"
  lc_urlencode :: "(string \<times> string) list \<Rightarrow> string"
  lc_http :: "HttpCall list \<Rightarrow> HttpCall \<Rightarrow> HttpOutcome"
  lc_now :: "HttpCall list \<Rightarrow> i64"
  lc_binance_error :: "string \<Rightarrow> (string \<times> string) option"
  lc_parsers :: "'d InstrumentCatalog \<Rightarrow> 'd AdapterParsers"
  lc_decimal :: "'d Decimal_ops"
  lc_mode :: CommandTransportMode
  lc_ws_order_entry :: bool
  lc_ws :: WsNetwork
  lc_json :: "Json \<Rightarrow> string + string"
  lc_parse_json :: json_parser
  lc_type_error :: "string \<Rightarrow> Json \<Rightarrow> string"

record PendingUnknownCommand =
  pu_operation :: CommandOperation
  pu_instrument_id :: InstrumentId
  pu_order_id :: "OrderId option"
  pu_client_order_id :: "ClientOrderId option"
  pu_recorded_at :: TimestampMs

record 'd LiveRuntimeState =
  lr_shared :: "'d SharedState"
  lr_catalog :: "'d InstrumentCatalog"
  lr_pending :: "PendingUnknownCommand list"
  lr_bybit_account_context :: "string option"
  lr_calls :: "HttpCall list"
  lr_sleeps :: "u64 list"
  lr_ws :: CommandTransportHub
  lr_permits :: nat
  lr_ticker_cache :: TickerCache

text \<open>A runtime action: it may fail, and it changes the state it was given.\<close>

type_synonym ('d, 'a) rt = "'d LiveRuntimeState \<Rightarrow> 'a result \<times> 'd LiveRuntimeState"

definition rt_return :: "'a \<Rightarrow> ('d, 'a) rt" where
  "rt_return x s = (Ok x, s)"

definition rt_lift :: "'a result \<Rightarrow> ('d, 'a) rt" where
  "rt_lift r s = (r, s)"

definition rt_bind :: "('d, 'a) rt \<Rightarrow> ('a \<Rightarrow> ('d, 'b) rt) \<Rightarrow> ('d, 'b) rt" where
  "rt_bind m k s = (case m s of (Inl f, s') \<Rightarrow> (Inl f, s') | (Inr x, s') \<Rightarrow> k x s')"

definition rt_read :: "('d LiveRuntimeState \<Rightarrow> 'a) \<Rightarrow> ('d, 'a) rt" where
  "rt_read f s = (Ok (f s), s)"

text \<open>\<^verbatim>\<open>context.shared.write(|state| ...)\<close> with a closure that cannot fail.\<close>

definition rt_write :: "('d EngineState \<Rightarrow> 'd EngineState) \<Rightarrow> ('d, unit) rt" where
  "rt_write f s = (Ok (), s\<lparr>lr_shared := shared_update f (lr_shared s)\<rparr>)"

definition rt_modify :: "('d LiveRuntimeState \<Rightarrow> 'd LiveRuntimeState) \<Rightarrow> ('d, unit) rt" where
  "rt_modify f s = (Ok (), f s)"

definition rt_now :: "'d LiveContext \<Rightarrow> ('d, i64) rt" where
  "rt_now ctx s = (Ok (lc_now ctx (lr_calls s)), s)"

text \<open>Decoding a payload: the adapter resolves symbols in its current catalog.\<close>

definition rt_parse :: "'d LiveContext \<Rightarrow> ('d AdapterParsers \<Rightarrow> 'a result) \<Rightarrow> ('d, 'a) rt" where
  "rt_parse ctx f s = (f (lc_parsers ctx (lr_catalog s)), s)"

definition rt_parse_public :: "'d LiveContext \<Rightarrow> string \<Rightarrow> ('d, 'd PublicLaneEvent list) rt" where
  "rt_parse_public ctx payload s =
     (case pa_public (lc_parsers ctx (lr_catalog s)) payload (lr_ticker_cache s) of
        (r, cache) \<Rightarrow> (r, s\<lparr>lr_ticker_cache := cache\<rparr>))"

definition rt_sleep :: "u64 \<Rightarrow> ('d, unit) rt" where
  "rt_sleep ms s = (Ok (), s\<lparr>lr_sleeps := lr_sleeps s @ [ms]\<rparr>)"

text \<open>
  \<^verbatim>\<open>context.command_limiter.acquire()\<close> returns once the limiter has granted a permit; how long that
  takes is not modelled (it is computed in \<^verbatim>\<open>f64\<close>), here the permits are counted.
\<close>

definition rt_acquire :: "('d, unit) rt" where
  "rt_acquire s = (Ok (), s\<lparr>lr_permits := Suc (lr_permits s)\<rparr>)"

definition rt_http :: "'d LiveContext \<Rightarrow> HttpCall \<Rightarrow> ('d, HttpOutcome) rt" where
  "rt_http ctx call s = (Ok (lc_http ctx (lr_calls s) call), s\<lparr>lr_calls := lr_calls s @ [call]\<rparr>)"

fun rt_for :: "'x list \<Rightarrow> ('x \<Rightarrow> 'acc \<Rightarrow> ('d, 'acc) rt) \<Rightarrow> 'acc \<Rightarrow> ('d, 'acc) rt" where
  "rt_for [] body acc = rt_return acc"
| "rt_for (x # xs) body acc = rt_bind (body x acc) (rt_for xs body)"

lemmas rt_defs = rt_return_def rt_lift_def rt_bind_def rt_read_def rt_write_def rt_modify_def
  rt_now_def rt_parse_def rt_sleep_def rt_http_def

abbreviation engine_of :: "'d LiveRuntimeState \<Rightarrow> 'd EngineState" where
  "engine_of s \<equiv> sh_state (lr_shared s)"

section \<open>Errors\<close>

definition with_context :: "'d LiveContext \<Rightarrow> MarketError \<Rightarrow> MarketError" where
  "with_context ctx e = with_venue (cfg_venue (lc_config ctx)) (cfg_product (lc_config ctx)) e"

definition transport_error :: "Venue \<Rightarrow> string \<Rightarrow> string \<Rightarrow> MarketError" where
  "transport_error venue operation err =
     with_retriable True (with_operation operation
       (with_venue venue LinearUsdt (market_error TransportError err)))"

definition classify_reqwest_error :: "Venue \<Rightarrow> string \<Rightarrow> bool \<Rightarrow> string \<Rightarrow> MarketError" where
  "classify_reqwest_error venue operation is_timeout err =
     with_retriable True (with_operation operation
       (with_venue venue LinearUsdt
         (market_error (if is_timeout then Timeout else TransportError) err)))"

definition classify_http_error ::
  "(string \<Rightarrow> (string \<times> string) option) \<Rightarrow> Venue \<Rightarrow> string \<Rightarrow> nat \<Rightarrow> string \<Rightarrow> MarketError" where
  "classify_http_error binance_error venue operation status body =
     (let error0 =
            (if status = 429 then market_error RateLimited body
             else if status = 401 then market_error AuthError body
             else if status = 403 then market_error PermissionDenied body
             else if 500 \<le> status \<and> status < 600 then market_error TemporaryUnavailable body
             else market_error ExchangeReject body);
          error1 = with_retriable (status \<in> {429, 502, 503, 504})
            (with_operation operation (with_venue venue LinearUsdt error0)) in
      if venue = Binance then
        (case binance_error body of
           None \<Rightarrow> error1
         | Some (message, code) \<Rightarrow> with_native_code code (error1\<lparr>me_message := message\<rparr>))
      else error1)"

definition response_text ::
  "'d LiveContext \<Rightarrow> string \<Rightarrow> HttpOutcome \<Rightarrow> string result" where
  "response_text ctx operation outcome =
     (case outcome of
        HttpFailed is_timeout err \<Rightarrow>
          Err (classify_reqwest_error (cfg_venue (lc_config ctx)) operation is_timeout err)
      | HttpResponse status body \<Rightarrow>
          (if 200 \<le> status \<and> status < 300 then Ok body
           else Err (classify_http_error (lc_binance_error ctx) (cfg_venue (lc_config ctx))
                       operation status body)))"

definition is_uncertain_command_error :: "MarketError \<Rightarrow> bool" where
  "is_uncertain_command_error e \<longleftrightarrow> me_kind e \<in> {TransportError, Timeout, TemporaryUnavailable}"

definition is_missing_order_error :: "MarketError \<Rightarrow> bool" where
  "is_missing_order_error e \<longleftrightarrow> me_kind e \<in> {ExchangeReject, Unsupported}"

definition require_spec :: "'d LiveContext \<Rightarrow> InstrumentId \<Rightarrow> ('d, 'd InstrumentSpec) rt" where
  "require_spec ctx iid s =
     (ok_or (with_context ctx (market_error Unsupported (''unknown instrument '' @ as_str iid)))
        (catalog_get (lr_catalog s) iid), s)"

definition require_credentials :: "'d LiveContext \<Rightarrow> (string \<times> Signer) result" where
  "require_credentials ctx =
     and_then (ok_or (with_context ctx (market_error AuthError
         ''missing API key in configured environment variables'')) (lc_api_key ctx)) (\<lambda>key.
     and_then (ok_or (with_context ctx (market_error AuthError
         ''missing signer for configured private API flow'')) (lc_signer ctx)) (\<lambda>signer.
     Ok (key, signer)))"

section \<open>Requests\<close>

definition rest_url :: "'d LiveContext \<Rightarrow> string \<Rightarrow> string" where
  "rest_url ctx path = ep_rest_base (cfg_endpoints (lc_config ctx)) @ path"

definition send_call :: "'d LiveContext \<Rightarrow> string \<Rightarrow> HttpCall \<Rightarrow> ('d, string) rt" where
  "send_call ctx operation call =
     rt_bind (rt_http ctx call) (\<lambda>outcome. rt_lift (response_text ctx operation outcome))"

definition public_get_text :: "'d LiveContext \<Rightarrow> string \<Rightarrow> (string \<times> string) list \<Rightarrow> string \<Rightarrow> ('d, string) rt" where
  "public_get_text ctx path query operation =
     send_call ctx operation
       \<lparr>hc_method = ''GET'',
        hc_url = rest_url ctx path @ (if query = [] then '''' else ''?'' @ lc_urlencode ctx query),
        hc_headers = [], hc_body = None\<rparr>"

definition sign_payload :: "'d LiveContext \<Rightarrow> Signer \<Rightarrow> string \<Rightarrow> string result" where
  "sign_payload ctx signer payload = sign_hex (lc_env ctx) (lc_hmac_hex ctx) signer payload"

definition binance_signed_request_text ::
  "'d LiveContext \<Rightarrow> string \<Rightarrow> string \<Rightarrow> (string \<times> string) list \<Rightarrow> string \<Rightarrow> ('d, string) rt" where
  "binance_signed_request_text ctx meth path pairs operation =
     rt_bind (rt_lift (require_credentials ctx)) (\<lambda>(api_key, signer).
     rt_bind (rt_now ctx) (\<lambda>now.
       let query = lc_urlencode ctx (pairs @ [(''timestamp'', show_int now), (''recvWindow'', ''5000'')]) in
       rt_bind (rt_lift (sign_payload ctx signer query)) (\<lambda>signature.
         send_call ctx operation
           \<lparr>hc_method = meth,
            hc_url = rest_url ctx path @ ''?'' @ query @ ''&signature='' @ signature,
            hc_headers = [(''X-MBX-APIKEY'', api_key)], hc_body = None\<rparr>)))"

definition bybit_signed_get_text ::
  "'d LiveContext \<Rightarrow> string \<Rightarrow> (string \<times> string) list \<Rightarrow> string \<Rightarrow> ('d, string) rt" where
  "bybit_signed_get_text ctx path pairs operation =
     rt_bind (rt_lift (require_credentials ctx)) (\<lambda>(api_key, signer).
     rt_bind (rt_now ctx) (\<lambda>now.
       let timestamp = show_int now; query = lc_urlencode ctx pairs in
       rt_bind (rt_lift (sign_payload ctx signer (timestamp @ api_key @ ''5000'' @ query))) (\<lambda>signature.
         send_call ctx operation
           \<lparr>hc_method = ''GET'',
            hc_url = (if query = '''' then rest_url ctx path else rest_url ctx path @ ''?'' @ query),
            hc_headers = [(''X-BAPI-API-KEY'', api_key), (''X-BAPI-SIGN'', signature),
              (''X-BAPI-TIMESTAMP'', timestamp), (''X-BAPI-RECV-WINDOW'', ''5000'')],
            hc_body = None\<rparr>)))"

definition bybit_signed_post_text ::
  "'d LiveContext \<Rightarrow> string \<Rightarrow> string \<Rightarrow> string \<Rightarrow> ('d, string) rt" where
  "bybit_signed_post_text ctx path body operation =
     rt_bind (rt_lift (require_credentials ctx)) (\<lambda>(api_key, signer).
     rt_bind (rt_now ctx) (\<lambda>now.
       let timestamp = show_int now in
       rt_bind (rt_lift (sign_payload ctx signer (timestamp @ api_key @ ''5000'' @ body))) (\<lambda>signature.
         send_call ctx operation
           \<lparr>hc_method = ''POST'', hc_url = rest_url ctx path,
            hc_headers = [(''content-type'', ''application/json''), (''X-BAPI-API-KEY'', api_key),
              (''X-BAPI-SIGN'', signature), (''X-BAPI-TIMESTAMP'', timestamp),
              (''X-BAPI-RECV-WINDOW'', ''5000'')],
            hc_body = Some body\<rparr>)))"

definition mexc_signed_get_text ::
  "'d LiveContext \<Rightarrow> string \<Rightarrow> (string \<times> string) list \<Rightarrow> string \<Rightarrow> ('d, string) rt" where
  "mexc_signed_get_text ctx path pairs operation =
     rt_bind (rt_lift (require_credentials ctx)) (\<lambda>(api_key, signer).
     rt_bind (rt_now ctx) (\<lambda>now.
       let req_time = show_int now;
           request_param = lc_urlencode ctx (bt_extend fst snd [] pairs) in
       rt_bind (rt_lift (sign_payload ctx signer (api_key @ req_time @ request_param))) (\<lambda>signature.
         send_call ctx operation
           \<lparr>hc_method = ''GET'',
            hc_url = (if request_param = '''' then rest_url ctx path
                      else rest_url ctx path @ ''?'' @ request_param),
            hc_headers = [(''ApiKey'', api_key), (''Request-Time'', req_time),
              (''Signature'', signature), (''Content-Type'', ''application/json''),
              (''Recv-Window'', ''5000'')],
            hc_body = None\<rparr>)))"

definition mexc_signed_post_text ::
  "'d LiveContext \<Rightarrow> string \<Rightarrow> string \<Rightarrow> string \<Rightarrow> ('d, string) rt" where
  "mexc_signed_post_text ctx path body operation =
     rt_bind (rt_lift (require_credentials ctx)) (\<lambda>(api_key, signer).
     rt_bind (rt_now ctx) (\<lambda>now.
       let req_time = show_int now in
       rt_bind (rt_lift (sign_payload ctx signer (api_key @ req_time @ body))) (\<lambda>signature.
         send_call ctx operation
           \<lparr>hc_method = ''POST'', hc_url = rest_url ctx path,
            hc_headers = [(''ApiKey'', api_key), (''Request-Time'', req_time),
              (''Signature'', signature), (''Content-Type'', ''application/json''),
              (''Recv-Window'', ''5000'')],
            hc_body = Some body\<rparr>)))"

section \<open>Websocket commands\<close>

definition json_object :: "(string \<times> Json) list \<Rightarrow> Json" where
  "json_object entries = JObject (bt_extend fst snd [] entries)"

definition rt_next_request_id :: "string \<Rightarrow> ('d, string) rt" where
  "rt_next_request_id prefix s =
     (let (rid, hub) = next_request_id prefix (lr_ws s) in (Ok rid, s\<lparr>lr_ws := hub\<rparr>))"

definition rt_ws_request ::
  "'d LiveContext \<Rightarrow> SessionRequest \<Rightarrow> ('d, CommandWsRequestError + string) rt" where
  "rt_ws_request ctx request s =
     (let (r, hub) = request_text (lc_ws ctx) (cfg_venue (lc_config ctx)) (lc_api_key ctx) (lc_signer ctx)
            request (lr_ws s) in (Ok r, s\<lparr>lr_ws := hub\<rparr>))"

text \<open>The operator \<^verbatim>\<open>?\<close> after \<^verbatim>\<open>map_err(CommandWsRequestError::Unavailable)\<close>.\<close>

definition or_unavailable ::
  "'a result \<Rightarrow> ('a \<Rightarrow> ('d, CommandWsRequestError + string) rt) \<Rightarrow> ('d, CommandWsRequestError + string) rt" where
  "or_unavailable r k =
     (case r of
        Inl Panicked \<Rightarrow> rt_lift Panic
      | Inl (Failed e) \<Rightarrow> rt_return (Inl (Unavailable e))
      | Inr x \<Rightarrow> k x)"

definition send_ws_frame ::
  "'d LiveContext \<Rightarrow> string \<Rightarrow> string \<Rightarrow> string \<Rightarrow> Json \<Rightarrow> ('d, CommandWsRequestError + string) rt" where
  "send_ws_frame ctx rid operation label frame =
     (case lc_json ctx frame of
        Inl err \<Rightarrow> rt_return (Inl (Unavailable (market_error ConfigError
          (''failed to serialize '' @ label @ '' websocket command frame: '' @ err))))
      | Inr text \<Rightarrow> rt_ws_request ctx \<lparr>sq_id = rid, sq_operation = operation, sq_payload = text\<rparr>)"

definition binance_signed_ws_request_text ::
  "'d LiveContext \<Rightarrow> string \<Rightarrow> (string \<times> string) list \<Rightarrow> string \<Rightarrow> ('d, CommandWsRequestError + string) rt" where
  "binance_signed_ws_request_text ctx meth params operation =
     or_unavailable (require_credentials ctx) (\<lambda>(api_key, signer).
     rt_bind (rt_now ctx) (\<lambda>now.
       let signable = bt_extend fst snd [] (params @
             [(''apiKey'', api_key), (''recvWindow'', ''5000''), (''timestamp'', show_int now)]) in
       or_unavailable (sign_payload ctx signer (lc_urlencode ctx signable)) (\<lambda>signature.
       rt_bind (rt_next_request_id ''binance'') (\<lambda>rid.
         send_ws_frame ctx rid operation ''binance''
           (json_object [(''id'', JString rid), (''method'', JString meth),
             (''params'', json_object (map (\<lambda>(k, v). (k,
                 if k = ''timestamp'' then json_i64 now
                 else if k = ''recvWindow'' then json_i64 5000 else JString v)) signable @
               [(''signature'', JString signature)]))])))))"

definition bybit_trade_ws_request_text ::
  "'d LiveContext \<Rightarrow> string \<Rightarrow> Json list \<Rightarrow> string \<Rightarrow> ('d, CommandWsRequestError + string) rt" where
  "bybit_trade_ws_request_text ctx op_name args operation =
     or_unavailable (require_credentials ctx) (\<lambda>_.
     rt_bind (rt_next_request_id ''bybit'') (\<lambda>rid.
     rt_bind (rt_now ctx) (\<lambda>now.
       send_ws_frame ctx rid operation ''bybit''
         (json_object [(''reqId'', JString rid),
           (''header'', json_object [(''X-BAPI-TIMESTAMP'', JString (show_int now)),
              (''X-BAPI-RECV-WINDOW'', JString ''5000'')]),
           (''op'', JString op_name), (''args'', JArray args)]))))"

section \<open>Retries and backoff\<close>

definition rest_backoff :: "BatMarketsConfig \<Rightarrow> u32 \<Rightarrow> u64" where
  "rest_backoff config attempt =
     (let initial = max (rp_rest_initial_backoff_ms (cfg_retry config)) 1;
          limit = max (rp_rest_max_backoff_ms (cfg_retry config)) initial;
          delay = u64_saturating_mul initial (u64_saturating_pow 2 (unat (min attempt 8))) in
      min delay limit)"

definition retriable_kind :: "ErrorKind \<Rightarrow> bool" where
  "retriable_kind k \<longleftrightarrow> k \<in> {TransportError, Timeout, RateLimited, TemporaryUnavailable}"

function with_rest_retries ::
  "'d LiveContext \<Rightarrow> string \<Rightarrow> ('d, string) rt \<Rightarrow> u32 \<Rightarrow> ('d, string) rt" where
  "with_rest_retries ctx operation f attempt s =
     (case f s of
        (Inr value, s1) \<Rightarrow> (Ok value, s1)
      | (Inl Panicked, s1) \<Rightarrow> (Panic, s1)
      | (Inl (Failed err), s1) \<Rightarrow>
          (if attempt < rp_rest_retries (cfg_retry (lc_config ctx)) \<and> retriable_kind (me_kind err)
           then with_rest_retries ctx operation f (attempt + 1)
                  (snd (rt_sleep (rest_backoff (lc_config ctx) (attempt + 1)) s1))
           else (Err (with_operation operation err), s1)))"
  by pat_completeness auto

termination
  by (relation "measure (\<lambda>(ctx, _, _, attempt, _). unat (rp_rest_retries (cfg_retry (lc_config ctx))) - unat attempt)")
    (auto simp: u32_succ word_less_nat_alt)

declare with_rest_retries.simps [simp del]

definition public_get_with_retry :: "'d LiveContext \<Rightarrow> string \<Rightarrow> (string \<times> string) list \<Rightarrow> string \<Rightarrow> ('d, string) rt" where
  "public_get_with_retry ctx path query operation =
     with_rest_retries ctx operation (public_get_text ctx path query operation) 0"

definition should_reconnect :: "BatMarketsConfig \<Rightarrow> u32 \<Rightarrow> MarketError \<Rightarrow> bool" where
  "should_reconnect config reconnect_attempt err =
     (if me_kind err \<notin> {TransportError, Timeout, TemporaryUnavailable} then False
      else case rc_max_reconnect_attempts (cfg_reconnect config) of
             Some max_attempts \<Rightarrow> reconnect_attempt < max_attempts
           | None \<Rightarrow> True)"

definition reconnect_backoff :: "BatMarketsConfig \<Rightarrow> u32 \<Rightarrow> u64" where
  "reconnect_backoff config reconnect_attempt =
     (let initial = max (rc_ws_initial_backoff_ms (cfg_reconnect config)) 1;
          limit = max (rc_ws_max_backoff_ms (cfg_reconnect config)) initial;
          delay = u64_saturating_mul initial (u64_saturating_pow 2 (unat (min reconnect_attempt 8))) in
      min delay limit)"

section \<open>Actions that keep a state predicate\<close>

definition rt_keeps :: "('d LiveRuntimeState \<Rightarrow> bool) \<Rightarrow> ('d, 'a) rt \<Rightarrow> bool" where
  "rt_keeps I m \<longleftrightarrow> (\<forall>s. I s \<longrightarrow> I (snd (m s)))"

lemma rt_keepsD: "rt_keeps I m \<Longrightarrow> I s \<Longrightarrow> I (snd (m s))"
  by (simp add: rt_keeps_def)

lemma rt_keeps_return [model_inv]: "rt_keeps I (rt_return x)"
  by (simp add: rt_keeps_def rt_defs)

lemma rt_keeps_lift [model_inv]: "rt_keeps I (rt_lift r)"
  by (simp add: rt_keeps_def rt_defs)

lemma rt_keeps_read [model_inv]: "rt_keeps I (rt_read f)"
  by (simp add: rt_keeps_def rt_defs)

lemma rt_keeps_parse [model_inv]: "rt_keeps I (rt_parse ctx f)"
  by (simp add: rt_keeps_def rt_defs)

lemma rt_keeps_now [model_inv]: "rt_keeps I (rt_now ctx)"
  by (simp add: rt_keeps_def rt_defs)

lemma rt_keeps_require_spec [model_inv]: "rt_keeps I (require_spec ctx iid)"
  by (simp add: rt_keeps_def require_spec_def)

lemma rt_keeps_bind [model_inv]:
  "rt_keeps I m \<Longrightarrow> (\<And>x. rt_keeps I (k x)) \<Longrightarrow> rt_keeps I (rt_bind m k)"
  by (fastforce simp: rt_keeps_def rt_bind_def split: prod.splits sum.splits)

lemma rt_keeps_for [model_inv]:
  "(\<And>x acc. rt_keeps I (body x acc)) \<Longrightarrow> rt_keeps I (rt_for xs body acc)"
  by (induction xs arbitrary: acc) (simp_all add: rt_keeps_return rt_keeps_bind)

lemma rt_keeps_if [model_inv]:
  "rt_keeps I a \<Longrightarrow> rt_keeps I b \<Longrightarrow> rt_keeps I (if c then a else b)"
  by simp

lemma rt_keeps_or_unavailable:
  "(\<And>x. rt_keeps I (k x)) \<Longrightarrow> rt_keeps I (or_unavailable r k)"
  by (auto simp: or_unavailable_def intro: rt_keeps_lift rt_keeps_return split: sum.split Failure.split)

text \<open>Predicates that look at the shared state only are kept by everything the transport does.\<close>

locale network_blind =
  fixes I :: "'d LiveRuntimeState \<Rightarrow> bool"
  assumes blind: "I (s\<lparr>lr_calls := cs, lr_sleeps := zs, lr_ws := w, lr_permits := n, lr_ticker_cache := tc\<rparr>) = I s"
begin

lemma blind_each:
  "I (s\<lparr>lr_calls := cs\<rparr>) = I s" "I (s\<lparr>lr_sleeps := zs\<rparr>) = I s" "I (s\<lparr>lr_ws := w\<rparr>) = I s"
  "I (s\<lparr>lr_permits := n\<rparr>) = I s" "I (s\<lparr>lr_ticker_cache := tc\<rparr>) = I s"
proof -
  let ?set = "\<lambda>cs zs w n tc. s\<lparr>lr_calls := cs, lr_sleeps := zs, lr_ws := w, lr_permits := n, lr_ticker_cache := tc\<rparr>"
  have "s\<lparr>lr_calls := cs\<rparr> = ?set cs (lr_sleeps s) (lr_ws s) (lr_permits s) (lr_ticker_cache s)"
    "s\<lparr>lr_sleeps := zs\<rparr> = ?set (lr_calls s) zs (lr_ws s) (lr_permits s) (lr_ticker_cache s)"
    "s\<lparr>lr_ws := w\<rparr> = ?set (lr_calls s) (lr_sleeps s) w (lr_permits s) (lr_ticker_cache s)"
    "s\<lparr>lr_permits := n\<rparr> = ?set (lr_calls s) (lr_sleeps s) (lr_ws s) n (lr_ticker_cache s)"
    "s\<lparr>lr_ticker_cache := tc\<rparr> = ?set (lr_calls s) (lr_sleeps s) (lr_ws s) (lr_permits s) tc"
    by simp_all
  then show "I (s\<lparr>lr_calls := cs\<rparr>) = I s" "I (s\<lparr>lr_sleeps := zs\<rparr>) = I s" "I (s\<lparr>lr_ws := w\<rparr>) = I s"
    "I (s\<lparr>lr_permits := n\<rparr>) = I s" "I (s\<lparr>lr_ticker_cache := tc\<rparr>) = I s"
    by (metis blind)+
qed

lemma keeps_parse_public: "rt_keeps I (rt_parse_public ctx payload)"
  by (simp add: rt_keeps_def rt_parse_public_def blind_each split: prod.split)

lemma keeps_acquire: "rt_keeps I rt_acquire"
  by (simp add: rt_keeps_def rt_acquire_def blind_each)

lemma keeps_http: "rt_keeps I (rt_http ctx call)"
  by (simp add: rt_keeps_def rt_http_def blind_each)

lemma keeps_send: "rt_keeps I (send_call ctx operation call)"
  unfolding send_call_def by (intro rt_keeps_bind keeps_http rt_keeps_lift)

lemma keeps_public_get: "rt_keeps I (public_get_text ctx path query operation)"
  unfolding public_get_text_def by (rule keeps_send)

lemma keeps_binance: "rt_keeps I (binance_signed_request_text ctx meth path pairs operation)"
  unfolding binance_signed_request_text_def Let_def split_def
  by (intro rt_keeps_bind rt_keeps_lift rt_keeps_now keeps_send)

lemma keeps_bybit: "rt_keeps I (bybit_signed_get_text ctx path pairs operation)"
  unfolding bybit_signed_get_text_def Let_def split_def
  by (intro rt_keeps_bind rt_keeps_lift rt_keeps_now keeps_send)

lemma keeps_mexc: "rt_keeps I (mexc_signed_get_text ctx path pairs operation)"
  unfolding mexc_signed_get_text_def Let_def split_def
  by (intro rt_keeps_bind rt_keeps_lift rt_keeps_now keeps_send)

lemma keeps_bybit_post: "rt_keeps I (bybit_signed_post_text ctx path body operation)"
  unfolding bybit_signed_post_text_def Let_def split_def
  by (intro rt_keeps_bind rt_keeps_lift rt_keeps_now keeps_send)

lemma keeps_mexc_post: "rt_keeps I (mexc_signed_post_text ctx path body operation)"
  unfolding mexc_signed_post_text_def Let_def split_def
  by (intro rt_keeps_bind rt_keeps_lift rt_keeps_now keeps_send)

lemma keeps_ws_request: "rt_keeps I (rt_ws_request ctx request)"
  by (simp add: rt_keeps_def rt_ws_request_def blind_each split_def Let_def)

lemma keeps_ws_frame: "rt_keeps I (send_ws_frame ctx rid operation label frame)"
  unfolding send_ws_frame_def by (cases "lc_json ctx frame") (simp_all add: rt_keeps_return keeps_ws_request)

lemma keeps_request_id: "rt_keeps I (rt_next_request_id prefix)"
  by (simp add: rt_keeps_def rt_next_request_id_def blind_each split_def Let_def)

lemma keeps_binance_ws: "rt_keeps I (binance_signed_ws_request_text ctx meth params operation)"
  unfolding binance_signed_ws_request_text_def Let_def split_def
  by (intro rt_keeps_or_unavailable rt_keeps_bind rt_keeps_now keeps_request_id keeps_ws_frame)

lemma keeps_bybit_ws: "rt_keeps I (bybit_trade_ws_request_text ctx op_name args operation)"
  unfolding bybit_trade_ws_request_text_def
  by (intro rt_keeps_or_unavailable rt_keeps_bind rt_keeps_now keeps_request_id keeps_ws_frame)

lemma keeps_retries:
  "rt_keeps I f \<Longrightarrow> I s \<Longrightarrow> I (snd (with_rest_retries ctx operation f attempt s))"
proof (induction ctx operation f attempt s rule: with_rest_retries.induct)
  case (1 ctx operation f attempt s)
  obtain r s1 where f: "f s = (r, s1)" by fastforce
  have s1: "I s1" using rt_keepsD [OF "1.prems"] f by simp
  show ?case
  proof (cases r)
    case (Inl failure)
    show ?thesis
    proof (cases failure)
      case Panicked
      with Inl f s1 show ?thesis by (simp add: with_rest_retries.simps [of ctx operation f attempt s])
    next
      case (Failed err)
      with Inl f s1 "1.IH" [OF f [symmetric] Inl Failed] "1.prems"(1) show ?thesis
        by (simp add: with_rest_retries.simps [of ctx operation f attempt s] rt_sleep_def blind_each)
    qed
  next
    case (Inr v)
    with f s1 show ?thesis by (simp add: with_rest_retries.simps [of ctx operation f attempt s])
  qed
qed

lemma keeps_public_get_with_retry: "rt_keeps I (public_get_with_retry ctx path query operation)"
  unfolding rt_keeps_def public_get_with_retry_def
  by (blast intro: keeps_retries keeps_public_get)

lemmas keeps_transport = keeps_parse_public keeps_acquire keeps_http keeps_send keeps_public_get keeps_binance keeps_bybit keeps_mexc
  keeps_public_get_with_retry keeps_bybit_post keeps_mexc_post keeps_binance_ws keeps_bybit_ws

end

interpretation shared_only: network_blind "\<lambda>s. P (lr_shared s) (lr_catalog s) (lr_pending s)" for P
  by unfold_locales simp

section \<open>Properties\<close>

lemma backoff_unat:
  assumes "1 \<le> initial" and "initial \<le> limit"
  shows "unat (min (u64_saturating_mul initial (u64_saturating_pow 2 (unat (min (attempt :: u32) 8)))) limit) =
    min (unat initial * 2 ^ min (unat attempt) 8) (unat limit)"
proof -
  have n: "unat (min attempt 8) = min (unat attempt) 8"
    by (simp add: min_def word_le_nat_alt)
  have "(2 :: nat) ^ min (unat attempt) 8 \<le> 2 ^ 8" by (rule power_increasing) simp_all
  then have pow: "unat (u64_saturating_pow 2 (unat (min attempt 8))) = 2 ^ min (unat attempt) 8"
    unfolding unat_u64_saturating_pow n by simp
  have min_unat: "unat (min a b) = min (unat a) (unat b)" for a b :: u64
    by (simp add: min_def word_le_nat_alt)
  have "unat limit \<le> 2 ^ 64 - 1" using unsigned_less [of limit, where ?'a = nat] by simp
  then show ?thesis
    unfolding min_unat unat_u64_saturating_mul pow by simp
qed

lemma max_one: "1 \<le> max (a :: u64) 1" by simp

text \<open>
  C37. Both backoffs stay within their configured window and never shrink from one attempt to
  the next: at least the initial delay (and at least one millisecond), at most the larger of
  the two configured delays, without overflow for any configuration.
\<close>

theorem backoff_bounds:
  assumes "attempt \<le> attempt'"
  shows "reconnect_backoff config attempt \<le> reconnect_backoff config attempt' \<and>
    rest_backoff config attempt \<le> rest_backoff config attempt' \<and>
    max (rc_ws_initial_backoff_ms (cfg_reconnect config)) 1 \<le> reconnect_backoff config attempt \<and>
    max (rp_rest_initial_backoff_ms (cfg_retry config)) 1 \<le> rest_backoff config attempt \<and>
    reconnect_backoff config attempt \<le>
      max (rc_ws_max_backoff_ms (cfg_reconnect config)) (max (rc_ws_initial_backoff_ms (cfg_reconnect config)) 1) \<and>
    rest_backoff config attempt \<le>
      max (rp_rest_max_backoff_ms (cfg_retry config)) (max (rp_rest_initial_backoff_ms (cfg_retry config)) 1)"
proof -
  let ?b = "\<lambda>initial limit a. min (u64_saturating_mul initial (u64_saturating_pow 2 (unat (min (a :: u32) 8)))) limit"
  have le: "min (unat attempt) 8 \<le> min (unat attempt') 8" using assms by (simp add: word_le_nat_alt)
  have general: "?b i l attempt \<le> ?b i l attempt' \<and> i \<le> ?b i l attempt \<and> ?b i l attempt \<le> l"
    if "1 \<le> i" "i \<le> l" for i l :: u64
  proof -
    have "unat i * 2 ^ min (unat attempt) 8 \<le> unat i * 2 ^ min (unat attempt') 8"
      using le by (intro mult_le_mono2 power_increasing) simp_all
    moreover have "unat i * 1 \<le> unat i * 2 ^ min (unat attempt) 8" by (intro mult_le_mono2) simp
    ultimately show ?thesis
      using that by (simp only: word_le_nat_alt backoff_unat [OF that]) linarith
  qed
  show ?thesis
    unfolding reconnect_backoff_def rest_backoff_def Let_def
    using general [OF max_one max.cobounded2]
    by (intro conjI) blast+
qed

theorem backoff_bounds_witness:
  "reconnect_backoff (config_new Binance LinearUsdt) 2 \<le> reconnect_backoff (config_new Binance LinearUsdt) 40"
  using backoff_bounds [of 2 40 "config_new Binance LinearUsdt"] by simp

lemma retries_calls:
  assumes one: "\<And>t. \<exists>c. lr_calls (snd (f t)) = lr_calls t @ [c]"
  shows "length (lr_calls s) < length (lr_calls (snd (with_rest_retries ctx operation f attempt s))) \<and>
    length (lr_calls (snd (with_rest_retries ctx operation f attempt s))) \<le>
      length (lr_calls s) + Suc (unat (rp_rest_retries (cfg_retry (lc_config ctx))) - unat attempt)"
  using one
proof (induction ctx operation f attempt s rule: with_rest_retries.induct)
  case (1 ctx operation f attempt s)
  obtain r s1 where f: "f s = (r, s1)" by fastforce
  with "1.prems" [of s] have calls: "length (lr_calls s1) = Suc (length (lr_calls s))" by auto
  let ?limit = "rp_rest_retries (cfg_retry (lc_config ctx))"
  show ?case
  proof (cases "\<exists>err. r = Err err \<and> attempt < ?limit \<and> retriable_kind (me_kind err)")
    case True
    then obtain err where err: "r = Inl (Failed err)" "attempt < ?limit" "retriable_kind (me_kind err)" by blast
    have "unat attempt < unat ?limit" "unat (attempt + 1) = Suc (unat attempt)"
      using err(2) by (simp_all add: u32_succ word_less_nat_alt)
    with err f calls "1.IH" [OF f [symmetric] err(1) refl, of] "1.prems" show ?thesis
      by (simp add: with_rest_retries.simps [of ctx operation f attempt s] rt_sleep_def) linarith
  next
    case False
    with f calls show ?thesis
      by (auto simp: with_rest_retries.simps [of ctx operation f attempt s] split: sum.split Failure.split)
  qed
qed

text \<open>
  A public GET is retried a bounded number of times and leaves the engine alone: it makes
  at least one and at most \<^verbatim>\<open>rest_retries + 1\<close> calls, and whatever it returns, the shared
  state, the catalog and the pending commands are what they were.
\<close>

theorem public_get_bounded:
  "let s' = snd (public_get_with_retry ctx path query operation s) in
   length (lr_calls s) < length (lr_calls s') \<and>
   length (lr_calls s') \<le> length (lr_calls s) + Suc (unat (rp_rest_retries (cfg_retry (lc_config ctx)))) \<and>
   lr_shared s' = lr_shared s \<and> lr_catalog s' = lr_catalog s \<and> lr_pending s' = lr_pending s"
proof -
  have "\<exists>c. lr_calls (snd (public_get_text ctx path query operation t)) = lr_calls t @ [c]" for t
    by (simp add: public_get_text_def send_call_def rt_defs split: prod.split)
  from retries_calls [of "public_get_text ctx path query operation" s ctx operation 0, OF this]
  have "length (lr_calls s) < length (lr_calls (snd (public_get_with_retry ctx path query operation s))) \<and>
    length (lr_calls (snd (public_get_with_retry ctx path query operation s))) \<le>
      length (lr_calls s) + Suc (unat (rp_rest_retries (cfg_retry (lc_config ctx))))"
    by (simp add: public_get_with_retry_def)
  moreover have "lr_shared (snd (public_get_with_retry ctx path query operation s)) = lr_shared s \<and>
      lr_catalog (snd (public_get_with_retry ctx path query operation s)) = lr_catalog s \<and>
      lr_pending (snd (public_get_with_retry ctx path query operation s)) = lr_pending s"
    using rt_keepsD [OF shared_only.keeps_public_get_with_retry
        [of "\<lambda>sh cat pend. sh = lr_shared s \<and> cat = lr_catalog s \<and> pend = lr_pending s"], of s] by simp
  ultimately show ?thesis by (simp add: Let_def)
qed

text \<open>
  Without credentials nothing private is sent: every signed request fails with
  \<^verbatim>\<open>AuthError\<close> before any network call, leaving the state untouched.
\<close>

theorem no_credentials_no_call:
  assumes "lc_api_key ctx = None \<or> lc_signer ctx = None"
  shows "\<exists>e. me_kind e = AuthError \<and>
    binance_signed_request_text ctx meth path pairs operation s = (Err e, s) \<and>
    bybit_signed_get_text ctx path pairs operation s = (Err e, s) \<and>
    bybit_signed_post_text ctx path body operation s = (Err e, s) \<and>
    mexc_signed_get_text ctx path pairs operation s = (Err e, s) \<and>
    mexc_signed_post_text ctx path body operation s = (Err e, s)"
proof -
  obtain e where "require_credentials ctx = Err e" "me_kind e = AuthError"
    using assms by (cases "lc_api_key ctx"; cases "lc_signer ctx")
      (auto simp: require_credentials_def with_context_def)
  then show ?thesis
    by (intro exI [of _ e])
      (simp add: binance_signed_request_text_def bybit_signed_get_text_def bybit_signed_post_text_def
        mexc_signed_get_text_def mexc_signed_post_text_def rt_bind_def rt_lift_def)
qed

section \<open>A concrete context\<close>

text \<open>A context whose venue answers every call with an empty body that decodes to empty snapshots.\<close>

definition sample_parsers :: "(int \<times> u32) AdapterParsers" where
  "sample_parsers =
     \<lparr>pa_account_with_positions = (\<lambda>_ _. Ok (\<lparr>acc_balances = [], acc_summary = None\<rparr>, [])),
      pa_account = (\<lambda>_ _. Ok \<lparr>acc_balances = [], acc_summary = None\<rparr>),
      pa_positions = (\<lambda>_ _. Ok []), pa_open_orders = (\<lambda>_ _. Ok []),
      pa_open_algo_orders = (\<lambda>_ _. Ok []),
      pa_order = (\<lambda>_ _. Err (market_error DecodeError ''no order'')),
      pa_order_history = (\<lambda>_ _. Ok []), pa_executions = (\<lambda>_. Ok []), pa_metadata = (\<lambda>_. Ok []),
      pa_server_time = (\<lambda>_. Ok (TimestampMs 0)), pa_account_context = (\<lambda>_. Ok ''UNIFIED''),
      pa_public = (\<lambda>_ cache. (Ok [], cache)), pa_private = (\<lambda>_. Ok []), pa_public_observations = (\<lambda>_. Ok []),
      pa_private_observations = (\<lambda>_. Ok []),
      pa_open_interest = (\<lambda>_ spec now. Ok \<lparr>oi_instrument_id = is_instrument_id spec,
        oi_value = DecimalValue (0, 0), oi_event_time = TimestampMs now\<rparr>),
      pa_ticker = (\<lambda>_ _ _. Err (market_error DecodeError ''no ticker'')),
      pa_mark_price = (\<lambda>_ _ _. Err (market_error DecodeError ''no mark price'')),
      pa_funding_rate = (\<lambda>_ _ _. Err (market_error DecodeError ''no funding rate'')),
      pa_trades = (\<lambda>_ _ _. Ok []), pa_order_book = (\<lambda>_ _ _. Err (market_error DecodeError ''no order book'')),
      pa_ohlcv = (\<lambda>_ _. Ok []),
      pa_classify_command = (\<lambda>operation payload request_id. Ok
        \<lparr>rcp_operation = operation,
         rcp_status = (if payload = None then CommandStatus.UnknownExecution else Accepted),
         rcp_venue = Mexc, rcp_product = LinearUsdt, rcp_instrument_id = None, rcp_order_id = None,
         rcp_client_order_id = None, rcp_request_id = request_id, rcp_message = None,
         rcp_native_code = None, rcp_retriable = (payload = None)\<rparr>)\<rparr>"

definition sample_context :: "Venue \<Rightarrow> (int \<times> u32) LiveContext" where
  "sample_context venue =
     \<lparr>lc_config = config_new venue LinearUsdt, lc_api_key = Some ''key'',
      lc_signer = Some (MemorySigner ''secret''), lc_env = (\<lambda>_. None),
      lc_hmac_hex = (\<lambda>_ _. Some ''00''), lc_urlencode = concat \<circ> map (\<lambda>(k, v). k @ ''='' @ v @ ''&''),
      lc_http = (\<lambda>_ _. HttpResponse 200 []), lc_now = (\<lambda>cs. 1000 + int (length cs)),
      lc_binance_error = (\<lambda>_. None), lc_parsers = (\<lambda>_. sample_parsers), lc_decimal = pair_decimal,
      lc_mode = CommandTransportMode.Auto, lc_ws_order_entry = True, lc_ws = sample_ws_network,
      lc_json = (\<lambda>_. Inr ''{}''), lc_parse_json = (\<lambda>_. Inr (JObject [])),
      lc_type_error = (\<lambda>_ _. ''type mismatch'')\<rparr>"

definition sample_runtime :: "(int \<times> u32) EngineState \<Rightarrow> PendingUnknownCommand list \<Rightarrow> (int \<times> u32) LiveRuntimeState" where
  "sample_runtime engine pending =
     \<lparr>lr_shared = shared_new engine, lr_catalog = catalog_new (instrument_specs engine),
      lr_pending = pending, lr_bybit_account_context = None, lr_calls = [], lr_sleeps = [], lr_ws = hub_new, lr_permits = 0,
      lr_ticker_cache = []\<rparr>"

theorem no_credentials_no_call_witness:
  "\<exists>e. me_kind e = AuthError \<and>
    mexc_signed_get_text ((sample_context Mexc)\<lparr>lc_signer := None\<rparr>) ''/x'' [] ''op''
      (sample_runtime sample_engine []) = (Err e, sample_runtime sample_engine [])"
  using no_credentials_no_call [of "(sample_context Mexc)\<lparr>lc_signer := None\<rparr>" "''GET''" "''/x''" "[]"
      "''op''" "sample_runtime sample_engine []" "[]"]
  by auto

end
