(* ===== verification/Reconcile.thy ===== *)
theory Reconcile
  imports Http
begin

text \<open>
  Private-state repair in \<^verbatim>\<open>bat-markets/src/runtime.rs\<close>: the REST refreshes, the list of
  commands whose outcome is unknown and how it is resolved, and \<^verbatim>\<open>reconcile_private\<close>.
\<close>

section \<open>Refreshes\<close>

definition mark_rest_ok :: "'d EngineState \<Rightarrow> 'd EngineState" where
  "mark_rest_ok = engine_mark_rest_success None"

definition refresh_bybit_account_context :: "'d LiveContext \<Rightarrow> ('d, string) rt" where
  "refresh_bybit_account_context ctx =
     rt_bind (rt_read lr_bybit_account_context) (\<lambda>cached.
       case cached of
         Some c \<Rightarrow> rt_return c
       | None \<Rightarrow>
           rt_bind (bybit_signed_get_text ctx ''/v5/account/info'' [] ''bybit.account_info'') (\<lambda>payload.
           rt_bind (rt_parse ctx (\<lambda>p. pa_account_context p payload)) (\<lambda>parsed.
           rt_bind (rt_modify (\<lambda>s. s\<lparr>lr_bybit_account_context := Some parsed\<rparr>)) (\<lambda>_.
             rt_return parsed))))"

definition fetch_balance :: "'d LiveContext \<Rightarrow> ('d, 'd AccountSnapshot) rt" where
  "fetch_balance ctx =
     (case cfg_venue (lc_config ctx) of
        Binance \<Rightarrow>
          rt_bind (binance_signed_request_text ctx ''GET'' ''/fapi/v3/account'' [] ''binance.account'') (\<lambda>payload.
          rt_bind (rt_now ctx) (\<lambda>observed_at.
          rt_bind (rt_parse ctx (\<lambda>p. pa_account_with_positions p payload (TimestampMs observed_at)))
            (\<lambda>(account, positions).
          rt_bind (rt_write (\<lambda>st. mark_rest_ok (replace_positions positions (replace_account_snapshot account st))))
            (\<lambda>_. rt_return account))))
      | Bybit \<Rightarrow>
          rt_bind (refresh_bybit_account_context ctx) (\<lambda>wallet_account_type.
          rt_bind (bybit_signed_get_text ctx ''/v5/account/wallet-balance''
              [(''accountType'', wallet_account_type)] ''bybit.account.wallet_balance'') (\<lambda>payload.
          rt_bind (rt_now ctx) (\<lambda>observed_at.
          rt_bind (rt_parse ctx (\<lambda>p. pa_account p payload (TimestampMs observed_at))) (\<lambda>account.
          rt_bind (rt_write (\<lambda>st. mark_rest_ok (replace_account_snapshot account st))) (\<lambda>_.
            rt_return account)))))
      | Mexc \<Rightarrow>
          rt_bind (mexc_signed_get_text ctx ''/api/v1/private/account/assets'' [] ''mexc.account.assets'') (\<lambda>payload.
          rt_bind (rt_now ctx) (\<lambda>observed_at.
          rt_bind (rt_parse ctx (\<lambda>p. pa_account p payload (TimestampMs observed_at))) (\<lambda>account.
          rt_bind (rt_write (\<lambda>st. mark_rest_ok (replace_account_snapshot account st))) (\<lambda>_.
            rt_return account)))))"

definition refresh_account :: "'d LiveContext \<Rightarrow> ('d, 'd AccountSummary option) rt" where
  "refresh_account ctx = rt_bind (fetch_balance ctx) (\<lambda>snapshot. rt_return (acc_summary snapshot))"

definition refresh_positions :: "'d LiveContext \<Rightarrow> ('d, 'd Position list) rt" where
  "refresh_positions ctx =
     (case cfg_venue (lc_config ctx) of
        Binance \<Rightarrow>
          rt_bind (binance_signed_request_text ctx ''GET'' ''/fapi/v3/account'' [] ''binance.positions'') (\<lambda>payload.
          rt_bind (rt_now ctx) (\<lambda>observed_at.
          rt_bind (rt_parse ctx (\<lambda>p. pa_account_with_positions p payload (TimestampMs observed_at)))
            (\<lambda>(account, positions).
          rt_bind (rt_write (\<lambda>st. mark_rest_ok (replace_positions positions (replace_account_snapshot account st))))
            (\<lambda>_. rt_return positions))))
      | Bybit \<Rightarrow>
          rt_bind (bybit_signed_get_text ctx ''/v5/position/list''
              [(''category'', ''linear''), (''settleCoin'', ''USDT'')] ''bybit.positions'') (\<lambda>payload.
          rt_bind (rt_now ctx) (\<lambda>observed_at.
          rt_bind (rt_parse ctx (\<lambda>p. pa_positions p payload (TimestampMs observed_at))) (\<lambda>positions.
          rt_bind (rt_write (\<lambda>st. mark_rest_ok (replace_positions positions st))) (\<lambda>_.
            rt_return positions))))
      | Mexc \<Rightarrow>
          rt_bind (mexc_signed_get_text ctx ''/api/v1/private/position/open_positions'' [] ''mexc.positions'') (\<lambda>payload.
          rt_bind (rt_now ctx) (\<lambda>observed_at.
          rt_bind (rt_parse ctx (\<lambda>p. pa_positions p payload (TimestampMs observed_at))) (\<lambda>positions.
          rt_bind (rt_write (\<lambda>st. mark_rest_ok (replace_positions positions st))) (\<lambda>_.
            rt_return positions)))))"

text \<open>The symbol of a request that names an instrument.\<close>

definition requested_symbol :: "'d LiveContext \<Rightarrow> InstrumentId option \<Rightarrow> ('d, string option) rt" where
  "requested_symbol ctx iid =
     (case iid of
        None \<Rightarrow> rt_return None
      | Some i \<Rightarrow> rt_bind (require_spec ctx i) (\<lambda>spec. rt_return (Some (is_native_symbol spec))))"

definition fetch_open_orders_payload ::
  "'d LiveContext \<Rightarrow> ListOpenOrdersRequest option \<Rightarrow> ('d, 'd Order list) rt" where
  "fetch_open_orders_payload ctx request =
     rt_bind (requested_symbol ctx (Option.bind request lo_instrument_id)) (\<lambda>symbol.
     case cfg_venue (lc_config ctx) of
        Binance \<Rightarrow>
          (let pairs = (case symbol of None \<Rightarrow> [] | Some y \<Rightarrow> [(''symbol'', y)]) in
           rt_bind (binance_signed_request_text ctx ''GET'' ''/fapi/v1/openOrders'' pairs ''binance.open_orders'') (\<lambda>payload.
           rt_bind (rt_now ctx) (\<lambda>t1.
           rt_bind (rt_parse ctx (\<lambda>p. pa_open_orders p payload (TimestampMs t1))) (\<lambda>orders.
           rt_bind (binance_signed_request_text ctx ''GET'' ''/fapi/v1/openAlgoOrders'' pairs ''binance.open_algo_orders'') (\<lambda>algo_payload.
           rt_bind (rt_now ctx) (\<lambda>t2.
           rt_bind (rt_parse ctx (\<lambda>p. pa_open_algo_orders p algo_payload (TimestampMs t2))) (\<lambda>algo_orders.
             rt_return (orders @ algo_orders))))))))
      | Bybit \<Rightarrow>
          (let pairs = [(''category'', ''linear'')] @
                 (case symbol of None \<Rightarrow> [(''settleCoin'', ''USDT'')] | Some y \<Rightarrow> [(''symbol'', y)]) in
           rt_bind (bybit_signed_get_text ctx ''/v5/order/realtime'' pairs ''bybit.open_orders'') (\<lambda>payload.
           rt_bind (rt_now ctx) (\<lambda>t.
             rt_parse ctx (\<lambda>p. pa_open_orders p payload (TimestampMs t)))))
      | Mexc \<Rightarrow>
          (let path = ''/api/v1/private/order/list/open_orders'' @
                 (case symbol of None \<Rightarrow> '''' | Some y \<Rightarrow> ''/'' @ y) in
           rt_bind (mexc_signed_get_text ctx path [] ''mexc.open_orders'') (\<lambda>payload.
           rt_bind (rt_now ctx) (\<lambda>t.
             rt_parse ctx (\<lambda>p. pa_open_orders p payload (TimestampMs t))))))"

definition refresh_open_orders ::
  "'d LiveContext \<Rightarrow> ListOpenOrdersRequest option \<Rightarrow> ('d, 'd Order list) rt" where
  "refresh_open_orders ctx request =
     rt_bind (fetch_open_orders_payload ctx request) (\<lambda>orders.
     rt_bind (rt_write (\<lambda>st. mark_rest_ok (replace_open_orders orders st))) (\<lambda>_.
       rt_return orders))"

definition refresh_metadata :: "'d LiveContext \<Rightarrow> ('d, 'd InstrumentSpec list) rt" where
  "refresh_metadata ctx =
     rt_bind (case cfg_venue (lc_config ctx) of
         Binance \<Rightarrow> public_get_with_retry ctx ''/fapi/v1/exchangeInfo'' [] ''binance.metadata''
       | Bybit \<Rightarrow> public_get_with_retry ctx ''/v5/market/instruments-info''
           [(''category'', ''linear'')] ''bybit.metadata''
       | Mexc \<Rightarrow> public_get_with_retry ctx ''/api/v1/contract/detail'' [] ''mexc.metadata'') (\<lambda>payload.
     rt_bind (rt_parse ctx (\<lambda>p. pa_metadata p payload)) (\<lambda>specs.
     rt_bind (rt_modify (\<lambda>s. s\<lparr>lr_catalog := catalog_replace (lr_catalog s) specs\<rparr>)) (\<lambda>_.
     rt_bind (rt_write (\<lambda>st. mark_rest_ok (replace_instruments specs st))) (\<lambda>_.
       rt_return specs))))"

definition sync_server_time :: "'d LiveContext \<Rightarrow> ('d, unit) rt" where
  "sync_server_time ctx =
     rt_bind (case cfg_venue (lc_config ctx) of
         Binance \<Rightarrow> public_get_with_retry ctx ''/fapi/v1/time'' [] ''binance.server_time''
       | Bybit \<Rightarrow> public_get_with_retry ctx ''/v5/market/time'' [] ''bybit.server_time''
       | Mexc \<Rightarrow> public_get_with_retry ctx ''/api/v1/contract/ping'' [] ''mexc.server_time'') (\<lambda>payload.
     rt_bind (rt_parse ctx (\<lambda>p. pa_server_time p payload)) (\<lambda>server_time.
     rt_bind (rt_now ctx) (\<lambda>local_time.
       rt_write (engine_mark_rest_success (Some (i64_wrap (timestamp_value server_time - local_time)))))))"

definition bootstrap_live :: "'d LiveContext \<Rightarrow> ('d, unit) rt" where
  "bootstrap_live ctx =
     rt_bind (sync_server_time ctx) (\<lambda>_.
     rt_bind (refresh_metadata ctx) (\<lambda>_.
       if cfg_venue (lc_config ctx) = Bybit \<and> lc_api_key ctx \<noteq> None \<and> lc_signer ctx \<noteq> None
       then rt_bind (refresh_bybit_account_context ctx) (\<lambda>_. rt_return ())
       else rt_return ()))"

section \<open>Order identity\<close>

definition missing_identity_error :: MarketError where
  "missing_identity_error = market_error ConfigError ''either order_id or client_order_id is required''"

definition append_order_identity ::
  "(string \<times> string) list \<Rightarrow> OrderId option \<Rightarrow> ClientOrderId option \<Rightarrow> (string \<times> string) list result" where
  "append_order_identity query order_id client_order_id =
     (case (order_id, client_order_id) of
        (Some oid, _) \<Rightarrow> Ok (query @ [(''orderId'', as_str oid)])
      | (None, Some cid) \<Rightarrow> Ok (query @ [(''origClientOrderId'', as_str cid)])
      | (None, None) \<Rightarrow> Err missing_identity_error)"

definition order_identity_query ::
  "string \<Rightarrow> OrderId option \<Rightarrow> ClientOrderId option \<Rightarrow> (string \<times> string) list result" where
  "order_identity_query native_symbol order_id client_order_id =
     append_order_identity [(''symbol'', native_symbol)] order_id client_order_id"

text \<open>Binance conditional ("algo") orders carry a prefix in their unified identifier.\<close>

definition strip_prefix :: "string \<Rightarrow> string \<Rightarrow> string option" where
  "strip_prefix pre str =
     (if take (length pre) str = pre then Some (drop (length pre) str) else None)"

definition binance_algo_order_id_value :: "OrderId \<Rightarrow> string option" where
  "binance_algo_order_id_value oid = strip_prefix ''binance-algo:'' (as_str oid)"

definition is_binance_algo_order_id :: "OrderId option \<Rightarrow> bool" where
  "is_binance_algo_order_id oid \<longleftrightarrow> Option.bind oid binance_algo_order_id_value \<noteq> None"

definition append_binance_algo_identity ::
  "(string \<times> string) list \<Rightarrow> OrderId option \<Rightarrow> ClientOrderId option \<Rightarrow> (string \<times> string) list result" where
  "append_binance_algo_identity query order_id client_order_id =
     (case (order_id, client_order_id) of
        (Some oid, _) \<Rightarrow>
          and_then (ok_or (market_error ConfigError
              (''expected binance algo order id, got '' @ [CHR 0x27] @ as_str oid @ [CHR 0x27]))
              (binance_algo_order_id_value oid))
            (\<lambda>algo_id. Ok (query @ [(''algoId'', algo_id)]))
      | (None, Some cid) \<Rightarrow> Ok (query @ [(''clientAlgoId'', as_str cid)])
      | (None, None) \<Rightarrow> Err missing_identity_error)"

definition binance_algo_identity_query ::
  "OrderId option \<Rightarrow> ClientOrderId option \<Rightarrow> (string \<times> string) list result" where
  "binance_algo_identity_query order_id client_order_id =
     append_binance_algo_identity [] order_id client_order_id"

definition append_bybit_order_identity ::
  "(string \<times> string) list \<Rightarrow> OrderId option \<Rightarrow> ClientOrderId option \<Rightarrow> (string \<times> string) list result" where
  "append_bybit_order_identity query order_id client_order_id =
     (case (order_id, client_order_id) of
        (Some oid, _) \<Rightarrow> Ok (query @ [(''orderId'', as_str oid)])
      | (None, Some cid) \<Rightarrow> Ok (query @ [(''orderLinkId'', as_str cid)])
      | (None, None) \<Rightarrow> Err missing_identity_error)"

definition fetch_order_payload :: "'d LiveContext \<Rightarrow> GetOrderRequest \<Rightarrow> 'd InstrumentSpec \<Rightarrow> ('d, 'd Order) rt" where
  "fetch_order_payload ctx request spec =
     (case cfg_venue (lc_config ctx) of
        Binance \<Rightarrow>
          rt_bind (rt_lift
            (if is_binance_algo_order_id (go_order_id request)
             then map_result (\<lambda>q. (''/fapi/v1/algoOrder'', ''binance.get_algo_order'', q))
               (binance_algo_identity_query (go_order_id request) (go_client_order_id request))
             else map_result (\<lambda>q. (''/fapi/v1/order'', ''binance.get_order'', q))
               (order_identity_query (is_native_symbol spec) (go_order_id request)
                 (go_client_order_id request)))) (\<lambda>(path, operation, query).
          rt_bind (binance_signed_request_text ctx ''GET'' path query operation) (\<lambda>payload.
          rt_bind (rt_now ctx) (\<lambda>t. rt_parse ctx (\<lambda>p. pa_order p payload (TimestampMs t)))))
      | Bybit \<Rightarrow>
          rt_bind (rt_lift (append_bybit_order_identity
              [(''category'', ''linear''), (''symbol'', is_native_symbol spec)]
              (go_order_id request) (go_client_order_id request))) (\<lambda>query.
          rt_bind (bybit_signed_get_text ctx ''/v5/order/realtime'' query ''bybit.get_order'') (\<lambda>payload.
          rt_bind (rt_now ctx) (\<lambda>t. rt_parse ctx (\<lambda>p. pa_order p payload (TimestampMs t)))))
      | Mexc \<Rightarrow>
          rt_bind (rt_lift (ok_or (with_context ctx (market_error ConfigError
              ''mexc get_order requires order_id; externalOid query is not stable enough for unified lookup''))
              (go_order_id request))) (\<lambda>oid.
          rt_bind (mexc_signed_get_text ctx (''/api/v1/private/order/get/'' @ as_str oid) [] ''mexc.get_order'') (\<lambda>payload.
          rt_bind (rt_now ctx) (\<lambda>t. rt_parse ctx (\<lambda>p. pa_order p payload (TimestampMs t))))))"

definition rt_private_event :: "'d PrivateLaneEvent \<Rightarrow> ('d, unit) rt" where
  "rt_private_event e s = (Ok (), s\<lparr>lr_shared := shared_apply_private_event e (lr_shared s)\<rparr>)"

definition get_order :: "'d LiveContext \<Rightarrow> GetOrderRequest \<Rightarrow> ('d, 'd Order) rt" where
  "get_order ctx request =
     rt_bind (require_spec ctx (go_instrument_id request)) (\<lambda>spec.
     rt_bind (fetch_order_payload ctx request spec) (\<lambda>order.
     rt_bind (rt_private_event (Order order)) (\<lambda>_.
     rt_bind (rt_write mark_rest_ok) (\<lambda>_.
       rt_return order))))"

section \<open>Pending commands\<close>

definition cache_pending_unknown :: "PendingUnknownCommand \<Rightarrow> 'd LiveRuntimeState \<Rightarrow> 'd LiveRuntimeState" where
  "cache_pending_unknown pending s =
     (if list_ex (\<lambda>existing. existing = pending) (lr_pending s) then s
      else s\<lparr>lr_pending := lr_pending s @ [pending]\<rparr>)"

definition replace_pending_unknown_commands ::
  "PendingUnknownCommand list \<Rightarrow> 'd LiveRuntimeState \<Rightarrow> 'd LiveRuntimeState" where
  "replace_pending_unknown_commands pending s = s\<lparr>lr_pending := pending\<rparr>"

definition order_matches_pending :: "'d Order \<Rightarrow> PendingUnknownCommand \<Rightarrow> bool" where
  "order_matches_pending r pending \<longleftrightarrow>
     ord_instrument_id r = pu_instrument_id pending \<and>
     ((case pu_order_id pending of None \<Rightarrow> False | Some oid \<Rightarrow> ord_order_id r = oid) \<or>
      (case pu_client_order_id pending of None \<Rightarrow> False | Some cid \<Rightarrow> ord_client_order_id r = Some cid))"

definition execution_matches_pending :: "'d Execution \<Rightarrow> PendingUnknownCommand \<Rightarrow> bool" where
  "execution_matches_pending e pending \<longleftrightarrow>
     exe_instrument_id e = pu_instrument_id pending \<and>
     ((case pu_order_id pending of None \<Rightarrow> False | Some oid \<Rightarrow> exe_order_id e = oid) \<or>
      (case pu_client_order_id pending of None \<Rightarrow> False | Some cid \<Rightarrow> exe_client_order_id e = Some cid))"

definition unresolved_pending_after_orders ::
  "PendingUnknownCommand list \<Rightarrow> 'd Order list \<Rightarrow> PendingUnknownCommand list" where
  "unresolved_pending_after_orders pending orders =
     filter (\<lambda>command. \<not> list_ex (\<lambda>r. order_matches_pending r command) orders) pending"

definition unresolved_pending_after_executions ::
  "PendingUnknownCommand list \<Rightarrow> 'd Execution list \<Rightarrow> PendingUnknownCommand list" where
  "unresolved_pending_after_executions pending executions =
     filter (\<lambda>command. \<not> list_ex (\<lambda>e. execution_matches_pending e command) executions) pending"

definition unresolved_pending_after_state ::
  "PendingUnknownCommand list \<Rightarrow> 'd Order list \<Rightarrow> 'd Execution list \<Rightarrow> PendingUnknownCommand list" where
  "unresolved_pending_after_state pending orders executions =
     unresolved_pending_after_executions (unresolved_pending_after_orders pending orders) executions"

definition pending_by_instrument ::
  "PendingUnknownCommand list \<Rightarrow> (InstrumentId, PendingUnknownCommand list) btree_map" where
  "pending_by_instrument pending =
     foldl (\<lambda>grouped command.
       bt_insert (pu_instrument_id command)
         (entry_or_default grouped (pu_instrument_id command) @ [command]) grouped)
       [] pending"

definition resolve_pending_from_local_state ::
  "PendingUnknownCommand list \<Rightarrow> 'd LiveRuntimeState \<Rightarrow> PendingUnknownCommand list" where
  "resolve_pending_from_local_state pending s =
     (if pending = [] then pending
      else unresolved_pending_after_state pending (engine_orders (engine_of s))
             (engine_executions (engine_of s)))"

section \<open>Repair window\<close>

definition HISTORY_REPAIR_REWIND_MS :: i64 where
  "HISTORY_REPAIR_REWIND_MS = 60000"

definition HISTORY_REPAIR_MAX_LOOKBACK_MS :: i64 where
  "HISTORY_REPAIR_MAX_LOOKBACK_MS = 7 * 24 * 60 * 60 * 1000"

definition repair_window_start_ms ::
  "i64 \<Rightarrow> i64 option \<Rightarrow> i64 option \<Rightarrow> i64 option \<Rightarrow> i64 option \<Rightarrow> i64 option" where
  "repair_window_start_ms now latest_order latest_execution fallback_last_private oldest_pending =
     (let anchors = concat (map (\<lambda>x. case x of None \<Rightarrow> [] | Some v \<Rightarrow> [v])
            [latest_order, latest_execution, oldest_pending]);
          anchor = (case iter_min anchors of None \<Rightarrow> fallback_last_private | Some a \<Rightarrow> Some a) in
      map_option (\<lambda>a. min (max (i64_saturating_sub a HISTORY_REPAIR_REWIND_MS)
          (i64_saturating_sub now HISTORY_REPAIR_MAX_LOOKBACK_MS)) now) anchor)"

definition repair_time_window ::
  "'d LiveContext \<Rightarrow> InstrumentId \<Rightarrow> PendingUnknownCommand list \<Rightarrow> 'd LiveRuntimeState \<Rightarrow> (i64 \<times> i64) option" where
  "repair_time_window ctx iid pending s =
     (let now = lc_now ctx (lr_calls s) in
      map_option (\<lambda>start. (start, now))
        (repair_window_start_ms now
           (map_option timestamp_value (latest_order_update_at (engine_of s) iid))
           (map_option timestamp_value (latest_execution_at (engine_of s) iid))
           (map_option timestamp_value (hr_last_private_msg_at (health_snapshot (lr_shared s))))
           (iter_min (map (timestamp_value \<circ> pu_recorded_at) pending))))"

section \<open>History repair\<close>

definition window_pairs :: "string \<Rightarrow> string \<Rightarrow> (i64 \<times> i64) option \<Rightarrow> (string \<times> string) list" where
  "window_pairs start_key end_key window =
     (case window of
        None \<Rightarrow> []
      | Some (start, stop) \<Rightarrow> [(start_key, show_int start), (end_key, show_int stop)])"

definition refresh_recent_order_history ::
  "'d LiveContext \<Rightarrow> InstrumentId \<Rightarrow> PendingUnknownCommand list \<Rightarrow> ('d, 'd Order list) rt" where
  "refresh_recent_order_history ctx iid pending =
     rt_bind (require_spec ctx iid) (\<lambda>spec.
     rt_bind (rt_read (repair_time_window ctx iid pending)) (\<lambda>window.
     case cfg_venue (lc_config ctx) of
        Binance \<Rightarrow>
          rt_bind (binance_signed_request_text ctx ''GET'' ''/fapi/v1/allOrders''
              ([(''symbol'', is_native_symbol spec), (''limit'', ''50'')] @ window_pairs ''startTime'' ''endTime'' window)
              ''binance.order_history'') (\<lambda>payload.
          rt_bind (rt_now ctx) (\<lambda>t. rt_parse ctx (\<lambda>p. pa_order_history p payload (TimestampMs t))))
      | Bybit \<Rightarrow>
          rt_bind (bybit_signed_get_text ctx ''/v5/order/history''
              ([(''category'', ''linear''), (''symbol'', is_native_symbol spec), (''limit'', ''50'')] @
                window_pairs ''startTime'' ''endTime'' window) ''bybit.order_history'') (\<lambda>payload.
          rt_bind (rt_now ctx) (\<lambda>t. rt_parse ctx (\<lambda>p. pa_order_history p payload (TimestampMs t))))
      | Mexc \<Rightarrow>
          rt_bind (mexc_signed_get_text ctx ''/api/v1/private/order/list/history_orders''
              ([(''symbol'', is_native_symbol spec), (''page_num'', ''1''), (''page_size'', ''50'')] @
                window_pairs ''start_time'' ''end_time'' window) ''mexc.order_history'') (\<lambda>payload.
          rt_bind (rt_now ctx) (\<lambda>t. rt_parse ctx (\<lambda>p. pa_open_orders p payload (TimestampMs t))))))"

definition refresh_recent_execution_history ::
  "'d LiveContext \<Rightarrow> InstrumentId \<Rightarrow> PendingUnknownCommand list \<Rightarrow> ('d, 'd Execution list) rt" where
  "refresh_recent_execution_history ctx iid pending =
     rt_bind (rt_read (repair_time_window ctx iid pending)) (\<lambda>window.
     rt_bind (require_spec ctx iid) (\<lambda>spec.
     case cfg_venue (lc_config ctx) of
        Binance \<Rightarrow>
          rt_bind (binance_signed_request_text ctx ''GET'' ''/fapi/v1/userTrades''
              ([(''symbol'', is_native_symbol spec), (''limit'', ''100'')] @ window_pairs ''startTime'' ''endTime'' window)
              ''binance.execution_history'') (\<lambda>payload. rt_parse ctx (\<lambda>p. pa_executions p payload))
      | Bybit \<Rightarrow>
          rt_bind (bybit_signed_get_text ctx ''/v5/execution/list''
              ([(''category'', ''linear''), (''symbol'', is_native_symbol spec), (''limit'', ''100'')] @
                window_pairs ''startTime'' ''endTime'' window) ''bybit.execution_history'') (\<lambda>payload.
            rt_parse ctx (\<lambda>p. pa_executions p payload))
      | Mexc \<Rightarrow>
          rt_bind (mexc_signed_get_text ctx ''/api/v1/private/order/list/order_deals''
              ([(''symbol'', is_native_symbol spec), (''page_num'', ''1''), (''page_size'', ''100'')] @
                window_pairs ''start_time'' ''end_time'' window) ''mexc.execution_history'') (\<lambda>payload.
            rt_parse ctx (\<lambda>p. pa_executions p payload))))"

definition resolve_pending_from_recent_order_history ::
  "'d LiveContext \<Rightarrow> PendingUnknownCommand list \<Rightarrow> ('d, PendingUnknownCommand list) rt" where
  "resolve_pending_from_recent_order_history ctx pending =
     (if pending = [] then rt_return pending
      else rt_for (pending_by_instrument pending) (\<lambda>(iid, commands) unresolved.
        rt_bind (refresh_recent_order_history ctx iid commands) (\<lambda>orders.
        rt_bind (rt_write (\<lambda>st. mark_rest_ok
            (if orders \<noteq> [] then merge_order_history orders st else st))) (\<lambda>_.
          rt_return (unresolved @ unresolved_pending_after_orders commands orders)))) [])"

definition resolve_pending_from_recent_execution_history ::
  "'d LiveContext \<Rightarrow> PendingUnknownCommand list \<Rightarrow> ('d, PendingUnknownCommand list) rt" where
  "resolve_pending_from_recent_execution_history ctx pending =
     (if pending = [] then rt_return pending
      else rt_for (pending_by_instrument pending) (\<lambda>(iid, commands) unresolved.
        rt_bind (refresh_recent_execution_history ctx iid commands) (\<lambda>executions.
        rt_bind (rt_write (\<lambda>st. mark_rest_ok
            (if executions \<noteq> [] then merge_executions executions st else st))) (\<lambda>_.
          rt_return (unresolved @ unresolved_pending_after_executions commands executions)))) [])"

text \<open>One direct lookup: resolved, unresolved, or an error that ends the reconciliation.\<close>

definition lookup_pending ::
  "'d LiveContext \<Rightarrow> PendingUnknownCommand \<Rightarrow> PendingUnknownCommand list \<Rightarrow> ('d, PendingUnknownCommand list) rt" where
  "lookup_pending ctx command unresolved s =
     (if pu_order_id command \<noteq> None \<or> pu_client_order_id command \<noteq> None then
        (case get_order ctx \<lparr>go_request_id = None, go_instrument_id = pu_instrument_id command,
             go_order_id = pu_order_id command, go_client_order_id = pu_client_order_id command\<rparr> s of
           (Inr _, s1) \<Rightarrow> (Ok unresolved, s1)
         | (Inl Panicked, s1) \<Rightarrow> (Panic, s1)
         | (Inl (Failed err), s1) \<Rightarrow>
             (if is_missing_order_error err then (Ok (unresolved @ [command]), s1) else (Err err, s1)))
      else (Ok (unresolved @ [command]), s))"

definition resolve_pending_unknown_commands :: "'d LiveContext \<Rightarrow> ('d, usize) rt" where
  "resolve_pending_unknown_commands ctx =
     rt_bind (rt_read (\<lambda>s. resolve_pending_from_local_state (lr_pending s) s)) (\<lambda>pending.
     if pending = [] then rt_return 0
     else
       rt_bind (rt_for pending (lookup_pending ctx) []) (\<lambda>unresolved0.
       rt_bind (rt_read (resolve_pending_from_local_state unresolved0)) (\<lambda>unresolved1.
       if unresolved1 = [] then
         rt_bind (rt_modify (replace_pending_unknown_commands [])) (\<lambda>_. rt_return 0)
       else
         rt_bind (resolve_pending_from_recent_order_history ctx unresolved1) (\<lambda>unresolved2.
         if unresolved2 = [] then
           rt_bind (rt_modify (replace_pending_unknown_commands [])) (\<lambda>_. rt_return 0)
         else
           rt_bind (resolve_pending_from_recent_execution_history ctx unresolved2) (\<lambda>unresolved3.
           rt_bind (rt_modify (replace_pending_unknown_commands unresolved3)) (\<lambda>_.
             rt_return (length unresolved3)))))))"

text \<open>The instruments with local evidence, and the pending commands that belong to them.\<close>

definition repair_evidence :: "'d LiveRuntimeState \<Rightarrow> (InstrumentId, PendingUnknownCommand list) btree_map" where
  "repair_evidence s =
     (let ids = map pos_instrument_id (engine_positions (engine_of s)) @
                map ord_instrument_id (engine_open_orders (engine_of s)) @
                map exe_instrument_id (engine_executions (engine_of s));
          base = foldl (\<lambda>m iid. bt_insert iid (entry_or_default m iid) m) [] ids in
      foldl (\<lambda>m (iid, commands). bt_insert iid (entry_or_default m iid @ commands) m) base
        (pending_by_instrument (lr_pending s)))"

definition refresh_execution_repair_evidence :: "'d LiveContext \<Rightarrow> ('d, unit) rt" where
  "refresh_execution_repair_evidence ctx =
     rt_bind (rt_read repair_evidence) (\<lambda>evidence.
       rt_for evidence (\<lambda>(iid, pending) _.
         rt_bind (rt_read (\<lambda>s. catalog_get (lr_catalog s) iid)) (\<lambda>resolved.
           if resolved = None then rt_return ()
           else
             rt_bind (refresh_recent_execution_history ctx iid pending) (\<lambda>executions.
               rt_write (\<lambda>st. mark_rest_ok
                 (if executions \<noteq> [] then merge_executions executions st else st))))) ())"

section \<open>Reconciliation\<close>

datatype PrivateReconcileMode = SnapshotOnly | RecentHistoryRepair

datatype ExecutionRepairScope = PendingUnknownOnly | LocalEvidence

definition needs_recent_history_repair :: "HealthReport \<Rightarrow> usize \<Rightarrow> bool" where
  "needs_recent_history_repair health pending_unknown_count =
     (if pending_unknown_count > 0 \<or> hr_state_divergence health then True
      else hr_degraded_reason health \<in> {Some PrivateStreamGap, Some DegradedReason.ReconcileRequired,
             Some DegradedReason.CommandUncertain, Some DegradedReason.StateDivergence})"

definition reconcile_mode :: "ReconcileTrigger \<Rightarrow> 'd LiveRuntimeState \<Rightarrow> PrivateReconcileMode" where
  "reconcile_mode trigger s =
     (case trigger of
        Periodic \<Rightarrow>
          (if needs_recent_history_repair (health_snapshot (lr_shared s)) (length (lr_pending s))
           then RecentHistoryRepair else SnapshotOnly)
      | _ \<Rightarrow> RecentHistoryRepair)"

definition execution_repair_scope :: "ReconcileTrigger \<Rightarrow> HealthReport \<Rightarrow> ExecutionRepairScope" where
  "execution_repair_scope trigger health =
     (case trigger of
        ReconcileTrigger.UnknownExecution \<Rightarrow> PendingUnknownOnly
      | Periodic \<Rightarrow>
          (if hr_state_divergence health \<or>
              hr_degraded_reason health \<in> {Some PrivateStreamGap, Some DegradedReason.ReconcileRequired,
                Some DegradedReason.StateDivergence}
           then LocalEvidence else PendingUnknownOnly)
      | _ \<Rightarrow> LocalEvidence)"

definition reconcile_steps :: "'d LiveContext \<Rightarrow> ReconcileTrigger \<Rightarrow> PrivateReconcileMode \<Rightarrow> ('d, usize) rt" where
  "reconcile_steps ctx trigger mode =
     rt_bind (refresh_account ctx) (\<lambda>_.
     rt_bind (refresh_positions ctx) (\<lambda>_.
     rt_bind (refresh_open_orders ctx None) (\<lambda>_.
       case mode of
         SnapshotOnly \<Rightarrow> rt_return 0
       | RecentHistoryRepair \<Rightarrow>
           rt_bind (rt_read (\<lambda>s. execution_repair_scope trigger (health_snapshot (lr_shared s)))) (\<lambda>scope.
           rt_bind (if scope = LocalEvidence then refresh_execution_repair_evidence ctx else rt_return ()) (\<lambda>_.
             resolve_pending_unknown_commands ctx)))))"

definition reconcile_private :: "'d LiveContext \<Rightarrow> ReconcileTrigger \<Rightarrow> ('d, ReconcileReport) rt" where
  "reconcile_private ctx trigger s =
     (let repaired_at = TimestampMs (lc_now ctx (lr_calls s));
          mode = reconcile_mode trigger s;
          stale_after = hp_snapshot_stale_after_ms (cfg_health (lc_config ctx)) in
      case reconcile_steps ctx trigger mode s of
        (Inl Panicked, s1) \<Rightarrow> (Panic, s1)
      | (Inl (Failed err), s1) \<Rightarrow>
          (let report = \<lparr>rep_trigger = trigger, rep_outcome = StillUncertain, rep_repaired_at = repaired_at,
                 rep_note = Some ''snapshot reconcile failed''\<rparr> in
           (Err err, snd (rt_write (\<lambda>st.
              engine_mark_snapshot_age stale_after stale_after (apply_reconcile_report report st)) s1)))
      | (Inr unresolved, s1) \<Rightarrow>
          (let report = (if unresolved = 0
                 then \<lparr>rep_trigger = trigger, rep_outcome = Synchronized, rep_repaired_at = repaired_at,
                   rep_note = Some (case mode of
                      SnapshotOnly \<Rightarrow> ''snapshot reconcile completed''
                    | RecentHistoryRepair \<Rightarrow> ''snapshot reconcile with recent-history repair completed'')\<rparr>
                 else \<lparr>rep_trigger = trigger, rep_outcome = StillUncertain, rep_repaired_at = repaired_at,
                   rep_note = Some (show_nat unresolved @ '' pending command outcomes still unresolved'')\<rparr>) in
           (Ok report, snd (rt_write (apply_reconcile_report report) s1))))"

end
