(* ===== verification/Reconcile_Laws.thy ===== *)
theory Reconcile_Laws
  imports Reconcile
begin

text \<open>
  Laws of the private-state repair: every runtime action keeps the engine invariant and the
  published health, no pending command is lost when a reconciliation fails, the reported
  outcome agrees with the health it leaves behind, and the repair window is bounded.
\<close>

section \<open>Hoare triples for runtime actions\<close>

definition rt_triple ::
  "('d LiveRuntimeState \<Rightarrow> bool) \<Rightarrow> ('d, 'a) rt \<Rightarrow> ('a \<Rightarrow> 'd LiveRuntimeState \<Rightarrow> bool)
     \<Rightarrow> ('d LiveRuntimeState \<Rightarrow> bool) \<Rightarrow> bool" where
  "rt_triple P m Q E \<longleftrightarrow>
     (\<forall>s. P s \<longrightarrow> (case m s of (Inr x, s') \<Rightarrow> Q x s' | (Inl f, s') \<Rightarrow> E s'))"

lemma triple_bind:
  assumes "rt_triple P m Q E" and "\<And>x. rt_triple (Q x) (k x) R E"
  shows "rt_triple P (rt_bind m k) R E"
  unfolding rt_triple_def
proof (intro allI impI)
  fix s
  assume "P s"
  with assms(1) have m: "case m s of (Inr x, s') \<Rightarrow> Q x s' | (Inl f, s') \<Rightarrow> E s'"
    by (simp add: rt_triple_def)
  obtain r s' where ms: "m s = (r, s')" by fastforce
  show "case rt_bind m k s of (Inr x, t) \<Rightarrow> R x t | (Inl f, t) \<Rightarrow> E t"
    using m ms assms(2) by (cases r) (auto simp: rt_bind_def rt_triple_def)
qed

lemma triple_return: "(\<And>s. P s \<Longrightarrow> Q x s) \<Longrightarrow> rt_triple P (rt_return x) Q E"
  by (simp add: rt_triple_def rt_return_def)

lemma triple_lift: "(\<And>s x. P s \<Longrightarrow> Q x s) \<Longrightarrow> (\<And>s. P s \<Longrightarrow> E s) \<Longrightarrow> rt_triple P (rt_lift r) Q E"
  by (auto simp: rt_triple_def rt_lift_def split: sum.split)

lemma triple_read: "(\<And>s. P s \<Longrightarrow> Q (f s) s) \<Longrightarrow> rt_triple P (rt_read f) Q E"
  by (simp add: rt_triple_def rt_read_def)

lemma triple_modify: "(\<And>s. P s \<Longrightarrow> Q () (f s)) \<Longrightarrow> rt_triple P (rt_modify f) Q E"
  by (simp add: rt_triple_def rt_modify_def)

lemma triple_conseq:
  "rt_triple P m Q E \<Longrightarrow> (\<And>s. P' s \<Longrightarrow> P s) \<Longrightarrow> (\<And>x s. Q x s \<Longrightarrow> Q' x s) \<Longrightarrow> (\<And>s. E s \<Longrightarrow> E' s) \<Longrightarrow>
    rt_triple P' m Q' E'"
  unfolding rt_triple_def by (auto split: prod.splits sum.splits) blast+

lemma triple_if:
  "(c \<Longrightarrow> rt_triple P a Q E) \<Longrightarrow> (\<not> c \<Longrightarrow> rt_triple P b Q E) \<Longrightarrow> rt_triple P (if c then a else b) Q E"
  by simp

lemma triple_for:
  assumes "\<And>x acc. x \<in> set xs \<Longrightarrow> rt_triple (Inv acc) (body x acc) Inv E"
  shows "rt_triple (Inv acc) (rt_for xs body acc) Inv E"
  using assms
proof (induction xs arbitrary: acc)
  case Nil
  show ?case by (simp add: triple_return)
next
  case (Cons x xs)
  show ?case
    unfolding rt_for.simps by (rule triple_bind [where Q = Inv]) (use Cons in auto)
qed

lemma triple_pure: "(p \<Longrightarrow> rt_triple P m Q E) \<Longrightarrow> rt_triple (\<lambda>s. P s \<and> p) m Q E"
  by (simp add: rt_triple_def)

lemma triple_keeps: "rt_keeps I m \<Longrightarrow> rt_triple I m (\<lambda>_. I) I"
  by (fastforce simp: rt_keeps_def rt_triple_def split: prod.split sum.split)

lemma result_cases [case_names Ok Err Panic]:
  "(\<And>x. r = Ok x \<Longrightarrow> P) \<Longrightarrow> (\<And>e. r = Err e \<Longrightarrow> P) \<Longrightarrow> (r = Panic \<Longrightarrow> P) \<Longrightarrow> P"
  by (cases r) (auto intro: Failure.exhaust)

section \<open>The pending list\<close>

text \<open>Actions that do not touch the list of pending commands.\<close>

abbreviation pending_is :: "PendingUnknownCommand list \<Rightarrow> 'd LiveRuntimeState \<Rightarrow> bool" where
  "pending_is ps s \<equiv> lr_pending s = ps"

interpretation pending_blind: network_blind "pending_is ps" for ps
  by unfold_locales simp

lemma pending_write [model_inv]: "rt_keeps (pending_is ps) (rt_write f)"
  by (simp add: rt_keeps_def rt_write_def)

lemma pending_private_event [model_inv]: "rt_keeps (pending_is ps) (rt_private_event e)"
  by (simp add: rt_keeps_def rt_private_event_def)

text \<open>Case distinctions of an action, for the introduction rules.\<close>

lemma rt_keeps_venue:
  "rt_keeps I a \<Longrightarrow> rt_keeps I b \<Longrightarrow> rt_keeps I c \<Longrightarrow>
    rt_keeps I (case v of Binance \<Rightarrow> a | Bybit \<Rightarrow> b | Mexc \<Rightarrow> c)"
  by (cases v) simp_all

lemma rt_keeps_option:
  "rt_keeps I a \<Longrightarrow> (\<And>x. rt_keeps I (b x)) \<Longrightarrow> rt_keeps I (case o' of None \<Rightarrow> a | Some x \<Rightarrow> b x)"
  by (cases o') simp_all

lemma rt_keeps_pair: "(\<And>x y. rt_keeps I (f x y)) \<Longrightarrow> rt_keeps I (case p of (x, y) \<Rightarrow> f x y)"
  by (cases p) simp

lemma rt_keeps_pair_app: "(\<And>x y. rt_keeps I (f x y z)) \<Longrightarrow> rt_keeps I ((case p of (x, y) \<Rightarrow> f x y) z)"
  by (cases p) simp

lemma rt_keeps_let: "(\<And>x. rt_keeps I (f x)) \<Longrightarrow> rt_keeps I (let x = e in f x)"
  by (simp add: Let_def)

lemmas rt_keeps_control = rt_keeps_bind rt_keeps_return rt_keeps_lift rt_keeps_parse rt_keeps_read rt_keeps_now
  rt_keeps_require_spec rt_keeps_if rt_keeps_venue rt_keeps_option rt_keeps_pair rt_keeps_pair_app
  rt_keeps_let rt_keeps_for

lemma pending_fetch_order: "rt_keeps (pending_is ps) (fetch_order_payload ctx request spec)"
  unfolding fetch_order_payload_def
  by (intro rt_keeps_control pending_blind.keeps_transport)

lemma pending_get_order: "rt_keeps (pending_is ps) (get_order ctx request)"
  unfolding get_order_def
  by (intro rt_keeps_control pending_fetch_order pending_private_event pending_write)

lemma pending_order_history: "rt_keeps (pending_is ps) (refresh_recent_order_history ctx iid cs)"
  unfolding refresh_recent_order_history_def
  by (intro rt_keeps_control pending_blind.keeps_transport)

lemma pending_execution_history: "rt_keeps (pending_is ps) (refresh_recent_execution_history ctx iid cs)"
  unfolding refresh_recent_execution_history_def
  by (intro rt_keeps_control pending_blind.keeps_transport)

lemma pending_account_context: "rt_keeps (pending_is ps) (refresh_bybit_account_context ctx)"
proof -
  have "rt_keeps (pending_is ps) (rt_modify (\<lambda>s. s\<lparr>lr_bybit_account_context := x\<rparr>))" for x
    by (simp add: rt_keeps_def rt_modify_def)
  then show ?thesis
    unfolding refresh_bybit_account_context_def
    by (intro rt_keeps_control pending_blind.keeps_transport)
qed

lemma pending_refreshes:
  "rt_keeps (pending_is ps) (refresh_account ctx)"
  "rt_keeps (pending_is ps) (refresh_positions ctx)"
  "rt_keeps (pending_is ps) (refresh_open_orders ctx request)"
  "rt_keeps (pending_is ps) (refresh_execution_repair_evidence ctx)"
  unfolding refresh_account_def fetch_balance_def refresh_positions_def refresh_open_orders_def
    fetch_open_orders_payload_def requested_symbol_def refresh_execution_repair_evidence_def
  by (intro rt_keeps_control pending_blind.keeps_transport pending_write pending_account_context
      pending_execution_history)+

lemma unresolved_subset:
  "set (unresolved_pending_after_orders cs orders) \<subseteq> set cs"
  "set (unresolved_pending_after_executions cs executions) \<subseteq> set cs"
  "set (resolve_pending_from_local_state cs s) \<subseteq> set cs"
  by (auto simp: unresolved_pending_after_orders_def unresolved_pending_after_executions_def
      resolve_pending_from_local_state_def unresolved_pending_after_state_def)

lemma pending_by_instrument_snoc:
  "pending_by_instrument (cs @ [c]) =
    bt_insert (pu_instrument_id c)
      (entry_or_default (pending_by_instrument cs) (pu_instrument_id c) @ [c]) (pending_by_instrument cs)"
  by (simp add: pending_by_instrument_def)

lemma pending_by_instrument_get:
  "bt_wf (pending_by_instrument cs) \<and>
   bt_get (pending_by_instrument cs) iid =
     (if \<exists>c\<in>set cs. pu_instrument_id c = iid then Some (filter (\<lambda>c. pu_instrument_id c = iid) cs) else None)"
proof (induction cs rule: rev_induct)
  case Nil
  show ?case by (simp add: pending_by_instrument_def)
next
  case (snoc c cs)
  then show ?case
    by (auto simp: pending_by_instrument_snoc entry_or_default_def filter_empty_conv)
qed

lemma pending_group_subset:
  assumes "(iid, commands) \<in> set (pending_by_instrument cs)"
  shows "set commands \<subseteq> set cs"
proof -
  have wf: "bt_wf (pending_by_instrument cs)" using pending_by_instrument_get by blast
  then have "distinct (map fst (pending_by_instrument cs))"
    using bt.distinct_keys [OF wf] by (simp add: bt_keys_def)
  with assms have "bt_get (pending_by_instrument cs) iid = Some commands"
    by (simp add: bt_get_def)
  then show ?thesis using pending_by_instrument_get [of cs iid] by (auto split: if_splits)
qed

lemma lookup_pending_triple:
  assumes "c \<in> set cs"
  shows "rt_triple (\<lambda>s. pending_is ps s \<and> set acc \<subseteq> set cs) (lookup_pending ctx c acc)
    (\<lambda>acc' s. pending_is ps s \<and> set acc' \<subseteq> set cs) (pending_is ps)"
  unfolding rt_triple_def
proof (intro allI impI, elim conjE)
  fix s :: "'a LiveRuntimeState"
  assume s: "pending_is ps s" and acc: "set acc \<subseteq> set cs"
  let ?r = "\<lparr>go_request_id = None, go_instrument_id = pu_instrument_id c,
       go_order_id = pu_order_id c, go_client_order_id = pu_client_order_id c\<rparr>"
  have "pending_is ps (snd (get_order ctx ?r s))"
    using rt_keepsD [OF pending_get_order s] .
  with s acc assms show "case lookup_pending ctx c acc s of
      (Inr x, s') \<Rightarrow> pending_is ps s' \<and> set x \<subseteq> set cs | (Inl f, s') \<Rightarrow> pending_is ps s'"
    by (auto simp: lookup_pending_def split: prod.splits sum.splits Failure.splits)
qed

lemma history_triple:
  assumes keeps: "\<And>iid cs. rt_keeps (pending_is ps) (fetch iid cs)"
    and sub: "\<And>cs xs. set (remaining cs xs) \<subseteq> set cs"
  shows "rt_triple (pending_is ps)
    (rt_for (pending_by_instrument cs) (\<lambda>(iid, commands) unresolved.
        rt_bind (fetch iid commands) (\<lambda>xs.
        rt_bind (rt_write (g xs)) (\<lambda>_.
          rt_return (unresolved @ remaining commands xs)))) [])
    (\<lambda>us s. pending_is ps s \<and> set us \<subseteq> set cs) (pending_is ps)"
proof -
  let ?Inv = "\<lambda>us s. pending_is ps s \<and> set us \<subseteq> set cs"
  have step: "rt_triple (?Inv acc) (rt_bind (fetch iid commands) (\<lambda>xs.
        rt_bind (rt_write (g xs)) (\<lambda>_. rt_return (acc @ remaining commands xs)))) ?Inv (pending_is ps)"
    if "set commands \<subseteq> set cs" for iid commands acc
  proof (rule triple_bind [where Q = "\<lambda>_. ?Inv acc"])
    show "rt_triple (?Inv acc) (fetch iid commands) (\<lambda>_. ?Inv acc) (pending_is ps)"
      using keeps [of iid commands] by (fastforce simp: rt_triple_def rt_keeps_def split: prod.split sum.split)
    show "rt_triple (?Inv acc) (rt_bind (rt_write (g xs)) (\<lambda>_. rt_return (acc @ remaining commands xs))) ?Inv (pending_is ps)" for xs
      using that sub [of commands xs] by (auto simp: rt_triple_def rt_bind_def rt_write_def rt_return_def)
  qed
  have "rt_triple (?Inv []) (rt_for (pending_by_instrument cs) (\<lambda>(iid, commands) unresolved.
        rt_bind (fetch iid commands) (\<lambda>xs.
        rt_bind (rt_write (g xs)) (\<lambda>_.
          rt_return (unresolved @ remaining commands xs)))) []) ?Inv (pending_is ps)"
    by (rule triple_for) (auto intro!: step dest: pending_group_subset)
  then show ?thesis by (rule triple_conseq) auto
qed

lemma order_history_triple:
  "rt_triple (pending_is ps) (resolve_pending_from_recent_order_history ctx cs)
    (\<lambda>us s. pending_is ps s \<and> set us \<subseteq> set cs) (pending_is ps)"
  unfolding resolve_pending_from_recent_order_history_def
  by (intro triple_if triple_return history_triple [where remaining = unresolved_pending_after_orders]
      pending_order_history unresolved_subset) simp_all

lemma execution_history_triple:
  "rt_triple (pending_is ps) (resolve_pending_from_recent_execution_history ctx cs)
    (\<lambda>us s. pending_is ps s \<and> set us \<subseteq> set cs) (pending_is ps)"
  unfolding resolve_pending_from_recent_execution_history_def
  by (intro triple_if triple_return history_triple [where remaining = unresolved_pending_after_executions]
      pending_execution_history unresolved_subset) simp_all

text \<open>The outcome of resolving: what is left pending, and what the count says about it.\<close>

definition resolution :: "PendingUnknownCommand list \<Rightarrow> usize \<Rightarrow> 'd LiveRuntimeState \<Rightarrow> bool" where
  "resolution ps n s \<longleftrightarrow>
     set (lr_pending s) \<subseteq> set ps \<and>
     (if n = 0 then lr_pending s = [] \<or> lr_pending s = ps else length (lr_pending s) = n)"

lemma resolve_pending_triple:
  "rt_triple (pending_is ps) (resolve_pending_unknown_commands ctx) (resolution ps) (pending_is ps)"
proof -
  let ?J = "\<lambda>us s. pending_is ps s \<and> set us \<subseteq> set ps"
  have finish: "rt_triple (?J us) (rt_bind (rt_modify (replace_pending_unknown_commands us))
      (\<lambda>_. rt_return (length us))) (resolution ps) (pending_is ps)" for us
    by (auto simp: rt_triple_def rt_bind_def rt_modify_def rt_return_def resolution_def
        replace_pending_unknown_commands_def)
  have cleared: "rt_triple (?J us) (rt_bind (rt_modify (replace_pending_unknown_commands []))
      (\<lambda>_. rt_return 0)) (resolution ps) (pending_is ps)" for us
    by (auto simp: rt_triple_def rt_bind_def rt_modify_def rt_return_def resolution_def
        replace_pending_unknown_commands_def)
  have orders: "rt_triple (?J us) (resolve_pending_from_recent_order_history ctx us) ?J (pending_is ps)" for us
    by (rule triple_pure, rule triple_conseq [OF order_history_triple]) auto
  have executions: "rt_triple (?J us) (resolve_pending_from_recent_execution_history ctx us) ?J (pending_is ps)" for us
    by (rule triple_pure, rule triple_conseq [OF execution_history_triple]) auto
  have lookups: "rt_triple (?J []) (rt_for pending (lookup_pending ctx) []) ?J (pending_is ps)"
    if "set pending \<subseteq> set ps" for pending
    by (rule triple_for) (use that in \<open>auto intro!: lookup_pending_triple\<close>)
  have local': "rt_triple (?J us) (rt_read (resolve_pending_from_local_state us)) ?J (pending_is ps)" for us
    by (rule triple_read) (use unresolved_subset(3) in blast)
  have repair: "rt_triple (?J pending)
      (rt_bind (rt_for pending (lookup_pending ctx) []) (\<lambda>unresolved0.
       rt_bind (rt_read (resolve_pending_from_local_state unresolved0)) (\<lambda>unresolved1.
       if unresolved1 = [] then
         rt_bind (rt_modify (replace_pending_unknown_commands [])) (\<lambda>_. rt_return 0)
       else
         rt_bind (resolve_pending_from_recent_order_history ctx unresolved1) (\<lambda>unresolved2.
         if unresolved2 = [] then
           rt_bind (rt_modify (replace_pending_unknown_commands [])) (\<lambda>_. rt_return 0)
         else
           rt_bind (resolve_pending_from_recent_execution_history ctx unresolved2) (\<lambda>unresolved3.
           rt_bind (rt_modify (replace_pending_unknown_commands unresolved3)) (\<lambda>_.
             rt_return (length unresolved3)))))))
      (resolution ps) (pending_is ps)" for pending
  proof (rule triple_bind [where Q = ?J], rule triple_pure)
    show "rt_triple (pending_is ps) (rt_for pending (lookup_pending ctx) []) ?J (pending_is ps)"
      if "set pending \<subseteq> set ps"
      by (rule triple_conseq [OF lookups [OF that]]) simp_all
  qed (rule triple_bind [OF local'] triple_if cleared triple_bind [OF orders]
      triple_bind [OF executions] finish)+
  show ?thesis
    unfolding resolve_pending_unknown_commands_def
  proof (rule triple_bind [where Q = ?J])
    show "rt_triple (pending_is ps) (rt_read (\<lambda>s. resolve_pending_from_local_state (lr_pending s) s)) ?J (pending_is ps)"
      by (rule triple_read) (use unresolved_subset(3) in blast)
  qed (rule triple_if, (auto simp: rt_triple_def rt_return_def resolution_def)[1], rule repair)
qed

section \<open>The engine invariant\<close>

text \<open>State updates that keep the engine well formed, and the actions built from them.\<close>

definition engine_safe :: "('d EngineState \<Rightarrow> 'd EngineState) \<Rightarrow> bool" where
  "engine_safe f \<longleftrightarrow> (\<forall>s. engine_wf s \<and> specs_ok s \<longrightarrow> engine_wf (f s) \<and> specs_ok (f s))"

lemma engine_safe_step: "shared_admissible (WriteState i) \<Longrightarrow> engine_safe (\<lambda>s. engine_step D s i)"
  by (simp add: engine_safe_def engine_step_wf engine_step_specs_ok)

lemma engine_safe_ops:
  "engine_safe (replace_account_snapshot a)" "engine_safe (replace_positions ps)"
  "engine_safe (replace_open_orders rs)" "engine_safe (merge_order_history rs)"
  "engine_safe (merge_executions es)" "engine_safe (apply_reconcile_report report)"
  "engine_safe (engine_mark_rest_success skew)" "engine_safe (engine_mark_snapshot_age age limit)"
  "engine_safe (engine_apply_command_receipt r)" "engine_safe engine_mark_private_disconnect"
  "engine_safe engine_mark_reconnect" "engine_safe (\<lambda>s. s)"
  using engine_safe_step [of "AccountIn a"] engine_safe_step [of "PositionsIn ps"]
    engine_safe_step [of "OpenOrdersIn rs"] engine_safe_step [of "OrderHistoryIn rs"]
    engine_safe_step [of "ExecutionsIn es"] engine_safe_step [of "ReportIn report"]
    engine_safe_step [of "RestIn skew"] engine_safe_step [of "SnapshotAgeIn age limit"]
    engine_safe_step [of "ReceiptIn r"] engine_safe_step [of PrivateDownIn] engine_safe_step [of ReconnectIn]
  by (simp_all add: engine_safe_def)

lemma engine_safe_instruments: "list_all scales_ok specs \<Longrightarrow> engine_safe (replace_instruments specs)"
  using engine_safe_step [of "InstrumentsIn specs"] by simp

text \<open>
  A class of state updates that holds the updates the private paths of the runtime make and is
  closed under composition.
\<close>

locale update_class =
  fixes safe :: "('d EngineState \<Rightarrow> 'd EngineState) \<Rightarrow> bool"
  assumes safe_ops: "safe (replace_account_snapshot a)" "safe (replace_positions ps)"
    "safe (replace_open_orders rs)" "safe (merge_order_history rs)"
    "safe (merge_executions es)" "safe (apply_reconcile_report report)"
    "safe (engine_mark_rest_success skew)" "safe (engine_mark_snapshot_age age limit)"
    "safe (engine_apply_command_receipt r)" "safe engine_mark_private_disconnect"
    "safe engine_mark_reconnect" "safe (\<lambda>s. s)"
    and safe_comp: "safe f \<Longrightarrow> safe g \<Longrightarrow> safe (\<lambda>s. f (g s))"
begin

lemma safe_when: "safe f \<Longrightarrow> safe (\<lambda>s. if c then f s else s)"
  using safe_ops(12) by (cases c) simp_all

lemma safe_rest: "safe mark_rest_ok"
  unfolding mark_rest_ok_def by (rule safe_ops)

lemma safe_mark: "safe g \<Longrightarrow> safe (\<lambda>s. mark_rest_ok (g s))"
  by (rule safe_comp [OF safe_rest])

lemmas safe_rules = safe_mark safe_rest safe_when safe_ops

end

definition market_neutral :: "('d EngineState \<Rightarrow> 'd EngineState) \<Rightarrow> bool" where
  "market_neutral f \<longleftrightarrow> (\<forall>s. market_view (f s) = market_view s)"

lemma market_view_executions: "market_view (foldl (\<lambda>st e. push_execution e st) s es) = market_view s"
  by (induction es arbitrary: s) (simp_all add: push_execution_def market_view_def)

lemmas execution_fields = market_view_executions [unfolded market_view_def prod.inject]

interpretation engine_updates: update_class engine_safe
  by unfold_locales (simp_all add: engine_safe_ops, simp add: engine_safe_def)

interpretation market_updates: update_class market_neutral
  by unfold_locales
    (simp_all add: market_neutral_def replace_account_snapshot_def replace_positions_def replace_open_orders_def
      merge_order_history_def merge_executions_def apply_reconcile_report_def engine_mark_rest_success_def
      engine_mark_snapshot_age_def engine_apply_command_receipt_def engine_mark_private_disconnect_def
      engine_mark_reconnect_def touch_private_def execution_fields
      market_view_def Let_def split: option.split CommandStatus.split)

interpretation any_update: update_class "\<lambda>_. True"
  by unfold_locales simp_all

abbreviation runtime_inv :: "'d Decimal_ops \<Rightarrow> HealthReport \<Rightarrow> 'd LiveRuntimeState \<Rightarrow> bool" where
  "runtime_inv D h0 s \<equiv> shared_inv D h0 (lr_shared s)"

text \<open>
  A predicate that well-formed engine updates, private events and changes of the runtime's own
  notes keep is kept by every refresh and by the whole reconciliation.
\<close>

locale state_keeper = network_blind I + update_class safe
  for I :: "'d LiveRuntimeState \<Rightarrow> bool" and safe :: "('d EngineState \<Rightarrow> 'd EngineState) \<Rightarrow> bool" +
  assumes keeps_write: "safe f \<Longrightarrow> rt_keeps I (rt_write f)"
    and keeps_private_event: "rt_keeps I (rt_private_event e)"
    and notes_blind: "I (s\<lparr>lr_bybit_account_context := c, lr_pending := ps\<rparr>) = I s"
begin

lemma keeps_notes:
  "rt_keeps I (rt_modify (\<lambda>s. s\<lparr>lr_bybit_account_context := c\<rparr>))" "rt_keeps I (rt_modify (\<lambda>s. s\<lparr>lr_pending := ps\<rparr>))"
proof -
  have "s\<lparr>lr_bybit_account_context := c\<rparr> = s\<lparr>lr_bybit_account_context := c, lr_pending := lr_pending s\<rparr>"
    "s\<lparr>lr_pending := ps\<rparr> = s\<lparr>lr_bybit_account_context := lr_bybit_account_context s, lr_pending := ps\<rparr>" for s :: "'d LiveRuntimeState"
    by simp_all
  then show "rt_keeps I (rt_modify (\<lambda>s. s\<lparr>lr_bybit_account_context := c\<rparr>))"
      "rt_keeps I (rt_modify (\<lambda>s. s\<lparr>lr_pending := ps\<rparr>))"
    unfolding rt_keeps_def rt_modify_def by (metis notes_blind snd_conv)+
qed

lemma keeps_replace_pending: "rt_keeps I (rt_modify (replace_pending_unknown_commands ps))"
  using keeps_notes(2) [of ps] by (simp add: replace_pending_unknown_commands_def [abs_def])

lemmas keeper_rules = rt_keeps_control keeps_transport keeps_write keeps_private_event
  safe_rules

lemma keeps_account_context: "rt_keeps I (refresh_bybit_account_context ctx)"
  unfolding refresh_bybit_account_context_def by (intro keeper_rules keeps_notes)

lemma keeps_refreshes:
  "rt_keeps I (refresh_positions ctx)"
  "rt_keeps I (fetch_open_orders_payload ctx request)"
  "rt_keeps I (refresh_open_orders ctx request)"
  "rt_keeps I (get_order ctx go)"
  "rt_keeps I (refresh_recent_order_history ctx iid cs)"
  "rt_keeps I (refresh_recent_execution_history ctx iid cs)"
  unfolding refresh_positions_def refresh_open_orders_def fetch_open_orders_payload_def
    requested_symbol_def get_order_def fetch_order_payload_def refresh_recent_order_history_def
    refresh_recent_execution_history_def
  by (intro keeper_rules safe_comp [OF safe_ops(2) safe_ops(1)])+

lemma keeps_account: "rt_keeps I (refresh_account ctx)"
  unfolding refresh_account_def fetch_balance_def
  by (intro keeper_rules keeps_account_context safe_comp [OF safe_ops(2) safe_ops(1)])

lemma keeps_histories:
  "rt_keeps I (resolve_pending_from_recent_order_history ctx cs)"
  "rt_keeps I (resolve_pending_from_recent_execution_history ctx cs)"
  "rt_keeps I (refresh_execution_repair_evidence ctx)"
  unfolding resolve_pending_from_recent_order_history_def refresh_execution_repair_evidence_def
    resolve_pending_from_recent_execution_history_def
  by (intro keeper_rules keeps_refreshes)+

lemma keeps_lookup: "rt_keeps I (lookup_pending ctx c acc)"
  using keeps_refreshes(4) [of ctx]
  by (auto simp: rt_keeps_def lookup_pending_def split: prod.splits sum.splits Failure.splits)
    (metis snd_conv)+

lemma keeps_steps: "rt_keeps I (reconcile_steps ctx trigger mode)"
proof -
  have "rt_keeps I (resolve_pending_unknown_commands ctx)"
    unfolding resolve_pending_unknown_commands_def
    by (intro keeper_rules keeps_lookup keeps_histories keeps_replace_pending)
  then show ?thesis
    unfolding reconcile_steps_def
    by (cases mode) (simp_all, (intro keeper_rules keeps_account keeps_refreshes keeps_histories)+)
qed

lemma keeps_reconcile: "rt_keeps I (reconcile_private ctx trigger)"
proof -
  have w: "I (snd (rt_write f s))" if "safe f" "I s" for f s
    using rt_keepsD [OF keeps_write] that by blast
  show ?thesis
    unfolding rt_keeps_def
  proof (intro allI impI)
    fix s :: "'d LiveRuntimeState"
    assume "I s"
    then have "I (snd (reconcile_steps ctx trigger (reconcile_mode trigger s) s))"
      by (rule rt_keepsD [OF keeps_steps])
    moreover obtain r s1 where "reconcile_steps ctx trigger (reconcile_mode trigger s) s = (r, s1)" by fastforce
    ultimately show "I (snd (reconcile_private ctx trigger s))"
      using w [OF safe_ops(6), of s1]
        w [OF safe_comp [OF safe_ops(8) safe_ops(6)], of s1]
      by (cases r rule: result_cases) (simp_all add: reconcile_private_def Let_def)
  qed
qed

end

lemma runtime_write: "engine_safe f \<Longrightarrow> rt_keeps (runtime_inv D h0) (rt_write f)"
proof -
  assume "engine_safe f"
  then have "shared_inv D h0 sh \<Longrightarrow> shared_inv D h0 (shared_update f sh)" for sh
    by (intro shared_update_inv) (simp_all add: engine_safe_def shared_inv_def)
  then show ?thesis by (simp add: rt_keeps_def rt_write_def)
qed

lemma runtime_private_event: "rt_keeps (runtime_inv D h0) (rt_private_event e)"
  using shared.guarded_step [where e = "PrivateOne e"]
  by (fastforce simp: rt_keeps_def rt_private_event_def)

interpretation runtime_keeper: state_keeper "runtime_inv D h0" engine_safe for D h0
  by unfold_locales (simp_all add: runtime_write runtime_private_event)

text \<open>The command channel is not touched by any refresh.\<close>

abbreviation commands_are :: "CommandLaneEvent list \<Rightarrow> 'd LiveRuntimeState \<Rightarrow> bool" where
  "commands_are es s \<equiv> sh_command_events (lr_shared s) = es"

interpretation commands_keeper: state_keeper "commands_are es" "\<lambda>_. True" for es
  by unfold_locales (simp_all add: rt_keeps_def rt_write_def rt_private_event_def shared_update_def
      shared_apply_private_event_def)

lemma runtime_modify:
  "(\<And>s. lr_shared (f s) = lr_shared s) \<Longrightarrow> rt_keeps (runtime_inv D h0) (rt_modify f)"
  by (simp add: rt_keeps_def rt_modify_def)

section \<open>Outcome of a reconciliation\<close>

lemma steps_triple:
  "rt_triple (pending_is ps) (reconcile_steps ctx trigger mode)
    (\<lambda>n s. case mode of SnapshotOnly \<Rightarrow> pending_is ps s \<and> n = 0 | RecentHistoryRepair \<Rightarrow> resolution ps n s)
    (pending_is ps)"
proof -
  note keep = triple_keeps [OF pending_refreshes(1)] triple_keeps [OF pending_refreshes(2)]
    triple_keeps [OF pending_refreshes(3)]
  have evidence: "rt_triple (pending_is ps)
      (if scope = LocalEvidence then refresh_execution_repair_evidence ctx else rt_return ())
      (\<lambda>_. pending_is ps) (pending_is ps)" for scope
    by (intro triple_if triple_keeps pending_refreshes rt_keeps_return)
  have read: "rt_triple (pending_is ps) (rt_read f) (\<lambda>_. pending_is ps) (pending_is ps)" for f
    by (rule triple_read)
  show ?thesis
    unfolding reconcile_steps_def
  proof (intro triple_bind [OF keep(1)] triple_bind [OF keep(2)] triple_bind [OF keep(3)])
    show "rt_triple (pending_is ps) (case mode of SnapshotOnly \<Rightarrow> rt_return 0
       | RecentHistoryRepair \<Rightarrow>
           rt_bind (rt_read (\<lambda>s. execution_repair_scope trigger (health_snapshot (lr_shared s)))) (\<lambda>scope.
           rt_bind (if scope = LocalEvidence then refresh_execution_repair_evidence ctx else rt_return ()) (\<lambda>_.
             resolve_pending_unknown_commands ctx)))
      (\<lambda>n s. case mode of SnapshotOnly \<Rightarrow> pending_is ps s \<and> n = 0 | RecentHistoryRepair \<Rightarrow> resolution ps n s)
      (pending_is ps)"
      by (cases mode) (auto intro!: triple_return triple_bind [OF read] triple_bind [OF evidence] resolve_pending_triple)
  qed
qed

lemma written_state [simp]:
  "lr_pending (snd (rt_write f s)) = lr_pending s"
  "engine_of (snd (rt_write f s)) = f (engine_of s)"
  by (simp_all add: rt_write_def shared_update_def shared_write_state)

definition reconcile_settled :: "PendingUnknownCommand list \<Rightarrow> ReconcileReport \<Rightarrow> 'd LiveRuntimeState \<Rightarrow> bool" where
  "reconcile_settled ps report s =
     (let h = es_health (engine_of s) in
      case rep_outcome report of
        Synchronized \<Rightarrow>
          (lr_pending s = [] \<or> lr_pending s = ps) \<and> \<not> hr_state_divergence h \<and> hr_snapshot_age_ms h = Some 0 \<and>
          (if hr_ws_public_ok h \<and> (hr_ws_private_ok h \<or> hr_rest_ok h)
           then hr_status h = Healthy \<and> hr_degraded_reason h = None
           else hr_status h \<in> {ReadOnlySafe, HealthStatus.Disconnected})
      | StillUncertain \<Rightarrow>
          lr_pending s \<noteq> [] \<and> set (lr_pending s) \<subseteq> set ps \<and> hr_status h = HealthStatus.ReconcileRequired \<and>
          hr_degraded_reason h = Some DegradedReason.ReconcileRequired
      | Diverged \<Rightarrow> False)"


section \<open>Repair window\<close>

lemma i64_saturating_sub_mono: "a \<le> b \<Longrightarrow> i64_saturating_sub a c \<le> i64_saturating_sub b c"
  by (auto simp: i64_saturating_sub_def i64_clamp_def i64_min_def i64_max_def)

lemma window_start_covers:
  assumes "in_i64 now" and "a \<in> set_option latest_order \<union> set_option latest_execution \<union> set_option oldest"
  shows "\<exists>start. repair_window_start_ms now latest_order latest_execution fallback oldest = Some start \<and>
    start \<le> now \<and> i64_saturating_sub now HISTORY_REPAIR_MAX_LOOKBACK_MS \<le> start \<and>
    start \<le> max (i64_saturating_sub a HISTORY_REPAIR_REWIND_MS)
      (i64_saturating_sub now HISTORY_REPAIR_MAX_LOOKBACK_MS)"
proof -
  let ?anchors = "concat (map (\<lambda>x. case x of None \<Rightarrow> [] | Some v \<Rightarrow> [v])
      [latest_order, latest_execution, oldest])"
  have mem: "a \<in> set ?anchors" using assms(2) by (auto split: option.split)
  then obtain m where m: "iter_min ?anchors = Some m" by (cases ?anchors) auto
  with mem have "m \<le> a" by (auto simp only: iter_min_Some)
  then have "i64_saturating_sub m HISTORY_REPAIR_REWIND_MS \<le> i64_saturating_sub a HISTORY_REPAIR_REWIND_MS"
    by (rule i64_saturating_sub_mono)
  moreover have "i64_saturating_sub now HISTORY_REPAIR_MAX_LOOKBACK_MS \<le> now"
    using assms(1) by (intro i64_saturating_sub_le) (simp_all add: HISTORY_REPAIR_MAX_LOOKBACK_MS_def)
  ultimately show ?thesis
    unfolding repair_window_start_ms_def m Let_def by auto
qed

text \<open>
  C36. A command waiting for resolution always yields a query window for the venue's history:
  it ends now, does not start after its end, reaches back at most seven days, and starts at
  least a minute before the command was recorded unless the seven-day bound forbids that.
\<close>

theorem repair_window_covers_command:
  assumes "command \<in> set pending" and "in_i64 (lc_now ctx (lr_calls s))"
  shows "\<exists>start. repair_time_window ctx iid pending s = Some (start, lc_now ctx (lr_calls s)) \<and>
    start \<le> lc_now ctx (lr_calls s) \<and>
    i64_saturating_sub (lc_now ctx (lr_calls s)) (7 * 24 * 60 * 60 * 1000) \<le> start \<and>
    start \<le> max (i64_saturating_sub (timestamp_value (pu_recorded_at command)) 60000)
      (i64_saturating_sub (lc_now ctx (lr_calls s)) (7 * 24 * 60 * 60 * 1000))"
proof -
  let ?ts = "map (timestamp_value \<circ> pu_recorded_at) pending"
  obtain m where m: "iter_min ?ts = Some m" using assms(1) by (cases pending) auto
  then have "m \<le> timestamp_value (pu_recorded_at command)"
    using assms(1) by (simp only: iter_min_Some) auto
  then have "i64_saturating_sub m 60000 \<le> i64_saturating_sub (timestamp_value (pu_recorded_at command)) 60000"
    by (rule i64_saturating_sub_mono)
  then show ?thesis
    using window_start_covers [OF assms(2), of m "map_option timestamp_value (latest_order_update_at (engine_of s) iid)"
        "map_option timestamp_value (latest_execution_at (engine_of s) iid)" "Some m"
        "map_option timestamp_value (hr_last_private_msg_at (health_snapshot (lr_shared s)))"]
    unfolding repair_time_window_def m Let_def HISTORY_REPAIR_REWIND_MS_def HISTORY_REPAIR_MAX_LOOKBACK_MS_def
    by fastforce
qed

section \<open>Open orders and the pending list\<close>

lemma open_orders_subset:
  assumes "engine_wf s"
  shows "set (engine_open_orders (replace_open_orders rs s)) \<subseteq> set rs"
proof -
  have filed: "bt_filed ord_order_id (es_orders s)" using assms by (simp add: engine_wf_def private_wf_def)
  then have "bt_filed ord_order_id (bt_extend ord_order_id (\<lambda>r. r)
      (bt_retain (\<lambda>_ r. \<not> order_is_open r) (es_orders s)) rs)"
    by simp
  from bt_filed_values [OF this]
  have stored: "r \<in> set (engine_orders (replace_open_orders rs s)) \<Longrightarrow> order_is_open r \<Longrightarrow>
      find (\<lambda>x. ord_order_id x = ord_order_id r) (rev rs) = Some r" for r
    using filed by (auto simp: engine_orders_def replace_open_orders_def bt_get_extend split: option.splits if_splits)
  show ?thesis
    using find_SomeD [OF stored] by (auto simp: engine_open_orders_def engine_orders_def)
qed

text \<open>
  After a successful refresh the open orders are those the venue returned, whatever the
  request was.  With a request for one instrument this drops the open orders of every other
  instrument from the state.
\<close>

theorem refresh_open_orders_replaces_all:
  assumes "runtime_inv D h0 s" and "refresh_open_orders ctx request s = (Ok orders, s')"
  shows "set (engine_open_orders (engine_of s')) \<subseteq> set orders"
proof -
  obtain s1 where s1: "fetch_open_orders_payload ctx request s = (Ok orders, s1)"
      and s': "s' = snd (rt_write (\<lambda>st. mark_rest_ok (replace_open_orders orders st)) s1)"
    using assms(2) by (auto simp: refresh_open_orders_def rt_bind_def rt_return_def split: prod.splits sum.splits)
  from rt_keepsD [OF runtime_keeper.keeps_refreshes(2) assms(1), of ctx request] s1 have "engine_wf (engine_of s1)" by (simp add: shared_inv_def)
  from open_orders_subset [OF this] show ?thesis
    by (simp add: s' mark_rest_ok_def engine_mark_rest_success_def engine_open_orders_def)
qed

text \<open>
  When the local state already explains every pending command, resolving makes no request
  and reports nothing unresolved, but it leaves the pending list as it was.
\<close>

theorem local_resolution_keeps_list:
  assumes "resolve_pending_from_local_state (lr_pending s) s = []"
  shows "resolve_pending_unknown_commands ctx s = (Ok 0, s)"
  using assms by (simp add: resolve_pending_unknown_commands_def rt_bind_def rt_read_def rt_return_def)

text \<open>
  Positions read over REST count as a private message: installing them reports the private
  stream as connected, and a client made read-only by the loss of that stream as healthy.
\<close>

theorem rest_positions_claim_private_stream:
  "let h = es_health (replace_positions (p # ps) (engine_mark_private_disconnect s)) in
   hr_ws_private_ok h \<and> hr_status h = Healthy \<and> hr_degraded_reason h = None"
  by (simp add: replace_positions_def touch_private_def engine_mark_private_disconnect_def
      observe_private_message_def mark_private_disconnect_def Let_def)

section \<open>Concrete instances\<close>

definition sample_pending :: PendingUnknownCommand where
  "sample_pending =
     \<lparr>pu_operation = CreateOrder, pu_instrument_id = StringId ''BTC/USDT:USDT'',
      pu_order_id = Some (StringId ''a''), pu_client_order_id = None, pu_recorded_at = TimestampMs 100000\<rparr>"

theorem repair_window_covers_command_witness:
  "\<exists>start. repair_time_window ((sample_context Mexc)\<lparr>lc_now := (\<lambda>_. 200000)\<rparr>) (StringId ''BTC/USDT:USDT'')
      [sample_pending] (sample_runtime sample_engine [sample_pending]) = Some (start, 200000) \<and> start \<le> 40000"
  using repair_window_covers_command [of sample_pending "[sample_pending]"
      "(sample_context Mexc)\<lparr>lc_now := (\<lambda>_. 200000)\<rparr>" "sample_runtime sample_engine [sample_pending]"
      "StringId ''BTC/USDT:USDT''"]
  by (auto simp: in_i64_def i64_saturating_sub_def i64_clamp_def i64_min_def i64_max_def sample_pending_def)

lemma sample_runtime_inv:
  assumes "engine_wf engine" and "specs_ok engine" and "decimal_laws D"
  shows "runtime_inv D (es_health engine) (sample_runtime engine pending)"
  using assms by (simp add: sample_runtime_def shared_inv_def shared_new_def health_tracked_def)

text \<open>An engine that knows an open order of another instrument than the one asked for.\<close>

definition other_order :: "(int \<times> u32) Order" where
  "other_order = (sample_order ''e'' New)\<lparr>ord_instrument_id := StringId ''ETH/USDT:USDT''\<rparr>"

definition other_engine :: "(int \<times> u32) EngineState" where
  "other_engine = apply_private_event (Order other_order) sample_engine"

lemma other_engine_ok: "engine_wf other_engine" "specs_ok other_engine"
  unfolding other_engine_def
  using private_fold [OF sample_engine_wf sample_engine_specs_ok, of "[Order other_order]"] by simp_all

lemma sample_context_simps:
  "cfg_venue (lc_config (sample_context v)) = v"
  "pa_open_orders (lc_parsers (sample_context v) c) payload t = Ok []"
  by (simp_all add: sample_context_def sample_parsers_def config_new_def)

lemma sample_mexc_get: "\<exists>s1. mexc_signed_get_text (sample_context Mexc) path [] operation s = (Ok [], s1)"
  by (simp add: mexc_signed_get_text_def require_credentials_def sample_context_def sign_payload_def
      send_call_def response_text_def rt_defs Let_def)

lemma catalog_get_sample:
  "\<exists>spec. catalog_get (catalog_new (instrument_specs other_engine)) (StringId ''BTC/USDT:USDT'') = Some spec"
  by (simp add: other_engine_def sample_engine_def engine_new_def instrument_specs_def bt_values_def
      bt_collect_def bt_extend_def sample_spec_def catalog_get_def catalog_new_def catalog_add_def bt_get_def)

theorem refresh_open_orders_replaces_all_witness:
  "\<exists>s'. engine_open_orders (engine_of (sample_runtime other_engine [])) = [other_order] \<and>
    refresh_open_orders (sample_context Mexc)
      (Some \<lparr>lo_instrument_id = Some (StringId ''BTC/USDT:USDT'')\<rparr>)
      (sample_runtime other_engine []) = (Ok [], s') \<and>
    set (engine_open_orders (engine_of s')) = {}"
proof -
  let ?s = "sample_runtime other_engine []"
  let ?request = "Some \<lparr>lo_instrument_id = Some (StringId ''BTC/USDT:USDT'')\<rparr>"
  have known: "engine_open_orders (engine_of ?s) = [other_order]"
    by (simp add: sample_runtime_def shared_new_def other_engine_def other_order_def sample_engine_def
        engine_new_def engine_open_orders_def bt_values_def order_is_open_def sample_order_def)
  obtain spec where spec: "require_spec (sample_context Mexc) (StringId ''BTC/USDT:USDT'') ?s = (Ok spec, ?s)"
    using catalog_get_sample by (auto simp: require_spec_def sample_runtime_def ok_or_def)
  obtain s1 where get: "mexc_signed_get_text (sample_context Mexc)
      (''/api/v1/private/order/list/open_orders/'' @ is_native_symbol spec) [] ''mexc.open_orders'' ?s = (Ok [], s1)"
    using sample_mexc_get by blast
  have "requested_symbol (sample_context Mexc) (Some (StringId ''BTC/USDT:USDT'')) ?s =
      (Ok (Some (is_native_symbol spec)), ?s)"
    by (simp add: requested_symbol_def rt_bind_def spec rt_return_def)
  then have "fetch_open_orders_payload (sample_context Mexc) ?request ?s = (Ok [], s1)"
    using get by (simp add: fetch_open_orders_payload_def rt_bind_def Let_def rt_now_def rt_lift_def rt_parse_def
        sample_context_simps)
  then have "fst (refresh_open_orders (sample_context Mexc) ?request ?s) = Ok []"
    by (simp add: refresh_open_orders_def rt_bind_def rt_write_def rt_return_def)
  then obtain s' where s': "refresh_open_orders (sample_context Mexc) ?request ?s = (Ok [], s')"
    by (metis prod.collapse)
  moreover have "set (engine_open_orders (engine_of s')) \<subseteq> set []"
    by (rule refresh_open_orders_replaces_all
        [OF sample_runtime_inv [OF other_engine_ok decimal_laws_pair] s'])
  ultimately show ?thesis using known by auto
qed

theorem local_resolution_keeps_list_witness:
  "let s = sample_runtime (apply_private_event (Order (sample_order ''a'' New)) sample_engine) [sample_pending] in
   resolve_pending_unknown_commands (sample_context Mexc) s = (Ok 0, s) \<and> lr_pending s = [sample_pending]"
proof -
  let ?s = "sample_runtime (apply_private_event (Order (sample_order ''a'' New)) sample_engine) [sample_pending]"
  have "resolve_pending_from_local_state (lr_pending ?s) ?s = []"
    by (simp add: resolve_pending_from_local_state_def unresolved_pending_after_state_def
        unresolved_pending_after_orders_def unresolved_pending_after_executions_def sample_runtime_def
        shared_new_def sample_engine_def engine_new_def engine_orders_def bt_values_def
        order_matches_pending_def sample_pending_def sample_order_def)
  from local_resolution_keeps_list [OF this] show ?thesis
    by (simp add: Let_def sample_runtime_def)
qed

section \<open>A command that MEXC cannot look up\<close>

text \<open>
  On MEXC a pending command without an order identifier blocks every repair: unless the
  local state explains it, the lookup fails with \<^verbatim>\<open>ConfigError\<close>, which does not count as a
  missing order, so resolving ends before the order and execution history is consulted.
\<close>

theorem mexc_lookup_blocks_repair:
  assumes "cfg_venue (lc_config ctx) = Mexc" and "pu_order_id c = None" and "pu_client_order_id c = Some cid"
    and "catalog_get (lr_catalog s) (pu_instrument_id c) = Some spec"
    and "resolve_pending_from_local_state (lr_pending s) s = c # rest"
  shows "\<exists>e. me_kind e = ConfigError \<and> resolve_pending_unknown_commands ctx s = (Err e, s)"
proof -
  let ?request = "\<lparr>go_request_id = None, go_instrument_id = pu_instrument_id c,
      go_order_id = None, go_client_order_id = Some cid\<rparr>"
  have "\<exists>e. me_kind e = ConfigError \<and> get_order ctx ?request s = (Err e, s)"
    using assms(1,4) by (simp add: get_order_def fetch_order_payload_def require_spec_def rt_bind_def rt_lift_def with_context_def)
  then obtain e where e: "me_kind e = ConfigError" "get_order ctx ?request s = (Err e, s)" by blast
  then have "lookup_pending ctx c [] s = (Err e, s)"
    using assms(2,3) by (simp add: lookup_pending_def is_missing_order_error_def)
  then have "resolve_pending_unknown_commands ctx s = (Err e, s)"
    using assms(5) by (simp add: resolve_pending_unknown_commands_def rt_bind_def rt_read_def)
  with e(1) show ?thesis by blast
qed

theorem mexc_lookup_blocks_repair_witness:
  "\<exists>e. me_kind e = ConfigError \<and>
    resolve_pending_unknown_commands (sample_context Mexc)
      (sample_runtime other_engine [sample_pending\<lparr>pu_order_id := None, pu_client_order_id := Some (StringId ''c'')\<rparr>]) =
    (Err e, sample_runtime other_engine [sample_pending\<lparr>pu_order_id := None, pu_client_order_id := Some (StringId ''c'')\<rparr>])"
proof -
  let ?c = "sample_pending\<lparr>pu_order_id := None, pu_client_order_id := Some (StringId ''c'')\<rparr>"
  let ?s = "sample_runtime other_engine [?c]"
  obtain spec where "catalog_get (lr_catalog ?s) (pu_instrument_id ?c) = Some spec"
    using catalog_get_sample by (auto simp: sample_runtime_def sample_pending_def)
  moreover have "resolve_pending_from_local_state (lr_pending ?s) ?s = [?c]"
    by (simp add: resolve_pending_from_local_state_def unresolved_pending_after_state_def
        unresolved_pending_after_orders_def unresolved_pending_after_executions_def sample_runtime_def
        shared_new_def other_engine_def other_order_def sample_engine_def engine_new_def engine_orders_def
        engine_executions_def bt_values_def order_matches_pending_def sample_pending_def sample_order_def)
  ultimately show ?thesis
    using mexc_lookup_blocks_repair [of "sample_context Mexc" ?c "StringId ''c''" ?s spec "[]"]
    by (simp add: sample_context_simps)
qed

end
