(* ===== verification/Commands.thy ===== *)
theory Commands
  imports Reconcile_Laws
begin

text \<open>
  Order commands in \<^verbatim>\<open>bat-markets/src/runtime.rs\<close>: validation, the venue requests, submission
  over the websocket with the REST fallback, receipts and what becomes of unknown outcomes.

  The leaky-bucket limiter before a submission only delays it and is not part of the model.
\<close>

section \<open>Venue spellings\<close>

fun binance_trigger_type :: "TriggerType \<Rightarrow> string" where
  "binance_trigger_type LastPrice = ''CONTRACT_PRICE''"
| "binance_trigger_type TriggerType.MarkPrice = ''MARK_PRICE''"
| "binance_trigger_type IndexPrice = ''MARK_PRICE''"

fun binance_side :: "Side \<Rightarrow> string" where
  "binance_side Buy = ''BUY''"
| "binance_side Sell = ''SELL''"

fun bybit_side :: "Side \<Rightarrow> string" where
  "bybit_side Buy = ''Buy''"
| "bybit_side Sell = ''Sell''"

fun binance_order_type :: "OrderType \<Rightarrow> string" where
  "binance_order_type Market = ''MARKET''"
| "binance_order_type Limit = ''LIMIT''"
| "binance_order_type StopMarket = ''STOP_MARKET''"
| "binance_order_type StopLimit = ''STOP''"
| "binance_order_type TakeProfitMarket = ''TAKE_PROFIT_MARKET''"
| "binance_order_type TakeProfitLimit = ''TAKE_PROFIT''"

fun bybit_order_type :: "OrderType \<Rightarrow> string" where
  "bybit_order_type Market = ''Market''"
| "bybit_order_type Limit = ''Limit''"
| "bybit_order_type StopMarket = ''StopMarket''"
| "bybit_order_type StopLimit = ''Stop''"
| "bybit_order_type TakeProfitMarket = ''TakeProfitMarket''"
| "bybit_order_type TakeProfitLimit = ''TakeProfit''"

fun bybit_trigger_type :: "TriggerType \<Rightarrow> string" where
  "bybit_trigger_type LastPrice = ''LastPrice''"
| "bybit_trigger_type TriggerType.MarkPrice = ''MarkPrice''"
| "bybit_trigger_type IndexPrice = ''IndexPrice''"

definition binance_time_in_force :: "TimeInForce \<Rightarrow> bool \<Rightarrow> string" where
  "binance_time_in_force tif post_only =
     (if post_only then ''GTX''
      else case tif of Gtc \<Rightarrow> ''GTC'' | Ioc \<Rightarrow> ''IOC'' | Fok \<Rightarrow> ''FOK'' | PostOnly \<Rightarrow> ''GTX'')"

definition bybit_time_in_force :: "TimeInForce \<Rightarrow> bool \<Rightarrow> string" where
  "bybit_time_in_force tif post_only =
     (if post_only then ''PostOnly''
      else case tif of Gtc \<Rightarrow> ''GTC'' | Ioc \<Rightarrow> ''IOC'' | Fok \<Rightarrow> ''FOK'' | PostOnly \<Rightarrow> ''PostOnly'')"

definition format_price :: "'d Decimal_ops \<Rightarrow> 'd Price \<Rightarrow> string" where
  "format_price D p = dec_to_string D (dec_normalize D (decimal p))"

definition format_quantity :: "'d Decimal_ops \<Rightarrow> 'd Quantity \<Rightarrow> string" where
  "format_quantity D q = dec_to_string D (dec_normalize D (decimal q))"

section \<open>Validation\<close>

definition conditional_type :: "OrderType \<Rightarrow> bool" where
  "conditional_type t \<longleftrightarrow> t \<in> {StopMarket, StopLimit, TakeProfitMarket, TakeProfitLimit}"

definition config_error :: "string \<Rightarrow> 'a result" where
  "config_error message = Err (market_error ConfigError message)"

definition validate_prices :: "'d CreateOrderRequest \<Rightarrow> unit result" where
  "validate_prices request =
     (case cr_order_type request of
        Market \<Rightarrow>
          (if cr_price request \<noteq> None then config_error ''market orders must not include a limit price'' else Ok ())
      | Limit \<Rightarrow>
          (if cr_price request = None then config_error ''limit orders require price'' else Ok ())
      | StopMarket \<Rightarrow>
          (if cr_trigger_price request = None then config_error ''stop_market orders require trigger_price''
           else if cr_price request \<noteq> None then config_error ''stop_market orders must not include a limit price''
           else Ok ())
      | StopLimit \<Rightarrow>
          (if cr_price request = None \<or> cr_trigger_price request = None
           then config_error ''stop_limit orders require both price and trigger_price'' else Ok ())
      | TakeProfitMarket \<Rightarrow>
          (if cr_trigger_price request = None then config_error ''take_profit_market orders require trigger_price''
           else if cr_price request \<noteq> None then config_error ''take_profit_market orders must not include a limit price''
           else Ok ())
      | TakeProfitLimit \<Rightarrow>
          (if cr_price request = None \<or> cr_trigger_price request = None
           then config_error ''take_profit_limit orders require both price and trigger_price'' else Ok ()))"

definition validate_against_spec :: "'d Decimal_ops \<Rightarrow> 'd InstrumentSpec \<Rightarrow> 'd CreateOrderRequest \<Rightarrow> unit result" where
  "validate_against_spec D spec request =
     (if dec_less D (decimal (cr_quantity request)) (decimal (is_min_qty spec)) then
        config_error (''order quantity '' @ dec_to_string D (decimal (cr_quantity request)) @
          '' is below min_qty '' @ dec_to_string D (decimal (is_min_qty spec)) @ '' for '' @
          as_str (is_instrument_id spec))
      else
        and_then (case cr_price request of
            None \<Rightarrow> Ok ()
          | Some price \<Rightarrow>
              (case dec_mul D (decimal price) (decimal (cr_quantity request)) of
                 None \<Rightarrow> Panic
               | Some notional \<Rightarrow>
                   (if dec_less D notional (decimal (is_min_notional spec)) then
                      config_error (''order notional '' @ dec_to_string D notional @ '' is below min_notional '' @
                        dec_to_string D (decimal (is_min_notional spec)) @ '' for '' @ as_str (is_instrument_id spec))
                    else Ok ())))
          (\<lambda>_. validate_prices request))"

definition validate_create_order :: "'d LiveContext \<Rightarrow> 'd CreateOrderRequest \<Rightarrow> ('d, unit) rt" where
  "validate_create_order ctx request =
     rt_bind (require_spec ctx (cr_instrument_id request)) (\<lambda>spec.
       rt_lift (validate_against_spec (lc_decimal ctx) spec request))"

text \<open>The loop of \<^verbatim>\<open>validate_create_orders\<close>; \<open>seen\<close> maps client identifiers to their indexes.\<close>

fun validate_batch ::
  "'d LiveContext \<Rightarrow> bool \<Rightarrow> (ClientOrderId, nat) btree_map \<Rightarrow> nat \<Rightarrow> 'd CreateOrderRequest list \<Rightarrow> ('d, unit) rt" where
  "validate_batch ctx several seen index [] = rt_return ()"
| "validate_batch ctx several seen index (order # orders) =
     rt_bind (validate_create_order ctx order) (\<lambda>_.
       if \<not> several then validate_batch ctx several seen (index + 1) orders
       else case cr_client_order_id order of
         None \<Rightarrow> rt_lift (config_error
           ''batch create requires client_order_id on every order for deterministic tracking'')
       | Some cid \<Rightarrow>
           (case bt_get seen cid of
              Some previous \<Rightarrow> rt_lift (config_error
                (''duplicate client_order_id '' @ [CHR 0x27] @ as_str cid @ [CHR 0x27] @
                 '' in batch create at indexes '' @ show_nat previous @ '' and '' @ show_nat index))
            | None \<Rightarrow> validate_batch ctx several (bt_insert cid index seen) (index + 1) orders))"

definition validate_create_orders :: "'d LiveContext \<Rightarrow> 'd CreateOrdersRequest \<Rightarrow> ('d, unit) rt" where
  "validate_create_orders ctx request =
     (if crs_orders request = [] then rt_lift (config_error ''create_orders requires at least one order'')
      else validate_batch ctx (length (crs_orders request) > 1) [] 0 (crs_orders request))"

definition validate_amend_order :: "'d LiveContext \<Rightarrow> 'd AmendOrderRequest \<Rightarrow> ('d, unit) rt" where
  "validate_amend_order ctx request =
     rt_bind (require_spec ctx (am_instrument_id request)) (\<lambda>_.
     rt_bind (rt_lift (append_order_identity [] (am_order_id request) (am_client_order_id request))) (\<lambda>_.
       if am_quantity request = None \<and> am_price request = None \<and> am_trigger_price request = None
       then rt_lift (config_error ''amend_order requires at least one of quantity, price, or trigger_price'')
       else rt_return ()))"

definition validate_amend_orders :: "'d LiveContext \<Rightarrow> 'd AmendOrdersRequest \<Rightarrow> ('d, unit) rt" where
  "validate_amend_orders ctx request =
     (if ams_orders request = [] then rt_lift (config_error ''amend_orders requires at least one order'')
      else rt_for (ams_orders request) (\<lambda>order _. validate_amend_order ctx order) ())"

definition validate_cancel_orders :: "CancelOrdersRequest \<Rightarrow> unit result" where
  "validate_cancel_orders request =
     (if cos_orders request = [] then config_error ''cancel_orders requires at least one target''
      else if list_ex (\<lambda>t. ot_order_id t = None \<and> ot_client_order_id t = None) (cos_orders request)
      then config_error ''cancel_orders requires order_id or client_order_id on every target''
      else Ok ())"

section \<open>Receipts\<close>

definition hydrate_create_receipt :: "CommandReceipt \<Rightarrow> 'd CreateOrderRequest \<Rightarrow> CommandReceipt" where
  "hydrate_create_receipt receipt request =
     receipt\<lparr>rcp_instrument_id := or_else (rcp_instrument_id receipt) (Some (cr_instrument_id request)),
             rcp_client_order_id := or_else (rcp_client_order_id receipt) (cr_client_order_id request)\<rparr>"

definition hydrate_cancel_receipt :: "CommandReceipt \<Rightarrow> CancelOrderRequest \<Rightarrow> CommandReceipt" where
  "hydrate_cancel_receipt receipt request =
     receipt\<lparr>rcp_instrument_id := or_else (rcp_instrument_id receipt) (Some (co_instrument_id request)),
             rcp_order_id := or_else (rcp_order_id receipt) (co_order_id request),
             rcp_client_order_id := or_else (rcp_client_order_id receipt) (co_client_order_id request)\<rparr>"

definition hydrate_amend_receipt :: "CommandReceipt \<Rightarrow> 'd AmendOrderRequest \<Rightarrow> CommandReceipt" where
  "hydrate_amend_receipt receipt request =
     receipt\<lparr>rcp_instrument_id := or_else (rcp_instrument_id receipt) (Some (am_instrument_id request)),
             rcp_order_id := or_else (rcp_order_id receipt) (am_order_id request),
             rcp_client_order_id := or_else (rcp_client_order_id receipt) (am_client_order_id request)\<rparr>"

definition unknown_command_receipt ::
  "'d LiveContext \<Rightarrow> CommandOperation \<Rightarrow> InstrumentId option \<Rightarrow> OrderId option \<Rightarrow> ClientOrderId option \<Rightarrow>
     RequestId option \<Rightarrow> CommandReceipt" where
  "unknown_command_receipt ctx operation iid oid cid rid =
     \<lparr>rcp_operation = operation, rcp_status = CommandStatus.UnknownExecution,
      rcp_venue = cfg_venue (lc_config ctx), rcp_product = cfg_product (lc_config ctx),
      rcp_instrument_id = iid, rcp_order_id = oid, rcp_client_order_id = cid, rcp_request_id = rid,
      rcp_message = Some ''command outcome requires reconcile'', rcp_native_code = None, rcp_retriable = True\<rparr>"

fun collect_batch_acks_from :: "nat \<Rightarrow> string \<Rightarrow> CommandAck option list \<Rightarrow> CommandAck list result" where
  "collect_batch_acks_from index operation [] = Ok []"
| "collect_batch_acks_from index operation (None # acks) =
     Err (market_error DecodeError (''missing ack '' @ show_nat index @ '' while finalizing '' @ operation))"
| "collect_batch_acks_from index operation (Some ack # acks) =
     map_result (\<lambda>rest. ack # rest) (collect_batch_acks_from (index + 1) operation acks)"

definition collect_batch_acks :: "CommandAck option list \<Rightarrow> string \<Rightarrow> CommandAck list result" where
  "collect_batch_acks acks operation = collect_batch_acks_from 0 operation acks"

definition rt_emit :: "CommandLaneEvent \<Rightarrow> ('d, unit) rt" where
  "rt_emit e s = (Ok (), s\<lparr>lr_shared := emit_command_event e (lr_shared s)\<rparr>)"

text \<open>
  \<^verbatim>\<open>apply_command_receipt\<close> acknowledges a receipt.  For an unknown outcome it spawns a task;
  what that task does is \<open>recovery_task\<close>, which runs some time later.
\<close>

definition apply_command_receipt :: "'d LiveContext \<Rightarrow> CommandReceipt \<Rightarrow> CommandTransport \<Rightarrow> ('d, CommandAck) rt" where
  "apply_command_receipt ctx receipt transport =
     rt_bind (rt_now ctx) (\<lambda>now.
       let ack = \<lparr>ack_receipt = receipt, ack_transport = transport, ack_acknowledged_at = TimestampMs now\<rparr> in
       rt_bind (rt_write (engine_apply_command_receipt receipt)) (\<lambda>_.
       rt_bind (rt_emit (Lifecycle (Ack ack))) (\<lambda>_.
       rt_bind (rt_emit (CommandLaneEvent.Receipt receipt)) (\<lambda>_.
       rt_bind (if rcp_status receipt = CommandStatus.UnknownExecution
                then rt_emit (Lifecycle (RecoveryScheduled ack)) else rt_return ()) (\<lambda>_.
         rt_return ack)))))"

definition recovery_task :: "'d LiveContext \<Rightarrow> CommandAck \<Rightarrow> ('d, unit) rt" where
  "recovery_task ctx ack s =
     (case reconcile_private ctx ReconcileTrigger.UnknownExecution s of
        (Inr report, s1) \<Rightarrow> rt_emit (Lifecycle (RecoveryCompleted ack report)) s1
      | (Inl _, s1) \<Rightarrow> (Ok (), s1))"

section \<open>Batch receipts\<close>

record BatchIdentity =
  bi_instrument_id :: "InstrumentId option"
  bi_order_id :: "OrderId option"
  bi_client_order_id :: "ClientOrderId option"
  bi_request_id :: "RequestId option"

text \<open>\<^verbatim>\<open>cache_pending_unknown\<close> with the current time.\<close>

definition rt_cache_pending ::
  "'d LiveContext \<Rightarrow> CommandOperation \<Rightarrow> InstrumentId \<Rightarrow> OrderId option \<Rightarrow> ClientOrderId option \<Rightarrow> ('d, unit) rt" where
  "rt_cache_pending ctx operation iid oid cid =
     rt_bind (rt_now ctx) (\<lambda>now. rt_modify (cache_pending_unknown
       \<lparr>pu_operation = operation, pu_instrument_id = iid, pu_order_id = oid, pu_client_order_id = cid,
        pu_recorded_at = TimestampMs now\<rparr>))"

definition cache_and_emit_batch_receipts ::
  "'d LiveContext \<Rightarrow> CommandReceipt list \<Rightarrow> BatchIdentity list \<Rightarrow> CommandOperation \<Rightarrow> CommandTransport \<Rightarrow>
     ('d, CommandAck list) rt" where
  "cache_and_emit_batch_receipts ctx receipts identities operation transport =
     rt_for (zip receipts identities) (\<lambda>(receipt, identity) acks.
       rt_bind (case bi_instrument_id identity of
           None \<Rightarrow> rt_return ()
         | Some iid \<Rightarrow>
             (if rcp_status receipt = CommandStatus.UnknownExecution
              then rt_cache_pending ctx operation iid (bi_order_id identity) (bi_client_order_id identity)
              else rt_return ())) (\<lambda>_.
       rt_bind (apply_command_receipt ctx receipt transport) (\<lambda>ack. rt_return (acks @ [ack])))) []"

definition cache_and_emit_create_receipts ::
  "'d LiveContext \<Rightarrow> CommandReceipt list \<Rightarrow> 'd CreateOrderRequest list \<Rightarrow> CommandTransport \<Rightarrow> ('d, CommandAck list) rt" where
  "cache_and_emit_create_receipts ctx receipts requests transport =
     cache_and_emit_batch_receipts ctx receipts
       (map (\<lambda>order. \<lparr>bi_instrument_id = Some (cr_instrument_id order), bi_order_id = None,
          bi_client_order_id = cr_client_order_id order, bi_request_id = cr_request_id order\<rparr>) requests)
       CreateOrder transport"

definition cache_and_emit_amend_receipts ::
  "'d LiveContext \<Rightarrow> CommandReceipt list \<Rightarrow> 'd AmendOrderRequest list \<Rightarrow> CommandTransport \<Rightarrow> ('d, CommandAck list) rt" where
  "cache_and_emit_amend_receipts ctx receipts requests transport =
     cache_and_emit_batch_receipts ctx receipts
       (map (\<lambda>order. \<lparr>bi_instrument_id = Some (am_instrument_id order), bi_order_id = am_order_id order,
          bi_client_order_id = am_client_order_id order, bi_request_id = am_request_id order\<rparr>) requests)
       AmendOrder transport"

definition cache_and_emit_cancel_receipts ::
  "'d LiveContext \<Rightarrow> CommandReceipt list \<Rightarrow> OrderTarget list \<Rightarrow> CommandTransport \<Rightarrow> ('d, CommandAck list) rt" where
  "cache_and_emit_cancel_receipts ctx receipts targets transport =
     cache_and_emit_batch_receipts ctx receipts
       (map (\<lambda>target. \<lparr>bi_instrument_id = Some (ot_instrument_id target), bi_order_id = ot_order_id target,
          bi_client_order_id = ot_client_order_id target, bi_request_id = None\<rparr>) targets)
       CancelOrder transport"

section \<open>Venue requests\<close>

definition unsupported_ws_command :: "'d LiveContext \<Rightarrow> string \<Rightarrow> MarketError" where
  "unsupported_ws_command ctx operation =
     with_context ctx (market_error Unsupported
       (operation @ '' requires websocket command transport for this venue/path''))"

definition binance_create_uses_algo_order_endpoint :: "'d CreateOrderRequest \<Rightarrow> bool" where
  "binance_create_uses_algo_order_endpoint request \<longleftrightarrow> conditional_type (cr_order_type request)"

definition binance_create_prefers_ws :: "'d CreateOrderRequest \<Rightarrow> bool" where
  "binance_create_prefers_ws request \<longleftrightarrow> \<not> binance_create_uses_algo_order_endpoint request"

definition when_some :: "'a option \<Rightarrow> ('a \<Rightarrow> 'b) \<Rightarrow> 'b list" where
  "when_some x f = (case x of None \<Rightarrow> [] | Some v \<Rightarrow> [f v])"

definition build_binance_algo_create_pairs ::
  "'d Decimal_ops \<Rightarrow> string \<Rightarrow> 'd CreateOrderRequest \<Rightarrow> (string \<times> string) list" where
  "build_binance_algo_create_pairs D native_symbol request =
     [(''algoType'', ''CONDITIONAL''), (''symbol'', native_symbol), (''side'', binance_side (cr_side request)),
      (''type'', binance_order_type (cr_order_type request)),
      (''quantity'', format_quantity D (cr_quantity request))] @
     when_some (cr_client_order_id request) (\<lambda>cid. (''clientAlgoId'', as_str cid)) @
     when_some (cr_price request) (\<lambda>p. (''price'', format_price D p)) @
     when_some (cr_trigger_price request) (\<lambda>p. (''triggerPrice'', format_price D p)) @
     when_some (cr_trigger_type request) (\<lambda>t. (''workingType'', binance_trigger_type t)) @
     when_some (cr_time_in_force request) (\<lambda>t. (''timeInForce'', binance_time_in_force t (cr_post_only request))) @
     (if cr_reduce_only request then [(''reduceOnly'', ''true'')] else [])"

definition build_binance_create_pairs ::
  "'d Decimal_ops \<Rightarrow> string \<Rightarrow> 'd CreateOrderRequest \<Rightarrow> (string \<times> string) list" where
  "build_binance_create_pairs D native_symbol request =
     [(''symbol'', native_symbol), (''side'', binance_side (cr_side request)),
      (''type'', binance_order_type (cr_order_type request)),
      (''quantity'', format_quantity D (cr_quantity request))] @
     when_some (cr_client_order_id request) (\<lambda>cid. (''newClientOrderId'', as_str cid)) @
     when_some (cr_price request) (\<lambda>p. (''price'', format_price D p)) @
     when_some (cr_trigger_price request) (\<lambda>p. (''stopPrice'', format_price D p)) @
     when_some (cr_trigger_type request) (\<lambda>t. (''workingType'', binance_trigger_type t)) @
     when_some (cr_time_in_force request) (\<lambda>t. (''timeInForce'', binance_time_in_force t (cr_post_only request))) @
     (if cr_reduce_only request then [(''reduceOnly'', ''true'')] else [])"

definition json_option :: "string option \<Rightarrow> Json" where
  "json_option x = (case x of None \<Rightarrow> JNull | Some v \<Rightarrow> JString v)"

definition bybit_create_body :: "'d Decimal_ops \<Rightarrow> string \<Rightarrow> 'd CreateOrderRequest \<Rightarrow> Json" where
  "bybit_create_body D native_symbol request =
     json_object
       [(''category'', JString ''linear''), (''symbol'', JString native_symbol),
        (''side'', JString (bybit_side (cr_side request))),
        (''orderType'', JString (bybit_order_type (cr_order_type request))),
        (''qty'', JString (format_quantity D (cr_quantity request))),
        (''price'', json_option (map_option (format_price D) (cr_price request))),
        (''triggerPrice'', json_option (map_option (format_price D) (cr_trigger_price request))),
        (''triggerBy'', json_option (map_option bybit_trigger_type (cr_trigger_type request))),
        (''timeInForce'', json_option (map_option (\<lambda>t. bybit_time_in_force t (cr_post_only request))
           (cr_time_in_force request))),
        (''orderLinkId'', json_option (map_option as_str (cr_client_order_id request))),
        (''reduceOnly'', JBool (cr_reduce_only request))]"

definition mexc_wire_symbol :: "'d InstrumentSpec \<Rightarrow> string" where
  "mexc_wire_symbol spec = as_str (is_base spec) @ ''_'' @ as_str (is_quote spec)"

fun mexc_order_side :: "Side \<Rightarrow> bool \<Rightarrow> i64" where
  "mexc_order_side Buy False = 1"
| "mexc_order_side Buy True = 2"
| "mexc_order_side Sell False = 3"
| "mexc_order_side Sell True = 4"

definition mexc_order_type :: "OrderType \<Rightarrow> TimeInForce option \<Rightarrow> bool \<Rightarrow> i64 result" where
  "mexc_order_type order_type tif post_only =
     (if post_only \<or> tif = Some PostOnly then Ok 2
      else case order_type of
        Market \<Rightarrow> Ok 5
      | Limit \<Rightarrow> Ok (if tif = Some Ioc then 3 else if tif = Some Fok then 4 else 1)
      | _ \<Rightarrow> Err (market_error Unsupported ''mexc regular order submit supports only market and limit orders''))"

definition mexc_position :: "'d EngineState \<Rightarrow> InstrumentId \<Rightarrow> 'd Position option" where
  "mexc_position st iid = find (\<lambda>p. pos_instrument_id p = iid) (engine_positions st)"

definition mexc_open_type_for_order :: "'d EngineState \<Rightarrow> InstrumentId \<Rightarrow> i64" where
  "mexc_open_type_for_order st iid =
     (case mexc_position st iid of
        None \<Rightarrow> 2
      | Some p \<Rightarrow> (case pos_margin_mode p of Isolated \<Rightarrow> 1 | Cross \<Rightarrow> 2))"

definition mexc_cached_position_mode :: "'d EngineState \<Rightarrow> InstrumentId \<Rightarrow> PositionMode option" where
  "mexc_cached_position_mode st iid = map_option pos_position_mode (mexc_position st iid)"

fun mexc_position_mode :: "PositionMode \<Rightarrow> i64" where
  "mexc_position_mode Hedge = 1"
| "mexc_position_mode OneWay = 2"

definition build_mexc_create_order_object :: "'d LiveContext \<Rightarrow> 'd CreateOrderRequest \<Rightarrow> ('d, Json) rt" where
  "build_mexc_create_order_object ctx request =
     rt_bind (require_spec ctx (cr_instrument_id request)) (\<lambda>spec.
     if cr_trigger_price request \<noteq> None \<or> conditional_type (cr_order_type request) then
       rt_lift (Err (with_context ctx (market_error Unsupported
         (''mexc regular order submit does not cover unified trigger orders; '' @
          ''official plan-order endpoints are separate and marked under maintenance''))))
     else if cr_price request = None \<and> cr_order_type request \<noteq> Market then
       rt_lift (Err (with_context ctx (market_error ConfigError ''mexc limit orders require price'')))
     else
       rt_bind (rt_lift (mexc_order_type (cr_order_type request) (cr_time_in_force request) (cr_post_only request)))
         (\<lambda>type_code.
       rt_bind (rt_read (\<lambda>s. (mexc_open_type_for_order (engine_of s) (cr_instrument_id request),
           mexc_cached_position_mode (engine_of s) (cr_instrument_id request)))) (\<lambda>(open_type, position_mode).
         rt_return (json_object
           ([(''symbol'', JString (mexc_wire_symbol spec))] @
            when_some (cr_price request) (\<lambda>p. (''price'', JString (format_price (lc_decimal ctx) p))) @
            [(''vol'', JString (format_quantity (lc_decimal ctx) (cr_quantity request))),
             (''side'', json_i64 (mexc_order_side (cr_side request) (cr_reduce_only request))),
             (''type'', json_i64 type_code), (''openType'', json_i64 open_type)] @
            when_some (cr_client_order_id request) (\<lambda>cid. (''externalOid'', JString (as_str cid))) @
            (if cr_reduce_only request then [(''reduceOnly'', JBool True)] else []) @
            when_some position_mode (\<lambda>m. (''positionMode'', json_i64 (mexc_position_mode m))))))))"

definition serialize_body :: "'d LiveContext \<Rightarrow> string \<Rightarrow> Json \<Rightarrow> string result" where
  "serialize_body ctx label body =
     (case lc_json ctx body of
        Inl err \<Rightarrow> config_error (''failed to serialize '' @ label @ '' body: '' @ err)
      | Inr text \<Rightarrow> Ok text)"

definition mexc_order_id_value :: "OrderId \<Rightarrow> Json" where
  "mexc_order_id_value oid =
     (case parse_i64 (as_str oid) of None \<Rightarrow> JString (as_str oid) | Some n \<Rightarrow> json_i64 n)"

section \<open>Submission\<close>

text \<open>
  The three ways the handlers turn a response into a receipt: a REST response, a websocket
  response with the REST call that replaces it when no session took the request, and the
  choice between them.
\<close>

definition classify_as ::
  "'d LiveContext \<Rightarrow> CommandOperation \<Rightarrow> RequestId option \<Rightarrow> string option \<Rightarrow> CommandTransport \<Rightarrow>
     ('d, CommandReceipt \<times> CommandTransport) rt" where
  "classify_as ctx operation rid payload transport =
     rt_parse ctx (\<lambda>p. map_result (\<lambda>r. (r, transport)) (pa_classify_command p operation payload rid))"

definition submit_rest ::
  "'d LiveContext \<Rightarrow> CommandOperation \<Rightarrow> RequestId option \<Rightarrow> ('d, string) rt \<Rightarrow> ('d, CommandReceipt \<times> CommandTransport) rt" where
  "submit_rest ctx operation rid call s =
     (case call s of
        (Inr payload, s1) \<Rightarrow> classify_as ctx operation rid (Some payload) Rest s1
      | (Inl Panicked, s1) \<Rightarrow> (Panic, s1)
      | (Inl (Failed err), s1) \<Rightarrow>
          (if is_uncertain_command_error err then classify_as ctx operation rid None Rest s1
           else (Err err, s1)))"

definition submit_ws ::
  "'d LiveContext \<Rightarrow> CommandOperation \<Rightarrow> RequestId option \<Rightarrow> ('d, CommandWsRequestError + string) rt \<Rightarrow>
     ('d, CommandReceipt \<times> CommandTransport) rt \<Rightarrow> ('d, CommandReceipt \<times> CommandTransport) rt" where
  "submit_ws ctx operation rid call fallback s =
     (case call s of
        (Inl f, s1) \<Rightarrow> (Inl f, s1)
      | (Inr (Inr payload), s1) \<Rightarrow> classify_as ctx operation rid (Some payload) WebSocket s1
      | (Inr (Inl (Uncertain _)), s1) \<Rightarrow> classify_as ctx operation rid None WebSocket s1
      | (Inr (Inl (Unavailable err)), s1) \<Rightarrow>
          (if lc_mode ctx = WebSocketOnly then (Err err, s1) else fallback s1))"

definition submit_preferring_ws ::
  "'d LiveContext \<Rightarrow> CommandOperation \<Rightarrow> RequestId option \<Rightarrow> bool \<Rightarrow> string \<Rightarrow>
     ('d, CommandWsRequestError + string) rt \<Rightarrow> ('d, string) rt \<Rightarrow> ('d, CommandReceipt \<times> CommandTransport) rt" where
  "submit_preferring_ws ctx operation rid use_ws ws_name ws_call rest_call =
     (if use_ws then submit_ws ctx operation rid ws_call (submit_rest ctx operation rid rest_call)
      else if lc_mode ctx = WebSocketOnly then rt_lift (Err (unsupported_ws_command ctx ws_name))
      else submit_rest ctx operation rid rest_call)"

definition binance_create_submission ::
  "'d LiveContext \<Rightarrow> 'd CreateOrderRequest \<Rightarrow> ('d, CommandReceipt \<times> CommandTransport) rt" where
  "binance_create_submission ctx request =
     rt_bind (require_spec ctx (cr_instrument_id request)) (\<lambda>spec.
     if binance_create_uses_algo_order_endpoint request then
       (if lc_mode ctx = WebSocketOnly then rt_lift (Err (unsupported_ws_command ctx ''create_order_ws''))
        else submit_rest ctx CreateOrder (cr_request_id request)
          (binance_signed_request_text ctx ''POST'' ''/fapi/v1/algoOrder''
            (build_binance_algo_create_pairs (lc_decimal ctx) (is_native_symbol spec) request)
            ''binance.create_algo_order''))
     else
       (let pairs = build_binance_create_pairs (lc_decimal ctx) (is_native_symbol spec) request in
        submit_preferring_ws ctx CreateOrder (cr_request_id request)
          (lc_ws_order_entry ctx \<and> binance_create_prefers_ws request) ''create_order_ws''
          (binance_signed_ws_request_text ctx ''order.place'' pairs ''binance.create_order_ws'')
          (binance_signed_request_text ctx ''POST'' ''/fapi/v1/order'' pairs ''binance.create_order'')))"

definition bybit_create_submission ::
  "'d LiveContext \<Rightarrow> 'd CreateOrderRequest \<Rightarrow> ('d, CommandReceipt \<times> CommandTransport) rt" where
  "bybit_create_submission ctx request =
     rt_bind (require_spec ctx (cr_instrument_id request)) (\<lambda>spec.
       let body = bybit_create_body (lc_decimal ctx) (is_native_symbol spec) request in
       submit_preferring_ws ctx CreateOrder (cr_request_id request) (lc_ws_order_entry ctx) ''create_order_ws''
         (bybit_trade_ws_request_text ctx ''order.create'' [body] ''bybit.create_order_ws'')
         (rt_bind (rt_lift (serialize_body ctx ''bybit create order'' body)) (\<lambda>text.
           bybit_signed_post_text ctx ''/v5/order/create'' text ''bybit.create_order'')))"

definition mexc_create_submission ::
  "'d LiveContext \<Rightarrow> 'd CreateOrderRequest \<Rightarrow> ('d, CommandReceipt \<times> CommandTransport) rt" where
  "mexc_create_submission ctx request =
     (if lc_mode ctx = WebSocketOnly then rt_lift (Err (unsupported_ws_command ctx ''mexc.create_order_ws''))
      else
        rt_bind (build_mexc_create_order_object ctx request) (\<lambda>body.
        rt_bind (rt_lift (serialize_body ctx ''mexc create order'' body)) (\<lambda>text.
          submit_rest ctx CreateOrder (cr_request_id request)
            (mexc_signed_post_text ctx ''/api/v1/private/order/submit'' text ''mexc.create_order''))))"

definition create_order_submission ::
  "'d LiveContext \<Rightarrow> 'd CreateOrderRequest \<Rightarrow> ('d, CommandReceipt \<times> CommandTransport) rt" where
  "create_order_submission ctx request =
     (case cfg_venue (lc_config ctx) of
        Binance \<Rightarrow> binance_create_submission ctx request
      | Bybit \<Rightarrow> bybit_create_submission ctx request
      | Mexc \<Rightarrow> mexc_create_submission ctx request)"

text \<open>The end of a handler: remember an unknown outcome, then acknowledge the receipt.\<close>

definition conclude_command ::
  "'d LiveContext \<Rightarrow> CommandOperation \<Rightarrow> InstrumentId \<Rightarrow> OrderId option \<Rightarrow> ClientOrderId option \<Rightarrow>
     CommandReceipt \<Rightarrow> CommandTransport \<Rightarrow> ('d, CommandAck) rt" where
  "conclude_command ctx operation iid oid cid receipt transport =
     rt_bind (if rcp_status receipt = CommandStatus.UnknownExecution
              then rt_cache_pending ctx operation iid oid cid else rt_return ()) (\<lambda>_.
       apply_command_receipt ctx receipt transport)"

definition create_order :: "'d LiveContext \<Rightarrow> 'd CreateOrderRequest \<Rightarrow> ('d, CommandAck) rt" where
  "create_order ctx request =
     rt_bind (validate_create_order ctx request) (\<lambda>_.
     rt_bind rt_acquire (\<lambda>_.
     rt_bind (create_order_submission ctx request) (\<lambda>(receipt, transport).
       conclude_command ctx CreateOrder (cr_instrument_id request) None (cr_client_order_id request)
         (hydrate_create_receipt receipt request) transport)))"

definition binance_cancel_submission ::
  "'d LiveContext \<Rightarrow> 'd InstrumentSpec \<Rightarrow> CancelOrderRequest \<Rightarrow> ('d, CommandReceipt \<times> CommandTransport) rt" where
  "binance_cancel_submission ctx spec request =
     (let rid = co_request_id request; oid = co_order_id request; cid = co_client_order_id request in
      if is_binance_algo_order_id oid then
        (if lc_mode ctx = WebSocketOnly then rt_lift (Err (unsupported_ws_command ctx ''cancel_order_ws''))
         else
           rt_bind (rt_lift (binance_algo_identity_query oid cid)) (\<lambda>pairs.
             submit_rest ctx CancelOrder rid
               (binance_signed_request_text ctx ''DELETE'' ''/fapi/v1/algoOrder'' pairs ''binance.cancel_algo_order'')))
      else
        rt_bind (rt_lift (order_identity_query (is_native_symbol spec) oid cid)) (\<lambda>query.
          submit_preferring_ws ctx CancelOrder rid (lc_ws_order_entry ctx) ''cancel_order_ws''
            (binance_signed_ws_request_text ctx ''order.cancel'' query ''binance.cancel_order_ws'')
            (binance_signed_request_text ctx ''DELETE'' ''/fapi/v1/order'' query ''binance.cancel_order'')))"

definition string_object :: "(string \<times> string) list \<Rightarrow> Json" where
  "string_object pairs = json_object (map (\<lambda>(k, v). (k, JString v)) pairs)"

definition bybit_cancel_submission ::
  "'d LiveContext \<Rightarrow> 'd InstrumentSpec \<Rightarrow> CancelOrderRequest \<Rightarrow> ('d, CommandReceipt \<times> CommandTransport) rt" where
  "bybit_cancel_submission ctx spec request =
     rt_bind (rt_lift (append_bybit_order_identity
         [(''category'', ''linear''), (''symbol'', is_native_symbol spec)]
         (co_order_id request) (co_client_order_id request))) (\<lambda>pairs.
       let body = string_object pairs in
       submit_preferring_ws ctx CancelOrder (co_request_id request) (lc_ws_order_entry ctx) ''cancel_order_ws''
         (bybit_trade_ws_request_text ctx ''order.cancel'' [body] ''bybit.cancel_order_ws'')
         (rt_bind (rt_lift (serialize_body ctx ''bybit cancel order'' body)) (\<lambda>text.
           bybit_signed_post_text ctx ''/v5/order/cancel'' text ''bybit.cancel_order'')))"

definition mexc_cancel_submission ::
  "'d LiveContext \<Rightarrow> 'd InstrumentSpec \<Rightarrow> CancelOrderRequest \<Rightarrow> ('d, CommandReceipt \<times> CommandTransport) rt" where
  "mexc_cancel_submission ctx spec request =
     (if lc_mode ctx = WebSocketOnly then rt_lift (Err (unsupported_ws_command ctx ''mexc.cancel_order_ws''))
      else
        rt_bind (rt_lift (case (co_order_id request, co_client_order_id request) of
            (Some o_id, _) \<Rightarrow> Ok (''/api/v1/private/order/cancel'',
               json_object [(''orderIds'', JArray [mexc_order_id_value o_id])])
          | (None, Some c_id) \<Rightarrow> Ok (''/api/v1/private/order/batch_cancel_with_external'',
               JArray [json_object [(''symbol'', JString (is_native_symbol spec)),
                 (''externalOid'', JString (as_str c_id))]])
          | (None, None) \<Rightarrow> Err (with_context ctx (market_error ConfigError
               ''mexc cancel_order requires order_id or client_order_id'')))) (\<lambda>(path, body).
        rt_bind (rt_lift (serialize_body ctx ''mexc cancel order'' body)) (\<lambda>text.
          submit_rest ctx CancelOrder (co_request_id request) (mexc_signed_post_text ctx path text ''mexc.cancel_order''))))"

definition cancel_order_submission ::
  "'d LiveContext \<Rightarrow> 'd InstrumentSpec \<Rightarrow> CancelOrderRequest \<Rightarrow> ('d, CommandReceipt \<times> CommandTransport) rt" where
  "cancel_order_submission ctx spec request =
     (case cfg_venue (lc_config ctx) of
        Binance \<Rightarrow> binance_cancel_submission ctx spec request
      | Bybit \<Rightarrow> bybit_cancel_submission ctx spec request
      | Mexc \<Rightarrow> mexc_cancel_submission ctx spec request)"

definition cancel_order :: "'d LiveContext \<Rightarrow> CancelOrderRequest \<Rightarrow> ('d, CommandAck) rt" where
  "cancel_order ctx request =
     rt_bind (require_spec ctx (co_instrument_id request)) (\<lambda>spec.
     rt_bind rt_acquire (\<lambda>_.
     rt_bind (cancel_order_submission ctx spec request) (\<lambda>(receipt, transport).
       conclude_command ctx CancelOrder (co_instrument_id request) (co_order_id request)
         (co_client_order_id request) (hydrate_cancel_receipt receipt request) transport)))"

end
