(* ===== verification/Adapter.thy ===== *)
theory Adapter
  imports Shared_State Json_Value Interval
begin

text \<open>
  What the three venue adapters share: reading a payload into a typed value, decimals sent as
  text, prices and quantities quantized to the scales of an instrument, and the trait
  \<^verbatim>\<open>VenueAdapter\<close> of \<^verbatim>\<open>bat-markets-core/src/adapter.rs\<close> as a contract.

  An adapter runs in an environment: the decimal arithmetic, the JSON reader and printer and
  the clock.  The text of a type mismatch reported by serde is the function \<open>ae_type_error\<close>.
\<close>

section \<open>Reading payloads\<close>

record 'd AdapterEnv =
  ae_decimal :: "'d Decimal_ops"
  ae_json :: json_parser
  ae_type_error :: "string \<Rightarrow> Json \<Rightarrow> string"
  ae_print :: "Json \<Rightarrow> string"
  ae_now :: i64

definition from_value :: "'d AdapterEnv \<Rightarrow> string \<Rightarrow> 'a json_reader \<Rightarrow> Json \<Rightarrow> string + 'a" where
  "from_value E type_name r v =
     (case r v of None \<Rightarrow> Inl (ae_type_error E type_name v) | Some x \<Rightarrow> Inr x)"

definition from_str :: "'d AdapterEnv \<Rightarrow> string \<Rightarrow> 'a json_reader \<Rightarrow> string \<Rightarrow> string + 'a" where
  "from_str E type_name r payload =
     (case ae_json E payload of Inl err \<Rightarrow> Inl err | Inr v \<Rightarrow> from_value E type_name r v)"

definition map_err :: "(string \<Rightarrow> MarketError) \<Rightarrow> string + 'a \<Rightarrow> 'a result" where
  "map_err f r = (case r of Inl err \<Rightarrow> Err (f err) | Inr x \<Rightarrow> Ok x)"

text \<open>\<^verbatim>\<open>iter.map(f).collect::<Result<Vec<_>>>()\<close> stops at the first error.\<close>

fun traverse :: "('a \<Rightarrow> 'b result) \<Rightarrow> 'a list \<Rightarrow> 'b list result" where
  "traverse f [] = Ok []"
| "traverse f (x # xs) = and_then (f x) (\<lambda>y. map_result (Cons y) (traverse f xs))"

text \<open>\<^verbatim>\<open>option.map(f).transpose()\<close>\<close>

definition transpose_map :: "('a \<Rightarrow> 'b result) \<Rightarrow> 'a option \<Rightarrow> 'b option result" where
  "transpose_map f x = (case x of None \<Rightarrow> Ok None | Some v \<Rightarrow> map_result Some (f v))"

text \<open>\<^verbatim>\<open>slice.first()\<close>\<close>

definition hd_option :: "'a list \<Rightarrow> 'a option" where
  "hd_option xs = (case xs of [] \<Rightarrow> None | x # _ \<Rightarrow> Some x)"

definition quoted :: "string \<Rightarrow> string" where
  "quoted raw = CHR 0x27 # raw @ [CHR 0x27]"

text \<open>\<^verbatim>\<open>str::starts_with\<close>, \<^verbatim>\<open>str::strip_prefix\<close> and \<^verbatim>\<open>str::trim\<close>, the last on ASCII white space.\<close>

definition starts_with :: "string \<Rightarrow> string \<Rightarrow> bool" where
  "starts_with pre raw \<longleftrightarrow> take (length pre) raw = pre"

definition strip_prefix :: "string \<Rightarrow> string \<Rightarrow> string option" where
  "strip_prefix pre raw = (if starts_with pre raw then Some (drop (length pre) raw) else None)"

definition is_whitespace :: "char \<Rightarrow> bool" where
  "is_whitespace c \<longleftrightarrow> c \<in> set [CHR '' '', CHR 0x09, CHR 0x0A, CHR 0x0B, CHR 0x0C, CHR 0x0D]"

definition str_trim :: "string \<Rightarrow> string" where
  "str_trim raw = rev (dropWhile is_whitespace (rev (dropWhile is_whitespace raw)))"

text \<open>The message of a failed \<^verbatim>\<open>str::parse\<close> of a signed integer: the digits are read from the left.\<close>

fun parse_int_scan :: "bool \<Rightarrow> nat \<Rightarrow> nat \<Rightarrow> string \<Rightarrow> string" where
  "parse_int_scan negative limit acc [] = []"
| "parse_int_scan negative limit acc (c # cs) =
     (if c \<notin> set ''0123456789'' then ''invalid digit found in string''
      else if limit < 10 * acc + digit_value c
      then (if negative then ''number too small to fit in target type'' else ''number too large to fit in target type'')
      else parse_int_scan negative limit (10 * acc + digit_value c) cs)"

definition parse_signed_error :: "nat \<Rightarrow> string \<Rightarrow> string" where
  "parse_signed_error w raw =
     (if raw = [] then ''cannot parse integer from empty string''
      else if raw \<in> {''+'', ''-''} then ''invalid digit found in string''
      else if hd raw = CHR ''-'' then parse_int_scan True (2 ^ (w - 1)) 0 (tl raw)
      else parse_int_scan False (2 ^ (w - 1) - 1) 0 (if hd raw = CHR ''+'' then tl raw else raw))"

definition parse_decimal :: "'d AdapterEnv \<Rightarrow> Venue \<Rightarrow> string \<Rightarrow> 'd result" where
  "parse_decimal E venue raw =
     map_err (\<lambda>err. with_venue venue LinearUsdt
         (market_error DecodeError (''invalid decimal '' @ quoted raw @ '': '' @ err)))
       (dec_parse (ae_decimal E) raw)"

definition read_price :: "'d AdapterEnv \<Rightarrow> Venue \<Rightarrow> 'd InstrumentSpec \<Rightarrow> string \<Rightarrow> FastPrice result" where
  "read_price E venue spec raw =
     and_then (parse_decimal E venue raw) (\<lambda>d. price_quantize (ae_decimal E) (DecimalValue d) (is_price_scale spec))"

definition read_quantity :: "'d AdapterEnv \<Rightarrow> Venue \<Rightarrow> 'd InstrumentSpec \<Rightarrow> string \<Rightarrow> FastQuantity result" where
  "read_quantity E venue spec raw =
     and_then (parse_decimal E venue raw) (\<lambda>d. quantity_quantize (ae_decimal E) (DecimalValue d) (is_qty_scale spec))"

definition read_level ::
  "'d AdapterEnv \<Rightarrow> Venue \<Rightarrow> 'd InstrumentSpec \<Rightarrow> string \<times> string \<Rightarrow> (FastPrice \<times> FastQuantity) result" where
  "read_level E venue spec level =
     and_then (read_price E venue spec (fst level)) (\<lambda>p. map_result (Pair p) (read_quantity E venue spec (snd level)))"

definition decimal_text ::
  "'d AdapterEnv \<Rightarrow> Venue \<Rightarrow> string \<Rightarrow> ('tag, 'd) decimal_value result" where
  "decimal_text E venue raw = map_result DecimalValue (parse_decimal E venue raw)"

definition decimal_scale :: "'d Decimal_ops \<Rightarrow> 'd \<Rightarrow> u32" where
  "decimal_scale D d = dec_scale D (dec_normalize D d)"

definition decimal_direction :: "'d Decimal_ops \<Rightarrow> 'd \<Rightarrow> PositionDirection" where
  "decimal_direction D d =
     (if dec_less D (dec_zero D) d then Long else if dec_less D d (dec_zero D) then Short else Flat)"

definition canonical_symbol :: "string \<Rightarrow> string \<Rightarrow> string \<Rightarrow> string" where
  "canonical_symbol base quote settle = base @ ''/'' @ quote @ '':'' @ settle"

definition u32_saturating_add :: "u32 \<Rightarrow> u32 \<Rightarrow> u32" where
  "u32_saturating_add a b = (if unat a + unat b < 2 ^ 32 then a + b else - 1)"

definition full_support :: InstrumentSupport where
  "full_support = \<lparr>sup_public_streams = True, sup_private_trading = True, sup_leverage_set = True,
     sup_margin_mode_set = True, sup_funding_rate = True, sup_open_interest = True\<rparr>"

text \<open>The receipt every \<^verbatim>\<open>classify_command\<close> starts from.\<close>

definition plain_receipt ::
  "Venue \<Rightarrow> CommandOperation \<Rightarrow> CommandStatus \<Rightarrow> RequestId option \<Rightarrow> string option \<Rightarrow> string option \<Rightarrow> bool \<Rightarrow> CommandReceipt" where
  "plain_receipt venue operation status rid message code retriable =
     \<lparr>rcp_operation = operation, rcp_status = status, rcp_venue = venue, rcp_product = LinearUsdt,
      rcp_instrument_id = None, rcp_order_id = None, rcp_client_order_id = None, rcp_request_id = rid,
      rcp_message = message, rcp_native_code = code, rcp_retriable = retriable\<rparr>"

definition unknown_receipt :: "Venue \<Rightarrow> CommandOperation \<Rightarrow> RequestId option \<Rightarrow> CommandReceipt" where
  "unknown_receipt venue operation rid =
     plain_receipt venue operation CommandStatus.UnknownExecution rid
       (Some ''command outcome requires reconcile'') None True"

definition rejected_receipt ::
  "Venue \<Rightarrow> CommandOperation \<Rightarrow> RequestId option \<Rightarrow> string \<Rightarrow> i64 \<Rightarrow> CommandReceipt" where
  "rejected_receipt venue operation rid message code =
     plain_receipt venue operation Rejected rid (Some message) (Some (show_int code)) False"

section \<open>What a reader yields\<close>

text \<open>
  \<open>settles t P r\<close>: a value the computation returns satisfies \<open>P\<close>, and when \<open>t\<close> holds the
  computation does not panic.  The rules follow the combinators, so that the laws of an adapter
  are proved along its text.
\<close>

definition settles :: "bool \<Rightarrow> ('a \<Rightarrow> bool) \<Rightarrow> 'a result \<Rightarrow> bool" where
  "settles t P r \<longleftrightarrow> (case r of Inr x \<Rightarrow> P x | Inl (Failed _) \<Rightarrow> True | Inl Panicked \<Rightarrow> \<not> t)"

abbreviation yields :: "('a \<Rightarrow> bool) \<Rightarrow> 'a result \<Rightarrow> bool" where
  "yields \<equiv> settles True"

abbreviation delivers :: "('a \<Rightarrow> bool) \<Rightarrow> 'a result \<Rightarrow> bool" where
  "delivers \<equiv> settles False"

abbreviation any :: "'a \<Rightarrow> bool" where
  "any \<equiv> \<lambda>_. True"

lemma settles_simps [simp]:
  "settles t P (Inr x) \<longleftrightarrow> P x" "settles t P (Inl (Failed e))" "settles t P (Inl Panicked) \<longleftrightarrow> \<not> t"
  by (simp_all add: settles_def)

lemma settles_cases:
  assumes "settles t P r"
  obtains (Ok) x where "r = Ok x" "P x" | (Err) e where "r = Err e" | (Panic) "r = Panic" "\<not> t"
  using assms by (auto simp: settles_def split: sum.splits Failure.splits)

lemma yields_iff: "yields P r \<longleftrightarrow> delivers P r \<and> r \<noteq> Panic"
  by (auto simp: settles_def split: sum.splits Failure.splits)

lemma delivers_iff: "delivers P r \<longleftrightarrow> (\<forall>x. r = Ok x \<longrightarrow> P x)"
  by (auto simp: settles_def split: sum.splits Failure.splits)

lemma settles_mono: "settles t Q r \<Longrightarrow> (\<And>x. Q x \<Longrightarrow> P x) \<Longrightarrow> settles t P r"
  by (elim settles_cases) simp_all

lemma settles_any: "settles t P r \<Longrightarrow> settles t any r"
  by (erule settles_mono) simp

lemma delivers_any: "delivers any r"
  by (simp add: delivers_iff)

lemma settles_total: "yields P r \<Longrightarrow> settles t P r"
  by (elim settles_cases) simp_all

lemma settles_and_then:
  "settles t Q r \<Longrightarrow> (\<And>x. Q x \<Longrightarrow> settles t P (k x)) \<Longrightarrow> settles t P (and_then r k)"
  by (elim settles_cases) simp_all

lemma settles_map_result: "settles t Q r \<Longrightarrow> (\<And>x. Q x \<Longrightarrow> P (f x)) \<Longrightarrow> settles t P (map_result f r)"
  by (elim settles_cases) simp_all

lemma settles_ok_or: "(\<And>x. v = Some x \<Longrightarrow> P x) \<Longrightarrow> settles t P (ok_or e v)"
  by (cases v) simp_all

lemma settles_map_err: "settles t any (map_err f r)"
  by (simp add: settles_def map_err_def split: sum.split)

lemma settles_if: "(c \<Longrightarrow> settles t P a) \<Longrightarrow> (\<not> c \<Longrightarrow> settles t P b) \<Longrightarrow> settles t P (if c then a else b)"
  by simp

lemma settles_traverse: "(\<And>x. settles t P (f x)) \<Longrightarrow> settles t (list_all P) (traverse f xs)"
proof (induction xs)
  case (Cons x xs)
  show ?case
    unfolding traverse.simps
    by (rule settles_and_then [OF Cons.prems], rule settles_map_result [OF Cons.IH [OF Cons.prems]]) simp
qed simp

lemma settles_transpose: "(\<And>x. settles t P (f x)) \<Longrightarrow> settles t (pred_option P) (transpose_map f v)"
proof (cases v)
  case (Some x)
  assume f: "\<And>x. settles t P (f x)"
  from Some show ?thesis
    by (simp add: transpose_map_def) (rule settles_map_result [OF f], simp)
qed (simp add: transpose_map_def)

lemma settles_transpose_any: "(\<And>x. settles t any (f x)) \<Longrightarrow> settles t any (transpose_map f v)"
  by (rule settles_any [OF settles_transpose])

lemma settles_map_any: "settles t any r \<Longrightarrow> settles t any (map_result f r)"
  by (erule settles_map_result) (rule TrueI)

abbreviation fits :: "'tag fast_value \<Rightarrow> bool" where
  "fits v \<equiv> in_i64 (fast v)"

lemma settles_quantize:
  "settles t fits (price_quantize D p s)" "settles t fits (quantity_quantize D q s)" "settles t fits (notional_quantize D n s)"
  by (simp_all add: settles_def price_quantize_def quantity_quantize_def notional_quantize_def quantize_decimal_def Let_def)

lemma settles_decimal: "settles t any (parse_decimal E venue raw)" "settles t any (decimal_text E venue raw)"
  unfolding decimal_text_def parse_decimal_def
  by (intro settles_map_err settles_map_result [OF settles_map_err] TrueI)+

lemma settles_read_price: "settles t fits (read_price E venue spec raw)"
  unfolding read_price_def by (rule settles_and_then [OF settles_decimal(1) settles_quantize(1)])

lemma settles_read_quantity: "settles t fits (read_quantity E venue spec raw)"
  unfolding read_quantity_def by (rule settles_and_then [OF settles_decimal(1) settles_quantize(2)])

lemma settles_read_level: "settles t (pred_prod fits fits) (read_level E venue spec level)"
  unfolding read_level_def
  by (rule settles_and_then [OF settles_read_price], rule settles_map_result [OF settles_read_quantity]) simp

lemmas settles_read = settles_read_price settles_read_quantity settles_read_level

section \<open>The contract\<close>

text \<open>The instrument an event is about, and whether a catalog lists it.\<close>

fun public_event_instrument :: "'d PublicLaneEvent \<Rightarrow> InstrumentId option" where
  "public_event_instrument (PublicLaneEvent.Ticker t) = Some (ft_instrument_id t)"
| "public_event_instrument (PublicLaneEvent.Trade t) = Some (ftr_instrument_id t)"
| "public_event_instrument (PublicLaneEvent.BookTop b) = Some (fbt_instrument_id b)"
| "public_event_instrument (PublicLaneEvent.OrderBookDelta b) = Some (fob_instrument_id b)"
| "public_event_instrument (PublicLaneEvent.Kline k) = Some (fk_instrument_id k)"
| "public_event_instrument (PublicLaneEvent.MarkPrice m) = Some (fmp_instrument_id m)"
| "public_event_instrument (PublicLaneEvent.FundingRate f) = Some (fr_instrument_id f)"
| "public_event_instrument (PublicLaneEvent.OpenInterest i) = Some (oi_instrument_id i)"
| "public_event_instrument (PublicLaneEvent.Liquidation l) = Some (fl_instrument_id l)"
| "public_event_instrument (PublicLaneEvent.Divergence d) = None"

fun private_event_instrument :: "'d PrivateLaneEvent \<Rightarrow> InstrumentId option" where
  "private_event_instrument (PrivateLaneEvent.Position p) = Some (pos_instrument_id p)"
| "private_event_instrument (PrivateLaneEvent.Order r) = Some (ord_instrument_id r)"
| "private_event_instrument (PrivateLaneEvent.Execution e) = Some (exe_instrument_id e)"
| "private_event_instrument _ = None"

definition listed :: "'d InstrumentCatalog \<Rightarrow> InstrumentId \<Rightarrow> bool" where
  "listed catalog iid \<longleftrightarrow> catalog_get catalog iid \<noteq> None"

definition public_listed :: "'d InstrumentCatalog \<Rightarrow> 'd PublicLaneEvent \<Rightarrow> bool" where
  "public_listed catalog e = (case public_event_instrument e of None \<Rightarrow> True | Some iid \<Rightarrow> listed catalog iid)"

definition private_listed :: "'d InstrumentCatalog \<Rightarrow> 'd PrivateLaneEvent \<Rightarrow> bool" where
  "private_listed catalog e = (case private_event_instrument e of None \<Rightarrow> True | Some iid \<Rightarrow> listed catalog iid)"

lemma by_native_symbol_listed:
  assumes "catalog_wf catalog" and "by_native_symbol catalog symbol = Some spec"
  shows "listed catalog (is_instrument_id spec)"
proof -
  obtain iid where "catalog_get catalog iid = Some spec"
    using assms(2) by (auto simp: by_native_symbol_def split: Option.bind_splits)
  moreover from this assms(1) have "is_instrument_id spec = iid" by (simp add: catalog_wf_def)
  ultimately show ?thesis by (simp add: listed_def)
qed

lemma settles_native_symbol:
  "catalog_wf catalog \<Longrightarrow> settles t (\<lambda>spec. listed catalog (is_instrument_id spec)) (ok_or e (by_native_symbol catalog symbol))"
  by (rule settles_ok_or, rule by_native_symbol_listed)

text \<open>An event the engine accepts: its instrument is listed and its fast values are \<^verbatim>\<open>i64\<close>.\<close>

definition public_sound :: "'d InstrumentCatalog \<Rightarrow> 'd PublicLaneEvent \<Rightarrow> bool" where
  "public_sound catalog e \<longleftrightarrow> public_listed catalog e \<and> event_i64 e"

lemma listed_event_known:
  assumes "engine_wf engine" and "public_listed catalog e"
    and "\<And>iid. listed catalog iid \<Longrightarrow> bt_contains (es_instruments engine) iid"
  shows "\<not> event_unknown engine e"
  using assms(2,3) unfolding event_unknown_iff [OF assms(1)]
  by (cases e) (simp_all add: public_listed_def)

text \<open>A receipt that answers the command it was asked for.\<close>

definition answers :: "Venue \<Rightarrow> CommandOperation \<Rightarrow> RequestId option \<Rightarrow> CommandReceipt \<Rightarrow> bool" where
  "answers venue operation rid r \<longleftrightarrow> rcp_operation r = operation \<and> rcp_request_id r = rid \<and> rcp_venue r = venue \<and>
     rcp_product r = LinearUsdt \<and> rcp_status r \<noteq> CommandStatus.UnknownExecution"

lemmas sound_simps = public_sound_def public_listed_def private_listed_def answers_def plain_receipt_def
  rejected_receipt_def opt_i64_def list_all_iff pred_prod_beta

text \<open>
  The trait \<^verbatim>\<open>VenueAdapter\<close>, with what the engine and the command handlers rely on: a decoded
  frame speaks of listed instruments only, and a response decides the fate of its command,
  whereas a missing one leaves it unknown.  An adapter may keep a state (\<open>'c\<close>) between public
  frames.
\<close>

locale venue_adapter =
  fixes venue :: Venue
    and parse_public :: "'d InstrumentCatalog \<Rightarrow> string \<Rightarrow> 'c \<Rightarrow> 'd PublicLaneEvent list result \<times> 'c"
    and parse_private :: "'d InstrumentCatalog \<Rightarrow> string \<Rightarrow> 'd PrivateLaneEvent list result"
    and classify_command :: "'d InstrumentCatalog \<Rightarrow> CommandOperation \<Rightarrow> string option \<Rightarrow> RequestId option \<Rightarrow> CommandReceipt result"
  assumes public_frames: "catalog_wf catalog \<Longrightarrow> delivers (list_all (public_sound catalog)) (fst (parse_public catalog payload c))"
    and private_frames: "catalog_wf catalog \<Longrightarrow> delivers (list_all (private_listed catalog)) (parse_private catalog payload)"
    and unanswered: "classify_command catalog operation None rid = Ok (unknown_receipt venue operation rid)"
    and answered: "yields (answers venue operation rid) (classify_command catalog operation (Some payload) rid)"
begin

text \<open>A command is unknown exactly when no response was classified.\<close>

lemma unknown_iff_unanswered:
  assumes "classify_command catalog operation payload rid = Ok r"
  shows "rcp_status r = CommandStatus.UnknownExecution \<longleftrightarrow> payload = None"
proof (cases payload)
  case None
  with assms unanswered [of catalog operation rid] have "r = unknown_receipt venue operation rid" by simp
  with None show ?thesis by (simp add: unknown_receipt_def plain_receipt_def)
next
  case (Some body)
  with assms answered [of operation rid catalog body] have "answers venue operation rid r"
    by simp
  with Some show ?thesis by (simp add: answers_def)
qed

text \<open>A decoded frame is applied by an engine that knows the catalog's instruments.\<close>

lemma frame_applies:
  assumes "decimal_laws D" and "engine_wf engine" and "specs_ok engine" and "catalog_wf catalog"
    and known: "\<And>iid. listed catalog iid \<Longrightarrow> bt_contains (es_instruments engine) iid"
    and "fst (parse_public catalog payload c) = Ok events"
  shows "batch_closure D events engine = (Ok (), foldl (\<lambda>st e. snd (apply_public_event D e st)) engine events)"
proof -
  have sound: "list_all (public_sound catalog) events"
    using public_frames [OF assms(4), of payload c] assms(6) by simp
  then have "list_all (\<lambda>e. \<not> event_unknown engine e) events"
    using listed_event_known [OF assms(2), of catalog, OF _ known] by (simp add: list_all_iff public_sound_def)
  moreover have "list_all event_i64 events" using sound by (simp add: list_all_iff public_sound_def)
  ultimately show ?thesis using batch_closure_outcome [OF assms(1-3), of events] by simp
qed

end

text \<open>An adapter that survives every payload.\<close>

locale total_adapter = venue_adapter +
  assumes public_total: "catalog_wf catalog \<Longrightarrow> fst (parse_public catalog payload c) \<noteq> Panic"
    and private_total: "catalog_wf catalog \<Longrightarrow> parse_private catalog payload \<noteq> Panic"
begin

lemma public_yields:
  "catalog_wf catalog \<Longrightarrow> yields (list_all (public_sound catalog)) (fst (parse_public catalog payload c))"
  by (simp add: yields_iff public_frames public_total)

lemma classify_total: "classify_command catalog operation payload rid \<noteq> Panic"
  using answered [of operation rid catalog "the payload"] unanswered [of catalog operation rid]
  by (cases payload) (simp_all add: yields_iff)

end


end
