(* ===== verification/Binance_Native.thy ===== *)
theory Binance_Native
  imports Json_Value
begin

text \<open>
  \<^verbatim>\<open>bat-markets-binance/src/native.rs\<close>: the messages of the venue with the readers that serde
  derives for them, and the two tagged unions of the websocket streams.
\<close>

record BinanceTickerEvent =
  bn_te_event_time :: i64
  bn_te_symbol :: string
  bn_te_last_price :: string
  bn_te_volume_24h :: string
  bn_te_quote_volume_24h :: string

definition read_BinanceTickerEvent :: "BinanceTickerEvent json_reader" where
  "read_BinanceTickerEvent v = do {
     v_event_time \<leftarrow> req_field ''E'' json_as_i64 v;
     v_symbol \<leftarrow> req_field ''s'' json_as_str v;
     v_last_price \<leftarrow> req_field ''c'' json_as_str v;
     v_volume_24h \<leftarrow> req_field ''v'' json_as_str v;
     v_quote_volume_24h \<leftarrow> req_field ''q'' json_as_str v;
     Some \<lparr>bn_te_event_time = v_event_time,
       bn_te_symbol = v_symbol,
       bn_te_last_price = v_last_price,
       bn_te_volume_24h = v_volume_24h,
       bn_te_quote_volume_24h = v_quote_volume_24h\<rparr>}"

record BinanceAggTradeEvent =
  bn_ate_event_time :: i64
  bn_ate_symbol :: string
  bn_ate_agg_trade_id :: i64
  bn_ate_price :: string
  bn_ate_quantity :: string
  bn_ate_trade_time :: i64
  bn_ate_is_buyer_maker :: bool

definition read_BinanceAggTradeEvent :: "BinanceAggTradeEvent json_reader" where
  "read_BinanceAggTradeEvent v = do {
     v_event_time \<leftarrow> req_field ''E'' json_as_i64 v;
     v_symbol \<leftarrow> req_field ''s'' json_as_str v;
     v_agg_trade_id \<leftarrow> req_field ''a'' json_as_i64 v;
     v_price \<leftarrow> req_field ''p'' json_as_str v;
     v_quantity \<leftarrow> req_field ''q'' json_as_str v;
     v_trade_time \<leftarrow> req_field ''T'' json_as_i64 v;
     v_is_buyer_maker \<leftarrow> req_field ''m'' json_as_bool v;
     Some \<lparr>bn_ate_event_time = v_event_time,
       bn_ate_symbol = v_symbol,
       bn_ate_agg_trade_id = v_agg_trade_id,
       bn_ate_price = v_price,
       bn_ate_quantity = v_quantity,
       bn_ate_trade_time = v_trade_time,
       bn_ate_is_buyer_maker = v_is_buyer_maker\<rparr>}"

record BinanceBookTickerEvent =
  bn_bte_transaction_time :: i64
  bn_bte_symbol :: string
  bn_bte_best_bid_price :: string
  bn_bte_best_bid_qty :: string
  bn_bte_best_ask_price :: string
  bn_bte_best_ask_qty :: string

definition read_BinanceBookTickerEvent :: "BinanceBookTickerEvent json_reader" where
  "read_BinanceBookTickerEvent v = do {
     v_transaction_time \<leftarrow> req_field ''T'' json_as_i64 v;
     v_symbol \<leftarrow> req_field ''s'' json_as_str v;
     v_best_bid_price \<leftarrow> req_field ''b'' json_as_str v;
     v_best_bid_qty \<leftarrow> req_field ''B'' json_as_str v;
     v_best_ask_price \<leftarrow> req_field ''a'' json_as_str v;
     v_best_ask_qty \<leftarrow> req_field ''A'' json_as_str v;
     Some \<lparr>bn_bte_transaction_time = v_transaction_time,
       bn_bte_symbol = v_symbol,
       bn_bte_best_bid_price = v_best_bid_price,
       bn_bte_best_bid_qty = v_best_bid_qty,
       bn_bte_best_ask_price = v_best_ask_price,
       bn_bte_best_ask_qty = v_best_ask_qty\<rparr>}"

record BinanceDepthEvent =
  bn_de_event_time :: i64
  bn_de_symbol :: string
  bn_de_first_update_id :: i64
  bn_de_final_update_id :: i64
  bn_de_previous_final_update_id :: "i64 option"
  bn_de_bids :: "(string \<times> string) list"
  bn_de_asks :: "(string \<times> string) list"

definition read_BinanceDepthEvent :: "BinanceDepthEvent json_reader" where
  "read_BinanceDepthEvent v = do {
     v_event_time \<leftarrow> req_field ''E'' json_as_i64 v;
     v_symbol \<leftarrow> req_field ''s'' json_as_str v;
     v_first_update_id \<leftarrow> req_field ''U'' json_as_i64 v;
     v_final_update_id \<leftarrow> req_field ''u'' json_as_i64 v;
     v_previous_final_update_id \<leftarrow> opt_field ''pu'' json_as_i64 v;
     v_bids \<leftarrow> req_field ''b'' (json_as_vec (json_as_pair json_as_str)) v;
     v_asks \<leftarrow> req_field ''a'' (json_as_vec (json_as_pair json_as_str)) v;
     Some \<lparr>bn_de_event_time = v_event_time,
       bn_de_symbol = v_symbol,
       bn_de_first_update_id = v_first_update_id,
       bn_de_final_update_id = v_final_update_id,
       bn_de_previous_final_update_id = v_previous_final_update_id,
       bn_de_bids = v_bids,
       bn_de_asks = v_asks\<rparr>}"

record BinanceKlineData =
  bn_kd_interval :: string
  bn_kd_open_time :: i64
  bn_kd_close_time :: i64
  bn_kd_open :: string
  bn_kd_high :: string
  bn_kd_low :: string
  bn_kd_close :: string
  bn_kd_volume :: string
  bn_kd_closed :: bool

definition read_BinanceKlineData :: "BinanceKlineData json_reader" where
  "read_BinanceKlineData v = do {
     v_interval \<leftarrow> req_field ''i'' json_as_str v;
     v_open_time \<leftarrow> req_field ''t'' json_as_i64 v;
     v_close_time \<leftarrow> req_field ''T'' json_as_i64 v;
     v_open \<leftarrow> req_field ''o'' json_as_str v;
     v_high \<leftarrow> req_field ''h'' json_as_str v;
     v_low \<leftarrow> req_field ''l'' json_as_str v;
     v_close \<leftarrow> req_field ''c'' json_as_str v;
     v_volume \<leftarrow> req_field ''v'' json_as_str v;
     v_closed \<leftarrow> req_field ''x'' json_as_bool v;
     Some \<lparr>bn_kd_interval = v_interval,
       bn_kd_open_time = v_open_time,
       bn_kd_close_time = v_close_time,
       bn_kd_open = v_open,
       bn_kd_high = v_high,
       bn_kd_low = v_low,
       bn_kd_close = v_close,
       bn_kd_volume = v_volume,
       bn_kd_closed = v_closed\<rparr>}"

record BinanceKlineEvent =
  bn_ke_event_time :: i64
  bn_ke_symbol :: string
  bn_ke_kline :: BinanceKlineData

definition read_BinanceKlineEvent :: "BinanceKlineEvent json_reader" where
  "read_BinanceKlineEvent v = do {
     v_event_time \<leftarrow> req_field ''E'' json_as_i64 v;
     v_symbol \<leftarrow> req_field ''s'' json_as_str v;
     v_kline \<leftarrow> req_field ''k'' read_BinanceKlineData v;
     Some \<lparr>bn_ke_event_time = v_event_time,
       bn_ke_symbol = v_symbol,
       bn_ke_kline = v_kline\<rparr>}"

record BinanceMarkPriceEvent =
  bn_mpe_event_time :: i64
  bn_mpe_symbol :: string
  bn_mpe_mark_price :: string
  bn_mpe_funding_rate :: string

definition read_BinanceMarkPriceEvent :: "BinanceMarkPriceEvent json_reader" where
  "read_BinanceMarkPriceEvent v = do {
     v_event_time \<leftarrow> req_field ''E'' json_as_i64 v;
     v_symbol \<leftarrow> req_field ''s'' json_as_str v;
     v_mark_price \<leftarrow> req_field ''p'' json_as_str v;
     v_funding_rate \<leftarrow> req_field ''r'' json_as_str v;
     Some \<lparr>bn_mpe_event_time = v_event_time,
       bn_mpe_symbol = v_symbol,
       bn_mpe_mark_price = v_mark_price,
       bn_mpe_funding_rate = v_funding_rate\<rparr>}"

record BinanceForceOrderData =
  bn_fod_symbol :: string
  bn_fod_side :: string
  bn_fod_quantity :: string
  bn_fod_price :: string
  bn_fod_average_price :: string
  bn_fod_cumulative_filled_qty :: string
  bn_fod_trade_time :: i64

definition read_BinanceForceOrderData :: "BinanceForceOrderData json_reader" where
  "read_BinanceForceOrderData v = do {
     v_symbol \<leftarrow> req_field ''s'' json_as_str v;
     v_side \<leftarrow> req_field ''S'' json_as_str v;
     v_quantity \<leftarrow> req_field ''q'' json_as_str v;
     v_price \<leftarrow> req_field ''p'' json_as_str v;
     v_average_price \<leftarrow> req_field ''ap'' json_as_str v;
     v_cumulative_filled_qty \<leftarrow> req_field ''z'' json_as_str v;
     v_trade_time \<leftarrow> req_field ''T'' json_as_i64 v;
     Some \<lparr>bn_fod_symbol = v_symbol,
       bn_fod_side = v_side,
       bn_fod_quantity = v_quantity,
       bn_fod_price = v_price,
       bn_fod_average_price = v_average_price,
       bn_fod_cumulative_filled_qty = v_cumulative_filled_qty,
       bn_fod_trade_time = v_trade_time\<rparr>}"

record BinanceForceOrderEvent =
  bn_foe_event_time :: i64
  bn_foe_order :: BinanceForceOrderData

definition read_BinanceForceOrderEvent :: "BinanceForceOrderEvent json_reader" where
  "read_BinanceForceOrderEvent v = do {
     v_event_time \<leftarrow> req_field ''E'' json_as_i64 v;
     v_order \<leftarrow> req_field ''o'' read_BinanceForceOrderData v;
     Some \<lparr>bn_foe_event_time = v_event_time,
       bn_foe_order = v_order\<rparr>}"

record BinanceOpenInterestSnapshot =
  bn_ois_symbol :: string
  bn_ois_open_interest :: string
  bn_ois_time :: i64

definition read_BinanceOpenInterestSnapshot :: "BinanceOpenInterestSnapshot json_reader" where
  "read_BinanceOpenInterestSnapshot v = do {
     v_symbol \<leftarrow> req_field ''symbol'' json_as_str v;
     v_open_interest \<leftarrow> req_field ''openInterest'' json_as_str v;
     v_time \<leftarrow> req_field ''time'' json_as_i64 v;
     Some \<lparr>bn_ois_symbol = v_symbol,
       bn_ois_open_interest = v_open_interest,
       bn_ois_time = v_time\<rparr>}"

record BinanceTickerSnapshot =
  bn_ts_symbol :: string
  bn_ts_last_price :: string
  bn_ts_volume :: string
  bn_ts_quote_volume :: string
  bn_ts_close_time :: i64

definition read_BinanceTickerSnapshot :: "BinanceTickerSnapshot json_reader" where
  "read_BinanceTickerSnapshot v = do {
     v_symbol \<leftarrow> req_field ''symbol'' json_as_str v;
     v_last_price \<leftarrow> req_field ''lastPrice'' json_as_str v;
     v_volume \<leftarrow> req_field ''volume'' json_as_str v;
     v_quote_volume \<leftarrow> req_field ''quoteVolume'' json_as_str v;
     v_close_time \<leftarrow> req_field ''closeTime'' json_as_i64 v;
     Some \<lparr>bn_ts_symbol = v_symbol,
       bn_ts_last_price = v_last_price,
       bn_ts_volume = v_volume,
       bn_ts_quote_volume = v_quote_volume,
       bn_ts_close_time = v_close_time\<rparr>}"

record BinanceAggTradeSnapshot =
  bn_ats_agg_trade_id :: i64
  bn_ats_price :: string
  bn_ats_quantity :: string
  bn_ats_trade_time :: i64
  bn_ats_is_buyer_maker :: bool

definition read_BinanceAggTradeSnapshot :: "BinanceAggTradeSnapshot json_reader" where
  "read_BinanceAggTradeSnapshot v = do {
     v_agg_trade_id \<leftarrow> req_field ''a'' json_as_i64 v;
     v_price \<leftarrow> req_field ''p'' json_as_str v;
     v_quantity \<leftarrow> req_field ''q'' json_as_str v;
     v_trade_time \<leftarrow> req_field ''T'' json_as_i64 v;
     v_is_buyer_maker \<leftarrow> req_field ''m'' json_as_bool v;
     Some \<lparr>bn_ats_agg_trade_id = v_agg_trade_id,
       bn_ats_price = v_price,
       bn_ats_quantity = v_quantity,
       bn_ats_trade_time = v_trade_time,
       bn_ats_is_buyer_maker = v_is_buyer_maker\<rparr>}"

record BinanceBookTickerSnapshot =
  bn_bts_symbol :: string
  bn_bts_bid_price :: string
  bn_bts_bid_qty :: string
  bn_bts_ask_price :: string
  bn_bts_ask_qty :: string
  bn_bts_time :: i64

definition read_BinanceBookTickerSnapshot :: "BinanceBookTickerSnapshot json_reader" where
  "read_BinanceBookTickerSnapshot v = do {
     v_symbol \<leftarrow> req_field ''symbol'' json_as_str v;
     v_bid_price \<leftarrow> req_field ''bidPrice'' json_as_str v;
     v_bid_qty \<leftarrow> req_field ''bidQty'' json_as_str v;
     v_ask_price \<leftarrow> req_field ''askPrice'' json_as_str v;
     v_ask_qty \<leftarrow> req_field ''askQty'' json_as_str v;
     v_time \<leftarrow> req_field ''time'' json_as_i64 v;
     Some \<lparr>bn_bts_symbol = v_symbol,
       bn_bts_bid_price = v_bid_price,
       bn_bts_bid_qty = v_bid_qty,
       bn_bts_ask_price = v_ask_price,
       bn_bts_ask_qty = v_ask_qty,
       bn_bts_time = v_time\<rparr>}"

record BinanceServerTimeResponse =
  bn_str_server_time :: i64

definition read_BinanceServerTimeResponse :: "BinanceServerTimeResponse json_reader" where
  "read_BinanceServerTimeResponse v = do {
     v_server_time \<leftarrow> req_field ''serverTime'' json_as_i64 v;
     Some \<lparr>bn_str_server_time = v_server_time\<rparr>}"

record BinanceExchangeFilter =
  bn_ef_filter_type :: string
  bn_ef_tick_size :: "string option"
  bn_ef_step_size :: "string option"
  bn_ef_min_qty :: "string option"
  bn_ef_notional :: "string option"

definition read_BinanceExchangeFilter :: "BinanceExchangeFilter json_reader" where
  "read_BinanceExchangeFilter v = do {
     v_filter_type \<leftarrow> req_field ''filterType'' json_as_str v;
     v_tick_size \<leftarrow> opt_field ''tickSize'' json_as_str v;
     v_step_size \<leftarrow> opt_field ''stepSize'' json_as_str v;
     v_min_qty \<leftarrow> opt_field ''minQty'' json_as_str v;
     v_notional \<leftarrow> opt_field ''notional'' json_as_str v;
     Some \<lparr>bn_ef_filter_type = v_filter_type,
       bn_ef_tick_size = v_tick_size,
       bn_ef_step_size = v_step_size,
       bn_ef_min_qty = v_min_qty,
       bn_ef_notional = v_notional\<rparr>}"

record BinanceExchangeSymbol =
  bn_es_symbol :: string
  bn_es_contract_type :: string
  bn_es_status :: string
  bn_es_base_asset :: string
  bn_es_quote_asset :: string
  bn_es_margin_asset :: string
  bn_es_quote_precision :: u32
  bn_es_filters :: "BinanceExchangeFilter list"

definition read_BinanceExchangeSymbol :: "BinanceExchangeSymbol json_reader" where
  "read_BinanceExchangeSymbol v = do {
     v_symbol \<leftarrow> req_field ''symbol'' json_as_str v;
     v_contract_type \<leftarrow> req_field ''contractType'' json_as_str v;
     v_status \<leftarrow> req_field ''status'' json_as_str v;
     v_base_asset \<leftarrow> req_field ''baseAsset'' json_as_str v;
     v_quote_asset \<leftarrow> req_field ''quoteAsset'' json_as_str v;
     v_margin_asset \<leftarrow> req_field ''marginAsset'' json_as_str v;
     v_quote_precision \<leftarrow> req_field ''quotePrecision'' json_as_u32 v;
     v_filters \<leftarrow> req_field ''filters'' (json_as_vec read_BinanceExchangeFilter) v;
     Some \<lparr>bn_es_symbol = v_symbol,
       bn_es_contract_type = v_contract_type,
       bn_es_status = v_status,
       bn_es_base_asset = v_base_asset,
       bn_es_quote_asset = v_quote_asset,
       bn_es_margin_asset = v_margin_asset,
       bn_es_quote_precision = v_quote_precision,
       bn_es_filters = v_filters\<rparr>}"

record BinanceExchangeInfoResponse =
  bn_eir_symbols :: "BinanceExchangeSymbol list"

definition read_BinanceExchangeInfoResponse :: "BinanceExchangeInfoResponse json_reader" where
  "read_BinanceExchangeInfoResponse v = do {
     v_symbols \<leftarrow> req_field ''symbols'' (json_as_vec read_BinanceExchangeSymbol) v;
     Some \<lparr>bn_eir_symbols = v_symbols\<rparr>}"

record BinanceAccountBalance =
  bn_ab_asset :: string
  bn_ab_wallet_balance :: string
  bn_ab_cross_wallet_balance :: string

definition read_BinanceAccountBalance :: "BinanceAccountBalance json_reader" where
  "read_BinanceAccountBalance v = do {
     v_asset \<leftarrow> req_field ''a'' json_as_str v;
     v_wallet_balance \<leftarrow> req_field ''wb'' json_as_str v;
     v_cross_wallet_balance \<leftarrow> req_field ''cw'' json_as_str v;
     Some \<lparr>bn_ab_asset = v_asset,
       bn_ab_wallet_balance = v_wallet_balance,
       bn_ab_cross_wallet_balance = v_cross_wallet_balance\<rparr>}"

record BinanceAccountPosition =
  bn_ap_symbol :: string
  bn_ap_position_amount :: string
  bn_ap_entry_price :: "string option"
  bn_ap_unrealized_pnl :: string
  bn_ap_margin_type :: string
  bn_ap_position_side :: string

definition read_BinanceAccountPosition :: "BinanceAccountPosition json_reader" where
  "read_BinanceAccountPosition v = do {
     v_symbol \<leftarrow> req_field ''s'' json_as_str v;
     v_position_amount \<leftarrow> req_field ''pa'' json_as_str v;
     v_entry_price \<leftarrow> opt_field ''ep'' json_as_str v;
     v_unrealized_pnl \<leftarrow> req_field ''up'' json_as_str v;
     v_margin_type \<leftarrow> req_field ''mt'' json_as_str v;
     v_position_side \<leftarrow> req_field ''ps'' json_as_str v;
     Some \<lparr>bn_ap_symbol = v_symbol,
       bn_ap_position_amount = v_position_amount,
       bn_ap_entry_price = v_entry_price,
       bn_ap_unrealized_pnl = v_unrealized_pnl,
       bn_ap_margin_type = v_margin_type,
       bn_ap_position_side = v_position_side\<rparr>}"

record BinanceAccountUpdateData =
  bn_aud_balances :: "BinanceAccountBalance list"
  bn_aud_positions :: "BinanceAccountPosition list"

definition read_BinanceAccountUpdateData :: "BinanceAccountUpdateData json_reader" where
  "read_BinanceAccountUpdateData v = do {
     v_balances \<leftarrow> req_field ''B'' (json_as_vec read_BinanceAccountBalance) v;
     v_positions \<leftarrow> req_field ''P'' (json_as_vec read_BinanceAccountPosition) v;
     Some \<lparr>bn_aud_balances = v_balances,
       bn_aud_positions = v_positions\<rparr>}"

record BinanceAccountUpdateEvent =
  bn_aue_event_time :: i64
  bn_aue_transaction_time :: i64
  bn_aue_account :: BinanceAccountUpdateData

definition read_BinanceAccountUpdateEvent :: "BinanceAccountUpdateEvent json_reader" where
  "read_BinanceAccountUpdateEvent v = do {
     v_event_time \<leftarrow> req_field ''E'' json_as_i64 v;
     v_transaction_time \<leftarrow> req_field ''T'' json_as_i64 v;
     v_account \<leftarrow> req_field ''a'' read_BinanceAccountUpdateData v;
     Some \<lparr>bn_aue_event_time = v_event_time,
       bn_aue_transaction_time = v_transaction_time,
       bn_aue_account = v_account\<rparr>}"

record BinanceAccountAssetSnapshot =
  bn_aas_asset :: string
  bn_aas_wallet_balance :: string
  bn_aas_available_balance :: string

definition read_BinanceAccountAssetSnapshot :: "BinanceAccountAssetSnapshot json_reader" where
  "read_BinanceAccountAssetSnapshot v = do {
     v_asset \<leftarrow> req_field ''asset'' json_as_str v;
     v_wallet_balance \<leftarrow> req_field ''walletBalance'' json_as_str v;
     v_available_balance \<leftarrow> req_field ''availableBalance'' json_as_str v;
     Some \<lparr>bn_aas_asset = v_asset,
       bn_aas_wallet_balance = v_wallet_balance,
       bn_aas_available_balance = v_available_balance\<rparr>}"

record BinanceAccountPositionSnapshot =
  bn_aps_symbol :: string
  bn_aps_position_amount :: string
  bn_aps_entry_price :: "string option"
  bn_aps_unrealized_profit :: "string option"
  bn_aps_leverage :: "string option"
  bn_aps_margin_type :: "string option"
  bn_aps_isolated :: "bool option"
  bn_aps_isolated_margin :: "string option"
  bn_aps_isolated_wallet :: "string option"
  bn_aps_position_side :: string

definition read_BinanceAccountPositionSnapshot :: "BinanceAccountPositionSnapshot json_reader" where
  "read_BinanceAccountPositionSnapshot v = do {
     v_symbol \<leftarrow> req_field ''symbol'' json_as_str v;
     v_position_amount \<leftarrow> req_field ''positionAmt'' json_as_str v;
     v_entry_price \<leftarrow> opt_field ''entryPrice'' json_as_str v;
     v_unrealized_profit \<leftarrow> opt_field ''unrealizedProfit'' json_as_str v;
     v_leverage \<leftarrow> opt_field ''leverage'' json_as_str v;
     v_margin_type \<leftarrow> opt_field ''marginType'' json_as_str v;
     v_isolated \<leftarrow> opt_field ''isolated'' json_as_bool v;
     v_isolated_margin \<leftarrow> opt_field ''isolatedMargin'' json_as_str v;
     v_isolated_wallet \<leftarrow> opt_field ''isolatedWallet'' json_as_str v;
     v_position_side \<leftarrow> req_field ''positionSide'' json_as_str v;
     Some \<lparr>bn_aps_symbol = v_symbol,
       bn_aps_position_amount = v_position_amount,
       bn_aps_entry_price = v_entry_price,
       bn_aps_unrealized_profit = v_unrealized_profit,
       bn_aps_leverage = v_leverage,
       bn_aps_margin_type = v_margin_type,
       bn_aps_isolated = v_isolated,
       bn_aps_isolated_margin = v_isolated_margin,
       bn_aps_isolated_wallet = v_isolated_wallet,
       bn_aps_position_side = v_position_side\<rparr>}"

record BinanceAccountInfoResponse =
  bn_air_total_wallet_balance :: string
  bn_air_available_balance :: string
  bn_air_total_unrealized_profit :: string
  bn_air_assets :: "BinanceAccountAssetSnapshot list"
  bn_air_positions :: "BinanceAccountPositionSnapshot list"

definition read_BinanceAccountInfoResponse :: "BinanceAccountInfoResponse json_reader" where
  "read_BinanceAccountInfoResponse v = do {
     v_total_wallet_balance \<leftarrow> req_field ''totalWalletBalance'' json_as_str v;
     v_available_balance \<leftarrow> req_field ''availableBalance'' json_as_str v;
     v_total_unrealized_profit \<leftarrow> req_field ''totalUnrealizedProfit'' json_as_str v;
     v_assets \<leftarrow> req_field ''assets'' (json_as_vec read_BinanceAccountAssetSnapshot) v;
     v_positions \<leftarrow> req_field ''positions'' (json_as_vec read_BinanceAccountPositionSnapshot) v;
     Some \<lparr>bn_air_total_wallet_balance = v_total_wallet_balance,
       bn_air_available_balance = v_available_balance,
       bn_air_total_unrealized_profit = v_total_unrealized_profit,
       bn_air_assets = v_assets,
       bn_air_positions = v_positions\<rparr>}"

record BinanceOrderTradeData =
  bn_otd_symbol :: string
  bn_otd_client_order_id :: string
  bn_otd_side :: string
  bn_otd_order_type :: string
  bn_otd_time_in_force :: string
  bn_otd_original_quantity :: string
  bn_otd_price :: string
  bn_otd_average_price :: "string option"
  bn_otd_execution_type :: string
  bn_otd_order_status :: string
  bn_otd_order_id :: i64
  bn_otd_last_filled_qty :: string
  bn_otd_cumulative_filled_qty :: string
  bn_otd_last_filled_price :: string
  bn_otd_commission :: "string option"
  bn_otd_commission_asset :: "string option"
  bn_otd_trade_time :: i64
  bn_otd_trade_id :: "i64 option"
  bn_otd_reduce_only :: bool
  bn_otd_order_trade_time :: "i64 option"

definition read_BinanceOrderTradeData :: "BinanceOrderTradeData json_reader" where
  "read_BinanceOrderTradeData v = do {
     v_symbol \<leftarrow> req_field ''s'' json_as_str v;
     v_client_order_id \<leftarrow> req_field ''c'' json_as_str v;
     v_side \<leftarrow> req_field ''S'' json_as_str v;
     v_order_type \<leftarrow> req_field ''o'' json_as_str v;
     v_time_in_force \<leftarrow> req_field ''f'' json_as_str v;
     v_original_quantity \<leftarrow> req_field ''q'' json_as_str v;
     v_price \<leftarrow> req_field ''p'' json_as_str v;
     v_average_price \<leftarrow> opt_field ''ap'' json_as_str v;
     v_execution_type \<leftarrow> req_field ''x'' json_as_str v;
     v_order_status \<leftarrow> req_field ''X'' json_as_str v;
     v_order_id \<leftarrow> req_field ''i'' json_as_i64 v;
     v_last_filled_qty \<leftarrow> req_field ''l'' json_as_str v;
     v_cumulative_filled_qty \<leftarrow> req_field ''z'' json_as_str v;
     v_last_filled_price \<leftarrow> req_field ''L'' json_as_str v;
     v_commission \<leftarrow> opt_field ''n'' json_as_str v;
     v_commission_asset \<leftarrow> opt_field ''N'' json_as_str v;
     v_trade_time \<leftarrow> req_field ''T'' json_as_i64 v;
     v_trade_id \<leftarrow> opt_field ''t'' json_as_i64 v;
     v_reduce_only \<leftarrow> req_field ''R'' json_as_bool v;
     v_order_trade_time \<leftarrow> opt_field ''O'' json_as_i64 v;
     Some \<lparr>bn_otd_symbol = v_symbol,
       bn_otd_client_order_id = v_client_order_id,
       bn_otd_side = v_side,
       bn_otd_order_type = v_order_type,
       bn_otd_time_in_force = v_time_in_force,
       bn_otd_original_quantity = v_original_quantity,
       bn_otd_price = v_price,
       bn_otd_average_price = v_average_price,
       bn_otd_execution_type = v_execution_type,
       bn_otd_order_status = v_order_status,
       bn_otd_order_id = v_order_id,
       bn_otd_last_filled_qty = v_last_filled_qty,
       bn_otd_cumulative_filled_qty = v_cumulative_filled_qty,
       bn_otd_last_filled_price = v_last_filled_price,
       bn_otd_commission = v_commission,
       bn_otd_commission_asset = v_commission_asset,
       bn_otd_trade_time = v_trade_time,
       bn_otd_trade_id = v_trade_id,
       bn_otd_reduce_only = v_reduce_only,
       bn_otd_order_trade_time = v_order_trade_time\<rparr>}"

record BinanceOrderTradeUpdateEvent =
  bn_otue_order :: BinanceOrderTradeData

definition read_BinanceOrderTradeUpdateEvent :: "BinanceOrderTradeUpdateEvent json_reader" where
  "read_BinanceOrderTradeUpdateEvent v = do {
     v_order \<leftarrow> req_field ''o'' read_BinanceOrderTradeData v;
     Some \<lparr>bn_otue_order = v_order\<rparr>}"

record BinanceTradeLiteEvent =
  bn_tle_event_time :: i64
  bn_tle_trade_time :: i64
  bn_tle_symbol :: string
  bn_tle_original_quantity :: string
  bn_tle_price :: string
  bn_tle_is_maker :: bool
  bn_tle_client_order_id :: string
  bn_tle_side :: string
  bn_tle_last_filled_price :: string
  bn_tle_last_filled_qty :: string
  bn_tle_trade_id :: i64
  bn_tle_order_id :: i64

definition read_BinanceTradeLiteEvent :: "BinanceTradeLiteEvent json_reader" where
  "read_BinanceTradeLiteEvent v = do {
     v_event_time \<leftarrow> req_field ''E'' json_as_i64 v;
     v_trade_time \<leftarrow> req_field ''T'' json_as_i64 v;
     v_symbol \<leftarrow> req_field ''s'' json_as_str v;
     v_original_quantity \<leftarrow> req_field ''q'' json_as_str v;
     v_price \<leftarrow> req_field ''p'' json_as_str v;
     v_is_maker \<leftarrow> req_field ''m'' json_as_bool v;
     v_client_order_id \<leftarrow> req_field ''c'' json_as_str v;
     v_side \<leftarrow> req_field ''S'' json_as_str v;
     v_last_filled_price \<leftarrow> req_field ''L'' json_as_str v;
     v_last_filled_qty \<leftarrow> req_field ''l'' json_as_str v;
     v_trade_id \<leftarrow> req_field ''t'' json_as_i64 v;
     v_order_id \<leftarrow> req_field ''i'' json_as_i64 v;
     Some \<lparr>bn_tle_event_time = v_event_time,
       bn_tle_trade_time = v_trade_time,
       bn_tle_symbol = v_symbol,
       bn_tle_original_quantity = v_original_quantity,
       bn_tle_price = v_price,
       bn_tle_is_maker = v_is_maker,
       bn_tle_client_order_id = v_client_order_id,
       bn_tle_side = v_side,
       bn_tle_last_filled_price = v_last_filled_price,
       bn_tle_last_filled_qty = v_last_filled_qty,
       bn_tle_trade_id = v_trade_id,
       bn_tle_order_id = v_order_id\<rparr>}"

record BinanceAlgoOrderUpdateData =
  bn_aoud_client_algo_id :: string
  bn_aoud_algo_id :: i64
  bn_aoud_order_type :: string
  bn_aoud_symbol :: string
  bn_aoud_side :: string
  bn_aoud_position_side :: string
  bn_aoud_time_in_force :: "string option"
  bn_aoud_quantity :: string
  bn_aoud_algo_status :: string
  bn_aoud_actual_order_id :: "string option"
  bn_aoud_average_price :: "string option"
  bn_aoud_executed_quantity :: "string option"
  bn_aoud_price :: "string option"
  bn_aoud_trigger_price :: string
  bn_aoud_working_type :: "string option"
  bn_aoud_close_position :: bool
  bn_aoud_price_protect :: bool
  bn_aoud_reduce_only :: bool
  bn_aoud_trigger_time :: "i64 option"
  bn_aoud_reject_message :: "string option"

definition read_BinanceAlgoOrderUpdateData :: "BinanceAlgoOrderUpdateData json_reader" where
  "read_BinanceAlgoOrderUpdateData v = do {
     v_client_algo_id \<leftarrow> req_field ''caid'' json_as_str v;
     v_algo_id \<leftarrow> req_field ''aid'' json_as_i64 v;
     v_order_type \<leftarrow> req_field ''o'' json_as_str v;
     v_symbol \<leftarrow> req_field ''s'' json_as_str v;
     v_side \<leftarrow> req_field ''S'' json_as_str v;
     v_position_side \<leftarrow> req_field ''ps'' json_as_str v;
     v_time_in_force \<leftarrow> opt_field ''f'' json_as_str v;
     v_quantity \<leftarrow> req_field ''q'' json_as_str v;
     v_algo_status \<leftarrow> req_field ''X'' json_as_str v;
     v_actual_order_id \<leftarrow> opt_field ''ai'' json_as_str v;
     v_average_price \<leftarrow> opt_field ''ap'' json_as_str v;
     v_executed_quantity \<leftarrow> opt_field ''aq'' json_as_str v;
     v_price \<leftarrow> opt_field ''p'' json_as_str v;
     v_trigger_price \<leftarrow> req_field ''tp'' json_as_str v;
     v_working_type \<leftarrow> opt_field ''wt'' json_as_str v;
     v_close_position \<leftarrow> req_field ''cp'' json_as_bool v;
     v_price_protect \<leftarrow> req_field ''pP'' json_as_bool v;
     v_reduce_only \<leftarrow> req_field ''R'' json_as_bool v;
     v_trigger_time \<leftarrow> opt_field ''tt'' json_as_i64 v;
     v_reject_message \<leftarrow> opt_field ''rm'' json_as_str v;
     Some \<lparr>bn_aoud_client_algo_id = v_client_algo_id,
       bn_aoud_algo_id = v_algo_id,
       bn_aoud_order_type = v_order_type,
       bn_aoud_symbol = v_symbol,
       bn_aoud_side = v_side,
       bn_aoud_position_side = v_position_side,
       bn_aoud_time_in_force = v_time_in_force,
       bn_aoud_quantity = v_quantity,
       bn_aoud_algo_status = v_algo_status,
       bn_aoud_actual_order_id = v_actual_order_id,
       bn_aoud_average_price = v_average_price,
       bn_aoud_executed_quantity = v_executed_quantity,
       bn_aoud_price = v_price,
       bn_aoud_trigger_price = v_trigger_price,
       bn_aoud_working_type = v_working_type,
       bn_aoud_close_position = v_close_position,
       bn_aoud_price_protect = v_price_protect,
       bn_aoud_reduce_only = v_reduce_only,
       bn_aoud_trigger_time = v_trigger_time,
       bn_aoud_reject_message = v_reject_message\<rparr>}"

record BinanceAlgoOrderUpdateEvent =
  bn_aoue_event_time :: i64
  bn_aoue_transaction_time :: i64
  bn_aoue_order :: BinanceAlgoOrderUpdateData

definition read_BinanceAlgoOrderUpdateEvent :: "BinanceAlgoOrderUpdateEvent json_reader" where
  "read_BinanceAlgoOrderUpdateEvent v = do {
     v_event_time \<leftarrow> req_field ''E'' json_as_i64 v;
     v_transaction_time \<leftarrow> req_field ''T'' json_as_i64 v;
     v_order \<leftarrow> req_field ''o'' read_BinanceAlgoOrderUpdateData v;
     Some \<lparr>bn_aoue_event_time = v_event_time,
       bn_aoue_transaction_time = v_transaction_time,
       bn_aoue_order = v_order\<rparr>}"

record BinanceErrorResponse =
  bn_er_code :: i64
  bn_er_message :: string

definition read_BinanceErrorResponse :: "BinanceErrorResponse json_reader" where
  "read_BinanceErrorResponse v = do {
     v_code \<leftarrow> req_field ''code'' json_as_i64 v;
     v_message \<leftarrow> req_field ''msg'' json_as_str v;
     Some \<lparr>bn_er_code = v_code,
       bn_er_message = v_message\<rparr>}"

record BinanceOrderResponse =
  bn_or_symbol :: string
  bn_or_order_id :: i64
  bn_or_client_order_id :: string

definition read_BinanceOrderResponse :: "BinanceOrderResponse json_reader" where
  "read_BinanceOrderResponse v = do {
     v_symbol \<leftarrow> req_field ''symbol'' json_as_str v;
     v_order_id \<leftarrow> req_field ''orderId'' json_as_i64 v;
     v_client_order_id \<leftarrow> req_field ''clientOrderId'' json_as_str v;
     Some \<lparr>bn_or_symbol = v_symbol,
       bn_or_order_id = v_order_id,
       bn_or_client_order_id = v_client_order_id\<rparr>}"

record BinanceAlgoOrderSnapshot =
  bn_aos_algo_id :: i64
  bn_aos_client_algo_id :: string
  bn_aos_order_type :: string
  bn_aos_symbol :: string
  bn_aos_side :: string
  bn_aos_position_side :: "string option"
  bn_aos_time_in_force :: "string option"
  bn_aos_quantity :: string
  bn_aos_algo_status :: string
  bn_aos_actual_order_id :: "string option"
  bn_aos_actual_price :: "string option"
  bn_aos_trigger_price :: "string option"
  bn_aos_price :: "string option"
  bn_aos_working_type :: "string option"
  bn_aos_close_position :: "bool option"
  bn_aos_price_protect :: "bool option"
  bn_aos_reduce_only :: "bool option"
  bn_aos_create_time :: i64
  bn_aos_update_time :: i64
  bn_aos_trigger_time :: "i64 option"

definition read_BinanceAlgoOrderSnapshot :: "BinanceAlgoOrderSnapshot json_reader" where
  "read_BinanceAlgoOrderSnapshot v = do {
     v_algo_id \<leftarrow> req_field ''algoId'' json_as_i64 v;
     v_client_algo_id \<leftarrow> req_field ''clientAlgoId'' json_as_str v;
     v_order_type \<leftarrow> req_field ''orderType'' json_as_str v;
     v_symbol \<leftarrow> req_field ''symbol'' json_as_str v;
     v_side \<leftarrow> req_field ''side'' json_as_str v;
     v_position_side \<leftarrow> opt_field ''positionSide'' json_as_str v;
     v_time_in_force \<leftarrow> opt_field ''timeInForce'' json_as_str v;
     v_quantity \<leftarrow> req_field ''quantity'' json_as_str v;
     v_algo_status \<leftarrow> req_field ''algoStatus'' json_as_str v;
     v_actual_order_id \<leftarrow> opt_field ''actualOrderId'' json_as_str v;
     v_actual_price \<leftarrow> opt_field ''actualPrice'' json_as_str v;
     v_trigger_price \<leftarrow> opt_field ''triggerPrice'' json_as_str v;
     v_price \<leftarrow> opt_field ''price'' json_as_str v;
     v_working_type \<leftarrow> opt_field ''workingType'' json_as_str v;
     v_close_position \<leftarrow> opt_field ''closePosition'' json_as_bool v;
     v_price_protect \<leftarrow> opt_field ''priceProtect'' json_as_bool v;
     v_reduce_only \<leftarrow> opt_field ''reduceOnly'' json_as_bool v;
     v_create_time \<leftarrow> req_field ''createTime'' json_as_i64 v;
     v_update_time \<leftarrow> req_field ''updateTime'' json_as_i64 v;
     v_trigger_time \<leftarrow> opt_field ''triggerTime'' json_as_i64 v;
     Some \<lparr>bn_aos_algo_id = v_algo_id,
       bn_aos_client_algo_id = v_client_algo_id,
       bn_aos_order_type = v_order_type,
       bn_aos_symbol = v_symbol,
       bn_aos_side = v_side,
       bn_aos_position_side = v_position_side,
       bn_aos_time_in_force = v_time_in_force,
       bn_aos_quantity = v_quantity,
       bn_aos_algo_status = v_algo_status,
       bn_aos_actual_order_id = v_actual_order_id,
       bn_aos_actual_price = v_actual_price,
       bn_aos_trigger_price = v_trigger_price,
       bn_aos_price = v_price,
       bn_aos_working_type = v_working_type,
       bn_aos_close_position = v_close_position,
       bn_aos_price_protect = v_price_protect,
       bn_aos_reduce_only = v_reduce_only,
       bn_aos_create_time = v_create_time,
       bn_aos_update_time = v_update_time,
       bn_aos_trigger_time = v_trigger_time\<rparr>}"

record BinanceCancelAlgoOrderResponse =
  bn_caor_algo_id :: i64
  bn_caor_client_algo_id :: string
  bn_caor_code :: "Json option"
  bn_caor_msg :: "string option"

definition read_BinanceCancelAlgoOrderResponse :: "BinanceCancelAlgoOrderResponse json_reader" where
  "read_BinanceCancelAlgoOrderResponse v = do {
     v_algo_id \<leftarrow> req_field ''algoId'' json_as_i64 v;
     v_client_algo_id \<leftarrow> req_field ''clientAlgoId'' json_as_str v;
     v_code \<leftarrow> opt_field ''code'' json_as_value v;
     v_msg \<leftarrow> opt_field ''msg'' json_as_str v;
     Some \<lparr>bn_caor_algo_id = v_algo_id,
       bn_caor_client_algo_id = v_client_algo_id,
       bn_caor_code = v_code,
       bn_caor_msg = v_msg\<rparr>}"

record BinanceOrderSnapshot =
  bn_os_symbol :: string
  bn_os_order_id :: i64
  bn_os_client_order_id :: string
  bn_os_side :: string
  bn_os_order_type :: string
  bn_os_time_in_force :: string
  bn_os_status :: string
  bn_os_price :: string
  bn_os_original_quantity :: string
  bn_os_executed_quantity :: string
  bn_os_average_price :: string
  bn_os_reduce_only :: bool
  bn_os_update_time :: i64
  bn_os_created_time :: "i64 option"

definition read_BinanceOrderSnapshot :: "BinanceOrderSnapshot json_reader" where
  "read_BinanceOrderSnapshot v = do {
     v_symbol \<leftarrow> req_field ''symbol'' json_as_str v;
     v_order_id \<leftarrow> req_field ''orderId'' json_as_i64 v;
     v_client_order_id \<leftarrow> req_field ''clientOrderId'' json_as_str v;
     v_side \<leftarrow> req_field ''side'' json_as_str v;
     v_order_type \<leftarrow> req_field ''type'' json_as_str v;
     v_time_in_force \<leftarrow> req_field ''timeInForce'' json_as_str v;
     v_status \<leftarrow> req_field ''status'' json_as_str v;
     v_price \<leftarrow> req_field ''price'' json_as_str v;
     v_original_quantity \<leftarrow> req_field ''origQty'' json_as_str v;
     v_executed_quantity \<leftarrow> req_field ''executedQty'' json_as_str v;
     v_average_price \<leftarrow> req_field ''avgPrice'' json_as_str v;
     v_reduce_only \<leftarrow> req_field ''reduceOnly'' json_as_bool v;
     v_update_time \<leftarrow> req_field ''updateTime'' json_as_i64 v;
     v_created_time \<leftarrow> opt_field ''time'' json_as_i64 v;
     Some \<lparr>bn_os_symbol = v_symbol,
       bn_os_order_id = v_order_id,
       bn_os_client_order_id = v_client_order_id,
       bn_os_side = v_side,
       bn_os_order_type = v_order_type,
       bn_os_time_in_force = v_time_in_force,
       bn_os_status = v_status,
       bn_os_price = v_price,
       bn_os_original_quantity = v_original_quantity,
       bn_os_executed_quantity = v_executed_quantity,
       bn_os_average_price = v_average_price,
       bn_os_reduce_only = v_reduce_only,
       bn_os_update_time = v_update_time,
       bn_os_created_time = v_created_time\<rparr>}"

record BinanceUserTradeSnapshot =
  bn_uts_symbol :: string
  bn_uts_id :: i64
  bn_uts_order_id :: i64
  bn_uts_side :: string
  bn_uts_price :: string
  bn_uts_qty :: string
  bn_uts_commission :: string
  bn_uts_commission_asset :: string
  bn_uts_maker :: bool
  bn_uts_time :: i64

definition read_BinanceUserTradeSnapshot :: "BinanceUserTradeSnapshot json_reader" where
  "read_BinanceUserTradeSnapshot v = do {
     v_symbol \<leftarrow> req_field ''symbol'' json_as_str v;
     v_id \<leftarrow> req_field ''id'' json_as_i64 v;
     v_order_id \<leftarrow> req_field ''orderId'' json_as_i64 v;
     v_side \<leftarrow> req_field ''side'' json_as_str v;
     v_price \<leftarrow> req_field ''price'' json_as_str v;
     v_qty \<leftarrow> req_field ''qty'' json_as_str v;
     v_commission \<leftarrow> req_field ''commission'' json_as_str v;
     v_commission_asset \<leftarrow> req_field ''commissionAsset'' json_as_str v;
     v_maker \<leftarrow> req_field ''maker'' json_as_bool v;
     v_time \<leftarrow> req_field ''time'' json_as_i64 v;
     Some \<lparr>bn_uts_symbol = v_symbol,
       bn_uts_id = v_id,
       bn_uts_order_id = v_order_id,
       bn_uts_side = v_side,
       bn_uts_price = v_price,
       bn_uts_qty = v_qty,
       bn_uts_commission = v_commission,
       bn_uts_commission_asset = v_commission_asset,
       bn_uts_maker = v_maker,
       bn_uts_time = v_time\<rparr>}"

record BinanceSetLeverageResponse =
  bn_slr_symbol :: string
  bn_slr_leverage :: i64

definition read_BinanceSetLeverageResponse :: "BinanceSetLeverageResponse json_reader" where
  "read_BinanceSetLeverageResponse v = do {
     v_symbol \<leftarrow> req_field ''symbol'' json_as_str v;
     v_leverage \<leftarrow> req_field ''leverage'' json_as_i64 v;
     Some \<lparr>bn_slr_symbol = v_symbol,
       bn_slr_leverage = v_leverage\<rparr>}"

record BinanceSuccessResponse =
  bn_sr_code :: "i64 option"
  bn_sr_message :: string

definition read_BinanceSuccessResponse :: "BinanceSuccessResponse json_reader" where
  "read_BinanceSuccessResponse v = do {
     v_code \<leftarrow> opt_field ''code'' json_as_i64 v;
     v_message \<leftarrow> req_field ''msg'' json_as_str v;
     Some \<lparr>bn_sr_code = v_code,
       bn_sr_message = v_message\<rparr>}"
section \<open>Stream messages\<close>

datatype BinancePublicMessage =
    BnTicker BinanceTickerEvent
  | BnAggTrade BinanceAggTradeEvent
  | BnBookTicker BinanceBookTickerEvent
  | BnDepth BinanceDepthEvent
  | BnKline BinanceKlineEvent
  | BnMarkPrice BinanceMarkPriceEvent
  | BnForceOrder BinanceForceOrderEvent

datatype BinancePrivateMessage =
    BnAccountUpdate BinanceAccountUpdateEvent
  | BnOrderTradeUpdate BinanceOrderTradeUpdateEvent
  | BnTradeLite BinanceTradeLiteEvent
  | BnAlgoUpdate BinanceAlgoOrderUpdateEvent

definition read_BinancePublicMessage :: "BinancePublicMessage json_reader" where
  "read_BinancePublicMessage v = do {
     tag \<leftarrow> req_field ''e'' json_as_str v;
     if tag = ''24hrTicker'' then map_option BnTicker (read_BinanceTickerEvent v)
     else if tag = ''aggTrade'' then map_option BnAggTrade (read_BinanceAggTradeEvent v)
     else if tag = ''bookTicker'' then map_option BnBookTicker (read_BinanceBookTickerEvent v)
     else if tag = ''depthUpdate'' then map_option BnDepth (read_BinanceDepthEvent v)
     else if tag = ''kline'' then map_option BnKline (read_BinanceKlineEvent v)
     else if tag = ''markPriceUpdate'' then map_option BnMarkPrice (read_BinanceMarkPriceEvent v)
     else if tag = ''forceOrder'' then map_option BnForceOrder (read_BinanceForceOrderEvent v)
     else None}"

definition read_BinancePrivateMessage :: "BinancePrivateMessage json_reader" where
  "read_BinancePrivateMessage v = do {
     tag \<leftarrow> req_field ''e'' json_as_str v;
     if tag = ''ACCOUNT_UPDATE'' then map_option BnAccountUpdate (read_BinanceAccountUpdateEvent v)
     else if tag = ''ORDER_TRADE_UPDATE'' then map_option BnOrderTradeUpdate (read_BinanceOrderTradeUpdateEvent v)
     else if tag = ''TRADE_LITE'' then map_option BnTradeLite (read_BinanceTradeLiteEvent v)
     else if tag = ''ALGO_UPDATE'' then map_option BnAlgoUpdate (read_BinanceAlgoOrderUpdateEvent v)
     else None}"

end
