(* ===== verification/Binance_Adapter.thy ===== *)
theory Binance_Adapter
  imports Adapter Binance_Native
begin

text \<open>
  \<^verbatim>\<open>bat-markets-binance/src/lib.rs\<close>: the adapter of Binance linear futures.  Its configuration,
  capabilities and lanes are values of the core; its state is the instrument catalog, an
  argument of every operation that resolves a symbol.
\<close>

section \<open>Errors and symbols\<close>

definition binance_error :: "ErrorKind \<Rightarrow> string \<Rightarrow> MarketError" where
  "binance_error kind message = with_venue Binance LinearUsdt (market_error kind message)"

definition binance_decode_error :: "string \<Rightarrow> string \<Rightarrow> string \<Rightarrow> MarketError" where
  "binance_decode_error what operation err =
     with_operation operation (binance_error DecodeError (''failed to parse binance '' @ what @ '': '' @ err))"

definition binance_require_native_symbol :: "'d InstrumentCatalog \<Rightarrow> string \<Rightarrow> 'd InstrumentSpec result" where
  "binance_require_native_symbol catalog symbol =
     ok_or (binance_error Unsupported (''unsupported binance symbol '' @ quoted symbol)) (by_native_symbol catalog symbol)"

definition binance_require_instrument :: "'d InstrumentCatalog \<Rightarrow> InstrumentId \<Rightarrow> 'd InstrumentSpec result" where
  "binance_require_instrument catalog iid =
     ok_or (binance_error Unsupported (''unsupported binance instrument '' @ quoted (as_str iid))) (catalog_get catalog iid)"

section \<open>Values\<close>

abbreviation binance_decimal :: "'d AdapterEnv \<Rightarrow> string \<Rightarrow> ('tag, 'd) decimal_value result" where
  "binance_decimal E \<equiv> decimal_text E Binance"

definition binance_optional_decimal :: "'d AdapterEnv \<Rightarrow> string option \<Rightarrow> ('tag, 'd) decimal_value option result" where
  "binance_optional_decimal E raw = transpose_map (binance_decimal E) raw"

definition binance_optional_decimal_or_empty :: "'d AdapterEnv \<Rightarrow> string option \<Rightarrow> 'd option result" where
  "binance_optional_decimal_or_empty E raw =
     transpose_map (parse_decimal E Binance) (if raw = Some '''' then None else raw)"

definition binance_optional_price_or_empty :: "'d AdapterEnv \<Rightarrow> string option \<Rightarrow> 'd Price option result" where
  "binance_optional_price_or_empty E raw =
     map_result (\<lambda>value. Option.bind value (\<lambda>p.
       if dec_is_zero (ae_decimal E) p then None else Some (DecimalValue p)))
     (binance_optional_decimal_or_empty E raw)"

definition binance_parse_side :: "string \<Rightarrow> Side result" where
  "binance_parse_side raw =
     (if raw = ''BUY'' then Ok Buy else if raw = ''SELL'' then Ok Sell
      else Err (market_error DecodeError (''unsupported binance side '' @ quoted raw)))"

definition binance_parse_order_type :: "string \<Rightarrow> OrderType result" where
  "binance_parse_order_type raw =
     (if raw = ''MARKET'' then Ok Market else if raw = ''LIMIT'' then Ok Limit
      else if raw = ''STOP_MARKET'' then Ok StopMarket else if raw = ''STOP'' then Ok StopLimit
      else if raw = ''TAKE_PROFIT_MARKET'' then Ok TakeProfitMarket
      else if raw = ''TAKE_PROFIT'' then Ok TakeProfitLimit
      else Err (market_error DecodeError (''unsupported binance order type '' @ quoted raw)))"

definition binance_parse_time_in_force :: "string \<Rightarrow> TimeInForce result" where
  "binance_parse_time_in_force raw =
     (if raw = ''GTC'' then Ok Gtc else if raw = ''IOC'' then Ok Ioc else if raw = ''FOK'' then Ok Fok
      else if raw = ''GTX'' then Ok PostOnly
      else Err (market_error DecodeError (''unsupported binance time in force '' @ quoted raw)))"

definition binance_optional_time_in_force :: "string option \<Rightarrow> TimeInForce option result" where
  "binance_optional_time_in_force raw =
     transpose_map binance_parse_time_in_force (if raw = Some '''' then None else raw)"

definition binance_parse_order_status :: "string \<Rightarrow> OrderStatus result" where
  "binance_parse_order_status raw =
     (if raw = ''NEW'' then Ok New else if raw = ''PARTIALLY_FILLED'' then Ok PartiallyFilled
      else if raw = ''FILLED'' then Ok Filled else if raw = ''CANCELED'' then Ok Canceled
      else if raw = ''REJECTED'' then Ok OrderStatus.Rejected else if raw = ''EXPIRED'' then Ok Expired
      else if raw = ''PENDING_CANCEL'' then Ok PendingCancel
      else Err (market_error DecodeError (''unsupported binance order status '' @ quoted raw)))"

definition binance_parse_algo_order_status :: "'d Decimal_ops \<Rightarrow> string \<Rightarrow> 'd \<Rightarrow> OrderStatus" where
  "binance_parse_algo_order_status D raw filled =
     (if raw = ''NEW'' then New else if raw = ''CANCELED'' then Canceled
      else if raw \<in> {''TRIGGERING'', ''TRIGGERED''}
        then (if dec_less D (dec_zero D) filled then PartiallyFilled else New)
      else if raw = ''FINISHED'' then (if dec_less D (dec_zero D) filled then Filled else Canceled)
      else if raw = ''REJECTED'' then OrderStatus.Rejected else if raw = ''EXPIRED'' then Expired
      else New)"

definition binance_algo_order_id :: "i64 \<Rightarrow> OrderId" where
  "binance_algo_order_id algo_id = StringId (''binance-algo:'' @ show_int algo_id)"

definition binance_parse_margin_mode :: "string \<Rightarrow> MarginMode result" where
  "binance_parse_margin_mode raw =
     (if raw \<in> {''isolated'', ''ISOLATED''} then Ok Isolated
      else if raw \<in> {''cross'', ''crossed'', ''CROSSED''} then Ok Cross
      else Err (market_error DecodeError (''unsupported binance margin type '' @ quoted raw)))"

definition binance_parse_margin_mode_snapshot ::
  "'d AdapterEnv \<Rightarrow> string option \<Rightarrow> bool option \<Rightarrow> string option \<Rightarrow> string option \<Rightarrow> MarginMode result" where
  "binance_parse_margin_mode_snapshot E raw isolated margin wallet =
     (case raw of
        Some r \<Rightarrow> binance_parse_margin_mode r
      | None \<Rightarrow>
          (case isolated of
             Some b \<Rightarrow> Ok (if b then Isolated else Cross)
           | None \<Rightarrow>
               and_then (transpose_map (parse_decimal E Binance) margin) (\<lambda>m.
               and_then (transpose_map (parse_decimal E Binance) wallet) (\<lambda>w.
                 if m \<noteq> None \<or> w \<noteq> None then
                   (let zero = (\<lambda>x. case x of None \<Rightarrow> True | Some d \<Rightarrow> dec_is_zero (ae_decimal E) d) in
                    Ok (if zero m \<and> zero w then Cross else Isolated))
                 else Err (market_error DecodeError ''missing binance margin mode in account snapshot'')))))"

definition binance_parse_position_mode :: "string \<Rightarrow> PositionMode" where
  "binance_parse_position_mode raw = (if raw \<in> {''LONG'', ''SHORT''} then Hedge else OneWay)"

definition binance_parse_instrument_status :: "string \<Rightarrow> InstrumentStatus" where
  "binance_parse_instrument_status raw = (if raw = ''TRADING'' then Active else Halted)"

definition quantize_optional_notional :: "'d Decimal_ops \<Rightarrow> 'd \<Rightarrow> u32 \<Rightarrow> FastNotional option" where
  "quantize_optional_notional D value scale =
     (case notional_quantize D (DecimalValue value) scale of Inl _ \<Rightarrow> None | Inr n \<Rightarrow> Some n)"

section \<open>Native messages\<close>

definition binance_parse_native_public :: "'d AdapterEnv \<Rightarrow> string \<Rightarrow> BinancePublicMessage result" where
  "binance_parse_native_public E payload =
     map_err (binance_decode_error ''public payload'' ''binance.parse_native_public'')
       (from_str E ''PublicMessage'' read_BinancePublicMessage payload)"

definition binance_parse_native_private :: "'d AdapterEnv \<Rightarrow> string \<Rightarrow> BinancePrivateMessage result" where
  "binance_parse_native_private E payload =
     map_err (binance_decode_error ''private payload'' ''binance.parse_native_private'')
       (from_str E ''PrivateMessage'' read_BinancePrivateMessage payload)"

definition binance_parse_server_time :: "'d AdapterEnv \<Rightarrow> string \<Rightarrow> TimestampMs result" where
  "binance_parse_server_time E payload =
     map_result (\<lambda>r. TimestampMs (bn_str_server_time r))
       (map_err (\<lambda>err. market_error DecodeError (''failed to parse binance server-time response: '' @ err))
         (from_str E ''ServerTimeResponse'' read_BinanceServerTimeResponse payload))"

section \<open>Metadata\<close>

definition require_filter_decimal ::
  "'d AdapterEnv \<Rightarrow> BinanceExchangeFilter list \<Rightarrow> string \<Rightarrow> (BinanceExchangeFilter \<Rightarrow> string option) \<Rightarrow> 'd result" where
  "require_filter_decimal E filters filter_type select =
     and_then (ok_or (market_error DecodeError (''missing binance '' @ filter_type @ '' filter''))
         (Option.bind (find (\<lambda>f. bn_ef_filter_type f = filter_type) filters) select))
       (parse_decimal E Binance)"

definition binance_symbol_spec :: "'d AdapterEnv \<Rightarrow> BinanceExchangeSymbol \<Rightarrow> 'd InstrumentSpec result" where
  "binance_symbol_spec E symbol =
     and_then (require_filter_decimal E (bn_es_filters symbol) ''PRICE_FILTER'' bn_ef_tick_size) (\<lambda>tick_size.
     and_then (require_filter_decimal E (bn_es_filters symbol) ''LOT_SIZE'' bn_ef_step_size) (\<lambda>step_size.
     and_then (require_filter_decimal E (bn_es_filters symbol) ''LOT_SIZE'' bn_ef_min_qty) (\<lambda>min_qty.
     and_then (require_filter_decimal E (bn_es_filters symbol) ''MIN_NOTIONAL'' bn_ef_notional) (\<lambda>min_notional.
       (let D = ae_decimal E;
            price_scale = decimal_scale D tick_size;
            qty_scale = decimal_scale D step_size;
            symbol_name = canonical_symbol (bn_es_base_asset symbol) (bn_es_quote_asset symbol) (bn_es_margin_asset symbol) in
        Ok \<lparr>is_venue = Binance, is_product = LinearUsdt, is_market_type = LinearPerpetual,
          is_instrument_id = StringId symbol_name, is_canonical_symbol = symbol_name,
          is_native_symbol = bn_es_symbol symbol, is_base = StringId (bn_es_base_asset symbol),
          is_quote = StringId (bn_es_quote_asset symbol), is_settle = StringId (bn_es_margin_asset symbol),
          is_contract_size = DecimalValue (dec_one D), is_tick_size = DecimalValue tick_size,
          is_step_size = DecimalValue step_size, is_min_qty = DecimalValue min_qty,
          is_min_notional = DecimalValue min_notional, is_price_scale = price_scale, is_qty_scale = qty_scale,
          is_quote_scale = max (max (bn_es_quote_precision symbol) (u32_saturating_add price_scale qty_scale))
            (decimal_scale D min_notional),
          is_max_leverage = None, is_support = full_support,
          is_status = binance_parse_instrument_status (bn_es_status symbol)\<rparr>)))))"

definition binance_parse_metadata_snapshot :: "'d AdapterEnv \<Rightarrow> string \<Rightarrow> 'd InstrumentSpec list result" where
  "binance_parse_metadata_snapshot E payload =
     and_then (map_err (binance_decode_error ''exchangeInfo response'' ''binance.parse_metadata_snapshot'')
         (from_str E ''ExchangeInfoResponse'' read_BinanceExchangeInfoResponse payload)) (\<lambda>response.
       traverse (binance_symbol_spec E)
         (filter (\<lambda>y. bn_es_contract_type y = ''PERPETUAL'' \<and> bn_es_quote_asset y = ''USDT'')
           (bn_eir_symbols response)))"

section \<open>Account, orders and executions\<close>

definition binance_position_from_account_snapshot ::
  "'d AdapterEnv \<Rightarrow> 'd InstrumentCatalog \<Rightarrow> BinanceAccountPositionSnapshot \<Rightarrow> TimestampMs \<Rightarrow> 'd \<Rightarrow> 'd Position result" where
  "binance_position_from_account_snapshot E catalog p observed_at amount =
     and_then (binance_require_native_symbol catalog (bn_aps_symbol p)) (\<lambda>spec.
     and_then (binance_optional_decimal E (bn_aps_entry_price p)) (\<lambda>entry_price.
     and_then (transpose_map (binance_decimal E) (bn_aps_unrealized_profit p)) (\<lambda>unrealized_pnl.
     and_then (binance_optional_decimal E (bn_aps_leverage p)) (\<lambda>leverage.
     and_then (binance_parse_margin_mode_snapshot E (bn_aps_margin_type p) (bn_aps_isolated p)
            (bn_aps_isolated_margin p) (bn_aps_isolated_wallet p)) (\<lambda>margin_mode.
       Ok \<lparr>pos_position_id = StringId (''binance:'' @ bn_aps_symbol p @ '':'' @ bn_aps_position_side p),
         pos_instrument_id = is_instrument_id spec, pos_direction = decimal_direction (ae_decimal E) amount,
         pos_size = DecimalValue (dec_abs (ae_decimal E) amount), pos_entry_price = entry_price,
         pos_mark_price = None, pos_unrealized_pnl = unrealized_pnl, pos_leverage = leverage,
         pos_margin_mode = margin_mode, pos_position_mode = binance_parse_position_mode (bn_aps_position_side p),
         pos_updated_at = observed_at\<rparr>)))))"

text \<open>The positions of an account snapshot: empty ones are passed over.\<close>

fun binance_snapshot_positions ::
  "'d AdapterEnv \<Rightarrow> 'd InstrumentCatalog \<Rightarrow> TimestampMs \<Rightarrow> BinanceAccountPositionSnapshot list \<Rightarrow> 'd Position list result" where
  "binance_snapshot_positions E catalog observed_at [] = Ok []"
| "binance_snapshot_positions E catalog observed_at (p # ps) =
     and_then (parse_decimal E Binance (bn_aps_position_amount p)) (\<lambda>amount.
       if dec_is_zero (ae_decimal E) amount then binance_snapshot_positions E catalog observed_at ps
       else and_then (binance_position_from_account_snapshot E catalog p observed_at amount) (\<lambda>position.
         map_result (Cons position) (binance_snapshot_positions E catalog observed_at ps)))"

definition binance_parse_account_snapshot ::
  "'d AdapterEnv \<Rightarrow> 'd InstrumentCatalog \<Rightarrow> string \<Rightarrow> TimestampMs \<Rightarrow> ('d AccountSnapshot \<times> 'd Position list) result" where
  "binance_parse_account_snapshot E catalog payload observed_at =
     and_then (map_err (binance_decode_error ''account snapshot'' ''binance.parse_account_snapshot'')
            (from_str E ''AccountInfoResponse'' read_BinanceAccountInfoResponse payload)) (\<lambda>response.
     and_then (traverse (\<lambda>asset.
            and_then (binance_decimal E (bn_aas_wallet_balance asset)) (\<lambda>wallet.
            and_then (binance_decimal E (bn_aas_available_balance asset)) (\<lambda>available.
              Ok \<lparr>bal_asset = StringId (bn_aas_asset asset), bal_wallet_balance = wallet,
                bal_available_balance = available, bal_updated_at = observed_at\<rparr>))) (bn_air_assets response)) (\<lambda>balances.
     and_then (binance_snapshot_positions E catalog observed_at (bn_air_positions response)) (\<lambda>positions.
     and_then (binance_decimal E (bn_air_total_wallet_balance response)) (\<lambda>wallet.
     and_then (binance_decimal E (bn_air_available_balance response)) (\<lambda>available.
     and_then (binance_decimal E (bn_air_total_unrealized_profit response)) (\<lambda>unrealized.
       Ok (\<lparr>acc_balances = balances, acc_summary = Some \<lparr>sum_total_wallet_balance = wallet,
             sum_total_available_balance = available, sum_total_unrealized_pnl = unrealized,
             sum_updated_at = observed_at\<rparr>\<rparr>, positions)))))))"

definition binance_order_from_snapshot ::
  "'d AdapterEnv \<Rightarrow> 'd InstrumentCatalog \<Rightarrow> TimestampMs \<Rightarrow> BinanceOrderSnapshot \<Rightarrow> 'd Order result" where
  "binance_order_from_snapshot E catalog observed_at snapshot =
     and_then (binance_require_native_symbol catalog (bn_os_symbol snapshot)) (\<lambda>spec.
     and_then ((if bn_os_average_price snapshot = ''0'' then Ok None
            else map_result Some (binance_decimal E (bn_os_average_price snapshot)))) (\<lambda>average.
     and_then (binance_parse_side (bn_os_side snapshot)) (\<lambda>side.
     and_then (binance_parse_order_type (bn_os_order_type snapshot)) (\<lambda>order_type.
     and_then (binance_parse_time_in_force (bn_os_time_in_force snapshot)) (\<lambda>tif.
     and_then (binance_parse_order_status (bn_os_status snapshot)) (\<lambda>status.
     and_then (binance_decimal E (bn_os_price snapshot)) (\<lambda>price.
     and_then (binance_decimal E (bn_os_original_quantity snapshot)) (\<lambda>quantity.
     and_then (binance_decimal E (bn_os_executed_quantity snapshot)) (\<lambda>filled.
       Ok \<lparr>ord_order_id = StringId (show_int (bn_os_order_id snapshot)),
         ord_client_order_id = Some (StringId (bn_os_client_order_id snapshot)),
         ord_instrument_id = is_instrument_id spec, ord_side = side, ord_order_type = order_type,
         ord_time_in_force = Some tif, ord_status = status, ord_price = Some price, ord_quantity = quantity,
         ord_filled_quantity = filled, ord_average_fill_price = average,
         ord_reduce_only = bn_os_reduce_only snapshot, ord_post_only = (bn_os_time_in_force snapshot = ''GTX''),
         ord_created_at = (case bn_os_created_time snapshot of None \<Rightarrow> observed_at | Some t \<Rightarrow> TimestampMs t),
         ord_updated_at = TimestampMs (bn_os_update_time snapshot),
         ord_venue_status = Some (bn_os_status snapshot)\<rparr>)))))))))"

definition binance_algo_order_from_snapshot ::
  "'d AdapterEnv \<Rightarrow> 'd InstrumentCatalog \<Rightarrow> BinanceAlgoOrderSnapshot \<Rightarrow> 'd Order result" where
  "binance_algo_order_from_snapshot E catalog snapshot =
     and_then (binance_require_native_symbol catalog (bn_aos_symbol snapshot)) (\<lambda>spec.
     and_then (binance_parse_side (bn_aos_side snapshot)) (\<lambda>side.
     and_then (binance_parse_order_type (bn_aos_order_type snapshot)) (\<lambda>order_type.
     and_then (binance_optional_time_in_force (bn_aos_time_in_force snapshot)) (\<lambda>tif.
     and_then (binance_optional_price_or_empty E (bn_aos_price snapshot)) (\<lambda>price.
     and_then (binance_decimal E (bn_aos_quantity snapshot)) (\<lambda>quantity.
     and_then (binance_optional_price_or_empty E (bn_aos_actual_price snapshot)) (\<lambda>average.
       Ok \<lparr>ord_order_id = binance_algo_order_id (bn_aos_algo_id snapshot),
         ord_client_order_id = Some (StringId (bn_aos_client_algo_id snapshot)),
         ord_instrument_id = is_instrument_id spec, ord_side = side, ord_order_type = order_type,
         ord_time_in_force = tif,
         ord_status = binance_parse_algo_order_status (ae_decimal E) (bn_aos_algo_status snapshot) (dec_zero (ae_decimal E)),
         ord_price = price, ord_quantity = quantity, ord_filled_quantity = DecimalValue (dec_zero (ae_decimal E)),
         ord_average_fill_price = average,
         ord_reduce_only = (bn_aos_reduce_only snapshot = Some True),
         ord_post_only = (bn_aos_time_in_force snapshot = Some ''GTX''),
         ord_created_at = TimestampMs (bn_aos_create_time snapshot),
         ord_updated_at = TimestampMs (bn_aos_update_time snapshot),
         ord_venue_status = Some (bn_aos_algo_status snapshot)\<rparr>)))))))"

definition binance_algo_order_from_update_event ::
  "'d AdapterEnv \<Rightarrow> 'd InstrumentCatalog \<Rightarrow> BinanceAlgoOrderUpdateEvent \<Rightarrow> 'd Order result" where
  "binance_algo_order_from_update_event E catalog event =
     (let order = bn_aoue_order event; D = ae_decimal E in
      and_then (binance_require_native_symbol catalog (bn_aoud_symbol order)) (\<lambda>spec.
      and_then (binance_optional_decimal_or_empty E (bn_aoud_executed_quantity order)) (\<lambda>executed.
      and_then (binance_parse_side (bn_aoud_side order)) (\<lambda>side.
      and_then (binance_parse_order_type (bn_aoud_order_type order)) (\<lambda>order_type.
      and_then (binance_optional_time_in_force (bn_aoud_time_in_force order)) (\<lambda>tif.
      and_then (binance_optional_price_or_empty E (bn_aoud_price order)) (\<lambda>price.
      and_then (binance_decimal E (bn_aoud_quantity order)) (\<lambda>quantity.
      and_then (binance_optional_price_or_empty E (bn_aoud_average_price order)) (\<lambda>average.
        (let filled = (case executed of None \<Rightarrow> dec_zero D | Some d \<Rightarrow> d);
             created = (case bn_aoud_trigger_time order of
               Some t \<Rightarrow> if t > 0 then t else bn_aoue_transaction_time event
             | None \<Rightarrow> bn_aoue_transaction_time event) in
         Ok \<lparr>ord_order_id = binance_algo_order_id (bn_aoud_algo_id order),
           ord_client_order_id = Some (StringId (bn_aoud_client_algo_id order)),
           ord_instrument_id = is_instrument_id spec, ord_side = side, ord_order_type = order_type,
           ord_time_in_force = tif,
           ord_status = binance_parse_algo_order_status D (bn_aoud_algo_status order) filled,
           ord_price = price, ord_quantity = quantity, ord_filled_quantity = DecimalValue filled,
           ord_average_fill_price = average, ord_reduce_only = bn_aoud_reduce_only order,
           ord_post_only = (bn_aoud_time_in_force order = Some ''GTX''),
           ord_created_at = TimestampMs created,
           ord_updated_at = TimestampMs (max (bn_aoue_event_time event) (bn_aoue_transaction_time event)),
           ord_venue_status = Some (bn_aoud_algo_status order)\<rparr>))))))))))"

definition binance_parse_open_orders_snapshot ::
  "'d AdapterEnv \<Rightarrow> 'd InstrumentCatalog \<Rightarrow> string \<Rightarrow> TimestampMs \<Rightarrow> 'd Order list result" where
  "binance_parse_open_orders_snapshot E catalog payload observed_at =
     and_then (map_err (binance_decode_error ''open-orders snapshot'' ''binance.parse_open_orders_snapshot'')
         (from_str E ''Vec<OrderSnapshot>'' (json_as_vec read_BinanceOrderSnapshot) payload))
       (traverse (binance_order_from_snapshot E catalog observed_at))"

definition binance_parse_open_algo_orders_snapshot ::
  "'d AdapterEnv \<Rightarrow> 'd InstrumentCatalog \<Rightarrow> string \<Rightarrow> TimestampMs \<Rightarrow> 'd Order list result" where
  "binance_parse_open_algo_orders_snapshot E catalog payload observed_at =
     and_then (map_err (binance_decode_error ''open-algo-orders snapshot'' ''binance.parse_open_algo_orders_snapshot'')
         (from_str E ''Vec<AlgoOrderSnapshot>'' (json_as_vec read_BinanceAlgoOrderSnapshot) payload))
       (traverse (binance_algo_order_from_snapshot E catalog))"

definition binance_parse_order_snapshot ::
  "'d AdapterEnv \<Rightarrow> 'd InstrumentCatalog \<Rightarrow> string \<Rightarrow> TimestampMs \<Rightarrow> 'd Order result" where
  "binance_parse_order_snapshot E catalog payload observed_at =
     (case from_str E ''OrderSnapshot'' read_BinanceOrderSnapshot payload of
        Inr snapshot \<Rightarrow> binance_order_from_snapshot E catalog observed_at snapshot
      | Inl _ \<Rightarrow>
          and_then (map_err (binance_decode_error ''order snapshot'' ''binance.parse_order_snapshot'')
              (from_str E ''AlgoOrderSnapshot'' read_BinanceAlgoOrderSnapshot payload))
            (binance_algo_order_from_snapshot E catalog))"

definition binance_execution_from_snapshot ::
  "'d AdapterEnv \<Rightarrow> 'd InstrumentCatalog \<Rightarrow> BinanceUserTradeSnapshot \<Rightarrow> 'd Execution result" where
  "binance_execution_from_snapshot E catalog snapshot =
     and_then (binance_require_native_symbol catalog (bn_uts_symbol snapshot)) (\<lambda>spec.
     and_then (binance_parse_side (bn_uts_side snapshot)) (\<lambda>side.
     and_then (binance_decimal E (bn_uts_qty snapshot)) (\<lambda>quantity.
     and_then (binance_decimal E (bn_uts_price snapshot)) (\<lambda>price.
     and_then (binance_decimal E (bn_uts_commission snapshot)) (\<lambda>fee.
       Ok \<lparr>exe_execution_id = StringId (show_int (bn_uts_id snapshot)),
         exe_order_id = StringId (show_int (bn_uts_order_id snapshot)), exe_client_order_id = None,
         exe_instrument_id = is_instrument_id spec, exe_side = side, exe_quantity = quantity, exe_price = price,
         exe_fee = Some fee, exe_fee_asset = Some (StringId (bn_uts_commission_asset snapshot)),
         exe_liquidity = Some (if bn_uts_maker snapshot then Maker else Taker),
         exe_executed_at = TimestampMs (bn_uts_time snapshot)\<rparr>)))))"

definition binance_parse_executions_snapshot ::
  "'d AdapterEnv \<Rightarrow> 'd InstrumentCatalog \<Rightarrow> string \<Rightarrow> 'd Execution list result" where
  "binance_parse_executions_snapshot E catalog payload =
     and_then (map_err (binance_decode_error ''user-trades snapshot'' ''binance.parse_executions_snapshot'')
         (from_str E ''Vec<UserTradeSnapshot>'' (json_as_vec read_BinanceUserTradeSnapshot) payload))
       (traverse (binance_execution_from_snapshot E catalog))"


section \<open>Market snapshots\<close>

definition binance_parse_ticker_snapshot ::
  "'d AdapterEnv \<Rightarrow> 'd InstrumentCatalog \<Rightarrow> string \<Rightarrow> InstrumentId \<Rightarrow> 'd Ticker result" where
  "binance_parse_ticker_snapshot E catalog payload iid =
     (let D = ae_decimal E in
      and_then (map_err (binance_decode_error ''ticker snapshot'' ''binance.parse_ticker_snapshot'')
             (from_str E ''TickerSnapshot'' read_BinanceTickerSnapshot payload)) (\<lambda>snapshot.
      and_then (binance_require_instrument catalog iid) (\<lambda>spec.
      and_then (read_price E Binance spec (bn_ts_last_price snapshot)) (\<lambda>last_price.
      and_then (read_quantity E Binance spec (bn_ts_volume snapshot)) (\<lambda>volume.
      and_then (parse_decimal E Binance (bn_ts_quote_volume snapshot)) (\<lambda>turnover.
        or_panic (ticker_to_unified D spec
          \<lparr>ft_instrument_id = is_instrument_id spec, ft_last_price = last_price, ft_mark_price = None,
           ft_index_price = None, ft_volume_24h = Some volume,
           ft_turnover_24h = quantize_optional_notional D turnover (is_quote_scale spec),
           ft_event_time = TimestampMs (bn_ts_close_time snapshot)\<rparr>)))))))"

definition aggressor :: "bool \<Rightarrow> AggressorSide" where
  "aggressor is_buyer_maker = (if is_buyer_maker then Seller else Buyer)"

definition binance_parse_trades_snapshot ::
  "'d AdapterEnv \<Rightarrow> 'd InstrumentCatalog \<Rightarrow> string \<Rightarrow> FetchTradesRequest \<Rightarrow> 'd TradeTick list result" where
  "binance_parse_trades_snapshot E catalog payload request =
     and_then (binance_require_instrument catalog (ftq_instrument_id request)) (\<lambda>spec.
     and_then (map_err (binance_decode_error ''trades snapshot'' ''binance.parse_trades_snapshot'')
            (from_str E ''Vec<AggTradeSnapshot>'' (json_as_vec read_BinanceAggTradeSnapshot) payload)) (\<lambda>snapshots.
       traverse (\<lambda>snapshot.
         and_then (read_price E Binance spec (bn_ats_price snapshot)) (\<lambda>price.
         and_then (read_quantity E Binance spec (bn_ats_quantity snapshot)) (\<lambda>quantity.
           or_panic (trade_to_unified (ae_decimal E) spec
             \<lparr>ftr_instrument_id = is_instrument_id spec,
              ftr_trade_id = StringId (show_int (bn_ats_agg_trade_id snapshot)), ftr_price = price,
              ftr_quantity = quantity, ftr_aggressor_side = aggressor (bn_ats_is_buyer_maker snapshot),
              ftr_event_time = TimestampMs (bn_ats_trade_time snapshot)\<rparr>)))) snapshots))"

definition binance_parse_book_top_snapshot ::
  "'d AdapterEnv \<Rightarrow> 'd InstrumentCatalog \<Rightarrow> string \<Rightarrow> InstrumentId \<Rightarrow> 'd BookTop result" where
  "binance_parse_book_top_snapshot E catalog payload iid =
     and_then (binance_require_instrument catalog iid) (\<lambda>spec.
     and_then (map_err (binance_decode_error ''book-ticker snapshot'' ''binance.parse_book_top_snapshot'')
            (from_str E ''BookTickerSnapshot'' read_BinanceBookTickerSnapshot payload)) (\<lambda>snapshot.
     and_then (read_level E Binance spec (bn_bts_bid_price snapshot, bn_bts_bid_qty snapshot)) (\<lambda>bid.
     and_then (read_level E Binance spec (bn_bts_ask_price snapshot, bn_bts_ask_qty snapshot)) (\<lambda>ask.
       or_panic (book_top_to_unified (ae_decimal E) spec
         \<lparr>fbt_instrument_id = is_instrument_id spec, fbt_bid_price = fst bid, fbt_bid_quantity = snd bid,
          fbt_ask_price = fst ask, fbt_ask_quantity = snd ask,
          fbt_event_time = TimestampMs (bn_bts_time snapshot)\<rparr>)))))"

definition binance_parse_i64_value :: "'d AdapterEnv \<Rightarrow> Json \<Rightarrow> string \<Rightarrow> i64 result" where
  "binance_parse_i64_value E v label =
     (case v of
        JNumber _ n \<Rightarrow> ok_or (binance_error DecodeError (''invalid numeric value for binance '' @ label)) n
      | JString raw \<Rightarrow> ok_or (binance_error DecodeError
          (''invalid i64 '' @ quoted raw @ '' for binance '' @ label @ '': '' @ parse_signed_error 64 raw)) (parse_i64 raw)
      | _ \<Rightarrow> Err (binance_error DecodeError
          (''unsupported binance '' @ label @ '' representation: '' @ ae_print E v)))"

definition binance_parse_str_value :: "'d AdapterEnv \<Rightarrow> Json \<Rightarrow> string \<Rightarrow> string result" where
  "binance_parse_str_value E v label =
     (case v of
        JString raw \<Rightarrow> Ok raw
      | _ \<Rightarrow> Err (binance_error DecodeError
          (''unsupported binance '' @ label @ '' representation: '' @ ae_print E v)))"

text \<open>One price of a candle row: read, quantized and converted back.\<close>

definition binance_row_price :: "'d AdapterEnv \<Rightarrow> 'd InstrumentSpec \<Rightarrow> Json \<Rightarrow> string \<Rightarrow> 'd Price result" where
  "binance_row_price E spec v label =
     and_then (binance_parse_str_value E v label) (\<lambda>raw.
     and_then (read_price E Binance spec raw) (\<lambda>p.
       or_panic (price_from_fast (ae_decimal E) spec p)))"

definition parse_binance_kline_row ::
  "'d AdapterEnv \<Rightarrow> 'd InstrumentSpec \<Rightarrow> KlineInterval \<Rightarrow> Json list \<Rightarrow> 'd Kline result" where
  "parse_binance_kline_row E spec interval row =
     (if length row < 7 then
        Err (binance_error DecodeError (''binance kline row has '' @ show_nat (length row) @ '' fields, expected at least 7''))
      else
        and_then (binance_parse_i64_value E (row ! 0) ''open_time'') (\<lambda>open_time.
        and_then (binance_parse_i64_value E (row ! 6) ''close_time'') (\<lambda>close_time.
        and_then (binance_row_price E spec (row ! 1) ''open'') (\<lambda>op.
        and_then (binance_row_price E spec (row ! 2) ''high'') (\<lambda>hi.
        and_then (binance_row_price E spec (row ! 3) ''low'') (\<lambda>lo.
        and_then (binance_row_price E spec (row ! 4) ''close'') (\<lambda>cl.
        and_then (binance_parse_str_value E (row ! 5) ''volume'') (\<lambda>raw_volume.
        and_then (read_quantity E Binance spec raw_volume) (\<lambda>fast_volume.
        and_then (or_panic (quantity_from_fast (ae_decimal E) spec fast_volume)) (\<lambda>volume.
          Ok \<lparr>kl_instrument_id = is_instrument_id spec, kl_interval = as_interval_str interval, kl_open = op,
            kl_high = hi, kl_low = lo, kl_close = cl, kl_volume = volume, kl_open_time = TimestampMs open_time,
            kl_close_time = TimestampMs close_time, kl_closed = (close_time < ae_now E)\<rparr>))))))))))"

definition binance_parse_ohlcv_snapshot ::
  "'d AdapterEnv \<Rightarrow> 'd InstrumentCatalog \<Rightarrow> string \<Rightarrow> FetchOhlcvRequest \<Rightarrow> 'd Kline list result" where
  "binance_parse_ohlcv_snapshot E catalog payload request =
     and_then (ok_or (binance_error Unsupported
            (''unsupported binance OHLCV interval '' @ quoted (fo_interval request))) (interval_parse (fo_interval request))) (\<lambda>interval.
     and_then (single_instrument_id request) (\<lambda>iid.
     and_then (binance_require_instrument catalog iid) (\<lambda>spec.
     and_then (map_err (binance_decode_error ''klines snapshot'' ''binance.parse_ohlcv_snapshot'')
            (from_str E ''Vec<Vec<Value>>'' (json_as_vec (json_as_vec json_as_value)) payload)) (\<lambda>rows.
     and_then (traverse (parse_binance_kline_row E spec interval) rows) (\<lambda>klines.
       Ok (sort_key (\<lambda>k. timestamp_value (kl_open_time k)) klines))))))"

section \<open>Stream frames\<close>

definition binance_open_interest_event ::
  "'d AdapterEnv \<Rightarrow> 'd InstrumentCatalog \<Rightarrow> BinanceOpenInterestSnapshot \<Rightarrow> 'd PublicLaneEvent list result" where
  "binance_open_interest_event E catalog snapshot =
     and_then (binance_require_native_symbol catalog (bn_ois_symbol snapshot)) (\<lambda>spec.
     and_then (binance_decimal E (bn_ois_open_interest snapshot)) (\<lambda>value.
       Ok [PublicLaneEvent.OpenInterest \<lparr>oi_instrument_id = is_instrument_id spec, oi_value = value,
         oi_event_time = TimestampMs (bn_ois_time snapshot)\<rparr>]))"

definition binance_depth_events ::
  "'d AdapterEnv \<Rightarrow> 'd InstrumentCatalog \<Rightarrow> BinanceDepthEvent \<Rightarrow> 'd PublicLaneEvent list result" where
  "binance_depth_events E catalog event =
     and_then (binance_require_native_symbol catalog (bn_de_symbol event)) (\<lambda>spec.
     and_then (ok_or (market_error DecodeError ''missing binance best bid'') (hd_option (bn_de_bids event))) (\<lambda>best_bid.
     and_then (ok_or (market_error DecodeError ''missing binance best ask'') (hd_option (bn_de_asks event))) (\<lambda>best_ask.
     and_then (read_level E Binance spec best_bid) (\<lambda>bid.
     and_then (read_level E Binance spec best_ask) (\<lambda>ask.
     and_then (traverse (read_level E Binance spec) (bn_de_bids event)) (\<lambda>bids.
     and_then (traverse (read_level E Binance spec) (bn_de_asks event)) (\<lambda>asks.
       Ok [PublicLaneEvent.BookTop \<lparr>fbt_instrument_id = is_instrument_id spec, fbt_bid_price = fst bid,
             fbt_bid_quantity = snd bid, fbt_ask_price = fst ask, fbt_ask_quantity = snd ask,
             fbt_event_time = TimestampMs (bn_de_event_time event)\<rparr>,
           PublicLaneEvent.OrderBookDelta \<lparr>fob_instrument_id = is_instrument_id spec, fob_bids = bids,
             fob_asks = asks, fob_event_time = TimestampMs (bn_de_event_time event)\<rparr>])))))))"

definition binance_kline_events ::
  "'d AdapterEnv \<Rightarrow> 'd InstrumentCatalog \<Rightarrow> BinanceKlineEvent \<Rightarrow> 'd PublicLaneEvent list result" where
  "binance_kline_events E catalog event =
     (let k = bn_ke_kline event in
      and_then (binance_require_native_symbol catalog (bn_ke_symbol event)) (\<lambda>spec.
      and_then (read_price E Binance spec (bn_kd_open k)) (\<lambda>op.
      and_then (read_price E Binance spec (bn_kd_high k)) (\<lambda>hi.
      and_then (read_price E Binance spec (bn_kd_low k)) (\<lambda>lo.
      and_then (read_price E Binance spec (bn_kd_close k)) (\<lambda>cl.
      and_then (read_quantity E Binance spec (bn_kd_volume k)) (\<lambda>volume.
        Ok [PublicLaneEvent.Kline \<lparr>fk_instrument_id = is_instrument_id spec, fk_interval = bn_kd_interval k,
          fk_open = op, fk_high = hi, fk_low = lo, fk_close = cl, fk_volume = volume,
          fk_open_time = TimestampMs (bn_kd_open_time k), fk_close_time = TimestampMs (bn_kd_close_time k),
          fk_closed = bn_kd_closed k\<rparr>])))))))"

definition binance_force_order_events ::
  "'d AdapterEnv \<Rightarrow> 'd InstrumentCatalog \<Rightarrow> BinanceForceOrderEvent \<Rightarrow> 'd PublicLaneEvent list result" where
  "binance_force_order_events E catalog event =
     (let order = bn_foe_order event;
          quantity_raw = (if bn_fod_cumulative_filled_qty order = [] then bn_fod_quantity order
            else bn_fod_cumulative_filled_qty order);
          price_raw = (if bn_fod_average_price order = ''0'' then bn_fod_price order else bn_fod_average_price order) in
      and_then (binance_require_native_symbol catalog (bn_fod_symbol order)) (\<lambda>spec.
      and_then (binance_parse_side (bn_fod_side order)) (\<lambda>side.
      and_then (read_price E Binance spec price_raw) (\<lambda>price.
      and_then (read_quantity E Binance spec quantity_raw) (\<lambda>quantity.
        Ok [PublicLaneEvent.Liquidation \<lparr>fl_instrument_id = is_instrument_id spec, fl_side = side, fl_price = price,
          fl_quantity = quantity,
          fl_event_time = TimestampMs (max (bn_fod_trade_time order) (bn_foe_event_time event))\<rparr>])))))"

fun binance_message_events ::
  "'d AdapterEnv \<Rightarrow> 'd InstrumentCatalog \<Rightarrow> BinancePublicMessage \<Rightarrow> 'd PublicLaneEvent list result" where
  "binance_message_events E catalog (BnTicker event) =
     and_then (binance_require_native_symbol catalog (bn_te_symbol event)) (\<lambda>spec.
     and_then (read_price E Binance spec (bn_te_last_price event)) (\<lambda>last_price.
     and_then (read_quantity E Binance spec (bn_te_volume_24h event)) (\<lambda>volume.
     and_then (parse_decimal E Binance (bn_te_quote_volume_24h event)) (\<lambda>turnover.
       Ok [PublicLaneEvent.Ticker \<lparr>ft_instrument_id = is_instrument_id spec, ft_last_price = last_price,
         ft_mark_price = None, ft_index_price = None, ft_volume_24h = Some volume,
         ft_turnover_24h = quantize_optional_notional (ae_decimal E) turnover (is_quote_scale spec),
         ft_event_time = TimestampMs (bn_te_event_time event)\<rparr>]))))"
| "binance_message_events E catalog (BnAggTrade event) =
     and_then (binance_require_native_symbol catalog (bn_ate_symbol event)) (\<lambda>spec.
     and_then (read_price E Binance spec (bn_ate_price event)) (\<lambda>price.
     and_then (read_quantity E Binance spec (bn_ate_quantity event)) (\<lambda>quantity.
       Ok [PublicLaneEvent.Trade \<lparr>ftr_instrument_id = is_instrument_id spec,
         ftr_trade_id = StringId (show_int (bn_ate_agg_trade_id event)), ftr_price = price, ftr_quantity = quantity,
         ftr_aggressor_side = aggressor (bn_ate_is_buyer_maker event),
         ftr_event_time = TimestampMs (bn_ate_trade_time event)\<rparr>])))"
| "binance_message_events E catalog (BnBookTicker event) =
     and_then (binance_require_native_symbol catalog (bn_bte_symbol event)) (\<lambda>spec.
     and_then (read_level E Binance spec (bn_bte_best_bid_price event, bn_bte_best_bid_qty event)) (\<lambda>bid.
     and_then (read_level E Binance spec (bn_bte_best_ask_price event, bn_bte_best_ask_qty event)) (\<lambda>ask.
       Ok [PublicLaneEvent.BookTop \<lparr>fbt_instrument_id = is_instrument_id spec, fbt_bid_price = fst bid,
         fbt_bid_quantity = snd bid, fbt_ask_price = fst ask, fbt_ask_quantity = snd ask,
         fbt_event_time = TimestampMs (bn_bte_transaction_time event)\<rparr>])))"
| "binance_message_events E catalog (BnDepth event) = binance_depth_events E catalog event"
| "binance_message_events E catalog (BnKline event) = binance_kline_events E catalog event"
| "binance_message_events E catalog (BnMarkPrice event) =
     and_then (binance_require_native_symbol catalog (bn_mpe_symbol event)) (\<lambda>spec.
     and_then (read_price E Binance spec (bn_mpe_mark_price event)) (\<lambda>price.
     and_then (binance_decimal E (bn_mpe_funding_rate event)) (\<lambda>rate.
     and_then (binance_decimal E (bn_mpe_funding_rate event)) (\<lambda>value.
     and_then (binance_decimal E (bn_mpe_mark_price event)) (\<lambda>mark_price.
       Ok [PublicLaneEvent.MarkPrice \<lparr>fmp_instrument_id = is_instrument_id spec, fmp_price = price,
             fmp_funding_rate = Some rate, fmp_event_time = TimestampMs (bn_mpe_event_time event)\<rparr>,
           PublicLaneEvent.FundingRate \<lparr>fr_instrument_id = is_instrument_id spec, fr_value = value,
             fr_mark_price = Some mark_price, fr_event_time = TimestampMs (bn_mpe_event_time event)\<rparr>])))))"
| "binance_message_events E catalog (BnForceOrder event) = binance_force_order_events E catalog event"

definition binance_parse_public ::
  "'d AdapterEnv \<Rightarrow> 'd InstrumentCatalog \<Rightarrow> string \<Rightarrow> 'd PublicLaneEvent list result" where
  "binance_parse_public E catalog payload =
     (case from_str E ''OpenInterestSnapshot'' read_BinanceOpenInterestSnapshot payload of
        Inr snapshot \<Rightarrow> binance_open_interest_event E catalog snapshot
      | Inl _ \<Rightarrow> and_then (binance_parse_native_public E payload) (binance_message_events E catalog))"


definition binance_balance_event :: "'d AdapterEnv \<Rightarrow> i64 \<Rightarrow> BinanceAccountBalance \<Rightarrow> 'd PrivateLaneEvent result" where
  "binance_balance_event E transaction_time balance =
     and_then (binance_decimal E (bn_ab_wallet_balance balance)) (\<lambda>wallet.
     and_then (binance_decimal E (bn_ab_cross_wallet_balance balance)) (\<lambda>available.
       Ok (PrivateLaneEvent.Balance \<lparr>bal_asset = StringId (bn_ab_asset balance), bal_wallet_balance = wallet,
         bal_available_balance = available, bal_updated_at = TimestampMs transaction_time\<rparr>)))"

definition binance_position_event ::
  "'d AdapterEnv \<Rightarrow> 'd InstrumentCatalog \<Rightarrow> i64 \<Rightarrow> BinanceAccountPosition \<Rightarrow> 'd PrivateLaneEvent result" where
  "binance_position_event E catalog event_time p =
     and_then (binance_require_native_symbol catalog (bn_ap_symbol p)) (\<lambda>spec.
     and_then (parse_decimal E Binance (bn_ap_position_amount p)) (\<lambda>amount.
     and_then (binance_optional_decimal E (bn_ap_entry_price p)) (\<lambda>entry_price.
     and_then (binance_decimal E (bn_ap_unrealized_pnl p)) (\<lambda>unrealized.
     and_then (binance_parse_margin_mode (bn_ap_margin_type p)) (\<lambda>margin_mode.
       Ok (PrivateLaneEvent.Position
         \<lparr>pos_position_id = StringId (''binance:'' @ bn_ap_symbol p @ '':'' @ bn_ap_position_side p),
          pos_instrument_id = is_instrument_id spec, pos_direction = decimal_direction (ae_decimal E) amount,
          pos_size = DecimalValue (dec_abs (ae_decimal E) amount), pos_entry_price = entry_price,
          pos_mark_price = None, pos_unrealized_pnl = Some unrealized, pos_leverage = None,
          pos_margin_mode = margin_mode, pos_position_mode = binance_parse_position_mode (bn_ap_position_side p),
          pos_updated_at = TimestampMs event_time\<rparr>))))))"

definition binance_order_trade_events ::
  "'d AdapterEnv \<Rightarrow> 'd InstrumentCatalog \<Rightarrow> BinanceOrderTradeData \<Rightarrow> 'd PrivateLaneEvent list result" where
  "binance_order_trade_events E catalog order =
     (let D = ae_decimal E;
          order_id = StringId (show_int (bn_otd_order_id order));
          client_order_id = Some (StringId (bn_otd_client_order_id order));
          updated_at = TimestampMs (bn_otd_trade_time order) in
      and_then (binance_require_native_symbol catalog (bn_otd_symbol order)) (\<lambda>spec.
      and_then (binance_optional_decimal E (bn_otd_average_price order)) (\<lambda>average.
      and_then (binance_parse_side (bn_otd_side order)) (\<lambda>side.
      and_then (binance_parse_order_type (bn_otd_order_type order)) (\<lambda>order_type.
      and_then (binance_parse_time_in_force (bn_otd_time_in_force order)) (\<lambda>tif.
      and_then (binance_parse_order_status (bn_otd_order_status order)) (\<lambda>status.
      and_then (binance_decimal E (bn_otd_price order)) (\<lambda>price.
      and_then (binance_decimal E (bn_otd_original_quantity order)) (\<lambda>quantity.
      and_then (binance_decimal E (bn_otd_cumulative_filled_qty order)) (\<lambda>filled.
      and_then (parse_decimal E Binance (bn_otd_last_filled_qty order)) (\<lambda>last_filled.
        (let updated = PrivateLaneEvent.Order
               \<lparr>ord_order_id = order_id, ord_client_order_id = client_order_id,
                ord_instrument_id = is_instrument_id spec, ord_side = side, ord_order_type = order_type,
                ord_time_in_force = Some tif, ord_status = status, ord_price = Some price,
                ord_quantity = quantity, ord_filled_quantity = filled, ord_average_fill_price = average,
                ord_reduce_only = bn_otd_reduce_only order, ord_post_only = False,
                ord_created_at = TimestampMs (case bn_otd_order_trade_time order of
                  None \<Rightarrow> bn_otd_trade_time order | Some t \<Rightarrow> t),
                ord_updated_at = updated_at, ord_venue_status = Some (bn_otd_execution_type order)\<rparr> in
         if dec_less D (dec_zero D) last_filled then
           and_then (binance_decimal E (bn_otd_last_filled_price order)) (\<lambda>exec_price.
           and_then (binance_optional_decimal E (bn_otd_commission order)) (\<lambda>fee.
             Ok [updated, PrivateLaneEvent.Execution
               \<lparr>exe_execution_id = StringId (show_int (case bn_otd_trade_id order of
                    None \<Rightarrow> bn_otd_trade_time order | Some t \<Rightarrow> t)),
                exe_order_id = order_id, exe_client_order_id = client_order_id,
                exe_instrument_id = is_instrument_id spec, exe_side = side,
                exe_quantity = DecimalValue last_filled, exe_price = exec_price, exe_fee = fee,
                exe_fee_asset = map_option StringId (bn_otd_commission_asset order), exe_liquidity = None,
                exe_executed_at = updated_at\<rparr>]))
         else Ok [updated]))))))))))))"

fun binance_private_events ::
  "'d AdapterEnv \<Rightarrow> 'd InstrumentCatalog \<Rightarrow> BinancePrivateMessage \<Rightarrow> 'd PrivateLaneEvent list result" where
  "binance_private_events E catalog (BnAccountUpdate event) =
     and_then (traverse (binance_balance_event E (bn_aue_transaction_time event))
            (bn_aud_balances (bn_aue_account event))) (\<lambda>balances.
     and_then (traverse (binance_position_event E catalog (bn_aue_event_time event))
            (bn_aud_positions (bn_aue_account event))) (\<lambda>positions.
       Ok (balances @ positions)))"
| "binance_private_events E catalog (BnOrderTradeUpdate event) =
     binance_order_trade_events E catalog (bn_otue_order event)"
| "binance_private_events E catalog (BnTradeLite event) =
     and_then (binance_require_native_symbol catalog (bn_tle_symbol event)) (\<lambda>spec.
     and_then (binance_parse_side (bn_tle_side event)) (\<lambda>side.
     and_then (binance_decimal E (bn_tle_last_filled_qty event)) (\<lambda>quantity.
     and_then (binance_decimal E (bn_tle_last_filled_price event)) (\<lambda>price.
       Ok [PrivateLaneEvent.Execution
         \<lparr>exe_execution_id = StringId (show_int (bn_tle_trade_id event)),
          exe_order_id = StringId (show_int (bn_tle_order_id event)),
          exe_client_order_id = Some (StringId (bn_tle_client_order_id event)),
          exe_instrument_id = is_instrument_id spec, exe_side = side, exe_quantity = quantity, exe_price = price,
          exe_fee = None, exe_fee_asset = None,
          exe_liquidity = Some (if bn_tle_is_maker event then Maker else Taker),
          exe_executed_at = TimestampMs (max (bn_tle_trade_time event) (bn_tle_event_time event))\<rparr>]))))"
| "binance_private_events E catalog (BnAlgoUpdate event) =
     map_result (\<lambda>order. [PrivateLaneEvent.Order order]) (binance_algo_order_from_update_event E catalog event)"

definition binance_parse_private ::
  "'d AdapterEnv \<Rightarrow> 'd InstrumentCatalog \<Rightarrow> string \<Rightarrow> 'd PrivateLaneEvent list result" where
  "binance_parse_private E catalog payload =
     and_then (binance_parse_native_private E payload) (binance_private_events E catalog)"

section \<open>Command responses\<close>

datatype BinanceAcceptedCommand =
    BnOrder BinanceOrderResponse
  | BnAlgoOrder BinanceAlgoOrderSnapshot
  | BnCancelAlgo BinanceCancelAlgoOrderResponse

definition parse_binance_order_response :: "'d AdapterEnv \<Rightarrow> string \<Rightarrow> string + BinanceOrderResponse" where
  "parse_binance_order_response E payload =
     (case ae_json E payload of
        Inr v \<Rightarrow>
          (case json_get ''result'' v of
             Some r \<Rightarrow> from_value E ''OrderResponse'' read_BinanceOrderResponse r
           | None \<Rightarrow> from_str E ''OrderResponse'' read_BinanceOrderResponse payload)
      | Inl _ \<Rightarrow> from_str E ''OrderResponse'' read_BinanceOrderResponse payload)"

definition parse_binance_command_identity :: "'d AdapterEnv \<Rightarrow> string \<Rightarrow> string + BinanceAcceptedCommand" where
  "parse_binance_command_identity E payload =
     (case parse_binance_order_response E payload of
        Inr r \<Rightarrow> Inr (BnOrder r)
      | Inl _ \<Rightarrow>
          (case from_str E ''AlgoOrderSnapshot'' read_BinanceAlgoOrderSnapshot payload of
             Inr r \<Rightarrow> Inr (BnAlgoOrder r)
           | Inl _ \<Rightarrow> map_sum id BnCancelAlgo
               (from_str E ''CancelAlgoOrderResponse'' read_BinanceCancelAlgoOrderResponse payload)))"

text \<open>The error a response carries: under \<^verbatim>\<open>error\<close> on the websocket, at the top over REST.\<close>

definition binance_response_error :: "'d AdapterEnv \<Rightarrow> string \<Rightarrow> BinanceErrorResponse option" where
  "binance_response_error E payload =
     (case ae_json E payload of
        Inl _ \<Rightarrow> None
      | Inr v \<Rightarrow> or_else (Option.bind (json_get ''error'' v) read_BinanceErrorResponse) (read_BinanceErrorResponse v))"

definition binance_order_receipt ::
  "'d AdapterEnv \<Rightarrow> 'd InstrumentCatalog \<Rightarrow> CommandOperation \<Rightarrow> string \<Rightarrow> RequestId option \<Rightarrow> CommandReceipt result" where
  "binance_order_receipt E catalog operation payload rid =
     and_then (map_err (\<lambda>err. with_operation ''binance.classify_command''
              (binance_error DecodeError (''failed to classify binance order response: '' @ err)))
            (parse_binance_command_identity E payload)) (\<lambda>response.
       (let (symbol, oid, cid) = (case response of
              BnOrder r \<Rightarrow> (Some (bn_or_symbol r), StringId (show_int (bn_or_order_id r)), bn_or_client_order_id r)
            | BnAlgoOrder r \<Rightarrow> (Some (bn_aos_symbol r), binance_algo_order_id (bn_aos_algo_id r), bn_aos_client_algo_id r)
            | BnCancelAlgo r \<Rightarrow> (None, binance_algo_order_id (bn_caor_algo_id r), bn_caor_client_algo_id r)) in
        and_then (transpose_map (\<lambda>y. map_result is_instrument_id (binance_require_native_symbol catalog y)) symbol) (\<lambda>iid.
          Ok ((plain_receipt Binance operation Accepted rid (Some ''accepted'') None False)
            \<lparr>rcp_instrument_id := iid, rcp_order_id := Some oid, rcp_client_order_id := Some (StringId cid)\<rparr>))))"

definition binance_accepted_receipt ::
  "'d AdapterEnv \<Rightarrow> 'd InstrumentCatalog \<Rightarrow> CommandOperation \<Rightarrow> string \<Rightarrow> RequestId option \<Rightarrow> CommandReceipt result" where
  "binance_accepted_receipt E catalog operation payload rid =
     (case operation of
        SetLeverage \<Rightarrow>
          and_then (map_err (\<lambda>err. market_error DecodeError
                   (''failed to classify binance leverage response: '' @ err))
                 (from_str E ''SetLeverageResponse'' read_BinanceSetLeverageResponse payload)) (\<lambda>response.
          and_then (binance_require_native_symbol catalog (bn_slr_symbol response)) (\<lambda>spec.
            Ok ((plain_receipt Binance operation Accepted rid
                  (Some (''leverage set to '' @ show_int (bn_slr_leverage response))) None False)
              \<lparr>rcp_instrument_id := Some (is_instrument_id spec)\<rparr>)))
      | SetMarginMode \<Rightarrow>
          and_then (map_err (\<lambda>err. market_error DecodeError
                   (''failed to classify binance margin-mode response: '' @ err))
                 (from_str E ''SuccessResponse'' read_BinanceSuccessResponse payload)) (\<lambda>response.
            Ok (plain_receipt Binance operation Accepted rid (Some (bn_sr_message response))
              (map_option show_int (bn_sr_code response)) False))
      | _ \<Rightarrow>
          (if operation \<in> {CreateOrder, AmendOrder, CancelOrder, ClosePosition, GetOrder}
           then binance_order_receipt E catalog operation payload rid
           else Ok (plain_receipt Binance operation Accepted rid (Some ''accepted'') None False)))"

definition binance_classify_command ::
  "'d AdapterEnv \<Rightarrow> 'd InstrumentCatalog \<Rightarrow> CommandOperation \<Rightarrow> string option \<Rightarrow> RequestId option \<Rightarrow> CommandReceipt result" where
  "binance_classify_command E catalog operation payload rid =
     (case payload of
        None \<Rightarrow> Ok (unknown_receipt Binance operation rid)
      | Some text \<Rightarrow>
          (case binance_response_error E text of
             Some err \<Rightarrow> Ok (rejected_receipt Binance operation rid (bn_er_message err) (bn_er_code err))
           | None \<Rightarrow> binance_accepted_receipt E catalog operation text rid))"

section \<open>Initial instruments\<close>

definition binance_instrument_spec ::
  "'d Decimal_ops \<Rightarrow> string \<Rightarrow> string \<Rightarrow> u32 \<Rightarrow> u32 \<Rightarrow> u32 \<Rightarrow> i64 \<Rightarrow> 'd InstrumentSpec option" where
  "binance_instrument_spec D base native price_scale qty_scale quote_scale max_leverage = do {
     tick \<leftarrow> dec_new D 1 price_scale;
     step \<leftarrow> dec_new D 1 qty_scale;
     notional \<leftarrow> dec_new D 5 quote_scale;
     leverage \<leftarrow> dec_new D max_leverage 0;
     Some \<lparr>is_venue = Binance, is_product = LinearUsdt, is_market_type = LinearPerpetual,
       is_instrument_id = StringId (canonical_symbol base ''USDT'' ''USDT''),
       is_canonical_symbol = canonical_symbol base ''USDT'' ''USDT'', is_native_symbol = native,
       is_base = StringId base, is_quote = StringId ''USDT'', is_settle = StringId ''USDT'',
       is_contract_size = DecimalValue (dec_one D), is_tick_size = DecimalValue tick,
       is_step_size = DecimalValue step, is_min_qty = DecimalValue step, is_min_notional = DecimalValue notional,
       is_price_scale = price_scale, is_qty_scale = qty_scale, is_quote_scale = quote_scale,
       is_max_leverage = Some (DecimalValue leverage), is_support = full_support, is_status = Active\<rparr>}"

definition binance_instruments :: "'d Decimal_ops \<Rightarrow> 'd InstrumentSpec list option" where
  "binance_instruments D = do {
     btc \<leftarrow> binance_instrument_spec D ''BTC'' ''BTCUSDT'' 2 3 5 125;
     eth \<leftarrow> binance_instrument_spec D ''ETH'' ''ETHUSDT'' 2 3 5 100;
     Some [btc, eth]}"

section \<open>The adapter keeps the contract\<close>


lemma settles_binance_symbol:
  assumes "catalog_wf catalog"
  shows "yields (\<lambda>spec. listed catalog (is_instrument_id spec)) (binance_require_native_symbol catalog symbol)"
  unfolding binance_require_native_symbol_def
  by (rule settles_native_symbol [OF assms])

lemma settles_binance_spelling:
  "settles t any (binance_parse_side raw)" "settles t any (binance_parse_order_type raw)"
  "settles t any (binance_parse_time_in_force raw)" "settles t any (binance_parse_order_status raw)"
  "settles t any (binance_parse_margin_mode raw)"
  by (simp_all add: binance_parse_side_def binance_parse_order_type_def binance_parse_time_in_force_def
      binance_parse_order_status_def binance_parse_margin_mode_def)

lemma settles_binance_optional:
  "settles t any (binance_optional_time_in_force raw)" "settles t any (binance_optional_decimal E v)"
  "settles t any (binance_optional_price_or_empty E v)" "settles t any (binance_optional_decimal_or_empty E v)"
  unfolding binance_optional_time_in_force_def binance_optional_decimal_def
      binance_optional_price_or_empty_def binance_optional_decimal_or_empty_def
  by (intro settles_map_any settles_transpose_any settles_binance_spelling settles_decimal)+

lemma settles_binance_margin_snapshot: "settles t any (binance_parse_margin_mode_snapshot E raw isolated margin wallet)"
  unfolding binance_parse_margin_mode_snapshot_def
  by (auto simp: settles_binance_spelling Let_def intro!: settles_and_then settles_transpose_any settles_decimal split: option.split)

lemma quantized_notional: "opt_i64 (quantize_optional_notional D v s)"
  using settles_quantize(3) [of True D "DecimalValue v" s]
  by (auto simp: quantize_optional_notional_def settles_def opt_i64_def split: sum.splits)

lemmas binance_reads = settles_binance_symbol settles_binance_spelling settles_binance_optional settles_read settles_decimal
  settles_binance_margin_snapshot

lemma binance_open_interest_sound:
  assumes "catalog_wf catalog"
  shows "yields (list_all (public_sound catalog)) (binance_open_interest_event E catalog snapshot)"
  unfolding binance_open_interest_event_def
  by (rule settles_and_then, (rule binance_reads assms)+)+ (simp add: sound_simps)

lemma binance_depth_sound:
  assumes "catalog_wf catalog"
  shows "yields (list_all (public_sound catalog)) (binance_depth_events E catalog event)"
  unfolding binance_depth_events_def
  by (rule settles_and_then, (rule binance_reads assms settles_traverse settles_ok_or TrueI)+)+ (simp add: sound_simps)

lemma binance_kline_sound:
  assumes "catalog_wf catalog"
  shows "yields (list_all (public_sound catalog)) (binance_kline_events E catalog event)"
  unfolding binance_kline_events_def Let_def
  by (rule settles_and_then, (rule binance_reads assms)+)+ (simp add: sound_simps)

lemma binance_force_order_sound:
  assumes "catalog_wf catalog"
  shows "yields (list_all (public_sound catalog)) (binance_force_order_events E catalog event)"
  unfolding binance_force_order_events_def Let_def
  by (rule settles_and_then, (rule binance_reads assms)+)+ (simp add: sound_simps)

lemma binance_message_sound:
  assumes "catalog_wf catalog"
  shows "yields (list_all (public_sound catalog)) (binance_message_events E catalog m)"
  using binance_depth_sound [OF assms] binance_kline_sound [OF assms] binance_force_order_sound [OF assms]
  by (cases m; simp only: binance_message_events.simps)
    ((rule settles_and_then, (rule binance_reads assms)+)+;
      simp add: sound_simps quantized_notional [unfolded opt_i64_def])+

lemma binance_public_sound:
  assumes "catalog_wf catalog"
  shows "yields (list_all (public_sound catalog)) (binance_parse_public E catalog payload)"
  unfolding binance_parse_public_def binance_parse_native_public_def
  by (auto intro: binance_open_interest_sound [OF assms] settles_and_then [OF settles_map_err binance_message_sound [OF assms]]
      split: sum.split)

lemma binance_position_listed:
  assumes "catalog_wf catalog"
  shows "yields (private_listed catalog) (binance_position_event E catalog t p)"
  unfolding binance_position_event_def
  by (rule settles_and_then, (rule binance_reads assms)+)+ (simp add: sound_simps)

lemma binance_balance_listed: "yields (private_listed catalog) (binance_balance_event E t b)"
  unfolding binance_balance_event_def
  by (rule settles_and_then, (rule binance_reads)+)+ (simp add: sound_simps)

lemma binance_order_trade_listed:
  assumes "catalog_wf catalog"
  shows "yields (list_all (private_listed catalog)) (binance_order_trade_events E catalog order)"
  unfolding binance_order_trade_events_def Let_def
  by ((rule settles_and_then, (rule binance_reads assms)+)+, rule settles_if, (rule settles_and_then, (rule binance_reads assms)+)+)
    (simp_all add: sound_simps)

lemma binance_algo_update_listed:
  assumes "catalog_wf catalog"
  shows "yields (\<lambda>order. listed catalog (ord_instrument_id order)) (binance_algo_order_from_update_event E catalog event)"
  unfolding binance_algo_order_from_update_event_def Let_def
  by (rule settles_and_then, (rule binance_reads assms)+)+ simp

lemma binance_private_listed:
  assumes "catalog_wf catalog"
  shows "yields (list_all (private_listed catalog)) (binance_private_events E catalog m)"
proof (cases m)
  case (BnAccountUpdate event)
  show ?thesis unfolding BnAccountUpdate binance_private_events.simps
    by (rule settles_and_then, rule settles_traverse, rule binance_balance_listed binance_position_listed [OF assms])+ simp
next
  case (BnOrderTradeUpdate event)
  then show ?thesis by (simp add: binance_order_trade_listed [OF assms])
next
  case (BnTradeLite event)
  show ?thesis unfolding BnTradeLite binance_private_events.simps
    by (rule settles_and_then, (rule binance_reads assms)+)+ (simp add: sound_simps)
next
  case (BnAlgoUpdate event)
  show ?thesis unfolding BnAlgoUpdate binance_private_events.simps
    by (rule settles_map_result [OF binance_algo_update_listed [OF assms]]) (simp add: sound_simps)
qed

lemma settles_binance_symbol_any: "settles t any (binance_require_native_symbol catalog symbol)"
  unfolding binance_require_native_symbol_def by (rule settles_ok_or) (rule TrueI)

lemma binance_accepted_answers:
  "yields (answers Binance operation rid) (binance_accepted_receipt E catalog operation payload rid)"
proof -
  have order: "yields (answers Binance operation rid) (binance_order_receipt E catalog operation payload rid)" for operation
    unfolding binance_order_receipt_def Let_def split_beta
    by (rule settles_and_then [OF settles_map_err], rule settles_and_then [OF settles_transpose_any],
        rule settles_map_any [OF settles_binance_symbol_any]) (simp add: sound_simps)
  show ?thesis
    unfolding binance_accepted_receipt_def
    by (cases operation)
      (auto simp: order answers_def plain_receipt_def intro!: settles_and_then [OF settles_map_err] settles_and_then [OF settles_binance_symbol_any])
qed

lemma binance_private_sound:
  assumes "catalog_wf catalog"
  shows "yields (list_all (private_listed catalog)) (binance_parse_private E catalog payload)"
  unfolding binance_parse_private_def binance_parse_native_private_def
  by (rule settles_and_then [OF settles_map_err binance_private_listed [OF assms]])

interpretation binance: total_adapter Binance "\<lambda>catalog payload (c::unit). (binance_parse_public E catalog payload, c)"
  "binance_parse_private E" "binance_classify_command E" for E
proof
  fix catalog :: "'a InstrumentCatalog" and payload operation rid and c :: unit
  let ?frame = "fst (binance_parse_public E catalog payload, c)"
  show "catalog_wf catalog \<Longrightarrow> delivers (list_all (public_sound catalog)) ?frame"
    and "catalog_wf catalog \<Longrightarrow> ?frame \<noteq> Panic"
    using binance_public_sound [of catalog E payload] by (simp_all add: yields_iff)
  show "catalog_wf catalog \<Longrightarrow> delivers (list_all (private_listed catalog)) (binance_parse_private E catalog payload)"
    and "catalog_wf catalog \<Longrightarrow> binance_parse_private E catalog payload \<noteq> Panic"
    using binance_private_sound [of catalog E payload] by (simp_all add: yields_iff)
  show "binance_classify_command E catalog operation None rid = Ok (unknown_receipt Binance operation rid)"
    by (simp add: binance_classify_command_def)
  show "yields (answers Binance operation rid) (binance_classify_command E catalog operation (Some payload) rid)"
    by (simp add: binance_classify_command_def binance_accepted_answers sound_simps split: option.split)
qed

end
