(* ===== verification/Bybit_Adapter.thy ===== *)
theory Bybit_Adapter
  imports Adapter Bybit_Native
begin

text \<open>
  \<^verbatim>\<open>bat-markets-bybit/src/lib.rs\<close>: the adapter of Bybit linear futures.  Beside the instrument
  catalog it keeps a cache of tickers: the venue sends a full ticker once and then only the
  fields that changed, so a frame is merged into the cached ticker before it is read.
\<close>

section \<open>Errors and symbols\<close>

definition bybit_error :: "ErrorKind \<Rightarrow> string \<Rightarrow> MarketError" where
  "bybit_error kind message = with_venue Bybit LinearUsdt (market_error kind message)"

definition bybit_decode_error :: "string \<Rightarrow> MarketError" where
  "bybit_decode_error err = bybit_error DecodeError (''failed to decode bybit topic payload: '' @ err)"

definition bybit_decode_string_error :: "string \<Rightarrow> string \<Rightarrow> MarketError" where
  "bybit_decode_string_error label err = bybit_error DecodeError (''failed to decode '' @ label @ '': '' @ err)"

definition bybit_exchange_reject :: "i64 \<Rightarrow> string \<Rightarrow> MarketError" where
  "bybit_exchange_reject code message = with_native_code (show_int code) (bybit_error ExchangeReject message)"

definition bybit_require_native_symbol :: "'d InstrumentCatalog \<Rightarrow> string \<Rightarrow> 'd InstrumentSpec result" where
  "bybit_require_native_symbol catalog symbol =
     ok_or (bybit_error Unsupported (''unsupported bybit symbol '' @ quoted symbol)) (by_native_symbol catalog symbol)"

definition bybit_require_instrument :: "'d InstrumentCatalog \<Rightarrow> InstrumentId \<Rightarrow> 'd InstrumentSpec result" where
  "bybit_require_instrument catalog iid =
     ok_or (bybit_error Unsupported (''unsupported bybit instrument '' @ quoted (as_str iid))) (catalog_get catalog iid)"

text \<open>A REST response: decoded, and refused when its return code is not zero.\<close>

definition bybit_response ::
  "'d AdapterEnv \<Rightarrow> string \<Rightarrow> 'r json_reader \<Rightarrow> ('r \<Rightarrow> i64) \<Rightarrow> ('r \<Rightarrow> string) \<Rightarrow> string \<Rightarrow> 'r result" where
  "bybit_response E type_name r ret_code ret_msg payload =
     and_then (map_err bybit_decode_error (from_str E type_name r payload)) (\<lambda>response.
       if ret_code response \<noteq> 0 then Err (bybit_exchange_reject (ret_code response) (ret_msg response))
       else Ok response)"

section \<open>Values\<close>

abbreviation bybit_decimal :: "'d AdapterEnv \<Rightarrow> string \<Rightarrow> ('tag, 'd) decimal_value result" where
  "bybit_decimal E \<equiv> decimal_text E Bybit"

definition bybit_optional_decimal_str :: "'d AdapterEnv \<Rightarrow> string \<Rightarrow> 'd option result" where
  "bybit_optional_decimal_str E raw =
     (let raw = str_trim raw in
      if raw = [] then Ok None else map_result Some (parse_decimal E Bybit raw))"

definition bybit_optional_decimal :: "'d AdapterEnv \<Rightarrow> string option \<Rightarrow> 'd option result" where
  "bybit_optional_decimal E raw =
     (let trimmed = map_option str_trim raw in
      transpose_map (parse_decimal E Bybit) (if trimmed = Some '''' then None else trimmed))"

definition bybit_decimal_or_zero_on_empty :: "'d AdapterEnv \<Rightarrow> string \<Rightarrow> 'd result" where
  "bybit_decimal_or_zero_on_empty E raw =
     map_result (\<lambda>v. case v of None \<Rightarrow> dec_zero (ae_decimal E) | Some d \<Rightarrow> d) (bybit_optional_decimal_str E raw)"

definition bybit_parse_side :: "string \<Rightarrow> Side result" where
  "bybit_parse_side raw =
     (if raw = ''Buy'' then Ok Buy else if raw = ''Sell'' then Ok Sell
      else Err (market_error DecodeError (''unsupported bybit side '' @ quoted raw)))"

definition bybit_parse_aggressor :: "string \<Rightarrow> AggressorSide result" where
  "bybit_parse_aggressor raw =
     (if raw = ''Buy'' then Ok Buyer else if raw = ''Sell'' then Ok Seller
      else Err (market_error DecodeError (''unsupported bybit trade side '' @ quoted raw)))"

definition bybit_parse_order_type :: "string \<Rightarrow> OrderType result" where
  "bybit_parse_order_type raw =
     (if raw = ''Market'' then Ok Market else if raw = ''Limit'' then Ok Limit
      else if raw = ''Stop'' then Ok StopLimit else if raw = ''StopMarket'' then Ok StopMarket
      else if raw = ''TakeProfit'' then Ok TakeProfitLimit
      else if raw = ''TakeProfitMarket'' then Ok TakeProfitMarket
      else Err (market_error DecodeError (''unsupported bybit order type '' @ quoted raw)))"

definition bybit_parse_time_in_force :: "string \<Rightarrow> TimeInForce result" where
  "bybit_parse_time_in_force raw =
     (if raw = ''GTC'' then Ok Gtc else if raw = ''IOC'' then Ok Ioc else if raw = ''FOK'' then Ok Fok
      else if raw = ''PostOnly'' then Ok PostOnly
      else Err (market_error DecodeError (''unsupported bybit time in force '' @ quoted raw)))"

definition bybit_parse_order_status :: "string \<Rightarrow> OrderStatus result" where
  "bybit_parse_order_status raw =
     (if raw = ''New'' then Ok New else if raw = ''PartiallyFilled'' then Ok PartiallyFilled
      else if raw = ''Filled'' then Ok Filled else if raw \<in> {''Cancelled'', ''Canceled''} then Ok Canceled
      else if raw \<in> {''Rejected'', ''Deactivated''} then Ok OrderStatus.Rejected
      else Err (market_error DecodeError (''unsupported bybit order status '' @ quoted raw)))"

definition bybit_parse_trade_mode :: "nat \<Rightarrow> MarginMode" where
  "bybit_parse_trade_mode mode = (if mode = 1 then Isolated else Cross)"

definition bybit_parse_margin_mode_name :: "string \<Rightarrow> MarginMode option" where
  "bybit_parse_margin_mode_name raw =
     (if raw = ''ISOLATED_MARGIN'' then Some Isolated
      else if raw \<in> {''REGULAR_MARGIN'', ''CROSS_MARGIN''} then Some Cross else None)"

definition bybit_parse_position_mode :: "nat \<Rightarrow> PositionMode" where
  "bybit_parse_position_mode index = (if index = 0 then OneWay else Hedge)"

definition bybit_parse_instrument_status :: "string \<Rightarrow> InstrumentStatus" where
  "bybit_parse_instrument_status raw =
     (if raw = ''Trading'' then Active
      else if raw \<in> {''Settling'', ''Closed'', ''PreLaunch''} then Halted
      else if raw = ''Deliverying'' then Settled else Halted)"

section \<open>Native messages and the ticker cache\<close>

definition bybit_parse_native_public :: "'d AdapterEnv \<Rightarrow> string \<Rightarrow> BybitPublicEnvelope result" where
  "bybit_parse_native_public E payload =
     map_err (\<lambda>err. with_operation ''bybit.parse_native_public''
         (bybit_error DecodeError (''failed to parse bybit public payload: '' @ err)))
       (from_str E ''PublicEnvelope'' read_BybitPublicEnvelope payload)"

definition bybit_parse_native_private :: "'d AdapterEnv \<Rightarrow> string \<Rightarrow> BybitPrivateEnvelope result" where
  "bybit_parse_native_private E payload =
     map_err (\<lambda>err. with_operation ''bybit.parse_native_private''
         (bybit_error DecodeError (''failed to parse bybit private payload: '' @ err)))
       (from_str E ''PrivateEnvelope'' read_BybitPrivateEnvelope payload)"

definition merge_string_field :: "string option \<Rightarrow> string \<Rightarrow> string" where
  "merge_string_field value target = (case value of Some v \<Rightarrow> if v = [] then target else v | None \<Rightarrow> target)"

definition merge_optional_string_field :: "string option \<Rightarrow> string option \<Rightarrow> string option" where
  "merge_optional_string_field value target = (case value of Some v \<Rightarrow> if v = [] then target else Some v | None \<Rightarrow> target)"

definition empty_ticker :: "string \<Rightarrow> BybitTickerData" where
  "empty_ticker symbol =
     \<lparr>by_td_symbol = symbol, by_td_last_price = [], by_td_mark_price = [], by_td_index_price = [],
      by_td_open_interest = [], by_td_funding_rate = [], by_td_volume_24h = [], by_td_turnover_24h = [],
      by_td_bid1_price = None, by_td_bid1_size = None, by_td_ask1_price = None, by_td_ask1_size = None\<rparr>"

definition merge_ticker :: "BybitTickerPatch \<Rightarrow> BybitTickerData \<Rightarrow> BybitTickerData" where
  "merge_ticker patch entry = entry
     \<lparr>by_td_last_price := merge_string_field (by_tp_last_price patch) (by_td_last_price entry),
      by_td_mark_price := merge_string_field (by_tp_mark_price patch) (by_td_mark_price entry),
      by_td_index_price := merge_string_field (by_tp_index_price patch) (by_td_index_price entry),
      by_td_open_interest := merge_string_field (by_tp_open_interest patch) (by_td_open_interest entry),
      by_td_funding_rate := merge_string_field (by_tp_funding_rate patch) (by_td_funding_rate entry),
      by_td_volume_24h := merge_string_field (by_tp_volume_24h patch) (by_td_volume_24h entry),
      by_td_turnover_24h := merge_string_field (by_tp_turnover_24h patch) (by_td_turnover_24h entry),
      by_td_bid1_price := merge_optional_string_field (by_tp_bid1_price patch) (by_td_bid1_price entry),
      by_td_bid1_size := merge_optional_string_field (by_tp_bid1_size patch) (by_td_bid1_size entry),
      by_td_ask1_price := merge_optional_string_field (by_tp_ask1_price patch) (by_td_ask1_price entry),
      by_td_ask1_size := merge_optional_string_field (by_tp_ask1_size patch) (by_td_ask1_size entry)\<rparr>"

definition ensure_non_empty :: "string \<Rightarrow> string \<Rightarrow> unit result" where
  "ensure_non_empty value field =
     (if value = [] then Err (market_error DecodeError
        (''missing bybit ticker field '' @ quoted field @ '' after snapshot/delta merge''))
      else Ok ())"

definition bybit_ticker_patch :: "'d AdapterEnv \<Rightarrow> BybitPublicEnvelope \<Rightarrow> (string \<times> BybitTickerPatch) result" where
  "bybit_ticker_patch E envelope =
     and_then (map_err bybit_decode_error
         (from_value E ''TickerPatch'' read_BybitTickerPatch (by_pe_data envelope))) (\<lambda>patch.
     and_then (ok_or (market_error DecodeError
           (''failed to derive bybit ticker symbol from topic '' @ quoted (by_pe_topic envelope)))
         (or_else (by_tp_symbol patch) (strip_prefix ''tickers.'' (by_pe_topic envelope)))) (\<lambda>symbol.
       Ok (symbol, patch)))"

text \<open>
  The merged ticker, with the new cache: the entry is updated even when the merge is then
  refused for lack of a last price.
\<close>

definition merged_ticker_data ::
  "'d AdapterEnv \<Rightarrow> BybitPublicEnvelope \<Rightarrow> TickerCache \<Rightarrow> BybitTickerData result \<times> TickerCache" where
  "merged_ticker_data E envelope cache =
     (case bybit_ticker_patch E envelope of
        Inl err \<Rightarrow> (Inl err, cache)
      | Inr (symbol, patch) \<Rightarrow>
          (let entry = merge_ticker patch (case bt_get cache symbol of None \<Rightarrow> empty_ticker symbol | Some t \<Rightarrow> t) in
           (map_result (\<lambda>_. entry) (ensure_non_empty (by_td_last_price entry) ''lastPrice''),
            bt_insert symbol entry cache)))"

section \<open>Metadata and time\<close>

definition bybit_parse_server_time :: "'d AdapterEnv \<Rightarrow> string \<Rightarrow> TimestampMs result" where
  "bybit_parse_server_time E payload =
     and_then (bybit_response E ''ServerTimeResponse'' read_BybitServerTimeResponse
            by_str_ret_code by_str_ret_msg payload) (\<lambda>response.
     and_then ((let raw = by_strx_time_nano (by_str_result response) in
         ok_or (bybit_decode_string_error ''bybit server time nano'' (parse_signed_error 128 raw)) (parse_signed 128 raw))) (\<lambda>nanos.
       Ok (TimestampMs (i64_wrap (sgn nanos * (\<bar>nanos\<bar> div 1000000))))))"

definition bybit_instrument_info :: "'d AdapterEnv \<Rightarrow> BybitInstrumentInfo \<Rightarrow> 'd InstrumentSpec result" where
  "bybit_instrument_info E instrument =
     (let D = ae_decimal E; lot = by_ii_lot_size_filter instrument;
          symbol_name = canonical_symbol (by_ii_base_coin instrument) (by_ii_quote_coin instrument) (by_ii_settle_coin instrument) in
      and_then (parse_decimal E Bybit (by_pf_tick_size (by_ii_price_filter instrument))) (\<lambda>tick_size.
      and_then (parse_decimal E Bybit (by_lsf_qty_step lot)) (\<lambda>qty_step.
      and_then (parse_decimal E Bybit (by_lsf_min_order_qty lot)) (\<lambda>min_qty.
      and_then (parse_decimal E Bybit (by_lsf_min_notional_value lot)) (\<lambda>min_notional.
      and_then (bybit_decimal E (by_lf_max_leverage (by_ii_leverage_filter instrument))) (\<lambda>leverage.
        (let price_scale = decimal_scale D tick_size; qty_scale = decimal_scale D qty_step in
         Ok \<lparr>is_venue = Bybit, is_product = LinearUsdt, is_market_type = LinearPerpetual,
           is_instrument_id = StringId symbol_name, is_canonical_symbol = symbol_name,
           is_native_symbol = by_ii_symbol instrument, is_base = StringId (by_ii_base_coin instrument),
           is_quote = StringId (by_ii_quote_coin instrument), is_settle = StringId (by_ii_settle_coin instrument),
           is_contract_size = DecimalValue (dec_one D), is_tick_size = DecimalValue tick_size,
           is_step_size = DecimalValue qty_step, is_min_qty = DecimalValue min_qty,
           is_min_notional = DecimalValue min_notional, is_price_scale = price_scale, is_qty_scale = qty_scale,
           is_quote_scale = max (u32_saturating_add price_scale qty_scale) (decimal_scale D min_notional),
           is_max_leverage = Some leverage, is_support = full_support,
           is_status = bybit_parse_instrument_status (by_ii_status instrument)\<rparr>)))))))"

definition bybit_parse_metadata_snapshot :: "'d AdapterEnv \<Rightarrow> string \<Rightarrow> 'd InstrumentSpec list result" where
  "bybit_parse_metadata_snapshot E payload =
     and_then (bybit_response E ''InstrumentsInfoResponse'' read_BybitInstrumentsInfoResponse
            by_iir_ret_code by_iir_ret_msg payload) (\<lambda>response.
       traverse (bybit_instrument_info E)
         (filter (\<lambda>i. by_ii_contract_type i = ''LinearPerpetual'') (by_iirx_list (by_iir_result response))))"

section \<open>Account, orders and executions\<close>

record BybitAccountContext =
  bac_wallet_account_type :: string
  bac_margin_mode :: "MarginMode option"

definition bybit_parse_account_context :: "'d AdapterEnv \<Rightarrow> string \<Rightarrow> BybitAccountContext result" where
  "bybit_parse_account_context E payload =
     and_then (bybit_response E ''AccountInfoResponse'' read_BybitAccountInfoResponse
            by_air_ret_code by_air_ret_msg payload) (\<lambda>response.
       (let result = by_air_result response in
        Ok \<lparr>bac_wallet_account_type =
              (if (case by_airx_unified_margin_status result of None \<Rightarrow> 0 | Some n \<Rightarrow> n) > 0
               then ''UNIFIED'' else ''CONTRACT''),
            bac_margin_mode = Option.bind (by_airx_margin_mode result) bybit_parse_margin_mode_name\<rparr>))"

definition bybit_coin_balance :: "'d AdapterEnv \<Rightarrow> TimestampMs \<Rightarrow> BybitWalletCoin \<Rightarrow> 'd Balance result" where
  "bybit_coin_balance E updated_at coin =
     and_then (bybit_decimal E (by_wc_wallet_balance coin)) (\<lambda>wallet.
     and_then (bybit_decimal_or_zero_on_empty E (by_wc_available_to_withdraw coin)) (\<lambda>available.
       Ok \<lparr>bal_asset = StringId (by_wc_coin coin), bal_wallet_balance = wallet,
         bal_available_balance = DecimalValue available, bal_updated_at = updated_at\<rparr>))"

definition bybit_parse_account_snapshot ::
  "'d AdapterEnv \<Rightarrow> string \<Rightarrow> TimestampMs \<Rightarrow> 'd AccountSnapshot result" where
  "bybit_parse_account_snapshot E payload observed_at =
     and_then (bybit_response E ''WalletBalanceResponse'' read_BybitWalletBalanceResponse
            by_wbr_ret_code by_wbr_ret_msg payload) (\<lambda>response.
     and_then (ok_or (market_error DecodeError ''missing bybit wallet balance account'')
         (hd_option (by_wbrx_list (by_wbr_result response)))) (\<lambda>account.
     and_then (traverse (bybit_coin_balance E observed_at) (by_wba_coin account)) (\<lambda>balances.
     and_then (bybit_decimal E (by_wba_total_wallet_balance account)) (\<lambda>wallet.
     and_then (bybit_decimal_or_zero_on_empty E (by_wba_total_available_balance account)) (\<lambda>available.
     and_then (bybit_optional_decimal E (by_wba_total_perp_upl account)) (\<lambda>unrealized.
       Ok \<lparr>acc_balances = balances, acc_summary = Some \<lparr>sum_total_wallet_balance = wallet,
           sum_total_available_balance = DecimalValue available,
           sum_total_unrealized_pnl = DecimalValue (case unrealized of None \<Rightarrow> dec_zero (ae_decimal E) | Some d \<Rightarrow> d),
           sum_updated_at = observed_at\<rparr>\<rparr>))))))"

definition bybit_position_from_snapshot ::
  "'d AdapterEnv \<Rightarrow> 'd InstrumentCatalog \<Rightarrow> TimestampMs \<Rightarrow> BybitPositionData \<Rightarrow> 'd Position result" where
  "bybit_position_from_snapshot E catalog observed_at p =
     and_then (bybit_require_native_symbol catalog (by_pd_symbol p)) (\<lambda>spec.
     and_then (bybit_parse_side (by_pd_side p)) (\<lambda>side.
     and_then (bybit_decimal E (by_pd_size p)) (\<lambda>amount.
     and_then (bybit_optional_decimal_str E (by_pd_entry_price p)) (\<lambda>entry_price.
     and_then (bybit_optional_decimal_str E (by_pd_unrealised_pnl p)) (\<lambda>unrealized.
     and_then (bybit_optional_decimal E (by_pd_leverage p)) (\<lambda>leverage.
       Ok \<lparr>pos_position_id = StringId (''bybit:'' @ by_pd_symbol p @ '':'' @ show_nat (by_pd_position_idx p)),
         pos_instrument_id = is_instrument_id spec,
         pos_direction = (case side of Buy \<Rightarrow> Long | Sell \<Rightarrow> Short), pos_size = amount,
         pos_entry_price = map_option DecimalValue entry_price, pos_mark_price = None,
         pos_unrealized_pnl = map_option DecimalValue unrealized, pos_leverage = map_option DecimalValue leverage,
         pos_margin_mode = bybit_parse_trade_mode (by_pd_trade_mode p),
         pos_position_mode = bybit_parse_position_mode (by_pd_position_idx p), pos_updated_at = observed_at\<rparr>))))))"

definition bybit_parse_positions_snapshot ::
  "'d AdapterEnv \<Rightarrow> 'd InstrumentCatalog \<Rightarrow> string \<Rightarrow> TimestampMs \<Rightarrow> 'd Position list result" where
  "bybit_parse_positions_snapshot E catalog payload observed_at =
     and_then (bybit_response E ''PositionListResponse'' read_BybitPositionListResponse
            by_plr_ret_code by_plr_ret_msg payload) (\<lambda>response.
       traverse (bybit_position_from_snapshot E catalog observed_at)
         (filter (\<lambda>p. by_pd_size p \<noteq> ''0'') (by_plrx_list (by_plr_result response))))"

definition bybit_order_from_snapshot ::
  "'d AdapterEnv \<Rightarrow> 'd InstrumentCatalog \<Rightarrow> TimestampMs \<Rightarrow> BybitOrderData \<Rightarrow> 'd Order result" where
  "bybit_order_from_snapshot E catalog observed_at order =
     and_then (bybit_require_native_symbol catalog (by_od_symbol order)) (\<lambda>spec.
     and_then (bybit_parse_side (by_od_side order)) (\<lambda>side.
     and_then (bybit_parse_order_type (by_od_order_type order)) (\<lambda>order_type.
     and_then (bybit_parse_time_in_force (by_od_time_in_force order)) (\<lambda>tif.
     and_then (bybit_parse_order_status (by_od_order_status order)) (\<lambda>status.
     and_then (bybit_optional_decimal_str E (by_od_price order)) (\<lambda>price.
     and_then (bybit_decimal E (by_od_quantity order)) (\<lambda>quantity.
     and_then (bybit_decimal E (by_od_cumulative_exec_qty order)) (\<lambda>filled.
     and_then (bybit_optional_decimal E (by_od_average_price order)) (\<lambda>average.
       Ok \<lparr>ord_order_id = StringId (by_od_order_id order),
         ord_client_order_id = map_option StringId (by_od_order_link_id order),
         ord_instrument_id = is_instrument_id spec, ord_side = side, ord_order_type = order_type,
         ord_time_in_force = Some tif, ord_status = status, ord_price = map_option DecimalValue price,
         ord_quantity = quantity, ord_filled_quantity = filled,
         ord_average_fill_price = map_option DecimalValue average,
         ord_reduce_only = by_od_reduce_only order, ord_post_only = (by_od_time_in_force order = ''PostOnly''),
         ord_created_at = (if by_od_created_time order > 0 then TimestampMs (by_od_created_time order) else observed_at),
         ord_updated_at = (if by_od_updated_time order > 0 then TimestampMs (by_od_updated_time order) else observed_at),
         ord_venue_status = Some (by_od_order_status order)\<rparr>)))))))))"

definition bybit_parse_open_orders_snapshot ::
  "'d AdapterEnv \<Rightarrow> 'd InstrumentCatalog \<Rightarrow> string \<Rightarrow> TimestampMs \<Rightarrow> 'd Order list result" where
  "bybit_parse_open_orders_snapshot E catalog payload observed_at =
     and_then (bybit_response E ''OrderListResponse'' read_BybitOrderListResponse
            by_olr_ret_code by_olr_ret_msg payload) (\<lambda>response.
       traverse (bybit_order_from_snapshot E catalog observed_at) (by_olrx_list (by_olr_result response)))"

definition bybit_parse_order_snapshot ::
  "'d AdapterEnv \<Rightarrow> 'd InstrumentCatalog \<Rightarrow> string \<Rightarrow> TimestampMs \<Rightarrow> 'd Order result" where
  "bybit_parse_order_snapshot E catalog payload observed_at =
     and_then (bybit_parse_open_orders_snapshot E catalog payload observed_at) (\<lambda>orders.
       ok_or (market_error DecodeError ''missing bybit order snapshot entry in response'') (hd_option (rev orders)))"

definition bybit_parse_order_history_snapshot ::
  "'d AdapterEnv \<Rightarrow> 'd InstrumentCatalog \<Rightarrow> string \<Rightarrow> TimestampMs \<Rightarrow> 'd Order list result" where
  "bybit_parse_order_history_snapshot E catalog payload observed_at =
     bybit_parse_open_orders_snapshot E catalog payload observed_at"

definition bybit_execution_from_snapshot ::
  "'d AdapterEnv \<Rightarrow> 'd InstrumentCatalog \<Rightarrow> BybitExecutionData \<Rightarrow> 'd Execution result" where
  "bybit_execution_from_snapshot E catalog execution =
     and_then (bybit_require_native_symbol catalog (by_ed_symbol execution)) (\<lambda>spec.
     and_then (bybit_parse_side (by_ed_side execution)) (\<lambda>side.
     and_then (bybit_decimal E (by_ed_exec_qty execution)) (\<lambda>quantity.
     and_then (bybit_decimal E (by_ed_exec_price execution)) (\<lambda>price.
     and_then (bybit_decimal E (by_ed_exec_fee execution)) (\<lambda>fee.
       Ok \<lparr>exe_execution_id = StringId (by_ed_exec_id execution), exe_order_id = StringId (by_ed_order_id execution),
         exe_client_order_id = map_option StringId (by_ed_order_link_id execution),
         exe_instrument_id = is_instrument_id spec, exe_side = side, exe_quantity = quantity, exe_price = price,
         exe_fee = Some fee, exe_fee_asset = map_option StringId (by_ed_fee_currency execution),
         exe_liquidity = None, exe_executed_at = TimestampMs (by_ed_exec_time execution)\<rparr>)))))"

definition bybit_parse_executions_snapshot ::
  "'d AdapterEnv \<Rightarrow> 'd InstrumentCatalog \<Rightarrow> string \<Rightarrow> 'd Execution list result" where
  "bybit_parse_executions_snapshot E catalog payload =
     and_then (bybit_response E ''ExecutionListResponse'' read_BybitExecutionListResponse
            by_elr_ret_code by_elr_ret_msg payload) (\<lambda>response.
       traverse (bybit_execution_from_snapshot E catalog) (by_elrx_list (by_elr_result response)))"

section \<open>Market snapshots\<close>

definition bybit_parse_ticker_snapshot ::
  "'d AdapterEnv \<Rightarrow> 'd InstrumentCatalog \<Rightarrow> string \<Rightarrow> InstrumentId \<Rightarrow> 'd Ticker result" where
  "bybit_parse_ticker_snapshot E catalog payload iid =
     and_then (bybit_response E ''MarketTickersResponse'' read_BybitMarketTickersResponse
            by_mtr_ret_code by_mtr_ret_msg payload) (\<lambda>response.
     and_then (bybit_require_instrument catalog iid) (\<lambda>spec.
     and_then (ok_or (market_error DecodeError ''missing bybit ticker entry in market/tickers response'')
         (hd_option (by_mtrx_list (by_mtr_result response)))) (\<lambda>data.
     and_then (read_price E Bybit spec (by_td_last_price data)) (\<lambda>last_price.
     and_then (read_price E Bybit spec (by_td_mark_price data)) (\<lambda>mark_price.
     and_then (read_price E Bybit spec (by_td_index_price data)) (\<lambda>index_price.
     and_then (read_quantity E Bybit spec (by_td_volume_24h data)) (\<lambda>volume.
     and_then (parse_decimal E Bybit (by_td_turnover_24h data)) (\<lambda>turnover_value.
     and_then (notional_quantize (ae_decimal E) (DecimalValue turnover_value) (is_quote_scale spec)) (\<lambda>turnover.
       or_panic (ticker_to_unified (ae_decimal E) spec
         \<lparr>ft_instrument_id = is_instrument_id spec, ft_last_price = last_price, ft_mark_price = Some mark_price,
          ft_index_price = Some index_price, ft_volume_24h = Some volume, ft_turnover_24h = Some turnover,
          ft_event_time = TimestampMs (ae_now E)\<rparr>))))))))))"

definition bybit_parse_trades_snapshot ::
  "'d AdapterEnv \<Rightarrow> 'd InstrumentCatalog \<Rightarrow> string \<Rightarrow> FetchTradesRequest \<Rightarrow> 'd TradeTick list result" where
  "bybit_parse_trades_snapshot E catalog payload request =
     and_then (bybit_response E ''RecentPublicTradesResponse'' read_BybitRecentPublicTradesResponse
            by_rptr_ret_code by_rptr_ret_msg payload) (\<lambda>response.
     and_then (bybit_require_instrument catalog (ftq_instrument_id request)) (\<lambda>spec.
       traverse (\<lambda>trade.
         and_then (ok_or (bybit_decode_string_error ''bybit trade time''
                (parse_signed_error 64 (by_rptd_time trade))) (parse_i64 (by_rptd_time trade))) (\<lambda>trade_time.
         and_then (read_price E Bybit spec (by_rptd_price trade)) (\<lambda>price.
         and_then (read_quantity E Bybit spec (by_rptd_size trade)) (\<lambda>quantity.
         and_then (bybit_parse_aggressor (by_rptd_side trade)) (\<lambda>side.
           or_panic (trade_to_unified (ae_decimal E) spec
             \<lparr>ftr_instrument_id = is_instrument_id spec, ftr_trade_id = StringId (by_rptd_exec_id trade),
              ftr_price = price, ftr_quantity = quantity, ftr_aggressor_side = side,
              ftr_event_time = TimestampMs trade_time\<rparr>)))))) (by_rptrx_list (by_rptr_result response))))"

definition bybit_best ::
  "(string \<times> string) list \<Rightarrow> (string \<times> string) list \<Rightarrow> ((string \<times> string) \<times> (string \<times> string)) result" where
  "bybit_best bids asks =
     and_then (ok_or (market_error DecodeError ''missing bybit best bid'') (hd_option bids)) (\<lambda>bid.
     and_then (ok_or (market_error DecodeError ''missing bybit best ask'') (hd_option asks)) (\<lambda>ask.
       Ok (bid, ask)))"

definition bybit_book_top ::
  "'d AdapterEnv \<Rightarrow> 'd InstrumentSpec \<Rightarrow> string \<times> string \<Rightarrow> string \<times> string \<Rightarrow> TimestampMs \<Rightarrow> FastBookTop result" where
  "bybit_book_top E spec best_bid best_ask event_time =
     and_then (read_level E Bybit spec best_bid) (\<lambda>bid.
     and_then (read_level E Bybit spec best_ask) (\<lambda>ask.
       Ok \<lparr>fbt_instrument_id = is_instrument_id spec, fbt_bid_price = fst bid, fbt_bid_quantity = snd bid,
         fbt_ask_price = fst ask, fbt_ask_quantity = snd ask, fbt_event_time = event_time\<rparr>))"

definition bybit_parse_book_top_snapshot ::
  "'d AdapterEnv \<Rightarrow> 'd InstrumentCatalog \<Rightarrow> string \<Rightarrow> InstrumentId \<Rightarrow> 'd BookTop result" where
  "bybit_parse_book_top_snapshot E catalog payload iid =
     and_then (bybit_require_instrument catalog iid) (\<lambda>spec.
     and_then (bybit_response E ''OrderBookResponse'' read_BybitOrderBookResponse by_obr_ret_code by_obr_ret_msg payload) (\<lambda>response.
     and_then (bybit_best (by_obd_bids (by_obr_result response)) (by_obd_asks (by_obr_result response))) (\<lambda>best.
     and_then (bybit_book_top E spec (fst best) (snd best)
         (TimestampMs (case or_else (by_obd_cts (by_obr_result response)) (by_obd_ts (by_obr_result response)) of
            None \<Rightarrow> ae_now E | Some t \<Rightarrow> t))) (\<lambda>top.
       or_panic (book_top_to_unified (ae_decimal E) spec top)))))"

definition read_BybitKlineList :: "(i64 \<times> string \<times> string list list) json_reader" where
  "read_BybitKlineList v =
     Option.bind (req_field ''retCode'' json_as_i64 v) (\<lambda>code.
     Option.bind (req_field ''retMsg'' json_as_str v) (\<lambda>msg.
     Option.bind (req_field ''result'' (req_field ''list'' (json_as_vec (json_as_array 7 json_as_str))) v) (\<lambda>rows.
       Some (code, msg, rows))))"

definition bybit_row_price :: "'d AdapterEnv \<Rightarrow> 'd InstrumentSpec \<Rightarrow> string \<Rightarrow> 'd Price result" where
  "bybit_row_price E spec raw =
     and_then (read_price E Bybit spec raw) (\<lambda>p.
       or_panic (price_from_fast (ae_decimal E) spec p))"

definition parse_bybit_kline_row ::
  "'d AdapterEnv \<Rightarrow> ('t, 'date) Time_ops \<Rightarrow> 'd InstrumentSpec \<Rightarrow> KlineInterval \<Rightarrow> string list \<Rightarrow> 'd Kline result" where
  "parse_bybit_kline_row E TO spec interval row =
     and_then (ok_or (bybit_decode_string_error ''bybit kline startTime''
            (parse_signed_error 64 (row ! 0))) (parse_i64 (row ! 0))) (\<lambda>open_time.
     and_then (ok_or (bybit_error DecodeError (''failed to derive bybit kline close time for interval '' @
            quoted (as_interval_str interval))) (close_time_ms TO interval open_time)) (\<lambda>close_time.
     and_then (bybit_row_price E spec (row ! 1)) (\<lambda>op.
     and_then (bybit_row_price E spec (row ! 2)) (\<lambda>hi.
     and_then (bybit_row_price E spec (row ! 3)) (\<lambda>lo.
     and_then (bybit_row_price E spec (row ! 4)) (\<lambda>cl.
     and_then (read_quantity E Bybit spec (row ! 5)) (\<lambda>fast_volume.
     and_then (or_panic (quantity_from_fast (ae_decimal E) spec fast_volume)) (\<lambda>volume.
       Ok \<lparr>kl_instrument_id = is_instrument_id spec, kl_interval = as_interval_str interval, kl_open = op,
         kl_high = hi, kl_low = lo, kl_close = cl, kl_volume = volume, kl_open_time = TimestampMs open_time,
         kl_close_time = TimestampMs close_time, kl_closed = (close_time < ae_now E)\<rparr>))))))))"

definition bybit_parse_ohlcv_snapshot ::
  "'d AdapterEnv \<Rightarrow> ('t, 'date) Time_ops \<Rightarrow> 'd InstrumentCatalog \<Rightarrow> string \<Rightarrow> FetchOhlcvRequest \<Rightarrow> 'd Kline list result" where
  "bybit_parse_ohlcv_snapshot E TO catalog payload request =
     and_then (ok_or (bybit_error Unsupported
            (''unsupported bybit OHLCV interval '' @ quoted (fo_interval request))) (interval_parse (fo_interval request))) (\<lambda>interval.
     and_then (single_instrument_id request) (\<lambda>iid.
     and_then (bybit_require_instrument catalog iid) (\<lambda>spec.
     and_then (bybit_response E ''KlineListResponse'' read_BybitKlineList fst (\<lambda>r. fst (snd r)) payload) (\<lambda>response.
     and_then (traverse (parse_bybit_kline_row E TO spec interval) (snd (snd response))) (\<lambda>klines.
       Ok (sort_key (\<lambda>k. timestamp_value (kl_open_time k)) klines))))))"

section \<open>Stream frames\<close>

definition bybit_optional_price ::
  "'d AdapterEnv \<Rightarrow> 'd InstrumentSpec \<Rightarrow> string \<Rightarrow> FastPrice option result" where
  "bybit_optional_price E spec raw =
     and_then (bybit_optional_decimal_str E raw)
       (transpose_map (\<lambda>v. price_quantize (ae_decimal E) (DecimalValue v) (is_price_scale spec)))"

definition bybit_optional_quantity ::
  "'d AdapterEnv \<Rightarrow> 'd InstrumentSpec \<Rightarrow> string \<Rightarrow> FastQuantity option result" where
  "bybit_optional_quantity E spec raw =
     and_then (bybit_optional_decimal_str E raw)
       (transpose_map (\<lambda>v. quantity_quantize (ae_decimal E) (DecimalValue v) (is_qty_scale spec)))"

definition bybit_optional_notional ::
  "'d AdapterEnv \<Rightarrow> 'd InstrumentSpec \<Rightarrow> string \<Rightarrow> FastNotional option result" where
  "bybit_optional_notional E spec raw =
     and_then (bybit_optional_decimal_str E raw)
       (transpose_map (\<lambda>v. notional_quantize (ae_decimal E) (DecimalValue v) (is_quote_scale spec)))"

definition bybit_mark_price_events ::
  "'d AdapterEnv \<Rightarrow> 'd InstrumentSpec \<Rightarrow> TimestampMs \<Rightarrow> BybitTickerData \<Rightarrow> 'd PublicLaneEvent list result" where
  "bybit_mark_price_events E spec event_time data =
     and_then (bybit_optional_decimal_str E (by_td_mark_price data)) (\<lambda>mark.
       (case mark of
        None \<Rightarrow> Ok []
      | Some mark_price \<Rightarrow>
          and_then (price_quantize (ae_decimal E) (DecimalValue mark_price) (is_price_scale spec)) (\<lambda>price.
          and_then (bybit_optional_decimal_str E (by_td_funding_rate data)) (\<lambda>rate.
            Ok [PublicLaneEvent.MarkPrice \<lparr>fmp_instrument_id = is_instrument_id spec, fmp_price = price,
              fmp_funding_rate = map_option DecimalValue rate, fmp_event_time = event_time\<rparr>]))))"

definition bybit_funding_events ::
  "'d AdapterEnv \<Rightarrow> 'd InstrumentSpec \<Rightarrow> TimestampMs \<Rightarrow> BybitTickerData \<Rightarrow> 'd PublicLaneEvent list result" where
  "bybit_funding_events E spec event_time data =
     and_then (bybit_optional_decimal_str E (by_td_funding_rate data)) (\<lambda>funding.
       (case funding of
        None \<Rightarrow> Ok []
      | Some rate \<Rightarrow>
          and_then (bybit_optional_decimal_str E (by_td_mark_price data)) (\<lambda>mark.
            Ok [PublicLaneEvent.FundingRate \<lparr>fr_instrument_id = is_instrument_id spec, fr_value = DecimalValue rate,
              fr_mark_price = map_option DecimalValue mark, fr_event_time = event_time\<rparr>])))"

definition bybit_open_interest_events ::
  "'d AdapterEnv \<Rightarrow> 'd InstrumentSpec \<Rightarrow> TimestampMs \<Rightarrow> BybitTickerData \<Rightarrow> 'd PublicLaneEvent list result" where
  "bybit_open_interest_events E spec event_time data =
     map_result (\<lambda>v. case v of None \<Rightarrow> [] | Some d \<Rightarrow>
       [PublicLaneEvent.OpenInterest \<lparr>oi_instrument_id = is_instrument_id spec, oi_value = DecimalValue d,
         oi_event_time = event_time\<rparr>])
     (bybit_optional_decimal_str E (by_td_open_interest data))"

definition bybit_ticker_events ::
  "'d AdapterEnv \<Rightarrow> 'd InstrumentCatalog \<Rightarrow> TimestampMs \<Rightarrow> BybitTickerData \<Rightarrow> 'd PublicLaneEvent list result" where
  "bybit_ticker_events E catalog event_time data =
     and_then (bybit_require_native_symbol catalog (by_td_symbol data)) (\<lambda>spec.
     and_then (read_price E Bybit spec (by_td_last_price data)) (\<lambda>last_price.
     and_then (bybit_optional_price E spec (by_td_mark_price data)) (\<lambda>mark_price.
     and_then (bybit_optional_price E spec (by_td_index_price data)) (\<lambda>index_price.
     and_then (bybit_optional_quantity E spec (by_td_volume_24h data)) (\<lambda>volume.
     and_then (bybit_optional_notional E spec (by_td_turnover_24h data)) (\<lambda>turnover.
     and_then (bybit_mark_price_events E spec event_time data) (\<lambda>marks.
     and_then (bybit_funding_events E spec event_time data) (\<lambda>rates.
     and_then (bybit_open_interest_events E spec event_time data) (\<lambda>interest.
       Ok (PublicLaneEvent.Ticker \<lparr>ft_instrument_id = is_instrument_id spec, ft_last_price = last_price,
           ft_mark_price = mark_price, ft_index_price = index_price, ft_volume_24h = volume,
           ft_turnover_24h = turnover, ft_event_time = event_time\<rparr> # marks @ rates @ interest))))))))))"

definition bybit_trade_event ::
  "'d AdapterEnv \<Rightarrow> 'd InstrumentCatalog \<Rightarrow> BybitPublicTradeData \<Rightarrow> 'd PublicLaneEvent result" where
  "bybit_trade_event E catalog trade =
     and_then (bybit_require_native_symbol catalog (by_ptd_symbol trade)) (\<lambda>spec.
     and_then (read_price E Bybit spec (by_ptd_price trade)) (\<lambda>price.
     and_then (read_quantity E Bybit spec (by_ptd_quantity trade)) (\<lambda>quantity.
     and_then (bybit_parse_aggressor (by_ptd_side trade)) (\<lambda>side.
       Ok (PublicLaneEvent.Trade \<lparr>ftr_instrument_id = is_instrument_id spec, ftr_trade_id = StringId (by_ptd_trade_id trade),
         ftr_price = price, ftr_quantity = quantity, ftr_aggressor_side = side,
         ftr_event_time = TimestampMs (by_ptd_trade_time trade)\<rparr>)))))"

definition bybit_orderbook_events ::
  "'d AdapterEnv \<Rightarrow> 'd InstrumentCatalog \<Rightarrow> TimestampMs \<Rightarrow> BybitOrderBookData \<Rightarrow> 'd PublicLaneEvent list result" where
  "bybit_orderbook_events E catalog event_time data =
     and_then (bybit_require_native_symbol catalog (by_obd_symbol data)) (\<lambda>spec.
     and_then (bybit_best (by_obd_bids data) (by_obd_asks data)) (\<lambda>best.
     and_then (bybit_book_top E spec (fst best) (snd best) event_time) (\<lambda>top.
     and_then (traverse (read_level E Bybit spec) (by_obd_bids data)) (\<lambda>bids.
     and_then (traverse (read_level E Bybit spec) (by_obd_asks data)) (\<lambda>asks.
       Ok [PublicLaneEvent.BookTop top,
         PublicLaneEvent.OrderBookDelta \<lparr>fob_instrument_id = is_instrument_id spec, fob_bids = bids,
           fob_asks = asks, fob_event_time = event_time\<rparr>])))))"

definition bybit_liquidation_event ::
  "'d AdapterEnv \<Rightarrow> 'd InstrumentCatalog \<Rightarrow> BybitAllLiquidationData \<Rightarrow> 'd PublicLaneEvent result" where
  "bybit_liquidation_event E catalog liquidation =
     and_then (bybit_require_native_symbol catalog (by_ald_symbol liquidation)) (\<lambda>spec.
     and_then (bybit_parse_side (by_ald_side liquidation)) (\<lambda>side.
     and_then (read_price E Bybit spec (by_ald_price liquidation)) (\<lambda>price.
     and_then (read_quantity E Bybit spec (by_ald_quantity liquidation)) (\<lambda>quantity.
       Ok (PublicLaneEvent.Liquidation \<lparr>fl_instrument_id = is_instrument_id spec, fl_side = side, fl_price = price,
         fl_quantity = quantity, fl_event_time = TimestampMs (by_ald_updated_time liquidation)\<rparr>)))))"

definition bybit_kline_event ::
  "'d AdapterEnv \<Rightarrow> 'd InstrumentCatalog \<Rightarrow> string \<Rightarrow> BybitKlineData \<Rightarrow> 'd PublicLaneEvent result" where
  "bybit_kline_event E catalog topic_symbol kline =
     and_then (bybit_require_native_symbol catalog
            (case by_kd_symbol kline of None \<Rightarrow> topic_symbol | Some symbol \<Rightarrow> symbol)) (\<lambda>spec.
     and_then (read_price E Bybit spec (by_kd_open kline)) (\<lambda>op.
     and_then (read_price E Bybit spec (by_kd_high kline)) (\<lambda>hi.
     and_then (read_price E Bybit spec (by_kd_low kline)) (\<lambda>lo.
     and_then (read_price E Bybit spec (by_kd_close kline)) (\<lambda>cl.
     and_then (read_quantity E Bybit spec (by_kd_volume kline)) (\<lambda>volume.
       Ok (PublicLaneEvent.Kline \<lparr>fk_instrument_id = is_instrument_id spec, fk_interval = by_kd_interval kline,
         fk_open = op, fk_high = hi, fk_low = lo, fk_close = cl, fk_volume = volume,
         fk_open_time = TimestampMs (by_kd_start kline), fk_close_time = TimestampMs (by_kd_end kline),
         fk_closed = by_kd_confirm kline\<rparr>)))))))"

text \<open>\<^verbatim>\<open>topic.rsplit('.').next()\<close>: what follows the last dot.\<close>

definition topic_tail :: "string \<Rightarrow> string" where
  "topic_tail topic = rev (takeWhile (\<lambda>c. c \<noteq> CHR ''.'') (rev topic))"

text \<open>The frames of a topic; the tickers, which go through the cache, apart.\<close>

definition bybit_topic_events ::
  "'d AdapterEnv \<Rightarrow> 'd InstrumentCatalog \<Rightarrow> BybitPublicEnvelope \<Rightarrow> 'd PublicLaneEvent list result" where
  "bybit_topic_events E catalog envelope =
     (let topic = by_pe_topic envelope; data = by_pe_data envelope; event_time = TimestampMs (by_pe_ts envelope) in
      if starts_with ''publicTrade.'' topic then
        and_then (map_err bybit_decode_error
            (from_value E ''Vec<PublicTradeData>'' (json_as_vec read_BybitPublicTradeData) data))
          (traverse (bybit_trade_event E catalog))
      else if starts_with ''orderbook.'' topic then
        and_then (map_err bybit_decode_error (from_value E ''OrderBookData'' read_BybitOrderBookData data))
          (bybit_orderbook_events E catalog event_time)
      else if starts_with ''allLiquidation.'' topic then
        and_then (map_err bybit_decode_error
            (from_value E ''Vec<AllLiquidationData>'' (json_as_vec read_BybitAllLiquidationData) data))
          (traverse (bybit_liquidation_event E catalog))
      else if starts_with ''kline.'' topic then
        and_then (map_err bybit_decode_error
            (from_value E ''Vec<KlineData>'' (json_as_vec read_BybitKlineData) data))
          (traverse (bybit_kline_event E catalog (topic_tail topic)))
      else Err (market_error Unsupported (''unsupported bybit public topic '' @ quoted topic)))"

definition bybit_parse_public ::
  "'d AdapterEnv \<Rightarrow> 'd InstrumentCatalog \<Rightarrow> string \<Rightarrow> TickerCache \<Rightarrow> 'd PublicLaneEvent list result \<times> TickerCache" where
  "bybit_parse_public E catalog payload cache =
     (case bybit_parse_native_public E payload of
        Inl err \<Rightarrow> (Inl err, cache)
      | Inr envelope \<Rightarrow>
          (if starts_with ''tickers.'' (by_pe_topic envelope) then
             (case merged_ticker_data E envelope cache of
                (merged, cache') \<Rightarrow>
                  (and_then merged (bybit_ticker_events E catalog (TimestampMs (by_pe_ts envelope))), cache'))
           else (bybit_topic_events E catalog envelope, cache)))"

definition bybit_parse_private ::
  "'d AdapterEnv \<Rightarrow> 'd InstrumentCatalog \<Rightarrow> string \<Rightarrow> 'd PrivateLaneEvent list result" where
  "bybit_parse_private E catalog payload =
     and_then (bybit_parse_native_private E payload) (\<lambda>envelope.
       let topic = by_pex_topic envelope; data = by_pex_data envelope;
           received_at = TimestampMs (by_pex_creation_time envelope) in
       if topic = ''wallet'' then
         and_then (map_err bybit_decode_error (from_value E ''Vec<WalletData>'' (json_as_vec read_BybitWalletData) data))
           (\<lambda>wallets. map_result (map PrivateLaneEvent.Balance)
             (traverse (bybit_coin_balance E received_at) (concat (map by_wd_coins wallets))))
       else if topic = ''position'' then
         and_then (map_err bybit_decode_error (from_value E ''Vec<PositionData>'' (json_as_vec read_BybitPositionData) data))
           (\<lambda>positions. map_result (map PrivateLaneEvent.Position)
             (traverse (bybit_position_from_snapshot E catalog received_at) (filter (\<lambda>p. by_pd_size p \<noteq> ''0'') positions)))
       else if topic = ''order'' then
         and_then (map_err bybit_decode_error (from_value E ''Vec<OrderData>'' (json_as_vec read_BybitOrderData) data))
           (\<lambda>orders. map_result (map PrivateLaneEvent.Order) (traverse (bybit_order_from_snapshot E catalog received_at) orders))
       else if topic = ''execution'' then
         and_then (map_err bybit_decode_error (from_value E ''Vec<ExecutionData>'' (json_as_vec read_BybitExecutionData) data))
           (\<lambda>executions. map_result (map PrivateLaneEvent.Execution)
             (traverse (bybit_execution_from_snapshot E catalog) executions))
       else Err (market_error Unsupported (''unsupported bybit private topic '' @ quoted topic)))"

section \<open>Command responses\<close>

definition bybit_ret_code :: "Json \<Rightarrow> BybitRetCodeResponse" where
  "bybit_ret_code v =
     \<lparr>by_rcr_ret_code = (case Option.bind (json_get ''retCode'' v)
          (\<lambda>c. or_else (json_as_i64 c) (Option.bind (json_as_str c) parse_i64)) of None \<Rightarrow> 0 | Some n \<Rightarrow> n),
      by_rcr_ret_msg = (case Option.bind (json_get ''retMsg'' v) json_as_str of None \<Rightarrow> [] | Some m \<Rightarrow> m),
      by_rcr_result = or_else (json_get ''result'' v) (json_get ''data'' v)\<rparr>"

definition bybit_order_result :: "Json \<Rightarrow> BybitOrderResult" where
  "bybit_order_result v =
     (case read_BybitOrderResult v of
        None \<Rightarrow> \<lparr>by_or_symbol = None, by_or_order_id = None, by_or_order_link_id = None\<rparr>
      | Some r \<Rightarrow> r)"

definition bybit_classify_command ::
  "'d AdapterEnv \<Rightarrow> 'd InstrumentCatalog \<Rightarrow> CommandOperation \<Rightarrow> string option \<Rightarrow> RequestId option \<Rightarrow> CommandReceipt result" where
  "bybit_classify_command E catalog operation payload rid =
     (case payload of
        None \<Rightarrow> Ok (unknown_receipt Bybit operation rid)
      | Some body \<Rightarrow>
          and_then (map_err (\<lambda>err. market_error DecodeError (''failed to classify bybit command response: '' @ err))
              (ae_json E body)) (\<lambda>v.
            let response = bybit_ret_code v; code = by_rcr_ret_code response; msg = by_rcr_ret_msg response in
            if code \<noteq> 0 then Ok (rejected_receipt Bybit operation rid msg code)
            else
              let accepted = plain_receipt Bybit operation Accepted rid (Some msg) (Some (show_int code)) False in
              if operation \<in> {CreateOrder, AmendOrder, CancelOrder, ClosePosition, GetOrder} then
                let order = bybit_order_result (case by_rcr_result response of None \<Rightarrow> JNull | Some r \<Rightarrow> r) in
                Ok (accepted
                  \<lparr>rcp_instrument_id := map_option is_instrument_id (Option.bind (by_or_symbol order) (by_native_symbol catalog)),
                   rcp_order_id := map_option StringId (by_or_order_id order),
                   rcp_client_order_id := map_option StringId (by_or_order_link_id order)\<rparr>)
              else Ok accepted))"

section \<open>Initial instruments\<close>

definition bybit_instrument_spec ::
  "'d Decimal_ops \<Rightarrow> string \<Rightarrow> string \<Rightarrow> u32 \<Rightarrow> u32 \<Rightarrow> u32 \<Rightarrow> i64 \<Rightarrow> 'd InstrumentSpec option" where
  "bybit_instrument_spec D base native price_scale qty_scale quote_scale max_leverage = do {
     tick \<leftarrow> dec_new D 1 price_scale;
     step \<leftarrow> dec_new D 1 qty_scale;
     notional \<leftarrow> dec_new D 5 quote_scale;
     leverage \<leftarrow> dec_new D max_leverage 0;
     Some \<lparr>is_venue = Bybit, is_product = LinearUsdt, is_market_type = LinearPerpetual,
       is_instrument_id = StringId (canonical_symbol base ''USDT'' ''USDT''),
       is_canonical_symbol = canonical_symbol base ''USDT'' ''USDT'', is_native_symbol = native,
       is_base = StringId base, is_quote = StringId ''USDT'', is_settle = StringId ''USDT'',
       is_contract_size = DecimalValue (dec_one D), is_tick_size = DecimalValue tick,
       is_step_size = DecimalValue step, is_min_qty = DecimalValue step, is_min_notional = DecimalValue notional,
       is_price_scale = price_scale, is_qty_scale = qty_scale, is_quote_scale = quote_scale,
       is_max_leverage = Some (DecimalValue leverage), is_support = full_support, is_status = Active\<rparr>}"

definition bybit_instruments :: "'d Decimal_ops \<Rightarrow> 'd InstrumentSpec list option" where
  "bybit_instruments D = do {
     btc \<leftarrow> bybit_instrument_spec D ''BTC'' ''BTCUSDT'' 2 3 5 100;
     eth \<leftarrow> bybit_instrument_spec D ''ETH'' ''ETHUSDT'' 2 3 5 50;
     Some [btc, eth]}"

section \<open>The adapter keeps the contract\<close>

lemma settles_bybit_symbol:
  "catalog_wf catalog \<Longrightarrow>
    settles t (\<lambda>spec. listed catalog (is_instrument_id spec)) (bybit_require_native_symbol catalog symbol)"
  unfolding bybit_require_native_symbol_def by (rule settles_native_symbol)

lemma settles_bybit_spelling:
  "settles t any (bybit_parse_side raw)" "settles t any (bybit_parse_aggressor raw)"
  "settles t any (bybit_parse_order_type raw)" "settles t any (bybit_parse_time_in_force raw)"
  "settles t any (bybit_parse_order_status raw)"
  by (simp_all add: bybit_parse_side_def bybit_parse_aggressor_def bybit_parse_order_type_def
      bybit_parse_time_in_force_def bybit_parse_order_status_def)

lemma settles_bybit_optional:
  "settles t any (bybit_optional_decimal_str E raw)" "settles t any (bybit_optional_decimal E v)"
  "settles t any (bybit_decimal_or_zero_on_empty E raw)"
proof -
  show *: "settles t any (bybit_optional_decimal_str E raw)"
    by (auto simp: bybit_optional_decimal_str_def Let_def intro: settles_map_any settles_decimal)
  show "settles t any (bybit_optional_decimal E v)"
    unfolding bybit_optional_decimal_def Let_def by (intro settles_transpose_any settles_decimal)
  show "settles t any (bybit_decimal_or_zero_on_empty E raw)"
    unfolding bybit_decimal_or_zero_on_empty_def by (rule settles_map_any [OF *])
qed

lemma settles_bybit_quantized:
  "settles t (pred_option fits) (bybit_optional_price E spec raw)"
  "settles t (pred_option fits) (bybit_optional_quantity E spec raw)"
  "settles t (pred_option fits) (bybit_optional_notional E spec raw)"
  unfolding bybit_optional_price_def bybit_optional_quantity_def bybit_optional_notional_def
  by (rule settles_and_then [OF settles_bybit_optional(1)] settles_transpose settles_quantize)+

lemmas bybit_reads = settles_bybit_symbol settles_bybit_spelling settles_bybit_optional settles_bybit_quantized
  settles_read settles_decimal

lemma bybit_ticker_sound:
  assumes "catalog_wf catalog"
  shows "yields (list_all (public_sound catalog)) (bybit_ticker_events E catalog t0 data)"
proof -
  have mark: "listed catalog (is_instrument_id spec) \<Longrightarrow>
      yields (list_all (public_sound catalog)) (bybit_mark_price_events E spec t0 data)" for spec
    unfolding bybit_mark_price_events_def
    by (rule settles_and_then [OF settles_bybit_optional(1)])
      (auto simp: sound_simps intro!: settles_and_then [OF settles_quantize(1)]
        settles_and_then [OF settles_bybit_optional(1)] split: option.split)
  have rate: "listed catalog (is_instrument_id spec) \<Longrightarrow>
      yields (list_all (public_sound catalog)) (bybit_funding_events E spec t0 data)" for spec
    unfolding bybit_funding_events_def
    by (rule settles_and_then [OF settles_bybit_optional(1)])
      (auto simp: sound_simps intro!: settles_and_then [OF settles_bybit_optional(1)] split: option.split)
  have interest: "listed catalog (is_instrument_id spec) \<Longrightarrow>
      yields (list_all (public_sound catalog)) (bybit_open_interest_events E spec t0 data)" for spec
    unfolding bybit_open_interest_events_def
    by (rule settles_map_result [OF settles_bybit_optional(1)]) (auto simp: sound_simps split: option.split)
  show ?thesis
    unfolding bybit_ticker_events_def
    by (rule settles_and_then, (rule bybit_reads assms mark rate interest | assumption)+)+
      (auto simp: sound_simps split: option.splits)
qed

lemma bybit_book_top_sound:
  "listed catalog (is_instrument_id spec) \<Longrightarrow>
    yields (\<lambda>top. public_sound catalog (PublicLaneEvent.BookTop top)) (bybit_book_top E spec bid ask t0)"
  unfolding bybit_book_top_def
  by (rule settles_and_then, (rule bybit_reads)+)+ (simp add: sound_simps)

lemma bybit_best_total: "yields any (bybit_best bids asks)"
  by (simp add: bybit_best_def hd_option_def split: list.split)

lemma bybit_orderbook_sound:
  assumes "catalog_wf catalog"
  shows "yields (list_all (public_sound catalog)) (bybit_orderbook_events E catalog t0 data)"
  unfolding bybit_orderbook_events_def
proof (rule settles_and_then [OF settles_bybit_symbol [OF assms]])
  fix spec :: "'a InstrumentSpec"
  assume spec: "listed catalog (is_instrument_id spec)"
  show "yields (list_all (public_sound catalog)) (and_then (bybit_best (by_obd_bids data) (by_obd_asks data)) (\<lambda>best.
      and_then (bybit_book_top E spec (fst best) (snd best) t0) (\<lambda>top.
      and_then (traverse (read_level E Bybit spec) (by_obd_bids data)) (\<lambda>bids.
      and_then (traverse (read_level E Bybit spec) (by_obd_asks data)) (\<lambda>asks.
        Ok [PublicLaneEvent.BookTop top, PublicLaneEvent.OrderBookDelta \<lparr>fob_instrument_id = is_instrument_id spec,
          fob_bids = bids, fob_asks = asks, fob_event_time = t0\<rparr>])))))"
    by (rule settles_and_then [OF bybit_best_total], rule settles_and_then [OF bybit_book_top_sound [OF spec]],
        rule settles_and_then [OF settles_traverse [OF settles_read_level]],
        rule settles_and_then [OF settles_traverse [OF settles_read_level]])
      (simp add: spec public_sound_def public_listed_def)
qed

lemma bybit_trade_sound:
  "catalog_wf catalog \<Longrightarrow> yields (public_sound catalog) (bybit_trade_event E catalog trade)"
  unfolding bybit_trade_event_def
  by (rule settles_and_then, (rule bybit_reads | assumption)+)+ (simp add: sound_simps)

lemma bybit_liquidation_sound:
  "catalog_wf catalog \<Longrightarrow> yields (public_sound catalog) (bybit_liquidation_event E catalog liquidation)"
  unfolding bybit_liquidation_event_def
  by (rule settles_and_then, (rule bybit_reads | assumption)+)+ (simp add: sound_simps)

lemma bybit_kline_sound:
  "catalog_wf catalog \<Longrightarrow> yields (public_sound catalog) (bybit_kline_event E catalog topic kline)"
  unfolding bybit_kline_event_def
  by (rule settles_and_then, (rule bybit_reads | assumption)+)+ (simp add: sound_simps)

lemma bybit_topic_sound:
  assumes "catalog_wf catalog"
  shows "yields (list_all (public_sound catalog)) (bybit_topic_events E catalog envelope)"
  unfolding bybit_topic_events_def Let_def
  by (intro settles_if settles_and_then [OF settles_map_err] settles_traverse bybit_orderbook_sound
      bybit_trade_sound bybit_liquidation_sound bybit_kline_sound assms) simp

lemma bybit_public_sound:
  assumes "catalog_wf catalog"
  shows "yields (list_all (public_sound catalog)) (fst (bybit_parse_public E catalog payload cache))"
proof -
  have "yields any (fst (merged_ticker_data E envelope cache))" for envelope
    unfolding merged_ticker_data_def bybit_ticker_patch_def ensure_non_empty_def
    by (auto simp: Let_def map_err_def ok_or_def split: sum.split option.split prod.split)
  then have "yields (list_all (public_sound catalog))
      (and_then (fst (merged_ticker_data E envelope cache)) (bybit_ticker_events E catalog t0))" for envelope t0
    by (rule settles_and_then) (rule bybit_ticker_sound [OF assms])
  then show ?thesis
    using bybit_topic_sound [OF assms, of E]
    by (auto simp: bybit_parse_public_def bybit_parse_native_public_def map_err_def split_beta split: sum.split)
qed

lemma bybit_entries_listed:
  assumes "catalog_wf catalog"
  shows "yields (\<lambda>p. private_listed catalog (PrivateLaneEvent.Position p)) (bybit_position_from_snapshot E catalog t0 p)"
    and "yields (\<lambda>r. private_listed catalog (PrivateLaneEvent.Order r)) (bybit_order_from_snapshot E catalog t0 r)"
    and "yields (\<lambda>e. private_listed catalog (PrivateLaneEvent.Execution e)) (bybit_execution_from_snapshot E catalog e)"
  unfolding bybit_position_from_snapshot_def bybit_order_from_snapshot_def bybit_execution_from_snapshot_def
  by ((rule settles_and_then, (rule bybit_reads assms)+)+, simp add: sound_simps)+

lemma bybit_balance_listed:
  "yields (\<lambda>b. private_listed catalog (PrivateLaneEvent.Balance b)) (bybit_coin_balance E t0 coin)"
  unfolding bybit_coin_balance_def by (rule settles_and_then, (rule bybit_reads)+)+ (simp add: sound_simps)

lemma bybit_private_sound:
  assumes "catalog_wf catalog"
  shows "yields (list_all (private_listed catalog)) (bybit_parse_private E catalog payload)"
proof -
  have wrapped: "(\<And>x. yields (\<lambda>y. private_listed catalog (wrap y)) (f x)) \<Longrightarrow>
      yields (list_all (private_listed catalog)) (map_result (map wrap) (traverse f xs))" for f wrap xs
    by (rule settles_map_result [OF settles_traverse], assumption) (simp add: list_all_iff)
  show ?thesis
    unfolding bybit_parse_private_def bybit_parse_native_private_def Let_def
    by (intro settles_if settles_and_then [OF settles_map_err] wrapped bybit_balance_listed
        bybit_entries_listed [OF assms]) simp
qed

interpretation bybit: total_adapter Bybit "bybit_parse_public E" "bybit_parse_private E" "bybit_classify_command E" for E
proof
  fix catalog :: "'a InstrumentCatalog" and payload operation rid c
  show "catalog_wf catalog \<Longrightarrow> delivers (list_all (public_sound catalog)) (fst (bybit_parse_public E catalog payload c))"
    and "catalog_wf catalog \<Longrightarrow> fst (bybit_parse_public E catalog payload c) \<noteq> Panic"
    using bybit_public_sound [of catalog E payload c] by (simp_all add: yields_iff)
  show "catalog_wf catalog \<Longrightarrow> delivers (list_all (private_listed catalog)) (bybit_parse_private E catalog payload)"
    and "catalog_wf catalog \<Longrightarrow> bybit_parse_private E catalog payload \<noteq> Panic"
    using bybit_private_sound [of catalog E payload] by (simp_all add: yields_iff)
  show "bybit_classify_command E catalog operation None rid = Ok (unknown_receipt Bybit operation rid)"
    by (simp add: bybit_classify_command_def)
  show "yields (answers Bybit operation rid) (bybit_classify_command E catalog operation (Some payload) rid)"
    unfolding bybit_classify_command_def option.case Let_def
    by (rule settles_and_then [OF settles_map_err]) (simp add: sound_simps)
qed

section \<open>The ticker cache\<close>

text \<open>
  What the cache stands for: the patches received so far, in order, of which every field keeps
  the last value that was not empty.
\<close>

definition received_patches :: "'d AdapterEnv \<Rightarrow> BybitPublicEnvelope list \<Rightarrow> (string \<times> BybitTickerPatch) list" where
  "received_patches E envelopes =
     List.map_filter (\<lambda>e. case bybit_ticker_patch E e of Inl _ \<Rightarrow> None | Inr p \<Rightarrow> Some p) envelopes"

definition symbol_patches :: "string \<Rightarrow> (string \<times> BybitTickerPatch) list \<Rightarrow> BybitTickerPatch list" where
  "symbol_patches symbol ps = map snd (filter (\<lambda>p. fst p = symbol) ps)"

definition last_sent :: "(BybitTickerPatch \<Rightarrow> string option) \<Rightarrow> BybitTickerPatch list \<Rightarrow> string option" where
  "last_sent f ps = hd_option (rev (filter (\<lambda>v. v \<noteq> []) (List.map_filter f ps)))"

definition last_text :: "(BybitTickerPatch \<Rightarrow> string option) \<Rightarrow> BybitTickerPatch list \<Rightarrow> string" where
  "last_text f ps = (case last_sent f ps of None \<Rightarrow> [] | Some v \<Rightarrow> v)"

definition ticker_of_patches :: "string \<Rightarrow> BybitTickerPatch list \<Rightarrow> BybitTickerData" where
  "ticker_of_patches symbol ps =
     \<lparr>by_td_symbol = symbol, by_td_last_price = last_text by_tp_last_price ps,
      by_td_mark_price = last_text by_tp_mark_price ps, by_td_index_price = last_text by_tp_index_price ps,
      by_td_open_interest = last_text by_tp_open_interest ps, by_td_funding_rate = last_text by_tp_funding_rate ps,
      by_td_volume_24h = last_text by_tp_volume_24h ps, by_td_turnover_24h = last_text by_tp_turnover_24h ps,
      by_td_bid1_price = last_sent by_tp_bid1_price ps, by_td_bid1_size = last_sent by_tp_bid1_size ps,
      by_td_ask1_price = last_sent by_tp_ask1_price ps, by_td_ask1_size = last_sent by_tp_ask1_size ps\<rparr>"

lemma last_sent_snoc:
  "last_sent f (ps @ [p]) = merge_optional_string_field (f p) (last_sent f ps)"
  by (simp add: last_sent_def merge_optional_string_field_def map_filter_def hd_option_def split: option.split)

lemma last_text_snoc: "last_text f (ps @ [p]) = merge_string_field (f p) (last_text f ps)"
  unfolding last_text_def last_sent_snoc
  by (auto simp: merge_string_field_def merge_optional_string_field_def split: option.split)

lemma merge_refines: "merge_ticker p (ticker_of_patches symbol ps) = ticker_of_patches symbol (ps @ [p])"
  by (simp add: merge_ticker_def ticker_of_patches_def last_sent_snoc last_text_snoc)

lemma empty_refines: "empty_ticker symbol = ticker_of_patches symbol []"
  by (simp add: empty_ticker_def ticker_of_patches_def last_text_def last_sent_def hd_option_def map_filter_def)

definition ticker_frames :: "'d AdapterEnv \<Rightarrow> BybitPublicEnvelope list \<Rightarrow> TickerCache" where
  "ticker_frames E envelopes = foldl (\<lambda>cache envelope. snd (merged_ticker_data E envelope cache)) [] envelopes"

lemma ticker_frames_snoc:
  "ticker_frames E (envelopes @ [envelope]) = snd (merged_ticker_data E envelope (ticker_frames E envelopes))"
  by (simp add: ticker_frames_def)

text \<open>
  C20. Bybit sends a full ticker and then only the fields that changed.  After any sequence of
  ticker frames the cached ticker of a symbol carries in every field the last value that some
  frame sent for it and that was not empty, whatever frames of other symbols, undecodable ones
  or ones without a last price came between; a symbol no frame named has no entry.
\<close>

theorem ticker_cache_holds_latest:
  "bt_get (ticker_frames E envelopes) symbol =
     (case symbol_patches symbol (received_patches E envelopes) of
        [] \<Rightarrow> None
      | p # ps \<Rightarrow> Some (ticker_of_patches symbol (p # ps)))"
proof (induction envelopes rule: rev_induct)
  case Nil
  show ?case by (simp add: ticker_frames_def received_patches_def symbol_patches_def map_filter_def)
next
  case (snoc envelope envelopes)
  show ?case
  proof (cases "bybit_ticker_patch E envelope")
    case (Inl err)
    with snoc show ?thesis
      by (simp add: ticker_frames_snoc received_patches_def merged_ticker_data_def map_filter_def)
  next
    case (Inr sp)
    obtain s p where sp: "sp = (s, p)" by force
    have patches: "symbol_patches symbol (received_patches E (envelopes @ [envelope])) =
        symbol_patches symbol (received_patches E envelopes) @ (if s = symbol then [p] else [])"
      using Inr sp by (simp add: received_patches_def symbol_patches_def map_filter_def)
    have entry: "bt_get (ticker_frames E (envelopes @ [envelope])) symbol = (if s = symbol then
        Some (merge_ticker p (case bt_get (ticker_frames E envelopes) symbol of None \<Rightarrow> empty_ticker symbol | Some t \<Rightarrow> t))
        else bt_get (ticker_frames E envelopes) symbol)"
      using Inr sp by (cases "s = symbol") (simp_all add: ticker_frames_snoc merged_ticker_data_def Let_def)
    show ?thesis
      unfolding entry patches snoc.IH
      by (cases "symbol_patches symbol (received_patches E envelopes)")
        (simp_all add: empty_refines merge_refines)
  qed
qed

end
