(* ===== verification/Mexc_Native.thy ===== *)
theory Mexc_Native
  imports Json_Value
begin

text \<open>
  \<^verbatim>\<open>bat-markets-mexc/src/native.rs\<close>: the messages of the venue with the readers that serde
  derives for them.
\<close>

record 'a MexcRestResponse =
  mx_rr_success :: bool
  mx_rr_code :: i64
  mx_rr_message :: "string option"
  mx_rr_data :: "'a"

definition read_MexcRestResponse :: "'a json_reader \<Rightarrow> 'a MexcRestResponse json_reader" where
  "read_MexcRestResponse read_data v = do {
     v_success \<leftarrow> req_field ''success'' json_as_bool v;
     v_code \<leftarrow> dflt_field ''code'' 0 json_as_i64 v;
     v_message \<leftarrow> opt_field ''message'' json_as_str v;
     v_data \<leftarrow> req_field ''data'' read_data v;
     Some \<lparr>mx_rr_success = v_success,
       mx_rr_code = v_code,
       mx_rr_message = v_message,
       mx_rr_data = v_data\<rparr>}"

record MexcServerTimeResponse =
  mx_str_data :: i64

definition read_MexcServerTimeResponse :: "MexcServerTimeResponse json_reader" where
  "read_MexcServerTimeResponse v = do {
     v_data \<leftarrow> req_field ''data'' json_as_i64 v;
     Some \<lparr>mx_str_data = v_data\<rparr>}"

record MexcContractInfo =
  mx_ci_symbol :: string
  mx_ci_base_coin :: string
  mx_ci_quote_coin :: string
  mx_ci_settle_coin :: string
  mx_ci_contract_size :: Json
  mx_ci_price_scale :: u32
  mx_ci_vol_scale :: u32
  mx_ci_amount_scale :: "u32 option"
  mx_ci_price_unit :: Json
  mx_ci_vol_unit :: Json
  mx_ci_min_vol :: Json
  mx_ci_max_leverage :: "Json option"
  mx_ci_state :: "i64 option"
  mx_ci_future_type :: "i64 option"
  mx_ci_api_allowed :: "bool option"

definition read_MexcContractInfo :: "MexcContractInfo json_reader" where
  "read_MexcContractInfo v = do {
     v_symbol \<leftarrow> req_field ''symbol'' json_as_str v;
     v_base_coin \<leftarrow> req_field ''baseCoin'' json_as_str v;
     v_quote_coin \<leftarrow> req_field ''quoteCoin'' json_as_str v;
     v_settle_coin \<leftarrow> req_field ''settleCoin'' json_as_str v;
     v_contract_size \<leftarrow> req_field ''contractSize'' json_as_value v;
     v_price_scale \<leftarrow> req_field ''priceScale'' json_as_u32 v;
     v_vol_scale \<leftarrow> req_field ''volScale'' json_as_u32 v;
     v_amount_scale \<leftarrow> opt_field ''amountScale'' json_as_u32 v;
     v_price_unit \<leftarrow> req_field ''priceUnit'' json_as_value v;
     v_vol_unit \<leftarrow> req_field ''volUnit'' json_as_value v;
     v_min_vol \<leftarrow> req_field ''minVol'' json_as_value v;
     v_max_leverage \<leftarrow> opt_field ''maxLeverage'' json_as_value v;
     v_state \<leftarrow> opt_field ''state'' json_as_i64 v;
     v_future_type \<leftarrow> opt_field ''futureType'' json_as_i64 v;
     v_api_allowed \<leftarrow> opt_field ''apiAllowed'' json_as_bool v;
     Some \<lparr>mx_ci_symbol = v_symbol,
       mx_ci_base_coin = v_base_coin,
       mx_ci_quote_coin = v_quote_coin,
       mx_ci_settle_coin = v_settle_coin,
       mx_ci_contract_size = v_contract_size,
       mx_ci_price_scale = v_price_scale,
       mx_ci_vol_scale = v_vol_scale,
       mx_ci_amount_scale = v_amount_scale,
       mx_ci_price_unit = v_price_unit,
       mx_ci_vol_unit = v_vol_unit,
       mx_ci_min_vol = v_min_vol,
       mx_ci_max_leverage = v_max_leverage,
       mx_ci_state = v_state,
       mx_ci_future_type = v_future_type,
       mx_ci_api_allowed = v_api_allowed\<rparr>}"

record MexcPublicEnvelope =
  mx_pe_channel :: string
  mx_pe_symbol :: "string option"
  mx_pe_data :: Json
  mx_pe_ts :: "i64 option"

definition read_MexcPublicEnvelope :: "MexcPublicEnvelope json_reader" where
  "read_MexcPublicEnvelope v = do {
     v_channel \<leftarrow> req_field ''channel'' json_as_str v;
     v_symbol \<leftarrow> opt_field ''symbol'' json_as_str v;
     v_data \<leftarrow> dflt_field ''data'' JNull json_as_value v;
     v_ts \<leftarrow> opt_field ''ts'' json_as_i64 v;
     Some \<lparr>mx_pe_channel = v_channel,
       mx_pe_symbol = v_symbol,
       mx_pe_data = v_data,
       mx_pe_ts = v_ts\<rparr>}"

record MexcTickerData =
  mx_td_symbol :: string
  mx_td_last_price :: Json
  mx_td_fair_price :: "Json option"
  mx_td_index_price :: "Json option"
  mx_td_volume24 :: "Json option"
  mx_td_amount24 :: "Json option"
  mx_td_hold_vol :: "Json option"
  mx_td_max_bid_price :: "Json option"
  mx_td_min_ask_price :: "Json option"
  mx_td_timestamp :: "i64 option"

definition read_MexcTickerData :: "MexcTickerData json_reader" where
  "read_MexcTickerData v = do {
     v_symbol \<leftarrow> req_field ''symbol'' json_as_str v;
     v_last_price \<leftarrow> req_field ''lastPrice'' json_as_value v;
     v_fair_price \<leftarrow> opt_field ''fairPrice'' json_as_value v;
     v_index_price \<leftarrow> opt_field ''indexPrice'' json_as_value v;
     v_volume24 \<leftarrow> opt_field ''volume24'' json_as_value v;
     v_amount24 \<leftarrow> opt_field ''amount24'' json_as_value v;
     v_hold_vol \<leftarrow> opt_field ''holdVol'' json_as_value v;
     v_max_bid_price \<leftarrow> opt_field ''maxBidPrice'' json_as_value v;
     v_min_ask_price \<leftarrow> opt_field ''minAskPrice'' json_as_value v;
     v_timestamp \<leftarrow> opt_field ''timestamp'' json_as_i64 v;
     Some \<lparr>mx_td_symbol = v_symbol,
       mx_td_last_price = v_last_price,
       mx_td_fair_price = v_fair_price,
       mx_td_index_price = v_index_price,
       mx_td_volume24 = v_volume24,
       mx_td_amount24 = v_amount24,
       mx_td_hold_vol = v_hold_vol,
       mx_td_max_bid_price = v_max_bid_price,
       mx_td_min_ask_price = v_min_ask_price,
       mx_td_timestamp = v_timestamp\<rparr>}"

record MexcDealData =
  mx_dd_p :: Json
  mx_dd_v :: Json
  mx_dd_side :: i64
  mx_dd_t :: "i64 option"

definition read_MexcDealData :: "MexcDealData json_reader" where
  "read_MexcDealData v = do {
     v_p \<leftarrow> req_field ''p'' json_as_value v;
     v_v \<leftarrow> req_field ''v'' json_as_value v;
     v_side \<leftarrow> req_field ''T'' json_as_i64 v;
     v_t \<leftarrow> opt_field ''t'' json_as_i64 v;
     Some \<lparr>mx_dd_p = v_p,
       mx_dd_v = v_v,
       mx_dd_side = v_side,
       mx_dd_t = v_t\<rparr>}"

record MexcDepthData =
  mx_ddx_asks :: "Json list list"
  mx_ddx_bids :: "Json list list"
  mx_ddx_version :: "i64 option"
  mx_ddx_timestamp :: "i64 option"

definition read_MexcDepthData :: "MexcDepthData json_reader" where
  "read_MexcDepthData v = do {
     v_asks \<leftarrow> dflt_field ''asks'' [] (json_as_vec (json_as_vec json_as_value)) v;
     v_bids \<leftarrow> dflt_field ''bids'' [] (json_as_vec (json_as_vec json_as_value)) v;
     v_version \<leftarrow> opt_field ''version'' json_as_i64 v;
     v_timestamp \<leftarrow> opt_field ''timestamp'' json_as_i64 v;
     Some \<lparr>mx_ddx_asks = v_asks,
       mx_ddx_bids = v_bids,
       mx_ddx_version = v_version,
       mx_ddx_timestamp = v_timestamp\<rparr>}"

record MexcKlineData =
  mx_kd_symbol :: "string option"
  mx_kd_interval :: "string option"
  mx_kd_o :: Json
  mx_kd_h :: Json
  mx_kd_l :: Json
  mx_kd_c :: Json
  mx_kd_a :: "Json option"
  mx_kd_q :: "Json option"
  mx_kd_t :: "i64 option"

definition read_MexcKlineData :: "MexcKlineData json_reader" where
  "read_MexcKlineData v = do {
     v_symbol \<leftarrow> opt_field ''symbol'' json_as_str v;
     v_interval \<leftarrow> opt_field ''interval'' json_as_str v;
     v_o \<leftarrow> req_field ''o'' json_as_value v;
     v_h \<leftarrow> req_field ''h'' json_as_value v;
     v_l \<leftarrow> req_field ''l'' json_as_value v;
     v_c \<leftarrow> req_field ''c'' json_as_value v;
     v_a \<leftarrow> opt_field ''a'' json_as_value v;
     v_q \<leftarrow> opt_field ''q'' json_as_value v;
     v_t \<leftarrow> opt_field ''t'' json_as_i64 v;
     Some \<lparr>mx_kd_symbol = v_symbol,
       mx_kd_interval = v_interval,
       mx_kd_o = v_o,
       mx_kd_h = v_h,
       mx_kd_l = v_l,
       mx_kd_c = v_c,
       mx_kd_a = v_a,
       mx_kd_q = v_q,
       mx_kd_t = v_t\<rparr>}"

record MexcKlineRestData =
  mx_krd_time :: "i64 list"
  mx_krd_open :: "Json list"
  mx_krd_close :: "Json list"
  mx_krd_high :: "Json list"
  mx_krd_low :: "Json list"
  mx_krd_vol :: "Json list"
  mx_krd_amount :: "Json list"

definition read_MexcKlineRestData :: "MexcKlineRestData json_reader" where
  "read_MexcKlineRestData v = do {
     v_time \<leftarrow> dflt_field ''time'' [] (json_as_vec json_as_i64) v;
     v_open \<leftarrow> dflt_field ''open'' [] (json_as_vec json_as_value) v;
     v_close \<leftarrow> dflt_field ''close'' [] (json_as_vec json_as_value) v;
     v_high \<leftarrow> dflt_field ''high'' [] (json_as_vec json_as_value) v;
     v_low \<leftarrow> dflt_field ''low'' [] (json_as_vec json_as_value) v;
     v_vol \<leftarrow> dflt_field ''vol'' [] (json_as_vec json_as_value) v;
     v_amount \<leftarrow> dflt_field ''amount'' [] (json_as_vec json_as_value) v;
     Some \<lparr>mx_krd_time = v_time,
       mx_krd_open = v_open,
       mx_krd_close = v_close,
       mx_krd_high = v_high,
       mx_krd_low = v_low,
       mx_krd_vol = v_vol,
       mx_krd_amount = v_amount\<rparr>}"

record MexcFundingRateData =
  mx_frd_symbol :: string
  mx_frd_funding_rate :: Json
  mx_frd_next_settle_time :: "i64 option"
  mx_frd_timestamp :: "i64 option"

definition read_MexcFundingRateData :: "MexcFundingRateData json_reader" where
  "read_MexcFundingRateData v = do {
     v_symbol \<leftarrow> req_field ''symbol'' json_as_str v;
     v_funding_rate \<leftarrow> req_field ''fundingRate'' json_as_value v;
     v_next_settle_time \<leftarrow> opt_field ''nextSettleTime'' json_as_i64 v;
     v_timestamp \<leftarrow> opt_field ''timestamp'' json_as_i64 v;
     Some \<lparr>mx_frd_symbol = v_symbol,
       mx_frd_funding_rate = v_funding_rate,
       mx_frd_next_settle_time = v_next_settle_time,
       mx_frd_timestamp = v_timestamp\<rparr>}"

record MexcAssetData =
  mx_ad_currency :: string
  mx_ad_available_balance :: "Json option"
  mx_ad_available :: "Json option"
  mx_ad_wallet_balance :: "Json option"
  mx_ad_equity :: "Json option"
  mx_ad_unrealized :: "Json option"

definition read_MexcAssetData :: "MexcAssetData json_reader" where
  "read_MexcAssetData v = do {
     v_currency \<leftarrow> req_field ''currency'' json_as_str v;
     v_available_balance \<leftarrow> opt_field ''availableBalance'' json_as_value v;
     v_available \<leftarrow> opt_field ''available'' json_as_value v;
     v_wallet_balance \<leftarrow> opt_field ''walletBalance'' json_as_value v;
     v_equity \<leftarrow> opt_field ''equity'' json_as_value v;
     v_unrealized \<leftarrow> opt_field ''unrealized'' json_as_value v;
     Some \<lparr>mx_ad_currency = v_currency,
       mx_ad_available_balance = v_available_balance,
       mx_ad_available = v_available,
       mx_ad_wallet_balance = v_wallet_balance,
       mx_ad_equity = v_equity,
       mx_ad_unrealized = v_unrealized\<rparr>}"

record MexcPositionData =
  mx_pd_position_id :: Json
  mx_pd_symbol :: string
  mx_pd_position_type :: i64
  mx_pd_hold_vol :: "Json option"
  mx_pd_open_avg_price :: "Json option"
  mx_pd_mark_price :: "Json option"
  mx_pd_unrealised :: "Json option"
  mx_pd_unrealized :: "Json option"
  mx_pd_leverage :: "Json option"
  mx_pd_open_type :: "i64 option"
  mx_pd_position_mode :: "i64 option"
  mx_pd_update_time :: "i64 option"
  mx_pd_create_time :: "i64 option"

definition read_MexcPositionData :: "MexcPositionData json_reader" where
  "read_MexcPositionData v = do {
     v_position_id \<leftarrow> req_field ''positionId'' json_as_value v;
     v_symbol \<leftarrow> req_field ''symbol'' json_as_str v;
     v_position_type \<leftarrow> req_field ''positionType'' json_as_i64 v;
     v_hold_vol \<leftarrow> opt_field ''holdVol'' json_as_value v;
     v_open_avg_price \<leftarrow> opt_field ''openAvgPrice'' json_as_value v;
     v_mark_price \<leftarrow> opt_field ''markPrice'' json_as_value v;
     v_unrealised \<leftarrow> opt_field ''unrealised'' json_as_value v;
     v_unrealized \<leftarrow> opt_field ''unrealized'' json_as_value v;
     v_leverage \<leftarrow> opt_field ''leverage'' json_as_value v;
     v_open_type \<leftarrow> opt_field ''openType'' json_as_i64 v;
     v_position_mode \<leftarrow> opt_field ''positionMode'' json_as_i64 v;
     v_update_time \<leftarrow> opt_field ''updateTime'' json_as_i64 v;
     v_create_time \<leftarrow> opt_field ''createTime'' json_as_i64 v;
     Some \<lparr>mx_pd_position_id = v_position_id,
       mx_pd_symbol = v_symbol,
       mx_pd_position_type = v_position_type,
       mx_pd_hold_vol = v_hold_vol,
       mx_pd_open_avg_price = v_open_avg_price,
       mx_pd_mark_price = v_mark_price,
       mx_pd_unrealised = v_unrealised,
       mx_pd_unrealized = v_unrealized,
       mx_pd_leverage = v_leverage,
       mx_pd_open_type = v_open_type,
       mx_pd_position_mode = v_position_mode,
       mx_pd_update_time = v_update_time,
       mx_pd_create_time = v_create_time\<rparr>}"

record MexcOrderData =
  mx_od_order_id :: Json
  mx_od_symbol :: string
  mx_od_side :: i64
  mx_od_order_type :: "i64 option"
  mx_od_category :: "i64 option"
  mx_od_state :: i64
  mx_od_price :: Json
  mx_od_vol :: Json
  mx_od_deal_vol :: "Json option"
  mx_od_deal_avg_price :: "Json option"
  mx_od_external_oid :: "string option"
  mx_od_reduce_only :: "bool option"
  mx_od_create_time :: "i64 option"
  mx_od_update_time :: "i64 option"

definition read_MexcOrderData :: "MexcOrderData json_reader" where
  "read_MexcOrderData v = do {
     v_order_id \<leftarrow> req_field ''orderId'' json_as_value v;
     v_symbol \<leftarrow> req_field ''symbol'' json_as_str v;
     v_side \<leftarrow> req_field ''side'' json_as_i64 v;
     v_order_type \<leftarrow> opt_field ''orderType'' json_as_i64 v;
     v_category \<leftarrow> opt_field ''category'' json_as_i64 v;
     v_state \<leftarrow> req_field ''state'' json_as_i64 v;
     v_price \<leftarrow> req_field ''price'' json_as_value v;
     v_vol \<leftarrow> req_field ''vol'' json_as_value v;
     v_deal_vol \<leftarrow> opt_field ''dealVol'' json_as_value v;
     v_deal_avg_price \<leftarrow> opt_field ''dealAvgPrice'' json_as_value v;
     v_external_oid \<leftarrow> opt_field ''externalOid'' json_as_str v;
     v_reduce_only \<leftarrow> opt_field ''reduceOnly'' json_as_bool v;
     v_create_time \<leftarrow> opt_field ''createTime'' json_as_i64 v;
     v_update_time \<leftarrow> opt_field ''updateTime'' json_as_i64 v;
     Some \<lparr>mx_od_order_id = v_order_id,
       mx_od_symbol = v_symbol,
       mx_od_side = v_side,
       mx_od_order_type = v_order_type,
       mx_od_category = v_category,
       mx_od_state = v_state,
       mx_od_price = v_price,
       mx_od_vol = v_vol,
       mx_od_deal_vol = v_deal_vol,
       mx_od_deal_avg_price = v_deal_avg_price,
       mx_od_external_oid = v_external_oid,
       mx_od_reduce_only = v_reduce_only,
       mx_od_create_time = v_create_time,
       mx_od_update_time = v_update_time\<rparr>}"

record MexcExecutionData =
  mx_ed_id :: Json
  mx_ed_order_id :: Json
  mx_ed_symbol :: string
  mx_ed_side :: i64
  mx_ed_vol :: Json
  mx_ed_price :: Json
  mx_ed_fee :: "Json option"
  mx_ed_fee_currency :: "string option"
  mx_ed_is_taker :: "bool option"
  mx_ed_timestamp :: "Json option"

definition read_MexcExecutionData :: "MexcExecutionData json_reader" where
  "read_MexcExecutionData v = do {
     v_id \<leftarrow> req_field ''id'' json_as_value v;
     v_order_id \<leftarrow> req_field ''orderId'' json_as_value v;
     v_symbol \<leftarrow> req_field ''symbol'' json_as_str v;
     v_side \<leftarrow> req_field ''side'' json_as_i64 v;
     v_vol \<leftarrow> req_field ''vol'' json_as_value v;
     v_price \<leftarrow> req_field ''price'' json_as_value v;
     v_fee \<leftarrow> opt_field ''fee'' json_as_value v;
     v_fee_currency \<leftarrow> opt_field ''feeCurrency'' json_as_str v;
     v_is_taker \<leftarrow> opt_field ''isTaker'' json_as_bool v;
     v_timestamp \<leftarrow> opt_field ''timestamp'' json_as_value v;
     Some \<lparr>mx_ed_id = v_id,
       mx_ed_order_id = v_order_id,
       mx_ed_symbol = v_symbol,
       mx_ed_side = v_side,
       mx_ed_vol = v_vol,
       mx_ed_price = v_price,
       mx_ed_fee = v_fee,
       mx_ed_fee_currency = v_fee_currency,
       mx_ed_is_taker = v_is_taker,
       mx_ed_timestamp = v_timestamp\<rparr>}"

record MexcSubmitOrderResponse =
  mx_sor_data :: "Json option"
  mx_sor_success :: bool
  mx_sor_code :: i64
  mx_sor_message :: "string option"

definition read_MexcSubmitOrderResponse :: "MexcSubmitOrderResponse json_reader" where
  "read_MexcSubmitOrderResponse v = do {
     v_data \<leftarrow> opt_field ''data'' json_as_value v;
     v_success \<leftarrow> req_field ''success'' json_as_bool v;
     v_code \<leftarrow> dflt_field ''code'' 0 json_as_i64 v;
     v_message \<leftarrow> opt_field ''message'' json_as_str v;
     Some \<lparr>mx_sor_data = v_data,
       mx_sor_success = v_success,
       mx_sor_code = v_code,
       mx_sor_message = v_message\<rparr>}"

record MexcCancelOrderItem =
  mx_coi_order_id :: Json
  mx_coi_error_code :: i64
  mx_coi_error_msg :: "string option"

definition read_MexcCancelOrderItem :: "MexcCancelOrderItem json_reader" where
  "read_MexcCancelOrderItem v = do {
     v_order_id \<leftarrow> req_field ''orderId'' json_as_value v;
     v_error_code \<leftarrow> dflt_field ''errorCode'' 0 json_as_i64 v;
     v_error_msg \<leftarrow> opt_field ''errorMsg'' json_as_str v;
     Some \<lparr>mx_coi_order_id = v_order_id,
       mx_coi_error_code = v_error_code,
       mx_coi_error_msg = v_error_msg\<rparr>}"

end
