(* ===== verification/Mexc_Adapter.thy ===== *)
theory Mexc_Adapter
  imports Adapter Mexc_Native Config
begin

text \<open>
  \<^verbatim>\<open>bat-markets-mexc/src/lib.rs\<close>: the adapter of MEXC linear futures.  The venue sends numbers
  as JSON numbers or strings, in plain or scientific notation, and symbols with separators.
\<close>

section \<open>Errors, symbols and numbers\<close>

definition mexc_error :: "ErrorKind \<Rightarrow> string \<Rightarrow> MarketError" where
  "mexc_error kind message = with_venue Mexc LinearUsdt (market_error kind message)"

definition decode_message :: "string \<Rightarrow> MarketError" where
  "decode_message message = mexc_error DecodeError message"

definition ensure_success :: "'r MexcRestResponse \<Rightarrow> unit result" where
  "ensure_success response =
     (if mx_rr_success response \<and> mx_rr_code response = 0 then Ok ()
      else Err (mexc_error ExchangeReject
        (case mx_rr_message response of None \<Rightarrow> ''mexc request rejected'' | Some m \<Rightarrow> m)))"

text \<open>A REST response: decoded with the error text of the caller, and its data when it succeeded.\<close>

definition mexc_response ::
  "'d AdapterEnv \<Rightarrow> string \<Rightarrow> string \<Rightarrow> 'r json_reader \<Rightarrow> string \<Rightarrow> 'r result" where
  "mexc_response E what type_name r payload =
     and_then (map_err (\<lambda>err. decode_message (''failed to parse mexc '' @ what @ '': '' @ err))
            (from_str E type_name (read_MexcRestResponse r) payload)) (\<lambda>response.
     and_then (ensure_success response) (\<lambda>u.
       Ok (mx_rr_data response)))"

definition to_ascii_uppercase :: "char \<Rightarrow> char" where
  "to_ascii_uppercase c =
     (let n = (of_char c :: nat) in if 97 \<le> n \<and> n \<le> 122 then char_of (n - 32) else c)"

definition mexc_canonical_native_symbol :: "string \<Rightarrow> string" where
  "mexc_canonical_native_symbol symbol =
     map to_ascii_uppercase (filter (\<lambda>c. c \<noteq> CHR ''_'' \<and> c \<noteq> CHR ''-'') (str_trim symbol))"

definition mexc_spec_wire_symbol :: "'d InstrumentSpec \<Rightarrow> string" where
  "mexc_spec_wire_symbol spec = as_str (is_base spec) @ ''_'' @ as_str (is_quote spec)"

definition mexc_resolve_native_symbol :: "'d InstrumentCatalog \<Rightarrow> string \<Rightarrow> 'd InstrumentSpec option" where
  "mexc_resolve_native_symbol catalog symbol =
     or_else (by_native_symbol catalog symbol) (by_native_symbol catalog (mexc_canonical_native_symbol symbol))"

definition mexc_require_native_symbol :: "'d InstrumentCatalog \<Rightarrow> string \<Rightarrow> 'd InstrumentSpec result" where
  "mexc_require_native_symbol catalog symbol =
     ok_or (mexc_error Unsupported (''unknown mexc symbol '' @ symbol)) (mexc_resolve_native_symbol catalog symbol)"

text \<open>
  A decimal in scientific notation: the mantissa is multiplied or divided by ten once per unit
  of the exponent; \<^verbatim>\<open>Decimal\<close>'s multiplication panics when it overflows (\<open>None\<close>).
\<close>

fun times_ten :: "'d Decimal_ops \<Rightarrow> bool \<Rightarrow> nat \<Rightarrow> 'd \<Rightarrow> 'd option" where
  "times_ten D up 0 d = Some d"
| "times_ten D up (Suc n) d =
     Option.bind (if up then dec_mul D d (dec_from_i64 D 10) else dec_div D d (dec_from_i64 D 10)) (times_ten D up n)"

definition is_exponent_mark :: "char \<Rightarrow> bool" where
  "is_exponent_mark c \<longleftrightarrow> c = CHR ''e'' \<or> c = CHR ''E''"

definition decimal_from_str :: "'d Decimal_ops \<Rightarrow> string \<Rightarrow> (string + 'd) option" where
  "decimal_from_str D raw =
     (if \<not> list_ex is_exponent_mark raw then Some (dec_parse_exact D raw)
      else
        let mantissa = takeWhile (\<lambda>c. \<not> is_exponent_mark c) raw;
            exponent = drop 1 (dropWhile (\<lambda>c. \<not> is_exponent_mark c) raw) in
        case dec_parse_exact D mantissa of
          Inl err \<Rightarrow> Some (Inl err)
        | Inr parsed \<Rightarrow>
            (case parse_signed 32 exponent of
               None \<Rightarrow> Some (Inl (''invalid exponent: '' @ parse_signed_error 32 exponent))
             | Some e \<Rightarrow> map_option Inr (times_ten D (0 \<le> e) (nat \<bar>e\<bar>) parsed)))"

definition decimal_from_value :: "'d AdapterEnv \<Rightarrow> Json \<Rightarrow> 'd result" where
  "decimal_from_value E v =
     (let parsed = (case v of
            JNumber raw _ \<Rightarrow> decimal_from_str (ae_decimal E) raw
          | JString raw \<Rightarrow> decimal_from_str (ae_decimal E) raw
          | JNull \<Rightarrow> Some (Inr (dec_zero (ae_decimal E)))
          | other \<Rightarrow> decimal_from_str (ae_decimal E) (ae_print E other)) in
      and_then (or_panic parsed)
        (map_err (\<lambda>err. decode_message (''invalid mexc decimal '' @ quoted (ae_print E v) @ '': '' @ err))))"

abbreviation mexc_decimal :: "'d AdapterEnv \<Rightarrow> Json \<Rightarrow> ('tag, 'd) decimal_value result" where
  "mexc_decimal E v \<equiv> map_result DecimalValue (decimal_from_value E v)"

abbreviation mexc_optional :: "'d AdapterEnv \<Rightarrow> Json option \<Rightarrow> ('tag, 'd) decimal_value option result" where
  "mexc_optional E v \<equiv> map_result (map_option DecimalValue) (transpose_map (decimal_from_value E) v)"

definition decimal_from_optional_value :: "'d AdapterEnv \<Rightarrow> Json option \<Rightarrow> 'd result" where
  "decimal_from_optional_value E v =
     map_result (\<lambda>x. case x of None \<Rightarrow> dec_zero (ae_decimal E) | Some d \<Rightarrow> d) (transpose_map (decimal_from_value E) v)"

text \<open>\<^verbatim>\<open>Result::ok\<close>; a panic is not caught.\<close>

definition result_ok :: "'a result \<Rightarrow> 'a option result" where
  "result_ok r = (case r of Inr x \<Rightarrow> Ok (Some x) | Inl (Failed _) \<Rightarrow> Ok None | Inl Panicked \<Rightarrow> Panic)"

definition value_to_id_string :: "'d AdapterEnv \<Rightarrow> Json \<Rightarrow> string" where
  "value_to_id_string E v =
     (case v of JString raw \<Rightarrow> raw | JNumber raw _ \<Rightarrow> raw | JNull \<Rightarrow> [] | other \<Rightarrow> ae_print E other)"

definition value_to_i64 :: "Json \<Rightarrow> i64 option" where
  "value_to_i64 v = or_else (json_as_i64 v) (Option.bind (json_as_str v) parse_i64)"

definition mexc_price :: "'d AdapterEnv \<Rightarrow> 'd InstrumentSpec \<Rightarrow> Json \<Rightarrow> FastPrice result" where
  "mexc_price E spec v =
     and_then (decimal_from_value E v) (\<lambda>d. price_quantize (ae_decimal E) (DecimalValue d) (is_price_scale spec))"

definition mexc_optional_price :: "'d AdapterEnv \<Rightarrow> 'd InstrumentSpec \<Rightarrow> Json option \<Rightarrow> FastPrice option result" where
  "mexc_optional_price E spec v =
     and_then (transpose_map (decimal_from_value E) v)
       (transpose_map (\<lambda>d. price_quantize (ae_decimal E) (DecimalValue d) (is_price_scale spec)))"

section \<open>Codes\<close>

definition mexc_interval_to_core :: "string \<Rightarrow> KlineInterval option" where
  "mexc_interval_to_core raw =
     (if raw = ''Min1'' then Some Minute1 else if raw = ''Min5'' then Some Minute5
      else if raw = ''Min15'' then Some Minute15 else if raw = ''Min30'' then Some Minute30
      else if raw = ''Min60'' then Some Hour1 else if raw = ''Hour4'' then Some Hour4
      else if raw = ''Day1'' then Some Day1 else if raw = ''Week1'' then Some Week1
      else if raw = ''Month1'' then Some Month1 else None)"

definition mexc_parse_kline_interval :: "string \<Rightarrow> KlineInterval result" where
  "mexc_parse_kline_interval raw =
     ok_or (market_error Unsupported (''unsupported mexc interval '' @ quoted raw))
       (or_else (interval_parse raw) (mexc_interval_to_core raw))"

definition mexc_parse_order_side :: "i64 \<Rightarrow> Side" where
  "mexc_parse_order_side value = (if value \<in> {1, 4} then Buy else Sell)"

definition mexc_parse_position_direction :: "i64 \<Rightarrow> PositionDirection" where
  "mexc_parse_position_direction value = (if value = 1 then Long else if value = 2 then Short else Flat)"

definition mexc_parse_order_type :: "i64 \<Rightarrow> OrderType" where
  "mexc_parse_order_type value = (if value \<in> {5, 6} then Market else Limit)"

definition mexc_parse_time_in_force :: "i64 option \<Rightarrow> TimeInForce" where
  "mexc_parse_time_in_force value =
     (if value = Some 2 then PostOnly else if value = Some 3 then Ioc else if value = Some 4 then Fok else Gtc)"

definition mexc_parse_order_status :: "i64 \<Rightarrow> OrderStatus" where
  "mexc_parse_order_status value =
     (if value \<in> {1, 2} then New else if value = 3 then Filled else if value = 4 then Canceled
      else if value = 5 then OrderStatus.Rejected else Expired)"

definition mexc_parse_margin_mode :: "i64 option \<Rightarrow> MarginMode" where
  "mexc_parse_margin_mode value = (if value = Some 1 then Isolated else Cross)"

definition mexc_parse_position_mode :: "i64 option \<Rightarrow> PositionMode" where
  "mexc_parse_position_mode value = (if value = Some 1 then Hedge else OneWay)"

definition mexc_capabilities :: CapabilitySet where
  "mexc_capabilities =
     (let c = linear_futures_defaults in
      c\<lparr>cap_market := (cap_market c)\<lparr>mc_liquidations := False\<rparr>,
        cap_trade := (cap_trade c)\<lparr>tc_create := True, tc_batch_create := True, tc_amend := False, tc_cancel := True,
          tc_batch_cancel := True, tc_cancel_all := True, tc_validate := False\<rparr>,
        cap_position := (cap_position c)\<lparr>pc_leverage_set := True, pc_margin_mode_set := True\<rparr>,
        cap_native := (cap_native c)\<lparr>nc_ws_order_entry := False, nc_special_orders := False\<rparr>\<rparr>)"

section \<open>Metadata and time\<close>

definition contract_to_spec :: "'d AdapterEnv \<Rightarrow> MexcContractInfo \<Rightarrow> 'd InstrumentSpec result" where
  "contract_to_spec E contract =
     (let D = ae_decimal E;
          symbol_name = canonical_symbol (mx_ci_base_coin contract) (mx_ci_quote_coin contract) (mx_ci_settle_coin contract) in
      and_then (decimal_from_value E (mx_ci_price_unit contract)) (\<lambda>tick_size.
      and_then (decimal_from_value E (mx_ci_vol_unit contract)) (\<lambda>step_size.
      and_then (decimal_from_value E (mx_ci_min_vol contract)) (\<lambda>min_qty.
      and_then (decimal_from_value E (mx_ci_contract_size contract)) (\<lambda>contract_size.
      and_then (or_panic (Option.bind (dec_mul D tick_size min_qty) (\<lambda>x. dec_mul D x contract_size))) (\<lambda>min_notional.
      and_then (mexc_optional E (mx_ci_max_leverage contract)) (\<lambda>leverage.
        Ok \<lparr>is_venue = Mexc, is_product = LinearUsdt, is_market_type = LinearPerpetual,
          is_instrument_id = StringId symbol_name, is_canonical_symbol = symbol_name,
          is_native_symbol = mexc_canonical_native_symbol (mx_ci_symbol contract),
          is_base = StringId (mx_ci_base_coin contract), is_quote = StringId (mx_ci_quote_coin contract),
          is_settle = StringId (mx_ci_settle_coin contract), is_contract_size = DecimalValue contract_size,
          is_tick_size = DecimalValue tick_size, is_step_size = DecimalValue step_size,
          is_min_qty = DecimalValue min_qty, is_min_notional = DecimalValue min_notional,
          is_price_scale = mx_ci_price_scale contract, is_qty_scale = mx_ci_vol_scale contract,
          is_quote_scale = (case mx_ci_amount_scale contract of
             None \<Rightarrow> u32_saturating_add (mx_ci_price_scale contract) (mx_ci_vol_scale contract) | Some n \<Rightarrow> n),
          is_max_leverage = leverage,
          is_support = full_support\<lparr>sup_private_trading := (mx_ci_api_allowed contract = Some True),
            sup_leverage_set := False, sup_margin_mode_set := False\<rparr>,
          is_status = (if (case mx_ci_state contract of None \<Rightarrow> 0 | Some n \<Rightarrow> n) = 0 then Active else Halted)\<rparr>)))))))"

definition mexc_parse_metadata_snapshot :: "'d AdapterEnv \<Rightarrow> string \<Rightarrow> 'd InstrumentSpec list result" where
  "mexc_parse_metadata_snapshot E payload =
     and_then (mexc_response E ''contract detail response'' ''RestResponse<Vec<ContractInfo>>''
         (json_as_vec read_MexcContractInfo) payload) (\<lambda>contracts.
       traverse (contract_to_spec E)
         (filter (\<lambda>c. mx_ci_quote_coin c = ''USDT'' \<and> mx_ci_settle_coin c = ''USDT'') contracts))"

definition mexc_parse_server_time :: "'d AdapterEnv \<Rightarrow> string \<Rightarrow> TimestampMs result" where
  "mexc_parse_server_time E payload =
     map_result (\<lambda>r. TimestampMs (mx_str_data r))
       (map_err (\<lambda>err. decode_message (''failed to parse mexc server-time response: '' @ err))
         (from_str E ''ServerTimeResponse'' read_MexcServerTimeResponse payload))"

section \<open>Market snapshots\<close>

definition or_now :: "'d AdapterEnv \<Rightarrow> i64 option \<Rightarrow> TimestampMs" where
  "or_now E t = TimestampMs (case t of None \<Rightarrow> ae_now E | Some n \<Rightarrow> n)"

definition find_symbol_object :: "Json \<Rightarrow> string \<Rightarrow> Json result" where
  "find_symbol_object data native_symbol =
     (case data of
        JArray items \<Rightarrow> ok_or (decode_message (''mexc ticker response missing '' @ native_symbol))
          (find (\<lambda>item. Option.bind (json_get ''symbol'' item) json_as_str = Some native_symbol) items)
      | _ \<Rightarrow> Ok data)"

definition mexc_ticker_to_unified :: "'d AdapterEnv \<Rightarrow> 'd InstrumentSpec \<Rightarrow> MexcTickerData \<Rightarrow> 'd Ticker result" where
  "mexc_ticker_to_unified E spec ticker =
     and_then (mexc_decimal E (mx_td_last_price ticker)) (\<lambda>last_price.
     and_then (mexc_optional E (mx_td_fair_price ticker)) (\<lambda>mark_price.
     and_then (mexc_optional E (mx_td_index_price ticker)) (\<lambda>index_price.
     and_then (mexc_optional E (mx_td_volume24 ticker)) (\<lambda>volume.
     and_then (mexc_optional E (mx_td_amount24 ticker)) (\<lambda>turnover.
       Ok \<lparr>tk_instrument_id = is_instrument_id spec, tk_last_price = last_price, tk_mark_price = mark_price,
         tk_index_price = index_price, tk_volume_24h = volume, tk_turnover_24h = turnover,
         tk_event_time = or_now E (mx_td_timestamp ticker)\<rparr>)))))"

definition mexc_ticker_data ::
  "'d AdapterEnv \<Rightarrow> string \<Rightarrow> string \<Rightarrow> 'd InstrumentSpec \<Rightarrow> MexcTickerData result" where
  "mexc_ticker_data E what payload spec =
     and_then (mexc_response E what ''RestResponse<Value>'' json_as_value payload) (\<lambda>data.
     and_then (find_symbol_object data (mexc_spec_wire_symbol spec)) (\<lambda>entry.
       map_err (\<lambda>err. decode_message (''failed to decode mexc '' @ what @ '' data: '' @ err))
       (from_value E ''TickerData'' read_MexcTickerData entry)))"

definition mexc_parse_ticker_snapshot :: "'d AdapterEnv \<Rightarrow> string \<Rightarrow> 'd InstrumentSpec \<Rightarrow> 'd Ticker result" where
  "mexc_parse_ticker_snapshot E payload spec =
     and_then (mexc_ticker_data E ''ticker'' payload spec) (mexc_ticker_to_unified E spec)"

definition mexc_parse_tickers_snapshot ::
  "'d AdapterEnv \<Rightarrow> string \<Rightarrow> 'd InstrumentSpec list \<Rightarrow> 'd Ticker list result" where
  "mexc_parse_tickers_snapshot E payload specs =
     and_then (mexc_response E ''tickers'' ''RestResponse<Value>'' json_as_value payload) (\<lambda>data.
       (let items = (case data of JArray xs \<Rightarrow> xs | JObject _ \<Rightarrow> [data] | _ \<Rightarrow> []);
          matched = List.map_filter (\<lambda>item. do {
            ticker \<leftarrow> read_MexcTickerData item;
            spec \<leftarrow> find (\<lambda>y. is_native_symbol y = mexc_canonical_native_symbol (mx_td_symbol ticker)) specs;
            Some (ticker, spec)}) items in
      traverse (\<lambda>(ticker, spec). mexc_ticker_to_unified E spec ticker) matched))"

definition mexc_trade_to_unified ::
  "'d AdapterEnv \<Rightarrow> 'd InstrumentSpec \<Rightarrow> nat \<times> MexcDealData \<Rightarrow> 'd TradeTick result" where
  "mexc_trade_to_unified E spec indexed =
     (let deal = snd indexed; at_ms = or_now E (mx_dd_t deal) in
      and_then (mexc_decimal E (mx_dd_p deal)) (\<lambda>price.
      and_then (mexc_decimal E (mx_dd_v deal)) (\<lambda>quantity.
        Ok \<lparr>tt_instrument_id = is_instrument_id spec,
          tt_trade_id = StringId (show_int (timestamp_value at_ms) @ ''-'' @ show_nat (fst indexed)),
          tt_price = price, tt_quantity = quantity,
          tt_aggressor_side = (if mx_dd_side deal = 1 then Buyer else Seller), tt_event_time = at_ms\<rparr>)))"

definition mexc_parse_trades_snapshot :: "'d AdapterEnv \<Rightarrow> string \<Rightarrow> 'd InstrumentSpec \<Rightarrow> 'd TradeTick list result" where
  "mexc_parse_trades_snapshot E payload spec =
     and_then (mexc_response E ''deals response'' ''RestResponse<Vec<DealData>>'' (json_as_vec read_MexcDealData) payload)
       (\<lambda>deals. traverse (mexc_trade_to_unified E spec) (List.enumerate 0 deals))"

definition level_to_book_level :: "'d AdapterEnv \<Rightarrow> Json list \<Rightarrow> 'd OrderBookLevel result" where
  "level_to_book_level E level =
     (if length level < 2 then Err (decode_message ''mexc depth level has fewer than two fields'')
      else
        and_then (mexc_decimal E (level ! 0)) (\<lambda>price.
        and_then (mexc_decimal E (level ! 1)) (\<lambda>quantity.
          Ok \<lparr>obl_price = price, obl_quantity = quantity\<rparr>)))"

definition mexc_parse_order_book_snapshot ::
  "'d AdapterEnv \<Rightarrow> string \<Rightarrow> 'd InstrumentSpec \<Rightarrow> 'd OrderBookSnapshot result" where
  "mexc_parse_order_book_snapshot E payload spec =
     and_then (mexc_response E ''order book response'' ''RestResponse<DepthData>'' read_MexcDepthData payload) (\<lambda>depth.
     and_then (traverse (level_to_book_level E) (mx_ddx_bids depth)) (\<lambda>bids.
     and_then (traverse (level_to_book_level E) (mx_ddx_asks depth)) (\<lambda>asks.
       Ok \<lparr>obs_instrument_id = is_instrument_id spec, obs_bids = bids, obs_asks = asks,
         obs_event_time = or_now E (mx_ddx_timestamp depth)\<rparr>)))"

definition mexc_kline_at ::
  "'d AdapterEnv \<Rightarrow> ('t, 'date) Time_ops \<Rightarrow> InstrumentId \<Rightarrow> KlineInterval \<Rightarrow> MexcKlineRestData \<Rightarrow> nat \<Rightarrow> 'd Kline result" where
  "mexc_kline_at E TO iid interval data index =
     (let open_time = i64_wrap (mx_krd_time data ! index * 1000) in
      and_then (mexc_decimal E (mx_krd_open data ! index)) (\<lambda>op.
      and_then (mexc_decimal E (mx_krd_high data ! index)) (\<lambda>hi.
      and_then (mexc_decimal E (mx_krd_low data ! index)) (\<lambda>lo.
      and_then (mexc_decimal E (mx_krd_close data ! index)) (\<lambda>cl.
      and_then (mexc_decimal E (mx_krd_vol data ! index)) (\<lambda>volume.
        Ok \<lparr>kl_instrument_id = iid, kl_interval = as_interval_str interval, kl_open = op, kl_high = hi, kl_low = lo,
          kl_close = cl, kl_volume = volume, kl_open_time = TimestampMs open_time,
          kl_close_time = TimestampMs (case close_time_ms TO interval open_time of None \<Rightarrow> open_time | Some t \<Rightarrow> t),
          kl_closed = True\<rparr>))))))"

definition mexc_parse_ohlcv_snapshot ::
  "'d AdapterEnv \<Rightarrow> ('t, 'date) Time_ops \<Rightarrow> 'd InstrumentCatalog \<Rightarrow> string \<Rightarrow> FetchOhlcvRequest \<Rightarrow> 'd Kline list result" where
  "mexc_parse_ohlcv_snapshot E TO catalog payload request =
     and_then (single_instrument_id request) (\<lambda>iid.
     and_then (ok_or (market_error Unsupported (''unknown mexc instrument '' @ as_str iid)) (catalog_get catalog iid)) (\<lambda>spec.
     and_then (mexc_parse_kline_interval (fo_interval request)) (\<lambda>interval.
     and_then (mexc_response E ''kline response'' ''RestResponse<KlineRestData>'' read_MexcKlineRestData payload) (\<lambda>data.
       (let n = length (mx_krd_time data) in
      if length (mx_krd_open data) \<noteq> n \<or> length (mx_krd_close data) \<noteq> n \<or> length (mx_krd_high data) \<noteq> n \<or>
         length (mx_krd_low data) \<noteq> n \<or> length (mx_krd_vol data) \<noteq> n
      then Err (decode_message ''mexc kline arrays have inconsistent lengths'')
      else traverse (mexc_kline_at E TO iid interval data) [0..<n])))))"

definition mexc_parse_funding_rate_snapshot :: "'d AdapterEnv \<Rightarrow> string \<Rightarrow> 'd InstrumentSpec \<Rightarrow> 'd FundingRate result" where
  "mexc_parse_funding_rate_snapshot E payload spec =
     and_then (mexc_response E ''funding rate'' ''RestResponse<FundingRateData>'' read_MexcFundingRateData payload) (\<lambda>data.
     and_then (mexc_decimal E (mx_frd_funding_rate data)) (\<lambda>rate.
       Ok \<lparr>fr_instrument_id = is_instrument_id spec, fr_value = rate, fr_mark_price = None,
         fr_event_time = or_now E (mx_frd_timestamp data)\<rparr>))"

definition mexc_parse_open_interest_snapshot :: "'d AdapterEnv \<Rightarrow> string \<Rightarrow> 'd InstrumentSpec \<Rightarrow> 'd OpenInterest result" where
  "mexc_parse_open_interest_snapshot E payload spec =
     and_then (mexc_ticker_data E ''open interest ticker'' payload spec) (\<lambda>ticker.
     and_then (decimal_from_optional_value E (mx_td_hold_vol ticker)) (\<lambda>value.
       Ok \<lparr>oi_instrument_id = is_instrument_id spec, oi_value = DecimalValue value,
         oi_event_time = or_now E (mx_td_timestamp ticker)\<rparr>))"

section \<open>Account, orders and executions\<close>

text \<open>
  The balances of an account response, with the running totals of wallet, available and
  unrealized amounts; \<^verbatim>\<open>+=\<close> on decimals panics when it overflows.
\<close>

fun mexc_balances ::
  "'d AdapterEnv \<Rightarrow> TimestampMs \<Rightarrow> MexcAssetData list \<Rightarrow> 'd \<times> 'd \<times> 'd \<Rightarrow> ('d Balance list \<times> 'd \<times> 'd \<times> 'd) result" where
  "mexc_balances E observed_at [] totals = Ok ([], totals)"
| "mexc_balances E observed_at (asset # assets) totals =
     (let D = ae_decimal E in
      and_then (decimal_from_optional_value E (or_else (mx_ad_wallet_balance asset) (mx_ad_equity asset))) (\<lambda>wallet.
      and_then (decimal_from_optional_value E (or_else (mx_ad_available_balance asset) (mx_ad_available asset))) (\<lambda>available.
      and_then (decimal_from_optional_value E (or_else (mx_ad_unrealized asset) (mx_ad_unrealized asset))) (\<lambda>unrealized.
      and_then (or_panic (dec_checked_add D (fst totals) wallet)) (\<lambda>total_wallet.
      and_then (or_panic (dec_checked_add D (fst (snd totals)) available)) (\<lambda>total_available.
      and_then (or_panic (dec_checked_add D (snd (snd totals)) unrealized)) (\<lambda>total_unrealized.
        map_result (\<lambda>(balances, final). (\<lparr>bal_asset = StringId (mx_ad_currency asset),
          bal_wallet_balance = DecimalValue wallet, bal_available_balance = DecimalValue available,
          bal_updated_at = observed_at\<rparr> # balances, final))
        (mexc_balances E observed_at assets (total_wallet, total_available, total_unrealized)))))))))"

definition mexc_parse_account_snapshot :: "'d AdapterEnv \<Rightarrow> string \<Rightarrow> TimestampMs \<Rightarrow> 'd AccountSnapshot result" where
  "mexc_parse_account_snapshot E payload observed_at =
     (let zero = dec_zero (ae_decimal E) in
      and_then (mexc_response E ''account assets'' ''RestResponse<Vec<AssetData>>'' (json_as_vec read_MexcAssetData) payload) (\<lambda>assets.
      and_then (mexc_balances E observed_at assets (zero, zero, zero)) (\<lambda>counted.
        (case counted of (balances, total_wallet, total_available, total_unrealized) \<Rightarrow>
         Ok \<lparr>acc_balances = balances, acc_summary = Some \<lparr>sum_total_wallet_balance = DecimalValue total_wallet,
           sum_total_available_balance = DecimalValue total_available,
           sum_total_unrealized_pnl = DecimalValue total_unrealized, sum_updated_at = observed_at\<rparr>\<rparr>))))"

definition nonzero :: "'d Decimal_ops \<Rightarrow> 'd option \<Rightarrow> 'd option" where
  "nonzero D v = Option.bind v (\<lambda>d. if dec_is_zero D d then None else Some d)"

definition mexc_position_from_data ::
  "'d AdapterEnv \<Rightarrow> 'd InstrumentCatalog \<Rightarrow> TimestampMs \<Rightarrow> MexcPositionData \<Rightarrow> 'd \<Rightarrow> 'd Position result" where
  "mexc_position_from_data E catalog observed_at p amount =
     and_then (mexc_require_native_symbol catalog (mx_pd_symbol p)) (\<lambda>spec.
     and_then (result_ok (decimal_from_optional_value E (mx_pd_open_avg_price p))) (\<lambda>entry_price.
     and_then (result_ok (decimal_from_optional_value E (mx_pd_mark_price p))) (\<lambda>mark_price.
     and_then (result_ok (decimal_from_optional_value E (or_else (mx_pd_unrealized p) (mx_pd_unrealised p)))) (\<lambda>unrealized.
     and_then (result_ok (decimal_from_optional_value E (mx_pd_leverage p))) (\<lambda>leverage.
       Ok \<lparr>pos_position_id = StringId (value_to_id_string E (mx_pd_position_id p)),
         pos_instrument_id = is_instrument_id spec,
         pos_direction = mexc_parse_position_direction (mx_pd_position_type p), pos_size = DecimalValue amount,
         pos_entry_price = map_option DecimalValue (nonzero (ae_decimal E) entry_price),
         pos_mark_price = map_option DecimalValue mark_price,
         pos_unrealized_pnl = map_option DecimalValue unrealized, pos_leverage = map_option DecimalValue leverage,
         pos_margin_mode = mexc_parse_margin_mode (mx_pd_open_type p),
         pos_position_mode = mexc_parse_position_mode (mx_pd_position_mode p),
         pos_updated_at = (case or_else (mx_pd_update_time p) (mx_pd_create_time p) of
            None \<Rightarrow> observed_at | Some t \<Rightarrow> TimestampMs t)\<rparr>)))))"

text \<open>The positions of a snapshot: those of zero size are passed over.\<close>

fun mexc_snapshot_positions ::
  "'d AdapterEnv \<Rightarrow> 'd InstrumentCatalog \<Rightarrow> TimestampMs \<Rightarrow> MexcPositionData list \<Rightarrow> 'd Position list result" where
  "mexc_snapshot_positions E catalog observed_at [] = Ok []"
| "mexc_snapshot_positions E catalog observed_at (p # ps) =
     and_then (decimal_from_optional_value E (mx_pd_hold_vol p)) (\<lambda>amount.
       if dec_is_zero (ae_decimal E) amount then mexc_snapshot_positions E catalog observed_at ps
       else and_then (mexc_position_from_data E catalog observed_at p amount) (\<lambda>position.
         map_result (Cons position) (mexc_snapshot_positions E catalog observed_at ps)))"

definition mexc_parse_positions_snapshot ::
  "'d AdapterEnv \<Rightarrow> 'd InstrumentCatalog \<Rightarrow> string \<Rightarrow> TimestampMs \<Rightarrow> 'd Position list result" where
  "mexc_parse_positions_snapshot E catalog payload observed_at =
     and_then (mexc_response E ''positions'' ''RestResponse<Vec<PositionData>>'' (json_as_vec read_MexcPositionData) payload)
       (mexc_snapshot_positions E catalog observed_at)"

definition mexc_order_from_data ::
  "'d AdapterEnv \<Rightarrow> 'd InstrumentCatalog \<Rightarrow> TimestampMs \<Rightarrow> MexcOrderData \<Rightarrow> 'd Order result" where
  "mexc_order_from_data E catalog observed_at order =
     (let kind = or_else (mx_od_order_type order) (mx_od_category order);
          at_or = (\<lambda>t. case t of None \<Rightarrow> observed_at | Some n \<Rightarrow> TimestampMs n) in
      and_then (mexc_require_native_symbol catalog (mx_od_symbol order)) (\<lambda>spec.
      and_then (mexc_decimal E (mx_od_price order)) (\<lambda>price.
      and_then (mexc_decimal E (mx_od_vol order)) (\<lambda>quantity.
      and_then (decimal_from_optional_value E (mx_od_deal_vol order)) (\<lambda>filled.
      and_then (result_ok (decimal_from_optional_value E (mx_od_deal_avg_price order))) (\<lambda>average.
        Ok \<lparr>ord_order_id = StringId (value_to_id_string E (mx_od_order_id order)),
          ord_client_order_id = (case mx_od_external_oid order of
             None \<Rightarrow> None | Some oid \<Rightarrow> if oid = [] then None else Some (StringId oid)),
          ord_instrument_id = is_instrument_id spec, ord_side = mexc_parse_order_side (mx_od_side order),
          ord_order_type = mexc_parse_order_type (case kind of None \<Rightarrow> 1 | Some n \<Rightarrow> n),
          ord_time_in_force = Some (mexc_parse_time_in_force kind),
          ord_status = mexc_parse_order_status (mx_od_state order), ord_price = Some price, ord_quantity = quantity,
          ord_filled_quantity = DecimalValue filled,
          ord_average_fill_price = map_option DecimalValue (nonzero (ae_decimal E) average),
          ord_reduce_only = (case mx_od_reduce_only order of None \<Rightarrow> mx_od_side order \<in> {2, 4} | Some b \<Rightarrow> b),
          ord_post_only = (kind = Some 2), ord_created_at = at_or (mx_od_create_time order),
          ord_updated_at = at_or (mx_od_update_time order), ord_venue_status = Some (show_int (mx_od_state order))\<rparr>))))))"

definition mexc_parse_order_list_payload :: "'d AdapterEnv \<Rightarrow> string \<Rightarrow> MexcOrderData list result" where
  "mexc_parse_order_list_payload E payload =
     and_then (mexc_response E ''order list'' ''RestResponse<Value>'' json_as_value payload) (\<lambda>data.
       (case data of
        JArray _ \<Rightarrow> map_err (\<lambda>err. decode_message (''failed to decode mexc order list: '' @ err))
          (from_value E ''Vec<OrderData>'' (json_as_vec read_MexcOrderData) data)
      | _ \<Rightarrow> map_err (\<lambda>err. decode_message (''failed to decode mexc order page: '' @ err))
          (from_value E ''Page'' (dflt_field ''result_list'' [] (json_as_vec read_MexcOrderData)) data)))"

definition mexc_parse_open_orders_snapshot ::
  "'d AdapterEnv \<Rightarrow> 'd InstrumentCatalog \<Rightarrow> string \<Rightarrow> TimestampMs \<Rightarrow> 'd Order list result" where
  "mexc_parse_open_orders_snapshot E catalog payload observed_at =
     and_then (mexc_parse_order_list_payload E payload) (traverse (mexc_order_from_data E catalog observed_at))"

definition mexc_parse_order_snapshot ::
  "'d AdapterEnv \<Rightarrow> 'd InstrumentCatalog \<Rightarrow> string \<Rightarrow> TimestampMs \<Rightarrow> 'd Order result" where
  "mexc_parse_order_snapshot E catalog payload observed_at =
     and_then (mexc_response E ''order'' ''RestResponse<OrderData>'' read_MexcOrderData payload)
       (mexc_order_from_data E catalog observed_at)"

definition mexc_execution_from_data ::
  "'d AdapterEnv \<Rightarrow> 'd InstrumentCatalog \<Rightarrow> MexcExecutionData \<Rightarrow> 'd Execution result" where
  "mexc_execution_from_data E catalog execution =
     and_then (mexc_require_native_symbol catalog (mx_ed_symbol execution)) (\<lambda>spec.
     and_then (mexc_decimal E (mx_ed_vol execution)) (\<lambda>quantity.
     and_then (mexc_decimal E (mx_ed_price execution)) (\<lambda>price.
     and_then (mexc_optional E (mx_ed_fee execution)) (\<lambda>fee.
       Ok \<lparr>exe_execution_id = StringId (value_to_id_string E (mx_ed_id execution)),
         exe_order_id = StringId (value_to_id_string E (mx_ed_order_id execution)), exe_client_order_id = None,
         exe_instrument_id = is_instrument_id spec, exe_side = mexc_parse_order_side (mx_ed_side execution),
         exe_quantity = quantity, exe_price = price, exe_fee = fee,
         exe_fee_asset = map_option StringId (mx_ed_fee_currency execution),
         exe_liquidity = map_option (\<lambda>taker. if taker then Taker else Maker) (mx_ed_is_taker execution),
         exe_executed_at = or_now E (Option.bind (mx_ed_timestamp execution) value_to_i64)\<rparr>))))"

definition mexc_parse_executions_snapshot ::
  "'d AdapterEnv \<Rightarrow> 'd InstrumentCatalog \<Rightarrow> string \<Rightarrow> 'd Execution list result" where
  "mexc_parse_executions_snapshot E catalog payload =
     and_then (mexc_response E ''executions'' ''RestResponse<Vec<ExecutionData>>'' (json_as_vec read_MexcExecutionData) payload)
       (traverse (mexc_execution_from_data E catalog))"

section \<open>Stream frames\<close>

definition mexc_parse_native_public :: "'d AdapterEnv \<Rightarrow> string \<Rightarrow> MexcPublicEnvelope result" where
  "mexc_parse_native_public E payload =
     map_err (\<lambda>err. decode_message (''failed to parse mexc public payload: '' @ err))
       (from_str E ''PublicEnvelope'' read_MexcPublicEnvelope payload)"

definition mexc_ws_data ::
  "'d AdapterEnv \<Rightarrow> string \<Rightarrow> string \<Rightarrow> 'r json_reader \<Rightarrow> Json \<Rightarrow> 'r result" where
  "mexc_ws_data E what type_name r v =
     map_err (\<lambda>err. decode_message (''failed to decode mexc '' @ what @ '': '' @ err)) (from_value E type_name r v)"

text \<open>The turnover is dropped when it does not fit; a turnover that is not a number is an error.\<close>

definition mexc_turnover :: "'d AdapterEnv \<Rightarrow> 'd InstrumentSpec \<Rightarrow> Json option \<Rightarrow> FastNotional option result" where
  "mexc_turnover E spec v =
     and_then (transpose_map (decimal_from_value E) v) (\<lambda>d.
       map_result (\<lambda>x. Option.bind x id)
         (result_ok (transpose_map (\<lambda>n. notional_quantize (ae_decimal E) (DecimalValue n) (is_quote_scale spec)) d)))"

definition mexc_fast_ticker :: "'d AdapterEnv \<Rightarrow> 'd InstrumentSpec \<Rightarrow> MexcTickerData \<Rightarrow> FastTicker result" where
  "mexc_fast_ticker E spec ticker =
     and_then (mexc_price E spec (mx_td_last_price ticker)) (\<lambda>last_price.
     and_then (mexc_optional_price E spec (mx_td_fair_price ticker)) (\<lambda>mark_price.
     and_then (mexc_optional_price E spec (mx_td_index_price ticker)) (\<lambda>index_price.
     and_then (transpose_map (decimal_from_value E) (mx_td_volume24 ticker)) (\<lambda>volume_value.
     and_then (transpose_map (\<lambda>d. quantity_quantize (ae_decimal E) (DecimalValue d) (is_qty_scale spec)) volume_value) (\<lambda>volume.
     and_then (mexc_turnover E spec (mx_td_amount24 ticker)) (\<lambda>turnover.
       Ok \<lparr>ft_instrument_id = is_instrument_id spec, ft_last_price = last_price, ft_mark_price = mark_price,
         ft_index_price = index_price, ft_volume_24h = volume, ft_turnover_24h = turnover,
         ft_event_time = or_now E (mx_td_timestamp ticker)\<rparr>))))))"

definition mexc_ticker_event ::
  "'d AdapterEnv \<Rightarrow> 'd InstrumentCatalog \<Rightarrow> MexcTickerData \<Rightarrow> 'd PublicLaneEvent result" where
  "mexc_ticker_event E catalog ticker =
     and_then (mexc_require_native_symbol catalog (mx_td_symbol ticker)) (\<lambda>spec.
       map_result PublicLaneEvent.Ticker (mexc_fast_ticker E spec ticker))"

definition mexc_fast_trade ::
  "'d AdapterEnv \<Rightarrow> 'd InstrumentSpec \<Rightarrow> nat \<times> MexcDealData \<Rightarrow> FastTrade result" where
  "mexc_fast_trade E spec indexed =
     and_then (mexc_trade_to_unified E spec indexed) (\<lambda>trade.
     and_then (price_quantize (ae_decimal E) (tt_price trade) (is_price_scale spec)) (\<lambda>price.
     and_then (quantity_quantize (ae_decimal E) (tt_quantity trade) (is_qty_scale spec)) (\<lambda>quantity.
       Ok \<lparr>ftr_instrument_id = tt_instrument_id trade, ftr_trade_id = tt_trade_id trade, ftr_price = price,
         ftr_quantity = quantity, ftr_aggressor_side = tt_aggressor_side trade, ftr_event_time = tt_event_time trade\<rparr>)))"

definition decode_mexc_ws_deals :: "'d AdapterEnv \<Rightarrow> Json \<Rightarrow> MexcDealData list result" where
  "decode_mexc_ws_deals E v =
     (case v of
        JArray _ \<Rightarrow> mexc_ws_data E ''deal ws array'' ''Vec<DealData>'' (json_as_vec read_MexcDealData) v
      | _ \<Rightarrow> map_result (\<lambda>deal. [deal]) (mexc_ws_data E ''deal ws'' ''DealData'' read_MexcDealData v))"

definition mexc_fast_book_tuple ::
  "'d AdapterEnv \<Rightarrow> 'd InstrumentSpec \<Rightarrow> Json list \<Rightarrow> (FastPrice \<times> FastQuantity) result" where
  "mexc_fast_book_tuple E spec level =
     and_then (level_to_book_level E level) (\<lambda>lvl.
     and_then (price_quantize (ae_decimal E) (obl_price lvl) (is_price_scale spec)) (\<lambda>price.
     and_then (quantity_quantize (ae_decimal E) (obl_quantity lvl) (is_qty_scale spec)) (\<lambda>quantity.
       Ok (price, quantity))))"

definition mexc_fast_kline ::
  "'d AdapterEnv \<Rightarrow> ('t, 'date) Time_ops \<Rightarrow> 'd InstrumentSpec \<Rightarrow> MexcKlineData \<Rightarrow> FastKline result" where
  "mexc_fast_kline E TO spec kline =
     and_then (ok_or (decode_message (''unsupported or missing mexc kline interval '' @
            quoted (case mx_kd_interval kline of None \<Rightarrow> ''<missing>'' | Some i \<Rightarrow> i)))
          (Option.bind (mx_kd_interval kline) mexc_interval_to_core)) (\<lambda>interval.
     and_then (mexc_price E spec (mx_kd_o kline)) (\<lambda>op.
     and_then (mexc_price E spec (mx_kd_h kline)) (\<lambda>hi.
     and_then (mexc_price E spec (mx_kd_l kline)) (\<lambda>lo.
     and_then (mexc_price E spec (mx_kd_c kline)) (\<lambda>cl.
     and_then (decimal_from_optional_value E (or_else (mx_kd_a kline) (mx_kd_q kline))) (\<lambda>volume_value.
     and_then (quantity_quantize (ae_decimal E) (DecimalValue volume_value) (is_qty_scale spec)) (\<lambda>volume.
       (let open_time = i64_wrap ((case mx_kd_t kline of None \<Rightarrow> ae_now E div 1000 | Some t \<Rightarrow> t) * 1000) in
      Ok \<lparr>fk_instrument_id = is_instrument_id spec, fk_interval = as_interval_str interval, fk_open = op,
        fk_high = hi, fk_low = lo, fk_close = cl, fk_volume = volume, fk_open_time = TimestampMs open_time,
        fk_close_time = TimestampMs (case close_time_ms TO interval open_time of None \<Rightarrow> open_time | Some t \<Rightarrow> t),
        fk_closed = False\<rparr>))))))))"

definition mexc_deal_events ::
  "'d AdapterEnv \<Rightarrow> 'd InstrumentCatalog \<Rightarrow> MexcPublicEnvelope \<Rightarrow> 'd PublicLaneEvent list result" where
  "mexc_deal_events E catalog envelope =
     and_then (ok_or (decode_message ''mexc deal websocket payload missing symbol'') (mx_pe_symbol envelope)) (\<lambda>symbol.
     and_then (mexc_require_native_symbol catalog symbol) (\<lambda>spec.
     and_then (decode_mexc_ws_deals E (mx_pe_data envelope)) (\<lambda>deals.
       traverse (\<lambda>x. map_result PublicLaneEvent.Trade (mexc_fast_trade E spec x)) (List.enumerate 0 deals))))"

definition mexc_depth_events ::
  "'d AdapterEnv \<Rightarrow> 'd InstrumentCatalog \<Rightarrow> MexcPublicEnvelope \<Rightarrow> 'd PublicLaneEvent list result" where
  "mexc_depth_events E catalog envelope =
     and_then (mexc_ws_data E ''depth ws'' ''DepthData'' read_MexcDepthData (mx_pe_data envelope)) (\<lambda>depth.
     and_then (ok_or (decode_message ''mexc depth websocket payload missing symbol'') (mx_pe_symbol envelope)) (\<lambda>symbol.
     and_then (mexc_require_native_symbol catalog symbol) (\<lambda>spec.
     and_then (traverse (mexc_fast_book_tuple E spec) (mx_ddx_bids depth)) (\<lambda>bids.
     and_then (traverse (mexc_fast_book_tuple E spec) (mx_ddx_asks depth)) (\<lambda>asks.
       Ok [PublicLaneEvent.OrderBookDelta \<lparr>fob_instrument_id = is_instrument_id spec, fob_bids = bids, fob_asks = asks,
         fob_event_time = or_now E (or_else (mx_ddx_timestamp depth) (mx_pe_ts envelope))\<rparr>])))))"

definition mexc_kline_events ::
  "'d AdapterEnv \<Rightarrow> ('t, 'date) Time_ops \<Rightarrow> 'd InstrumentCatalog \<Rightarrow> MexcPublicEnvelope \<Rightarrow> 'd PublicLaneEvent list result" where
  "mexc_kline_events E TO catalog envelope =
     and_then (mexc_ws_data E ''kline ws'' ''KlineData'' read_MexcKlineData (mx_pe_data envelope)) (\<lambda>kline.
     and_then (ok_or (decode_message ''mexc kline websocket payload missing symbol'')
         (or_else (mx_kd_symbol kline) (mx_pe_symbol envelope))) (\<lambda>symbol.
     and_then (mexc_require_native_symbol catalog symbol) (\<lambda>spec.
       map_result (\<lambda>k. [PublicLaneEvent.Kline k]) (mexc_fast_kline E TO spec kline))))"

definition mexc_parse_public ::
  "'d AdapterEnv \<Rightarrow> ('t, 'date) Time_ops \<Rightarrow> 'd InstrumentCatalog \<Rightarrow> string \<Rightarrow> 'd PublicLaneEvent list result" where
  "mexc_parse_public E TO catalog payload =
     and_then (mexc_parse_native_public E payload) (\<lambda>envelope.
       let channel = mx_pe_channel envelope in
       if channel = ''push.ticker'' then
         and_then (mexc_ws_data E ''ticker ws'' ''TickerData'' read_MexcTickerData (mx_pe_data envelope))
           (\<lambda>ticker. map_result (\<lambda>e. [e]) (mexc_ticker_event E catalog ticker))
       else if channel = ''push.tickers'' then
         and_then (mexc_ws_data E ''tickers ws'' ''Vec<TickerData>'' (json_as_vec read_MexcTickerData) (mx_pe_data envelope))
           (traverse (mexc_ticker_event E catalog))
       else if channel = ''push.deal'' then mexc_deal_events E catalog envelope
       else if channel \<in> {''push.depth'', ''push.depth.full''} then mexc_depth_events E catalog envelope
       else if channel = ''push.kline'' then mexc_kline_events E TO catalog envelope
       else if channel \<in> {''pong'', ''rs.sub.ticker'', ''rs.sub.tickers'', ''rs.sub.deal'', ''rs.sub.depth'', ''rs.sub.kline''}
       then Ok []
       else Err (mexc_error Unsupported (''unsupported mexc public channel '' @ quoted channel)))"

definition mexc_asset_event ::
  "'d AdapterEnv \<Rightarrow> TimestampMs \<Rightarrow> MexcAssetData \<Rightarrow> 'd PrivateLaneEvent result" where
  "mexc_asset_event E received_at asset =
     and_then (decimal_from_optional_value E (or_else (mx_ad_wallet_balance asset) (mx_ad_equity asset))) (\<lambda>wallet.
     and_then (decimal_from_optional_value E (or_else (mx_ad_available_balance asset) (mx_ad_available asset))) (\<lambda>available.
       Ok (PrivateLaneEvent.Balance \<lparr>bal_asset = StringId (mx_ad_currency asset), bal_wallet_balance = DecimalValue wallet,
         bal_available_balance = DecimalValue available, bal_updated_at = received_at\<rparr>)))"

definition mexc_parse_private ::
  "'d AdapterEnv \<Rightarrow> 'd InstrumentCatalog \<Rightarrow> string \<Rightarrow> 'd PrivateLaneEvent list result" where
  "mexc_parse_private E catalog payload =
     and_then (mexc_parse_native_public E payload) (\<lambda>envelope.
       let channel = mx_pe_channel envelope; data = mx_pe_data envelope; received_at = or_now E (mx_pe_ts envelope) in
       if channel = ''push.personal.asset'' then
         and_then (mexc_ws_data E ''asset ws'' ''AssetData'' read_MexcAssetData data)
           (\<lambda>asset. map_result (\<lambda>e. [e]) (mexc_asset_event E received_at asset))
       else if channel = ''push.personal.position'' then
         and_then (mexc_ws_data E ''position ws'' ''PositionData'' read_MexcPositionData data) (\<lambda>p.
         and_then (decimal_from_optional_value E (mx_pd_hold_vol p)) (\<lambda>amount.
           map_result (\<lambda>x. [PrivateLaneEvent.Position x]) (mexc_position_from_data E catalog received_at p amount)))
       else if channel = ''push.personal.order'' then
         and_then (mexc_ws_data E ''order ws'' ''OrderData'' read_MexcOrderData data)
           (\<lambda>order. map_result (\<lambda>x. [PrivateLaneEvent.Order x]) (mexc_order_from_data E catalog received_at order))
       else if channel = ''push.personal.order.deal'' then
         and_then (mexc_ws_data E ''execution ws'' ''ExecutionData'' read_MexcExecutionData data)
           (\<lambda>execution. map_result (\<lambda>x. [PrivateLaneEvent.Execution x]) (mexc_execution_from_data E catalog execution))
       else if channel \<in> {''rs.login'', ''pong''} then Ok []
       else Err (mexc_error Unsupported (''unsupported mexc private channel '' @ quoted channel)))"

section \<open>Command responses\<close>

definition mexc_command_order_id :: "'d AdapterEnv \<Rightarrow> Json option \<Rightarrow> OrderId option" where
  "mexc_command_order_id E data = do {
     payload \<leftarrow> data;
     value \<leftarrow> (case payload of
        JArray items \<Rightarrow> Option.bind (hd_option items) (json_get ''orderId'')
      | JObject _ \<Rightarrow> or_else (json_get ''orderId'' payload) (json_get ''order_id'' payload)
      | _ \<Rightarrow> Some payload);
     (let oid = value_to_id_string E value in
      if oid = [] \<or> oid = ''null'' then None else Some (StringId oid))}"

definition mexc_command_item_error :: "Json option \<Rightarrow> (i64 \<times> string option) option" where
  "mexc_command_item_error data = do {
     payload \<leftarrow> data;
     item \<leftarrow> (case payload of
        JArray items \<Rightarrow> hd_option items
      | JObject _ \<Rightarrow> Some payload
      | _ \<Rightarrow> None);
     error_code \<leftarrow> Option.bind (or_else (json_get ''errorCode'' item) (json_get ''error_code'' item)) value_to_i64;
     (if error_code = 0 then None
      else Some (error_code,
        Option.bind (or_else (json_get ''errorMsg'' item) (json_get ''error_msg'' item)) json_as_str))}"

definition mexc_command_receipt ::
  "'d AdapterEnv \<Rightarrow> CommandOperation \<Rightarrow> RequestId option \<Rightarrow> Json \<Rightarrow> CommandReceipt" where
  "mexc_command_receipt E operation rid v =
     (let success = (Option.bind (json_get ''success'' v) json_as_bool = Some True);
          code = (case Option.bind (json_get ''code'' v) value_to_i64 of None \<Rightarrow> 0 | Some n \<Rightarrow> n);
          message = or_else (Option.bind (json_get ''message'' v) json_as_str) (Option.bind (json_get ''msg'' v) json_as_str);
          item_error = mexc_command_item_error (json_get ''data'' v);
          item_error_code = (case item_error of None \<Rightarrow> code | Some e \<Rightarrow> fst e) in
      (plain_receipt Mexc operation
         (if success \<and> code = 0 \<and> item_error = None then Accepted else CommandStatus.Rejected) rid
         (or_else (or_else (Option.bind item_error snd) message) (Some (if success then ''accepted'' else ''rejected'')))
         (Some (show_int item_error_code)) (item_error_code \<in> {500, 501, 510, 603, 2037}))
        \<lparr>rcp_order_id := mexc_command_order_id E (json_get ''data'' v)\<rparr>)"

definition mexc_classify_command ::
  "'d AdapterEnv \<Rightarrow> 'd InstrumentCatalog \<Rightarrow> CommandOperation \<Rightarrow> string option \<Rightarrow> RequestId option \<Rightarrow> CommandReceipt result" where
  "mexc_classify_command E catalog operation payload rid =
     (case payload of
        None \<Rightarrow> Ok (unknown_receipt Mexc operation rid)
      | Some body \<Rightarrow>
          map_result (mexc_command_receipt E operation rid)
            (map_err (\<lambda>err. decode_message (''failed to parse mexc command payload: '' @ err)) (ae_json E body)))"

section \<open>Initial instruments\<close>

definition decimal_places :: "string \<Rightarrow> u32" where
  "decimal_places value = of_nat (length (drop 1 (dropWhile (\<lambda>c. c \<noteq> CHR ''.'') value)))"

definition fixture_decimal :: "'d Decimal_ops \<Rightarrow> string \<Rightarrow> 'd option" where
  "fixture_decimal D value =
     dec_new D (case parse_i64 (filter (\<lambda>c. c \<noteq> CHR ''.'') value) of None \<Rightarrow> 1 | Some n \<Rightarrow> n) (decimal_places value)"

definition mexc_fixture_spec ::
  "'d Decimal_ops \<Rightarrow> string \<Rightarrow> u32 \<Rightarrow> u32 \<Rightarrow> string \<Rightarrow> string \<Rightarrow> i64 \<Rightarrow> 'd InstrumentSpec option" where
  "mexc_fixture_spec D base price_scale qty_scale tick step leverage = do {
     tick_size \<leftarrow> fixture_decimal D tick;
     step_size \<leftarrow> fixture_decimal D step;
     Some \<lparr>is_venue = Mexc, is_product = LinearUsdt, is_market_type = LinearPerpetual,
       is_instrument_id = StringId (canonical_symbol base ''USDT'' ''USDT''),
       is_canonical_symbol = canonical_symbol base ''USDT'' ''USDT'', is_native_symbol = base @ ''USDT'',
       is_base = StringId base, is_quote = StringId ''USDT'', is_settle = StringId ''USDT'',
       is_contract_size = DecimalValue (dec_one D), is_tick_size = DecimalValue tick_size,
       is_step_size = DecimalValue step_size, is_min_qty = DecimalValue step_size,
       is_min_notional = DecimalValue tick_size, is_price_scale = price_scale, is_qty_scale = qty_scale,
       is_quote_scale = price_scale + qty_scale, is_max_leverage = Some (DecimalValue (dec_from_i64 D leverage)),
       is_support = full_support\<lparr>sup_private_trading := False, sup_leverage_set := False, sup_margin_mode_set := False\<rparr>,
       is_status = Active\<rparr>}"

definition mexc_instruments :: "'d Decimal_ops \<Rightarrow> 'd InstrumentSpec list option" where
  "mexc_instruments D = do {
     btc \<leftarrow> mexc_fixture_spec D ''BTC'' 2 0 ''0.1'' ''1'' 125;
     eth \<leftarrow> mexc_fixture_spec D ''ETH'' 2 0 ''0.01'' ''1'' 100;
     Some [btc, eth]}"

section \<open>The adapter keeps the contract\<close>

text \<open>
  The venue's frames may make the adapter panic (a number such as \<^verbatim>\<open>1e40\<close> overflows the decimal
  arithmetic), so this adapter keeps the contract for the frames it decodes.
\<close>

lemma delivers_mexc_symbol:
  assumes "catalog_wf catalog"
  shows "delivers (\<lambda>spec. listed catalog (is_instrument_id spec)) (mexc_require_native_symbol catalog symbol)"
  using by_native_symbol_listed [OF assms]
  by (auto simp: mexc_require_native_symbol_def mexc_resolve_native_symbol_def or_else_def delivers_iff ok_or_def
      split: option.splits)

lemma delivers_mexc_price: "delivers fits (mexc_price E spec v)"
  unfolding mexc_price_def by (rule settles_and_then [OF delivers_any settles_quantize(1)])

lemma delivers_mexc_optional_price: "delivers (pred_option fits) (mexc_optional_price E spec v)"
  unfolding mexc_optional_price_def
  by (rule settles_and_then [OF delivers_any settles_transpose [OF settles_quantize(1)]])

lemma delivers_result_ok: "delivers P r \<Longrightarrow> delivers (pred_option P) (result_ok r)"
  by (elim settles_cases) (simp_all add: result_ok_def)

lemma delivers_mexc_turnover: "delivers opt_i64 (mexc_turnover E spec v)"
  unfolding mexc_turnover_def
  by (rule settles_and_then [OF delivers_any],
      rule settles_map_result [OF delivers_result_ok [OF settles_transpose [OF settles_quantize(3)]]])
    (auto simp: opt_i64_def split: option.splits Option.bind_splits)

lemma delivers_mexc_level: "delivers (pred_prod fits fits) (mexc_fast_book_tuple E spec level)"
  unfolding mexc_fast_book_tuple_def
  by (rule settles_and_then [OF delivers_any], rule settles_and_then [OF settles_quantize(1)],
      rule settles_and_then [OF settles_quantize(2)]) simp

lemma delivers_mexc_ticker:
  assumes "catalog_wf catalog"
  shows "delivers (public_sound catalog) (mexc_ticker_event E catalog ticker)"
proof -
  have fast: "delivers (\<lambda>t. ft_instrument_id t = is_instrument_id spec \<and> event_i64 (PublicLaneEvent.Ticker t))
      (mexc_fast_ticker E spec ticker)" for spec :: "'a InstrumentSpec"
    unfolding mexc_fast_ticker_def
    by (rule settles_and_then [OF delivers_mexc_price], (rule settles_and_then [OF delivers_mexc_optional_price])+,
        rule settles_and_then [OF delivers_any], rule settles_and_then [OF settles_transpose [OF settles_quantize(2)]],
        rule settles_and_then [OF delivers_mexc_turnover]) (auto simp: opt_i64_def split: option.splits)
  show ?thesis
    unfolding mexc_ticker_event_def
    by (rule settles_and_then [OF delivers_mexc_symbol [OF assms]], rule settles_map_result [OF fast])
      (simp add: sound_simps)
qed

lemma delivers_mexc_deals:
  assumes "catalog_wf catalog"
  shows "delivers (list_all (public_sound catalog)) (mexc_deal_events E catalog envelope)"
proof -
  have fast: "delivers (\<lambda>t. ftr_instrument_id t = is_instrument_id spec \<and> event_i64 (PublicLaneEvent.Trade t))
      (mexc_fast_trade E spec x)" for spec :: "'a InstrumentSpec" and x
  proof -
    have "delivers (\<lambda>t. tt_instrument_id t = is_instrument_id spec) (mexc_trade_to_unified E spec x)"
      unfolding mexc_trade_to_unified_def Let_def by (rule settles_and_then [OF delivers_any])+ simp
    then show ?thesis
      unfolding mexc_fast_trade_def
      by (rule settles_and_then) (rule settles_and_then [OF settles_quantize(1)],
          rule settles_and_then [OF settles_quantize(2)], simp)
  qed
  show ?thesis
    unfolding mexc_deal_events_def
    by (rule settles_and_then [OF delivers_any], rule settles_and_then [OF delivers_mexc_symbol [OF assms]],
        rule settles_and_then [OF delivers_any], rule settles_traverse, rule settles_map_result [OF fast])
      (simp add: sound_simps)
qed

lemma delivers_mexc_depth:
  assumes "catalog_wf catalog"
  shows "delivers (list_all (public_sound catalog)) (mexc_depth_events E catalog envelope)"
  unfolding mexc_depth_events_def
  by (rule settles_and_then [OF delivers_any], rule settles_and_then [OF delivers_any],
      rule settles_and_then [OF delivers_mexc_symbol [OF assms]],
      rule settles_and_then [OF delivers_any], rule settles_and_then [OF delivers_any]) (simp add: sound_simps)

lemma delivers_mexc_kline:
  assumes "catalog_wf catalog"
  shows "delivers (list_all (public_sound catalog)) (mexc_kline_events E TO catalog envelope)"
proof -
  have fast: "delivers (\<lambda>k. fk_instrument_id k = is_instrument_id spec \<and> event_i64 (PublicLaneEvent.Kline k))
      (mexc_fast_kline E TO spec kline)" for spec :: "'a InstrumentSpec" and kline
    unfolding mexc_fast_kline_def
    by (rule settles_and_then [OF delivers_any], (rule settles_and_then [OF delivers_mexc_price])+,
        rule settles_and_then [OF delivers_any], rule settles_and_then [OF settles_quantize(2)]) (simp add: Let_def)
  show ?thesis
    unfolding mexc_kline_events_def
    by (rule settles_and_then [OF delivers_any], rule settles_and_then [OF delivers_any],
        rule settles_and_then [OF delivers_mexc_symbol [OF assms]], rule settles_map_result [OF fast])
      (simp add: sound_simps)
qed

lemma delivers_mexc_public:
  assumes "catalog_wf catalog"
  shows "delivers (list_all (public_sound catalog)) (mexc_parse_public E TO catalog payload)"
  unfolding mexc_parse_public_def Let_def
  by (intro settles_and_then [OF delivers_any] settles_if settles_map_result [OF delivers_mexc_ticker [OF assms]]
      settles_traverse delivers_mexc_ticker delivers_mexc_deals delivers_mexc_depth delivers_mexc_kline assms) simp_all

lemma delivers_mexc_private:
  assumes "catalog_wf catalog"
  shows "delivers (list_all (private_listed catalog)) (mexc_parse_private E catalog payload)"
proof -
  note symbol = delivers_mexc_symbol [OF assms]
  have position: "delivers (\<lambda>p. listed catalog (pos_instrument_id p)) (mexc_position_from_data E catalog t0 p d)" for t0 p d
    unfolding mexc_position_from_data_def
    by (rule settles_and_then [OF symbol], (rule settles_and_then [OF delivers_any])+) simp
  have order: "delivers (\<lambda>r. listed catalog (ord_instrument_id r)) (mexc_order_from_data E catalog t0 r)" for t0 r
    unfolding mexc_order_from_data_def Let_def
    by (rule settles_and_then [OF symbol], (rule settles_and_then [OF delivers_any])+) simp
  have execution: "delivers (\<lambda>x. listed catalog (exe_instrument_id x)) (mexc_execution_from_data E catalog x)" for x
    unfolding mexc_execution_from_data_def
    by (rule settles_and_then [OF symbol], (rule settles_and_then [OF delivers_any])+) simp
  have asset: "delivers (private_listed catalog) (mexc_asset_event E t0 a)" for t0 a
    unfolding mexc_asset_event_def by (rule settles_and_then [OF delivers_any])+ (simp add: sound_simps)
  show ?thesis
    unfolding mexc_parse_private_def Let_def
    by (intro settles_and_then [OF delivers_any] settles_if settles_map_result [OF position]
        settles_map_result [OF order] settles_map_result [OF execution] settles_map_result [OF asset])
      (simp_all add: sound_simps)
qed

interpretation mexc: venue_adapter Mexc "\<lambda>catalog payload (c::unit). (mexc_parse_public E TO catalog payload, c)"
  "mexc_parse_private E" "mexc_classify_command E" for E TO
proof
  fix catalog :: "'a InstrumentCatalog" and payload operation rid and c :: unit
  show "catalog_wf catalog \<Longrightarrow> delivers (list_all (public_sound catalog)) (fst (mexc_parse_public E TO catalog payload, c))"
    by (simp add: delivers_mexc_public)
  show "catalog_wf catalog \<Longrightarrow> delivers (list_all (private_listed catalog)) (mexc_parse_private E catalog payload)"
    by (rule delivers_mexc_private)
  show "mexc_classify_command E catalog operation None rid = Ok (unknown_receipt Mexc operation rid)"
    by (simp add: mexc_classify_command_def)
  show "yields (answers Mexc operation rid) (mexc_classify_command E catalog operation (Some payload) rid)"
    unfolding mexc_classify_command_def option.case
    by (rule settles_map_result [OF settles_map_err])
      (simp add: mexc_command_receipt_def Let_def answers_def plain_receipt_def)
qed

end
