(* ===== verification/Adapters.thy ===== *)
theory Adapters
  imports Http Binance_Adapter Bybit_Adapter Mexc_Adapter
begin

text \<open>
  The adapter behind a live client: \<^verbatim>\<open>AdapterHandle\<close> of \<^verbatim>\<open>bat-markets/src/client.rs\<close> picks one of
  the three venue adapters, and the runtime reads from it the sequence numbers its gap tracker
  follows (\<^verbatim>\<open>runtime.rs\<close>).
\<close>

section \<open>Sequence numbers of a frame\<close>

definition sequence_observation :: "string \<Rightarrow> i64 \<Rightarrow> bool \<Rightarrow> bool \<Rightarrow> SequenceObservation" where
  "sequence_observation topic value strict_gap reset =
     \<lparr>so_topic = topic, so_value = value, so_strict_gap = strict_gap, so_reset = reset\<rparr>"

definition binance_public_sequence_observations :: "'d AdapterEnv \<Rightarrow> string \<Rightarrow> SequenceObservation list result" where
  "binance_public_sequence_observations E payload =
     (case from_str E ''OpenInterestSnapshot'' read_BinanceOpenInterestSnapshot payload of
        Inr _ \<Rightarrow> Ok []
      | Inl _ \<Rightarrow> map_result (\<lambda>m. case m of
            BnAggTrade event \<Rightarrow> [sequence_observation (''binance.public.aggTrade.'' @ bn_ate_symbol event)
              (bn_ate_agg_trade_id event) True False]
          | BnDepth event \<Rightarrow> [sequence_observation (''binance.public.depth.'' @ bn_de_symbol event)
              (bn_de_final_update_id event) False False]
          | _ \<Rightarrow> []) (binance_parse_native_public E payload))"

definition binance_private_sequence_observations :: "'d AdapterEnv \<Rightarrow> string \<Rightarrow> SequenceObservation list result" where
  "binance_private_sequence_observations E payload =
     map_result (\<lambda>m. case m of
         BnOrderTradeUpdate event \<Rightarrow>
           (case bn_otd_trade_id (bn_otue_order event) of
              None \<Rightarrow> []
            | Some trade_id \<Rightarrow> [sequence_observation (''binance.private.trade.'' @ bn_otd_symbol (bn_otue_order event))
                trade_id False False])
       | BnTradeLite event \<Rightarrow> [sequence_observation (''binance.private.trade.'' @ bn_tle_symbol event)
           (bn_tle_trade_id event) False False]
       | BnAlgoUpdate _ \<Rightarrow> []
       | BnAccountUpdate _ \<Rightarrow> []) (binance_parse_native_private E payload)"

definition bybit_sequence_data :: "'d AdapterEnv \<Rightarrow> string \<Rightarrow> string \<Rightarrow> 'r json_reader \<Rightarrow> Json \<Rightarrow> 'r result" where
  "bybit_sequence_data E what type_name r v =
     map_err (\<lambda>err. bybit_error DecodeError (''failed to parse bybit '' @ what @ '' sequence payload: '' @ err))
       (from_value E type_name r v)"

definition bybit_public_sequence_observations :: "'d AdapterEnv \<Rightarrow> string \<Rightarrow> SequenceObservation list result" where
  "bybit_public_sequence_observations E payload =
     and_then (bybit_parse_native_public E payload) (\<lambda>envelope.
       if \<not> starts_with ''orderbook.'' (by_pe_topic envelope) then Ok []
       else map_result (\<lambda>data. case by_obd_update_id data of
           None \<Rightarrow> []
         | Some update_id \<Rightarrow> [sequence_observation (''bybit.public.orderbook.'' @ by_obd_symbol data) update_id True
             (by_pe_message_type envelope = Some ''snapshot'')])
         (bybit_sequence_data E ''orderbook'' ''OrderBookData'' read_BybitOrderBookData (by_pe_data envelope)))"

definition bybit_private_sequence_observations :: "'d AdapterEnv \<Rightarrow> string \<Rightarrow> SequenceObservation list result" where
  "bybit_private_sequence_observations E payload =
     and_then (bybit_parse_native_private E payload) (\<lambda>envelope.
       let topic = by_pex_topic envelope; data = by_pex_data envelope in
       if topic = ''position'' then
         map_result (List.map_filter (\<lambda>p. map_option (\<lambda>seq.
             sequence_observation (''bybit.private.position.'' @ by_pd_symbol p) seq False False) (by_pd_seq p)))
           (bybit_sequence_data E ''position'' ''Vec<PositionData>'' (json_as_vec read_BybitPositionData) data)
       else if topic = ''execution'' then
         map_result (List.map_filter (\<lambda>e. map_option (\<lambda>seq.
             sequence_observation (''bybit.private.execution.'' @ by_ed_symbol e) seq False False) (by_ed_seq e)))
           (bybit_sequence_data E ''execution'' ''Vec<ExecutionData>'' (json_as_vec read_BybitExecutionData) data)
       else if topic = ''order'' then
         map_result (map (\<lambda>r. sequence_observation
             (''bybit.private.order.'' @ by_od_symbol r @ ''.'' @ by_od_order_id r) (by_od_updated_time r) False False))
           (bybit_sequence_data E ''order'' ''Vec<OrderData>'' (json_as_vec read_BybitOrderData) data)
       else Ok [])"

section \<open>Market data over REST\<close>

text \<open>
  The runtime decodes some REST responses itself: the premium index and the order book of
  Binance, the tickers and the order book of Bybit.
\<close>

definition json_elements :: "Json \<Rightarrow> Json list option" where
  "json_elements v = (case v of JArray vs \<Rightarrow> Some vs | _ \<Rightarrow> None)"

definition plain_decimal :: "'d AdapterEnv \<Rightarrow> string \<Rightarrow> 'd result" where
  "plain_decimal E raw =
     map_err (\<lambda>err. market_error DecodeError (''invalid decimal '' @ quoted raw @ '': '' @ err)) (dec_parse (ae_decimal E) raw)"

definition binance_premium_index :: "'d AdapterEnv \<Rightarrow> string \<Rightarrow> (string \<times> string \<times> i64) result" where
  "binance_premium_index E payload =
     and_then (map_err (\<lambda>err. market_error DecodeError
            (''failed to parse binance premium index snapshot: '' @ err)) (ae_json E payload)) (\<lambda>snapshot.
     and_then (ok_or (market_error DecodeError ''missing markPrice in binance premium index snapshot'')
            (Option.bind (json_get ''markPrice'' snapshot) json_as_str)) (\<lambda>mark_price.
     and_then (ok_or (market_error DecodeError ''missing lastFundingRate in binance premium index snapshot'')
            (Option.bind (json_get ''lastFundingRate'' snapshot) json_as_str)) (\<lambda>funding_rate.
     and_then (ok_or (market_error DecodeError ''missing time in binance premium index snapshot'')
            (Option.bind (json_get ''time'' snapshot) json_as_i64)) (\<lambda>time.
       Ok (mark_price, funding_rate, time)))))"

definition binance_mark_price :: "'d AdapterEnv \<Rightarrow> string \<Rightarrow> 'd InstrumentSpec \<Rightarrow> 'd MarkPrice result" where
  "binance_mark_price E payload spec =
     and_then (binance_premium_index E payload) (\<lambda>(mark_price, funding_rate, time).
     and_then (plain_decimal E mark_price) (\<lambda>price.
     and_then (plain_decimal E funding_rate) (\<lambda>rate.
       Ok \<lparr>mp_instrument_id = is_instrument_id spec, mp_price = DecimalValue price,
            mp_funding_rate = Some (DecimalValue rate), mp_event_time = TimestampMs time\<rparr>)))"

definition binance_funding_rate :: "'d AdapterEnv \<Rightarrow> string \<Rightarrow> 'd InstrumentSpec \<Rightarrow> 'd FundingRate result" where
  "binance_funding_rate E payload spec =
     and_then (binance_premium_index E payload) (\<lambda>(mark_price, funding_rate, time).
     and_then (plain_decimal E funding_rate) (\<lambda>rate.
     and_then (plain_decimal E mark_price) (\<lambda>price.
       Ok \<lparr>fr_instrument_id = is_instrument_id spec, fr_value = DecimalValue rate,
            fr_mark_price = Some (DecimalValue price), fr_event_time = TimestampMs time\<rparr>)))"

text \<open>\<^verbatim>\<open>level[i]\<close> panics when the level is too short.\<close>

definition index_or_panic :: "'a list \<Rightarrow> nat \<Rightarrow> 'a result" where
  "index_or_panic xs i = (if i < length xs then Ok (xs ! i) else Panic)"

definition binance_book_number :: "'d AdapterEnv \<Rightarrow> string \<Rightarrow> Json list \<Rightarrow> nat \<Rightarrow> 'd result" where
  "binance_book_number E what parts i =
     and_then (index_or_panic parts i) (\<lambda>part.
     and_then (ok_or (market_error DecodeError (''invalid '' @ what @ '' in binance order book snapshot'')) (json_as_str part)) (\<lambda>raw.
       map_err (\<lambda>err. market_error DecodeError (''invalid '' @ what @ '' decimal: '' @ err)) (dec_parse (ae_decimal E) raw)))"

definition binance_book_level :: "'d AdapterEnv \<Rightarrow> string \<Rightarrow> Json \<Rightarrow> 'd OrderBookLevel result" where
  "binance_book_level E side level =
     and_then (ok_or (market_error DecodeError (''invalid '' @ side @ '' level in binance order book snapshot''))
            (json_elements level)) (\<lambda>parts.
     and_then (binance_book_number E (side @ '' price'') parts 0) (\<lambda>price.
     and_then (binance_book_number E (side @ '' quantity'') parts 1) (\<lambda>quantity.
       Ok \<lparr>obl_price = DecimalValue price, obl_quantity = DecimalValue quantity\<rparr>)))"

definition binance_order_book :: "'d AdapterEnv \<Rightarrow> string \<Rightarrow> 'd InstrumentSpec \<Rightarrow> i64 \<Rightarrow> 'd OrderBookSnapshot result" where
  "binance_order_book E payload spec now =
     and_then (map_err (\<lambda>err. market_error DecodeError
            (''failed to parse binance order book snapshot: '' @ err)) (ae_json E payload)) (\<lambda>snapshot.
     and_then (ok_or (market_error DecodeError ''missing bids in binance order book snapshot'')
            (Option.bind (json_get ''bids'' snapshot) json_elements)) (\<lambda>bids.
     and_then (ok_or (market_error DecodeError ''missing asks in binance order book snapshot'')
            (Option.bind (json_get ''asks'' snapshot) json_elements)) (\<lambda>asks.
     and_then (traverse (binance_book_level E ''bid'') bids) (\<lambda>bid_levels.
     and_then (traverse (binance_book_level E ''ask'') asks) (\<lambda>ask_levels.
       Ok \<lparr>obs_instrument_id = is_instrument_id spec, obs_bids = bid_levels, obs_asks = ask_levels,
            obs_event_time = TimestampMs (case Option.bind (json_get ''E'' snapshot) json_as_i64 of
               None \<Rightarrow> now | Some t \<Rightarrow> t)\<rparr>)))))"

definition bybit_first_ticker :: "'d AdapterEnv \<Rightarrow> string \<Rightarrow> BybitTickerData result" where
  "bybit_first_ticker E payload =
     and_then (map_err (\<lambda>err. market_error DecodeError (''failed to parse bybit tickers response: '' @ err))
         (from_str E ''MarketTickersResponse'' read_BybitMarketTickersResponse payload)) (\<lambda>response.
     if by_mtr_ret_code response \<noteq> 0 then Err (market_error ExchangeReject (by_mtr_ret_msg response))
     else ok_or (market_error DecodeError ''missing bybit ticker entry in market/tickers response'')
            (hd_option (by_mtrx_list (by_mtr_result response))))"

definition bybit_open_interest :: "'d AdapterEnv \<Rightarrow> string \<Rightarrow> 'd InstrumentSpec \<Rightarrow> i64 \<Rightarrow> 'd OpenInterest result" where
  "bybit_open_interest E payload spec now =
     and_then (bybit_first_ticker E payload) (\<lambda>ticker.
     and_then (parse_decimal E Bybit (by_td_open_interest ticker)) (\<lambda>value.
       Ok \<lparr>oi_instrument_id = is_instrument_id spec, oi_value = DecimalValue value,
            oi_event_time = TimestampMs now\<rparr>))"

definition bybit_mark_price :: "'d AdapterEnv \<Rightarrow> string \<Rightarrow> 'd InstrumentSpec \<Rightarrow> i64 \<Rightarrow> 'd MarkPrice result" where
  "bybit_mark_price E payload spec now =
     and_then (bybit_first_ticker E payload) (\<lambda>ticker.
     and_then (parse_decimal E Bybit (by_td_mark_price ticker)) (\<lambda>price.
     and_then (parse_decimal E Bybit (by_td_funding_rate ticker)) (\<lambda>rate.
       Ok \<lparr>mp_instrument_id = is_instrument_id spec, mp_price = DecimalValue price,
            mp_funding_rate = Some (DecimalValue rate), mp_event_time = TimestampMs now\<rparr>)))"

definition bybit_funding_rate :: "'d AdapterEnv \<Rightarrow> string \<Rightarrow> 'd InstrumentSpec \<Rightarrow> i64 \<Rightarrow> 'd FundingRate result" where
  "bybit_funding_rate E payload spec now =
     and_then (bybit_first_ticker E payload) (\<lambda>ticker.
     and_then (parse_decimal E Bybit (by_td_funding_rate ticker)) (\<lambda>rate.
     and_then (parse_decimal E Bybit (by_td_mark_price ticker)) (\<lambda>price.
       Ok \<lparr>fr_instrument_id = is_instrument_id spec, fr_value = DecimalValue rate,
            fr_mark_price = Some (DecimalValue price), fr_event_time = TimestampMs now\<rparr>)))"

definition bybit_book_level :: "'d AdapterEnv \<Rightarrow> string \<times> string \<Rightarrow> 'd OrderBookLevel result" where
  "bybit_book_level E level =
     and_then (parse_decimal E Bybit (fst level)) (\<lambda>price.
     and_then (parse_decimal E Bybit (snd level)) (\<lambda>quantity.
       Ok \<lparr>obl_price = DecimalValue price, obl_quantity = DecimalValue quantity\<rparr>))"

definition bybit_order_book :: "'d AdapterEnv \<Rightarrow> string \<Rightarrow> 'd InstrumentSpec \<Rightarrow> i64 \<Rightarrow> 'd OrderBookSnapshot result" where
  "bybit_order_book E payload spec now =
     and_then (map_err (\<lambda>err. market_error DecodeError (''failed to parse bybit order book snapshot: '' @ err))
         (from_str E ''OrderBookResponse'' read_BybitOrderBookResponse payload)) (\<lambda>response.
     if by_obr_ret_code response \<noteq> 0 then Err (market_error ExchangeReject (by_obr_ret_msg response))
     else
       and_then (traverse (bybit_book_level E) (by_obd_bids (by_obr_result response))) (\<lambda>bids.
       and_then (traverse (bybit_book_level E) (by_obd_asks (by_obr_result response))) (\<lambda>asks.
         Ok \<lparr>obs_instrument_id = is_instrument_id spec, obs_bids = bids, obs_asks = asks,
              obs_event_time = TimestampMs (case or_else (by_obd_cts (by_obr_result response)) (by_obd_ts (by_obr_result response)) of
                 None \<Rightarrow> now | Some t \<Rightarrow> t)\<rparr>)))"

definition mexc_mark_price :: "'d AdapterEnv \<Rightarrow> string \<Rightarrow> 'd InstrumentSpec \<Rightarrow> 'd MarkPrice result" where
  "mexc_mark_price E payload spec =
     map_result (\<lambda>ticker. \<lparr>mp_instrument_id = tk_instrument_id ticker,
         mp_price = (case tk_mark_price ticker of None \<Rightarrow> tk_last_price ticker | Some p \<Rightarrow> p),
         mp_funding_rate = None, mp_event_time = tk_event_time ticker\<rparr>)
       (mexc_parse_ticker_snapshot E payload spec)"

section \<open>The adapter of a venue\<close>

text \<open>
  The parsers the runtime calls.  An operation that only another venue's code path calls is not
  offered.
\<close>

definition not_offered :: "'a result" where
  "not_offered = Err (market_error Unsupported ''operation of another venue'')"

fun adapter_parsers ::
  "'d AdapterEnv \<Rightarrow> ('t, 'date) Time_ops \<Rightarrow> Venue \<Rightarrow> 'd InstrumentCatalog \<Rightarrow> 'd AdapterParsers" where
  "adapter_parsers E TO Binance catalog =
     \<lparr>pa_account_with_positions = binance_parse_account_snapshot E catalog,
      pa_account = (\<lambda>_ _. not_offered), pa_positions = (\<lambda>_ _. not_offered),
      pa_open_orders = binance_parse_open_orders_snapshot E catalog,
      pa_open_algo_orders = binance_parse_open_algo_orders_snapshot E catalog,
      pa_order = binance_parse_order_snapshot E catalog,
      pa_order_history = binance_parse_open_orders_snapshot E catalog,
      pa_executions = binance_parse_executions_snapshot E catalog, pa_metadata = binance_parse_metadata_snapshot E,
      pa_server_time = binance_parse_server_time E, pa_account_context = (\<lambda>_. not_offered),
      pa_public = (\<lambda>payload cache. (binance_parse_public E catalog payload, cache)),
      pa_private = binance_parse_private E catalog,
      pa_public_observations = binance_public_sequence_observations E,
      pa_private_observations = binance_private_sequence_observations E,
      pa_open_interest = (\<lambda>_ _ _. not_offered),
      pa_ticker = (\<lambda>payload iid _. binance_parse_ticker_snapshot E catalog payload iid),
      pa_mark_price = (\<lambda>payload spec _. binance_mark_price E payload spec),
      pa_funding_rate = (\<lambda>payload spec _. binance_funding_rate E payload spec),
      pa_trades = (\<lambda>payload request _. binance_parse_trades_snapshot E catalog payload request),
      pa_order_book = binance_order_book E, pa_ohlcv = binance_parse_ohlcv_snapshot E catalog,
      pa_classify_command = binance_classify_command E catalog\<rparr>"
| "adapter_parsers E TO Bybit catalog =
     \<lparr>pa_account_with_positions = (\<lambda>_ _. not_offered), pa_account = bybit_parse_account_snapshot E,
      pa_positions = bybit_parse_positions_snapshot E catalog,
      pa_open_orders = bybit_parse_open_orders_snapshot E catalog, pa_open_algo_orders = (\<lambda>_ _. not_offered),
      pa_order = bybit_parse_order_snapshot E catalog,
      pa_order_history = bybit_parse_order_history_snapshot E catalog,
      pa_executions = bybit_parse_executions_snapshot E catalog, pa_metadata = bybit_parse_metadata_snapshot E,
      pa_server_time = bybit_parse_server_time E,
      pa_account_context = (\<lambda>payload. map_result bac_wallet_account_type (bybit_parse_account_context E payload)),
      pa_public = bybit_parse_public E catalog, pa_private = bybit_parse_private E catalog,
      pa_public_observations = bybit_public_sequence_observations E,
      pa_private_observations = bybit_private_sequence_observations E,
      pa_open_interest = bybit_open_interest E,
      pa_ticker = (\<lambda>payload iid _. bybit_parse_ticker_snapshot E catalog payload iid),
      pa_mark_price = bybit_mark_price E, pa_funding_rate = bybit_funding_rate E,
      pa_trades = (\<lambda>payload request _. bybit_parse_trades_snapshot E catalog payload request),
      pa_order_book = bybit_order_book E, pa_ohlcv = bybit_parse_ohlcv_snapshot E TO catalog,
      pa_classify_command = bybit_classify_command E catalog\<rparr>"
| "adapter_parsers E TO Mexc catalog =
     \<lparr>pa_account_with_positions = (\<lambda>_ _. not_offered), pa_account = mexc_parse_account_snapshot E,
      pa_positions = mexc_parse_positions_snapshot E catalog,
      pa_open_orders = mexc_parse_open_orders_snapshot E catalog, pa_open_algo_orders = (\<lambda>_ _. not_offered),
      pa_order = mexc_parse_order_snapshot E catalog, pa_order_history = (\<lambda>_ _. not_offered),
      pa_executions = mexc_parse_executions_snapshot E catalog, pa_metadata = mexc_parse_metadata_snapshot E,
      pa_server_time = mexc_parse_server_time E, pa_account_context = (\<lambda>_. not_offered),
      pa_public = (\<lambda>payload cache. (mexc_parse_public E TO catalog payload, cache)),
      pa_private = mexc_parse_private E catalog,
      pa_public_observations = (\<lambda>_. Ok []), pa_private_observations = (\<lambda>_. Ok []),
      pa_open_interest = (\<lambda>payload spec _. mexc_parse_open_interest_snapshot E payload spec),
      pa_ticker = (\<lambda>payload _ spec. mexc_parse_ticker_snapshot E payload spec),
      pa_mark_price = (\<lambda>payload spec _. mexc_mark_price E payload spec),
      pa_funding_rate = (\<lambda>payload spec _. mexc_parse_funding_rate_snapshot E payload spec),
      pa_trades = (\<lambda>payload _ spec. mexc_parse_trades_snapshot E payload spec),
      pa_order_book = (\<lambda>payload spec _. mexc_parse_order_book_snapshot E payload spec),
      pa_ohlcv = mexc_parse_ohlcv_snapshot E TO catalog,
      pa_classify_command = mexc_classify_command E catalog\<rparr>"

text \<open>Every venue's adapter keeps the contract.\<close>

interpretation handle: venue_adapter venue "\<lambda>catalog. pa_public (adapter_parsers E TO venue catalog)"
  "\<lambda>catalog. pa_private (adapter_parsers E TO venue catalog)"
  "\<lambda>catalog. pa_classify_command (adapter_parsers E TO venue catalog)" for E TO venue
proof
  fix catalog :: "'a InstrumentCatalog" and payload operation rid c
  show "catalog_wf catalog \<Longrightarrow>
      delivers (list_all (public_sound catalog)) (fst (pa_public (adapter_parsers E TO venue catalog) payload c))"
    by (cases venue) (simp_all add: binance.public_frames [simplified] bybit.public_frames mexc.public_frames [simplified])
  show "catalog_wf catalog \<Longrightarrow>
      delivers (list_all (private_listed catalog)) (pa_private (adapter_parsers E TO venue catalog) payload)"
    by (cases venue) (simp_all add: binance.private_frames bybit.private_frames mexc.private_frames)
  show "pa_classify_command (adapter_parsers E TO venue catalog) operation None rid = Ok (unknown_receipt venue operation rid)"
    by (cases venue) (simp_all add: binance.unanswered bybit.unanswered mexc.unanswered)
  show "yields (answers venue operation rid) (pa_classify_command (adapter_parsers E TO venue catalog) operation (Some payload) rid)"
    by (cases venue) (simp_all add: binance.answered bybit.answered mexc.answered)
qed

section \<open>Properties\<close>

text \<open>
  C15. What the adapters hand to the engine: whatever payload a venue sends, a decoded public frame
  speaks only of instruments of the catalog, with every fast value within \<^verbatim>\<open>i64\<close>, and a decoded
  private frame speaks only of instruments of the catalog; the Binance and Bybit adapters never
  panic on a payload.
\<close>

theorem adapters_decode_known:
  assumes "catalog_wf catalog"
  shows "(case fst (pa_public (adapter_parsers E TO venue catalog) payload cache) of
           Inr events \<Rightarrow> list_all (\<lambda>e. public_listed catalog e \<and> event_i64 e) events
         | Inl failure \<Rightarrow> failure = Panicked \<longrightarrow> venue = Mexc) \<and>
    (case pa_private (adapter_parsers E TO venue catalog) payload of
           Inr events \<Rightarrow> list_all (private_listed catalog) events
         | Inl failure \<Rightarrow> failure = Panicked \<longrightarrow> venue = Mexc)"
proof -
  let ?public = "fst (pa_public (adapter_parsers E TO venue catalog) payload cache)"
  let ?private = "pa_private (adapter_parsers E TO venue catalog) payload"
  have "venue \<noteq> Mexc \<Longrightarrow> ?public \<noteq> Panic"
    using binance.public_total [OF assms, of E payload] bybit.public_total [OF assms, of E payload cache]
    by (cases venue) simp_all
  with handle.public_frames [OF assms, of E TO venue payload cache]
  have "case ?public of Inr events \<Rightarrow> list_all (\<lambda>e. public_listed catalog e \<and> event_i64 e) events
      | Inl failure \<Rightarrow> failure = Panicked \<longrightarrow> venue = Mexc"
    by (cases venue) (simp_all add: settles_def list_all_iff public_sound_def split: sum.splits)
  moreover
  have "venue \<noteq> Mexc \<Longrightarrow> ?private \<noteq> Panic"
    using binance.private_total [OF assms, of E payload] bybit.private_total [OF assms, of E payload]
    by (cases venue) simp_all
  with handle.private_frames [OF assms, of E TO venue payload]
  have "case ?private of Inr events \<Rightarrow> list_all (private_listed catalog) events
      | Inl failure \<Rightarrow> failure = Panicked \<longrightarrow> venue = Mexc"
    by (cases venue) (simp_all add: settles_def split: sum.splits)
  ultimately show ?thesis by blast
qed


section \<open>A concrete environment\<close>

definition sample_env :: "(int \<times> u32) AdapterEnv" where
  "sample_env = \<lparr>ae_decimal = pair_decimal, ae_json = (\<lambda>_. Inr (JObject [])), ae_type_error = (\<lambda>_ _. ''missing field''),
     ae_print = (\<lambda>_. ''{}''), ae_now = 0\<rparr>"

lemma catalog_empty_wf: "catalog_wf (catalog_new [])"
  by (rule catalog_new_wf)

theorem adapters_decode_known_witness:
  "\<exists>TO :: (int, int) Time_ops.
    (case fst (pa_public (adapter_parsers sample_env TO Bybit (catalog_new [])) ''{}'' []) of
       Inr events \<Rightarrow> list_all (\<lambda>e. public_listed (catalog_new []) e \<and> event_i64 e) events
     | Inl failure \<Rightarrow> failure = Panicked \<longrightarrow> Bybit = Mexc)"
  using adapters_decode_known [OF catalog_empty_wf, where E = sample_env and venue = Bybit and payload = "''{}''" and cache = "[]"]
  by blast

section \<open>Two payloads\<close>

text \<open>
  Binance answers a successful change of margin mode with \<^verbatim>\<open>{"code": 200, "msg": "success"}\<close>, which
  has the shape of an error response: the adapter reports a rejection.
\<close>

lemma binance_success_rejected:
  assumes "ae_json E payload = Inr (JObject [(''code'', json_i64 200), (''msg'', JString ''success'')])"
  shows "binance_classify_command E catalog SetMarginMode (Some payload) rid =
    Ok (rejected_receipt Binance SetMarginMode rid ''success'' 200)"
  using assms
  by (simp add: binance_classify_command_def binance_response_error_def or_else_def json_i64_def
      read_BinanceErrorResponse_def bt_get_def)

text \<open>MEXC sends numbers in scientific notation; one that overflows the decimal arithmetic panics.\<close>

lemma mexc_exponent_panics:
  assumes "dec_parse_exact (ae_decimal E) ''9'' = Inr d" and "dec_mul (ae_decimal E) d (dec_from_i64 (ae_decimal E) 10) = None"
  shows "decimal_from_value E (JNumber ''9e1'' None) = Panic"
proof -
  have "parse_signed 32 ''1'' = Some 1" by code_simp
  moreover have "times_ten (ae_decimal E) True 1 d = None"
    using assms(2) by (simp only: One_nat_def times_ten.simps) simp
  ultimately show ?thesis
    using assms(1) by (simp add: decimal_from_value_def decimal_from_str_def is_exponent_mark_def)
qed

end
