(* ===== verification/Spelling.thy ===== *)
theory Spelling
  imports Commands Adapters
begin

text \<open>
  The runtime spells the fields of an order for the venue and the adapter reads the venue's
  spelling back: the two directions compared.
\<close>

text \<open>
  C24. Binance and Bybit round trip: a side, an order type or a time in force that the runtime sends
  is read back as the same value, and a post-only order as post-only.
\<close>

theorem spellings_roundtrip:
  "binance_parse_side (binance_side side) = Ok side \<and> bybit_parse_side (bybit_side side) = Ok side \<and>
   binance_parse_order_type (binance_order_type order_type) = Ok order_type \<and>
   bybit_parse_order_type (bybit_order_type order_type) = Ok order_type \<and>
   binance_parse_time_in_force (binance_time_in_force tif post_only) = Ok (if post_only then PostOnly else tif) \<and>
   bybit_parse_time_in_force (bybit_time_in_force tif post_only) = Ok (if post_only then PostOnly else tif)"
  by (cases side; cases order_type; cases tif)
    (simp_all add: binance_parse_side_def bybit_parse_side_def binance_parse_order_type_def bybit_parse_order_type_def
      binance_parse_time_in_force_def bybit_parse_time_in_force_def binance_time_in_force_def bybit_time_in_force_def)

text \<open>
  On MEXC the two directions disagree for reduce-only orders: an order that closes a position is
  read back with the opposite side, every other order with its own.
\<close>

theorem mexc_reduce_only_side_flipped:
  "mexc_parse_order_side (mexc_order_side side reduce_only) =
     (if reduce_only then (case side of Buy \<Rightarrow> Sell | Sell \<Rightarrow> Buy) else side)"
  by (cases side; cases reduce_only) (simp_all add: mexc_parse_order_side_def)

end
