(* ===== verification/Command_Laws.thy ===== *)
theory Command_Laws
  imports Commands
begin

text \<open>
  Laws of the order commands: an unknown outcome is remembered and announced, a command
  reaches the venue at most once, an invalid order reaches it not at all, and every runtime
  operation keeps the engine invariant.
\<close>

section \<open>What a submission leaves alone\<close>

text \<open>Pending commands and the command channel, which only the end of a handler changes.\<close>

definition ledger :: "'d LiveRuntimeState \<Rightarrow> PendingUnknownCommand list \<times> CommandLaneEvent list" where
  "ledger s = (lr_pending s, sh_command_events (lr_shared s))"

abbreviation ledger_is :: "PendingUnknownCommand list \<times> CommandLaneEvent list \<Rightarrow> 'd LiveRuntimeState \<Rightarrow> bool" where
  "ledger_is l s \<equiv> ledger s = l"

interpretation ledger_blind: network_blind "ledger_is l" for l
  by unfold_locales (simp add: ledger_def)

lemma keeps_submit_rest: "rt_keeps I call \<Longrightarrow> rt_keeps I (submit_rest ctx operation rid call)"
  unfolding rt_keeps_def submit_rest_def classify_as_def rt_parse_def
  by (auto split: prod.split sum.split Failure.split)

lemma keeps_submit_ws:
  "rt_keeps I call \<Longrightarrow> rt_keeps I fallback \<Longrightarrow> rt_keeps I (submit_ws ctx operation rid call fallback)"
  unfolding rt_keeps_def submit_ws_def classify_as_def rt_parse_def
  by (auto split: prod.split sum.split CommandWsRequestError.split)

lemma keeps_submit_preferring_ws:
  "rt_keeps I ws \<Longrightarrow> rt_keeps I rest \<Longrightarrow> rt_keeps I (submit_preferring_ws ctx operation rid use_ws name ws rest)"
  unfolding submit_preferring_ws_def
  by (intro rt_keeps_if keeps_submit_ws keeps_submit_rest rt_keeps_lift)

lemmas keeps_submission = rt_keeps_control keeps_submit_preferring_ws keeps_submit_rest keeps_submit_ws

lemmas create_submission_defs = create_order_submission_def binance_create_submission_def
  bybit_create_submission_def mexc_create_submission_def

lemmas cancel_submission_defs = cancel_order_submission_def binance_cancel_submission_def
  bybit_cancel_submission_def mexc_cancel_submission_def

context network_blind
begin

lemma keeps_create_submission: "rt_keeps I (create_order_submission ctx request)"
  unfolding create_submission_defs build_mexc_create_order_object_def
  by (intro keeps_submission keeps_transport)

lemma keeps_cancel_submission: "rt_keeps I (cancel_order_submission ctx spec request)"
  unfolding cancel_submission_defs
  by (intro keeps_submission keeps_transport)

end

lemma validate_pure: "snd (validate_create_order ctx request s) = s"
  by (simp add: validate_create_order_def require_spec_def rt_bind_def rt_lift_def split: sum.split)

section \<open>The end of a handler\<close>

lemma cache_pending_mem:
  "c \<in> set (lr_pending (cache_pending_unknown c s))" "set (lr_pending s) \<subseteq> set (lr_pending (cache_pending_unknown c s))"
  by (auto simp: cache_pending_unknown_def list_ex_iff)

definition acknowledged ::
  "CommandAck \<Rightarrow> CommandLaneEvent list" where
  "acknowledged ack =
     [Lifecycle (Ack ack), CommandLaneEvent.Receipt (ack_receipt ack)] @
     (if rcp_status (ack_receipt ack) = CommandStatus.UnknownExecution
      then [Lifecycle (RecoveryScheduled ack)] else [])"

lemma apply_receipt_outcome:
  "\<exists>ack s'. apply_command_receipt ctx receipt transport s = (Ok ack, s') \<and>
    ack_receipt ack = receipt \<and> ack_transport ack = transport \<and> lr_pending s' = lr_pending s \<and>
    engine_of s' = engine_apply_command_receipt receipt (engine_of s) \<and>
    sh_command_events (lr_shared s') = sh_command_events (lr_shared s) @ acknowledged ack"
  by (auto simp: apply_command_receipt_def Let_def rt_bind_def rt_now_def rt_write_def rt_emit_def
      rt_return_def acknowledged_def emit_command_event_def shared_update_def shared_write_state)

definition command_recorded ::
  "CommandOperation \<Rightarrow> InstrumentId \<Rightarrow> OrderId option \<Rightarrow> ClientOrderId option \<Rightarrow> 'd LiveRuntimeState \<Rightarrow> bool" where
  "command_recorded operation iid oid cid s \<longleftrightarrow>
     list_ex (\<lambda>c. pu_operation c = operation \<and> pu_instrument_id c = iid \<and> pu_order_id c = oid \<and>
       pu_client_order_id c = cid) (lr_pending s)"

text \<open>What a finished handler did, told from its acknowledgement.\<close>

definition concluded ::
  "CommandOperation \<Rightarrow> InstrumentId \<Rightarrow> OrderId option \<Rightarrow> ClientOrderId option \<Rightarrow>
     PendingUnknownCommand list \<times> CommandLaneEvent list \<Rightarrow> CommandAck \<Rightarrow> 'd LiveRuntimeState \<Rightarrow> bool" where
  "concluded operation iid oid cid l ack s \<longleftrightarrow>
     sh_command_events (lr_shared s) = snd l @ acknowledged ack \<and>
     (if rcp_status (ack_receipt ack) = CommandStatus.UnknownExecution
      then command_recorded operation iid oid cid s \<and> set (fst l) \<subseteq> set (lr_pending s) \<and>
        hr_status (es_health (engine_of s)) = HealthStatus.CommandUncertain
      else lr_pending s = fst l)"

lemma conclude_triple:
  "rt_triple (ledger_is l) (conclude_command ctx operation iid oid cid receipt transport)
    (concluded operation iid oid cid l) (ledger_is l)"
  unfolding rt_triple_def
proof (intro allI impI)
  fix s :: "'a LiveRuntimeState"
  assume l: "ledger_is l s"
  let ?c = "\<lparr>pu_operation = operation, pu_instrument_id = iid, pu_order_id = oid, pu_client_order_id = cid,
      pu_recorded_at = TimestampMs (lc_now ctx (lr_calls s))\<rparr>"
  let ?s1 = "if rcp_status receipt = CommandStatus.UnknownExecution then cache_pending_unknown ?c s else s"
  have conclude: "conclude_command ctx operation iid oid cid receipt transport s =
      apply_command_receipt ctx receipt transport ?s1"
    by (simp add: conclude_command_def rt_bind_def rt_cache_pending_def rt_now_def rt_modify_def rt_return_def)
  obtain ack s' where out: "apply_command_receipt ctx receipt transport ?s1 = (Ok ack, s')"
      "ack_receipt ack = receipt" "lr_pending s' = lr_pending ?s1"
      "engine_of s' = engine_apply_command_receipt receipt (engine_of ?s1)"
      "sh_command_events (lr_shared s') = sh_command_events (lr_shared ?s1) @ acknowledged ack"
    using apply_receipt_outcome by blast
  have "lr_shared ?s1 = lr_shared s" by (simp add: cache_pending_unknown_def)
  moreover have "list_ex (\<lambda>c. pu_operation c = operation \<and> pu_instrument_id c = iid \<and> pu_order_id c = oid \<and>
       pu_client_order_id c = cid) (lr_pending (cache_pending_unknown ?c s))"
    using cache_pending_mem(1) [of ?c s] by (force simp: list_ex_iff)
  ultimately have "concluded operation iid oid cid l ack s'"
    using l out cache_pending_mem(2) [of s ?c]
    by (auto simp: concluded_def ledger_def command_recorded_def engine_apply_command_receipt_def
        mark_command_uncertain_def)
  with conclude out(1) show "case conclude_command ctx operation iid oid cid receipt transport s of
      (Inr x, s') \<Rightarrow> concluded operation iid oid cid l x s' | (Inl f, s') \<Rightarrow> ledger_is l s'"
    by simp
qed

lemma create_order_triple:
  "rt_triple (ledger_is l) (create_order ctx request)
    (concluded CreateOrder (cr_instrument_id request) None (cr_client_order_id request) l) (ledger_is l)"
proof -
  have validate: "rt_keeps (ledger_is l) (validate_create_order ctx request)"
    by (simp add: rt_keeps_def validate_pure)
  show ?thesis
    unfolding create_order_def
    by (rule triple_bind [OF triple_keeps [OF validate]],
        rule triple_bind [OF triple_keeps [OF ledger_blind.keeps_acquire]],
        rule triple_bind [OF triple_keeps [OF ledger_blind.keeps_create_submission]])
      (simp add: conclude_triple split: prod.split)
qed

lemma cancel_order_triple:
  "rt_triple (ledger_is l) (cancel_order ctx request)
    (concluded CancelOrder (co_instrument_id request) (co_order_id request) (co_client_order_id request) l)
    (ledger_is l)"
  unfolding cancel_order_def
  by (rule triple_bind [OF triple_keeps [OF rt_keeps_require_spec]],
      rule triple_bind [OF triple_keeps [OF ledger_blind.keeps_acquire]],
      rule triple_bind [OF triple_keeps [OF ledger_blind.keeps_cancel_submission]])
    (simp add: conclude_triple split: prod.split)

section \<open>Submissions\<close>

text \<open>REST calls made and websocket requests accepted so far.\<close>

definition sends :: "'d LiveRuntimeState \<Rightarrow> nat" where
  "sends s = length (lr_calls s) + length (ch_accepted (lr_ws s))"

definition sends_at_most_one :: "('d, 'a) rt \<Rightarrow> bool" where
  "sends_at_most_one m \<longleftrightarrow> (\<forall>s. sends (snd (m s)) \<le> Suc (sends s))"

definition sends_nothing :: "('d, 'a) rt \<Rightarrow> bool" where
  "sends_nothing m \<longleftrightarrow> (\<forall>s. sends (snd (m s)) = sends s)"

lemma bind_cases [case_names Fail Next]:
  obtains f s1 where "m s = (Inl f, s1)" "rt_bind m k s = (Inl f, s1)"
  | x s1 where "m s = (Inr x, s1)" "rt_bind m k s = k x s1"
  by (cases "m s", cases "fst (m s)") (auto simp: rt_bind_def)

lemma sends_bind_quiet:
  assumes "sends_nothing m" and "\<And>x. sends_at_most_one (k x)"
  shows "sends_at_most_one (rt_bind m k)"
  unfolding sends_at_most_one_def
proof
  fix s
  from assms(1) have m: "sends (snd (m s)) = sends s" by (simp add: sends_nothing_def)
  show "sends (snd (rt_bind m k s)) \<le> Suc (sends s)"
    by (cases rule: bind_cases [of m s k]) (use m assms(2) in \<open>auto simp: sends_at_most_one_def, metis\<close>)
qed

lemma sends_bind_last:
  assumes "sends_at_most_one m" and "\<And>x. sends_nothing (k x)"
  shows "sends_at_most_one (rt_bind m k)"
  unfolding sends_at_most_one_def
proof
  fix s
  from assms(1) have m: "sends (snd (m s)) \<le> Suc (sends s)" by (simp add: sends_at_most_one_def)
  show "sends (snd (rt_bind m k s)) \<le> Suc (sends s)"
    by (cases rule: bind_cases [of m s k]) (use m assms(2) in \<open>auto simp: sends_nothing_def\<close>)
qed

lemma sends_nothing_bind:
  assumes "sends_nothing m" and "\<And>x. sends_nothing (k x)"
  shows "sends_nothing (rt_bind m k)"
  unfolding sends_nothing_def
proof
  fix s
  from assms(1) have m: "sends (snd (m s)) = sends s" by (simp add: sends_nothing_def)
  show "sends (snd (rt_bind m k s)) = sends s"
    by (cases rule: bind_cases [of m s k]) (use m assms(2) in \<open>auto simp: sends_nothing_def\<close>)
qed

lemma sends_nothing_basic:
  "sends_nothing (rt_return x)" "sends_nothing (rt_lift r)" "sends_nothing (rt_read f)"
  "sends_nothing (rt_now ctx)" "sends_nothing (require_spec ctx iid)" "sends_nothing (rt_write g)"
  "sends_nothing (rt_emit e)" "sends_nothing (rt_next_request_id prefix)" "sends_nothing rt_acquire"
  by (simp_all add: rt_acquire_def sends_nothing_def sends_def rt_defs require_spec_def rt_emit_def rt_next_request_id_def
      next_request_id_def Let_def)

lemma sends_weaken: "sends_nothing m \<Longrightarrow> sends_at_most_one m"
  by (simp add: sends_nothing_def sends_at_most_one_def)

lemma sends_cache_pending: "sends_nothing (rt_cache_pending ctx operation iid oid cid)"
  by (simp add: sends_nothing_def rt_cache_pending_def rt_bind_def rt_now_def rt_modify_def
      cache_pending_unknown_def sends_def)

lemma sends_if: "sends_at_most_one a \<Longrightarrow> sends_at_most_one b \<Longrightarrow> sends_at_most_one (if c then a else b)"
  by simp

lemma sends_nothing_if: "sends_nothing a \<Longrightarrow> sends_nothing b \<Longrightarrow> sends_nothing (if c then a else b)"
  by simp

lemma sends_pair: "(\<And>x y. sends_at_most_one (f x y)) \<Longrightarrow> sends_at_most_one (case p of (x, y) \<Rightarrow> f x y)"
  by (cases p) simp

lemma sends_let: "(\<And>x. sends_at_most_one (f x)) \<Longrightarrow> sends_at_most_one (let x = e in f x)"
  by (simp add: Let_def)

lemma sends_venue:
  "sends_at_most_one a \<Longrightarrow> sends_at_most_one b \<Longrightarrow> sends_at_most_one c \<Longrightarrow>
    sends_at_most_one (case v of Binance \<Rightarrow> a | Bybit \<Rightarrow> b | Mexc \<Rightarrow> c)"
  by (cases v) simp_all

lemma sends_call: "sends_at_most_one (send_call ctx operation call)"
  by (simp add: sends_at_most_one_def sends_def send_call_def rt_defs)

lemma sends_rest:
  "sends_at_most_one (binance_signed_request_text ctx meth path pairs operation)"
  "sends_at_most_one (bybit_signed_post_text ctx path body operation)"
  "sends_at_most_one (mexc_signed_post_text ctx path body operation)"
  unfolding binance_signed_request_text_def bybit_signed_post_text_def mexc_signed_post_text_def
  by (intro sends_bind_quiet sends_nothing_basic sends_pair sends_let sends_call)+

text \<open>A websocket call that reports \<^verbatim>\<open>Unavailable\<close> sent nothing.\<close>

fun sends_fit :: "nat \<Rightarrow> (CommandWsRequestError + string) result \<times> 'd LiveRuntimeState \<Rightarrow> bool" where
  "sends_fit n (Inr (Inl (Unavailable e)), s) \<longleftrightarrow> sends s = n"
| "sends_fit n (_, s) \<longleftrightarrow> sends s \<le> Suc n"

definition ws_sends :: "('d, CommandWsRequestError + string) rt \<Rightarrow> bool" where
  "ws_sends m \<longleftrightarrow> (\<forall>s. sends_fit (sends s) (m s))"

lemma ws_sends_return: "ws_sends (rt_return (Inl (Unavailable e)))" "ws_sends (rt_lift Panic)"
  by (simp_all add: ws_sends_def rt_return_def rt_lift_def)

lemma ws_sends_bind:
  assumes "sends_nothing m" and "\<And>x. ws_sends (k x)"
  shows "ws_sends (rt_bind m k)"
  unfolding ws_sends_def
proof
  fix s
  from assms(1) have m: "sends (snd (m s)) = sends s" by (simp add: sends_nothing_def)
  show "sends_fit (sends s) (rt_bind m k s)"
  proof (cases rule: bind_cases [of m s k])
    case (Next x s1)
    moreover have "sends_fit (sends s1) (k x s1)" using assms(2) by (simp add: ws_sends_def)
    ultimately show ?thesis using m by simp
  qed (use m in simp)
qed

lemma ws_sends_or_unavailable: "(\<And>x. ws_sends (k x)) \<Longrightarrow> ws_sends (or_unavailable r k)"
  by (auto simp: or_unavailable_def ws_sends_return split: sum.split Failure.split)

lemma ws_sends_let: "(\<And>x. ws_sends (f x)) \<Longrightarrow> ws_sends (let x = e in f x)"
  by (simp add: Let_def)

lemma ws_sends_pair: "(\<And>x y. ws_sends (f x y)) \<Longrightarrow> ws_sends (case p of (x, y) \<Rightarrow> f x y)"
  by (cases p) simp

lemma ws_sends_frame:
  assumes "replies_honest (lc_ws ctx)"
  shows "ws_sends (send_ws_frame ctx rid operation label frame)"
proof (cases "lc_json ctx frame")
  case (Inr body)
  have "ws_sends (rt_ws_request ctx request)" for request
    unfolding ws_sends_def
  proof
    fix s :: "'a LiveRuntimeState"
    note once = request_attempts_agrees [OF assms, of request "lr_ws s" "cfg_venue (lc_config ctx)"
        "lc_api_key ctx" "lc_signer ctx" 1]
    let ?r = "request_attempts (lc_ws ctx) (cfg_venue (lc_config ctx)) (lc_api_key ctx) (lc_signer ctx)
        request 1 (lr_ws s)"
    show "sends_fit (sends s) (rt_ws_request ctx request s)"
      using once unfolding rt_ws_request_def request_text_def
      by (cases ?r rule: ws_reply_cases) (auto simp: sends_def submitted_def)
  qed
  with Inr show ?thesis by (simp add: send_ws_frame_def)
qed (simp add: send_ws_frame_def ws_sends_return)

lemma ws_sends_calls:
  assumes "replies_honest (lc_ws ctx)"
  shows "ws_sends (binance_signed_ws_request_text ctx meth params operation)"
    and "ws_sends (bybit_trade_ws_request_text ctx op_name args operation)"
  unfolding binance_signed_ws_request_text_def bybit_trade_ws_request_text_def
  by (intro ws_sends_or_unavailable ws_sends_pair ws_sends_bind sends_nothing_basic ws_sends_let
      ws_sends_frame [OF assms])+

lemma sends_submit_rest:
  assumes "sends_at_most_one call"
  shows "sends_at_most_one (submit_rest ctx operation rid call)"
  unfolding sends_at_most_one_def
proof
  fix s
  obtain r s1 where call: "call s = (r, s1)" by fastforce
  with assms have "sends s1 \<le> Suc (sends s)" unfolding sends_at_most_one_def by (metis snd_conv)
  with call show "sends (snd (submit_rest ctx operation rid call s)) \<le> Suc (sends s)"
    by (cases r rule: result_cases) (simp_all add: submit_rest_def classify_as_def rt_parse_def)
qed

lemma sends_submit_ws:
  assumes "ws_sends call" and "sends_at_most_one fallback"
  shows "sends_at_most_one (submit_ws ctx operation rid call fallback)"
  unfolding sends_at_most_one_def
proof
  fix s
  obtain r s1 where call: "call s = (r, s1)" by fastforce
  with assms(1) have s1: "sends_fit (sends s) (r, s1)" unfolding ws_sends_def by metis
  have fallback: "sends (snd (fallback s1)) \<le> Suc (sends s1)"
    using assms(2) by (simp add: sends_at_most_one_def)
  show "sends (snd (submit_ws ctx operation rid call fallback s)) \<le> Suc (sends s)"
  proof (cases r)
    case (Inr w)
    with call s1 fallback show ?thesis
      by (cases "(w, s1)" rule: ws_reply_cases) (auto simp: submit_ws_def classify_as_def rt_parse_def)
  qed (use call s1 in \<open>simp add: submit_ws_def\<close>)
qed

lemma sends_submit_preferring_ws:
  "ws_sends ws \<Longrightarrow> sends_at_most_one rest \<Longrightarrow>
    sends_at_most_one (submit_preferring_ws ctx operation rid use_ws name ws rest)"
  unfolding submit_preferring_ws_def
  by (intro sends_if sends_submit_ws sends_submit_rest sends_weaken [OF sends_nothing_basic(2)])

lemmas sends_rules = sends_bind_quiet sends_nothing_basic sends_pair sends_let sends_if sends_venue
  sends_submit_rest sends_submit_preferring_ws sends_rest sends_weaken [OF sends_nothing_basic(2)]

lemma sends_build_mexc: "sends_nothing (build_mexc_create_order_object ctx request)"
  by (auto simp: sends_nothing_def build_mexc_create_order_object_def rt_bind_def require_spec_def rt_lift_def
      rt_read_def rt_return_def split: sum.split)

lemma sends_create_submission:
  assumes "replies_honest (lc_ws ctx)"
  shows "sends_at_most_one (create_order_submission ctx request)"
  unfolding create_submission_defs
  by (intro sends_rules ws_sends_calls [OF assms] sends_build_mexc)

lemma sends_cancel_submission:
  assumes "replies_honest (lc_ws ctx)"
  shows "sends_at_most_one (cancel_order_submission ctx spec request)"
  unfolding cancel_submission_defs
  by (intro sends_rules ws_sends_calls [OF assms])

lemma sends_conclude: "sends_nothing (conclude_command ctx operation iid oid cid receipt transport)"
  unfolding conclude_command_def apply_command_receipt_def Let_def
  by (intro sends_nothing_bind sends_nothing_if sends_nothing_basic sends_cache_pending)

section \<open>The engine invariant\<close>

text \<open>
  A predicate that refreshes and command events keep is kept by every command and by the
  recovery of its unknown outcomes.
\<close>

locale command_keeper = state_keeper I safe
  for I :: "'d LiveRuntimeState \<Rightarrow> bool" and safe :: "('d EngineState \<Rightarrow> 'd EngineState) \<Rightarrow> bool" +
  assumes keeps_emit: "rt_keeps I (rt_emit e)"
begin

lemma keeps_cache: "rt_keeps I (rt_cache_pending ctx operation iid oid cid)"
proof -
  have "s\<lparr>lr_pending := ps\<rparr> = s\<lparr>lr_bybit_account_context := lr_bybit_account_context s, lr_pending := ps\<rparr>"
    for s :: "'d LiveRuntimeState" and ps
    by simp
  then have "I (s\<lparr>lr_pending := ps\<rparr>) = I s" for s ps
    by (metis notes_blind)
  then have "rt_keeps I (rt_modify (cache_pending_unknown c))" for c
    by (simp add: rt_keeps_def rt_modify_def cache_pending_unknown_def)
  then show ?thesis unfolding rt_cache_pending_def by (intro rt_keeps_control)
qed

lemma keeps_apply_receipt: "rt_keeps I (apply_command_receipt ctx receipt transport)"
  unfolding apply_command_receipt_def by (intro keeper_rules keeps_emit)

lemma keeps_conclude: "rt_keeps I (conclude_command ctx operation iid oid cid receipt transport)"
  unfolding conclude_command_def by (intro keeper_rules keeps_apply_receipt keeps_cache)

lemma keeps_validate: "rt_keeps I (validate_create_order ctx create)"
  by (simp add: rt_keeps_def validate_pure)

lemma keeps_single_commands: "rt_keeps I (create_order ctx create)" "rt_keeps I (cancel_order ctx cancel)"
  unfolding create_order_def cancel_order_def
  by (intro keeper_rules keeps_conclude keeps_validate keeps_acquire keeps_create_submission keeps_cancel_submission)+

lemma keeps_recovery: "rt_keeps I (recovery_task ctx ack)"
  unfolding rt_keeps_def
proof (intro allI impI)
  fix s
  assume s: "I s"
  obtain r s1 where r: "reconcile_private ctx ReconcileTrigger.UnknownExecution s = (r, s1)" by fastforce
  with rt_keepsD [OF keeps_reconcile s, of ctx "ReconcileTrigger.UnknownExecution"] have "I s1" by simp
  with r rt_keepsD [OF keeps_emit] show "I (snd (recovery_task ctx ack s))"
    by (cases r) (auto simp: recovery_task_def)
qed

lemma keeps_batch_receipts:
  "rt_keeps I (cache_and_emit_batch_receipts ctx receipts identities operation transport)"
  unfolding cache_and_emit_batch_receipts_def by (intro keeper_rules keeps_apply_receipt keeps_cache)

end

lemma runtime_emit: "rt_keeps (runtime_inv D h0) (rt_emit e)"
  by (simp add: rt_keeps_def rt_emit_def emit_command_event_def)

interpretation runtime_commands: command_keeper "runtime_inv D h0" engine_safe for D h0
  by unfold_locales (rule runtime_emit)

text \<open>Metadata parsers that only yield specifications with acceptable scales.\<close>

definition metadata_scaled :: "'d LiveContext \<Rightarrow> bool" where
  "metadata_scaled ctx \<longleftrightarrow>
     (\<forall>catalog payload specs. pa_metadata (lc_parsers ctx catalog) payload = Ok specs \<longrightarrow> list_all scales_ok specs)"

lemma runtime_metadata:
  assumes "metadata_scaled ctx"
  shows "rt_keeps (runtime_inv D h0) (refresh_metadata ctx)"
proof -
  have install: "rt_keeps (runtime_inv D h0)
      (rt_bind (rt_parse ctx (\<lambda>p. pa_metadata p payload)) (\<lambda>specs.
        rt_bind (rt_modify (\<lambda>s. s\<lparr>lr_catalog := catalog_replace (lr_catalog s) specs\<rparr>)) (\<lambda>_.
        rt_bind (rt_write (\<lambda>st. mark_rest_ok (replace_instruments specs st))) (\<lambda>_. rt_return specs))))" for payload
    unfolding rt_keeps_def
  proof (intro allI impI)
    fix s :: "'a LiveRuntimeState"
    let ?rest = "\<lambda>specs. rt_bind (rt_modify (\<lambda>s. s\<lparr>lr_catalog := catalog_replace (lr_catalog s) specs\<rparr>)) (\<lambda>_.
        rt_bind (rt_write (\<lambda>st. mark_rest_ok (replace_instruments specs st))) (\<lambda>_. rt_return specs))"
    assume s: "runtime_inv D h0 s"
    show "runtime_inv D h0 (snd (rt_bind (rt_parse ctx (\<lambda>p. pa_metadata p payload)) ?rest s))"
    proof (cases "pa_metadata (lc_parsers ctx (lr_catalog s)) payload")
      case (Inr specs)
      with assms have "engine_safe (replace_instruments specs)"
        by (intro engine_safe_instruments) (auto simp: metadata_scaled_def)
      then have "rt_keeps (runtime_inv D h0) (?rest specs)"
        by (intro runtime_keeper.keeper_rules runtime_modify) simp_all
      from rt_keepsD [OF this s] Inr show ?thesis by (simp add: rt_bind_def rt_parse_def)
    qed (use s in \<open>simp add: rt_bind_def rt_parse_def\<close>)
  qed
  show ?thesis
    unfolding refresh_metadata_def by (intro rt_keeps_bind install runtime_keeper.keeper_rules)
qed

lemma runtime_bootstrap:
  assumes "metadata_scaled ctx"
  shows "rt_keeps (runtime_inv D h0) (bootstrap_live ctx)"
  unfolding bootstrap_live_def sync_server_time_def
  by (intro runtime_keeper.keeper_rules runtime_metadata [OF assms] runtime_keeper.keeps_account_context)

subsection \<open>The client as a machine\<close>

text \<open>What the client, its background tasks and the recovery tasks run, in any order.\<close>

datatype 'd RuntimeInput =
    RunBootstrap
  | RunRefreshMetadata
  | RunRefreshAccount
  | RunRefreshPositions
  | RunRefreshOpenOrders "ListOpenOrdersRequest option"
  | RunGetOrder GetOrderRequest
  | RunReconcile ReconcileTrigger
  | RunCreateOrder "'d CreateOrderRequest"
  | RunCancelOrder CancelOrderRequest
  | RunRecovery CommandAck

fun runtime_step :: "'d LiveContext \<Rightarrow> 'd LiveRuntimeState \<Rightarrow> 'd RuntimeInput \<Rightarrow> 'd LiveRuntimeState" where
  "runtime_step ctx s RunBootstrap = snd (bootstrap_live ctx s)"
| "runtime_step ctx s RunRefreshMetadata = snd (refresh_metadata ctx s)"
| "runtime_step ctx s RunRefreshAccount = snd (refresh_account ctx s)"
| "runtime_step ctx s RunRefreshPositions = snd (refresh_positions ctx s)"
| "runtime_step ctx s (RunRefreshOpenOrders request) = snd (refresh_open_orders ctx request s)"
| "runtime_step ctx s (RunGetOrder request) = snd (get_order ctx request s)"
| "runtime_step ctx s (RunReconcile trigger) = snd (reconcile_private ctx trigger s)"
| "runtime_step ctx s (RunCreateOrder request) = snd (create_order ctx request s)"
| "runtime_step ctx s (RunCancelOrder request) = snd (cancel_order ctx request s)"
| "runtime_step ctx s (RunRecovery ack) = snd (recovery_task ctx ack s)"

interpretation runtime: reactive_machine "runtime_step ctx"
    "\<lambda>s. metadata_scaled ctx \<and> runtime_inv D h0 s" for ctx D h0
proof
  fix s :: "'a LiveRuntimeState" and i :: "'a RuntimeInput"
  assume s: "metadata_scaled ctx \<and> runtime_inv D h0 s"
  then have "runtime_inv D h0 (runtime_step ctx s i)"
    by (cases i)
      (auto intro: rt_keepsD [OF runtime_bootstrap] rt_keepsD [OF runtime_metadata]
        rt_keepsD [OF runtime_keeper.keeps_account] rt_keepsD [OF runtime_keeper.keeps_refreshes(1)] rt_keepsD [OF runtime_keeper.keeps_refreshes(3)]
        rt_keepsD [OF runtime_keeper.keeps_refreshes(4)] rt_keepsD [OF runtime_keeper.keeps_reconcile] rt_keepsD [OF runtime_commands.keeps_single_commands(1)]
        rt_keepsD [OF runtime_commands.keeps_single_commands(2)] rt_keepsD [OF runtime_commands.keeps_recovery])
  with s show "metadata_scaled ctx \<and> runtime_inv D h0 (runtime_step ctx s i)" by simp
qed

section \<open>Properties\<close>

text \<open>
  C2. No unknown outcome is forgotten.  When creating or cancelling an order is acknowledged
  with an unknown outcome, the command is on the pending list next to all earlier ones, the
  health says so, and a recovery is announced after the acknowledgement and the receipt; with
  any other acknowledgement the pending list is unchanged, and a refused command leaves both
  the list and the command channel as they were.
\<close>

theorem unknown_command_is_tracked:
  "(case create_order ctx create s of
      (Inr ack, s') \<Rightarrow> concluded CreateOrder (cr_instrument_id create) None (cr_client_order_id create) (ledger s) ack s'
    | (Inl f, s') \<Rightarrow> ledger s' = ledger s) \<and>
   (case cancel_order ctx cancel s of
      (Inr ack, s') \<Rightarrow> concluded CancelOrder (co_instrument_id cancel) (co_order_id cancel)
        (co_client_order_id cancel) (ledger s) ack s'
    | (Inl f, s') \<Rightarrow> ledger s' = ledger s)"
  using create_order_triple [of "ledger s" ctx create] cancel_order_triple [of "ledger s" ctx cancel]
  by (simp add: rt_triple_def)

text \<open>
  C1. An order command reaches the venue at most once: creating or cancelling makes at most one
  REST call or hands at most one request to a websocket session, never both.
\<close>

theorem command_submitted_at_most_once:
  assumes "replies_honest (lc_ws ctx)"
  shows "length (lr_calls (snd (create_order ctx create s))) + length (ch_accepted (lr_ws (snd (create_order ctx create s))))
      \<le> Suc (length (lr_calls s) + length (ch_accepted (lr_ws s))) \<and>
    length (lr_calls (snd (cancel_order ctx cancel s))) + length (ch_accepted (lr_ws (snd (cancel_order ctx cancel s))))
      \<le> Suc (length (lr_calls s) + length (ch_accepted (lr_ws s)))"
proof -
  have validate: "sends_nothing (validate_create_order ctx create)"
    by (simp add: sends_nothing_def validate_pure)
  have conclude: "sends_nothing (case p of (receipt, transport) \<Rightarrow>
      conclude_command ctx operation iid oid cid (g receipt) transport)" for p operation iid oid cid g
    by (simp add: sends_conclude split: prod.split)
  have "sends_at_most_one (create_order ctx create)"
    unfolding create_order_def
    by (intro sends_bind_quiet [OF validate] sends_bind_quiet [OF sends_nothing_basic(9)] sends_bind_last [OF sends_create_submission [OF assms]] conclude)
  moreover have "sends_at_most_one (cancel_order ctx cancel)"
    unfolding cancel_order_def
    by (intro sends_bind_quiet [OF sends_nothing_basic(5)] sends_bind_quiet [OF sends_nothing_basic(9)]
        sends_bind_last [OF sends_cancel_submission [OF assms]] conclude)
  ultimately show ?thesis unfolding sends_at_most_one_def sends_def by blast
qed

lemma validate_against_spec_Ok:
  "validate_against_spec D spec request = Ok () \<longleftrightarrow>
    \<not> dec_less D (decimal (cr_quantity request)) (decimal (is_min_qty spec)) \<and>
    (case cr_price request of
       None \<Rightarrow> cr_order_type request \<in> {Market, StopMarket, TakeProfitMarket}
     | Some p \<Rightarrow> cr_order_type request \<in> {Limit, StopLimit, TakeProfitLimit} \<and>
         (case dec_mul D (decimal p) (decimal (cr_quantity request)) of
            None \<Rightarrow> False | Some n \<Rightarrow> \<not> dec_less D n (decimal (is_min_notional spec)))) \<and>
    (if conditional_type (cr_order_type request) then cr_trigger_price request \<noteq> None else True)"
  by (cases "cr_order_type request")
    (auto simp: validate_against_spec_def validate_prices_def config_error_def conditional_type_def
      and_then_Ok_iff split: option.split)


lemma validate_batch_distinct:
  assumes "bt_wf seen" and "fst (validate_batch ctx True seen index orders s) = Ok ()"
  shows "None \<notin> set (map cr_client_order_id orders) \<and> distinct (map cr_client_order_id orders) \<and>
    (\<forall>order\<in>set orders. \<forall>cid. cr_client_order_id order = Some cid \<longrightarrow> bt_get seen cid = None)"
  using assms
proof (induction orders arbitrary: seen index s)
  case Nil
  show ?case by simp
next
  case (Cons order orders)
  from Cons.prems(2) obtain cid where cid: "cr_client_order_id order = Some cid" and free: "bt_get seen cid = None"
      and rest: "\<exists>s1. fst (validate_batch ctx True (bt_insert cid index seen) (index + 1) orders s1) = Ok ()"
    by (auto simp: rt_bind_def rt_lift_def config_error_def split: prod.splits sum.splits option.splits)
  from rest obtain s1 where "fst (validate_batch ctx True (bt_insert cid index seen) (index + 1) orders s1) = Ok ()" by blast
  note tail = Cons.IH [OF bt.wf_insert [OF Cons.prems(1)] this]
  have "Some cid \<notin> cr_client_order_id ` set orders"
  proof
    assume "Some cid \<in> cr_client_order_id ` set orders"
    then obtain x where "x \<in> set orders" "cr_client_order_id x = Some cid" by force
    with tail have "bt_get (bt_insert cid index seen) cid = None" by blast
    then show False by simp
  qed
  with tail cid free show ?case by (auto split: if_splits)
qed

text \<open>
  A batch of several orders that passes validation can be told apart: every order carries a
  client identifier and no two orders share one.
\<close>

theorem batch_orders_distinguishable:
  "if fst (validate_create_orders ctx request s) = Ok () \<and> 1 < length (crs_orders request)
   then None \<notin> set (map cr_client_order_id (crs_orders request)) \<and>
     distinct (map cr_client_order_id (crs_orders request))
   else True"
  using validate_batch_distinct [of "[]" ctx 0 "crs_orders request" s]
  by (auto simp: validate_create_orders_def)

text \<open>
  Without a time in force the post-only flag does not reach Binance or Bybit: the requests
  with and without it are the same.
\<close>

theorem post_only_needs_time_in_force:
  "build_binance_create_pairs D sy (request\<lparr>cr_time_in_force := None, cr_post_only := True\<rparr>) =
     build_binance_create_pairs D sy (request\<lparr>cr_time_in_force := None, cr_post_only := False\<rparr>) \<and>
   build_binance_algo_create_pairs D sy (request\<lparr>cr_time_in_force := None, cr_post_only := True\<rparr>) =
     build_binance_algo_create_pairs D sy (request\<lparr>cr_time_in_force := None, cr_post_only := False\<rparr>) \<and>
   bybit_create_body D sy (request\<lparr>cr_time_in_force := None, cr_post_only := True\<rparr>) =
     bybit_create_body D sy (request\<lparr>cr_time_in_force := None, cr_post_only := False\<rparr>)"
  by (simp add: build_binance_create_pairs_def build_binance_algo_create_pairs_def bybit_create_body_def
      when_some_def)

text \<open>
  Whatever the client, its reconciliations and its recovery tasks do, in any order and with
  any answers from the venue, the engine state stays well formed and the published health
  agrees with it.
\<close>

theorem runtime_keeps_engine:
  assumes "decimal_laws (lc_decimal ctx)" and "engine_wf engine" and "specs_ok engine" and "metadata_scaled ctx"
    and "lr_shared s = shared_new engine"
  shows "let s' = foldl (runtime_step ctx) s inputs in
    engine_wf (engine_of s') \<and> specs_ok (engine_of s') \<and>
    published (sh_health_watch (lr_shared s')) = published (health_snapshot (lr_shared s'))"
proof -
  have "runtime_inv (lc_decimal ctx) (es_health engine) s"
    using assms by (simp add: shared_inv_def shared_new_def health_tracked_def)
  with assms(4) have "runtime_inv (lc_decimal ctx) (es_health engine) (foldl (runtime_step ctx) s inputs)"
    using runtime.run_keeps [of ctx "lc_decimal ctx" "es_health engine" s inputs] by blast
  then show ?thesis
    by (simp add: Let_def shared_inv_def health_tracked_def health_snapshot_def shared_read_def)
qed

section \<open>Concrete instances\<close>

definition sample_create :: "(int \<times> u32) CreateOrderRequest" where
  "sample_create =
     \<lparr>cr_request_id = None, cr_instrument_id = StringId ''BTC/USDT:USDT'',
      cr_client_order_id = Some (StringId ''c1''), cr_side = Buy, cr_order_type = Market,
      cr_time_in_force = None, cr_quantity = DecimalValue (1, 3), cr_price = None,
      cr_trigger_price = None, cr_trigger_type = None, cr_reduce_only = False, cr_post_only = False\<rparr>"

definition sample_cancel :: CancelOrderRequest where
  "sample_cancel =
     \<lparr>co_request_id = None, co_instrument_id = StringId ''BTC/USDT:USDT'',
      co_order_id = Some (StringId ''12''), co_client_order_id = None\<rparr>"

lemma sample_context_ok:
  "replies_honest (lc_ws (sample_context v))" "metadata_scaled (sample_context v)"
  "decimal_laws (lc_decimal (sample_context v))"
  using sample_ws_honest decimal_laws_pair
  by (simp_all add: sample_context_def metadata_scaled_def sample_parsers_def)

theorem command_submitted_at_most_once_witness:
  "length (lr_calls (snd (create_order (sample_context Bybit) sample_create (sample_runtime other_engine [])))) +
    length (ch_accepted (lr_ws (snd (create_order (sample_context Bybit) sample_create (sample_runtime other_engine []))))) \<le> 1"
  using command_submitted_at_most_once [OF sample_context_ok(1), of Bybit sample_create
      "sample_runtime other_engine []" sample_cancel]
  by (simp add: sample_runtime_def hub_new_def)

theorem runtime_keeps_engine_witness:
  "let s' = foldl (runtime_step (sample_context Bybit)) (sample_runtime other_engine [])
      [RunBootstrap, RunCreateOrder sample_create, RunReconcile Periodic] in
    engine_wf (engine_of s') \<and>
    published (sh_health_watch (lr_shared s')) = published (health_snapshot (lr_shared s'))"
  using runtime_keeps_engine [OF sample_context_ok(3) other_engine_ok sample_context_ok(2),
      of "sample_runtime other_engine []" Bybit "[RunBootstrap, RunCreateOrder sample_create, RunReconcile Periodic]"]
  by (simp add: Let_def sample_runtime_def del: foldl.simps)

end
