(* ===== verification/Entry.thy ===== *)
theory Entry
  imports Command_Laws
begin

text \<open>
  \<^verbatim>\<open>bat-markets/src/entry.rs\<close>: the handle that follows a command over the command channel.

  The broadcast receiver is the list of what it will deliver: events, or the error of a
  receive (the channel lagged or closed).  A method that would wait for more returns \<open>None\<close>.
\<close>

section \<open>Matching\<close>

definition matches_receipt :: "CommandReceipt \<Rightarrow> CommandReceipt \<Rightarrow> bool" where
  "matches_receipt a b =
     (if rcp_operation a \<noteq> rcp_operation b then False
      else case (rcp_order_id a, rcp_order_id b) of
        (Some x, Some y) \<Rightarrow> x = y
      | _ \<Rightarrow>
          (case (rcp_client_order_id a, rcp_client_order_id b) of
             (Some x, Some y) \<Rightarrow> x = y
           | _ \<Rightarrow>
               (case (rcp_request_id a, rcp_request_id b) of
                  (Some x, Some y) \<Rightarrow> x = y
                | _ \<Rightarrow> False)))"

fun matches_lifecycle :: "CommandAck \<Rightarrow> CommandLifecycleEvent \<Rightarrow> bool" where
  "matches_lifecycle ack (Ack other) = (ack = other)"
| "matches_lifecycle ack (RecoveryScheduled other) = (ack = other)"
| "matches_lifecycle ack (RecoveryCompleted other report) = (ack = other)"
| "matches_lifecycle ack (CommandLifecycleEvent.Receipt other) = matches_receipt (ack_receipt ack) other"

definition receipt_after_recovery :: "CommandReceipt \<Rightarrow> ReconcileReport \<Rightarrow> CommandReceipt" where
  "receipt_after_recovery receipt report =
     (case rep_outcome report of
        Synchronized \<Rightarrow>
          receipt\<lparr>rcp_status := Accepted, rcp_retriable := False,
            rcp_message := Some (case rep_note report of
               None \<Rightarrow> ''command outcome resolved by reconcile'' | Some note \<Rightarrow> note)\<rparr>
      | _ \<Rightarrow>
          receipt\<lparr>rcp_status := CommandStatus.UnknownExecution, rcp_retriable := True,
            rcp_message := Some (case rep_note report of
               None \<Rightarrow> ''command outcome remains unresolved after reconcile'' | Some note \<Rightarrow> note)\<rparr>)"

section \<open>The handle\<close>

datatype Delivery =
    Delivered CommandLaneEvent
  | ReceiveFailed string

record PendingCommandHandle =
  ph_ack :: CommandAck
  ph_inbox :: "Delivery list"
  ph_initial_receipt_pending :: bool

definition from_ack :: "CommandAck \<Rightarrow> Delivery list \<Rightarrow> PendingCommandHandle" where
  "from_ack ack receiver = \<lparr>ph_ack = ack, ph_inbox = receiver, ph_initial_receipt_pending = True\<rparr>"

definition from_receipt ::
  "i64 \<Rightarrow> CommandReceipt \<Rightarrow> CommandTransport \<Rightarrow> Delivery list \<Rightarrow> PendingCommandHandle" where
  "from_receipt now receipt transport receiver =
     from_ack \<lparr>ack_receipt = receipt, ack_transport = transport, ack_acknowledged_at = TimestampMs now\<rparr> receiver"

fun receive_receipt :: "CommandAck \<Rightarrow> Delivery list \<Rightarrow> CommandReceipt result option \<times> Delivery list" where
  "receive_receipt ack [] = (None, [])"
| "receive_receipt ack (ReceiveFailed err # inbox) =
     (Some (Err (market_error TransportError (''command receipt receive failed: '' @ err))), inbox)"
| "receive_receipt ack (Delivered (Lifecycle l) # inbox) = receive_receipt ack inbox"
| "receive_receipt ack (Delivered (CommandLaneEvent.Receipt r) # inbox) =
     (if matches_receipt (ack_receipt ack) r then (Some (Ok r), inbox) else receive_receipt ack inbox)"

definition handle_receipt :: "PendingCommandHandle \<Rightarrow> CommandReceipt result option \<times> PendingCommandHandle" where
  "handle_receipt h =
     (if ph_initial_receipt_pending h
      then (Some (Ok (ack_receipt (ph_ack h))), h\<lparr>ph_initial_receipt_pending := False\<rparr>)
      else let (r, inbox) = receive_receipt (ph_ack h) (ph_inbox h) in (r, h\<lparr>ph_inbox := inbox\<rparr>))"

fun receive_lifecycle :: "CommandAck \<Rightarrow> Delivery list \<Rightarrow> CommandLifecycleEvent result option \<times> Delivery list" where
  "receive_lifecycle ack [] = (None, [])"
| "receive_lifecycle ack (ReceiveFailed err # inbox) =
     (Some (Err (market_error TransportError (''command lifecycle receive failed: '' @ err))), inbox)"
| "receive_lifecycle ack (Delivered (CommandLaneEvent.Receipt r) # inbox) = receive_lifecycle ack inbox"
| "receive_lifecycle ack (Delivered (Lifecycle l) # inbox) =
     (if matches_lifecycle ack l then (Some (Ok l), inbox) else receive_lifecycle ack inbox)"

definition next_lifecycle :: "PendingCommandHandle \<Rightarrow> CommandLifecycleEvent result option \<times> PendingCommandHandle" where
  "next_lifecycle h =
     (let (r, inbox) = receive_lifecycle (ph_ack h) (ph_inbox h) in (r, h\<lparr>ph_inbox := inbox\<rparr>))"

lemma receive_lifecycle_shrinks:
  "receive_lifecycle ack inbox = (Some r, rest) \<Longrightarrow> length rest < length inbox"
  by (induction ack inbox rule: receive_lifecycle.induct) (auto split: if_splits)

text \<open>The loop of \<^verbatim>\<open>resolved\<close> ends because every round takes at least one delivery.\<close>

function await_recovery :: "CommandAck \<Rightarrow> Delivery list \<Rightarrow> CommandReceipt result option \<times> Delivery list" where
  "await_recovery ack inbox =
     (case receive_lifecycle ack inbox of
        (None, rest) \<Rightarrow> (None, rest)
      | (Some (Inl f), rest) \<Rightarrow> (Some (Inl f), rest)
      | (Some (Inr (RecoveryCompleted other report)), rest) \<Rightarrow>
          (Some (Ok (receipt_after_recovery (ack_receipt ack) report)), rest)
      | (Some (Inr l), rest) \<Rightarrow> await_recovery ack rest)"
  by pat_completeness auto

termination
  by (relation "measure (\<lambda>(ack, inbox). length inbox)")
    (auto dest: receive_lifecycle_shrinks [OF sym])

declare await_recovery.simps [simp del]

definition resolved :: "PendingCommandHandle \<Rightarrow> CommandReceipt result option \<times> PendingCommandHandle" where
  "resolved h =
     (if rcp_status (ack_receipt (ph_ack h)) \<noteq> CommandStatus.UnknownExecution
      then (Some (Ok (ack_receipt (ph_ack h))), h)
      else let (r, inbox) = await_recovery (ph_ack h) (ph_inbox h) in (r, h\<lparr>ph_inbox := inbox\<rparr>))"

section \<open>What the loop computes\<close>

lemma await_recovery_step:
  "await_recovery ack [] = (None, [])"
  "await_recovery ack (ReceiveFailed err # inbox) =
     (Some (Err (market_error TransportError (''command lifecycle receive failed: '' @ err))), inbox)"
  "await_recovery ack (Delivered (CommandLaneEvent.Receipt r) # inbox) = await_recovery ack inbox"
  "await_recovery ack (Delivered (Lifecycle (RecoveryCompleted other report)) # inbox) =
     (if ack = other then (Some (Ok (receipt_after_recovery (ack_receipt ack) report)), inbox)
      else await_recovery ack inbox)"
  "await_recovery ack (Delivered (Lifecycle (Ack other)) # inbox) = await_recovery ack inbox"
  "await_recovery ack (Delivered (Lifecycle (RecoveryScheduled other)) # inbox) = await_recovery ack inbox"
  "await_recovery ack (Delivered (Lifecycle (CommandLifecycleEvent.Receipt r)) # inbox) = await_recovery ack inbox"
  by (subst await_recovery.simps, simp add: await_recovery.simps [symmetric])+

fun completion_of :: "CommandAck \<Rightarrow> CommandLaneEvent \<Rightarrow> ReconcileReport option" where
  "completion_of ack (Lifecycle (RecoveryCompleted other report)) = (if ack = other then Some report else None)"
| "completion_of ack _ = None"

lemma await_recovery_first:
  "fst (await_recovery ack (map Delivered events)) =
    (case List.map_filter (completion_of ack) events of
       [] \<Rightarrow> None
     | report # _ \<Rightarrow> Some (Ok (receipt_after_recovery (ack_receipt ack) report)))"
proof (induction events)
  case Nil
  show ?case by (simp add: await_recovery_step List.map_filter_simps)
next
  case (Cons e events)
  then show ?case
    by (cases "(ack, e)" rule: completion_of.cases) (simp_all add: await_recovery_step List.map_filter_simps)
qed

section \<open>Properties\<close>

text \<open>
  Receipts are matched by identity: matching is symmetric, and two receipts match only when
  they are about the same operation and share an order, client order or request identifier.
\<close>

theorem receipts_match_by_identity:
  "matches_receipt a b = matches_receipt b a \<and>
   (if matches_receipt a b
    then rcp_operation a = rcp_operation b \<and>
      ((\<exists>x. rcp_order_id a = Some x \<and> rcp_order_id b = Some x) \<or>
       (\<exists>x. rcp_client_order_id a = Some x \<and> rcp_client_order_id b = Some x) \<or>
       (\<exists>x. rcp_request_id a = Some x \<and> rcp_request_id b = Some x))
    else True)"
  unfolding matches_receipt_def
  by (cases "rcp_order_id a"; cases "rcp_order_id b"; cases "rcp_client_order_id a"; cases "rcp_client_order_id b";
      cases "rcp_request_id a"; cases "rcp_request_id b") auto

text \<open>
  C34. A handle resolves from its own recovery only: a known outcome is returned at once; an
  unknown one waits for the first completed recovery of the very same acknowledgement, passing
  over every other event, and turns \<^verbatim>\<open>Accepted\<close> exactly when that recovery synchronized.
\<close>

theorem handle_resolves_own_recovery:
  "fst (resolved (from_ack ack (map Delivered events))) =
    (if rcp_status (ack_receipt ack) = CommandStatus.UnknownExecution
     then (case List.map_filter (completion_of ack) events of
             [] \<Rightarrow> None
           | report # _ \<Rightarrow> Some (Ok (receipt_after_recovery (ack_receipt ack) report)))
     else Some (Ok (ack_receipt ack))) \<and>
   rcp_status (receipt_after_recovery (ack_receipt ack) report) =
     (if rep_outcome report = Synchronized then Accepted else CommandStatus.UnknownExecution)"
proof
  show "fst (resolved (from_ack ack (map Delivered events))) =
    (if rcp_status (ack_receipt ack) = CommandStatus.UnknownExecution
     then (case List.map_filter (completion_of ack) events of
             [] \<Rightarrow> None
           | report # _ \<Rightarrow> Some (Ok (receipt_after_recovery (ack_receipt ack) report)))
     else Some (Ok (ack_receipt ack)))"
    using await_recovery_first [of ack events] by (simp add: resolved_def from_ack_def split_def Let_def)
  show "rcp_status (receipt_after_recovery (ack_receipt ack) report) =
     (if rep_outcome report = Synchronized then Accepted else CommandStatus.UnknownExecution)"
    by (cases "rep_outcome report") (simp_all add: receipt_after_recovery_def)
qed

lemma create_order_events:
  "create_order ctx request s = (Ok ack, s1) \<Longrightarrow>
    sh_command_events (lr_shared s1) = sh_command_events (lr_shared s) @ acknowledged ack"
  using create_order_triple [of "ledger s" ctx request]
  unfolding rt_triple_def by (force simp: concluded_def ledger_def)

lemma recovery_events:
  "sh_command_events (lr_shared (snd (recovery_task ctx ack s))) = sh_command_events (lr_shared s) @
    (case fst (reconcile_private ctx ReconcileTrigger.UnknownExecution s) of
       Inr report \<Rightarrow> [Lifecycle (RecoveryCompleted ack report)] | Inl f \<Rightarrow> [])"
proof -
  obtain r s1 where r: "reconcile_private ctx ReconcileTrigger.UnknownExecution s = (r, s1)" by fastforce
  with rt_keepsD [OF commands_keeper.keeps_reconcile refl, of ctx "ReconcileTrigger.UnknownExecution" s]
  have "sh_command_events (lr_shared s1) = sh_command_events (lr_shared s)" by simp
  with r show ?thesis
    by (cases r) (simp_all add: recovery_task_def rt_emit_def emit_command_event_def)
qed

text \<open>
  An order whose outcome is unknown is resolved by the recovery the client starts for it: a
  handle that listened since before the order was created resolves to the report of that
  reconciliation.  When the reconciliation fails, no completion is announced and the handle
  keeps waiting.
\<close>

theorem unknown_order_resolution:
  "case create_order ctx request s of
     (Inr ack, s1) \<Rightarrow>
       (if rcp_status (ack_receipt ack) = CommandStatus.UnknownExecution
        then fst (resolved (from_ack ack (map Delivered
            (drop (length (sh_command_events (lr_shared s)))
              (sh_command_events (lr_shared (snd (recovery_task ctx ack s1)))))))) =
          (case fst (reconcile_private ctx ReconcileTrigger.UnknownExecution s1) of
             Inr report \<Rightarrow> Some (Ok (receipt_after_recovery (ack_receipt ack) report))
           | Inl f \<Rightarrow> None)
        else fst (resolved (from_ack ack [])) = Some (Ok (ack_receipt ack)))
   | (Inl f, s1) \<Rightarrow> ledger s1 = ledger s"
proof -
  obtain r s1 where create: "create_order ctx request s = (r, s1)" by fastforce
  show ?thesis
  proof (cases r)
    case (Inl f)
    with create create_order_triple [of "ledger s" ctx request] show ?thesis
      unfolding rt_triple_def by force
  next
    case (Inr ack)
    let ?heard = "drop (length (sh_command_events (lr_shared s)))
        (sh_command_events (lr_shared (snd (recovery_task ctx ack s1))))"
    have "?heard = acknowledged ack @
        (case fst (reconcile_private ctx ReconcileTrigger.UnknownExecution s1) of
           Inr report \<Rightarrow> [Lifecycle (RecoveryCompleted ack report)] | Inl f \<Rightarrow> [])"
      using create_order_events [of ctx request s ack s1] create Inr by (simp add: recovery_events)
    then have "fst (await_recovery ack (map Delivered ?heard)) =
        (case fst (reconcile_private ctx ReconcileTrigger.UnknownExecution s1) of
           Inr report \<Rightarrow> Some (Ok (receipt_after_recovery (ack_receipt ack) report)) | Inl f \<Rightarrow> None)"
      by (simp only: await_recovery_first) (simp add: acknowledged_def List.map_filter_simps split: sum.split)
    with create Inr show ?thesis
      by (simp add: resolved_def from_ack_def split_def Let_def)
  qed
qed

end
