(* ===== verification/Subscriptions.thy ===== *)
theory Subscriptions
  imports Config
begin

text \<open>
  \<^verbatim>\<open>bat-markets/src/subscriptions.rs\<close>: the hubs that share websocket streams between
  watchers.  A watcher holds a lease; the hub merges the leases' subscriptions, splits them
  over the venue's websocket routes, and starts and stops streams accordingly.

  Opening a stream is network I/O.  Each call of \<^verbatim>\<open>spawn_public_stream\<close> is answered by an
  argument of the step, so the properties hold for every pattern of successes and failures.
  The tasks that run are recorded in \<open>ph_running\<close>: a handle enters it when its stream is
  spawned and leaves it when it is aborted.
\<close>

record PublicSubscription =
  ps_instrument_ids :: "InstrumentId list"
  ps_ticker :: bool
  ps_trades :: bool
  ps_book_top :: bool
  ps_order_book :: bool
  ps_mark_price :: bool
  ps_funding_rate :: bool
  ps_open_interest :: bool
  ps_liquidations :: bool
  ps_kline_intervals :: "string list"

datatype PublicStreamRoute = DefaultRoute | BinanceMarket | BinancePublic

fun route_rank :: "PublicStreamRoute \<Rightarrow> nat" where
  "route_rank DefaultRoute = 0"
| "route_rank BinanceMarket = 1"
| "route_rank BinancePublic = 2"

instantiation PublicStreamRoute :: linorder
begin

definition less_eq_PublicStreamRoute :: "PublicStreamRoute \<Rightarrow> PublicStreamRoute \<Rightarrow> bool" where
  "less_eq_PublicStreamRoute a b \<longleftrightarrow> route_rank a \<le> route_rank b"

definition less_PublicStreamRoute :: "PublicStreamRoute \<Rightarrow> PublicStreamRoute \<Rightarrow> bool" where
  "less_PublicStreamRoute a b \<longleftrightarrow> route_rank a < route_rank b"

instance
proof
  fix a b :: PublicStreamRoute
  show "a \<le> b \<Longrightarrow> b \<le> a \<Longrightarrow> a = b"
    by (cases a; cases b) (simp_all add: less_eq_PublicStreamRoute_def)
qed (auto simp: less_eq_PublicStreamRoute_def less_PublicStreamRoute_def)

end

section \<open>Normalizing, merging, routing\<close>

definition normalize_public_subscription :: "PublicSubscription \<Rightarrow> PublicSubscription" where
  "normalize_public_subscription s =
     s\<lparr>ps_instrument_ids := remdups_adj (sort (ps_instrument_ids s)),
       ps_kline_intervals := remdups_adj (sort (ps_kline_intervals s))\<rparr>"

text \<open>\<^verbatim>\<open>BTreeSet::extend\<close>.\<close>

definition btree_set_extend :: "'a::linorder list \<Rightarrow> 'a list \<Rightarrow> 'a list" where
  "btree_set_extend acc xs = foldl (\<lambda>a x. insort_insert x a) acc xs"

definition merge_into ::
  "InstrumentId list \<times> string list \<times> PublicSubscription \<Rightarrow> PublicSubscription
     \<Rightarrow> InstrumentId list \<times> string list \<times> PublicSubscription" where
  "merge_into acc s =
     (case acc of (ids, intervals, m) \<Rightarrow>
        (btree_set_extend ids (ps_instrument_ids s),
         btree_set_extend intervals (ps_kline_intervals s),
         m\<lparr>ps_ticker := ps_ticker m \<or> ps_ticker s,
           ps_trades := ps_trades m \<or> ps_trades s,
           ps_book_top := ps_book_top m \<or> ps_book_top s,
           ps_order_book := ps_order_book m \<or> ps_order_book s,
           ps_mark_price := ps_mark_price m \<or> ps_mark_price s,
           ps_funding_rate := ps_funding_rate m \<or> ps_funding_rate s,
           ps_open_interest := ps_open_interest m \<or> ps_open_interest s,
           ps_liquidations := ps_liquidations m \<or> ps_liquidations s\<rparr>))"

definition no_subscription :: PublicSubscription where
  "no_subscription =
     \<lparr>ps_instrument_ids = [], ps_ticker = False, ps_trades = False, ps_book_top = False,
      ps_order_book = False, ps_mark_price = False, ps_funding_rate = False,
      ps_open_interest = False, ps_liquidations = False, ps_kline_intervals = []\<rparr>"

definition merge_public_subscriptions :: "PublicSubscription list \<Rightarrow> PublicSubscription option" where
  "merge_public_subscriptions subs =
     (case foldl merge_into ([], [], no_subscription) subs of (ids, intervals, m) \<Rightarrow>
        if ids = [] then None
        else Some (m\<lparr>ps_instrument_ids := ids, ps_kline_intervals := intervals\<rparr>))"

definition split_binance_public_subscription ::
  "PublicSubscription \<Rightarrow> (PublicStreamRoute, PublicSubscription) btree_map" where
  "split_binance_public_subscription s =
     (let routes0 = [];
          routes1 =
            (if ps_ticker s \<or> ps_trades s \<or> ps_mark_price s \<or> ps_funding_rate s \<or> ps_open_interest s
                \<or> ps_liquidations s \<or> ps_kline_intervals s \<noteq> []
             then bt_insert BinanceMarket
               \<lparr>ps_instrument_ids = ps_instrument_ids s, ps_ticker = ps_ticker s,
                ps_trades = ps_trades s, ps_book_top = False, ps_order_book = False,
                ps_mark_price = ps_mark_price s, ps_funding_rate = ps_funding_rate s,
                ps_open_interest = ps_open_interest s, ps_liquidations = ps_liquidations s,
                ps_kline_intervals = ps_kline_intervals s\<rparr> routes0
             else routes0) in
      if ps_book_top s \<or> ps_order_book s
      then bt_insert BinancePublic
        \<lparr>ps_instrument_ids = ps_instrument_ids s, ps_ticker = False, ps_trades = False,
         ps_book_top = ps_book_top s, ps_order_book = ps_order_book s, ps_mark_price = False,
         ps_funding_rate = False, ps_open_interest = False, ps_liquidations = False,
         ps_kline_intervals = []\<rparr> routes1
      else routes1)"

definition route_public_subscriptions ::
  "Venue \<Rightarrow> PublicSubscription list \<Rightarrow> (PublicStreamRoute, PublicSubscription) btree_map" where
  "route_public_subscriptions venue subs =
     (case merge_public_subscriptions subs of
        None \<Rightarrow> []
      | Some s \<Rightarrow>
          (case venue of
             Binance \<Rightarrow> split_binance_public_subscription s
           | Bybit \<Rightarrow> [(DefaultRoute, s)]
           | Mexc \<Rightarrow> [(DefaultRoute, s)]))"

section \<open>The public hub\<close>

record LiveStreamHandle =
  lh_id :: nat
  lh_route :: PublicStreamRoute
  lh_subscription :: PublicSubscription

record PublicHub =
  ph_active :: "(u64, PublicSubscription) btree_map"
  ph_current_subscriptions :: "(PublicStreamRoute, PublicSubscription) btree_map"
  ph_current_streams :: "(PublicStreamRoute, LiveStreamHandle) btree_map"
  ph_running :: "LiveStreamHandle list"
  ph_spawned :: nat

definition public_hub_new :: PublicHub where
  "public_hub_new = \<lparr>ph_active = [], ph_current_subscriptions = [], ph_current_streams = [],
     ph_running = [], ph_spawned = 0\<rparr>"

definition abort_stream :: "LiveStreamHandle \<Rightarrow> PublicHub \<Rightarrow> PublicHub" where
  "abort_stream h hub = hub\<lparr>ph_running := filter (\<lambda>x. lh_id x \<noteq> lh_id h) (ph_running hub)\<rparr>"

definition abort_all :: "LiveStreamHandle list \<Rightarrow> PublicHub \<Rightarrow> PublicHub" where
  "abort_all hs hub = foldl (\<lambda>acc h. abort_stream h acc) hub hs"

text \<open>The loop over the desired routes; \<open>spawn\<close> answers each attempt to open a stream.\<close>

type_synonym spawn_env = "PublicStreamRoute \<Rightarrow> PublicSubscription \<Rightarrow> MarketError option"

fun spawn_replacements ::
  "spawn_env \<Rightarrow> (PublicStreamRoute \<times> PublicSubscription) list \<Rightarrow> (PublicStreamRoute \<times> LiveStreamHandle) list
     \<Rightarrow> PublicHub \<Rightarrow> (PublicStreamRoute \<times> LiveStreamHandle) list result \<times> PublicHub" where
  "spawn_replacements spawn [] replacements hub = (Ok replacements, hub)"
| "spawn_replacements spawn ((route, sub) # desired) replacements hub =
     (if bt_get (ph_current_subscriptions hub) route = Some sub
      then spawn_replacements spawn desired replacements hub
      else case spawn route sub of
          Some err \<Rightarrow> (Err err, abort_all (map snd replacements) hub)
        | None \<Rightarrow>
            (let h = \<lparr>lh_id = ph_spawned hub, lh_route = route, lh_subscription = sub\<rparr> in
             spawn_replacements spawn desired (replacements @ [(route, h)])
               (hub\<lparr>ph_running := ph_running hub @ [h], ph_spawned := Suc (ph_spawned hub)\<rparr>)))"

definition remove_stale :: "PublicStreamRoute list \<Rightarrow> PublicHub \<Rightarrow> PublicHub" where
  "remove_stale routes hub =
     foldl (\<lambda>acc route.
       case bt_get (ph_current_streams acc) route of
         None \<Rightarrow> acc
       | Some stream \<Rightarrow>
           abort_stream stream (acc\<lparr>ph_current_streams := bt_remove route (ph_current_streams acc)\<rparr>))
       hub routes"

definition install_replacements ::
  "(PublicStreamRoute \<times> LiveStreamHandle) list \<Rightarrow> PublicHub \<Rightarrow> PublicHub" where
  "install_replacements replacements hub =
     foldl (\<lambda>acc (route, stream).
       (let acc1 = acc\<lparr>ph_current_streams := bt_insert route stream (ph_current_streams acc)\<rparr> in
        case bt_get (ph_current_streams acc) route of
          None \<Rightarrow> acc1
        | Some existing \<Rightarrow> abort_stream existing acc1))
       hub replacements"

definition switch_public_stream ::
  "spawn_env \<Rightarrow> (PublicStreamRoute, PublicSubscription) btree_map \<Rightarrow> PublicHub \<Rightarrow> unit result \<times> PublicHub" where
  "switch_public_stream spawn desired hub =
     (if ph_current_subscriptions hub = desired then (Ok (), hub)
      else case spawn_replacements spawn desired [] hub of
          (Inl f, hub1) \<Rightarrow> (Inl f, hub1)
        | (Inr replacements, hub1) \<Rightarrow>
            (let stale_routes = map fst (filter (\<lambda>(route, sub). bt_get desired route \<noteq> Some sub)
                   (ph_current_subscriptions hub1));
                 hub2 = remove_stale stale_routes hub1;
                 hub3 = install_replacements replacements hub2 in
             (Ok (), hub3\<lparr>ph_current_subscriptions := desired\<rparr>)))"

datatype PublicHubCommand =
    PublicAcquire u64 PublicSubscription
  | PublicRelease u64

text \<open>One turn of the loop of \<^verbatim>\<open>run_public_hub\<close>: the reply (none for a release) and the hub.\<close>

definition run_public_hub ::
  "Venue \<Rightarrow> spawn_env \<Rightarrow> PublicHubCommand \<Rightarrow> PublicHub \<Rightarrow> unit result option \<times> PublicHub" where
  "run_public_hub venue spawn command hub =
     (case command of
        PublicAcquire lease_id sub \<Rightarrow>
          (let candidate = bt_insert lease_id sub (ph_active hub);
               desired = route_public_subscriptions venue (bt_values candidate) in
           case switch_public_stream spawn desired hub of
             (Inr _, hub1) \<Rightarrow> (Some (Ok ()), hub1\<lparr>ph_active := candidate\<rparr>)
           | (Inl f, hub1) \<Rightarrow> (Some (Inl f), hub1))
      | PublicRelease lease_id \<Rightarrow>
          (if bt_get (ph_active hub) lease_id = None then (None, hub)
           else let hub0 = hub\<lparr>ph_active := bt_remove lease_id (ph_active hub)\<rparr>;
                    desired = route_public_subscriptions venue (bt_values (ph_active hub0)) in
                (None, snd (switch_public_stream spawn desired hub0))))"

text \<open>After the command channel closes, every stream is aborted.\<close>

definition close_public_hub :: "PublicHub \<Rightarrow> PublicHub" where
  "close_public_hub hub = abort_all (bt_values (ph_current_streams hub)) hub"

section \<open>The private hub\<close>

record PrivateHub =
  vh_active :: "u64 list"
  vh_current_stream :: "nat option"
  vh_running :: "nat list"
  vh_spawned :: nat

definition private_hub_new :: PrivateHub where
  "private_hub_new = \<lparr>vh_active = [], vh_current_stream = None, vh_running = [], vh_spawned = 0\<rparr>"

datatype PrivateHubCommand =
    PrivateAcquire u64
  | PrivateRelease u64

definition run_private_hub ::
  "MarketError option \<Rightarrow> PrivateHubCommand \<Rightarrow> PrivateHub \<Rightarrow> unit result option \<times> PrivateHub" where
  "run_private_hub spawn command hub =
     (case command of
        PrivateAcquire lease_id \<Rightarrow>
          (if vh_current_stream hub = None then
             (case spawn of
                Some err \<Rightarrow> (Some (Err err), hub)
              | None \<Rightarrow> (Some (Ok ()),
                  hub\<lparr>vh_current_stream := Some (vh_spawned hub),
                      vh_running := vh_running hub @ [vh_spawned hub],
                      vh_spawned := Suc (vh_spawned hub),
                      vh_active := insort_insert lease_id (vh_active hub)\<rparr>))
           else (Some (Ok ()), hub\<lparr>vh_active := insort_insert lease_id (vh_active hub)\<rparr>))
      | PrivateRelease lease_id \<Rightarrow>
          (if lease_id \<notin> set (vh_active hub) then (None, hub)
           else let hub1 = hub\<lparr>vh_active := filter (\<lambda>l. l \<noteq> lease_id) (vh_active hub)\<rparr> in
                if vh_active hub1 = [] then
                  (None, (case vh_current_stream hub1 of
                     None \<Rightarrow> hub1
                   | Some stream \<Rightarrow> hub1\<lparr>vh_current_stream := None,
                       vh_running := filter (\<lambda>h. h \<noteq> stream) (vh_running hub1)\<rparr>))
                else (None, hub1)))"

section \<open>Handles\<close>

text \<open>
  The client side: a lease identifier is drawn from a counter that wraps at \<^verbatim>\<open>u64\<close>, the
  subscription is normalized, and the hub must be running.
\<close>

definition hub_runtime_error :: MarketError where
  "hub_runtime_error = market_error Unsupported ''subscription hubs require an active Tokio runtime''"

definition hub_closed_error :: "string \<Rightarrow> MarketError" where
  "hub_closed_error name = market_error TransportError (name @ '' subscription hub is unavailable'')"

record PublicSubscriptionHub =
  pub_tx :: "PublicHub option"
  pub_next_lease_id :: u64

definition public_acquire ::
  "Venue \<Rightarrow> spawn_env \<Rightarrow> PublicSubscription \<Rightarrow> PublicSubscriptionHub \<Rightarrow> u64 result \<times> PublicSubscriptionHub" where
  "public_acquire venue spawn sub h =
     (let lease_id = pub_next_lease_id h;
          h1 = h\<lparr>pub_next_lease_id := lease_id + 1\<rparr> in
      case pub_tx h1 of
        None \<Rightarrow> (Err hub_runtime_error, h1)
      | Some hub \<Rightarrow>
          (case run_public_hub venue spawn (PublicAcquire lease_id (normalize_public_subscription sub)) hub of
             (Some (Inr _), hub1) \<Rightarrow> (Ok lease_id, h1\<lparr>pub_tx := Some hub1\<rparr>)
           | (Some (Inl f), hub1) \<Rightarrow> (Inl f, h1\<lparr>pub_tx := Some hub1\<rparr>)
           | (None, hub1) \<Rightarrow> (Err (hub_closed_error ''public''), h1\<lparr>pub_tx := Some hub1\<rparr>)))"

definition public_lease_drop ::
  "Venue \<Rightarrow> spawn_env \<Rightarrow> u64 \<Rightarrow> PublicSubscriptionHub \<Rightarrow> PublicSubscriptionHub" where
  "public_lease_drop venue spawn lease_id h =
     (case pub_tx h of
        None \<Rightarrow> h
      | Some hub \<Rightarrow> h\<lparr>pub_tx := Some (snd (run_public_hub venue spawn (PublicRelease lease_id) hub))\<rparr>)"

section \<open>Laws of merging and routing\<close>

datatype Topic =
    TickerTopic | TradesTopic | BookTopTopic | OrderBookTopic | MarkPriceTopic | FundingRateTopic
  | OpenInterestTopic | LiquidationsTopic | KlineTopic string

definition flag :: "bool \<Rightarrow> 'a \<Rightarrow> 'a set" where
  "flag b t = (if b then {t} else {})"

lemma flag_simps [simp]: "flag True t = {t}" "flag False t = {}"
  by (simp_all add: flag_def)

lemma flag_disj: "flag (a \<or> b) t = flag a t \<union> flag b t"
  by (simp add: flag_def)

definition subscription_topics :: "PublicSubscription \<Rightarrow> Topic set" where
  "subscription_topics s =
     flag (ps_ticker s) TickerTopic \<union> flag (ps_trades s) TradesTopic \<union>
     flag (ps_book_top s) BookTopTopic \<union> flag (ps_order_book s) OrderBookTopic \<union>
     flag (ps_mark_price s) MarkPriceTopic \<union> flag (ps_funding_rate s) FundingRateTopic \<union>
     flag (ps_open_interest s) OpenInterestTopic \<union> flag (ps_liquidations s) LiquidationsTopic \<union>
     KlineTopic ` set (ps_kline_intervals s)"

text \<open>What a stream with this subscription delivers: a topic for an instrument.\<close>

definition feeds :: "PublicSubscription \<Rightarrow> (InstrumentId \<times> Topic) set" where
  "feeds s = set (ps_instrument_ids s) \<times> subscription_topics s"

definition routed_feeds :: "(PublicStreamRoute, PublicSubscription) btree_map \<Rightarrow> (InstrumentId \<times> Topic) set" where
  "routed_feeds m = (\<Union>s\<in>set (bt_values m). feeds s)"

lemma set_btree_set_extend: "set (btree_set_extend acc xs) = set acc \<union> set xs"
  unfolding btree_set_extend_def by (induction xs arbitrary: acc) (auto simp: set_insort_insert)

lemma sorted_btree_set_extend:
  "sorted acc \<Longrightarrow> distinct acc \<Longrightarrow> sorted (btree_set_extend acc xs) \<and> distinct (btree_set_extend acc xs)"
  unfolding btree_set_extend_def
  by (induction xs arbitrary: acc) (auto simp: sorted_insort_insert distinct_insort_insert)

lemma merge_into_topics:
  assumes "merge_into (ids, intervals, m) s = (ids', intervals', m')"
  shows "set ids' = set ids \<union> set (ps_instrument_ids s) \<and>
    subscription_topics (m'\<lparr>ps_kline_intervals := intervals'\<rparr>) =
      subscription_topics (m\<lparr>ps_kline_intervals := intervals\<rparr>) \<union> subscription_topics s"
proof -
  have m': "intervals' = btree_set_extend intervals (ps_kline_intervals s)"
    "ps_ticker m' = (ps_ticker m \<or> ps_ticker s)" "ps_trades m' = (ps_trades m \<or> ps_trades s)"
    "ps_book_top m' = (ps_book_top m \<or> ps_book_top s)" "ps_order_book m' = (ps_order_book m \<or> ps_order_book s)"
    "ps_mark_price m' = (ps_mark_price m \<or> ps_mark_price s)"
    "ps_funding_rate m' = (ps_funding_rate m \<or> ps_funding_rate s)"
    "ps_open_interest m' = (ps_open_interest m \<or> ps_open_interest s)"
    "ps_liquidations m' = (ps_liquidations m \<or> ps_liquidations s)"
    using assms by (auto simp: merge_into_def)
  have "set ids' = set ids \<union> set (ps_instrument_ids s)"
    using assms by (auto simp: merge_into_def set_btree_set_extend)
  then show ?thesis
    by (simp add: subscription_topics_def m' flag_disj set_btree_set_extend image_Un Un_ac)
qed

lemma merge_fold:
  "foldl merge_into (ids, intervals, m) subs = (ids', intervals', m') \<Longrightarrow>
    set ids' = set ids \<union> (\<Union>s\<in>set subs. set (ps_instrument_ids s)) \<and>
    subscription_topics (m'\<lparr>ps_kline_intervals := intervals'\<rparr>) =
      subscription_topics (m\<lparr>ps_kline_intervals := intervals\<rparr>) \<union> (\<Union>s\<in>set subs. subscription_topics s)"
proof (induction subs arbitrary: ids intervals m)
  case (Cons s subs)
  obtain ids1 intervals1 m1 where step: "merge_into (ids, intervals, m) s = (ids1, intervals1, m1)"
    by (metis prod_cases3)
  with Cons.prems have "foldl merge_into (ids1, intervals1, m1) subs = (ids', intervals', m')" by simp
  from Cons.IH [OF this] merge_into_topics [OF step] show ?case
    by (simp add: Un_assoc)
qed simp

lemma merge_topics:
  assumes "merge_public_subscriptions subs = Some m"
  shows "set (ps_instrument_ids m) = (\<Union>s\<in>set subs. set (ps_instrument_ids s)) \<and>
    subscription_topics m = (\<Union>s\<in>set subs. subscription_topics s)"
proof -
  obtain ids intervals m' where fold: "foldl merge_into ([], [], no_subscription) subs = (ids, intervals, m')"
    by (metis prod_cases3)
  from assms fold have m: "m = m'\<lparr>ps_instrument_ids := ids, ps_kline_intervals := intervals\<rparr>"
    by (auto simp: merge_public_subscriptions_def split: if_splits)
  have "subscription_topics m = subscription_topics (m'\<lparr>ps_kline_intervals := intervals\<rparr>)"
    by (simp add: m subscription_topics_def)
  moreover have "subscription_topics (no_subscription\<lparr>ps_kline_intervals := []\<rparr>) = {}"
    by (simp add: subscription_topics_def no_subscription_def)
  ultimately show ?thesis
    using merge_fold [OF fold] by (simp add: m)
qed

lemma merge_none:
  "merge_public_subscriptions subs = None \<longleftrightarrow> (\<forall>s\<in>set subs. ps_instrument_ids s = [])"
proof -
  obtain ids intervals m' where fold: "foldl merge_into ([], [], no_subscription) subs = (ids, intervals, m')"
    by (metis prod_cases3)
  then have "ids = [] \<longleftrightarrow> (\<forall>s\<in>set subs. ps_instrument_ids s = [])"
    using merge_fold [OF fold] by (metis (no_types, lifting) SUP_bot_conv(2) Un_empty set_empty)
  with fold show ?thesis by (auto simp: merge_public_subscriptions_def)
qed

lemma split_feeds: "routed_feeds (split_binance_public_subscription s) = feeds s"
proof -
  let ?market = "ps_ticker s \<or> ps_trades s \<or> ps_mark_price s \<or> ps_funding_rate s \<or> ps_open_interest s
    \<or> ps_liquidations s \<or> ps_kline_intervals s \<noteq> []"
  let ?public = "ps_book_top s \<or> ps_order_book s"
  show ?thesis
    by (cases ?market; cases ?public)
      (simp_all only: split_binance_public_subscription_def Let_def if_True if_False,
       simp_all add: routed_feeds_def bt_values_def feeds_def subscription_topics_def
         less_PublicStreamRoute_def Times_Un_distrib1 Sigma_Un_distrib2 Un_ac)
qed

lemma split_market_topics:
  assumes "bt_get (split_binance_public_subscription s) BinanceMarket = Some m"
  shows "subscription_topics m \<inter> {BookTopTopic, OrderBookTopic} = {}"
proof -
  let ?market = "ps_ticker s \<or> ps_trades s \<or> ps_mark_price s \<or> ps_funding_rate s \<or> ps_open_interest s
    \<or> ps_liquidations s \<or> ps_kline_intervals s \<noteq> []"
  let ?public = "ps_book_top s \<or> ps_order_book s"
  have "\<not> ps_book_top m \<and> \<not> ps_order_book m"
    using assms
    by (cases ?market; cases ?public)
      (simp_all only: split_binance_public_subscription_def Let_def if_True if_False bt_get_insert
          fun_upd_apply bt.get_empty PublicStreamRoute.distinct, auto)
  then show ?thesis by (auto simp: subscription_topics_def flag_def split: if_split_asm)
qed

lemma split_public_topics:
  assumes "bt_get (split_binance_public_subscription s) BinancePublic = Some p"
  shows "subscription_topics p \<subseteq> {BookTopTopic, OrderBookTopic}"
proof -
  let ?market = "ps_ticker s \<or> ps_trades s \<or> ps_mark_price s \<or> ps_funding_rate s \<or> ps_open_interest s
    \<or> ps_liquidations s \<or> ps_kline_intervals s \<noteq> []"
  let ?public = "ps_book_top s \<or> ps_order_book s"
  have "\<not> ps_ticker p \<and> \<not> ps_trades p \<and> \<not> ps_mark_price p \<and> \<not> ps_funding_rate p \<and>
      \<not> ps_open_interest p \<and> \<not> ps_liquidations p \<and> ps_kline_intervals p = []"
    using assms
    by (cases ?market; cases ?public)
      (simp_all only: split_binance_public_subscription_def Let_def if_True if_False bt_get_insert
          fun_upd_apply bt.get_empty PublicStreamRoute.distinct, auto)
  then show ?thesis by (auto simp: subscription_topics_def flag_def split: if_split_asm)
qed

lemma split_wf: "bt_wf (split_binance_public_subscription s)"
  unfolding split_binance_public_subscription_def Let_def
  by (intro conjI impI bt_wf_insert bt.wf_empty | simp only: split: if_split)+

lemma bt_wf_single [simp]: "bt_wf [e]"
  by (simp add: bt_wf_def bt_keys_def)

lemma route_wf: "bt_wf (route_public_subscriptions venue subs)"
  by (cases venue) (simp_all add: route_public_subscriptions_def split_wf split: option.split)

lemma route_feeds:
  "routed_feeds (route_public_subscriptions venue subs) =
    (\<Union>s\<in>set subs. set (ps_instrument_ids s)) \<times> (\<Union>s\<in>set subs. subscription_topics s)"
proof (cases "merge_public_subscriptions subs")
  case None
  then have "\<forall>s\<in>set subs. ps_instrument_ids s = []" by (simp only: merge_none)
  with None show ?thesis by (simp add: route_public_subscriptions_def routed_feeds_def bt_values_def)
next
  case (Some m)
  from merge_topics [OF Some] show ?thesis
    by (cases venue) (simp_all add: Some route_public_subscriptions_def split_feeds, 
      simp_all add: routed_feeds_def bt_values_def feeds_def)
qed

lemma feeds_covered: "s \<in> set subs \<Longrightarrow> feeds s \<subseteq> routed_feeds (route_public_subscriptions venue subs)"
  by (auto simp: route_feeds feeds_def)

section \<open>The hub invariant\<close>

definition handles_fresh :: "PublicHub \<Rightarrow> bool" where
  "handles_fresh hub \<longleftrightarrow>
     distinct (map lh_id (ph_running hub)) \<and> (\<forall>h\<in>set (ph_running hub). lh_id h < ph_spawned hub)"

lemma abort_all_running:
  "abort_all hs hub = hub\<lparr>ph_running := filter (\<lambda>x. lh_id x \<notin> lh_id ` set hs) (ph_running hub)\<rparr>"
  unfolding abort_all_def abort_stream_def
  by (induction hs arbitrary: hub) (auto simp: filter_filter intro!: filter_cong)

lemma filter_fresh_suffix:
  assumes "distinct (map f (base @ xs))"
  shows "filter (\<lambda>x. f x \<notin> f ` set xs) (base @ xs) = base"
  using assms by (auto simp: filter_id_conv filter_empty_conv)

lemma spawn_replacements_Err:
  assumes "spawn_replacements spawn desired reps hub = (Inl f, hub1)"
    and "ph_running hub = base @ map snd reps" and "handles_fresh hub"
  shows "hub1 = hub\<lparr>ph_running := base, ph_spawned := ph_spawned hub1\<rparr> \<and> ph_spawned hub \<le> ph_spawned hub1"
  using assms
proof (induction spawn desired reps hub rule: spawn_replacements.induct)
  case (2 spawn route sub desired reps hub)
  let ?h = "\<lparr>lh_id = ph_spawned hub, lh_route = route, lh_subscription = sub\<rparr>"
  let ?hub = "hub\<lparr>ph_running := ph_running hub @ [?h], ph_spawned := Suc (ph_spawned hub)\<rparr>"
  consider (kept) "bt_get (ph_current_subscriptions hub) route = Some sub"
    | (failed) err where "bt_get (ph_current_subscriptions hub) route \<noteq> Some sub" "spawn route sub = Some err"
    | (opened) "bt_get (ph_current_subscriptions hub) route \<noteq> Some sub" "spawn route sub = None"
    by fastforce
  then show ?case
  proof cases
    case kept
    with 2 show ?thesis by simp
  next
    case failed
    with 2 have "distinct (map lh_id (base @ map snd reps))" by (simp add: handles_fresh_def)
    from filter_fresh_suffix [OF this] failed 2 show ?thesis by (auto simp: abort_all_running)
  next
    case opened
    have fresh: "handles_fresh ?hub" using "2.prems"(3) by (fastforce simp: handles_fresh_def)
    from opened 2 fresh have "hub1 = ?hub\<lparr>ph_running := base, ph_spawned := ph_spawned hub1\<rparr> \<and>
        ph_spawned ?hub \<le> ph_spawned hub1"
      by (intro "2.IH"(2)) (auto simp: Let_def)
    then show ?thesis by simp
  qed
qed simp

lemma spawn_replacements_Ok:
  assumes "spawn_replacements spawn desired reps hub = (Ok reps', hub1)"
    and "ph_running hub = base @ map snd reps" and "handles_fresh hub"
    and "list_all (\<lambda>(r, h). lh_route h = r) reps"
  shows "hub1 = hub\<lparr>ph_running := base @ map snd reps', ph_spawned := ph_spawned hub1\<rparr> \<and>
    handles_fresh hub1 \<and> list_all (\<lambda>(r, h). lh_route h = r) reps' \<and>
    map (\<lambda>(r, h). (r, lh_subscription h)) reps' =
      map (\<lambda>(r, h). (r, lh_subscription h)) reps @
      filter (\<lambda>(r, s). bt_get (ph_current_subscriptions hub) r \<noteq> Some s) desired"
  using assms
proof (induction spawn desired reps hub rule: spawn_replacements.induct)
  case (2 spawn route sub desired reps hub)
  let ?h = "\<lparr>lh_id = ph_spawned hub, lh_route = route, lh_subscription = sub\<rparr>"
  let ?hub = "hub\<lparr>ph_running := ph_running hub @ [?h], ph_spawned := Suc (ph_spawned hub)\<rparr>"
  show ?case
  proof (cases "bt_get (ph_current_subscriptions hub) route = Some sub")
    case True
    with 2 show ?thesis by simp
  next
    case False
    with "2.prems"(1) have opened: "spawn route sub = None" by (cases "spawn route sub") simp_all
    have fresh: "handles_fresh ?hub" using "2.prems"(3) by (fastforce simp: handles_fresh_def)
    from False opened 2 fresh have "hub1 = ?hub\<lparr>ph_running := base @ map snd reps', ph_spawned := ph_spawned hub1\<rparr> \<and>
        handles_fresh hub1 \<and> list_all (\<lambda>(r, h). lh_route h = r) reps' \<and>
        map (\<lambda>(r, h). (r, lh_subscription h)) reps' =
          map (\<lambda>(r, h). (r, lh_subscription h)) (reps @ [(route, ?h)]) @
          filter (\<lambda>(r, s). bt_get (ph_current_subscriptions ?hub) r \<noteq> Some s) desired"
      by (intro "2.IH"(2)) (auto simp: Let_def)
    with False show ?thesis by simp
  qed
qed simp

lemma remove_stale_spec:
  assumes "bt_wf (ph_current_streams hub)"
  shows "bt_wf (ph_current_streams (remove_stale routes hub)) \<and>
    bt_get (ph_current_streams (remove_stale routes hub)) =
      (\<lambda>r. if r \<in> set routes then None else bt_get (ph_current_streams hub) r) \<and>
    remove_stale routes hub =
      hub\<lparr>ph_current_streams := ph_current_streams (remove_stale routes hub),
          ph_running := filter (\<lambda>h. \<forall>r\<in>set routes. \<forall>x. bt_get (ph_current_streams hub) r = Some x \<longrightarrow> lh_id x \<noteq> lh_id h)
            (ph_running hub)\<rparr>"
  using assms
proof (induction routes arbitrary: hub)
  case Nil
  then show ?case by (simp add: remove_stale_def)
next
  case (Cons r routes)
  show ?case
  proof (cases "bt_get (ph_current_streams hub) r")
    case None
    then have "remove_stale (r # routes) hub = remove_stale routes hub" by (simp add: remove_stale_def)
    with Cons.IH [OF Cons.prems] None show ?thesis by (auto simp: fun_eq_iff)
  next
    case (Some x)
    let ?hub = "abort_stream x (hub\<lparr>ph_current_streams := bt_remove r (ph_current_streams hub)\<rparr>)"
    have rec: "remove_stale (r # routes) hub = remove_stale routes ?hub" using Some by (simp add: remove_stale_def)
    have wf: "bt_wf (ph_current_streams ?hub)" using Cons.prems by (simp add: abort_stream_def)
    have get: "bt_get (ph_current_streams ?hub) = (bt_get (ph_current_streams hub))(r := None)"
      using Cons.prems by (simp add: abort_stream_def)
    have run: "ph_running ?hub = filter (\<lambda>y. lh_id y \<noteq> lh_id x) (ph_running hub)"
      by (simp add: abort_stream_def)
    have keep: "filter (\<lambda>h. \<forall>q\<in>set routes. \<forall>y. bt_get (ph_current_streams ?hub) q = Some y \<longrightarrow> lh_id y \<noteq> lh_id h) (ph_running ?hub)
      = filter (\<lambda>h. \<forall>q\<in>set (r # routes). \<forall>y. bt_get (ph_current_streams hub) q = Some y \<longrightarrow> lh_id y \<noteq> lh_id h) (ph_running hub)"
      unfolding get run filter_filter by (rule filter_cong) (use Some in auto)
    from Cons.IH [OF wf] have IH: "bt_wf (ph_current_streams (remove_stale routes ?hub))"
      "bt_get (ph_current_streams (remove_stale routes ?hub)) =
        (\<lambda>q. if q \<in> set routes then None else bt_get (ph_current_streams ?hub) q)"
      "remove_stale routes ?hub = ?hub\<lparr>ph_current_streams := ph_current_streams (remove_stale routes ?hub),
         ph_running := filter (\<lambda>h. \<forall>q\<in>set (r # routes). \<forall>y. bt_get (ph_current_streams hub) q = Some y \<longrightarrow> lh_id y \<noteq> lh_id h) (ph_running hub)\<rparr>"
      unfolding keep by blast+
    have "?hub\<lparr>ph_current_streams := a, ph_running := b\<rparr> = hub\<lparr>ph_current_streams := a, ph_running := b\<rparr>" for a b
      by (simp add: abort_stream_def)
    with IH show ?thesis unfolding rec get by (auto simp: fun_eq_iff)
  qed
qed

lemma install_replacements_spec:
  assumes "distinct (map fst reps)" and "\<forall>(r, h)\<in>set reps. bt_get (ph_current_streams hub) r = None"
  shows "install_replacements reps hub =
    hub\<lparr>ph_current_streams := bt_extend fst snd (ph_current_streams hub) reps\<rparr>"
  using assms
proof (induction reps arbitrary: hub)
  case Nil
  then show ?case by (simp add: install_replacements_def bt_extend_def)
next
  case (Cons e reps)
  obtain r h where e: "e = (r, h)" by fastforce
  let ?hub = "hub\<lparr>ph_current_streams := bt_insert r h (ph_current_streams hub)\<rparr>"
  have "install_replacements (e # reps) hub = install_replacements reps ?hub"
    using Cons.prems e by (simp add: install_replacements_def)
  also have "\<dots> = ?hub\<lparr>ph_current_streams := bt_extend fst snd (ph_current_streams ?hub) reps\<rparr>"
    by (rule Cons.IH) (use Cons.prems e in \<open>force+\<close>)
  finally show ?case using e by (simp add: bt_extend_def)
qed

text \<open>The effect of a switch on the route maps, without the lists.\<close>

definition handle_tag :: "LiveStreamHandle \<Rightarrow> PublicStreamRoute \<times> PublicSubscription" where
  "handle_tag h = (lh_route h, lh_subscription h)"

definition stale :: "(PublicStreamRoute \<Rightarrow> PublicSubscription option) \<Rightarrow> (PublicStreamRoute \<Rightarrow> PublicSubscription option)
    \<Rightarrow> PublicStreamRoute \<Rightarrow> bool" where
  "stale current desired r \<longleftrightarrow> (\<exists>s. current r = Some s \<and> desired r \<noteq> Some s)"

lemma switch_match:
  assumes "\<forall>r. map_option handle_tag (streams r) = map_option (Pair r) (current r)"
    and "\<forall>r. map_option handle_tag (fresh r) =
      (case desired r of None \<Rightarrow> None | Some s \<Rightarrow> if current r = Some s then None else Some (r, s))"
  shows "map_option handle_tag (((\<lambda>r. if stale current desired r then None else streams r) ++ fresh) r) =
      map_option (Pair r) (desired r) \<and>
    (fresh r \<noteq> None \<longrightarrow> (if stale current desired r then None else streams r) = None)"
  using assms(1) [rule_format, of r] assms(2) [rule_format, of r]
  by (cases "current r"; cases "desired r"; cases "fresh r")
    (auto simp: map_add_def stale_def split: if_splits)

lemma match_stream_route:
  "\<forall>r. map_option handle_tag (streams r) = map_option (Pair r) (current r) \<Longrightarrow>
    streams r = Some h \<Longrightarrow> lh_route h = r"
  by (drule spec [of _ r]) (auto simp: handle_tag_def map_option_case split: option.splits)

lemma ran_disjoint_add:
  assumes "\<And>r. g r \<noteq> None \<Longrightarrow> f r = None"
  shows "ran (f ++ g) = ran f \<union> ran g"
proof -
  have "g r = None" if "f r = Some x" for r x using assms [of r] that by fastforce
  then show ?thesis by (fastforce simp: ran_def map_add_Some_iff)
qed

lemma distinct_same_id: "distinct (map lh_id xs) \<Longrightarrow> x \<in> set xs \<Longrightarrow> y \<in> set xs \<Longrightarrow> lh_id x = lh_id y \<Longrightarrow> x = y"
  by (simp add: distinct_map inj_on_def)

lemma bt_get_extend_map:
  assumes "bt_wf m" and "distinct (map fst reps)"
  shows "bt_get (bt_extend fst snd m reps) = bt_get m ++ map_of reps"
proof
  fix r
  show "bt_get (bt_extend fst snd m reps) r = (bt_get m ++ map_of reps) r"
  proof (cases "map_of reps r")
    case None
    then have "find (\<lambda>x. fst x = r) (rev reps) = None"
      by (force simp: find_None_iff map_of_eq_None_iff)
    with None assms(1) show ?thesis by (simp add: bt_get_extend map_add_def)
  next
    case (Some h)
    then have "(r, h) \<in> set reps" by (rule map_of_SomeD)
    from find_rev_distinct [OF assms(2) this] Some assms(1) show ?thesis
      by (simp add: bt_get_extend map_add_def)
  qed
qed

definition hub_core :: "PublicHub \<Rightarrow> bool" where
  "hub_core hub \<longleftrightarrow>
     bt_wf (ph_current_subscriptions hub) \<and> bt_wf (ph_current_streams hub) \<and>
     (\<forall>r. map_option handle_tag (bt_get (ph_current_streams hub) r) =
        map_option (Pair r) (bt_get (ph_current_subscriptions hub) r)) \<and>
     handles_fresh hub \<and> set (ph_running hub) = ran (bt_get (ph_current_streams hub))"

lemma replacement_map:
  assumes reps: "map (\<lambda>(r, h). (r, lh_subscription h)) reps =
      filter (\<lambda>(r, s). current r \<noteq> Some s) desired"
    and "list_all (\<lambda>(r, h). lh_route h = r) reps" and wf: "bt_wf desired"
  shows "distinct (map fst reps)"
    and "map_option handle_tag (map_of reps r) =
      (case bt_get desired r of None \<Rightarrow> None | Some s \<Rightarrow> if current r = Some s then None else Some (r, s))"
proof -
  have "map fst reps = map fst (map (\<lambda>(r, h). (r, lh_subscription h)) reps)" by (induction reps) auto
  also have "\<dots> = map fst (filter (\<lambda>(r, s). current r \<noteq> Some s) desired)" by (simp only: reps)
  finally have keys: "map fst reps = map fst (filter (\<lambda>(r, s). current r \<noteq> Some s) desired)" .
  have "distinct (map fst desired)" using bt.distinct_keys [OF wf] by (simp add: bt_keys_def)
  then show "distinct (map fst reps)" unfolding keys by (rule distinct_map_filter)
  have "map_option lh_subscription (map_of reps r) = map_of (map (\<lambda>(r, h). (r, lh_subscription h)) reps) r"
    by (induction reps) auto
  also have "\<dots> = bt_get (filter (\<lambda>(r, s). current r \<noteq> Some s) desired) r" by (simp only: reps bt_get_def)
  also have "\<dots> = (case bt_get desired r of None \<Rightarrow> None | Some s \<Rightarrow> if current r = Some s then None else Some s)"
    by (simp add: bt_get_filter [OF wf] split: option.split)
  finally have sub: "map_option lh_subscription (map_of reps r) =
    (case bt_get desired r of None \<Rightarrow> None | Some s \<Rightarrow> if current r = Some s then None else Some s)" .
  show "map_option handle_tag (map_of reps r) =
      (case bt_get desired r of None \<Rightarrow> None | Some s \<Rightarrow> if current r = Some s then None else Some (r, s))"
  proof (cases "map_of reps r")
    case None
    with sub show ?thesis by (auto split: option.splits)
  next
    case (Some h)
    then have "lh_route h = r" using assms(2) by (auto simp: list_all_iff dest!: map_of_SomeD)
    with Some sub show ?thesis by (auto simp: handle_tag_def split: option.splits if_splits)
  qed
qed

lemma switch_Err:
  assumes "hub_core hub" and "switch_public_stream spawn desired hub = (Inl f, hub1)"
  shows "hub1 = hub\<lparr>ph_spawned := ph_spawned hub1\<rparr> \<and> ph_spawned hub \<le> ph_spawned hub1"
proof -
  have "spawn_replacements spawn desired [] hub = (Inl f, hub1)"
    using assms(2) by (auto simp: switch_public_stream_def Let_def split: if_splits prod.splits sum.splits)
  from spawn_replacements_Err [OF this, of "ph_running hub"] assms(1) show ?thesis
    by (simp add: hub_core_def)
qed

lemma stale_routes:
  assumes "bt_wf current"
  shows "r \<in> set (map fst (filter (\<lambda>(r, s). bt_get desired r \<noteq> Some s) current)) \<longleftrightarrow>
    stale (bt_get current) (bt_get desired) r"
proof -
  have "distinct (map fst current)" using bt.distinct_keys [OF assms] by (simp add: bt_keys_def)
  then have "(r, s) \<in> set current \<longleftrightarrow> bt_get current r = Some s" for s
    by (simp add: bt_get_def)
  then show ?thesis by (force simp: stale_def)
qed

lemma switch_running:
  assumes core: "hub_core hub"
    and fresh: "handles_fresh (hub\<lparr>ph_running := ph_running hub @ map snd reps, ph_spawned := n\<rparr>)"
    and reps: "distinct (map fst reps)"
  shows "{h \<in> set (ph_running hub @ map snd reps).
      \<forall>r\<in>{r. stale c d r}. \<forall>x. bt_get (ph_current_streams hub) r = Some x \<longrightarrow> lh_id x \<noteq> lh_id h} =
    ran (\<lambda>r. if stale c d r then None else bt_get (ph_current_streams hub) r) \<union> ran (map_of reps)"
    (is "?left = ?right")
proof (intro set_eqI iffI)
  let ?streams = "bt_get (ph_current_streams hub)"
  have ids: "distinct (map lh_id (ph_running hub @ map snd reps))" using fresh by (simp add: handles_fresh_def)
  have run: "set (ph_running hub) = ran ?streams" using core by (simp add: hub_core_def)
  have route: "lh_route h = r" if "?streams r = Some h" for r h
    using core that by (auto simp: hub_core_def intro: match_stream_route)
  have rans: "ran (map_of reps) = set (map snd reps)" using reps by (simp add: ran_distinct)
  fix h
  {
    assume "h \<in> ?left"
    then consider (old) r where "?streams r = Some h" "\<not> stale c d r" | (new) "h \<in> set (map snd reps)"
      using run by (auto simp: ran_def) metis
    then show "h \<in> ?right" using rans by cases (auto simp: ran_def)
  next
    assume "h \<in> ?right"
    then consider (old) r where "?streams r = Some h" "\<not> stale c d r" | (new) "h \<in> set (map snd reps)"
      using rans by (auto simp: ran_def split: if_splits)
    then show "h \<in> ?left"
    proof cases
      case old
      moreover from this run have "h \<in> set (ph_running hub)" by (auto intro: ranI)
      moreover have "lh_id x \<noteq> lh_id h" if "stale c d q" "?streams q = Some x" for q x
      proof
        assume "lh_id x = lh_id h"
        moreover have "x \<in> set (ph_running hub)" using that(2) run by (auto intro: ranI)
        ultimately have "x = h" using ids \<open>h \<in> set (ph_running hub)\<close> by (intro distinct_same_id) auto
        with route [OF that(2)] route [OF old(1)] that(1) old(2) show False by simp
      qed
      ultimately show ?thesis by auto
    next
      case new
      moreover have "lh_id x \<noteq> lh_id h" if "?streams q = Some x" for q x
      proof -
        have "x \<in> set (ph_running hub)" using that run by (auto intro: ranI)
        with new ids show ?thesis by (auto simp: disjoint_iff)
      qed
      ultimately show ?thesis by auto
    qed
  }
qed

lemma switch_Ok:
  assumes core: "hub_core hub" and wf: "bt_wf desired"
    and switch: "switch_public_stream spawn desired hub = (Ok u, hub')"
  shows "hub_core hub' \<and> ph_current_subscriptions hub' = desired \<and> ph_active hub' = ph_active hub"
proof (cases "ph_current_subscriptions hub = desired")
  case True
  with assms show ?thesis by (simp add: switch_public_stream_def)
next
  case False
  let ?current = "bt_get (ph_current_subscriptions hub)" and ?streams = "bt_get (ph_current_streams hub)"
  from False switch obtain reps hub1 where spawn: "spawn_replacements spawn desired [] hub = (Ok reps, hub1)"
    and hub': "hub' = (install_replacements reps (remove_stale
        (map fst (filter (\<lambda>(r, s). bt_get desired r \<noteq> Some s) (ph_current_subscriptions hub1))) hub1))
        \<lparr>ph_current_subscriptions := desired\<rparr>"
    by (auto simp: switch_public_stream_def Let_def split: prod.splits sum.splits)
  note spec = spawn_replacements_Ok [OF spawn, of "ph_running hub"]
  have fresh: "handles_fresh hub" and wfs: "bt_wf (ph_current_streams hub)" "bt_wf (ph_current_subscriptions hub)"
    and match: "\<forall>r. map_option handle_tag (?streams r) = map_option (Pair r) (?current r)"
    using core by (simp_all add: hub_core_def)
  define n where "n = ph_spawned hub1"
  have hub1: "hub1 = hub\<lparr>ph_running := ph_running hub @ map snd reps, ph_spawned := n\<rparr>"
    and fresh1: "handles_fresh hub1"
    and sub: "map (\<lambda>(r, h). (r, lh_subscription h)) reps = filter (\<lambda>(r, s). ?current r \<noteq> Some s) desired"
    and routes: "list_all (\<lambda>(r, h). lh_route h = r) reps"
    using spec fresh by (simp_all add: n_def)
  note reps = replacement_map [OF sub routes wf]
  note match' = switch_match [OF match, of "map_of reps" "bt_get desired", rule_format, OF reps(2)]
  define st where "st = map fst (filter (\<lambda>(r, s). bt_get desired r \<noteq> Some s) (ph_current_subscriptions hub))"
  have stale: "r \<in> set st \<longleftrightarrow> stale ?current (bt_get desired) r" for r
    unfolding st_def by (rule stale_routes) (rule wfs)
  define hub2 where "hub2 = remove_stale st hub1"
  have wf1: "bt_wf (ph_current_streams hub1)" and subs1: "ph_current_subscriptions hub1 = ph_current_subscriptions hub"
    and streams1: "ph_current_streams hub1 = ph_current_streams hub" using wfs by (simp_all add: hub1)
  note removed = remove_stale_spec [OF wf1, of st, folded hub2_def, unfolded stale streams1]
  have get2: "bt_get (ph_current_streams hub2) = (\<lambda>r. if stale ?current (bt_get desired) r then None else ?streams r)"
    and wf2: "bt_wf (ph_current_streams hub2)" using removed by blast+
  have hub2: "hub2 = hub1\<lparr>ph_current_streams := ph_current_streams hub2, ph_running :=
      filter (\<lambda>h. \<forall>r\<in>{r. stale ?current (bt_get desired) r}. \<forall>x. ?streams r = Some x \<longrightarrow> lh_id x \<noteq> lh_id h) (ph_running hub1)\<rparr>"
    using removed by (simp only: Ball_def mem_Collect_eq stale)
  have run2: "ph_running hub2 = filter (\<lambda>h. \<forall>r\<in>{r. stale ?current (bt_get desired) r}. \<forall>x. ?streams r = Some x \<longrightarrow> lh_id x \<noteq> lh_id h) (ph_running hub1)"
    and same2: "ph_spawned hub2 = ph_spawned hub1" "ph_active hub2 = ph_active hub"
    by (subst hub2, simp add: hub1)+
  have none: "\<forall>(r, h)\<in>set reps. bt_get (ph_current_streams hub2) r = None"
    using match' reps(1) by (auto simp: get2)
  have hub': "hub' = hub2\<lparr>ph_current_streams := bt_extend fst snd (ph_current_streams hub2) reps,
      ph_current_subscriptions := desired\<rparr>"
    using hub' install_replacements_spec [OF reps(1) none] by (simp add: hub2_def st_def subs1)
  have get': "bt_get (ph_current_streams hub') = bt_get (ph_current_streams hub2) ++ map_of reps"
    by (simp add: hub' bt_get_extend_map [OF wf2 reps(1)])
  have "set (ph_running hub') = {h \<in> set (ph_running hub @ map snd reps).
      \<forall>r\<in>{r. stale ?current (bt_get desired) r}. \<forall>x. ?streams r = Some x \<longrightarrow> lh_id x \<noteq> lh_id h}"
    by (simp add: hub' run2 hub1) blast
  also have "\<dots> = ran (bt_get (ph_current_streams hub2)) \<union> ran (map_of reps)"
    using switch_running [OF core fresh1 [unfolded hub1] reps(1)] by (simp only: get2)
  also have "\<dots> = ran (bt_get (ph_current_streams hub'))"
    unfolding get' by (rule ran_disjoint_add [symmetric]) (use match' in \<open>auto simp: get2\<close>)
  finally have run': "set (ph_running hub') = ran (bt_get (ph_current_streams hub'))" .
  have "handles_fresh hub'"
    using fresh1 by (auto simp: handles_fresh_def distinct_map_filter hub' run2 same2)
  then have "hub_core hub'"
    using wf wf2 match' run' get' by (simp add: hub_core_def get2) (simp add: hub')
  moreover have "ph_active hub' = ph_active hub" by (simp add: hub' same2)
  ultimately show ?thesis by (simp add: hub')
qed

subsection \<open>The hub as a machine\<close>

text \<open>
  The invariant: the recorded streams carry the recorded subscriptions, one per route; the
  tasks that run are exactly the recorded streams; every lease gets everything it asked for.
\<close>

definition hub_inv :: "PublicHub \<Rightarrow> bool" where
  "hub_inv hub \<longleftrightarrow> bt_wf (ph_active hub) \<and> hub_core hub \<and>
     (ph_active hub = [] \<longrightarrow> ph_current_subscriptions hub = []) \<and>
     (\<forall>s\<in>set (bt_values (ph_active hub)). feeds s \<subseteq> routed_feeds (ph_current_subscriptions hub))"

definition hub_step :: "Venue \<Rightarrow> PublicHub \<Rightarrow> spawn_env \<times> PublicHubCommand \<Rightarrow> PublicHub" where
  "hub_step venue hub c = snd (run_public_hub venue (fst c) (snd c) hub)"

lemma hub_core_active [simp]: "hub_core (hub\<lparr>ph_active := a\<rparr>) = hub_core hub"
  by (simp add: hub_core_def handles_fresh_def)

lemma hub_core_spawned: "hub_core hub \<Longrightarrow> ph_spawned hub \<le> n \<Longrightarrow> hub_core (hub\<lparr>ph_spawned := n\<rparr>)"
  by (fastforce simp: hub_core_def handles_fresh_def)

lemma bt_insert_not_Nil [simp]: "bt_insert k v m \<noteq> []"
  by (cases m) auto

lemma route_nothing: "route_public_subscriptions venue (bt_values []) = []"
  by (simp add: route_public_subscriptions_def merge_public_subscriptions_def bt_values_def)

lemma switch_to_nothing: "fst (switch_public_stream spawn [] hub) = Ok ()"
  by (simp add: switch_public_stream_def Let_def)

lemma values_remove: "bt_wf m \<Longrightarrow> set (bt_values (bt_remove k m)) \<subseteq> set (bt_values m)"
  by (auto simp: bt_remove_def bt_values_def)

lemma acquire_Ok:
  assumes "hub_inv hub"
    and "run_public_hub venue spawn (PublicAcquire lease s) hub = (Some (Ok u), hub')"
  shows "hub_inv hub' \<and> ph_active hub' = bt_insert lease s (ph_active hub) \<and>
    ph_current_subscriptions hub' = route_public_subscriptions venue (bt_values (ph_active hub'))"
proof -
  let ?c = "bt_insert lease s (ph_active hub)"
  from assms(2) obtain hub1 where
    switch: "switch_public_stream spawn (route_public_subscriptions venue (bt_values ?c)) hub = (Ok (), hub1)"
    and hub': "hub' = hub1\<lparr>ph_active := ?c\<rparr>"
    by (auto simp: run_public_hub_def Let_def split: prod.splits sum.splits)
  from switch_Ok [OF _ route_wf switch] assms(1)
  have "hub_core hub1 \<and> ph_current_subscriptions hub1 = route_public_subscriptions venue (bt_values ?c)"
    by (simp add: hub_inv_def)
  with assms(1) show ?thesis
    by (auto simp: hub_inv_def hub' dest: subsetD [OF feeds_covered])
qed

lemma acquire_Err:
  assumes "hub_inv hub"
    and "run_public_hub venue spawn (PublicAcquire lease s) hub = (Some (Inl f), hub')"
  shows "hub_inv hub' \<and> hub' = hub\<lparr>ph_spawned := ph_spawned hub'\<rparr>"
proof -
  from assms(2) have switch: "switch_public_stream spawn
      (route_public_subscriptions venue (bt_values (bt_insert lease s (ph_active hub)))) hub = (Inl f, hub')"
    by (auto simp: run_public_hub_def Let_def split: prod.splits sum.splits)
  from switch_Err [OF _ switch] assms(1) have same: "hub' = hub\<lparr>ph_spawned := ph_spawned hub'\<rparr>"
    "ph_spawned hub \<le> ph_spawned hub'" by (simp_all add: hub_inv_def)
  have "hub_inv (hub\<lparr>ph_spawned := ph_spawned hub'\<rparr>)"
    using assms(1) hub_core_spawned [OF _ same(2)] by (simp add: hub_inv_def)
  with same(1) show ?thesis by simp
qed

lemma release_inv:
  assumes "hub_inv hub"
  shows "hub_inv (snd (run_public_hub venue spawn (PublicRelease lease) hub)) \<and>
    ph_active (snd (run_public_hub venue spawn (PublicRelease lease) hub)) = bt_remove lease (ph_active hub)"
proof (cases "bt_get (ph_active hub) lease = None")
  case True
  then have "bt_remove lease (ph_active hub) = ph_active hub"
    by (auto simp: bt_remove_def bt_get_def map_of_eq_None_iff filter_id_conv)
  with True assms show ?thesis by (simp add: run_public_hub_def)
next
  case False
  let ?hub0 = "hub\<lparr>ph_active := bt_remove lease (ph_active hub)\<rparr>"
  let ?desired = "route_public_subscriptions venue (bt_values (ph_active ?hub0))"
  have core: "hub_core ?hub0" using assms by (simp add: hub_inv_def)
  obtain r hub1 where switch: "switch_public_stream spawn ?desired ?hub0 = (r, hub1)" by fastforce
  have run: "snd (run_public_hub venue spawn (PublicRelease lease) hub) = hub1"
    using False switch by (auto simp: run_public_hub_def Let_def)
  have wf0: "bt_wf (ph_active ?hub0)"
    and covered0: "\<forall>s\<in>set (bt_values (ph_active ?hub0)). feeds s \<subseteq> routed_feeds (ph_current_subscriptions ?hub0)"
    using assms values_remove [of "ph_active hub" lease] by (auto simp: hub_inv_def)
  show ?thesis
  proof (cases r)
    case (Inl f)
    with switch have "switch_public_stream spawn ?desired ?hub0 = (Inl f, hub1)" by simp
    note same = switch_Err [OF core this]
    have "ph_active ?hub0 \<noteq> []"
    proof
      assume "ph_active ?hub0 = []"
      with switch_to_nothing [of spawn ?hub0] switch Inl show False by (simp add: route_nothing)
    qed
    moreover have "hub_core (?hub0\<lparr>ph_spawned := ph_spawned hub1\<rparr>)"
      by (rule hub_core_spawned [OF core]) (rule conjunct2 [OF same])
    ultimately have "hub_inv (?hub0\<lparr>ph_spawned := ph_spawned hub1\<rparr>)"
      using wf0 covered0 by (simp add: hub_inv_def)
    moreover have "ph_active hub1 = bt_remove lease (ph_active hub)" 
      using arg_cong [OF conjunct1 [OF same], of ph_active] by simp
    ultimately show ?thesis using same by (simp only: run)
  next
    case (Inr u)
    with switch have "switch_public_stream spawn ?desired ?hub0 = (Ok u, hub1)" by simp
    from switch_Ok [OF core route_wf this] have "hub_core hub1" "ph_current_subscriptions hub1 = ?desired"
      "ph_active hub1 = bt_remove lease (ph_active hub)" by simp_all
    with wf0 show ?thesis
      by (auto simp: run hub_inv_def route_nothing dest: subsetD [OF feeds_covered])
  qed
qed

lemma hub_step_inv: "hub_inv hub \<Longrightarrow> hub_inv (hub_step venue hub c)"
proof -
  assume inv: "hub_inv hub"
  obtain spawn command where c: "c = (spawn, command)" by fastforce
  show ?thesis
  proof (cases command)
    case (PublicAcquire lease s)
    have "\<exists>r hub'. run_public_hub venue spawn (PublicAcquire lease s) hub = (Some r, hub')"
      by (auto simp: run_public_hub_def Let_def split: prod.split sum.split)
    then obtain r hub' where run: "run_public_hub venue spawn (PublicAcquire lease s) hub = (Some r, hub')" by blast
    with acquire_Ok [OF inv] acquire_Err [OF inv] PublicAcquire c show ?thesis
      by (cases r) (auto simp: hub_step_def)
  next
    case (PublicRelease lease)
    with release_inv [OF inv] c show ?thesis by (simp add: hub_step_def)
  qed
qed

interpretation public_hub: reactive_machine "hub_step venue" hub_inv for venue
  by unfold_locales (rule hub_step_inv)

lemma public_hub_new_inv: "hub_inv public_hub_new"
  by (simp add: hub_inv_def hub_core_def handles_fresh_def public_hub_new_def bt_values_def ran_def)

lemma core_feeds:
  assumes "hub_core hub"
  shows "routed_feeds (ph_current_subscriptions hub) = (\<Union>h\<in>set (ph_running hub). feeds (lh_subscription h))"
proof -
  let ?streams = "bt_get (ph_current_streams hub)" and ?subs = "bt_get (ph_current_subscriptions hub)"
  have match: "map_option handle_tag (?streams r) = map_option (Pair r) (?subs r)" for r
    using assms by (simp add: hub_core_def)
  have to_sub: "?subs r = Some (lh_subscription h)" if "?streams r = Some h" for r h
    using match [of r] that by (cases "?subs r") (auto simp: handle_tag_def)
  have to_stream: "\<exists>h. ?streams r = Some h \<and> lh_subscription h = s" if "?subs r = Some s" for r s
    using match [of r] that by (cases "?streams r") (auto simp: handle_tag_def)
  have "ran ?subs = lh_subscription ` ran ?streams"
    by (auto simp: ran_def image_iff dest!: to_stream dest: to_sub)
  moreover have "set (bt_values (ph_current_subscriptions hub)) = ran ?subs"
    using assms by (auto simp: hub_core_def bt.vals_iff ran_def)
  moreover have "set (ph_running hub) = ran ?streams" using assms by (simp add: hub_core_def)
  ultimately have "set (bt_values (ph_current_subscriptions hub)) = lh_subscription ` set (ph_running hub)"
    by simp
  then show ?thesis by (simp add: routed_feeds_def)
qed

section \<open>Properties\<close>


text \<open>
  A hub without leases keeps no connection open, and closing a hub stops every task.
\<close>

theorem idle_hub_is_silent:
  "let hub = foldl (hub_step venue) public_hub_new commands in
   (if ph_active hub = [] then ph_running hub = [] \<and> ph_current_streams hub = [] else True) \<and>
   ph_running (close_public_hub hub) = []"
proof -
  let ?hub = "foldl (hub_step venue) public_hub_new commands"
  have inv: "hub_inv ?hub" by (rule public_hub.run_keeps) (rule public_hub_new_inv)
  then have core: "hub_core ?hub" by (simp add: hub_inv_def)
  then have run: "set (ph_running ?hub) = set (bt_values (ph_current_streams ?hub))"
    by (auto simp: hub_core_def bt.vals_iff ran_def)
  then have "ph_running (close_public_hub ?hub) = []"
    by (auto simp: close_public_hub_def abort_all_running filter_empty_conv)
  moreover have "ph_current_streams ?hub = []" if "ph_current_subscriptions ?hub = []"
    using core that bt.keys_dom [of "ph_current_streams ?hub"]
    by (auto simp: hub_core_def bt_keys_def dom_def)
  ultimately show ?thesis using inv run by (auto simp: Let_def hub_inv_def bt_values_def)
qed


text \<open>
  Merging and routing lose no topic and invent none beyond the product of the merged
  instruments and topics; on Binance the market and the public websocket never carry the same
  feed.
\<close>

theorem routing_is_lossless:
  "routed_feeds (route_public_subscriptions venue subs) =
     (\<Union>s\<in>set subs. set (ps_instrument_ids s)) \<times> (\<Union>s\<in>set subs. subscription_topics s) \<and>
   (case (bt_get (route_public_subscriptions Binance subs) BinanceMarket,
          bt_get (route_public_subscriptions Binance subs) BinancePublic) of
      (Some m, Some p) \<Rightarrow> feeds m \<inter> feeds p = {}
    | _ \<Rightarrow> True)"
proof -
  have "feeds m \<inter> feeds p = {}"
    if "bt_get (route_public_subscriptions Binance subs) BinanceMarket = Some m"
      and "bt_get (route_public_subscriptions Binance subs) BinancePublic = Some p" for m p
    using that split_market_topics split_public_topics
    by (fastforce simp: route_public_subscriptions_def feeds_def split: option.splits)
  then show ?thesis by (auto simp: route_feeds split: option.split)
qed

definition private_hub_step :: "PrivateHub \<Rightarrow> MarketError option \<times> PrivateHubCommand \<Rightarrow> PrivateHub" where
  "private_hub_step hub c = snd (run_private_hub (fst c) (snd c) hub)"

definition private_hub_inv :: "PrivateHub \<Rightarrow> bool" where
  "private_hub_inv hub \<longleftrightarrow>
     (vh_current_stream hub = None \<longleftrightarrow> vh_active hub = []) \<and>
     vh_running hub = (case vh_current_stream hub of None \<Rightarrow> [] | Some h \<Rightarrow> [h])"

lemma insort_insert_not_Nil: "insort_insert x xs \<noteq> []"
  using set_insort_insert [of x xs] by auto

interpretation private_hub: reactive_machine private_hub_step private_hub_inv
proof
  fix hub c
  assume "private_hub_inv hub"
  then show "private_hub_inv (private_hub_step hub c)"
    by (cases "snd c")
      (auto simp: private_hub_inv_def private_hub_step_def run_private_hub_def Let_def
        insort_insert_not_Nil split: option.splits)
qed

text \<open>
  The private stream runs exactly while some lease is held: after any sequence of commands
  and connection outcomes there is a current stream iff a lease is active, and no other
  private task runs.
\<close>

theorem private_stream_iff_leases:
  "let hub = foldl private_hub_step private_hub_new commands in
   (vh_current_stream hub = None \<longleftrightarrow> vh_active hub = []) \<and>
   vh_running hub = (case vh_current_stream hub of None \<Rightarrow> [] | Some h \<Rightarrow> [h])"
proof -
  have "private_hub_inv (foldl private_hub_step private_hub_new commands)"
    by (rule private_hub.run_keeps) (simp add: private_hub_inv_def private_hub_new_def)
  then show ?thesis by (simp add: Let_def private_hub_inv_def)
qed

end
