(* ===== verification/Streams.thy ===== *)
theory Streams
  imports Adapters Commands Subscriptions
begin

text \<open>
  The public and private websocket streams of \<^verbatim>\<open>bat-markets/src/runtime.rs\<close>: what each venue's
  stream subscribes to, what it does with every frame and timer, and the reconnect loops around
  them.

  A stream task waits in \<^verbatim>\<open>tokio::select!\<close>.  Which branch becomes ready next and when is decided
  outside the task, so a connection is described by a \<open>StreamAttempt\<close>: the outcomes of connecting
  and sending, and the sequence of inputs the select loop sees, each with the instants at which
  it is taken up and finished.  Instants and durations are natural numbers of nanoseconds.
\<close>

section \<open>Inputs and sessions\<close>

datatype WsMessage =
    StreamClosed
  | ReadFailed string
  | TextFrame string
  | PingFrame
  | PongFrame
  | BinaryFrame
  | CloseFrame

text \<open>A branch of the select loop; a ping tick carries the error of sending the ping, if any.\<close>

datatype StreamEvent =
    ShutdownRequested
  | PingTick "string option"
  | PollTick
  | KeepaliveTick
  | MaintenanceTick
  | Received WsMessage

record StreamInput =
  si_begin :: nat
  si_end :: nat
  si_event :: StreamEvent

record StreamAttempt =
  sa_connect :: "string \<Rightarrow> string option"
  sa_send :: "string \<Rightarrow> string option"
  sa_opened_at :: nat
  sa_inputs :: "StreamInput list"

text \<open>
  The local variables of a stream function: the time of the last frame, of the last periodic
  refresh or reconciliation, and the sequence tracker.
\<close>

record StreamSession =
  ss_last_frame_at :: nat
  ss_last_periodic :: nat
  ss_sequence :: SequenceTracker

definition session_opened :: "StreamAttempt \<Rightarrow> StreamSession" where
  "session_opened attempt =
     \<lparr>ss_last_frame_at = sa_opened_at attempt, ss_last_periodic = sa_opened_at attempt, ss_sequence = []\<rparr>"

definition from_millis :: "u64 \<Rightarrow> nat" where
  "from_millis ms = unat ms * 1000000"

text \<open>
  A stream's loop body: \<open>None\<close> when the function returns \<^verbatim>\<open>Ok(())\<close>, the variables for the next
  round otherwise.
\<close>

type_synonym 'd stream_step = "StreamInput \<Rightarrow> StreamSession \<Rightarrow> ('d, StreamSession option) rt"

text \<open>\<^verbatim>\<open>Some ()\<close> for a stream that returned, \<open>None\<close> for one that waits for its next input.\<close>

fun run_inputs :: "'d stream_step \<Rightarrow> StreamInput list \<Rightarrow> StreamSession \<Rightarrow> ('d, unit option) rt" where
  "run_inputs step [] sess = rt_return None"
| "run_inputs step (i # rest) sess =
     rt_bind (step i sess) (\<lambda>next.
       case next of None \<Rightarrow> rt_return (Some ()) | Some sess' \<Rightarrow> run_inputs step rest sess')"

section \<open>Shared pieces\<close>

abbreviation venue_of :: "'d LiveContext \<Rightarrow> Venue" where
  "venue_of ctx \<equiv> cfg_venue (lc_config ctx)"

text \<open>\<^verbatim>\<open>let _ = action.await\<close>: an error is dropped, a panic is not.\<close>

definition rt_ignore :: "('d, 'a) rt \<Rightarrow> ('d, unit) rt" where
  "rt_ignore m s =
     (case m s of (Inl Panicked, s') \<Rightarrow> (Panic, s') | (_, s') \<Rightarrow> (Ok (), s'))"

definition rt_public_event :: "'d LiveContext \<Rightarrow> 'd PublicLaneEvent \<Rightarrow> ('d, unit) rt" where
  "rt_public_event ctx e s =
     (case shared_apply_public_event (lc_decimal ctx) e (lr_shared s) of (r, sh) \<Rightarrow> (r, s\<lparr>lr_shared := sh\<rparr>))"

definition rt_public_events :: "'d LiveContext \<Rightarrow> 'd PublicLaneEvent list \<Rightarrow> ('d, unit) rt" where
  "rt_public_events ctx es s =
     (case apply_public_events (lc_decimal ctx) es (lr_shared s) of (r, sh) \<Rightarrow> (r, s\<lparr>lr_shared := sh\<rparr>))"

definition rt_private_events :: "'d PrivateLaneEvent list \<Rightarrow> ('d, unit) rt" where
  "rt_private_events es s = (Ok (), s\<lparr>lr_shared := apply_private_events es (lr_shared s)\<rparr>)"

definition ws_outcome :: "'d LiveContext \<Rightarrow> string \<Rightarrow> string option \<Rightarrow> ('d, unit) rt" where
  "ws_outcome ctx operation outcome =
     (case outcome of
        None \<Rightarrow> rt_return ()
      | Some err \<Rightarrow> rt_lift (Err (transport_error (venue_of ctx) operation err)))"

definition serialize_frame :: "'d LiveContext \<Rightarrow> string \<Rightarrow> Json \<Rightarrow> ('d, string) rt" where
  "serialize_frame ctx what frame =
     rt_lift (case lc_json ctx frame of
        Inl err \<Rightarrow> Err (market_error ConfigError (''failed to serialize '' @ what @ '' frame: '' @ err))
      | Inr payload \<Rightarrow> Ok payload)"

definition sequence_gap_error :: "Venue \<Rightarrow> string \<Rightarrow> i64 option \<Rightarrow> MarketError" where
  "sequence_gap_error venue operation at_value =
     with_retriable True (with_operation operation (with_venue venue LinearUsdt
       (market_error TransportError
         (case at_value of
            Some n \<Rightarrow> ''sequence gap detected near watermark '' @ show_int n
          | None \<Rightarrow> ''sequence gap detected from transport idle or reset''))))"

definition gap_event :: "i64 option \<Rightarrow> DivergenceEvent" where
  "gap_event at_value =
     DivergenceEvent.SequenceGap (map_option (\<lambda>n. SequenceNumber (of_int (max n 0))) at_value)"

definition public_gap :: "'d LiveContext \<Rightarrow> string \<Rightarrow> i64 option \<Rightarrow> ('d, 'a) rt" where
  "public_gap ctx operation at_value =
     rt_bind (rt_public_event ctx (PublicLaneEvent.Divergence (gap_event at_value))) (\<lambda>_.
       rt_lift (Err (sequence_gap_error (venue_of ctx) operation at_value)))"

definition private_gap :: "'d LiveContext \<Rightarrow> string \<Rightarrow> i64 option \<Rightarrow> ('d, 'a) rt" where
  "private_gap ctx operation at_value =
     rt_bind (rt_private_event (PrivateLaneEvent.Divergence (gap_event at_value))) (\<lambda>_.
       rt_lift (Err (sequence_gap_error (venue_of ctx) operation at_value)))"

text \<open>The loop over a frame's observations: the first gap ends the stream.\<close>

fun track :: "(i64 option \<Rightarrow> ('d, SequenceTracker) rt) \<Rightarrow> SequenceObservation list \<Rightarrow> SequenceTracker \<Rightarrow> ('d, SequenceTracker) rt" where
  "track gap [] tracker = rt_return tracker"
| "track gap (seen # rest) tracker =
     (case observe seen tracker of
        (Inl n, _) \<Rightarrow> gap (Some n)
      | (Inr _, tracker') \<Rightarrow> track gap rest tracker')"

definition idle :: "'d LiveContext \<Rightarrow> StreamInput \<Rightarrow> StreamSession \<Rightarrow> bool" where
  "idle ctx input sess \<longleftrightarrow>
     from_millis (max (to_ws_idle_ms (cfg_timeouts (lc_config ctx))) 1) \<le> si_begin input - ss_last_frame_at sess"

definition retained :: "PublicSubscription \<Rightarrow> 'd PublicLaneEvent \<Rightarrow> bool" where
  "retained sub e =
     (case e of
        PublicLaneEvent.Ticker _ \<Rightarrow> ps_ticker sub
      | PublicLaneEvent.Trade _ \<Rightarrow> ps_trades sub
      | PublicLaneEvent.BookTop _ \<Rightarrow> ps_book_top sub
      | PublicLaneEvent.OrderBookDelta _ \<Rightarrow> ps_order_book sub
      | PublicLaneEvent.MarkPrice _ \<Rightarrow> ps_mark_price sub
      | PublicLaneEvent.FundingRate _ \<Rightarrow> ps_funding_rate sub
      | PublicLaneEvent.OpenInterest _ \<Rightarrow> ps_open_interest sub
      | PublicLaneEvent.Liquidation _ \<Rightarrow> ps_liquidations sub
      | PublicLaneEvent.Kline _ \<Rightarrow> ps_kline_intervals sub \<noteq> []
      | PublicLaneEvent.Divergence _ \<Rightarrow> True)"

definition retain_public_events_for_subscription ::
  "PublicSubscription \<Rightarrow> 'd PublicLaneEvent list \<Rightarrow> 'd PublicLaneEvent list" where
  "retain_public_events_for_subscription sub events = filter (retained sub) events"

definition parse_kline_interval :: "string \<Rightarrow> Venue \<Rightarrow> string \<Rightarrow> KlineInterval result" where
  "parse_kline_interval raw venue operation =
     ok_or (with_operation operation (with_venue venue LinearUsdt
         (market_error Unsupported (''unsupported OHLCV interval '' @ quoted raw))))
       (interval_parse raw)"

text \<open>\<^verbatim>\<open>str::to_ascii_lowercase\<close>.\<close>

definition to_ascii_lowercase :: "string \<Rightarrow> string" where
  "to_ascii_lowercase = map (\<lambda>c. let n = of_char c :: nat in if 65 \<le> n \<and> n \<le> 90 then char_of (n + 32) else c)"

text \<open>\<^verbatim>\<open>str::trim_end_matches('/')\<close>.\<close>

definition trim_end_matches :: "char \<Rightarrow> string \<Rightarrow> string" where
  "trim_end_matches c raw = rev (dropWhile (\<lambda>x. x = c) (rev raw))"

section \<open>Open interest\<close>

definition open_interest_of :: "'d PublicLaneEvent \<Rightarrow> 'd OpenInterest option" where
  "open_interest_of e = (case e of PublicLaneEvent.OpenInterest v \<Rightarrow> Some v | _ \<Rightarrow> None)"

definition fetch_open_interest :: "'d LiveContext \<Rightarrow> 'd InstrumentSpec \<Rightarrow> ('d, 'd OpenInterest) rt" where
  "fetch_open_interest ctx spec =
     (case venue_of ctx of
        Binance \<Rightarrow>
          rt_bind (public_get_with_retry ctx ''/fapi/v1/openInterest''
                [(''symbol'', is_native_symbol spec)] ''binance.open_interest'') (\<lambda>payload.
          rt_bind (rt_parse_public ctx payload) (\<lambda>events.
            rt_lift (ok_or (market_error DecodeError ''missing binance open-interest event in snapshot response'')
                (hd_option (List.map_filter open_interest_of events)))))
      | Bybit \<Rightarrow>
          rt_bind (public_get_with_retry ctx ''/v5/market/tickers''
                [(''category'', ''linear''), (''symbol'', is_native_symbol spec)] ''bybit.open_interest'') (\<lambda>payload.
          rt_bind (rt_now ctx) (\<lambda>now.
            rt_parse ctx (\<lambda>p. pa_open_interest p payload spec now)))
      | Mexc \<Rightarrow>
          rt_bind (public_get_with_retry ctx ''/api/v1/contract/ticker''
                [(''symbol'', mexc_wire_symbol spec)] ''mexc.open_interest'') (\<lambda>payload.
          rt_bind (rt_now ctx) (\<lambda>now.
            rt_parse ctx (\<lambda>p. pa_open_interest p payload spec now))))"

definition refresh_open_interest :: "'d LiveContext \<Rightarrow> InstrumentId \<Rightarrow> ('d, 'd OpenInterest) rt" where
  "refresh_open_interest ctx iid =
     rt_bind (require_spec ctx iid) (\<lambda>spec.
     rt_bind (fetch_open_interest ctx spec) (\<lambda>open_interest.
     rt_bind (rt_public_event ctx (PublicLaneEvent.OpenInterest open_interest)) (\<lambda>_.
     rt_bind (rt_write mark_rest_ok) (\<lambda>_.
       rt_return open_interest))))"

definition poll_open_interest :: "'d LiveContext \<Rightarrow> InstrumentId list \<Rightarrow> ('d, unit) rt" where
  "poll_open_interest ctx iids = rt_for iids (\<lambda>iid _. rt_ignore (refresh_open_interest ctx iid)) ()"

section \<open>Binance\<close>

definition binance_mainnet_market_ws_base :: string where
  "binance_mainnet_market_ws_base = ''wss://fstream.binance.com/market/ws''"

definition binance_mainnet_public_ws_base :: string where
  "binance_mainnet_public_ws_base = ''wss://fstream.binance.com/public/ws''"

definition binance_legacy_mainnet_ws_base :: string where
  "binance_legacy_mainnet_ws_base = ''wss://fstream.binance.com/ws''"

definition binance_public_ws_base :: "BatMarketsConfig \<Rightarrow> PublicStreamRoute \<Rightarrow> string" where
  "binance_public_ws_base config route =
     (let configured = ep_public_ws_base (cfg_endpoints config) in
      if ep_sandbox (cfg_endpoints config) then configured
      else if configured \<noteq> binance_mainnet_market_ws_base \<and> configured \<noteq> binance_legacy_mainnet_ws_base
        then configured
      else case route of
          BinancePublic \<Rightarrow> binance_mainnet_public_ws_base
        | DefaultRoute \<Rightarrow> binance_mainnet_market_ws_base
        | BinanceMarket \<Rightarrow> binance_mainnet_market_ws_base)"

definition binance_public_stream_topic_capacity :: "PublicSubscription \<Rightarrow> usize" where
  "binance_public_stream_topic_capacity sub =
     (let per_instrument = length (ps_kline_intervals sub) +
            (if ps_ticker sub then 1 else 0) + (if ps_trades sub then 1 else 0) +
            (if ps_book_top sub then 1 else 0) + (if ps_order_book sub then 1 else 0) +
            (if ps_liquidations sub then 1 else 0) +
            (if ps_mark_price sub \<or> ps_funding_rate sub then 1 else 0) in
      length (ps_instrument_ids sub) * per_instrument)"

text \<open>The candle topics of one instrument, built by \<open>topic\<close> from the parsed interval.\<close>

definition kline_topics ::
  "'d LiveContext \<Rightarrow> string \<Rightarrow> (KlineInterval \<Rightarrow> 'a result) \<Rightarrow> string list \<Rightarrow> ('d, 'a list) rt" where
  "kline_topics ctx operation topic intervals =
     rt_for intervals (\<lambda>raw topics.
       rt_bind (rt_lift (parse_kline_interval raw (venue_of ctx) operation)) (\<lambda>interval.
       rt_bind (rt_lift (topic interval)) (\<lambda>t.
         rt_return (topics @ [t])))) []"

definition binance_public_topics :: "'d LiveContext \<Rightarrow> PublicSubscription \<Rightarrow> ('d, string list) rt" where
  "binance_public_topics ctx sub =
     rt_for (ps_instrument_ids sub) (\<lambda>iid streams.
       rt_bind (require_spec ctx iid) (\<lambda>spec.
       rt_bind (kline_topics ctx ''binance.public_ws.kline_interval''
             (\<lambda>interval. Ok (to_ascii_lowercase (is_native_symbol spec) @ ''@kline_'' @ as_binance_str interval))
             (ps_kline_intervals sub)) (\<lambda>klines.
         let symbol = to_ascii_lowercase (is_native_symbol spec) in
           rt_return (streams @
             (if ps_ticker sub then [symbol @ ''@ticker''] else []) @
             (if ps_trades sub then [symbol @ ''@aggTrade''] else []) @
             (if ps_book_top sub then [symbol @ ''@bookTicker''] else []) @
             (if ps_order_book sub then [symbol @ ''@depth20@100ms''] else []) @
             (if ps_liquidations sub then [symbol @ ''@forceOrder''] else []) @
             (if ps_mark_price sub \<or> ps_funding_rate sub then [symbol @ ''@markPrice@1s''] else []) @
             klines)))) []"

definition is_binance_ack :: "'d LiveContext \<Rightarrow> string \<Rightarrow> bool" where
  "is_binance_ack ctx payload =
     (case lc_parse_json ctx payload of
        Inl _ \<Rightarrow> False
      | Inr v \<Rightarrow> json_get ''result'' v \<noteq> None \<and> json_get ''id'' v \<noteq> None)"

text \<open>
  The maintenance tick of the Binance and Bybit public streams: an idle connection ends with a
  gap, otherwise the metadata is refreshed periodically.
\<close>

definition public_maintenance :: "'d LiveContext \<Rightarrow> string \<Rightarrow> 'd stream_step" where
  "public_maintenance ctx operation input sess =
     (if idle ctx input sess then public_gap ctx operation None
      else case hp_periodic_metadata_refresh_ms (cfg_health (lc_config ctx)) of
          None \<Rightarrow> rt_return (Some sess)
        | Some refresh_ms \<Rightarrow>
            (if from_millis (max refresh_ms 1) \<le> si_begin input - ss_last_periodic sess then
               rt_bind (rt_ignore (sync_server_time ctx)) (\<lambda>_.
               rt_bind (rt_ignore (refresh_metadata ctx)) (\<lambda>_.
                 rt_return (Some (sess\<lparr>ss_last_periodic := si_end input\<rparr>))))
             else rt_return (Some sess)))"

definition binance_public_text :: "'d LiveContext \<Rightarrow> PublicSubscription \<Rightarrow> string \<Rightarrow> 'd stream_step" where
  "binance_public_text ctx sub payload input sess =
     (if is_binance_ack ctx payload then rt_return (Some sess)
      else
        rt_bind (rt_parse ctx (\<lambda>p. pa_public_observations p payload)) (\<lambda>observations.
        rt_bind (track (public_gap ctx ''binance.public_ws.sequence'') observations (ss_sequence sess)) (\<lambda>tracker.
        rt_bind (rt_parse_public ctx payload) (\<lambda>events.
        rt_bind (rt_public_events ctx (retain_public_events_for_subscription sub events)) (\<lambda>_.
          rt_return (Some (sess\<lparr>ss_last_frame_at := si_end input, ss_sequence := tracker\<rparr>)))))))"

definition binance_public_step :: "'d LiveContext \<Rightarrow> PublicSubscription \<Rightarrow> 'd stream_step" where
  "binance_public_step ctx sub input sess =
     (case si_event input of
        ShutdownRequested \<Rightarrow> rt_return None
      | PingTick outcome \<Rightarrow>
          rt_bind (ws_outcome ctx ''binance.public_ws.ping'' outcome) (\<lambda>_.
            rt_return (Some sess))
      | PollTick \<Rightarrow>
          (if ps_open_interest sub then
             rt_bind (poll_open_interest ctx (ps_instrument_ids sub)) (\<lambda>_.
               rt_return (Some sess))
           else rt_return (Some sess))
      | KeepaliveTick \<Rightarrow> rt_return (Some sess)
      | MaintenanceTick \<Rightarrow> public_maintenance ctx ''binance.public_ws.idle'' input sess
      | Received StreamClosed \<Rightarrow> rt_lift (Err (market_error TransportError ''binance public stream closed''))
      | Received (ReadFailed err) \<Rightarrow> rt_lift (Err (transport_error (venue_of ctx) ''binance.public_ws.read'' err))
      | Received (TextFrame payload) \<Rightarrow> binance_public_text ctx sub payload input sess
      | Received _ \<Rightarrow> rt_return (Some sess))"

definition run_binance_public_stream ::
  "'d LiveContext \<Rightarrow> PublicStreamRoute \<Rightarrow> PublicSubscription \<Rightarrow> StreamAttempt \<Rightarrow> ('d, unit option) rt" where
  "run_binance_public_stream ctx route sub attempt =
     rt_bind (binance_public_topics ctx sub) (\<lambda>streams.
     rt_bind (ws_outcome ctx ''binance.public_ws.connect''
           (sa_connect attempt (binance_public_ws_base (lc_config ctx) route))) (\<lambda>_.
     rt_bind (serialize_frame ctx ''binance public subscribe''
           (json_object [(''method'', JString ''SUBSCRIBE''), (''params'', JArray (map JString streams)),
             (''id'', json_i64 1)])) (\<lambda>subscribe.
     rt_bind (ws_outcome ctx ''binance.public_ws.subscribe'' (sa_send attempt subscribe)) (\<lambda>_.
       run_inputs (binance_public_step ctx sub) (sa_inputs attempt) (session_opened attempt)))))"

subsection \<open>The Binance user-data stream\<close>

definition binance_start_listen_key :: "'d LiveContext \<Rightarrow> ('d, string) rt" where
  "binance_start_listen_key ctx =
     rt_bind (rt_lift (require_credentials ctx)) (\<lambda>(api_key, _).
     rt_bind (send_call ctx ''binance.start_listen_key''
           \<lparr>hc_method = ''POST'', hc_url = rest_url ctx ''/fapi/v1/listenKey'',
            hc_headers = [(''X-MBX-APIKEY'', api_key)], hc_body = None\<rparr>) (\<lambda>payload.
     rt_bind (rt_lift (map_err (\<lambda>err. market_error DecodeError
           (''failed to decode binance listen-key response: '' @ err)) (lc_parse_json ctx payload))) (\<lambda>value.
       rt_lift (ok_or (market_error DecodeError ''missing listenKey in binance response'')
           (Option.bind (json_get ''listenKey'' value) json_as_str)))))"

definition binance_keepalive_listen_key :: "'d LiveContext \<Rightarrow> string \<Rightarrow> ('d, unit) rt" where
  "binance_keepalive_listen_key ctx listen_key =
     rt_bind (rt_lift (require_credentials ctx)) (\<lambda>(api_key, _).
     rt_bind (send_call ctx ''binance.keepalive_listen_key''
           \<lparr>hc_method = ''PUT'',
            hc_url = rest_url ctx ''/fapi/v1/listenKey'' @ ''?'' @ lc_urlencode ctx [(''listenKey'', listen_key)],
            hc_headers = [(''X-MBX-APIKEY'', api_key)], hc_body = None\<rparr>) (\<lambda>_.
       rt_return ()))"

text \<open>
  The maintenance tick of every private stream: an idle connection ends with a gap, otherwise
  the age of the private state is recorded and the periodic reconciliation runs when it is due.
\<close>

definition snapshot_age_ms :: "StreamInput \<Rightarrow> StreamSession \<Rightarrow> u64" where
  "snapshot_age_ms input sess =
     of_nat (min ((si_begin input - ss_last_frame_at sess) div 1000000) (2 ^ 64 - 1))"

definition private_maintenance :: "'d LiveContext \<Rightarrow> string \<Rightarrow> 'd stream_step" where
  "private_maintenance ctx operation input sess =
     (if idle ctx input sess then private_gap ctx operation None
      else
        rt_bind (rt_write (engine_mark_snapshot_age (snapshot_age_ms input sess)
              (hp_snapshot_stale_after_ms (cfg_health (lc_config ctx))))) (\<lambda>_.
          case hp_periodic_private_reconcile_ms (cfg_health (lc_config ctx)) of
              None \<Rightarrow> rt_return (Some sess)
            | Some reconcile_ms \<Rightarrow>
                (if from_millis (max reconcile_ms 1) \<le> si_begin input - ss_last_periodic sess then
                   rt_bind (rt_ignore (reconcile_private ctx Periodic)) (\<lambda>_.
                     rt_return (Some (sess\<lparr>ss_last_periodic := si_end input\<rparr>)))
                 else rt_return (Some sess))))"

definition binance_private_text :: "'d LiveContext \<Rightarrow> string \<Rightarrow> 'd stream_step" where
  "binance_private_text ctx payload input sess =
     rt_bind (rt_parse ctx (\<lambda>p. pa_private_observations p payload)) (\<lambda>observations.
     rt_bind (track (private_gap ctx ''binance.private_ws.sequence'') observations (ss_sequence sess)) (\<lambda>tracker.
     rt_bind (rt_parse ctx (\<lambda>p. pa_private p payload)) (\<lambda>events.
     rt_bind (rt_private_events events) (\<lambda>_.
       rt_return (Some (sess\<lparr>ss_last_frame_at := si_end input, ss_sequence := tracker\<rparr>))))))"

definition binance_private_step :: "'d LiveContext \<Rightarrow> string \<Rightarrow> 'd stream_step" where
  "binance_private_step ctx listen_key input sess =
     (case si_event input of
        ShutdownRequested \<Rightarrow> rt_return None
      | PingTick outcome \<Rightarrow>
          rt_bind (ws_outcome ctx ''binance.private_ws.ping'' outcome) (\<lambda>_.
            rt_return (Some sess))
      | PollTick \<Rightarrow> rt_return (Some sess)
      | KeepaliveTick \<Rightarrow>
          rt_bind (rt_ignore (binance_keepalive_listen_key ctx listen_key)) (\<lambda>_.
            rt_return (Some sess))
      | MaintenanceTick \<Rightarrow> private_maintenance ctx ''binance.private_ws.idle'' input sess
      | Received StreamClosed \<Rightarrow> rt_lift (Err (market_error TransportError ''binance private stream closed''))
      | Received (ReadFailed err) \<Rightarrow> rt_lift (Err (transport_error (venue_of ctx) ''binance.private_ws.read'' err))
      | Received (TextFrame payload) \<Rightarrow> binance_private_text ctx payload input sess
      | Received _ \<Rightarrow> rt_return (Some sess))"

definition run_binance_private_stream :: "'d LiveContext \<Rightarrow> StreamAttempt \<Rightarrow> ('d, unit option) rt" where
  "run_binance_private_stream ctx attempt =
     rt_bind (binance_start_listen_key ctx) (\<lambda>listen_key.
     rt_bind (ws_outcome ctx ''binance.private_ws.connect'' (sa_connect attempt
           (trim_end_matches (CHR 0x2F) (ep_private_ws_base (cfg_endpoints (lc_config ctx))) @ ''/'' @ listen_key))) (\<lambda>_.
       run_inputs (binance_private_step ctx listen_key) (sa_inputs attempt) (session_opened attempt)))"

section \<open>Bybit\<close>

definition bybit_public_stream_topic_capacity :: "PublicSubscription \<Rightarrow> usize" where
  "bybit_public_stream_topic_capacity sub =
     (let per_instrument = length (ps_kline_intervals sub) +
            (if ps_ticker sub \<or> ps_mark_price sub \<or> ps_funding_rate sub \<or> ps_open_interest sub then 1 else 0) +
            (if ps_trades sub then 1 else 0) + (if ps_book_top sub then 1 else 0) +
            (if ps_order_book sub then 1 else 0) + (if ps_liquidations sub then 1 else 0) in
      length (ps_instrument_ids sub) * per_instrument)"

definition bybit_public_topics :: "'d LiveContext \<Rightarrow> PublicSubscription \<Rightarrow> ('d, string list) rt" where
  "bybit_public_topics ctx sub =
     rt_for (ps_instrument_ids sub) (\<lambda>iid topics.
       rt_bind (require_spec ctx iid) (\<lambda>spec.
       rt_bind (kline_topics ctx ''bybit.public_ws.kline_interval''
             (\<lambda>interval. Ok (''kline.'' @ as_bybit_str interval @ ''.'' @ is_native_symbol spec))
             (ps_kline_intervals sub)) (\<lambda>klines.
         let symbol = is_native_symbol spec in
           rt_return (topics @
             (if ps_ticker sub \<or> ps_mark_price sub \<or> ps_funding_rate sub \<or> ps_open_interest sub
              then [''tickers.'' @ symbol] else []) @
             (if ps_trades sub then [''publicTrade.'' @ symbol] else []) @
             (if ps_book_top sub then [''orderbook.1.'' @ symbol] else []) @
             (if ps_order_book sub then [''orderbook.50.'' @ symbol] else []) @
             (if ps_liquidations sub then [''allLiquidation.'' @ symbol] else []) @
             klines)))) []"

definition is_bybit_control_message :: "'d LiveContext \<Rightarrow> string \<Rightarrow> bool" where
  "is_bybit_control_message ctx payload =
     (case lc_parse_json ctx payload of
        Inl _ \<Rightarrow> False
      | Inr v \<Rightarrow> json_get ''op'' v \<noteq> None \<and> json_get ''topic'' v = None)"

definition bybit_ping :: "'d LiveContext \<Rightarrow> string \<Rightarrow> string option \<Rightarrow> StreamSession \<Rightarrow> ('d, StreamSession option) rt" where
  "bybit_ping ctx operation outcome sess =
     rt_bind (serialize_frame ctx ''bybit ping'' (json_object [(''op'', JString ''ping'')])) (\<lambda>_.
     rt_bind (ws_outcome ctx operation outcome) (\<lambda>_.
       rt_return (Some sess)))"

text \<open>Every text frame counts as a sign of life on Bybit, before it is looked at.\<close>

definition bybit_public_text :: "'d LiveContext \<Rightarrow> PublicSubscription \<Rightarrow> string \<Rightarrow> 'd stream_step" where
  "bybit_public_text ctx sub payload input sess =
     (let alive = sess\<lparr>ss_last_frame_at := si_begin input\<rparr> in
      if is_bybit_control_message ctx payload then rt_return (Some alive)
      else
        rt_bind (rt_parse ctx (\<lambda>p. pa_public_observations p payload)) (\<lambda>observations.
        rt_bind (track (public_gap ctx ''bybit.public_ws.sequence'') observations (ss_sequence sess)) (\<lambda>tracker.
        rt_bind (rt_parse_public ctx payload) (\<lambda>events.
        rt_bind (rt_public_events ctx (retain_public_events_for_subscription sub events)) (\<lambda>_.
          rt_return (Some (alive\<lparr>ss_sequence := tracker\<rparr>)))))))"

definition bybit_public_step :: "'d LiveContext \<Rightarrow> PublicSubscription \<Rightarrow> 'd stream_step" where
  "bybit_public_step ctx sub input sess =
     (case si_event input of
        ShutdownRequested \<Rightarrow> rt_return None
      | PingTick outcome \<Rightarrow> bybit_ping ctx ''bybit.public_ws.ping'' outcome sess
      | PollTick \<Rightarrow> rt_return (Some sess)
      | KeepaliveTick \<Rightarrow> rt_return (Some sess)
      | MaintenanceTick \<Rightarrow> public_maintenance ctx ''bybit.public_ws.idle'' input sess
      | Received StreamClosed \<Rightarrow> rt_lift (Err (market_error TransportError ''bybit public stream closed''))
      | Received (ReadFailed err) \<Rightarrow> rt_lift (Err (transport_error (venue_of ctx) ''bybit.public_ws.read'' err))
      | Received (TextFrame payload) \<Rightarrow> bybit_public_text ctx sub payload input sess
      | Received CloseFrame \<Rightarrow> rt_return (Some sess)
      | Received _ \<Rightarrow> rt_return (Some (sess\<lparr>ss_last_frame_at := si_begin input\<rparr>)))"

definition run_bybit_public_stream ::
  "'d LiveContext \<Rightarrow> PublicSubscription \<Rightarrow> StreamAttempt \<Rightarrow> ('d, unit option) rt" where
  "run_bybit_public_stream ctx sub attempt =
     rt_bind (bybit_public_topics ctx sub) (\<lambda>topics.
     rt_bind (ws_outcome ctx ''bybit.public_ws.connect''
           (sa_connect attempt (ep_public_ws_base (cfg_endpoints (lc_config ctx))))) (\<lambda>_.
     rt_bind (serialize_frame ctx ''bybit public subscribe''
           (json_object [(''op'', JString ''subscribe''), (''args'', JArray (map JString topics))])) (\<lambda>subscribe.
     rt_bind (ws_outcome ctx ''bybit.public_ws.subscribe'' (sa_send attempt subscribe)) (\<lambda>_.
       run_inputs (bybit_public_step ctx sub) (sa_inputs attempt) (session_opened attempt)))))"

definition bybit_private_text :: "'d LiveContext \<Rightarrow> string \<Rightarrow> 'd stream_step" where
  "bybit_private_text ctx payload input sess =
     (let alive = sess\<lparr>ss_last_frame_at := si_begin input\<rparr> in
      if is_bybit_control_message ctx payload then rt_return (Some alive)
      else
        rt_bind (rt_parse ctx (\<lambda>p. pa_private_observations p payload)) (\<lambda>observations.
        rt_bind (track (private_gap ctx ''bybit.private_ws.sequence'') observations (ss_sequence sess)) (\<lambda>tracker.
        rt_bind (rt_parse ctx (\<lambda>p. pa_private p payload)) (\<lambda>events.
        rt_bind (rt_private_events events) (\<lambda>_.
          rt_return (Some (alive\<lparr>ss_sequence := tracker\<rparr>)))))))"

definition bybit_private_step :: "'d LiveContext \<Rightarrow> 'd stream_step" where
  "bybit_private_step ctx input sess =
     (case si_event input of
        ShutdownRequested \<Rightarrow> rt_return None
      | PingTick outcome \<Rightarrow> bybit_ping ctx ''bybit.private_ws.ping'' outcome sess
      | PollTick \<Rightarrow> rt_return (Some sess)
      | KeepaliveTick \<Rightarrow> rt_return (Some sess)
      | MaintenanceTick \<Rightarrow> private_maintenance ctx ''bybit.private_ws.idle'' input sess
      | Received StreamClosed \<Rightarrow> rt_lift (Err (market_error TransportError ''bybit private stream closed''))
      | Received (ReadFailed err) \<Rightarrow> rt_lift (Err (transport_error (venue_of ctx) ''bybit.private_ws.read'' err))
      | Received (TextFrame payload) \<Rightarrow> bybit_private_text ctx payload input sess
      | Received CloseFrame \<Rightarrow> rt_return (Some sess)
      | Received _ \<Rightarrow> rt_return (Some (sess\<lparr>ss_last_frame_at := si_begin input\<rparr>)))"

definition run_bybit_private_stream :: "'d LiveContext \<Rightarrow> StreamAttempt \<Rightarrow> ('d, unit option) rt" where
  "run_bybit_private_stream ctx attempt =
     rt_bind (rt_lift (require_credentials ctx)) (\<lambda>(api_key, signer).
     rt_bind (ws_outcome ctx ''bybit.private_ws.connect''
           (sa_connect attempt (ep_private_ws_base (cfg_endpoints (lc_config ctx))))) (\<lambda>_.
     rt_bind (rt_now ctx) (\<lambda>now.
       let expires = i64_wrap (now + 10000) in
         rt_bind (rt_lift (sign_payload ctx signer (''GET/realtime'' @ show_int expires))) (\<lambda>signature.
         rt_bind (serialize_frame ctx ''bybit private auth''
               (json_object [(''op'', JString ''auth''),
                 (''args'', JArray [JString api_key, json_i64 expires, JString signature])])) (\<lambda>auth.
         rt_bind (ws_outcome ctx ''bybit.private_ws.auth'' (sa_send attempt auth)) (\<lambda>_.
         rt_bind (serialize_frame ctx ''bybit private subscribe''
               (json_object [(''op'', JString ''subscribe''),
                 (''args'', JArray (map JString [''wallet'', ''position'', ''order'', ''execution'']))])) (\<lambda>subscribe.
         rt_bind (ws_outcome ctx ''bybit.private_ws.subscribe'' (sa_send attempt subscribe)) (\<lambda>_.
           run_inputs (bybit_private_step ctx) (sa_inputs attempt) (session_opened attempt)))))))))"

section \<open>MEXC\<close>

definition unsupported_mexc_interval :: "string \<Rightarrow> 'a result" where
  "unsupported_mexc_interval name =
     Err (with_venue Mexc LinearUsdt (market_error Unsupported
       (''mexc does not support kline interval '' @ quoted name)))"

fun mexc_interval_str :: "KlineInterval \<Rightarrow> string result" where
  "mexc_interval_str Minute1 = Ok ''Min1''"
| "mexc_interval_str Minute5 = Ok ''Min5''"
| "mexc_interval_str Minute15 = Ok ''Min15''"
| "mexc_interval_str Minute30 = Ok ''Min30''"
| "mexc_interval_str Hour1 = Ok ''Min60''"
| "mexc_interval_str Hour4 = Ok ''Hour4''"
| "mexc_interval_str Day1 = Ok ''Day1''"
| "mexc_interval_str Week1 = Ok ''Week1''"
| "mexc_interval_str Month1 = Ok ''Month1''"
| "mexc_interval_str Minute3 = unsupported_mexc_interval ''Minute3''"
| "mexc_interval_str Hour2 = unsupported_mexc_interval ''Hour2''"
| "mexc_interval_str Hour6 = unsupported_mexc_interval ''Hour6''"
| "mexc_interval_str Hour12 = unsupported_mexc_interval ''Hour12''"
| "mexc_interval_str Day3 = unsupported_mexc_interval ''Day3''"

definition mexc_frame :: "string \<Rightarrow> (string \<times> Json) list \<Rightarrow> Json" where
  "mexc_frame meth param = json_object [(''method'', JString meth), (''param'', json_object param)]"

definition mexc_public_frames :: "'d LiveContext \<Rightarrow> PublicSubscription \<Rightarrow> ('d, Json list) rt" where
  "mexc_public_frames ctx sub =
     rt_for (ps_instrument_ids sub) (\<lambda>iid frames.
       rt_bind (require_spec ctx iid) (\<lambda>spec.
       rt_bind (kline_topics ctx ''mexc.public_ws.kline_interval''
             (\<lambda>interval. map_result (\<lambda>name. mexc_frame ''sub.kline''
                 [(''symbol'', JString (mexc_wire_symbol spec)), (''interval'', JString name)])
               (mexc_interval_str interval))
             (ps_kline_intervals sub)) (\<lambda>klines.
         let symbol = [(''symbol'', JString (mexc_wire_symbol spec))] in
           rt_return (frames @
             (if ps_ticker sub \<or> ps_mark_price sub \<or> ps_funding_rate sub then [mexc_frame ''sub.ticker'' symbol] else []) @
             (if ps_trades sub then [mexc_frame ''sub.deal'' symbol] else []) @
             (if ps_book_top sub \<or> ps_order_book sub then [mexc_frame ''sub.depth'' symbol] else []) @
             klines)))) []"

definition mexc_public_subscribe_frames :: "'d LiveContext \<Rightarrow> PublicSubscription \<Rightarrow> ('d, string list) rt" where
  "mexc_public_subscribe_frames ctx sub =
     rt_bind (mexc_public_frames ctx sub) (\<lambda>frames.
       rt_for frames (\<lambda>frame texts.
           rt_bind (serialize_frame ctx ''mexc subscribe'' frame) (\<lambda>t.
             rt_return (texts @ [t]))) [])"

definition mexc_public_text :: "'d LiveContext \<Rightarrow> PublicSubscription \<Rightarrow> string \<Rightarrow> 'd stream_step" where
  "mexc_public_text ctx sub payload input sess =
     rt_bind (rt_parse_public ctx payload) (\<lambda>events.
     rt_bind (rt_public_events ctx (retain_public_events_for_subscription sub events)) (\<lambda>_.
       rt_return (Some (sess\<lparr>ss_last_frame_at := si_end input\<rparr>))))"

definition mexc_public_step :: "'d LiveContext \<Rightarrow> PublicSubscription \<Rightarrow> 'd stream_step" where
  "mexc_public_step ctx sub input sess =
     (case si_event input of
        ShutdownRequested \<Rightarrow> rt_return None
      | PingTick outcome \<Rightarrow>
          rt_bind (ws_outcome ctx ''mexc.public_ws.ping'' outcome) (\<lambda>_.
            rt_return (Some sess))
      | PollTick \<Rightarrow>
          (if ps_open_interest sub then
             rt_bind (poll_open_interest ctx (ps_instrument_ids sub)) (\<lambda>_.
               rt_return (Some sess))
           else rt_return (Some sess))
      | KeepaliveTick \<Rightarrow> rt_return (Some sess)
      | MaintenanceTick \<Rightarrow>
          (if idle ctx input sess then public_gap ctx ''mexc.public_ws.idle'' None else rt_return (Some sess))
      | Received StreamClosed \<Rightarrow> rt_lift (Err (market_error TransportError ''mexc public stream closed''))
      | Received (ReadFailed err) \<Rightarrow> rt_lift (Err (transport_error (venue_of ctx) ''mexc.public_ws.read'' err))
      | Received (TextFrame payload) \<Rightarrow> mexc_public_text ctx sub payload input sess
      | Received CloseFrame \<Rightarrow> rt_return (Some sess)
      | Received _ \<Rightarrow> rt_return (Some (sess\<lparr>ss_last_frame_at := si_begin input\<rparr>)))"

definition run_mexc_public_stream ::
  "'d LiveContext \<Rightarrow> PublicSubscription \<Rightarrow> StreamAttempt \<Rightarrow> ('d, unit option) rt" where
  "run_mexc_public_stream ctx sub attempt =
     rt_bind (ws_outcome ctx ''mexc.public_ws.connect''
           (sa_connect attempt (ep_public_ws_base (cfg_endpoints (lc_config ctx))))) (\<lambda>_.
     rt_bind (mexc_public_subscribe_frames ctx sub) (\<lambda>frames.
     rt_bind (rt_for frames (\<lambda>frame _. ws_outcome ctx ''mexc.public_ws.subscribe'' (sa_send attempt frame)) ()) (\<lambda>_.
       run_inputs (mexc_public_step ctx sub) (sa_inputs attempt) (session_opened attempt))))"

definition mexc_personal_filter_frame :: string where
  \<open>mexc_personal_filter_frame = ''{"method":"personal.filter"}''\<close>

definition mexc_private_text :: "'d LiveContext \<Rightarrow> string \<Rightarrow> 'd stream_step" where
  "mexc_private_text ctx payload input sess =
     rt_bind (rt_parse ctx (\<lambda>p. pa_private p payload)) (\<lambda>events.
     rt_bind (rt_private_events events) (\<lambda>_.
       rt_return (Some (sess\<lparr>ss_last_frame_at := si_end input\<rparr>))))"

definition mexc_private_step :: "'d LiveContext \<Rightarrow> 'd stream_step" where
  "mexc_private_step ctx input sess =
     (case si_event input of
        ShutdownRequested \<Rightarrow> rt_return None
      | PingTick outcome \<Rightarrow>
          rt_bind (ws_outcome ctx ''mexc.private_ws.ping'' outcome) (\<lambda>_.
            rt_return (Some sess))
      | PollTick \<Rightarrow> rt_return (Some sess)
      | KeepaliveTick \<Rightarrow> rt_return (Some sess)
      | MaintenanceTick \<Rightarrow> private_maintenance ctx ''mexc.private_ws.idle'' input sess
      | Received StreamClosed \<Rightarrow> rt_lift (Err (market_error TransportError ''mexc private stream closed''))
      | Received (ReadFailed err) \<Rightarrow> rt_lift (Err (transport_error (venue_of ctx) ''mexc.private_ws.read'' err))
      | Received (TextFrame payload) \<Rightarrow> mexc_private_text ctx payload input sess
      | Received CloseFrame \<Rightarrow> rt_return (Some sess)
      | Received _ \<Rightarrow> rt_return (Some (sess\<lparr>ss_last_frame_at := si_begin input\<rparr>)))"

definition run_mexc_private_stream :: "'d LiveContext \<Rightarrow> StreamAttempt \<Rightarrow> ('d, unit option) rt" where
  "run_mexc_private_stream ctx attempt =
     rt_bind (rt_lift (require_credentials ctx)) (\<lambda>(api_key, signer).
     rt_bind (rt_now ctx) (\<lambda>now.
     rt_bind (rt_lift (sign_payload ctx signer (api_key @ show_int now))) (\<lambda>signature.
     rt_bind (ws_outcome ctx ''mexc.private_ws.connect''
           (sa_connect attempt (ep_private_ws_base (cfg_endpoints (lc_config ctx))))) (\<lambda>_.
     rt_bind (serialize_frame ctx ''mexc private login''
           (json_object [(''method'', JString ''login''), (''subscribe'', JBool False),
             (''param'', json_object [(''apiKey'', JString api_key), (''reqTime'', JString (show_int now)),
                (''signature'', JString signature)])])) (\<lambda>login.
     rt_bind (ws_outcome ctx ''mexc.private_ws.login'' (sa_send attempt login)) (\<lambda>_.
     rt_bind (ws_outcome ctx ''mexc.private_ws.subscribe'' (sa_send attempt mexc_personal_filter_frame)) (\<lambda>_.
       run_inputs (mexc_private_step ctx) (sa_inputs attempt) (session_opened attempt))))))))"

section \<open>Reconnecting\<close>

text \<open>
  The reconnect loops consume one attempt per connection.  They return \<^verbatim>\<open>Some ()\<close> when the stream
  was shut down and \<open>None\<close> when it is still running or about to connect again.
\<close>

definition public_stream_once ::
  "'d LiveContext \<Rightarrow> PublicStreamRoute \<Rightarrow> PublicSubscription \<Rightarrow> StreamAttempt \<Rightarrow> ('d, unit option) rt" where
  "public_stream_once ctx route sub attempt =
     (case venue_of ctx of
        Binance \<Rightarrow> run_binance_public_stream ctx route sub attempt
      | Bybit \<Rightarrow> run_bybit_public_stream ctx sub attempt
      | Mexc \<Rightarrow> run_mexc_public_stream ctx sub attempt)"

definition private_stream_once :: "'d LiveContext \<Rightarrow> StreamAttempt \<Rightarrow> ('d, unit option) rt" where
  "private_stream_once ctx attempt =
     (case venue_of ctx of
        Binance \<Rightarrow> run_binance_private_stream ctx attempt
      | Bybit \<Rightarrow> run_bybit_private_stream ctx attempt
      | Mexc \<Rightarrow> run_mexc_private_stream ctx attempt)"

fun reconnect_loop ::
  "BatMarketsConfig \<Rightarrow> (StreamAttempt \<Rightarrow> ('d, unit option) rt) \<Rightarrow> ('d, unit) rt \<Rightarrow>
     StreamAttempt list \<Rightarrow> u32 \<Rightarrow> ('d, unit option) rt" where
  "reconnect_loop config once repair [] reconnect_attempt s = (Ok None, s)"
| "reconnect_loop config once repair (attempt # rest) reconnect_attempt s =
     (case once attempt s of
        (Inr r, s1) \<Rightarrow> (Ok r, s1)
      | (Inl Panicked, s1) \<Rightarrow> (Panic, s1)
      | (Inl (Failed err), s1) \<Rightarrow>
          (if should_reconnect config reconnect_attempt err then
             (case repair s1 of
                (Inl f, s2) \<Rightarrow> (Inl f, s2)
              | (Inr _, s2) \<Rightarrow>
                  reconnect_loop config once repair rest (reconnect_attempt + 1)
                    (snd (rt_sleep (reconnect_backoff config (reconnect_attempt + 1)) s2)))
           else (Err err, s1)))"

definition public_repair :: "'d LiveContext \<Rightarrow> ('d, unit) rt" where
  "public_repair ctx =
     rt_bind (rt_write (\<lambda>st. engine_mark_reconnect (engine_mark_public_disconnect st))) (\<lambda>_.
       if rc_refresh_metadata_on_reconnect (cfg_reconnect (lc_config ctx))
         then rt_ignore (refresh_metadata ctx) else rt_return ())"

definition private_repair :: "'d LiveContext \<Rightarrow> ('d, unit) rt" where
  "private_repair ctx =
     rt_bind (rt_write (\<lambda>st. engine_mark_reconnect (engine_mark_private_disconnect st))) (\<lambda>_.
     rt_bind ((if venue_of ctx = Bybit then rt_modify (\<lambda>s. s\<lparr>lr_bybit_account_context := None\<rparr>)
               else rt_return ())) (\<lambda>_.
       if rc_reconcile_private_on_reconnect (cfg_reconnect (lc_config ctx))
         then rt_ignore (reconcile_private ctx Reconnect) else rt_return ()))"

definition run_public_stream ::
  "'d LiveContext \<Rightarrow> PublicStreamRoute \<Rightarrow> PublicSubscription \<Rightarrow> StreamAttempt list \<Rightarrow> ('d, unit option) rt" where
  "run_public_stream ctx route sub attempts =
     reconnect_loop (lc_config ctx) (public_stream_once ctx route sub) (public_repair ctx) attempts 0"

definition run_private_stream :: "'d LiveContext \<Rightarrow> StreamAttempt list \<Rightarrow> ('d, unit option) rt" where
  "run_private_stream ctx attempts =
     reconnect_loop (lc_config ctx) (private_stream_once ctx) (private_repair ctx) attempts 0"

end
