(* ===== verification/Streams_Laws.thy ===== *)
theory Streams_Laws
  imports Streams Command_Laws
begin

text \<open>
  Laws of the websocket streams: what a stream subscribes to, which events it lets through, how
  a gap ends it, how often it reconnects, and which part of the runtime state each kind of
  stream can change.
\<close>

section \<open>Control flow\<close>

lemma rt_bind_assoc: "rt_bind (rt_bind m f) g = rt_bind m (\<lambda>x. rt_bind (f x) g)"
  by (auto simp: rt_bind_def fun_eq_iff split: prod.split sum.split)

lemma rt_keeps_ignore: "rt_keeps I m \<Longrightarrow> rt_keeps I (rt_ignore m)"
  by (fastforce simp: rt_keeps_def rt_ignore_def split: prod.split sum.split Failure.split)

lemma rt_keeps_inputs: "(\<And>i sess. rt_keeps I (step i sess)) \<Longrightarrow> rt_keeps I (run_inputs step is sess)"
  by (induction "is" arbitrary: sess) (auto intro!: rt_keeps_bind rt_keeps_return rt_keeps_option)

lemma rt_keeps_track: "(\<And>n. rt_keeps I (gap n)) \<Longrightarrow> rt_keeps I (track gap seen tracker)"
  by (induction seen arbitrary: tracker) (auto intro: rt_keeps_return split: prod.split sum.split)

lemma rt_keeps_outcome: "rt_keeps I (ws_outcome ctx operation outcome)"
  by (cases outcome) (simp_all add: ws_outcome_def rt_keeps_return rt_keeps_lift)

lemma rt_keeps_serialize: "rt_keeps I (serialize_frame ctx what frame)"
  by (simp add: serialize_frame_def rt_keeps_lift)

lemma rt_keeps_klines: "rt_keeps I (kline_topics ctx operation topic intervals)"
  unfolding kline_topics_def by (intro rt_keeps_control)

lemmas rt_keeps_stream = rt_keeps_control rt_keeps_ignore rt_keeps_inputs rt_keeps_track rt_keeps_outcome
  rt_keeps_serialize rt_keeps_klines

lemma rt_keeps_topics:
  "rt_keeps I (binance_public_topics ctx sub)" "rt_keeps I (bybit_public_topics ctx sub)"
  "rt_keeps I (mexc_public_subscribe_frames ctx sub)"
  unfolding binance_public_topics_def bybit_public_topics_def mexc_public_subscribe_frames_def
    mexc_public_frames_def
  by (intro rt_keeps_stream)+

text \<open>A case distinction over the branches of the select loop.\<close>

lemma rt_keeps_branch:
  assumes "rt_keeps I a" and "\<And>e. rt_keeps I (b e)" and "rt_keeps I c" and "rt_keeps I d" and "rt_keeps I e"
    and "\<And>m. rt_keeps I (f m)"
  shows "rt_keeps I (case x of ShutdownRequested \<Rightarrow> a | PingTick o' \<Rightarrow> b o' | PollTick \<Rightarrow> c | KeepaliveTick \<Rightarrow> d
    | MaintenanceTick \<Rightarrow> e | Received m \<Rightarrow> f m)"
  using assms by (cases x) simp_all

lemma rt_keeps_message:
  assumes "rt_keeps I a" and "\<And>e. rt_keeps I (b e)" and "\<And>p. rt_keeps I (c p)" and "rt_keeps I d" and "rt_keeps I e"
    and "rt_keeps I f" and "rt_keeps I g"
  shows "rt_keeps I (case m of StreamClosed \<Rightarrow> a | ReadFailed err \<Rightarrow> b err | TextFrame p \<Rightarrow> c p | PingFrame \<Rightarrow> d
    | PongFrame \<Rightarrow> e | BinaryFrame \<Rightarrow> f | CloseFrame \<Rightarrow> g)"
  using assms by (cases m) simp_all

section \<open>What a public stream can change\<close>

locale public_stream_keeper = network_blind I
  for I :: "'d LiveRuntimeState \<Rightarrow> bool" +
  fixes ctx :: "'d LiveContext" and sub :: PublicSubscription
  assumes keeps_gap: "rt_keeps I (rt_public_event ctx (PublicLaneEvent.Divergence d))"
    and keeps_interest: "ps_open_interest sub \<Longrightarrow> rt_keeps I (rt_public_event ctx (PublicLaneEvent.OpenInterest v))"
    and keeps_frame: "rt_keeps I (rt_bind (rt_parse_public ctx payload)
      (\<lambda>events. rt_public_events ctx (retain_public_events_for_subscription sub events)))"
    and keeps_metadata: "rt_keeps I (refresh_metadata ctx)"
    and keeps_rest: "rt_keeps I (rt_write (engine_mark_rest_success skew))"
    and keeps_lost: "rt_keeps I (rt_write (\<lambda>st. engine_mark_reconnect (engine_mark_public_disconnect st)))"
begin

lemma keeps_public_gap: "rt_keeps I (public_gap ctx operation n)"
  unfolding public_gap_def by (intro rt_keeps_stream keeps_gap)

lemma keeps_poll: "ps_open_interest sub \<Longrightarrow> rt_keeps I (poll_open_interest ctx iids)"
  unfolding poll_open_interest_def refresh_open_interest_def fetch_open_interest_def mark_rest_ok_def
  by (intro rt_keeps_stream keeps_transport keeps_interest keeps_rest)

lemma keeps_poll_branch:
  "rt_keeps I (if ps_open_interest sub
     then rt_bind (poll_open_interest ctx iids) (\<lambda>_. rt_return x) else rt_return x)"
  using keeps_poll by (auto intro: rt_keeps_bind rt_keeps_return)

lemma keeps_maintenance: "rt_keeps I (public_maintenance ctx operation input sess)"
  unfolding public_maintenance_def sync_server_time_def
  by (intro rt_keeps_stream keeps_transport keeps_public_gap keeps_metadata keeps_rest)

lemma keeps_frame_then:
  "(\<And>x. rt_keeps I (k x)) \<Longrightarrow> rt_keeps I (rt_bind (rt_parse_public ctx payload) (\<lambda>events.
     rt_bind (rt_public_events ctx (retain_public_events_for_subscription sub events)) k))"
  using rt_keeps_bind [OF keeps_frame, of k payload] by (simp add: rt_bind_assoc)

lemma keeps_texts:
  "rt_keeps I (binance_public_text ctx sub payload input sess)"
  "rt_keeps I (bybit_public_text ctx sub payload input sess)"
  "rt_keeps I (mexc_public_text ctx sub payload input sess)"
  unfolding binance_public_text_def bybit_public_text_def mexc_public_text_def
  by (intro rt_keeps_if rt_keeps_let keeps_frame_then rt_keeps_track keeps_public_gap rt_keeps_return
      rt_keeps_bind [OF rt_keeps_parse] rt_keeps_bind [OF rt_keeps_track])+

lemma keeps_steps:
  "rt_keeps I (binance_public_step ctx sub input sess)"
  "rt_keeps I (bybit_public_step ctx sub input sess)"
  "rt_keeps I (mexc_public_step ctx sub input sess)"
  unfolding binance_public_step_def bybit_public_step_def mexc_public_step_def bybit_ping_def
  by (intro rt_keeps_branch rt_keeps_message keeps_texts keeps_maintenance keeps_poll_branch keeps_public_gap
      rt_keeps_stream)+

lemma keeps_once: "rt_keeps I (public_stream_once ctx route sub attempt)"
  unfolding public_stream_once_def run_binance_public_stream_def run_bybit_public_stream_def
    run_mexc_public_stream_def
  by (intro rt_keeps_topics keeps_steps rt_keeps_stream)

lemma keeps_public_repair: "rt_keeps I (public_repair ctx)"
  unfolding public_repair_def by (intro rt_keeps_stream keeps_lost keeps_metadata)

end

section \<open>What a private stream can change\<close>

lemma rt_keeps_case_pair: "(\<And>x y. rt_keeps I (f x y)) \<Longrightarrow> rt_keeps I ((\<lambda>(x, y). f x y) p)"
  by (cases p) simp

locale private_stream_keeper = state_keeper I safe
  for I :: "'d LiveRuntimeState \<Rightarrow> bool" and safe :: "('d EngineState \<Rightarrow> 'd EngineState) \<Rightarrow> bool" +
  assumes keeps_private_batch: "rt_keeps I (rt_private_events es)"
begin

lemma keeps_private_gap: "rt_keeps I (private_gap ctx operation n)"
  unfolding private_gap_def by (intro rt_keeps_stream keeps_private_event)

lemma keeps_private_maintenance: "rt_keeps I (private_maintenance ctx operation input sess)"
  unfolding private_maintenance_def
  by (intro rt_keeps_stream keeps_private_gap keeps_write safe_ops keeps_reconcile)

lemma keeps_listen_key:
  "rt_keeps I (binance_start_listen_key ctx)" "rt_keeps I (binance_keepalive_listen_key ctx key)"
  unfolding binance_start_listen_key_def binance_keepalive_listen_key_def
  by (intro rt_keeps_case_pair rt_keeps_stream keeps_transport)+

lemma keeps_private_texts:
  "rt_keeps I (binance_private_text ctx payload input sess)"
  "rt_keeps I (bybit_private_text ctx payload input sess)"
  "rt_keeps I (mexc_private_text ctx payload input sess)"
  unfolding binance_private_text_def bybit_private_text_def mexc_private_text_def
  by (intro rt_keeps_stream keeps_private_gap keeps_private_batch)+

lemma keeps_private_steps:
  "rt_keeps I (binance_private_step ctx key input sess)"
  "rt_keeps I (bybit_private_step ctx input sess)"
  "rt_keeps I (mexc_private_step ctx input sess)"
  unfolding binance_private_step_def bybit_private_step_def mexc_private_step_def bybit_ping_def
  by (intro rt_keeps_branch rt_keeps_message keeps_private_texts keeps_private_maintenance keeps_listen_key
      rt_keeps_stream)+

lemma keeps_private_once: "rt_keeps I (private_stream_once ctx attempt)"
  unfolding private_stream_once_def run_binance_private_stream_def run_bybit_private_stream_def
    run_mexc_private_stream_def
  by (intro keeps_listen_key keeps_private_steps rt_keeps_case_pair rt_keeps_stream)

lemma keeps_private_repair: "rt_keeps I (private_repair ctx)"
  unfolding private_repair_def
  by (intro rt_keeps_stream keeps_write safe_comp [OF safe_ops(11) safe_ops(10)] keeps_notes keeps_reconcile)

end

section \<open>The reconnect loop\<close>

context network_blind
begin

lemma keeps_loop:
  assumes "\<And>a. rt_keeps I (once a)" and "rt_keeps I repair"
  shows "rt_keeps I (reconnect_loop config once repair attempts n)"
proof -
  have "I (snd (reconnect_loop config once repair attempts n s))" if "I s" for s
    using that
  proof (induction attempts arbitrary: n s)
    case (Cons a rest)
    obtain r s1 where a: "once a s = (r, s1)" by fastforce
    with rt_keepsD [OF assms(1) Cons.prems, of a] have s1: "I s1" by simp
    obtain q s2 where r: "repair s1 = (q, s2)" by fastforce
    with rt_keepsD [OF assms(2) s1] have "I (s2\<lparr>lr_sleeps := zs\<rparr>)" "I s2" for zs by (simp_all add: blind_each)
    with Cons.IH a r s1 show ?case
      by (cases r rule: result_cases; cases q) (simp_all add: rt_sleep_def)
  qed simp
  then show ?thesis by (simp add: rt_keeps_def)
qed

end

context public_stream_keeper
begin

lemma keeps_public_stream: "rt_keeps I (run_public_stream ctx route sub attempts)"
  unfolding run_public_stream_def by (intro keeps_loop keeps_once keeps_public_repair)

end

context private_stream_keeper
begin

lemma keeps_private_stream: "rt_keeps I (run_private_stream ctx attempts)"
  unfolding run_private_stream_def by (intro keeps_loop keeps_private_once keeps_private_repair)

end

section \<open>The engine under streams\<close>

text \<open>A context whose parsers are the adapters of this library and whose metadata has acceptable scales.\<close>

definition stream_context :: "'d AdapterEnv \<Rightarrow> ('t, 'date) Time_ops \<Rightarrow> 'd LiveContext \<Rightarrow> bool" where
  "stream_context E TO ctx \<longleftrightarrow>
     lc_parsers ctx = adapter_parsers E TO (venue_of ctx) \<and> metadata_scaled ctx"

definition stream_inv ::
  "'d AdapterEnv \<Rightarrow> ('t, 'date) Time_ops \<Rightarrow> 'd LiveContext \<Rightarrow> HealthReport \<Rightarrow> 'd LiveRuntimeState \<Rightarrow> bool" where
  "stream_inv E TO ctx h0 s \<longleftrightarrow>
     (stream_context E TO ctx \<longrightarrow> runtime_inv (lc_decimal ctx) h0 s \<and> catalog_wf (lr_catalog s))"

lemma stream_public_event:
  assumes "event_i64 e"
  shows "rt_keeps (stream_inv E TO ctx h0) (rt_public_event ctx e)"
  using shared.guarded_step [where e = "PublicOne e" and D = "lc_decimal ctx"] assms
  by (auto simp: rt_keeps_def rt_public_event_def stream_inv_def split_def)


lemma stream_frame:
  "rt_keeps (stream_inv E TO ctx h0) (rt_bind (rt_parse_public ctx payload)
     (\<lambda>events. rt_public_events ctx (retain_public_events_for_subscription sub events)))"
  unfolding rt_keeps_def
proof (intro allI impI)
  fix s :: "'a LiveRuntimeState"
  assume s: "stream_inv E TO ctx h0 s"
  obtain r cache where parsed: "pa_public (lc_parsers ctx (lr_catalog s)) payload (lr_ticker_cache s) = (r, cache)"
    by fastforce
  show "stream_inv E TO ctx h0 (snd (rt_bind (rt_parse_public ctx payload)
     (\<lambda>events. rt_public_events ctx (retain_public_events_for_subscription sub events)) s))"
  proof (cases r)
    case (Inl f)
    with s parsed show ?thesis by (simp add: rt_bind_def rt_parse_public_def stream_inv_def)
  next
    case (Inr events)
    let ?es = "retain_public_events_for_subscription sub events"
    have "list_all event_i64 ?es" if "stream_context E TO ctx"
    proof -
      from that s have "catalog_wf (lr_catalog s)" by (simp add: stream_inv_def)
      from handle.public_frames [OF this, of E TO "venue_of ctx" payload "lr_ticker_cache s"] that parsed Inr
      show ?thesis
        by (auto simp: stream_context_def settles_def public_sound_def list_all_iff
            retain_public_events_for_subscription_def)
    qed
    with s parsed Inr shared.guarded_step [where e = "PublicBatch ?es" and D = "lc_decimal ctx" and s = "lr_shared s" and ?h0.0 = h0]
    show ?thesis
      by (auto simp: rt_bind_def rt_parse_public_def rt_public_events_def stream_inv_def split_def)
  qed
qed

lemma rt_keeps_conj: "rt_keeps P m \<Longrightarrow> rt_keeps Q m \<Longrightarrow> rt_keeps (\<lambda>s. P s \<and> Q s) m"
  by (simp add: rt_keeps_def)

lemma stream_metadata: "rt_keeps (stream_inv E TO ctx h0) (refresh_metadata ctx)"
proof (cases "stream_context E TO ctx")
  case True
  have "rt_keeps (\<lambda>s. catalog_wf (lr_catalog s)) (refresh_metadata ctx)"
    unfolding refresh_metadata_def
    by (intro rt_keeps_control shared_only.keeps_transport [where P = "\<lambda>_ c _. catalog_wf c"])
      (simp_all add: rt_keeps_def rt_modify_def rt_write_def catalog_replace_def catalog_new_wf)
  moreover have "rt_keeps (runtime_inv (lc_decimal ctx) h0) (refresh_metadata ctx)"
    using True by (intro runtime_metadata) (simp add: stream_context_def)
  ultimately show ?thesis
    using True by (simp add: stream_inv_def [abs_def] rt_keeps_def)
qed (simp add: stream_inv_def rt_keeps_def)

lemma stream_write: "engine_safe f \<Longrightarrow> rt_keeps (stream_inv E TO ctx h0) (rt_write f)"
  using runtime_write [of f "lc_decimal ctx" h0] by (simp add: rt_keeps_def rt_write_def stream_inv_def)

lemma engine_safe_public_lost: "engine_safe (\<lambda>st. engine_mark_reconnect (engine_mark_public_disconnect st))"
  by (rule engine_updates.safe_comp [OF engine_safe_ops(11)])
    (use engine_safe_step [of PublicDownIn] in simp)

interpretation public_streams: public_stream_keeper "stream_inv E TO ctx h0" ctx sub for E TO ctx h0 sub
proof
  show "stream_inv E TO ctx h0 (s\<lparr>lr_calls := cs, lr_sleeps := zs, lr_ws := w, lr_permits := n, lr_ticker_cache := tc\<rparr>) =
      stream_inv E TO ctx h0 s" for s cs zs w n tc
    by (simp add: stream_inv_def)
qed (simp_all add: stream_public_event stream_frame stream_metadata stream_write engine_safe_ops engine_safe_public_lost)

interpretation private_streams: private_stream_keeper "stream_inv E TO ctx h0" engine_safe for E TO ctx h0
proof
  show "rt_keeps (stream_inv E TO ctx h0) (rt_private_event e)" for e
    using runtime_private_event [of "lc_decimal ctx" h0 e]
    by (simp add: rt_keeps_def rt_private_event_def stream_inv_def)
  show "rt_keeps (stream_inv E TO ctx h0) (rt_private_events es)" for es
    using shared.guarded_step [where e = "PrivateBatch es" and D = "lc_decimal ctx"]
    by (simp add: rt_keeps_def rt_private_events_def stream_inv_def)
qed (simp_all add: stream_write, simp add: stream_inv_def)

section \<open>Isolation of the lanes\<close>

definition private_side :: "'d LiveRuntimeState \<Rightarrow> _" where
  "private_side s = (private_view (engine_of s), lr_pending s, lr_bybit_account_context s,
     sh_private_events (lr_shared s), sh_command_events (lr_shared s))"

definition market_side :: "'d LiveRuntimeState \<Rightarrow> _" where
  "market_side s = (market_view (engine_of s), lr_catalog s, sh_public_events (lr_shared s))"

lemma apply_each_private: "private_view (snd (apply_each D es s)) = private_view s"
proof (induction es arbitrary: s)
  case (Cons e es)
  with apply_public_event_private [of D e s] show ?case
    by (auto split: prod.split sum.split)
qed simp

lemma rt_keeps_eqI: "(\<And>s. g (snd (m s)) = g s) \<Longrightarrow> rt_keeps (\<lambda>s. g s = c) m"
  by (simp add: rt_keeps_def)

lemma private_side_write: "(\<And>st. private_view (f st) = private_view st) \<Longrightarrow> private_side (snd (rt_write f s)) = private_side s"
  by (simp add: private_side_def rt_write_def shared_update_def shared_write_state)

lemma private_side_public_event: "private_side (snd (rt_public_event ctx e s)) = private_side s"
  using apply_public_event_private [of "lc_decimal ctx" e "engine_of s"]
  by (auto simp: private_side_def rt_public_event_def shared_apply_public_event_def shared_write_state
      split_def split: sum.split dest: arg_cong [where f = snd])

lemma private_side_public_events: "private_side (snd (rt_public_events ctx es s)) = private_side s"
proof -
  have "private_view (snd (batch_closure D es st)) = private_view st" for D st
    by (simp add: batch_closure_def apply_each_private split: option.split)
  then show ?thesis
    by (auto simp: private_side_def rt_public_events_def apply_public_events_closure shared_write_state
        split_def split: sum.split)
qed

interpretation private_blind: network_blind "\<lambda>s. private_side s = c" for c
  by unfold_locales (simp add: private_side_def)

lemma private_side_metadata: "rt_keeps (\<lambda>s. private_side s = c) (refresh_metadata ctx)"
proof -
  have "private_view (mark_rest_ok (replace_instruments specs st)) = private_view st" for specs and st :: "'a EngineState"
    by (simp add: private_view_def mark_rest_ok_def engine_mark_rest_success_def replace_instruments_def
        prune_orphan_market_state_def)
  then show ?thesis
    unfolding refresh_metadata_def
    by (intro rt_keeps_control private_blind.keeps_transport rt_keeps_eqI)
      (simp_all add: private_side_write, simp add: rt_modify_def private_side_def)
qed

interpretation public_isolated: public_stream_keeper "\<lambda>s. private_side s = c" ctx sub for c ctx sub
proof
  show "rt_keeps (\<lambda>s. private_side s = c) (rt_bind (rt_parse_public ctx payload)
      (\<lambda>events. rt_public_events ctx (retain_public_events_for_subscription sub events)))" for payload
    by (intro rt_keeps_bind private_blind.keeps_parse_public rt_keeps_eqI private_side_public_events)
  show "rt_keeps (\<lambda>s. private_side s = c) (rt_write (engine_mark_rest_success skew))" for skew
    by (intro rt_keeps_eqI private_side_write) (simp add: private_view_def engine_mark_rest_success_def)
  show "rt_keeps (\<lambda>s. private_side s = c) (rt_write (\<lambda>st. engine_mark_reconnect (engine_mark_public_disconnect st)))"
    by (intro rt_keeps_eqI private_side_write)
      (simp add: private_view_def engine_mark_reconnect_def engine_mark_public_disconnect_def)
qed (simp_all add: rt_keeps_eqI private_side_public_event private_side_metadata)

lemma private_events_market: "market_view (foldl (\<lambda>st e. apply_private_event e st) s es) = market_view s"
  by (induction es arbitrary: s) (simp_all add: apply_private_event_market)

interpretation private_isolated: private_stream_keeper "\<lambda>s. market_side s = c" market_neutral for c
proof
  show "market_neutral f \<Longrightarrow> rt_keeps (\<lambda>s. market_side s = c) (rt_write f)" for f :: "'a EngineState \<Rightarrow> 'a EngineState"
    by (rule rt_keeps_eqI)
      (simp add: market_side_def rt_write_def shared_update_def shared_write_state market_neutral_def)
  show "rt_keeps (\<lambda>s. market_side s = c) (rt_private_event e)" for e
    by (rule rt_keeps_eqI)
      (simp add: market_side_def rt_private_event_def shared_apply_private_event_def shared_update_def
        shared_write_state Let_def apply_private_event_market)
  show "rt_keeps (\<lambda>s. market_side s = c) (rt_private_events es)" for es
    by (rule rt_keeps_eqI)
      (simp add: market_side_def rt_private_events_def apply_private_events_def shared_update_def
        shared_write_state Let_def private_events_market)
qed (simp_all add: market_side_def)

section \<open>Published events\<close>

definition published_within ::
  "PublicSubscription \<Rightarrow> 'd PublicLaneEvent list \<Rightarrow> 'd LiveRuntimeState \<Rightarrow> bool" where
  "published_within sub base s \<longleftrightarrow>
     (\<exists>es. sh_public_events (lr_shared s) = base @ es \<and> list_all (retained sub) es)"

interpretation within_blind: network_blind "published_within sub base" for sub base
  by unfold_locales (simp add: published_within_def)

lemma within_write: "rt_keeps (published_within sub base) (rt_write f)"
  by (simp add: rt_keeps_def rt_write_def published_within_def shared_update_def)

lemma within_append:
  "published_within sub base s \<Longrightarrow> list_all (retained sub) es \<Longrightarrow>
    sh_public_events sh = sh_public_events (lr_shared s) \<or> sh_public_events sh = sh_public_events (lr_shared s) @ es \<Longrightarrow>
    published_within sub base (s\<lparr>lr_shared := sh\<rparr>)"
  by (auto simp: published_within_def)

lemma within_public_event: "retained sub e \<Longrightarrow> rt_keeps (published_within sub base) (rt_public_event ctx e)"
  by (auto simp: rt_keeps_def rt_public_event_def shared_apply_public_event_def split_def
      intro!: within_append [where es = "[e]"] split: sum.split)

lemma within_public_events:
  "list_all (retained sub) es \<Longrightarrow> rt_keeps (published_within sub base) (rt_public_events ctx es)"
  by (auto simp: rt_keeps_def rt_public_events_def apply_public_events_closure split_def
      intro!: within_append [where es = es] split: sum.split)

interpretation within: public_stream_keeper "published_within sub base" ctx sub for sub base ctx
proof
  show "rt_keeps (published_within sub base) (rt_bind (rt_parse_public ctx payload)
      (\<lambda>events. rt_public_events ctx (retain_public_events_for_subscription sub events)))" for payload
    by (intro rt_keeps_bind within_blind.keeps_parse_public within_public_events)
      (simp add: retain_public_events_for_subscription_def list_all_iff)
  show "rt_keeps (published_within sub base) (refresh_metadata ctx)"
    unfolding refresh_metadata_def
    by (intro rt_keeps_control within_blind.keeps_transport within_write)
      (simp add: rt_keeps_def rt_modify_def published_within_def)
qed (simp_all add: within_write within_public_event retained_def)

section \<open>Tracking and reconnecting\<close>

lemma track_observe_all:
  "track gap seen tracker =
    (case observe_all seen tracker of (None, tracker') \<Rightarrow> rt_return tracker' | (Some n, _) \<Rightarrow> gap (Some n))"
  by (induction seen arbitrary: tracker) (auto split: prod.split sum.split)

lemma divergence_event:
  "\<exists>sh'. shared_apply_public_event D (PublicLaneEvent.Divergence d) sh = (Ok (), sh') \<and>
    market_view (sh_state sh') = market_view (sh_state sh) \<and>
    sh_public_events sh' = sh_public_events sh @ [PublicLaneEvent.Divergence d]"
proof -
  have "fst (apply_public_event D (PublicLaneEvent.Divergence d) st) = Ok ()"
    "market_view (snd (apply_public_event D (PublicLaneEvent.Divergence d) st)) = market_view st" for st
    by (simp_all add: market_view_def split: DivergenceEvent.split)
  then show ?thesis
    using shared_write_state [of "apply_public_event D (PublicLaneEvent.Divergence d)" sh]
      shared_write_frame(1) [of "apply_public_event D (PublicLaneEvent.Divergence d)" sh]
    by (cases "shared_write (apply_public_event D (PublicLaneEvent.Divergence d)) sh")
      (auto simp: shared_apply_public_event_def)
qed

lemma should_reconnect_limit:
  "rc_max_reconnect_attempts (cfg_reconnect config) = Some m \<Longrightarrow> should_reconnect config n err \<Longrightarrow>
    unat n < unat m \<and> unat (n + 1) = Suc (unat n)"
  by (auto simp: should_reconnect_def word_less_nat_alt u32_succ split: if_splits)

lemma reconnect_loop_limit:
  assumes "rc_max_reconnect_attempts (cfg_reconnect config) = Some m"
  shows "reconnect_loop config once repair attempts n s =
    reconnect_loop config once repair (take (Suc (unat m - unat n)) attempts) n s"
proof (induction attempts arbitrary: n s)
  case (Cons a rest)
  obtain r s1 where a: "once a s = (r, s1)" by fastforce
  obtain q s2 where q: "repair s1 = (q, s2)" by fastforce
  show ?case
  proof (cases r rule: result_cases)
    case (Err err)
    show ?thesis
    proof (cases "should_reconnect config n err")
      case True
      from should_reconnect_limit [OF assms True]
      have "Suc (unat m - unat (n + 1)) = unat m - unat n" by linarith
      with Cons.IH [of "n + 1"] a q Err True show ?thesis
        by (cases q) simp_all
    qed (use a Err in simp)
  qed (use a in simp_all)
qed simp

section \<open>Properties\<close>

text \<open>
  The two kinds of stream do not interfere.  Whatever a venue sends and however often a stream
  reconnects, a public stream leaves the account, the positions, orders, executions, the pending
  commands and the private and command channels as they were; a private stream, with all the
  reconciliations it runs, leaves the market data, the instruments and the public channel alone.
\<close>

theorem streams_isolated:
  "private_side (snd (run_public_stream ctx route sub attempts s)) = private_side s \<and>
   market_side (snd (run_private_stream ctx attempts s)) = market_side s"
  using rt_keepsD [OF public_isolated.keeps_public_stream, of s "private_side s" ctx route sub attempts]
    rt_keepsD [OF private_isolated.keeps_private_stream, of s "market_side s" ctx attempts]
  by simp

text \<open>
  Streams keep the engine state well formed and the published health in agreement with it,
  for every payload the venue sends: what the adapters decode is always safe to apply.
\<close>

theorem streams_keep_engine:
  assumes "stream_context E TO ctx" and "catalog_wf (lr_catalog s)" and "runtime_inv (lc_decimal ctx) h0 s"
  shows "let s1 = snd (run_public_stream ctx route sub attempts s); s2 = snd (run_private_stream ctx attempts' s1) in
    engine_wf (engine_of s2) \<and> specs_ok (engine_of s2) \<and> catalog_wf (lr_catalog s2) \<and>
    published (sh_health_watch (lr_shared s2)) = published (health_snapshot (lr_shared s2))"
proof -
  have "stream_inv E TO ctx h0 s" using assms by (simp add: stream_inv_def)
  from rt_keepsD [OF public_streams.keeps_public_stream this, of route sub attempts]
  have "stream_inv E TO ctx h0 (snd (run_public_stream ctx route sub attempts s))" .
  from rt_keepsD [OF private_streams.keeps_private_stream this, of ctx attempts'] assms(1)
  show ?thesis
    by (simp add: Let_def stream_inv_def shared_inv_def health_tracked_def health_snapshot_def shared_read_def)
qed


text \<open>
  C27. The configured limit bounds the connections of a stream over its whole life: with
  \<^verbatim>\<open>max_reconnect_attempts = m\<close> neither a public nor a private stream ever uses more than
  \<^verbatim>\<open>m + 1\<close> connections, whatever happens on them.
\<close>

theorem reconnects_bounded:
  assumes "rc_max_reconnect_attempts (cfg_reconnect (lc_config ctx)) = Some m"
  shows "run_public_stream ctx route sub attempts = run_public_stream ctx route sub (take (Suc (unat m)) attempts) \<and>
    run_private_stream ctx attempts = run_private_stream ctx (take (Suc (unat m)) attempts)"
  unfolding run_public_stream_def run_private_stream_def
  using reconnect_loop_limit [OF assms, where n = 0]
  by (intro conjI ext) simp_all

text \<open>
  C14. A sequence gap discards the frame and ends the connection: the stream reports a retriable
  transport error, announces the gap on the public channel, leaves the market data and the ticker
  cache as they were, and may be reconnected.
\<close>

theorem gap_discards_frame:
  assumes "pa_public_observations (lc_parsers ctx (lr_catalog s)) payload = Ok seen"
    and "fst (observe_all seen (ss_sequence sess)) = Some n"
    and "\<not> is_binance_ack ctx payload" and "\<not> is_bybit_control_message ctx payload"
  shows "\<exists>s' err err'. binance_public_text ctx sub payload input sess s = (Err err, s') \<and>
    bybit_public_text ctx sub payload input sess s = (Err err', s') \<and>
    me_kind err = TransportError \<and> me_kind err' = TransportError \<and> ec_retriable (me_context err) \<and> ec_retriable (me_context err') \<and>
    market_view (engine_of s') = market_view (engine_of s) \<and> lr_ticker_cache s' = lr_ticker_cache s \<and>
    sh_public_events (lr_shared s') =
      sh_public_events (lr_shared s) @ [PublicLaneEvent.Divergence (gap_event (Some n))]"
proof -
  obtain tracker where seen: "observe_all seen (ss_sequence sess) = (Some n, tracker)"
    using assms(2) by (cases "observe_all seen (ss_sequence sess)") simp
  obtain sh where "shared_apply_public_event (lc_decimal ctx) (PublicLaneEvent.Divergence (gap_event (Some n))) (lr_shared s) = (Ok (), sh)"
    "market_view (sh_state sh) = market_view (engine_of s)"
    "sh_public_events sh = sh_public_events (lr_shared s) @ [PublicLaneEvent.Divergence (gap_event (Some n))]"
    using divergence_event by blast
  then show ?thesis
    using assms(1,3,4)
    by (simp add: binance_public_text_def bybit_public_text_def rt_bind_def rt_parse_def track_observe_all seen
        public_gap_def rt_public_event_def rt_lift_def Let_def sequence_gap_error_def)
qed

lemma rt_for_length:
  assumes "\<And>x acc s r s'. body x acc s = (Ok r, s') \<Longrightarrow> s' = s \<and> length r = length acc + k"
    and "rt_for xs body acc s = (Ok r, s')"
  shows "s' = s \<and> length r = length acc + length xs * k"
  using assms(2)
proof (induction xs arbitrary: acc s)
  case (Cons x xs)
  then obtain acc' s1 where "body x acc s = (Ok acc', s1)" "rt_for xs body acc' s1 = (Ok r, s')"
    by (auto simp: rt_bind_def split: prod.splits sum.splits)
  with assms(1) Cons.IH show ?case by fastforce
qed (auto simp: rt_return_def)

lemma rt_bind_Ok: "rt_bind m k s = (Ok r, s') \<longleftrightarrow> (\<exists>x s1. m s = (Ok x, s1) \<and> k x s1 = (Ok r, s'))"
  by (auto simp: rt_bind_def split: prod.splits sum.splits)

lemma rt_lift_Ok: "rt_lift r s = (Ok x, s') \<longleftrightarrow> r = Ok x \<and> s' = s"
  by (auto simp: rt_lift_def)

lemma rt_return_Ok: "rt_return x s = (Ok y, s') \<longleftrightarrow> y = x \<and> s' = s"
  by (auto simp: rt_return_def)

lemma require_spec_Ok:
  "require_spec ctx iid s = (Ok spec, s') \<longleftrightarrow> catalog_get (lr_catalog s) iid = Some spec \<and> s' = s"
  by (auto simp: require_spec_def ok_or_def split: option.splits)

lemmas rt_Ok = rt_bind_Ok rt_lift_Ok rt_return_Ok require_spec_Ok

lemma kline_topics_length:
  fixes topics :: "'b list"
  assumes "kline_topics ctx operation topic intervals s = (Ok topics, s')"
  shows "s' = s \<and> length topics = length intervals"
proof -
  have "s' = s \<and> length topics = length ([] :: 'b list) + length intervals * 1"
    by (rule rt_for_length [OF _ assms [unfolded kline_topics_def]]) (auto simp: rt_Ok)
  then show ?thesis by simp
qed

text \<open>
  A stream subscribes to every topic it was asked for: when the topics can be built, their
  number is the capacity computed beforehand, one per requested feed and candle interval of
  each instrument, and building them changes nothing.
\<close>

theorem topics_fill_capacity:
  "(case binance_public_topics ctx sub s of
      (Inr topics, s') \<Rightarrow> s' = s \<and> length topics = binance_public_stream_topic_capacity sub
    | (Inl _, s') \<Rightarrow> s' = s) \<and>
   (case bybit_public_topics ctx sub s of
      (Inr topics, s') \<Rightarrow> s' = s \<and> length topics = bybit_public_stream_topic_capacity sub
    | (Inl _, s') \<Rightarrow> s' = s)"
proof -
  have same: "snd (binance_public_topics ctx sub s) = s" "snd (bybit_public_topics ctx sub s) = s"
    using rt_keepsD [OF rt_keeps_topics(1), of "\<lambda>t. t = s" s] rt_keepsD [OF rt_keeps_topics(2), of "\<lambda>t. t = s" s] by simp_all
  have "length topics = binance_public_stream_topic_capacity sub" if "binance_public_topics ctx sub s = (Ok topics, s')" for topics s'
  proof -
    let ?k = "binance_public_stream_topic_capacity (sub\<lparr>ps_instrument_ids := [undefined]\<rparr>)"
    have "s' = s \<and> length topics = length ([] :: string list) + length (ps_instrument_ids sub) * ?k"
      by (rule rt_for_length [OF _ that [unfolded binance_public_topics_def]])
        (auto simp: rt_Ok Let_def binance_public_stream_topic_capacity_def dest!: kline_topics_length)
    then show ?thesis by (simp add: binance_public_stream_topic_capacity_def)
  qed
  moreover
  have "length topics = bybit_public_stream_topic_capacity sub" if "bybit_public_topics ctx sub s = (Ok topics, s')" for topics s'
  proof -
    let ?k = "bybit_public_stream_topic_capacity (sub\<lparr>ps_instrument_ids := [undefined]\<rparr>)"
    have "s' = s \<and> length topics = length ([] :: string list) + length (ps_instrument_ids sub) * ?k"
      by (rule rt_for_length [OF _ that [unfolded bybit_public_topics_def]])
        (auto simp: rt_Ok Let_def bybit_public_stream_topic_capacity_def dest!: kline_topics_length)
    then show ?thesis by (simp add: bybit_public_stream_topic_capacity_def)
  qed
  ultimately show ?thesis using same by (auto split: prod.splits sum.splits)
qed

section \<open>Concrete instances\<close>

definition ticker_subscription :: PublicSubscription where
  "ticker_subscription =
     \<lparr>ps_instrument_ids = [StringId ''BTC/USDT:USDT''], ps_ticker = True, ps_trades = False, ps_book_top = False,
      ps_order_book = False, ps_mark_price = False, ps_funding_rate = False, ps_open_interest = False,
      ps_liquidations = False, ps_kline_intervals = []\<rparr>"

definition quiet_attempt :: StreamAttempt where
  "quiet_attempt =
     \<lparr>sa_connect = (\<lambda>_. None), sa_send = (\<lambda>_. None), sa_opened_at = 0,
      sa_inputs = [\<lparr>si_begin = 5, si_end = 6, si_event = Received (TextFrame ''{}'')\<rparr>,
        \<lparr>si_begin = 7, si_end = 8, si_event = ShutdownRequested\<rparr>]\<rparr>"

definition mute_env :: "(int \<times> u32) AdapterEnv" where
  "mute_env = sample_env\<lparr>ae_json := (\<lambda>_. Inl ''no document'')\<rparr>"

definition stream_sample_context :: "(int, int) Time_ops \<Rightarrow> (int \<times> u32) LiveContext" where
  "stream_sample_context TO = (sample_context Bybit)\<lparr>lc_parsers := adapter_parsers mute_env TO Bybit\<rparr>"

theorem streams_keep_engine_witness:
  "\<forall>TO. engine_wf (engine_of (snd (run_private_stream (stream_sample_context TO) [quiet_attempt]
    (snd (run_public_stream (stream_sample_context TO) DefaultRoute ticker_subscription [quiet_attempt]
      (sample_runtime sample_engine []))))))"
proof
  fix TO
  have "stream_context mute_env TO (stream_sample_context TO)"
    by (simp add: stream_context_def metadata_scaled_def stream_sample_context_def sample_context_def config_new_def
        mute_env_def bybit_parse_metadata_snapshot_def bybit_response_def from_str_def map_err_def)
  moreover have "catalog_wf (lr_catalog (sample_runtime sample_engine []))"
    by (simp add: sample_runtime_def catalog_new_wf)
  moreover have "runtime_inv (lc_decimal (stream_sample_context TO)) (es_health sample_engine) (sample_runtime sample_engine [])"
    by (simp add: stream_sample_context_def sample_context_def sample_runtime_def shared_inv_def shared_new_def
        decimal_laws_pair sample_engine_wf sample_engine_specs_ok health_tracked_def)
  ultimately show "engine_wf (engine_of (snd (run_private_stream (stream_sample_context TO) [quiet_attempt]
    (snd (run_public_stream (stream_sample_context TO) DefaultRoute ticker_subscription [quiet_attempt]
      (sample_runtime sample_engine []))))))"
    using streams_keep_engine [of mute_env TO "stream_sample_context TO" "sample_runtime sample_engine []" "es_health sample_engine"
        DefaultRoute ticker_subscription "[quiet_attempt]" "[quiet_attempt]"]
    by (simp add: Let_def)
qed

definition limited_context :: "(int \<times> u32) LiveContext" where
  "limited_context = (sample_context Bybit)\<lparr>lc_config := (config_new Bybit LinearUsdt)
     \<lparr>cfg_reconnect := (cfg_reconnect (config_new Bybit LinearUsdt))\<lparr>rc_max_reconnect_attempts := Some 1\<rparr>\<rparr>\<rparr>"

theorem reconnects_bounded_witness:
  "run_private_stream limited_context [quiet_attempt, quiet_attempt, quiet_attempt] =
   run_private_stream limited_context [quiet_attempt, quiet_attempt]"
  using reconnects_bounded [of limited_context 1 DefaultRoute ticker_subscription "[quiet_attempt, quiet_attempt, quiet_attempt]"]
  by (simp add: limited_context_def)

definition gap_parsers :: "(int \<times> u32) AdapterParsers" where
  "gap_parsers = sample_parsers\<lparr>pa_public_observations := (\<lambda>_. Ok [trade_seen ''a'' 1, trade_seen ''a'' 5])\<rparr>"

definition gap_context :: "(int \<times> u32) LiveContext" where
  "gap_context = (sample_context Bybit)\<lparr>lc_parsers := (\<lambda>_. gap_parsers)\<rparr>"

theorem gap_discards_frame_witness:
  "\<exists>s' err. bybit_public_text gap_context ticker_subscription ''{}'' \<lparr>si_begin = 5, si_end = 6, si_event = PollTick\<rparr>
      (session_opened quiet_attempt) (sample_runtime sample_engine []) = (Err err, s') \<and>
    me_kind err = TransportError \<and>
    market_view (engine_of s') = market_view sample_engine"
proof -
  have seen: "fst (observe_all [trade_seen ''a'' 1, trade_seen ''a'' 5] (ss_sequence (session_opened quiet_attempt))) = Some 2"
    by (simp add: session_opened_def observe_def trade_seen_def bt_get_def Let_def i64_wrap_def)
  show ?thesis
    using gap_discards_frame [OF _ seen, of gap_context "sample_runtime sample_engine []" "''{}''" ticker_subscription
        "\<lparr>si_begin = 5, si_end = 6, si_event = PollTick\<rparr>"]
    by (auto simp: gap_context_def gap_parsers_def sample_context_def is_binance_ack_def is_bybit_control_message_def
        bt_get_def sample_runtime_def shared_new_def)
qed

end
