(* ===== verification/Watchers.thy ===== *)
theory Watchers
  imports Streams_Laws
begin

text \<open>
  The typed watchers of \<^verbatim>\<open>bat-markets/src/stream.rs\<close>: receivers over the public and the private
  event bus that hand out the updates of one kind, and the leases on the subscription hubs that
  keep the streams behind them running.

  A broadcast receiver is the list of what its next receives return, as in the command handles:
  an event, the note that it lagged behind and lost events, or the end of the channel.  A receive
  that would wait returns \<open>None\<close>.  The instrument of an event is looked up in the catalog when
  the event is taken, so each public event comes with the catalog of that moment.
\<close>

section \<open>Requests and filters\<close>

record WatchOhlcvRequest =
  wo_instrument_ids :: "InstrumentId list"
  wo_interval :: string

definition normalize_interval_box :: "string \<Rightarrow> string" where
  "normalize_interval_box interval =
     (case interval_parse interval of None \<Rightarrow> interval | Some i \<Rightarrow> as_interval_str i)"

definition watch_ohlcv_for_instruments :: "InstrumentId list \<Rightarrow> string \<Rightarrow> WatchOhlcvRequest" where
  "watch_ohlcv_for_instruments ids interval =
     \<lparr>wo_instrument_ids = ids, wo_interval = normalize_interval_box interval\<rparr>"

definition into_public_subscription :: "WatchOhlcvRequest \<Rightarrow> PublicSubscription" where
  "into_public_subscription request =
     no_subscription\<lparr>ps_instrument_ids := wo_instrument_ids request, ps_kline_intervals := [wo_interval request]\<rparr>"

datatype InstrumentFilter =
    SingleInstrument InstrumentId
  | ManyInstruments "InstrumentId set"

definition filter_from_vec :: "InstrumentId list \<Rightarrow> InstrumentFilter" where
  "filter_from_vec ids = (case ids of [iid] \<Rightarrow> SingleInstrument iid | _ \<Rightarrow> ManyInstruments (set ids))"

fun filter_contains :: "InstrumentFilter \<Rightarrow> InstrumentId \<Rightarrow> bool" where
  "filter_contains (SingleInstrument candidate) iid = (candidate = iid)"
| "filter_contains (ManyInstruments candidates) iid = (iid \<in> candidates)"

lemma filter_contains_vec: "filter_contains (filter_from_vec ids) iid \<longleftrightarrow> iid \<in> set ids"
  by (auto simp: filter_from_vec_def split: list.split)

section \<open>Receiving\<close>

datatype 'e Incoming =
    Heard 'e
  | Lagged u64
  | ChannelClosed

definition receive_failed :: "string \<Rightarrow> MarketError" where
  "receive_failed label = market_error TransportError (label @ '' receive failed: channel closed'')"

fun recv_event :: "string \<Rightarrow> 'e Incoming list \<Rightarrow> 'e result option \<times> 'e Incoming list" where
  "recv_event label [] = (None, [])"
| "recv_event label (Heard e # inbox) = (Some (Ok e), inbox)"
| "recv_event label (Lagged n # inbox) = recv_event label inbox"
| "recv_event label (ChannelClosed # inbox) = (Some (Err (receive_failed label)), inbox)"

lemma recv_event_shrinks: "recv_event label inbox = (Some r, rest) \<Longrightarrow> length rest < length inbox"
  by (induction label inbox rule: recv_event.induct) auto

text \<open>
  The loop of every typed receiver.  \<open>body\<close> is its body: \<open>None\<close> continues with the next event,
  anything else is returned.
\<close>

function recv_loop ::
  "string \<Rightarrow> ('e \<Rightarrow> 'a result option) \<Rightarrow> 'e Incoming list \<Rightarrow> 'a result option \<times> 'e Incoming list" where
  "recv_loop label body inbox =
     (case recv_event label inbox of
        (None, rest) \<Rightarrow> (None, rest)
      | (Some (Inl f), rest) \<Rightarrow> (Some (Inl f), rest)
      | (Some (Inr e), rest) \<Rightarrow>
          (case body e of None \<Rightarrow> recv_loop label body rest | Some r \<Rightarrow> (Some r, rest)))"
  by pat_completeness auto

termination
  by (relation "measure (\<lambda>(label, body, inbox). length inbox)") (auto dest: recv_event_shrinks [OF sym])

declare recv_loop.simps [simp del]

section \<open>What each receiver takes\<close>

definition resolve_public_spec ::
  "'d InstrumentCatalog \<Rightarrow> InstrumentId \<Rightarrow> string \<Rightarrow> 'd InstrumentSpec result" where
  "resolve_public_spec catalog iid event_name =
     ok_or (market_error Unsupported
         (''unknown instrument '' @ as_str iid @ '' for '' @ event_name @ '' update''))
       (catalog_get catalog iid)"

definition parse_watch_interval :: "string \<Rightarrow> KlineInterval result" where
  "parse_watch_interval raw =
     ok_or (market_error Unsupported (''unsupported OHLCV interval '' @ quoted raw)) (interval_parse raw)"

text \<open>A public event with the catalog at the moment it is taken.\<close>

type_synonym 'd PublicIncoming = "('d InstrumentCatalog \<times> 'd PublicLaneEvent) Incoming"

definition take_unified ::
  "string \<Rightarrow> InstrumentFilter \<Rightarrow> ('d InstrumentSpec \<Rightarrow> 'a option) \<Rightarrow> InstrumentId \<Rightarrow> 'd InstrumentCatalog
     \<Rightarrow> 'a result option" where
  "take_unified event_name ids convert iid catalog =
     (if filter_contains ids iid
      then Some (and_then (resolve_public_spec catalog iid event_name) (\<lambda>spec. or_panic (convert spec)))
      else None)"

definition take_ticker ::
  "'d Decimal_ops \<Rightarrow> InstrumentFilter \<Rightarrow> 'd InstrumentCatalog \<times> 'd PublicLaneEvent \<Rightarrow> 'd Ticker result option" where
  "take_ticker D ids i =
     (case i of (catalog, PublicLaneEvent.Ticker t) \<Rightarrow>
        take_unified ''ticker'' ids (\<lambda>spec. ticker_to_unified D spec t) (ft_instrument_id t) catalog
      | _ \<Rightarrow> None)"

definition take_trade ::
  "'d Decimal_ops \<Rightarrow> InstrumentFilter \<Rightarrow> 'd InstrumentCatalog \<times> 'd PublicLaneEvent \<Rightarrow> 'd TradeTick result option" where
  "take_trade D ids i =
     (case i of (catalog, PublicLaneEvent.Trade t) \<Rightarrow>
        take_unified ''trade'' ids (\<lambda>spec. trade_to_unified D spec t) (ftr_instrument_id t) catalog
      | _ \<Rightarrow> None)"

definition take_mark_price ::
  "'d Decimal_ops \<Rightarrow> InstrumentFilter \<Rightarrow> 'd InstrumentCatalog \<times> 'd PublicLaneEvent \<Rightarrow> 'd MarkPrice result option" where
  "take_mark_price D ids i =
     (case i of (catalog, PublicLaneEvent.MarkPrice m) \<Rightarrow>
        take_unified ''mark_price'' ids (\<lambda>spec. mark_price_to_unified D spec m) (fmp_instrument_id m) catalog
      | _ \<Rightarrow> None)"

definition take_funding_rate ::
  "InstrumentFilter \<Rightarrow> 'd InstrumentCatalog \<times> 'd PublicLaneEvent \<Rightarrow> 'd FundingRate result option" where
  "take_funding_rate ids i =
     (case i of (_, PublicLaneEvent.FundingRate f) \<Rightarrow>
        if filter_contains ids (fr_instrument_id f) then Some (Ok f) else None
      | _ \<Rightarrow> None)"

definition take_open_interest ::
  "InstrumentFilter \<Rightarrow> 'd InstrumentCatalog \<times> 'd PublicLaneEvent \<Rightarrow> 'd OpenInterest result option" where
  "take_open_interest ids i =
     (case i of (_, PublicLaneEvent.OpenInterest v) \<Rightarrow>
        if filter_contains ids (oi_instrument_id v) then Some (Ok v) else None
      | _ \<Rightarrow> None)"

definition take_liquidation ::
  "'d Decimal_ops \<Rightarrow> InstrumentFilter \<Rightarrow> 'd InstrumentCatalog \<times> 'd PublicLaneEvent \<Rightarrow> 'd Liquidation result option" where
  "take_liquidation D ids i =
     (case i of (catalog, PublicLaneEvent.Liquidation l) \<Rightarrow>
        take_unified ''liquidation'' ids (\<lambda>spec. liquidation_to_unified D spec l) (fl_instrument_id l) catalog
      | _ \<Rightarrow> None)"

definition take_order_book ::
  "'d Decimal_ops \<Rightarrow> InstrumentId \<Rightarrow> 'd InstrumentCatalog \<times> 'd PublicLaneEvent \<Rightarrow> 'd OrderBookDelta result option" where
  "take_order_book D iid i =
     (case i of (catalog, PublicLaneEvent.OrderBookDelta b) \<Rightarrow>
        if fob_instrument_id b = iid
        then Some (and_then (resolve_public_spec catalog (fob_instrument_id b) ''order_book'')
          (\<lambda>spec. or_panic (order_book_to_unified D spec b)))
        else None
      | _ \<Rightarrow> None)"

definition take_kline ::
  "'d Decimal_ops \<Rightarrow> InstrumentFilter \<Rightarrow> KlineInterval \<Rightarrow> 'd InstrumentCatalog \<times> 'd PublicLaneEvent
     \<Rightarrow> 'd Kline result option" where
  "take_kline D ids requested i =
     (case i of (catalog, PublicLaneEvent.Kline k) \<Rightarrow>
        (case interval_parse (fk_interval k) of
           None \<Rightarrow> None
         | Some incoming \<Rightarrow>
             if \<not> filter_contains ids (fk_instrument_id k) \<or> incoming \<noteq> requested then None
             else Some (and_then (resolve_public_spec catalog (fk_instrument_id k) ''kline'') (\<lambda>spec.
               and_then (or_panic (kline_to_unified D spec k)) (\<lambda>unified.
                 Ok (unified\<lparr>kl_interval := as_interval_str requested\<rparr>)))))
      | _ \<Rightarrow> None)"

section \<open>The receivers\<close>

definition recv_ticker ::
  "'d Decimal_ops \<Rightarrow> InstrumentFilter \<Rightarrow> 'd PublicIncoming list \<Rightarrow> 'd Ticker result option \<times> 'd PublicIncoming list" where
  "recv_ticker D ids inbox = recv_loop ''ticker subscription'' (take_ticker D ids) inbox"

definition recv_trade ::
  "'d Decimal_ops \<Rightarrow> InstrumentFilter \<Rightarrow> 'd PublicIncoming list \<Rightarrow> 'd TradeTick result option \<times> 'd PublicIncoming list" where
  "recv_trade D ids inbox = recv_loop ''trade subscription'' (take_trade D ids) inbox"

definition recv_mark_price ::
  "'d Decimal_ops \<Rightarrow> InstrumentFilter \<Rightarrow> 'd PublicIncoming list \<Rightarrow> 'd MarkPrice result option \<times> 'd PublicIncoming list" where
  "recv_mark_price D ids inbox = recv_loop ''mark_price subscription'' (take_mark_price D ids) inbox"

definition recv_funding_rate ::
  "InstrumentFilter \<Rightarrow> 'd PublicIncoming list \<Rightarrow> 'd FundingRate result option \<times> 'd PublicIncoming list" where
  "recv_funding_rate ids inbox = recv_loop ''funding_rate subscription'' (take_funding_rate ids) inbox"

definition recv_open_interest ::
  "InstrumentFilter \<Rightarrow> 'd PublicIncoming list \<Rightarrow> 'd OpenInterest result option \<times> 'd PublicIncoming list" where
  "recv_open_interest ids inbox = recv_loop ''open_interest subscription'' (take_open_interest ids) inbox"

definition recv_liquidation ::
  "'d Decimal_ops \<Rightarrow> InstrumentFilter \<Rightarrow> 'd PublicIncoming list \<Rightarrow> 'd Liquidation result option \<times> 'd PublicIncoming list" where
  "recv_liquidation D ids inbox = recv_loop ''liquidation subscription'' (take_liquidation D ids) inbox"

definition recv_order_book ::
  "'d Decimal_ops \<Rightarrow> InstrumentId \<Rightarrow> 'd PublicIncoming list \<Rightarrow> 'd OrderBookDelta result option \<times> 'd PublicIncoming list" where
  "recv_order_book D iid inbox = recv_loop ''order_book subscription'' (take_order_book D iid) inbox"

definition recv_kline ::
  "'d Decimal_ops \<Rightarrow> InstrumentFilter \<Rightarrow> string \<Rightarrow> 'd PublicIncoming list \<Rightarrow> 'd Kline result option \<times> 'd PublicIncoming list" where
  "recv_kline D ids interval inbox =
     (case parse_watch_interval interval of
        Inl f \<Rightarrow> (Some (Inl f), inbox)
      | Inr requested \<Rightarrow> recv_loop ''ohlcv subscription'' (take_kline D ids requested) inbox)"

text \<open>The private receivers pass on every event of their kind.\<close>

definition recv_order :: "'d PrivateLaneEvent Incoming list \<Rightarrow> 'd Order result option \<times> 'd PrivateLaneEvent Incoming list" where
  "recv_order inbox = recv_loop ''order subscription''
     (\<lambda>e. case e of PrivateLaneEvent.Order v \<Rightarrow> Some (Ok v) | _ \<Rightarrow> None) inbox"

definition recv_execution ::
  "'d PrivateLaneEvent Incoming list \<Rightarrow> 'd Execution result option \<times> 'd PrivateLaneEvent Incoming list" where
  "recv_execution inbox = recv_loop ''execution subscription''
     (\<lambda>e. case e of PrivateLaneEvent.Execution v \<Rightarrow> Some (Ok v) | _ \<Rightarrow> None) inbox"

definition recv_position ::
  "'d PrivateLaneEvent Incoming list \<Rightarrow> 'd Position result option \<times> 'd PrivateLaneEvent Incoming list" where
  "recv_position inbox = recv_loop ''position subscription''
     (\<lambda>e. case e of PrivateLaneEvent.Position v \<Rightarrow> Some (Ok v) | _ \<Rightarrow> None) inbox"

definition recv_balance ::
  "'d PrivateLaneEvent Incoming list \<Rightarrow> 'd Balance result option \<times> 'd PrivateLaneEvent Incoming list" where
  "recv_balance inbox = recv_loop ''balance subscription''
     (\<lambda>e. case e of PrivateLaneEvent.Balance v \<Rightarrow> Some (Ok v) | _ \<Rightarrow> None) inbox"


section \<open>Watching\<close>

text \<open>
  A watch subscribes to the event bus before it acquires its lease, so it misses nothing its
  stream publishes; the receiver is the number of events published so far.
\<close>

record 'u Watch =
  wa_updates :: 'u
  wa_receiver :: nat
  wa_lease :: u64

definition watch_public ::
  "Venue \<Rightarrow> spawn_env \<Rightarrow> 'u \<Rightarrow> PublicSubscription \<Rightarrow> 'd SharedState \<Rightarrow> PublicSubscriptionHub
     \<Rightarrow> 'u Watch result \<times> PublicSubscriptionHub" where
  "watch_public venue spawn updates sub shared hub =
     (let receiver = length (sh_public_events shared) in
      case public_acquire venue spawn sub hub of
        (Inl f, hub') \<Rightarrow> (Inl f, hub')
      | (Inr lease, hub') \<Rightarrow> (Ok \<lparr>wa_updates = updates, wa_receiver = receiver, wa_lease = lease\<rparr>, hub'))"

abbreviation instruments_only :: "InstrumentId list \<Rightarrow> PublicSubscription" where
  "instruments_only ids \<equiv> no_subscription\<lparr>ps_instrument_ids := ids\<rparr>"

definition watch_ticker ::
  "Venue \<Rightarrow> spawn_env \<Rightarrow> InstrumentId list \<Rightarrow> 'd SharedState \<Rightarrow> PublicSubscriptionHub
     \<Rightarrow> InstrumentFilter Watch result \<times> PublicSubscriptionHub" where
  "watch_ticker venue spawn ids =
     watch_public venue spawn (filter_from_vec ids) ((instruments_only ids)\<lparr>ps_ticker := True\<rparr>)"

definition watch_trades ::
  "Venue \<Rightarrow> spawn_env \<Rightarrow> InstrumentId list \<Rightarrow> 'd SharedState \<Rightarrow> PublicSubscriptionHub
     \<Rightarrow> InstrumentFilter Watch result \<times> PublicSubscriptionHub" where
  "watch_trades venue spawn ids =
     watch_public venue spawn (filter_from_vec ids) ((instruments_only ids)\<lparr>ps_trades := True\<rparr>)"

definition watch_mark_prices ::
  "Venue \<Rightarrow> spawn_env \<Rightarrow> InstrumentId list \<Rightarrow> 'd SharedState \<Rightarrow> PublicSubscriptionHub
     \<Rightarrow> InstrumentFilter Watch result \<times> PublicSubscriptionHub" where
  "watch_mark_prices venue spawn ids =
     watch_public venue spawn (filter_from_vec ids) ((instruments_only ids)\<lparr>ps_mark_price := True\<rparr>)"

definition watch_funding_rates ::
  "Venue \<Rightarrow> spawn_env \<Rightarrow> InstrumentId list \<Rightarrow> 'd SharedState \<Rightarrow> PublicSubscriptionHub
     \<Rightarrow> InstrumentFilter Watch result \<times> PublicSubscriptionHub" where
  "watch_funding_rates venue spawn ids =
     watch_public venue spawn (filter_from_vec ids) ((instruments_only ids)\<lparr>ps_funding_rate := True\<rparr>)"

definition watch_open_interest ::
  "Venue \<Rightarrow> spawn_env \<Rightarrow> InstrumentId list \<Rightarrow> 'd SharedState \<Rightarrow> PublicSubscriptionHub
     \<Rightarrow> InstrumentFilter Watch result \<times> PublicSubscriptionHub" where
  "watch_open_interest venue spawn ids =
     watch_public venue spawn (filter_from_vec ids) ((instruments_only ids)\<lparr>ps_open_interest := True\<rparr>)"

definition watch_liquidations ::
  "Venue \<Rightarrow> spawn_env \<Rightarrow> InstrumentId list \<Rightarrow> 'd SharedState \<Rightarrow> PublicSubscriptionHub
     \<Rightarrow> InstrumentFilter Watch result \<times> PublicSubscriptionHub" where
  "watch_liquidations venue spawn ids =
     watch_public venue spawn (filter_from_vec ids) ((instruments_only ids)\<lparr>ps_liquidations := True\<rparr>)"

definition watch_order_book ::
  "Venue \<Rightarrow> spawn_env \<Rightarrow> WatchOrderBookRequest \<Rightarrow> 'd SharedState \<Rightarrow> PublicSubscriptionHub
     \<Rightarrow> InstrumentId Watch result \<times> PublicSubscriptionHub" where
  "watch_order_book venue spawn request =
     watch_public venue spawn (wob_instrument_id request)
       ((instruments_only [wob_instrument_id request])\<lparr>ps_order_book := True\<rparr>)"

definition watch_ohlcv ::
  "Venue \<Rightarrow> spawn_env \<Rightarrow> WatchOhlcvRequest \<Rightarrow> 'd SharedState \<Rightarrow> PublicSubscriptionHub
     \<Rightarrow> (InstrumentFilter \<times> string) Watch result \<times> PublicSubscriptionHub" where
  "watch_ohlcv venue spawn request =
     watch_public venue spawn (filter_from_vec (wo_instrument_ids request), wo_interval request)
       (into_public_subscription request)"

text \<open>The private hub as its clients see it, and the private watches.\<close>

record PrivateSubscriptionHub =
  prv_tx :: "PrivateHub option"
  prv_next_lease_id :: u64

definition private_acquire ::
  "MarketError option \<Rightarrow> PrivateSubscriptionHub \<Rightarrow> u64 result \<times> PrivateSubscriptionHub" where
  "private_acquire spawn h =
     (let lease_id = prv_next_lease_id h;
          h1 = h\<lparr>prv_next_lease_id := lease_id + 1\<rparr> in
      case prv_tx h1 of
        None \<Rightarrow> (Err hub_runtime_error, h1)
      | Some hub \<Rightarrow>
          (case run_private_hub spawn (PrivateAcquire lease_id) hub of
             (Some (Inr _), hub1) \<Rightarrow> (Ok lease_id, h1\<lparr>prv_tx := Some hub1\<rparr>)
           | (Some (Inl f), hub1) \<Rightarrow> (Inl f, h1\<lparr>prv_tx := Some hub1\<rparr>)
           | (None, hub1) \<Rightarrow> (Err (hub_closed_error ''private''), h1\<lparr>prv_tx := Some hub1\<rparr>)))"

definition private_lease_drop :: "u64 \<Rightarrow> PrivateSubscriptionHub \<Rightarrow> PrivateSubscriptionHub" where
  "private_lease_drop lease_id h =
     (case prv_tx h of
        None \<Rightarrow> h
      | Some hub \<Rightarrow> h\<lparr>prv_tx := Some (snd (run_private_hub None (PrivateRelease lease_id) hub))\<rparr>)"

text \<open>\<^verbatim>\<open>watch_orders\<close>, \<^verbatim>\<open>watch_executions\<close>, \<^verbatim>\<open>watch_positions\<close> and \<^verbatim>\<open>watch_balances\<close> differ in the receiver only.\<close>

definition watch_private ::
  "MarketError option \<Rightarrow> 'd SharedState \<Rightarrow> PrivateSubscriptionHub \<Rightarrow> unit Watch result \<times> PrivateSubscriptionHub" where
  "watch_private spawn shared hub =
     (let receiver = length (sh_private_events shared) in
      case private_acquire spawn hub of
        (Inl f, hub') \<Rightarrow> (Inl f, hub')
      | (Inr lease, hub') \<Rightarrow> (Ok \<lparr>wa_updates = (), wa_receiver = receiver, wa_lease = lease\<rparr>, hub'))"

section \<open>Laws of receiving\<close>

text \<open>What a client gets that keeps receiving until it would have to wait.\<close>

fun drain :: "nat \<Rightarrow> ('i list \<Rightarrow> 'a option \<times> 'i list) \<Rightarrow> 'i list \<Rightarrow> 'a list" where
  "drain 0 recv inbox = []"
| "drain (Suc n) recv inbox =
     (case recv inbox of (None, _) \<Rightarrow> [] | (Some r, rest) \<Rightarrow> r # drain n recv rest)"

fun handed_out :: "string \<Rightarrow> ('e \<Rightarrow> 'a result option) \<Rightarrow> 'e Incoming \<Rightarrow> 'a result option" where
  "handed_out label body (Heard e) = body e"
| "handed_out label body (Lagged n) = None"
| "handed_out label body ChannelClosed = Some (Err (receive_failed label))"

lemma recv_loop_step:
  "recv_loop label body [] = (None, [])"
  "recv_loop label body (i # inbox) =
     (case handed_out label body i of None \<Rightarrow> recv_loop label body inbox | Some r \<Rightarrow> (Some r, inbox))"
  by (simp add: recv_loop.simps)
    (cases i; subst recv_loop.simps, simp add: recv_loop.simps [symmetric] split: option.split)

lemma drain_recv_loop:
  "length inbox \<le> n \<Longrightarrow> drain n (recv_loop label body) inbox = List.map_filter (handed_out label body) inbox"
proof (induction inbox arbitrary: n)
  case Nil
  show ?case by (cases n) (simp_all add: recv_loop_step List.map_filter_simps)
next
  case (Cons i inbox)
  then obtain m where n: "n = Suc m" "length inbox \<le> m" by (cases n) auto
  show ?case
  proof (cases "handed_out label body i")
    case None
    from Cons.IH [of n] n have "drain n (recv_loop label body) inbox = List.map_filter (handed_out label body) inbox"
      by simp
    with None show ?thesis by (simp add: n(1) recv_loop_step List.map_filter_simps)
  next
    case (Some r)
    with Cons.IH [of m] n show ?thesis by (simp add: recv_loop_step List.map_filter_simps)
  qed
qed

section \<open>Laws of watching\<close>

definition wanted :: "PublicSubscription \<Rightarrow> 'd PublicLaneEvent \<Rightarrow> bool" where
  "wanted sub e \<longleftrightarrow> retained sub e \<and>
     (case public_event_instrument e of None \<Rightarrow> False | Some iid \<Rightarrow> iid \<in> set (ps_instrument_ids sub))"

lemma take_unified_Some: "(\<exists>r. take_unified event_name ids convert iid catalog = Some r) \<longleftrightarrow> filter_contains ids iid"
  by (auto simp: take_unified_def)

lemma feeds_normalize: "feeds (normalize_public_subscription sub) = feeds sub"
  by (simp add: feeds_def normalize_public_subscription_def subscription_topics_def)

definition hub_feeds :: "PublicHub \<Rightarrow> (InstrumentId \<times> Topic) set" where
  "hub_feeds hub = (\<Union>h\<in>set (ph_running hub). feeds (lh_subscription h))"

text \<open>What a request for a lease leaves: all that was asked for, or the hub as it was.\<close>

definition leased :: "(InstrumentId \<times> Topic) set \<Rightarrow> PublicHub \<Rightarrow> 'a result \<times> PublicSubscriptionHub \<Rightarrow> bool" where
  "leased topics hub r \<longleftrightarrow>
     (case pub_tx (snd r) of
        None \<Rightarrow> False
      | Some hub' \<Rightarrow>
          (case fst r of
             Inr _ \<Rightarrow> topics \<subseteq> hub_feeds hub'
           | Inl _ \<Rightarrow> ph_active hub' = ph_active hub \<and> ph_running hub' = ph_running hub))"

lemma acquire_leased:
  assumes "hub_inv hub" and "pub_tx h = Some hub"
  shows "leased (feeds sub) hub (public_acquire venue spawn sub h)"
proof -
  let ?sub = "normalize_public_subscription sub" and ?id = "pub_next_lease_id h"
  have "\<exists>r hub'. run_public_hub venue spawn (PublicAcquire ?id ?sub) hub = (Some r, hub')"
    by (auto simp: run_public_hub_def Let_def split: prod.split sum.split)
  then obtain r hub' where run: "run_public_hub venue spawn (PublicAcquire ?id ?sub) hub = (Some r, hub')" by blast
  show ?thesis
  proof (cases r)
    case (Inl f)
    with acquire_Err [OF assms(1), of venue spawn ?id ?sub f hub'] run
    have "hub' = hub\<lparr>ph_spawned := ph_spawned hub'\<rparr>" by simp
    then obtain n where "hub' = hub\<lparr>ph_spawned := n\<rparr>" by blast
    with Inl run assms(2) show ?thesis by (simp add: leased_def public_acquire_def Let_def)
  next
    case (Inr u)
    with acquire_Ok [OF assms(1), of venue spawn ?id ?sub u hub'] run
    have inv: "hub_inv hub'" and act: "ph_active hub' = bt_insert ?id ?sub (ph_active hub)" by simp_all
    then have "?sub \<in> set (bt_values (ph_active hub'))" by (auto simp: hub_inv_def bt.vals_iff)
    with inv core_feeds [of hub'] have "feeds ?sub \<subseteq> hub_feeds hub'"
      by (auto simp: hub_inv_def hub_feeds_def)
    with Inr run assms(2) show ?thesis by (simp add: leased_def public_acquire_def Let_def feeds_normalize)
  qed
qed

lemma watch_leased:
  assumes "hub_inv hub" and "pub_tx h = Some hub" and "feeds sub = topics"
  shows "leased topics hub (watch_public venue spawn updates sub shared h)"
proof -
  obtain r h' where "public_acquire venue spawn sub h = (r, h')" by fastforce
  with acquire_leased [OF assms(1,2), of sub venue spawn] assms(3) show ?thesis
    by (cases r) (simp_all add: watch_public_def leased_def Let_def split: option.splits)
qed

lemma feeds_one_topic:
  "feeds ((instruments_only ids)\<lparr>ps_ticker := True\<rparr>) = set ids \<times> {TickerTopic}"
  "feeds ((instruments_only ids)\<lparr>ps_trades := True\<rparr>) = set ids \<times> {TradesTopic}"
  "feeds ((instruments_only ids)\<lparr>ps_mark_price := True\<rparr>) = set ids \<times> {MarkPriceTopic}"
  "feeds ((instruments_only ids)\<lparr>ps_funding_rate := True\<rparr>) = set ids \<times> {FundingRateTopic}"
  "feeds ((instruments_only ids)\<lparr>ps_open_interest := True\<rparr>) = set ids \<times> {OpenInterestTopic}"
  "feeds ((instruments_only ids)\<lparr>ps_liquidations := True\<rparr>) = set ids \<times> {LiquidationsTopic}"
  "feeds ((instruments_only ids)\<lparr>ps_order_book := True\<rparr>) = set ids \<times> {OrderBookTopic}"
  "feeds (into_public_subscription request) = set (wo_instrument_ids request) \<times> {KlineTopic (wo_interval request)}"
  by (simp_all add: feeds_def subscription_topics_def no_subscription_def into_public_subscription_def)

section \<open>Properties\<close>


text \<open>
  A watcher and its subscription agree: the events a receiver takes are exactly those that
  the stream of its own subscription publishes for the watched instruments, and a candle
  receiver moreover only takes candles of its interval, in whatever spelling.
\<close>

theorem watchers_take_their_subscription:
  "(take_ticker D (filter_from_vec ids) (c, e) \<noteq> None \<longleftrightarrow> wanted ((instruments_only ids)\<lparr>ps_ticker := True\<rparr>) e) \<and>
   (take_trade D (filter_from_vec ids) (c, e) \<noteq> None \<longleftrightarrow> wanted ((instruments_only ids)\<lparr>ps_trades := True\<rparr>) e) \<and>
   (take_mark_price D (filter_from_vec ids) (c, e) \<noteq> None \<longleftrightarrow> wanted ((instruments_only ids)\<lparr>ps_mark_price := True\<rparr>) e) \<and>
   (take_funding_rate (filter_from_vec ids) (c, e) \<noteq> None \<longleftrightarrow> wanted ((instruments_only ids)\<lparr>ps_funding_rate := True\<rparr>) e) \<and>
   (take_open_interest (filter_from_vec ids) (c, e) \<noteq> None \<longleftrightarrow> wanted ((instruments_only ids)\<lparr>ps_open_interest := True\<rparr>) e) \<and>
   (take_liquidation D (filter_from_vec ids) (c, e) \<noteq> None \<longleftrightarrow> wanted ((instruments_only ids)\<lparr>ps_liquidations := True\<rparr>) e) \<and>
   (take_order_book D iid (c, e) \<noteq> None \<longleftrightarrow> wanted ((instruments_only [iid])\<lparr>ps_order_book := True\<rparr>) e) \<and>
   (take_kline D (filter_from_vec ids) i (c, e) \<noteq> None \<longleftrightarrow>
      wanted (into_public_subscription (watch_ohlcv_for_instruments ids (as_interval_str i))) e \<and>
      (case e of PublicLaneEvent.Kline k \<Rightarrow> interval_parse (fk_interval k) = Some i | _ \<Rightarrow> False))"
  by (cases e)
    (simp_all add: take_ticker_def take_trade_def take_mark_price_def take_funding_rate_def take_open_interest_def
      take_liquidation_def take_order_book_def take_kline_def take_unified_Some wanted_def retained_def
      filter_contains_vec no_subscription_def into_public_subscription_def watch_ohlcv_for_instruments_def
      split: option.split)


end
