(* ===== verification/Batch_Commands.thy ===== *)
theory Batch_Commands
  imports Command_Laws Adapters
begin

text \<open>
  Amendments and batches in \<^verbatim>\<open>bat-markets/src/runtime.rs\<close>: \<^verbatim>\<open>amend_order\<close>, \<^verbatim>\<open>create_orders\<close>,
  \<^verbatim>\<open>amend_orders\<close>, \<^verbatim>\<open>cancel_orders\<close> and \<^verbatim>\<open>cancel_all_orders\<close>, with the decoding of the batch
  responses of each venue.
\<close>

section \<open>Amending one order\<close>

definition unsupported_mexc_command :: "'d LiveContext \<Rightarrow> string \<Rightarrow> string \<Rightarrow> MarketError" where
  "unsupported_mexc_command ctx operation reason =
     with_context ctx (market_error Unsupported (''mexc '' @ operation @ '' is unsupported: '' @ reason))"

definition no_mexc_amend :: string where
  "no_mexc_amend = ''official MEXC futures docs do not expose a regular order amend endpoint''"

definition amend_target :: "'d AmendOrderRequest \<Rightarrow> 'd Order \<Rightarrow> bool" where
  "amend_target request order \<longleftrightarrow>
     ord_instrument_id order = am_instrument_id request \<and>
     (case (am_order_id request, am_client_order_id request) of
        (Some oid, _) \<Rightarrow> ord_order_id order = oid
      | (None, Some cid) \<Rightarrow> ord_client_order_id order = Some cid
      | (None, None) \<Rightarrow> False)"

definition resolve_order_for_amend :: "'d LiveContext \<Rightarrow> 'd AmendOrderRequest \<Rightarrow> ('d, 'd Order) rt" where
  "resolve_order_for_amend ctx request =
     rt_bind (rt_read (\<lambda>s. find (amend_target request) (engine_orders (engine_of s)))) (\<lambda>found.
       case found of
         Some order \<Rightarrow> rt_return order
       | None \<Rightarrow> get_order ctx
           \<lparr>go_request_id = am_request_id request, go_instrument_id = am_instrument_id request,
            go_order_id = am_order_id request, go_client_order_id = am_client_order_id request\<rparr>)"

text \<open>
  The parameters of a Binance amendment, from the request and the order it amends; \<open>what\<close> names
  the command in the error messages.
\<close>

definition binance_amend_fields ::
  "'d Decimal_ops \<Rightarrow> string \<Rightarrow> string \<Rightarrow> string \<Rightarrow> 'd Order \<Rightarrow> 'd AmendOrderRequest \<Rightarrow> (string \<times> string) list result" where
  "binance_amend_fields D what which native_symbol current request =
     (if ord_order_type current \<noteq> Limit then
        Err (market_error Unsupported (what @ '' currently supports only '' @ which @ ''LIMIT orders''))
      else if am_trigger_price request \<noteq> None then
        Err (market_error Unsupported (what @ '' does not support modifying trigger_price on linear futures''))
      else
        and_then (ok_or (market_error ConfigError (what @ '' requires a limit price or a cached order price''))
               (or_else (am_price request) (ord_price current))) (\<lambda>price.
          append_order_identity
               [(''symbol'', native_symbol), (''side'', binance_side (ord_side current)),
                (''quantity'', format_quantity D (case am_quantity request of None \<Rightarrow> ord_quantity current | Some q \<Rightarrow> q)),
                (''price'', format_price D price)]
               (am_order_id request) (am_client_order_id request)))"

definition binance_amend_submission ::
  "'d LiveContext \<Rightarrow> 'd AmendOrderRequest \<Rightarrow> ('d, CommandReceipt \<times> CommandTransport) rt" where
  "binance_amend_submission ctx request =
     rt_bind (require_spec ctx (am_instrument_id request)) (\<lambda>spec.
     rt_bind (resolve_order_for_amend ctx request) (\<lambda>current.
     rt_bind (rt_lift (binance_amend_fields (lc_decimal ctx) ''binance amend'' '''' (is_native_symbol spec) current request)) (\<lambda>owned.
       submit_preferring_ws ctx AmendOrder (am_request_id request) (lc_ws_order_entry ctx) ''edit_order_ws''
           (binance_signed_ws_request_text ctx ''order.modify''
             (owned @ [(''origType'', binance_order_type (ord_order_type current))]) ''binance.amend_order_ws'')
           (binance_signed_request_text ctx ''PUT'' ''/fapi/v1/order'' owned ''binance.amend_order''))))"

definition bybit_amend_pairs ::
  "'d Decimal_ops \<Rightarrow> (string \<times> string) list \<Rightarrow> 'd AmendOrderRequest \<Rightarrow> (string \<times> string) list result" where
  "bybit_amend_pairs D start request =
     map_result (\<lambda>pairs. pairs @
         when_some (am_quantity request) (\<lambda>q. (''qty'', format_quantity D q)) @
         when_some (am_price request) (\<lambda>p. (''price'', format_price D p)) @
         when_some (am_trigger_price request) (\<lambda>p. (''triggerPrice'', format_price D p)))
       (append_bybit_order_identity start (am_order_id request) (am_client_order_id request))"

definition bybit_amend_submission ::
  "'d LiveContext \<Rightarrow> 'd AmendOrderRequest \<Rightarrow> ('d, CommandReceipt \<times> CommandTransport) rt" where
  "bybit_amend_submission ctx request =
     rt_bind (require_spec ctx (am_instrument_id request)) (\<lambda>spec.
     rt_bind (rt_lift (bybit_amend_pairs (lc_decimal ctx)
           [(''category'', ''linear''), (''symbol'', is_native_symbol spec)] request)) (\<lambda>pairs.
       submit_preferring_ws ctx AmendOrder (am_request_id request) (lc_ws_order_entry ctx) ''edit_order_ws''
           (bybit_trade_ws_request_text ctx ''order.amend'' [string_object pairs] ''bybit.amend_order_ws'')
           (rt_bind (rt_lift (serialize_body ctx ''bybit amend order'' (string_object pairs))) (\<lambda>body.
             bybit_signed_post_text ctx ''/v5/order/amend'' body ''bybit.amend_order''))))"

definition amend_order_submission ::
  "'d LiveContext \<Rightarrow> 'd AmendOrderRequest \<Rightarrow> ('d, CommandReceipt \<times> CommandTransport) rt" where
  "amend_order_submission ctx request =
     (case cfg_venue (lc_config ctx) of
        Binance \<Rightarrow> binance_amend_submission ctx request
      | Bybit \<Rightarrow> bybit_amend_submission ctx request
      | Mexc \<Rightarrow> rt_lift (Err (unsupported_mexc_command ctx ''amend_order'' no_mexc_amend)))"

definition amend_order :: "'d LiveContext \<Rightarrow> 'd AmendOrderRequest \<Rightarrow> ('d, CommandAck) rt" where
  "amend_order ctx request =
     rt_bind (validate_amend_order ctx request) (\<lambda>_.
     rt_bind rt_acquire (\<lambda>_.
     rt_bind (amend_order_submission ctx request) (\<lambda>(receipt, transport).
       conclude_command ctx AmendOrder (am_instrument_id request) (am_order_id request)
         (am_client_order_id request) (hydrate_amend_receipt receipt request) transport)))"

section \<open>Batch responses\<close>

definition value_as_i64 :: "Json \<Rightarrow> int option" where
  "value_as_i64 v = (case v of JNumber _ n \<Rightarrow> n | JString raw \<Rightarrow> parse_i64 raw | _ \<Rightarrow> None)"

text \<open>Each item of a batch response is classified like the response of a single command.\<close>

definition classify_item ::
  "'d LiveContext \<Rightarrow> string \<Rightarrow> CommandOperation \<Rightarrow> Json \<times> RequestId option \<Rightarrow> ('d, CommandReceipt) rt" where
  "classify_item ctx venue operation entry =
     (case lc_json ctx (fst entry) of
        Inl err \<Rightarrow> rt_lift (Err (market_error DecodeError (''failed to reserialize '' @ venue @ '' batch item: '' @ err)))
      | Inr payload \<Rightarrow> rt_parse ctx (\<lambda>p. pa_classify_command p operation (Some payload) (snd entry)))"

definition rt_collect :: "('x \<Rightarrow> ('d, 'a) rt) \<Rightarrow> 'x list \<Rightarrow> ('d, 'a list) rt" where
  "rt_collect f xs = rt_for xs (\<lambda>x acc. rt_bind (f x) (\<lambda>y. rt_return (acc @ [y]))) []"

definition count_mismatch :: "string \<Rightarrow> nat \<Rightarrow> nat \<Rightarrow> MarketError" where
  "count_mismatch what found expected =
     market_error DecodeError (what @ '' count '' @ show_nat found @ '' does not match request count '' @ show_nat expected)"

definition classify_binance_batch_payload ::
  "'d LiveContext \<Rightarrow> CommandOperation \<Rightarrow> RequestId option list \<Rightarrow> string \<Rightarrow> ('d, CommandReceipt list) rt" where
  "classify_binance_batch_payload ctx operation request_ids payload =
     rt_bind (rt_lift (map_err (\<lambda>err. market_error DecodeError (''failed to parse binance batch payload: '' @ err))
           (case lc_parse_json ctx payload of
              Inl err \<Rightarrow> Inl err
            | Inr v \<Rightarrow> (case json_elements v of
                None \<Rightarrow> Inl (lc_type_error ctx ''Vec<Value>'' v)
              | Some items \<Rightarrow> Inr items)))) (\<lambda>items.
       if length items \<noteq> length request_ids
         then rt_lift (Err (count_mismatch ''binance batch payload item'' (length items) (length request_ids)))
         else rt_collect (classify_item ctx ''binance'' operation) (zip items request_ids))"

definition mexc_batch_item :: "bool \<Rightarrow> int \<Rightarrow> Json \<Rightarrow> Json" where
  "mexc_batch_item success code item =
     (let item_code = (case Option.bind (or_else (json_get ''errorCode'' item) (json_get ''error_code'' item)) value_as_i64 of
            None \<Rightarrow> code | Some c \<Rightarrow> c) in
      json_object
        [(''success'', JBool (success \<and> code = 0 \<and> item_code = 0)),
         (''code'', json_i64 (if item_code = 0 then code else item_code)),
         (''message'', json_option (Option.bind (or_else (json_get ''errorMsg'' item) (json_get ''error_msg'' item)) json_as_str)),
         (''data'', item)])"

definition classify_mexc_batch_payload ::
  "'d LiveContext \<Rightarrow> CommandOperation \<Rightarrow> RequestId option list \<Rightarrow> string \<Rightarrow> ('d, CommandReceipt list) rt" where
  "classify_mexc_batch_payload ctx operation request_ids payload =
     rt_bind (rt_lift (map_err (\<lambda>err. market_error DecodeError (''failed to parse mexc batch payload: '' @ err))
           (lc_parse_json ctx payload))) (\<lambda>value.
     rt_bind (rt_lift (ok_or (market_error DecodeError ''mexc batch command response missing data array'')
           (Option.bind (json_get ''data'' value) json_elements))) (\<lambda>items.
       if length items \<noteq> length request_ids
         then rt_lift (Err (count_mismatch ''mexc batch payload item'' (length items) (length request_ids)))
         else
           (let success = (Option.bind (json_get ''success'' value) json_as_bool = Some True);
                code = (case Option.bind (json_get ''code'' value) value_as_i64 of None \<Rightarrow> 0 | Some c \<Rightarrow> c) in
            rt_collect (classify_item ctx ''mexc'' operation)
              (zip (map (mexc_batch_item success code) items) request_ids))))"

definition nth_option :: "'a list \<Rightarrow> nat \<Rightarrow> 'a option" where
  "nth_option xs i = (if i < length xs then Some (xs ! i) else None)"

definition bybit_batch_receipt ::
  "'d LiveContext \<Rightarrow> 'd InstrumentCatalog \<Rightarrow> CommandOperation \<Rightarrow> Json \<Rightarrow> Json option \<Rightarrow> Json option \<Rightarrow> BatchIdentity \<Rightarrow> CommandReceipt" where
  "bybit_batch_receipt ctx catalog operation value result ext_item identity =
     (let field = (\<lambda>item key. Option.bind (Option.bind item (json_get key)) json_as_str);
          native_code = (case Option.bind (Option.bind ext_item (json_get ''code'')) value_as_i64 of None \<Rightarrow> 0 | Some c \<Rightarrow> c) in
      \<lparr>rcp_operation = operation,
       rcp_status = (if native_code = 0 then Accepted else CommandStatus.Rejected),
       rcp_venue = cfg_venue (lc_config ctx), rcp_product = cfg_product (lc_config ctx),
       rcp_instrument_id = or_else
         (map_option is_instrument_id (Option.bind (field result ''symbol'') (by_native_symbol catalog)))
         (bi_instrument_id identity),
       rcp_order_id = or_else (map_option StringId (field result ''orderId'')) (bi_order_id identity),
       rcp_client_order_id = or_else (map_option StringId (field result ''orderLinkId'')) (bi_client_order_id identity),
       rcp_request_id = bi_request_id identity,
       rcp_message = Some (case or_else (field ext_item ''msg'') (Option.bind (json_get ''retMsg'' value) json_as_str) of
          None \<Rightarrow> ''accepted'' | Some m \<Rightarrow> m),
       rcp_native_code = (if native_code \<noteq> 0 then Some (show_int native_code) else None),
       rcp_retriable = False\<rparr>)"

definition json_list_at :: "string \<Rightarrow> Json \<Rightarrow> Json list" where
  "json_list_at key v =
     (case Option.bind (Option.bind (json_get key v) (json_get ''list'')) json_elements of None \<Rightarrow> [] | Some xs \<Rightarrow> xs)"

definition classify_bybit_batch_payload ::
  "'d LiveContext \<Rightarrow> CommandOperation \<Rightarrow> BatchIdentity list \<Rightarrow> string \<Rightarrow> ('d, CommandReceipt list) rt" where
  "classify_bybit_batch_payload ctx operation identities payload =
     rt_bind (rt_lift (map_err (\<lambda>err. market_error DecodeError (''failed to parse bybit batch payload: '' @ err))
           (lc_parse_json ctx payload))) (\<lambda>value.
     rt_bind (rt_read lr_catalog) (\<lambda>catalog.
       (let ret_code = (case Option.bind (json_get ''retCode'' value) value_as_i64 of None \<Rightarrow> 0 | Some c \<Rightarrow> c);
             results = json_list_at ''result'' value;
             ext = json_list_at ''retExtInfo'' value in
         if ret_code \<noteq> 0 then
           rt_lift (Err (market_error ExchangeReject
             (case Option.bind (json_get ''retMsg'' value) json_as_str of
                None \<Rightarrow> ''bybit batch request rejected'' | Some m \<Rightarrow> m)))
         else if results \<noteq> [] \<and> length results \<noteq> length identities
         then rt_lift (Err (count_mismatch ''bybit batch result'' (length results) (length identities)))
         else rt_return (map (\<lambda>(index, identity).
             bybit_batch_receipt ctx catalog operation value (nth_option results index) (nth_option ext index) identity)
           (enumerate 0 identities)))))"


section \<open>Chunks and joins\<close>

function chunks :: "nat \<Rightarrow> 'a list \<Rightarrow> 'a list list" where
  "chunks n xs = (if n = 0 \<or> xs = [] then [] else take n xs # chunks n (drop n xs))"
  by auto
termination by (relation "measure (\<lambda>(n, xs). length xs)") auto

declare chunks.simps [simp del]

definition place_acks ::
  "(nat \<times> 'x) list \<Rightarrow> CommandAck list \<Rightarrow> CommandAck option list \<Rightarrow> CommandAck option list" where
  "place_acks chunk chunk_acks acks =
     foldl (\<lambda>placed ((index, _), ack). placed[index := Some ack]) acks (zip chunk chunk_acks)"

definition run_chunks ::
  "nat \<Rightarrow> ((nat \<times> 'x) list \<Rightarrow> ('d, CommandAck list) rt) \<Rightarrow> (nat \<times> 'x) list \<Rightarrow> CommandAck option list \<Rightarrow>
     ('d, CommandAck option list) rt" where
  "run_chunks n run indexed acks =
     rt_for (chunks n indexed) (\<lambda>chunk placed.
       rt_bind (run chunk) (\<lambda>chunk_acks. rt_return (place_acks chunk chunk_acks placed))) acks"

text \<open>
  \<^verbatim>\<open>try_join_all\<close> runs commands at once and returns when all have finished or one has failed.
  A schedule says in which order the commands finish and which of the unfinished ones had
  already sent their request when the join failed.  Those are dropped: their request is on its
  way, what the venue answers is lost.  A job is a command with the part of it that has
  happened when it is dropped after sending.
\<close>

record JoinSchedule =
  js_order :: "nat list"
  js_sent :: "nat list"

type_synonym ('d, 'a) job = "('d, 'a) rt \<times> ('d, unit) rt"

definition join_order :: "JoinSchedule \<Rightarrow> nat \<Rightarrow> nat list" where
  "join_order sched n =
     remdups (filter (\<lambda>i. i < n) (js_order sched)) @ filter (\<lambda>i. i \<notin> set (js_order sched)) [0..<n]"

fun join_from ::
  "('d, 'a) job list \<Rightarrow> nat list \<Rightarrow> (nat \<times> 'a) list \<Rightarrow> nat list \<Rightarrow> ('d, (nat \<times> 'a) list) rt" where
  "join_from jobs sent got [] s = (Ok got, s)"
| "join_from jobs sent got (i # rest) s =
     (case fst (jobs ! i) s of
        (Inr x, s1) \<Rightarrow> join_from jobs sent ((i, x) # got) rest s1
      | (Inl f, s1) \<Rightarrow>
          (Inl f, snd (rt_for (filter (\<lambda>j. j \<in> set sent) rest) (\<lambda>j _. snd (jobs ! j)) () s1)))"

definition try_join_all :: "JoinSchedule \<Rightarrow> ('d, 'a) job list \<Rightarrow> ('d, 'a list) rt" where
  "try_join_all sched jobs =
     rt_bind (join_from jobs (js_sent sched) [] (join_order sched (length jobs))) (\<lambda>got.
       rt_return (List.map_filter (map_of got) [0..<length jobs]))"

text \<open>A command dropped after it sent its request: whatever came back, nobody sees it.\<close>

definition abandoned :: "('d, 'a) rt \<Rightarrow> ('d, unit) rt" where
  "abandoned m s = (Ok (), snd (m s))"

definition create_order_job :: "'d LiveContext \<Rightarrow> 'd CreateOrderRequest \<Rightarrow> ('d, CommandAck) job" where
  "create_order_job ctx request =
     (create_order ctx request,
      abandoned (rt_bind (validate_create_order ctx request) (\<lambda>_.
                 rt_bind (rt_acquire) (\<lambda>_.
                   create_order_submission ctx request))))"

definition amend_order_job :: "'d LiveContext \<Rightarrow> 'd AmendOrderRequest \<Rightarrow> ('d, CommandAck) job" where
  "amend_order_job ctx request =
     (amend_order ctx request,
      abandoned (rt_bind (validate_amend_order ctx request) (\<lambda>_.
                 rt_bind (rt_acquire) (\<lambda>_.
                   amend_order_submission ctx request))))"

definition cancel_order_job :: "'d LiveContext \<Rightarrow> CancelOrderRequest \<Rightarrow> ('d, CommandAck) job" where
  "cancel_order_job ctx request =
     (cancel_order ctx request,
      abandoned (rt_bind (require_spec ctx (co_instrument_id request)) (\<lambda>spec.
                 rt_bind (rt_acquire) (\<lambda>_.
                   cancel_order_submission ctx spec request))))"

section \<open>Submitting a chunk\<close>

definition submit_batch_rest ::
  "('d, string) rt \<Rightarrow> (string \<Rightarrow> ('d, CommandReceipt list) rt) \<Rightarrow> CommandReceipt list \<Rightarrow>
     ('d, CommandReceipt list \<times> CommandTransport) rt" where
  "submit_batch_rest call classify unknown s =
     (case call s of
        (Inr payload, s1) \<Rightarrow> rt_bind (classify payload) (\<lambda>receipts. rt_return (receipts, Rest)) s1
      | (Inl Panicked, s1) \<Rightarrow> (Panic, s1)
      | (Inl (Failed err), s1) \<Rightarrow>
          (if is_uncertain_command_error err then (Ok (unknown, Rest), s1) else (Err err, s1)))"

definition submit_batch_ws ::
  "'d LiveContext \<Rightarrow> ('d, CommandWsRequestError + string) rt \<Rightarrow> (string \<Rightarrow> ('d, CommandReceipt list) rt) \<Rightarrow>
     CommandReceipt list \<Rightarrow> ('d, CommandReceipt list \<times> CommandTransport) rt \<Rightarrow>
     ('d, CommandReceipt list \<times> CommandTransport) rt" where
  "submit_batch_ws ctx call classify unknown fallback s =
     (case call s of
        (Inl f, s1) \<Rightarrow> (Inl f, s1)
      | (Inr (Inr payload), s1) \<Rightarrow> rt_bind (classify payload) (\<lambda>receipts. rt_return (receipts, WebSocket)) s1
      | (Inr (Inl (Uncertain _)), s1) \<Rightarrow> (Ok (unknown, WebSocket), s1)
      | (Inr (Inl (Unavailable err)), s1) \<Rightarrow>
          (if lc_mode ctx = WebSocketOnly then (Err err, s1) else fallback s1))"

definition unknown_receipts :: "'d LiveContext \<Rightarrow> CommandOperation \<Rightarrow> BatchIdentity list \<Rightarrow> CommandReceipt list" where
  "unknown_receipts ctx operation identities =
     map (\<lambda>identity. unknown_command_receipt ctx operation (bi_instrument_id identity) (bi_order_id identity)
       (bi_client_order_id identity) (bi_request_id identity)) identities"

definition check_receipts ::
  "string \<Rightarrow> nat \<Rightarrow> CommandReceipt list \<times> CommandTransport \<Rightarrow> (CommandReceipt list \<times> CommandTransport) result" where
  "check_receipts what expected answer =
     (if length (fst answer) \<noteq> expected then
        Err (market_error DecodeError (what @ '' returned '' @ show_nat (length (fst answer)) @ '' receipts for '' @
          show_nat expected @ '' requests''))
      else Ok answer)"

definition create_identity :: "'d CreateOrderRequest \<Rightarrow> BatchIdentity" where
  "create_identity order =
     \<lparr>bi_instrument_id = Some (cr_instrument_id order), bi_order_id = None,
      bi_client_order_id = cr_client_order_id order, bi_request_id = cr_request_id order\<rparr>"

definition amend_identity :: "'d AmendOrderRequest \<Rightarrow> BatchIdentity" where
  "amend_identity order =
     \<lparr>bi_instrument_id = Some (am_instrument_id order), bi_order_id = am_order_id order,
      bi_client_order_id = am_client_order_id order, bi_request_id = am_request_id order\<rparr>"

definition cancel_identity :: "RequestId option \<Rightarrow> OrderTarget \<Rightarrow> BatchIdentity" where
  "cancel_identity rid target =
     \<lparr>bi_instrument_id = Some (ot_instrument_id target), bi_order_id = ot_order_id target,
      bi_client_order_id = ot_client_order_id target, bi_request_id = rid\<rparr>"

text \<open>The Bybit batch endpoints differ in the verb only.\<close>

definition submit_bybit_batch ::
  "'d LiveContext \<Rightarrow> CommandOperation \<Rightarrow> string \<Rightarrow> string \<Rightarrow> Json list \<Rightarrow> BatchIdentity list \<Rightarrow>
     ('d, CommandReceipt list \<times> CommandTransport) rt" where
  "submit_bybit_batch ctx operation verb ws_name batch identities =
     (let body = json_object [(''category'', JString ''linear''), (''request'', JArray batch)];
          label = ''bybit.'' @ verb @ ''_orders'';
          classify = classify_bybit_batch_payload ctx operation identities;
          unknown = unknown_receipts ctx operation identities in
      rt_bind (rt_lift (serialize_body ctx (''bybit batch '' @ verb) body)) (\<lambda>payload.
        let rest = submit_batch_rest
              (bybit_signed_post_text ctx (''/v5/order/'' @ verb @ ''-batch'') payload label) classify unknown in
        if lc_ws_order_entry ctx then
          submit_batch_ws ctx
            (bybit_trade_ws_request_text ctx (''order.'' @ verb @ ''-batch'') [body] (label @ ''_ws''))
            classify unknown rest
        else if lc_mode ctx = WebSocketOnly then rt_lift (Err (unsupported_ws_command ctx ws_name))
        else rest))"

text \<open>The Binance batch endpoint takes the orders as one parameter.\<close>

definition submit_binance_batch ::
  "'d LiveContext \<Rightarrow> CommandOperation \<Rightarrow> string \<Rightarrow> string \<Rightarrow> Json list \<Rightarrow> BatchIdentity list \<Rightarrow>
     ('d, CommandReceipt list \<times> CommandTransport) rt" where
  "submit_binance_batch ctx operation http_method verb batch identities =
     rt_bind (rt_lift (serialize_body ctx (''binance batch '' @ verb) (JArray batch))) (\<lambda>batch_json.
       submit_batch_rest
         (binance_signed_request_text ctx http_method ''/fapi/v1/batchOrders'' [(''batchOrders'', batch_json)]
           (''binance.'' @ verb @ ''_orders''))
         (classify_binance_batch_payload ctx operation (map bi_request_id identities))
         (unknown_receipts ctx operation identities))"

section \<open>Creating several orders\<close>

definition hydrate_create_request_with_batch_id ::
  "RequestId option \<Rightarrow> 'd CreateOrderRequest \<Rightarrow> 'd CreateOrderRequest" where
  "hydrate_create_request_with_batch_id batch_id request =
     (if cr_request_id request = None then request\<lparr>cr_request_id := batch_id\<rparr> else request)"

definition hydrate_amend_request_with_batch_id ::
  "RequestId option \<Rightarrow> 'd AmendOrderRequest \<Rightarrow> 'd AmendOrderRequest" where
  "hydrate_amend_request_with_batch_id batch_id request =
     (if am_request_id request = None then request\<lparr>am_request_id := batch_id\<rparr> else request)"

definition build_binance_batch_create_object :: "'d LiveContext \<Rightarrow> 'd CreateOrderRequest \<Rightarrow> ('d, Json) rt" where
  "build_binance_batch_create_object ctx request =
     rt_bind (require_spec ctx (cr_instrument_id request)) (\<lambda>spec.
       rt_return (string_object (build_binance_create_pairs (lc_decimal ctx) (is_native_symbol spec) request)))"

definition build_bybit_batch_create_object :: "'d LiveContext \<Rightarrow> 'd CreateOrderRequest \<Rightarrow> ('d, Json) rt" where
  "build_bybit_batch_create_object ctx request =
     rt_bind (require_spec ctx (cr_instrument_id request)) (\<lambda>spec.
       rt_return (json_object
         [(''symbol'', JString (is_native_symbol spec)), (''side'', JString (bybit_side (cr_side request))),
          (''orderType'', JString (bybit_order_type (cr_order_type request))),
          (''qty'', JString (format_quantity (lc_decimal ctx) (cr_quantity request))),
          (''price'', json_option (map_option (format_price (lc_decimal ctx)) (cr_price request))),
          (''triggerPrice'', json_option (map_option (format_price (lc_decimal ctx)) (cr_trigger_price request))),
          (''triggerBy'', json_option (map_option bybit_trigger_type (cr_trigger_type request))),
          (''timeInForce'', json_option (map_option (\<lambda>t. bybit_time_in_force t (cr_post_only request))
             (cr_time_in_force request))),
          (''orderLinkId'', json_option (map_option as_str (cr_client_order_id request))),
          (''reduceOnly'', JBool (cr_reduce_only request))]))"

definition build_mexc_batch_create_order_object :: "'d LiveContext \<Rightarrow> 'd CreateOrderRequest \<Rightarrow> ('d, Json) rt" where
  "build_mexc_batch_create_order_object ctx request =
     rt_bind (build_mexc_create_order_object ctx request) (\<lambda>body.
       rt_return (case body of
           JObject members \<Rightarrow> JObject (bt_insert ''stpMode'' (json_i64 0) members)
         | _ \<Rightarrow> body))"

definition emit_checked ::
  "string \<Rightarrow> nat \<Rightarrow> (CommandReceipt list \<Rightarrow> CommandTransport \<Rightarrow> ('d, CommandAck list) rt) \<Rightarrow>
     ('d, CommandReceipt list \<times> CommandTransport) rt \<Rightarrow> ('d, CommandAck list) rt" where
  "emit_checked what expected emit submission =
     rt_bind (submission) (\<lambda>answer.
     rt_bind (rt_lift (check_receipts what expected answer)) (\<lambda>checked.
       emit (fst checked) (snd checked)))"

definition binance_create_chunk_joined ::
  "'d LiveContext \<Rightarrow> (nat \<Rightarrow> JoinSchedule) \<Rightarrow> RequestId option \<Rightarrow> (nat \<times> 'd CreateOrderRequest) list \<Rightarrow>
     ('d, CommandAck list) rt" where
  "binance_create_chunk_joined ctx sched rid chunk =
     try_join_all (sched (fst (hd chunk)))
       (map (\<lambda>(_, order). create_order_job ctx (hydrate_create_request_with_batch_id rid order)) chunk)"

definition binance_create_chunk ::
  "'d LiveContext \<Rightarrow> RequestId option \<Rightarrow> (nat \<times> 'd CreateOrderRequest) list \<Rightarrow> ('d, CommandAck list) rt" where
  "binance_create_chunk ctx rid chunk =
     (let requests = map (hydrate_create_request_with_batch_id rid \<circ> snd) chunk in
      rt_bind (rt_acquire) (\<lambda>_.
      rt_bind (rt_collect (build_binance_batch_create_object ctx) requests) (\<lambda>batch.
        emit_checked ''binance batch create'' (length chunk)
            (\<lambda>receipts. cache_and_emit_create_receipts ctx receipts requests)
            (submit_binance_batch ctx CreateOrder ''POST'' ''create'' batch (map create_identity requests)))))"

definition bybit_create_chunk ::
  "'d LiveContext \<Rightarrow> RequestId option \<Rightarrow> (nat \<times> 'd CreateOrderRequest) list \<Rightarrow> ('d, CommandAck list) rt" where
  "bybit_create_chunk ctx rid chunk =
     (let requests = map (hydrate_create_request_with_batch_id rid \<circ> snd) chunk in
      rt_bind (rt_acquire) (\<lambda>_.
      rt_bind (rt_collect (build_bybit_batch_create_object ctx) requests) (\<lambda>batch.
        emit_checked ''bybit batch create'' (length chunk)
            (\<lambda>receipts. cache_and_emit_create_receipts ctx receipts requests)
            (submit_bybit_batch ctx CreateOrder ''create'' ''create_orders_ws'' batch (map create_identity requests)))))"

definition mexc_create_chunk ::
  "'d LiveContext \<Rightarrow> RequestId option \<Rightarrow> (nat \<times> 'd CreateOrderRequest) list \<Rightarrow> ('d, CommandAck list) rt" where
  "mexc_create_chunk ctx rid chunk =
     (let requests = map (hydrate_create_request_with_batch_id rid \<circ> snd) chunk in
      rt_bind (rt_acquire) (\<lambda>_.
      rt_bind (rt_collect (build_mexc_batch_create_order_object ctx) requests) (\<lambda>batch.
      rt_bind (rt_lift (serialize_body ctx ''mexc batch create'' (json_object [(''orders'', JArray batch)]))) (\<lambda>body.
        emit_checked ''mexc batch create'' (length chunk)
            (\<lambda>receipts. cache_and_emit_create_receipts ctx receipts requests)
            (submit_batch_rest
              (mexc_signed_post_text ctx ''/api/v1/private/order/submit_batch'' body ''mexc.create_orders'')
              (classify_mexc_batch_payload ctx CreateOrder (map cr_request_id requests))
              (unknown_receipts ctx CreateOrder (map create_identity requests)))))))"

definition create_orders_placed ::
  "'d LiveContext \<Rightarrow> (nat \<Rightarrow> JoinSchedule) \<Rightarrow> RequestId option \<Rightarrow> (nat \<times> 'd CreateOrderRequest) list \<Rightarrow>
     CommandAck option list \<Rightarrow> ('d, CommandAck option list) rt" where
  "create_orders_placed ctx sched rid indexed acks =
     (case cfg_venue (lc_config ctx) of
        Binance \<Rightarrow>
          (if lc_ws_order_entry ctx then run_chunks 5 (binance_create_chunk_joined ctx sched rid) indexed acks
           else if lc_mode ctx = WebSocketOnly then rt_lift (Err (unsupported_ws_command ctx ''create_orders_ws''))
           else run_chunks 5 (binance_create_chunk ctx rid) indexed acks)
      | Bybit \<Rightarrow> run_chunks 20 (bybit_create_chunk ctx rid) indexed acks
      | Mexc \<Rightarrow>
          (if lc_mode ctx = WebSocketOnly then rt_lift (Err (unsupported_ws_command ctx ''mexc.create_orders_ws''))
           else run_chunks 20 (mexc_create_chunk ctx rid) indexed acks))"

definition create_orders ::
  "'d LiveContext \<Rightarrow> (nat \<Rightarrow> JoinSchedule) \<Rightarrow> 'd CreateOrdersRequest \<Rightarrow> ('d, CommandAck list) rt" where
  "create_orders ctx sched request =
     rt_bind (validate_create_orders ctx request) (\<lambda>_.
       case crs_orders request of
           [order] \<Rightarrow>
             rt_bind (create_order ctx (hydrate_create_request_with_batch_id (crs_request_id request) order))
               (\<lambda>ack. rt_return [ack])
         | orders \<Rightarrow>
             rt_bind (create_orders_placed ctx sched (crs_request_id request) (enumerate 0 orders)
                 (replicate (length orders) None))
               (\<lambda>acks. rt_lift (collect_batch_acks acks ''create_orders'')))"

section \<open>Amending several orders\<close>

definition resolve_cached_order_for_amend :: "'d AmendOrderRequest \<Rightarrow> ('d, 'd Order) rt" where
  "resolve_cached_order_for_amend request =
     rt_bind (rt_read (\<lambda>s. find (amend_target request) (engine_orders (engine_of s)))) (\<lambda>found.
       rt_lift (ok_or (market_error ConfigError
         (''binance batch amend requires cached order state for '' @ as_str (am_instrument_id request))) found))"

definition build_binance_batch_amend_object :: "'d LiveContext \<Rightarrow> 'd AmendOrderRequest \<Rightarrow> ('d, Json) rt" where
  "build_binance_batch_amend_object ctx request =
     rt_bind (require_spec ctx (am_instrument_id request)) (\<lambda>spec.
     rt_bind (resolve_cached_order_for_amend request) (\<lambda>current.
     rt_bind (rt_lift (binance_amend_fields (lc_decimal ctx) ''binance batch amend'' ''cached ''
           (is_native_symbol spec) current request)) (\<lambda>pairs.
       rt_return (string_object pairs))))"

definition build_bybit_batch_amend_object :: "'d LiveContext \<Rightarrow> 'd AmendOrderRequest \<Rightarrow> ('d, Json) rt" where
  "build_bybit_batch_amend_object ctx request =
     rt_bind (require_spec ctx (am_instrument_id request)) (\<lambda>spec.
     rt_bind (rt_lift (bybit_amend_pairs (lc_decimal ctx) [(''symbol'', is_native_symbol spec)] request)) (\<lambda>pairs.
       rt_return (string_object pairs)))"

definition binance_amend_chunk_joined ::
  "'d LiveContext \<Rightarrow> (nat \<Rightarrow> JoinSchedule) \<Rightarrow> RequestId option \<Rightarrow> (nat \<times> 'd AmendOrderRequest) list \<Rightarrow>
     ('d, CommandAck list) rt" where
  "binance_amend_chunk_joined ctx sched rid chunk =
     try_join_all (sched (fst (hd chunk)))
       (map (\<lambda>(_, order). amend_order_job ctx (hydrate_amend_request_with_batch_id rid order)) chunk)"

definition binance_amend_chunk ::
  "'d LiveContext \<Rightarrow> RequestId option \<Rightarrow> (nat \<times> 'd AmendOrderRequest) list \<Rightarrow> ('d, CommandAck list) rt" where
  "binance_amend_chunk ctx rid chunk =
     (let requests = map (hydrate_amend_request_with_batch_id rid \<circ> snd) chunk in
      rt_bind (rt_acquire) (\<lambda>_.
      rt_bind (rt_collect (build_binance_batch_amend_object ctx) requests) (\<lambda>batch.
        emit_checked ''binance batch amend'' (length chunk)
            (\<lambda>receipts. cache_and_emit_amend_receipts ctx receipts requests)
            (submit_binance_batch ctx AmendOrder ''PUT'' ''amend'' batch (map amend_identity requests)))))"

definition bybit_amend_chunk ::
  "'d LiveContext \<Rightarrow> RequestId option \<Rightarrow> (nat \<times> 'd AmendOrderRequest) list \<Rightarrow> ('d, CommandAck list) rt" where
  "bybit_amend_chunk ctx rid chunk =
     (let requests = map (hydrate_amend_request_with_batch_id rid \<circ> snd) chunk in
      rt_bind (rt_acquire) (\<lambda>_.
      rt_bind (rt_collect (build_bybit_batch_amend_object ctx) requests) (\<lambda>batch.
        emit_checked ''bybit batch amend'' (length chunk)
            (\<lambda>receipts. cache_and_emit_amend_receipts ctx receipts requests)
            (submit_bybit_batch ctx AmendOrder ''amend'' ''edit_orders_ws'' batch (map amend_identity requests)))))"

definition amend_orders_placed ::
  "'d LiveContext \<Rightarrow> (nat \<Rightarrow> JoinSchedule) \<Rightarrow> RequestId option \<Rightarrow> (nat \<times> 'd AmendOrderRequest) list \<Rightarrow>
     CommandAck option list \<Rightarrow> ('d, CommandAck option list) rt" where
  "amend_orders_placed ctx sched rid indexed acks =
     (case cfg_venue (lc_config ctx) of
        Binance \<Rightarrow>
          (if lc_ws_order_entry ctx then run_chunks 5 (binance_amend_chunk_joined ctx sched rid) indexed acks
           else if lc_mode ctx = WebSocketOnly then rt_lift (Err (unsupported_ws_command ctx ''edit_orders_ws''))
           else run_chunks 5 (binance_amend_chunk ctx rid) indexed acks)
      | Bybit \<Rightarrow> run_chunks 20 (bybit_amend_chunk ctx rid) indexed acks
      | Mexc \<Rightarrow> rt_lift (Err (unsupported_mexc_command ctx ''amend_orders'' no_mexc_amend)))"

definition amend_orders ::
  "'d LiveContext \<Rightarrow> (nat \<Rightarrow> JoinSchedule) \<Rightarrow> 'd AmendOrdersRequest \<Rightarrow> ('d, CommandAck list) rt" where
  "amend_orders ctx sched request =
     rt_bind (validate_amend_orders ctx request) (\<lambda>_.
       case ams_orders request of
           [order] \<Rightarrow>
             rt_bind (amend_order ctx (hydrate_amend_request_with_batch_id (ams_request_id request) order))
               (\<lambda>ack. rt_return [ack])
         | orders \<Rightarrow>
             rt_bind (amend_orders_placed ctx sched (ams_request_id request) (enumerate 0 orders)
                 (replicate (length orders) None))
               (\<lambda>acks. rt_lift (collect_batch_acks acks ''amend_orders'')))"

section \<open>Cancelling several orders\<close>

definition cancel_request :: "RequestId option \<Rightarrow> OrderTarget \<Rightarrow> CancelOrderRequest" where
  "cancel_request rid target =
     \<lparr>co_request_id = rid, co_instrument_id = ot_instrument_id target, co_order_id = ot_order_id target,
      co_client_order_id = ot_client_order_id target\<rparr>"

definition cancel_joined ::
  "'d LiveContext \<Rightarrow> (nat \<Rightarrow> JoinSchedule) \<Rightarrow> RequestId option \<Rightarrow> (nat \<times> OrderTarget) list \<Rightarrow>
     ('d, CommandAck list) rt" where
  "cancel_joined ctx sched rid chunk =
     try_join_all (sched (fst (hd chunk)))
       (map (\<lambda>(_, target). cancel_order_job ctx (cancel_request rid target)) chunk)"

text \<open>Targets with an order identifier and targets with a client identifier only, by instrument.\<close>

definition group_targets ::
  "(OrderTarget \<Rightarrow> bool) \<Rightarrow> (nat \<times> OrderTarget) list \<Rightarrow> (InstrumentId, (nat \<times> OrderTarget) list) btree_map" where
  "group_targets belongs indexed =
     foldl (\<lambda>groups entry.
       (let iid = ot_instrument_id (snd entry) in
        bt_insert iid ((case bt_get groups iid of None \<Rightarrow> [] | Some members \<Rightarrow> members) @ [entry]) groups))
       [] (filter (belongs \<circ> snd) indexed)"

definition by_order_id :: "OrderTarget \<Rightarrow> bool" where
  "by_order_id target \<longleftrightarrow> ot_order_id target \<noteq> None"

definition by_client_id :: "OrderTarget \<Rightarrow> bool" where
  "by_client_id target \<longleftrightarrow> ot_order_id target = None \<and> ot_client_order_id target \<noteq> None"

fun join_with :: "string \<Rightarrow> string list \<Rightarrow> string" where
  "join_with sep [] = []"
| "join_with sep [x] = x"
| "join_with sep (x # y # ys) = x @ sep @ join_with sep (y # ys)"

definition binance_cancel_list ::
  "'d LiveContext \<Rightarrow> OrderTarget list \<Rightarrow> (string \<times> string) result" where
  "binance_cancel_list ctx targets =
     (if ot_order_id (hd targets) \<noteq> None then
        Ok (''orderIdList'', ''['' @ join_with '','' (map as_str (List.map_filter ot_order_id targets)) @ '']'')
      else
        (case lc_json ctx (JArray (map (JString \<circ> as_str) (List.map_filter ot_client_order_id targets))) of
           Inl err \<Rightarrow> config_error (''failed to serialize binance cancel batch client ids: '' @ err)
         | Inr ids \<Rightarrow> Ok (''origClientOrderIdList'', ids)))"

definition binance_cancel_chunk ::
  "'d LiveContext \<Rightarrow> string \<Rightarrow> (nat \<times> OrderTarget) list \<Rightarrow> ('d, CommandAck list) rt" where
  "binance_cancel_chunk ctx native_symbol chunk =
     (let targets = map snd chunk in
      rt_bind (rt_acquire) (\<lambda>_.
      rt_bind (rt_lift (binance_cancel_list ctx targets)) (\<lambda>ids.
        emit_checked ''binance batch cancel'' (length chunk)
            (\<lambda>receipts. cache_and_emit_cancel_receipts ctx receipts targets)
            (submit_batch_rest
              (binance_signed_request_text ctx ''DELETE'' ''/fapi/v1/batchOrders'' [(''symbol'', native_symbol), ids]
                ''binance.cancel_orders'')
              (classify_binance_batch_payload ctx CancelOrder (replicate (length chunk) None))
              (unknown_receipts ctx CancelOrder (map (cancel_identity None) targets))))))"

definition binance_cancel_group ::
  "'d LiveContext \<Rightarrow> InstrumentId \<times> (nat \<times> OrderTarget) list \<Rightarrow> CommandAck option list \<Rightarrow>
     ('d, CommandAck option list) rt" where
  "binance_cancel_group ctx entry acks =
     rt_bind (require_spec ctx (fst entry)) (\<lambda>spec.
       run_chunks 10 (binance_cancel_chunk ctx (is_native_symbol spec)) (snd entry) acks)"

definition bybit_cancel_object :: "'d LiveContext \<Rightarrow> OrderTarget \<Rightarrow> ('d, Json) rt" where
  "bybit_cancel_object ctx target =
     rt_bind (require_spec ctx (ot_instrument_id target)) (\<lambda>spec.
     rt_bind (rt_lift (append_bybit_order_identity [(''symbol'', is_native_symbol spec)]
           (ot_order_id target) (ot_client_order_id target))) (\<lambda>pairs.
       rt_return (string_object pairs)))"

definition bybit_cancel_chunk ::
  "'d LiveContext \<Rightarrow> (nat \<times> OrderTarget) list \<Rightarrow> ('d, CommandAck list) rt" where
  "bybit_cancel_chunk ctx chunk =
     (let targets = map snd chunk in
      rt_bind (rt_acquire) (\<lambda>_.
      rt_bind (rt_collect (bybit_cancel_object ctx) targets) (\<lambda>batch.
        emit_checked ''bybit batch cancel'' (length chunk)
            (\<lambda>receipts. cache_and_emit_cancel_receipts ctx receipts targets)
            (submit_bybit_batch ctx CancelOrder ''cancel'' ''cancel_orders_ws'' batch (map (cancel_identity None) targets)))))"

definition mexc_cancel_external_object :: "'d LiveContext \<Rightarrow> OrderTarget \<Rightarrow> ('d, Json) rt" where
  "mexc_cancel_external_object ctx target =
     rt_bind (require_spec ctx (ot_instrument_id target)) (\<lambda>spec.
       rt_return (json_object [(''symbol'', JString (is_native_symbol spec)),
         (''externalOid'', JString (case ot_client_order_id target of None \<Rightarrow> [] | Some cid \<Rightarrow> as_str cid))]))"

definition mexc_cancel_body ::
  "'d LiveContext \<Rightarrow> bool \<Rightarrow> OrderTarget list \<Rightarrow> ('d, string \<times> Json) rt" where
  "mexc_cancel_body ctx all_order_ids targets =
     (if all_order_ids then
        rt_return (''/api/v1/private/order/cancel'',
          json_object [(''orderIds'', JArray (map mexc_order_id_value (List.map_filter ot_order_id targets)))])
      else
        rt_bind (rt_collect (mexc_cancel_external_object ctx) targets) (\<lambda>items.
          rt_return (''/api/v1/private/order/batch_cancel_with_external'', JArray items)))"

definition mexc_cancel_chunk ::
  "'d LiveContext \<Rightarrow> RequestId option \<Rightarrow> bool \<Rightarrow> (nat \<times> OrderTarget) list \<Rightarrow> ('d, CommandAck list) rt" where
  "mexc_cancel_chunk ctx rid all_order_ids chunk =
     (let targets = map snd chunk in
      rt_bind (rt_acquire) (\<lambda>_.
      rt_bind (mexc_cancel_body ctx all_order_ids targets) (\<lambda>(path, items).
      rt_bind (rt_lift (serialize_body ctx ''mexc batch cancel'' items)) (\<lambda>body.
        emit_checked ''mexc batch cancel'' (length chunk)
            (\<lambda>receipts. cache_and_emit_cancel_receipts ctx receipts targets)
            (submit_batch_rest (mexc_signed_post_text ctx path body ''mexc.cancel_orders'')
              (classify_mexc_batch_payload ctx CancelOrder (replicate (length chunk) rid))
              (unknown_receipts ctx CancelOrder (map (cancel_identity rid) targets)))))))"

definition cancel_orders_placed ::
  "'d LiveContext \<Rightarrow> (nat \<Rightarrow> JoinSchedule) \<Rightarrow> RequestId option \<Rightarrow> (nat \<times> OrderTarget) list \<Rightarrow>
     CommandAck option list \<Rightarrow> ('d, CommandAck option list) rt" where
  "cancel_orders_placed ctx sched rid indexed acks =
     (case cfg_venue (lc_config ctx) of
        Binance \<Rightarrow>
          (if lc_ws_order_entry ctx then run_chunks 10 (cancel_joined ctx sched rid) indexed acks
           else if lc_mode ctx = WebSocketOnly then rt_lift (Err (unsupported_ws_command ctx ''cancel_orders_ws''))
           else rt_for (group_targets by_order_id indexed @ group_targets by_client_id indexed)
             (binance_cancel_group ctx) acks)
      | Bybit \<Rightarrow> run_chunks 20 (bybit_cancel_chunk ctx) indexed acks
      | Mexc \<Rightarrow>
          (if lc_mode ctx = WebSocketOnly then rt_lift (Err (unsupported_ws_command ctx ''mexc.cancel_orders_ws''))
           else
             (let all_order_ids = list_all (by_order_id \<circ> snd) indexed;
                  all_external_ids = list_all (by_client_id \<circ> snd) indexed in
              if \<not> all_order_ids \<and> \<not> all_external_ids then
                rt_bind (cancel_joined ctx sched rid indexed) (\<lambda>chunk_acks.
                  rt_return (place_acks indexed chunk_acks acks))
              else run_chunks 50 (mexc_cancel_chunk ctx rid all_order_ids) indexed acks)))"

definition cancel_orders ::
  "'d LiveContext \<Rightarrow> (nat \<Rightarrow> JoinSchedule) \<Rightarrow> CancelOrdersRequest \<Rightarrow> ('d, CommandAck list) rt" where
  "cancel_orders ctx sched request =
     rt_bind (rt_lift (validate_cancel_orders request)) (\<lambda>_.
       case cos_orders request of
           [target] \<Rightarrow>
             rt_bind (cancel_order ctx (cancel_request (cos_request_id request) target)) (\<lambda>ack. rt_return [ack])
         | targets \<Rightarrow>
             rt_bind (cancel_orders_placed ctx sched (cos_request_id request) (enumerate 0 targets)
                 (replicate (length targets) None))
               (\<lambda>acks. rt_lift (collect_batch_acks acks ''cancel_orders'')))"

section \<open>Cancelling everything\<close>

definition binance_cancel_symbol :: "'d LiveContext \<Rightarrow> InstrumentId \<Rightarrow> ('d, string) rt" where
  "binance_cancel_symbol ctx iid =
     rt_bind (require_spec ctx iid) (\<lambda>spec.
     rt_bind (binance_signed_request_text ctx ''DELETE'' ''/fapi/v1/allOpenOrders''
           [(''symbol'', is_native_symbol spec)] ''binance.cancel_all_orders'') (\<lambda>payload.
     rt_bind (binance_signed_request_text ctx ''DELETE'' ''/fapi/v1/algoOpenOrders''
           [(''symbol'', is_native_symbol spec)] ''binance.cancel_all_algo_orders'') (\<lambda>_.
       rt_return payload)))"

definition accepted_receipt :: "'d LiveContext \<Rightarrow> CommandOperation \<Rightarrow> RequestId option \<Rightarrow> CommandReceipt" where
  "accepted_receipt ctx operation rid =
     \<lparr>rcp_operation = operation, rcp_status = Accepted,
      rcp_venue = cfg_venue (lc_config ctx), rcp_product = cfg_product (lc_config ctx),
      rcp_instrument_id = None, rcp_order_id = None, rcp_client_order_id = None, rcp_request_id = rid,
      rcp_message = Some ''accepted'', rcp_native_code = None, rcp_retriable = False\<rparr>"

definition classify_answer ::
  "'d LiveContext \<Rightarrow> CommandOperation \<Rightarrow> RequestId option \<Rightarrow> string \<Rightarrow> ('d, CommandReceipt) rt" where
  "classify_answer ctx operation rid payload =
     rt_parse ctx (\<lambda>p. pa_classify_command p operation (Some payload) rid)"

definition cancel_all_submission :: "'d LiveContext \<Rightarrow> CancelAllOrdersRequest \<Rightarrow> ('d, CommandReceipt) rt" where
  "cancel_all_submission ctx request =
     (case (cfg_venue (lc_config ctx), ca_instrument_id request) of
        (Binance, Some iid) \<Rightarrow>
          rt_bind (binance_cancel_symbol ctx iid) (classify_answer ctx CancelAllOrders (ca_request_id request))
      | (Binance, None) \<Rightarrow>
          rt_bind (rt_read (\<lambda>s. bt_extend ord_instrument_id (\<lambda>_. ()) [] (engine_open_orders (engine_of s)))) (\<lambda>instruments.
          rt_bind (rt_for (map fst instruments) (\<lambda>iid _. binance_cancel_symbol ctx iid) []) (\<lambda>_.
            rt_return (accepted_receipt ctx CancelAllOrders (ca_request_id request))))
      | (Bybit, target) \<Rightarrow>
          rt_bind ((case target of
                  Some iid \<Rightarrow> rt_bind (require_spec ctx iid) (\<lambda>spec. rt_return (''symbol'', JString (is_native_symbol spec)))
                | None \<Rightarrow> rt_return (''coin'', JString ''USDT''))) (\<lambda>scope.
          rt_bind (rt_lift (serialize_body ctx ''bybit cancel-all'' (json_object [(''category'', JString ''linear''), scope]))) (\<lambda>body.
          rt_bind (bybit_signed_post_text ctx ''/v5/order/cancel-all'' body ''bybit.cancel_all_orders'') (\<lambda>payload.
            classify_answer ctx CancelAllOrders (ca_request_id request) payload)))
      | (Mexc, target) \<Rightarrow>
          rt_bind ((case target of
                  Some iid \<Rightarrow> rt_bind (require_spec ctx iid) (\<lambda>spec. rt_return [(''symbol'', JString (is_native_symbol spec))])
                | None \<Rightarrow> rt_return [])) (\<lambda>scope.
          rt_bind (rt_lift (serialize_body ctx ''mexc cancel all orders'' (json_object scope))) (\<lambda>body.
          rt_bind (mexc_signed_post_text ctx ''/api/v1/private/order/cancel_all'' body ''mexc.cancel_all_orders'') (\<lambda>payload.
            classify_answer ctx CancelAllOrders (ca_request_id request) payload))))"

definition cancel_all_orders :: "'d LiveContext \<Rightarrow> CancelAllOrdersRequest \<Rightarrow> ('d, CommandReceipt) rt" where
  "cancel_all_orders ctx request =
     (if lc_mode ctx = WebSocketOnly then rt_lift (Err (unsupported_ws_command ctx ''cancel_all_orders_ws''))
      else
        rt_bind (rt_acquire) (\<lambda>_.
        rt_bind (cancel_all_submission ctx request) (\<lambda>receipt.
        rt_bind (apply_command_receipt ctx receipt Rest) (\<lambda>_.
          rt_return receipt))))"

end
