(* ===== verification/Batch_Laws.thy ===== *)
theory Batch_Laws
  imports Batch_Commands
begin

text \<open>
  Laws of the batch commands: every acknowledgement belongs to its order and an unknown outcome
  is on the pending list, however the batch is cut into chunks and whichever way the chunks
  are sent; what a failed join drops; the engine invariant.
\<close>

lemma tripleD:
  "rt_triple P m Q E \<Longrightarrow> P s \<Longrightarrow> case m s of (Inr x, s') \<Rightarrow> Q x s' | (Inl f, s') \<Rightarrow> E s'"
  by (simp add: rt_triple_def)

section \<open>Predicates on the pending commands\<close>

text \<open>Predicates that survive when commands are added.\<close>

definition upward :: "(PendingUnknownCommand set \<Rightarrow> bool) \<Rightarrow> bool" where
  "upward P \<longleftrightarrow> (\<forall>A B. A \<subseteq> B \<longrightarrow> P A \<longrightarrow> P B)"

abbreviation pends :: "'d LiveRuntimeState \<Rightarrow> PendingUnknownCommand set" where
  "pends s \<equiv> set (lr_pending s)"

lemma upward_mono: "upward P \<Longrightarrow> P A \<Longrightarrow> A \<subseteq> B \<Longrightarrow> P B"
  unfolding upward_def by blast

lemma upward_conj: "upward P \<Longrightarrow> upward Q \<Longrightarrow> upward (\<lambda>cs. P cs \<and> Q cs)"
  unfolding upward_def by blast

lemma upward_superset: "upward (\<lambda>cs. A \<subseteq> cs)"
  unfolding upward_def by blast

interpretation pending_view: network_blind "\<lambda>s. P (pends s)" for P
  by unfold_locales simp

lemma keeps_from_pending: "(\<And>ps. rt_keeps (pending_is ps) m) \<Longrightarrow> rt_keeps (\<lambda>s. P (pends s)) m"
  by (simp add: rt_keeps_def)

definition recorded :: "CommandOperation \<Rightarrow> BatchIdentity \<Rightarrow> PendingUnknownCommand set \<Rightarrow> bool" where
  "recorded operation identity cs \<longleftrightarrow>
     (\<exists>c\<in>cs. pu_operation c = operation \<and> bi_instrument_id identity = Some (pu_instrument_id c) \<and>
       pu_order_id c = bi_order_id identity \<and> pu_client_order_id c = bi_client_order_id identity)"

definition covered :: "CommandOperation \<Rightarrow> BatchIdentity \<Rightarrow> CommandAck \<Rightarrow> PendingUnknownCommand set \<Rightarrow> bool" where
  "covered operation identity ack cs \<longleftrightarrow>
     (rcp_status (ack_receipt ack) = CommandStatus.UnknownExecution \<longrightarrow> recorded operation identity cs)"

lemma upward_covered: "upward (covered operation identity ack)"
  unfolding upward_def covered_def recorded_def by blast

lemma covered_request_id: "covered operation (identity\<lparr>bi_request_id := rid\<rparr>) = covered operation identity"
  by (simp add: covered_def recorded_def fun_eq_iff)

text \<open>A command that records its unknown outcome.\<close>

definition covers ::
  "CommandOperation \<Rightarrow> BatchIdentity \<Rightarrow> ('d, CommandAck) rt \<Rightarrow> bool" where
  "covers operation identity m \<longleftrightarrow>
     (\<forall>P. upward P \<longrightarrow> rt_triple (\<lambda>s. P (pends s)) m
       (\<lambda>ack s. P (pends s) \<and> covered operation identity ack (pends s)) (\<lambda>s. P (pends s)))"

lemma coversD:
  "covers operation identity m \<Longrightarrow> upward P \<Longrightarrow>
    rt_triple (\<lambda>s. P (pends s)) m (\<lambda>ack s. P (pends s) \<and> covered operation identity ack (pends s)) (\<lambda>s. P (pends s))"
  unfolding covers_def by blast

lemma covers_concluded:
  assumes "\<And>l. rt_triple (ledger_is l) m (concluded operation iid oid cid l) (ledger_is l)"
  shows "covers operation \<lparr>bi_instrument_id = Some iid, bi_order_id = oid, bi_client_order_id = cid, bi_request_id = rid\<rparr> m"
  unfolding covers_def rt_triple_def
proof (intro allI impI)
  fix P and s :: "'a LiveRuntimeState"
  assume up: "upward P" and P: "P (pends s)"
  obtain r s' where m: "m s = (r, s')" by fastforce
  from assms [of "ledger s"] m have out: "case r of Inr ack \<Rightarrow> concluded operation iid oid cid (ledger s) ack s'
      | Inl _ \<Rightarrow> ledger s' = ledger s"
    unfolding rt_triple_def by (cases r) auto
  let ?identity = "\<lparr>bi_instrument_id = Some iid, bi_order_id = oid, bi_client_order_id = cid, bi_request_id = rid\<rparr>"
  have "P (pends s') \<and> covered operation ?identity ack (pends s')" if "r = Inr ack" for ack
  proof (cases "rcp_status (ack_receipt ack) = CommandStatus.UnknownExecution")
    case True
    with out that have "command_recorded operation iid oid cid s'" "pends s \<subseteq> pends s'"
      by (simp_all add: concluded_def ledger_def)
    with up P show ?thesis
      by (auto simp: covered_def recorded_def command_recorded_def list_ex_iff intro: upward_mono)
  next
    case False
    with out that P show ?thesis by (simp add: concluded_def ledger_def covered_def)
  qed
  moreover have "P (pends s')" if "r = Inl f" for f
    using out that P by (simp add: ledger_def)
  ultimately show "case m s of (Inr ack, s') \<Rightarrow> P (pends s') \<and> covered operation ?identity ack (pends s')
      | (Inl f, s') \<Rightarrow> P (pends s')"
    using m by (cases r) auto
qed

section \<open>Single commands\<close>

lemma keeps_resolve_amend: "rt_keeps (ledger_is l) (resolve_order_for_amend ctx request)"
proof -
  have "rt_keeps (ledger_is l) (get_order ctx r)" for r
    using pending_get_order [of "fst l" ctx r] commands_keeper.keeps_refreshes(4) [of "snd l" ctx r]
    unfolding rt_keeps_def ledger_def by (cases l) auto
  then show ?thesis
    unfolding resolve_order_for_amend_def by (intro rt_keeps_control)
qed

lemma validate_amend_pure: "snd (validate_amend_order ctx request s) = s"
  by (simp add: validate_amend_order_def require_spec_def rt_bind_def rt_lift_def rt_return_def split: sum.split)

lemmas amend_submission_defs = amend_order_submission_def binance_amend_submission_def bybit_amend_submission_def

lemma keeps_amend_submission: "rt_keeps (ledger_is l) (amend_order_submission ctx request)"
  unfolding amend_submission_defs
  by (intro keeps_submission ledger_blind.keeps_transport keeps_resolve_amend)

lemma amend_order_triple:
  "rt_triple (ledger_is l) (amend_order ctx request)
    (concluded AmendOrder (am_instrument_id request) (am_order_id request) (am_client_order_id request) l)
    (ledger_is l)"
proof -
  have validate: "rt_keeps (ledger_is l) (validate_amend_order ctx request)"
    by (simp add: rt_keeps_def validate_amend_pure)
  show ?thesis
    unfolding amend_order_def
    by (rule triple_bind [OF triple_keeps [OF validate]],
        rule triple_bind [OF triple_keeps [OF ledger_blind.keeps_acquire]],
        rule triple_bind [OF triple_keeps [OF keeps_amend_submission]])
      (simp add: conclude_triple split: prod.split)
qed

lemma covers_commands:
  "covers CreateOrder (create_identity order) (create_order ctx order)"
  "covers AmendOrder (amend_identity change) (amend_order ctx change)"
  "covers CancelOrder (cancel_identity rid target) (cancel_order ctx (cancel_request rid' target))"
  unfolding create_identity_def amend_identity_def cancel_identity_def
  using covers_concluded [OF create_order_triple [where request = order]]
    covers_concluded [OF amend_order_triple [where request = change]]
    covers_concluded [OF cancel_order_triple [where request = "cancel_request rid' target"]]
  by (simp_all add: cancel_request_def)


section \<open>Receipts of a chunk\<close>

lemma triple_for_prefix:
  assumes "\<And>ys x acc. x \<in> set xs \<Longrightarrow> rt_triple (Inv ys acc) (body x acc) (Inv (ys @ [x])) E"
  shows "rt_triple (Inv ys acc) (rt_for xs body acc) (Inv (ys @ xs)) E"
  using assms
proof (induction xs arbitrary: ys acc)
  case Nil
  show ?case by (simp add: triple_return)
next
  case (Cons x xs)
  have "rt_triple (Inv (ys @ [x]) r) (rt_for xs body r) (Inv ((ys @ [x]) @ xs)) E" for r
    by (rule Cons.IH) (use Cons.prems in simp)
  then show ?case
    by (simp, intro triple_bind [OF Cons.prems]) simp_all
qed

lemma apply_receipt_triple:
  "rt_triple (\<lambda>s. R (pends s)) (apply_command_receipt ctx receipt transport)
    (\<lambda>ack s. R (pends s) \<and> ack_receipt ack = receipt) E"
  unfolding rt_triple_def
proof (intro allI impI)
  fix s :: "'a LiveRuntimeState"
  assume "R (pends s)"
  with apply_receipt_outcome [of ctx receipt transport s]
  show "case apply_command_receipt ctx receipt transport s of
      (Inr ack, s') \<Rightarrow> R (pends s') \<and> ack_receipt ack = receipt | (Inl f, s') \<Rightarrow> E s'"
    by auto
qed

lemma cache_pending_triple:
  assumes "upward P"
  shows "rt_triple (\<lambda>s. P (pends s)) (rt_cache_pending ctx operation iid oid cid)
    (\<lambda>_ s. P (pends s) \<and> recorded operation
      \<lparr>bi_instrument_id = Some iid, bi_order_id = oid, bi_client_order_id = cid, bi_request_id = rid\<rparr> (pends s)) E"
  unfolding rt_triple_def
proof (intro allI impI)
  fix s :: "'a LiveRuntimeState"
  assume P: "P (pends s)"
  let ?c = "\<lparr>pu_operation = operation, pu_instrument_id = iid, pu_order_id = oid, pu_client_order_id = cid,
      pu_recorded_at = TimestampMs (lc_now ctx (lr_calls s))\<rparr>"
  have "P (pends (cache_pending_unknown ?c s))"
    using assms P cache_pending_mem(2) by (rule upward_mono)
  with cache_pending_mem(1) [of ?c s]
  show "case rt_cache_pending ctx operation iid oid cid s of
      (Inr _, s') \<Rightarrow> P (pends s') \<and> recorded operation
        \<lparr>bi_instrument_id = Some iid, bi_order_id = oid, bi_client_order_id = cid, bi_request_id = rid\<rparr> (pends s')
    | (Inl f, s') \<Rightarrow> E s'"
    by (force simp: rt_cache_pending_def rt_bind_def rt_now_def rt_modify_def recorded_def)
qed

definition all_covered ::
  "CommandOperation \<Rightarrow> BatchIdentity list \<Rightarrow> CommandAck list \<Rightarrow> PendingUnknownCommand set \<Rightarrow> bool" where
  "all_covered operation identities acks cs \<longleftrightarrow>
     list_all2 (\<lambda>identity ack. covered operation identity ack cs) identities acks"

lemma upward_all_covered: "upward (all_covered operation identities acks)"
  unfolding upward_def all_covered_def
  by (blast intro: list_all2_mono upward_mono [OF upward_covered])

lemma batch_receipts_triple:
  fixes ctx :: "'d LiveContext"
  assumes "upward P" and "length receipts = length identities"
    and known: "\<And>identity. identity \<in> set identities \<Longrightarrow> bi_instrument_id identity \<noteq> None"
  shows "rt_triple (\<lambda>s. P (pends s)) (cache_and_emit_batch_receipts ctx receipts identities operation transport)
    (\<lambda>acks s. P (pends s) \<and> all_covered operation identities acks (pends s)) (\<lambda>s. P (pends s))"
proof -
  let ?E = "\<lambda>s :: 'd LiveRuntimeState. P (pends s)"
  let ?Inv = "\<lambda>(entries :: (CommandReceipt \<times> BatchIdentity) list) acks (s :: 'd LiveRuntimeState). P (pends s) \<and> all_covered operation (map snd entries) acks (pends s)"
  have step: "rt_triple (?Inv done acks)
      ((case entry of (receipt, identity) \<Rightarrow> \<lambda>acks.
        rt_bind (case bi_instrument_id identity of
            None \<Rightarrow> rt_return ()
          | Some iid \<Rightarrow>
              (if rcp_status receipt = CommandStatus.UnknownExecution
               then rt_cache_pending ctx operation iid (bi_order_id identity) (bi_client_order_id identity)
               else rt_return ())) (\<lambda>_.
        rt_bind (apply_command_receipt ctx receipt transport) (\<lambda>ack. rt_return (acks @ [ack])))) acks)
      (?Inv (done @ [entry])) ?E" if "entry \<in> set (zip receipts identities)" for "done" acks entry
  proof -
    obtain receipt identity where entry: "entry = (receipt, identity)" by fastforce
    with that known obtain iid where iid: "bi_instrument_id identity = Some iid"
      by (meson not_None_eq set_zip_rightD)
    let ?unknown = "rcp_status receipt = CommandStatus.UnknownExecution"
    let ?P = "\<lambda>cs. P cs \<and> all_covered operation (map snd done) acks cs"
    let ?Q = "\<lambda>cs. ?P cs \<and> (?unknown \<longrightarrow> recorded operation identity cs)"
    have P: "upward ?P" by (intro upward_conj assms(1) upward_all_covered)
    have identity: "identity = \<lparr>bi_instrument_id = Some iid, bi_order_id = bi_order_id identity,
        bi_client_order_id = bi_client_order_id identity, bi_request_id = bi_request_id identity\<rparr>"
      using iid by (cases identity) simp
    have cache: "rt_triple (\<lambda>s. ?P (pends s)) (if ?unknown
        then rt_cache_pending ctx operation iid (bi_order_id identity) (bi_client_order_id identity)
        else rt_return ()) (\<lambda>_ s. ?Q (pends s)) ?E"
    proof (rule triple_if)
      assume ?unknown
      show "rt_triple (\<lambda>s. ?P (pends s))
          (rt_cache_pending ctx operation iid (bi_order_id identity) (bi_client_order_id identity))
          (\<lambda>_ s. ?Q (pends s)) ?E"
        by (rule triple_conseq [OF cache_pending_triple [OF P, of ctx operation iid "bi_order_id identity"
              "bi_client_order_id identity" "bi_request_id identity" ?E]]) (simp_all flip: identity)
    qed (simp add: triple_return)
    have emit: "rt_triple (\<lambda>s. ?Q (pends s))
        (rt_bind (apply_command_receipt ctx receipt transport) (\<lambda>ack. rt_return (acks @ [ack])))
        (?Inv (done @ [entry])) ?E"
      by (rule triple_bind [OF apply_receipt_triple [where R = ?Q]])
        (rule triple_return, auto simp: entry all_covered_def covered_def intro: list_all2_appendI)
    show ?thesis
      using triple_bind [OF cache emit] by (simp add: entry iid)
  qed
  have "rt_triple (?Inv [] []) (cache_and_emit_batch_receipts ctx receipts identities operation transport)
      (?Inv ([] @ zip receipts identities)) ?E"
    unfolding cache_and_emit_batch_receipts_def by (rule triple_for_prefix [where Inv = ?Inv and ys = "[]"]) (rule step)
  then show ?thesis
    by (rule triple_conseq) (use assms(2) in \<open>simp_all add: all_covered_def\<close>)
qed

text \<open>A handler of one chunk: its acknowledgements match the entries of the chunk.\<close>

lemma emit_checked_triple:
  assumes "rt_keeps (\<lambda>s. P (pends s)) submission"
    and "\<And>receipts transport. length receipts = n \<Longrightarrow>
      rt_triple (\<lambda>s. P (pends s)) (emit receipts transport) Q (\<lambda>s. P (pends s))"
  shows "rt_triple (\<lambda>s. P (pends s)) (emit_checked what n emit submission) Q (\<lambda>s. P (pends s))"
proof -
  have check: "rt_triple (\<lambda>s. P (pends s)) (rt_lift (check_receipts what n answer))
      (\<lambda>checked s. P (pends s) \<and> length (fst checked) = n) (\<lambda>s. P (pends s))" for answer
    by (auto simp: rt_triple_def rt_lift_def check_receipts_def)
  show ?thesis
    unfolding emit_checked_def
    by (rule triple_bind [OF triple_keeps [OF assms(1)]], rule triple_bind [OF check], rule triple_pure, rule assms(2))
qed

lemma keeps_collect: "(\<And>x. rt_keeps I (f x)) \<Longrightarrow> rt_keeps I (rt_collect f xs)"
  unfolding rt_collect_def by (intro rt_keeps_control)

lemma keeps_tagged: "rt_keeps I m \<Longrightarrow> I s \<Longrightarrow> I (snd (rt_bind m (\<lambda>r. rt_return (g r)) s))"
  by (rule rt_keepsD [OF rt_keeps_bind [OF _ rt_keeps_return]])

lemma keeps_submit_batch_rest:
  assumes "rt_keeps I call" and "\<And>payload. rt_keeps I (classify payload)"
  shows "rt_keeps I (submit_batch_rest call classify unknown)"
  unfolding rt_keeps_def
proof (intro allI impI)
  fix s
  assume "I s"
  obtain r s1 where call: "call s = (r, s1)" by fastforce
  with rt_keepsD [OF assms(1) \<open>I s\<close>] have s1: "I s1" by simp
  show "I (snd (submit_batch_rest call classify unknown s))"
    using keeps_tagged [OF assms(2) s1] s1 call
    by (cases r rule: result_cases) (simp_all add: submit_batch_rest_def)
qed

lemma keeps_submit_batch_ws:
  assumes "rt_keeps I call" and "\<And>payload. rt_keeps I (classify payload)" and "rt_keeps I fallback"
  shows "rt_keeps I (submit_batch_ws ctx call classify unknown fallback)"
  unfolding rt_keeps_def
proof (intro allI impI)
  fix s
  assume "I s"
  obtain r s1 where call: "call s = (r, s1)" by fastforce
  with rt_keepsD [OF assms(1) \<open>I s\<close>] have s1: "I s1" by simp
  show "I (snd (submit_batch_ws ctx call classify unknown fallback s))"
  proof (cases r)
    case (Inr w)
    then show ?thesis
      using keeps_tagged [OF assms(2) s1] rt_keepsD [OF assms(3) s1] s1 call
      by (cases "(w, s1)" rule: ws_reply_cases) (simp_all add: submit_batch_ws_def)
  qed (use call s1 in \<open>simp add: submit_batch_ws_def\<close>)
qed

lemma keeps_classify_item: "rt_keeps I (classify_item ctx venue operation entry)"
  unfolding classify_item_def by (auto intro: rt_keeps_lift rt_keeps_parse split: sum.split)

lemma keeps_classify_batch:
  "rt_keeps I (classify_binance_batch_payload ctx operation rids payload)"
  "rt_keeps I (classify_mexc_batch_payload ctx operation rids payload)"
  "rt_keeps I (classify_bybit_batch_payload ctx operation identities payload)"
  unfolding classify_binance_batch_payload_def classify_mexc_batch_payload_def classify_bybit_batch_payload_def Let_def
  by (intro rt_keeps_control keeps_collect keeps_classify_item)+


section \<open>Joined commands\<close>

lemma join_order_set: "set (join_order sched n) = {0..<n}"
  by (auto simp: join_order_def)

lemma join_order_distinct: "distinct (join_order sched n)"
  by (auto simp: join_order_def)

definition got_covered ::
  "CommandOperation \<Rightarrow> (nat \<Rightarrow> BatchIdentity) \<Rightarrow> (nat \<times> CommandAck) list \<Rightarrow> PendingUnknownCommand set \<Rightarrow> bool" where
  "got_covered operation identity got cs \<longleftrightarrow> (\<forall>(i, ack)\<in>set got. covered operation (identity i) ack cs)"

lemma upward_got: "upward (got_covered operation identity got)"
  unfolding upward_def got_covered_def by (fast intro: upward_mono [OF upward_covered])

lemma keeps_for_in:
  "(\<And>x. x \<in> set xs \<Longrightarrow> rt_keeps I (f x)) \<Longrightarrow> rt_keeps I (rt_for xs (\<lambda>x _. f x) acc)"
  by (induction xs arbitrary: acc) (auto intro: rt_keeps_bind rt_keeps_return)

lemma join_from_triple:
  fixes jobs :: "('d, CommandAck) job list"
  assumes "\<And>i. i \<in> set order \<Longrightarrow> covers operation (identity i) (fst (jobs ! i))"
    and cut: "\<And>i P. i \<in> set order \<Longrightarrow> rt_keeps (\<lambda>s. P (pends s)) (snd (jobs ! i))"
    and "upward P"
  shows "rt_triple (\<lambda>s. P (pends s) \<and> got_covered operation identity got (pends s))
    (join_from jobs sent got order)
    (\<lambda>got' s. (P (pends s) \<and> got_covered operation identity got' (pends s)) \<and> map fst got' = rev order @ map fst got)
    (\<lambda>s. P (pends s))"
  using assms
proof (induction order arbitrary: got)
  case Nil
  show ?case by (simp add: rt_triple_def)
next
  case (Cons i order)
  let ?Q = "\<lambda>got s. P (pends s) \<and> got_covered operation identity got (pends s)"
  show ?case
    unfolding rt_triple_def
  proof (intro allI impI)
    fix s :: "'d LiveRuntimeState"
    assume s: "?Q got s"
    have up: "upward (\<lambda>cs. P cs \<and> got_covered operation identity got cs)"
      by (intro upward_conj Cons.prems(3) upward_got)
    obtain r s1 where run: "fst (jobs ! i) s = (r, s1)" by fastforce
    with s coversD [OF Cons.prems(1) up, of i] have
      out: "case r of Inr ack \<Rightarrow> ?Q got s1 \<and> covered operation (identity i) ack (pends s1) | Inl _ \<Rightarrow> P (pends s1)"
      unfolding rt_triple_def by (cases r) auto
    show "case join_from jobs sent got (i # order) s of
        (Inr got', s') \<Rightarrow> ?Q got' s' \<and> map fst got' = rev (i # order) @ map fst got | (Inl f, s') \<Rightarrow> P (pends s')"
    proof (cases r)
      case (Inl f)
      have "rt_keeps (\<lambda>s. P (pends s)) (rt_for (filter (\<lambda>j. j \<in> set sent) order) (\<lambda>j _. snd (jobs ! j)) ())"
        by (rule keeps_for_in) (use Cons.prems(2) in simp)
      from rt_keepsD [OF this, of s1] Inl out run show ?thesis by simp
    next
      case (Inr ack)
      have rest: "rt_triple (?Q ((i, ack) # got)) (join_from jobs sent ((i, ack) # got) order)
          (\<lambda>got' s. ?Q got' s \<and> map fst got' = rev order @ map fst ((i, ack) # got)) (\<lambda>s. P (pends s))"
        by (rule Cons.IH) (use Cons.prems in simp_all)
      have "?Q ((i, ack) # got) s1"
        using out Inr by (simp add: got_covered_def)
      from tripleD [OF rest this] have "case join_from jobs sent ((i, ack) # got) order s1 of
          (Inr got', s') \<Rightarrow> ?Q got' s' \<and> map fst got' = rev order @ map fst ((i, ack) # got)
        | (Inl f, s') \<Rightarrow> P (pends s')"
        .
      moreover have "join_from jobs sent got (i # order) s = join_from jobs sent ((i, ack) # got) order s1"
        using run Inr by simp
      moreover obtain r2 s2 where "join_from jobs sent ((i, ack) # got) order s1 = (r2, s2)" by fastforce
      ultimately show ?thesis by (cases r2) simp_all
    qed
  qed
qed

lemma joined_results:
  assumes "set (map fst got) = {0..<n}" and "got_covered operation identity got cs"
  shows "all_covered operation (map identity [0..<n]) (List.map_filter (map_of got) [0..<n]) cs"
proof -
  have found: "\<exists>ack. map_of got i = Some ack \<and> covered operation (identity i) ack cs" if "i < n" for i
  proof -
    from that assms(1) have "i \<in> fst ` set got" by auto
    then obtain ack where ack: "map_of got i = Some ack" by (metis map_of_eq_None_iff not_Some_eq)
    with assms(2) show ?thesis by (auto simp: got_covered_def dest: map_of_SomeD)
  qed
  have "all_covered operation (map identity ks) (List.map_filter (map_of got) ks) cs" if "\<forall>i\<in>set ks. i < n" for ks
    using that
  proof (induction ks)
    case (Cons i ks)
    from found [of i] Cons.prems obtain ack where "map_of got i = Some ack" "covered operation (identity i) ack cs"
      by auto
    with Cons show ?case by (simp add: all_covered_def List.map_filter_def)
  qed (simp add: all_covered_def List.map_filter_def)
  then show ?thesis by simp
qed

lemma try_join_triple:
  fixes jobs :: "('d, CommandAck) job list"
  assumes len: "length jobs = length identities"
    and "\<And>i. i < length jobs \<Longrightarrow> covers operation (identities ! i) (fst (jobs ! i))"
    and "\<And>i P. i < length jobs \<Longrightarrow> rt_keeps (\<lambda>s. P (pends s)) (snd (jobs ! i))"
    and "upward P"
  shows "rt_triple (\<lambda>s. P (pends s)) (try_join_all sched jobs)
    (\<lambda>acks s. P (pends s) \<and> all_covered operation identities acks (pends s)) (\<lambda>s. P (pends s))"
proof -
  let ?order = "join_order sched (length jobs)"
  have "rt_triple (\<lambda>s. P (pends s) \<and> got_covered operation (\<lambda>i. identities ! i) [] (pends s))
      (join_from jobs (js_sent sched) [] ?order)
      (\<lambda>got s. (P (pends s) \<and> got_covered operation (\<lambda>i. identities ! i) got (pends s)) \<and>
        map fst got = rev ?order @ map fst ([] :: (nat \<times> CommandAck) list)) (\<lambda>s. P (pends s))"
    by (rule join_from_triple) (use assms in \<open>simp_all add: join_order_set\<close>)
  then have join: "rt_triple (\<lambda>s. P (pends s)) (join_from jobs (js_sent sched) [] ?order)
      (\<lambda>got s. P (pends s) \<and> all_covered operation identities (List.map_filter (map_of got) [0..<length jobs]) (pends s))
      (\<lambda>s. P (pends s))"
  proof (rule triple_conseq)
    fix got and s :: "'d LiveRuntimeState"
    assume got: "(P (pends s) \<and> got_covered operation (\<lambda>i. identities ! i) got (pends s)) \<and>
        map fst got = rev ?order @ map fst ([] :: (nat \<times> CommandAck) list)"
    then have "set (map fst got) = {0..<length jobs}" by (simp add: join_order_set)
    with got joined_results [of got "length jobs" operation "\<lambda>i. identities ! i"]
    show "P (pends s) \<and> all_covered operation identities (List.map_filter (map_of got) [0..<length jobs]) (pends s)"
      by (simp add: len map_nth)
  qed (simp_all add: got_covered_def)
  show ?thesis
    unfolding try_join_all_def by (rule triple_bind [OF join]) (simp add: triple_return)
qed


section \<open>Chunk handlers\<close>

lemma concat_chunks: "0 < n \<Longrightarrow> concat (chunks n xs) = xs"
  by (induction n xs rule: chunks.induct) (simp add: chunks.simps [of n xs for n xs])

lemma chunks_in: "0 < n \<Longrightarrow> chunk \<in> set (chunks n xs) \<Longrightarrow> set chunk \<subseteq> set xs"
  using concat_chunks [of n xs] by (metis Union_upper image_eqI set_concat)

text \<open>
  The acknowledgements found so far: those of \<open>D\<close> are there, and every one is covered for the
  order of its index.
\<close>

definition placed ::
  "CommandOperation \<Rightarrow> BatchIdentity list \<Rightarrow> nat set \<Rightarrow> CommandAck option list \<Rightarrow> PendingUnknownCommand set \<Rightarrow> bool" where
  "placed operation identities D acks cs \<longleftrightarrow>
     length acks = length identities \<and>
     (\<forall>i<length identities. (i \<in> D \<longrightarrow> acks ! i \<noteq> None) \<and>
       (\<forall>ack. acks ! i = Some ack \<longrightarrow> covered operation (identities ! i) ack cs))"

lemma upward_placed: "upward (placed operation identities D acks)"
  unfolding upward_def placed_def using upward_mono [OF upward_covered] by blast

lemma placed_none: "placed operation identities {} (replicate (length identities) None) cs"
  by (simp add: placed_def)

lemma placed_update:
  assumes "placed operation identities D acks cs" and "i < length identities"
    and "covered operation (identities ! i) ack cs"
  shows "placed operation identities (insert i D) (acks[i := Some ack]) cs"
  using assms by (auto simp: placed_def nth_list_update)

lemma placed_chunk:
  assumes "placed operation identities D acks cs"
    and "all_covered operation (map (\<lambda>(i, x). identities ! i) chunk) chunk_acks cs"
    and "fst ` set chunk \<subseteq> {0..<length identities}"
  shows "placed operation identities (D \<union> fst ` set chunk) (place_acks chunk chunk_acks acks) cs"
  using assms
proof (induction chunk arbitrary: D acks chunk_acks)
  case (Cons entry chunk)
  obtain i x where entry: "entry = (i, x)" by fastforce
  from Cons.prems(2) obtain ack rest where rest: "chunk_acks = ack # rest"
      "covered operation (identities ! i) ack cs" "all_covered operation (map (\<lambda>(i, x). identities ! i) chunk) rest cs"
    by (auto simp: all_covered_def list_all2_Cons1 entry)
  have "placed operation identities (insert i D) (acks[i := Some ack]) cs"
    using Cons.prems rest by (intro placed_update) (simp_all add: entry)
  from Cons.IH [OF this rest(3)] Cons.prems(3) show ?case
    by (simp add: rest(1) entry place_acks_def)
qed (simp add: place_acks_def)

lemma collect_placed:
  assumes "placed operation identities {0..<length identities} acks cs"
  shows "\<exists>found. collect_batch_acks acks label = Ok found \<and> all_covered operation identities found cs"
proof -
  have "\<exists>found. collect_batch_acks_from n label acks = Ok found \<and> all_covered operation identities found cs" for n
    using assms
  proof (induction acks arbitrary: identities n)
    case Nil
    then show ?case by (simp add: placed_def all_covered_def)
  next
    case (Cons a acks)
    then obtain identity rest where ids: "identities = identity # rest"
      by (cases identities) (simp_all add: placed_def)
    from Cons.prems obtain ack where ack: "a = Some ack" "covered operation identity ack cs"
      by (auto simp: placed_def ids)
    have "placed operation rest {0..<length rest} acks cs"
      using Cons.prems unfolding placed_def ids by (fastforce dest: spec [of _ "Suc _"])
    from Cons.IH [OF this, of "n + 1"] ack show ?case
      by (auto simp: ids all_covered_def)
  qed
  then show ?thesis by (simp add: collect_batch_acks_def)
qed

text \<open>
  A handler of one chunk promises an acknowledgement for every entry, in order, and that
  unknown outcomes are recorded.  What the loop over the chunks then promises follows.
\<close>

locale chunk_handler =
  fixes operation :: CommandOperation and identity :: "'x \<Rightarrow> BatchIdentity"
    and run :: "(nat \<times> 'x) list \<Rightarrow> ('d, CommandAck list) rt"
  assumes run_covers: "upward P \<Longrightarrow> rt_triple (\<lambda>s. P (pends s)) (run chunk)
    (\<lambda>acks s. P (pends s) \<and> all_covered operation (map (\<lambda>(i, x). identity x) chunk) acks (pends s)) (\<lambda>s. P (pends s))"
begin

lemma place_covers:
  assumes "upward P" and "set chunk \<subseteq> set (enumerate 0 orders)"
  shows "rt_triple (\<lambda>s. P (pends s) \<and> placed operation (map identity orders) D acks (pends s))
    (rt_bind (run chunk) (\<lambda>chunk_acks. rt_return (place_acks chunk chunk_acks acks)))
    (\<lambda>acks s. P (pends s) \<and> placed operation (map identity orders) (D \<union> fst ` set chunk) acks (pends s))
    (\<lambda>s. P (pends s))"
proof -
  let ?ids = "map identity orders"
  have same: "map (\<lambda>(i, x). identity x) chunk = map (\<lambda>(i, x). ?ids ! i) chunk" and
    bounds: "fst ` set chunk \<subseteq> {0..<length ?ids}"
    using assms(2) by (auto simp: in_set_enumerate_eq subset_iff)
  have up: "upward (\<lambda>cs. P cs \<and> placed operation ?ids D acks cs)"
    by (intro upward_conj assms(1) upward_placed)
  have run: "rt_triple (\<lambda>s. P (pends s) \<and> placed operation ?ids D acks (pends s)) (run chunk)
      (\<lambda>chunk_acks s. (P (pends s) \<and> placed operation ?ids D acks (pends s)) \<and>
        all_covered operation (map (\<lambda>(i, x). ?ids ! i) chunk) chunk_acks (pends s)) (\<lambda>s. P (pends s))"
    by (rule triple_conseq [OF run_covers [OF up, of chunk]]) (simp_all add: same)
  show ?thesis
    by (rule triple_bind [OF run], rule triple_return, elim conjE, intro conjI, assumption,
        rule placed_chunk, assumption, assumption, rule bounds)
qed

lemma run_chunks_covers:
  assumes "upward P" and "0 < n" and "set indexed \<subseteq> set (enumerate 0 orders)"
  shows "rt_triple (\<lambda>s. P (pends s) \<and> placed operation (map identity orders) D acks (pends s))
    (run_chunks n run indexed acks)
    (\<lambda>acks s. P (pends s) \<and> placed operation (map identity orders) (D \<union> fst ` set indexed) acks (pends s))
    (\<lambda>s. P (pends s))"
proof -
  let ?Inv = "\<lambda>(cs :: (nat \<times> 'x) list list) acks (s :: 'd LiveRuntimeState). P (pends s) \<and>
      placed operation (map identity orders) (D \<union> fst ` set (concat cs)) acks (pends s)"
  have step: "rt_triple (?Inv cs acks)
      (rt_bind (run chunk) (\<lambda>chunk_acks. rt_return (place_acks chunk chunk_acks acks)))
      (?Inv (cs @ [chunk])) (\<lambda>s. P (pends s))" if "chunk \<in> set (chunks n indexed)" for cs chunk acks
    using place_covers [OF assms(1), of chunk orders "D \<union> fst ` set (concat cs)" acks]
      chunks_in [OF assms(2) that] assms(3)
    by (simp add: Un_assoc image_Un)
  have "rt_triple (?Inv [] acks) (run_chunks n run indexed acks) (?Inv ([] @ chunks n indexed)) (\<lambda>s. P (pends s))"
    unfolding run_chunks_def by (rule triple_for_prefix [where Inv = ?Inv and ys = "[]"]) (rule step)
  then show ?thesis by (simp add: concat_chunks [OF assms(2)])
qed

end


lemmas keeps_batch = keeps_submit_batch_rest keeps_submit_batch_ws keeps_classify_batch keeps_collect

context network_blind
begin

lemma keeps_batch_submissions:
  "rt_keeps I (submit_bybit_batch ctx operation verb ws_name batch identities)"
  "rt_keeps I (submit_binance_batch ctx operation http_method verb batch identities)"
  unfolding submit_bybit_batch_def submit_binance_batch_def Let_def
  by (intro rt_keeps_control keeps_batch keeps_transport)+

lemma keeps_mexc_object: "rt_keeps I (build_mexc_batch_create_order_object ctx order)"
  unfolding build_mexc_batch_create_order_object_def build_mexc_create_order_object_def
  by (intro keeps_submission)

lemma keeps_batch_objects:
  "rt_keeps I (build_binance_batch_create_object ctx order)"
  "rt_keeps I (build_bybit_batch_create_object ctx order)"
  "rt_keeps I (build_binance_batch_amend_object ctx change)"
  "rt_keeps I (build_bybit_batch_amend_object ctx change)"
  "rt_keeps I (bybit_cancel_object ctx target)"
  "rt_keeps I (mexc_cancel_body ctx all_ids targets)"
  unfolding build_binance_batch_create_object_def build_bybit_batch_create_object_def
    build_binance_batch_amend_object_def build_bybit_batch_amend_object_def bybit_cancel_object_def
    mexc_cancel_body_def mexc_cancel_external_object_def resolve_cached_order_for_amend_def
  by (intro rt_keeps_control keeps_collect)+

lemmas keeps_batch_rules = rt_keeps_control keeps_acquire keeps_batch_submissions keeps_batch_objects
  keeps_mexc_object   keeps_batch keeps_transport

end

text \<open>The receipts of a chunk of orders, amendments or cancellations.\<close>

lemma emit_receipts_triple:
  assumes "upward P"
  shows "length receipts = length creates \<Longrightarrow>
      rt_triple (\<lambda>s. P (pends s)) (cache_and_emit_create_receipts ctx receipts creates transport)
        (\<lambda>acks s. P (pends s) \<and> all_covered CreateOrder (map create_identity creates) acks (pends s)) (\<lambda>s. P (pends s))"
    and "length receipts = length amends \<Longrightarrow>
      rt_triple (\<lambda>s. P (pends s)) (cache_and_emit_amend_receipts ctx receipts amends transport)
        (\<lambda>acks s. P (pends s) \<and> all_covered AmendOrder (map amend_identity amends) acks (pends s)) (\<lambda>s. P (pends s))"
    and "length receipts = length targets \<Longrightarrow>
      rt_triple (\<lambda>s. P (pends s)) (cache_and_emit_cancel_receipts ctx receipts targets transport)
        (\<lambda>acks s. P (pends s) \<and> all_covered CancelOrder (map (cancel_identity None) targets) acks (pends s)) (\<lambda>s. P (pends s))"
  unfolding cache_and_emit_create_receipts_def cache_and_emit_amend_receipts_def cache_and_emit_cancel_receipts_def
    create_identity_def [abs_def, symmetric] amend_identity_def [abs_def, symmetric]
    cancel_identity_def [of None, abs_def, symmetric]
  by (rule batch_receipts_triple [OF assms]; auto simp: create_identity_def amend_identity_def cancel_identity_def)+

lemma hydrated_identity:
  "create_identity (hydrate_create_request_with_batch_id rid order) =
    create_identity order\<lparr>bi_request_id := or_else (cr_request_id order) rid\<rparr>"
  "amend_identity (hydrate_amend_request_with_batch_id rid change) =
    amend_identity change\<lparr>bi_request_id := or_else (am_request_id change) rid\<rparr>"
  by (auto simp: create_identity_def amend_identity_def hydrate_create_request_with_batch_id_def
      hydrate_amend_request_with_batch_id_def or_else_def split: option.split)

lemma covered_hydrated:
  "all_covered CreateOrder (map create_identity (map (hydrate_create_request_with_batch_id rid) creates)) =
    all_covered CreateOrder (map create_identity creates)"
  "all_covered AmendOrder (map amend_identity (map (hydrate_amend_request_with_batch_id rid) amends)) =
    all_covered AmendOrder (map amend_identity amends)"
  by (simp_all add: all_covered_def [abs_def] list_all2_map1 hydrated_identity covered_request_id)

lemma map_entries: "map (\<lambda>(i, x). f x) chunk = map f (map snd chunk)"
  by (induction chunk) auto


lemma emit_chunk_triples:
  assumes "upward P"
  shows "length receipts = length creates \<Longrightarrow>
      rt_triple (\<lambda>s. P (pends s))
        (cache_and_emit_create_receipts ctx receipts (map (hydrate_create_request_with_batch_id rid \<circ> snd) creates) transport)
        (\<lambda>acks s. P (pends s) \<and> all_covered CreateOrder (map (\<lambda>(i, x). create_identity x) creates) acks (pends s))
        (\<lambda>s. P (pends s))"
    and "length receipts = length amends \<Longrightarrow>
      rt_triple (\<lambda>s. P (pends s))
        (cache_and_emit_amend_receipts ctx receipts (map (hydrate_amend_request_with_batch_id rid \<circ> snd) amends) transport)
        (\<lambda>acks s. P (pends s) \<and> all_covered AmendOrder (map (\<lambda>(i, x). amend_identity x) amends) acks (pends s))
        (\<lambda>s. P (pends s))"
    and "length receipts = length targets \<Longrightarrow>
      rt_triple (\<lambda>s. P (pends s)) (cache_and_emit_cancel_receipts ctx receipts (map snd targets) transport)
        (\<lambda>acks s. P (pends s) \<and> all_covered CancelOrder (map (\<lambda>(i, x). cancel_identity None x) targets) acks (pends s))
        (\<lambda>s. P (pends s))"
  using emit_receipts_triple(1) [OF assms, of receipts "map (hydrate_create_request_with_batch_id rid) (map snd creates)"]
    emit_receipts_triple(2) [OF assms, of receipts "map (hydrate_amend_request_with_batch_id rid) (map snd amends)"]
    emit_receipts_triple(3) [OF assms, of receipts "map snd targets"]
  unfolding covered_hydrated map_entries by simp_all

lemma triple_first: "rt_keeps I m \<Longrightarrow> (\<And>x. rt_triple I (k x) Q I) \<Longrightarrow> rt_triple I (rt_bind m k) Q I"
  by (rule triple_bind [OF triple_keeps])

lemma triple_split: "(\<And>x y. rt_triple P (f x y) Q E) \<Longrightarrow> rt_triple P (case p of (x, y) \<Rightarrow> f x y) Q E"
  by (cases p) simp

lemmas chunk_rules = triple_first triple_split emit_checked_triple emit_chunk_triples pending_view.keeps_batch_rules

text \<open>The handlers of a chunk that is sent as one request.\<close>

interpretation binance_creates: chunk_handler CreateOrder create_identity "binance_create_chunk ctx rid" for ctx rid
  unfolding binance_create_chunk_def Let_def by unfold_locales (intro chunk_rules, assumption+)

interpretation bybit_creates: chunk_handler CreateOrder create_identity "bybit_create_chunk ctx rid" for ctx rid
  unfolding bybit_create_chunk_def Let_def by unfold_locales (intro chunk_rules, assumption+)

interpretation mexc_creates: chunk_handler CreateOrder create_identity "mexc_create_chunk ctx rid" for ctx rid
  unfolding mexc_create_chunk_def Let_def by unfold_locales (intro chunk_rules, assumption+)

interpretation binance_amends: chunk_handler AmendOrder amend_identity "binance_amend_chunk ctx rid" for ctx rid
  unfolding binance_amend_chunk_def Let_def by unfold_locales (intro chunk_rules, assumption+)

interpretation bybit_amends: chunk_handler AmendOrder amend_identity "bybit_amend_chunk ctx rid" for ctx rid
  unfolding bybit_amend_chunk_def Let_def by unfold_locales (intro chunk_rules, assumption+)

interpretation binance_cancels: chunk_handler CancelOrder "cancel_identity None" "binance_cancel_chunk ctx native_symbol"
  for ctx native_symbol
  unfolding binance_cancel_chunk_def Let_def by unfold_locales (intro chunk_rules, assumption+)

interpretation bybit_cancels: chunk_handler CancelOrder "cancel_identity None" "bybit_cancel_chunk ctx" for ctx
  unfolding bybit_cancel_chunk_def Let_def by unfold_locales (intro chunk_rules, assumption+)

interpretation mexc_cancels: chunk_handler CancelOrder "cancel_identity None" "mexc_cancel_chunk ctx rid all_order_ids"
  for ctx rid all_order_ids
  unfolding mexc_cancel_chunk_def Let_def by unfold_locales (intro chunk_rules, assumption+)


text \<open>The handlers of a chunk whose commands are joined.\<close>

lemma keeps_from_ledger: "(\<And>l. rt_keeps (ledger_is l) m) \<Longrightarrow> rt_keeps (\<lambda>s. P (pends s)) m"
  by (auto simp: rt_keeps_def ledger_def)

lemma keeps_abandoned: "rt_keeps I m \<Longrightarrow> rt_keeps I (abandoned m)"
  by (simp add: rt_keeps_def abandoned_def)

lemma dropped_jobs_keep_ledger:
  "rt_keeps (ledger_is l) (snd (create_order_job ctx create))"
  "rt_keeps (ledger_is l) (snd (amend_order_job ctx amend))"
  "rt_keeps (ledger_is l) (snd (cancel_order_job ctx cancel))"
proof -
  have validate: "rt_keeps (ledger_is l) (validate_create_order ctx create)" "rt_keeps (ledger_is l) (validate_amend_order ctx amend)"
    by (simp_all add: rt_keeps_def validate_pure validate_amend_pure)
  note rules = keeps_abandoned validate rt_keeps_bind rt_keeps_require_spec ledger_blind.keeps_acquire
    ledger_blind.keeps_create_submission keeps_amend_submission ledger_blind.keeps_cancel_submission
  show "rt_keeps (ledger_is l) (snd (create_order_job ctx create))"
    "rt_keeps (ledger_is l) (snd (amend_order_job ctx amend))"
    "rt_keeps (ledger_is l) (snd (cancel_order_job ctx cancel))"
    unfolding create_order_job_def amend_order_job_def cancel_order_job_def snd_conv
    by (intro rules)+
qed

lemma joined_handler:
  assumes "\<And>x. covers operation (identity x) (fst (job x))"
    and "\<And>x P. rt_keeps (\<lambda>s. P (pends s)) (snd (job x))"
  shows "chunk_handler operation identity (\<lambda>chunk. try_join_all (sched (fst (hd chunk))) (map (\<lambda>(_, x). job x) chunk))"
proof
  fix P and chunk :: "(nat \<times> 'a) list"
  assume up: "upward P"
  show "rt_triple (\<lambda>s. P (pends s)) (try_join_all (sched (fst (hd chunk))) (map (\<lambda>(_, x). job x) chunk))
      (\<lambda>acks s. P (pends s) \<and> all_covered operation (map (\<lambda>(i, x). identity x) chunk) acks (pends s)) (\<lambda>s. P (pends s))"
    by (rule try_join_triple [OF _ _ _ up]) (use assms in \<open>simp_all add: case_prod_beta\<close>)
qed

interpretation joined_creates: chunk_handler CreateOrder create_identity "binance_create_chunk_joined ctx sched rid"
  for ctx sched rid
  unfolding binance_create_chunk_joined_def
proof (rule joined_handler)
  fix order :: "'a CreateOrderRequest"
  let ?order = "hydrate_create_request_with_batch_id rid order"
  show "covers CreateOrder (create_identity order) (fst (create_order_job ctx ?order))"
    using covers_commands(1) [of ?order ctx]
    by (simp add: covers_def hydrated_identity covered_request_id create_order_job_def)
qed (rule keeps_from_ledger, rule dropped_jobs_keep_ledger)

interpretation joined_amends: chunk_handler AmendOrder amend_identity "binance_amend_chunk_joined ctx sched rid"
  for ctx sched rid
  unfolding binance_amend_chunk_joined_def
proof (rule joined_handler)
  fix change :: "'a AmendOrderRequest"
  let ?change = "hydrate_amend_request_with_batch_id rid change"
  show "covers AmendOrder (amend_identity change) (fst (amend_order_job ctx ?change))"
    using covers_commands(2) [of ?change ctx]
    by (simp add: covers_def hydrated_identity covered_request_id amend_order_job_def)
qed (rule keeps_from_ledger, rule dropped_jobs_keep_ledger)

interpretation joined_cancels: chunk_handler CancelOrder "cancel_identity None" "cancel_joined ctx sched rid"
  for ctx sched rid
  unfolding cancel_joined_def
  by (rule joined_handler, unfold cancel_order_job_def fst_conv, rule covers_commands(3), fold cancel_order_job_def)
    (rule keeps_from_ledger, rule dropped_jobs_keep_ledger)


section \<open>Whole batches\<close>

definition group_members :: "(InstrumentId, (nat \<times> OrderTarget) list) btree_map \<Rightarrow> (nat \<times> OrderTarget) set" where
  "group_members groups = {entry. \<exists>iid members. bt_get groups iid = Some members \<and> entry \<in> set members}"

lemma group_targets_members:
  "set (concat (map snd (group_targets belongs indexed))) = {entry \<in> set indexed. belongs (snd entry)}"
proof -
  let ?add = "\<lambda>groups entry. let iid = ot_instrument_id (snd entry) in
      bt_insert iid ((case bt_get groups iid of None \<Rightarrow> [] | Some members \<Rightarrow> members) @ [entry]) groups"
  have add: "group_members (?add groups entry) = insert entry (group_members groups)" for groups entry
    by (auto simp: group_members_def Let_def split: if_splits option.splits) (metis option.inject option.distinct(1))+
  have "bt_wf (foldl ?add groups xs) \<and> group_members (foldl ?add groups xs) = group_members groups \<union> set xs"
    if "bt_wf groups" for groups xs
    using that
  proof (induction xs arbitrary: groups)
    case (Cons x xs)
    have "bt_wf (?add groups x)" using Cons.prems by (simp add: Let_def)
    from Cons.IH [OF this] show ?case by (simp only: foldl_Cons list.set add) blast
  qed simp
  from this [of "[]" "filter (belongs \<circ> snd) indexed"]
  have groups: "bt_wf (group_targets belongs indexed)"
    "group_members (group_targets belongs indexed) = {entry \<in> set indexed. belongs (snd entry)}"
    by (auto simp: group_targets_def group_members_def)
  have "set (concat (map snd groups)) = group_members groups" if "bt_wf groups" for groups
  proof -
    have "set (concat (map snd groups)) = \<Union> (set ` set (bt_values groups))" by (simp add: bt_values_def)
    also have "\<dots> = group_members groups"
      unfolding group_members_def using bt.vals_iff [OF that] by blast
    finally show ?thesis .
  qed
  with groups show ?thesis by simp
qed

lemma enumerate_indexes: "fst ` set (enumerate 0 xs) = {0..<length xs}"
  by (simp flip: set_map)

definition batch_covers ::
  "CommandOperation \<Rightarrow> BatchIdentity list \<Rightarrow> (CommandAck option list \<Rightarrow> ('d, CommandAck option list) rt) \<Rightarrow> bool" where
  "batch_covers operation identities run \<longleftrightarrow>
     (\<forall>P. upward P \<longrightarrow> rt_triple (\<lambda>s. P (pends s)) (run (replicate (length identities) None))
       (\<lambda>acks s. P (pends s) \<and> placed operation identities {0..<length identities} acks (pends s)) (\<lambda>s. P (pends s)))"

context chunk_handler
begin

lemma run_chunks_batch:
  assumes "0 < n"
  shows "batch_covers operation (map identity orders) (run_chunks n run (enumerate 0 orders))"
  unfolding batch_covers_def
proof (intro allI impI)
  fix P
  assume up: "upward P"
  show "rt_triple (\<lambda>s. P (pends s))
      (run_chunks n run (enumerate 0 orders) (replicate (length (map identity orders)) None))
      (\<lambda>acks s. P (pends s) \<and> placed operation (map identity orders) {0..<length (map identity orders)} acks (pends s))
      (\<lambda>s. P (pends s))"
    using run_chunks_covers [OF up assms order.refl, of orders "{}" "replicate (length (map identity orders)) None"]
      placed_none [of operation "map identity orders"]
    by (simp add: enumerate_indexes)
qed

end

lemma batch_covers_refused: "batch_covers operation identities (\<lambda>_. rt_lift (Err e))"
  by (simp add: batch_covers_def rt_triple_def rt_lift_def)

lemma batch_covers_if:
  "batch_covers operation identities a \<Longrightarrow> batch_covers operation identities b \<Longrightarrow>
    batch_covers operation identities (\<lambda>acks. if c then a acks else b acks)"
  by (cases c) simp_all

lemma finish_batch:
  assumes "batch_covers operation identities run" and "length identities = n" and "upward P"
  shows "rt_triple (\<lambda>s. P (pends s))
    (rt_bind (run (replicate n None)) (\<lambda>acks. rt_lift (collect_batch_acks acks label)))
    (\<lambda>acks s. P (pends s) \<and> all_covered operation identities acks (pends s)) (\<lambda>s. P (pends s))"
proof -
  have collect: "rt_triple (\<lambda>s. P (pends s) \<and> placed operation identities {0..<length identities} acks (pends s))
      (rt_lift (collect_batch_acks acks label))
      (\<lambda>acks s. P (pends s) \<and> all_covered operation identities acks (pends s)) (\<lambda>s. P (pends s))" for acks
    unfolding rt_triple_def rt_lift_def using collect_placed [of operation identities acks _ label] by fastforce
  show ?thesis
    using assms by (intro triple_bind [OF _ collect]) (simp add: batch_covers_def)
qed

lemma create_orders_covers:
  "batch_covers CreateOrder (map create_identity orders) (create_orders_placed ctx sched rid (enumerate 0 orders))"
  unfolding create_orders_placed_def
  by (cases "cfg_venue (lc_config ctx)"; simp only: Venue.case;
      intro batch_covers_if batch_covers_refused joined_creates.run_chunks_batch binance_creates.run_chunks_batch
        bybit_creates.run_chunks_batch mexc_creates.run_chunks_batch; simp)

lemma amend_orders_covers:
  "batch_covers AmendOrder (map amend_identity orders) (amend_orders_placed ctx sched rid (enumerate 0 orders))"
  unfolding amend_orders_placed_def
  by (cases "cfg_venue (lc_config ctx)"; simp only: Venue.case;
      intro batch_covers_if batch_covers_refused joined_amends.run_chunks_batch binance_amends.run_chunks_batch
        bybit_amends.run_chunks_batch; simp)

lemma cancel_groups_cover:
  fixes targets :: "OrderTarget list"
  assumes "list_all (\<lambda>t. by_order_id t \<or> by_client_id t) targets"
  defines "groups \<equiv> group_targets by_order_id (enumerate 0 targets) @ group_targets by_client_id (enumerate 0 targets)"
  shows "batch_covers CancelOrder (map (cancel_identity None) targets) (rt_for groups (binance_cancel_group ctx))"
  unfolding batch_covers_def
proof (intro allI impI)
  fix P
  assume up: "upward P"
  let ?ids = "map (cancel_identity None) targets"
  let ?Inv = "\<lambda>gs acks (s :: 'a LiveRuntimeState). P (pends s) \<and>
      placed CancelOrder ?ids (fst ` set (concat (map snd (gs :: (InstrumentId \<times> (nat \<times> OrderTarget) list) list)))) acks (pends s)"
  have members: "set (concat (map snd groups)) = set (enumerate 0 targets)"
    using assms(1) by (auto simp: groups_def group_targets_members [simplified] list_all_iff in_set_enumerate_eq)
  have step: "rt_triple (?Inv gs acks) (binance_cancel_group ctx g acks) (?Inv (gs @ [g])) (\<lambda>s. P (pends s))"
    if "g \<in> set groups" for gs g acks
  proof -
    have "set (snd g) \<subseteq> set (enumerate 0 targets)" using that by (auto simp flip: members)
    from binance_cancels.run_chunks_covers [OF up _ this, of 10 "fst ` set (concat (map snd gs))"]
    have chunk: "rt_triple (?Inv gs acks) (run_chunks 10 (binance_cancel_chunk ctx native_symbol) (snd g) acks)
        (?Inv (gs @ [g])) (\<lambda>s. P (pends s))" for native_symbol
      by (simp add: image_Un)
    have spec: "rt_triple (?Inv gs acks) (require_spec ctx (fst g)) (\<lambda>_. ?Inv gs acks) (\<lambda>s. P (pends s))"
      by (rule triple_conseq [OF triple_keeps [OF rt_keeps_require_spec [where I = "?Inv gs acks"]]]) simp_all
    show ?thesis unfolding binance_cancel_group_def by (rule triple_bind [OF spec chunk])
  qed
  have "rt_triple (?Inv [] (replicate (length ?ids) None)) (rt_for groups (binance_cancel_group ctx) (replicate (length ?ids) None))
      (?Inv ([] @ groups)) (\<lambda>s. P (pends s))"
    by (rule triple_for_prefix [where Inv = ?Inv and ys = "[]"]) (rule step)
  then show "rt_triple (\<lambda>s. P (pends s)) (rt_for groups (binance_cancel_group ctx) (replicate (length ?ids) None))
      (\<lambda>acks s. P (pends s) \<and> placed CancelOrder ?ids {0..<length ?ids} acks (pends s)) (\<lambda>s. P (pends s))"
    by (rule triple_conseq) (use placed_none [of CancelOrder ?ids] members enumerate_indexes [of targets] in simp_all)
qed


context chunk_handler
begin

lemma run_all_batch:
  "batch_covers operation (map identity orders)
    (\<lambda>acks. rt_bind (run (enumerate 0 orders)) (\<lambda>chunk_acks. rt_return (place_acks (enumerate 0 orders) chunk_acks acks)))"
  unfolding batch_covers_def
proof (intro allI impI)
  fix P
  assume up: "upward P"
  let ?acks = "replicate (length (map identity orders)) None"
  show "rt_triple (\<lambda>s. P (pends s))
      (rt_bind (run (enumerate 0 orders)) (\<lambda>chunk_acks. rt_return (place_acks (enumerate 0 orders) chunk_acks ?acks)))
      (\<lambda>acks s. P (pends s) \<and> placed operation (map identity orders) {0..<length (map identity orders)} acks (pends s))
      (\<lambda>s. P (pends s))"
    using place_covers [OF up order.refl, of orders "{}" ?acks] placed_none [of operation "map identity orders"]
    by (simp add: enumerate_indexes)
qed

end

lemma cancel_orders_covers:
  assumes "list_all (\<lambda>t. by_order_id t \<or> by_client_id t) targets"
  shows "batch_covers CancelOrder (map (cancel_identity None) targets)
    (cancel_orders_placed ctx sched rid (enumerate 0 targets))"
  unfolding cancel_orders_placed_def Let_def
  by (cases "cfg_venue (lc_config ctx)"; simp only: Venue.case;
      intro batch_covers_if batch_covers_refused joined_cancels.run_chunks_batch cancel_groups_cover [OF assms]
        bybit_cancels.run_chunks_batch mexc_cancels.run_chunks_batch joined_cancels.run_all_batch; simp)

text \<open>A batch command: the handler of several orders, the single command for one.\<close>

definition batch_tracked ::
  "CommandOperation \<Rightarrow> BatchIdentity list \<Rightarrow> 'd LiveRuntimeState \<Rightarrow> CommandAck list result \<times> 'd LiveRuntimeState \<Rightarrow> bool" where
  "batch_tracked operation identities s answer \<longleftrightarrow>
     set (lr_pending s) \<subseteq> set (lr_pending (snd answer)) \<and>
     (case fst answer of Inr acks \<Rightarrow> all_covered operation identities acks (set (lr_pending (snd answer))) | Inl _ \<Rightarrow> True)"

lemma batch_tracked_triple:
  assumes "\<And>P. upward P \<Longrightarrow> rt_triple (\<lambda>s. P (pends s)) m
    (\<lambda>acks s. P (pends s) \<and> all_covered operation identities acks (pends s)) (\<lambda>s. P (pends s))"
  shows "batch_tracked operation identities s (m s)"
  using tripleD [OF assms [OF upward_superset [of "pends s"]] order.refl]
  by (cases "m s"; cases "fst (m s)") (auto simp: batch_tracked_def)

lemma single_covers:
  assumes "covers operation identity m" and "upward P"
  shows "rt_triple (\<lambda>s. P (pends s)) (rt_bind m (\<lambda>ack. rt_return [ack]))
    (\<lambda>acks s. P (pends s) \<and> all_covered operation [identity] acks (pends s)) (\<lambda>s. P (pends s))"
  by (rule triple_bind [OF coversD [OF assms]]) (simp add: triple_return all_covered_def)

lemma triple_batch_case:
  assumes "\<And>x. orders = [x] \<Longrightarrow> rt_triple I (one x) (Q [x]) I" and "rt_triple I (many orders) (Q orders) I"
  shows "rt_triple I (case orders of [x] \<Rightarrow> one x | xs \<Rightarrow> many xs) (Q orders) I"
  using assms by (simp split: list.split) force

lemma keeps_validations:
  "rt_keeps I (validate_create_orders ctx creates)" "rt_keeps I (validate_amend_orders ctx amends)"
proof -
  have "rt_keeps I (validate_batch ctx several seen n orders)" for several seen n orders
  proof (induction orders arbitrary: seen n)
    case (Cons order orders)
    have "rt_keeps I (validate_create_order ctx order)" by (simp add: rt_keeps_def validate_pure)
    then show ?case
      unfolding validate_batch.simps by (intro rt_keeps_bind rt_keeps_if rt_keeps_option rt_keeps_lift Cons.IH)
  qed (simp add: rt_keeps_return)
  then show "rt_keeps I (validate_create_orders ctx creates)"
    unfolding validate_create_orders_def by (intro rt_keeps_control)
  have "rt_keeps I (validate_amend_order ctx order)" for order by (simp add: rt_keeps_def validate_amend_pure)
  then show "rt_keeps I (validate_amend_orders ctx amends)"
    unfolding validate_amend_orders_def by (intro rt_keeps_control)
qed

lemma create_orders_triple:
  assumes "upward P"
  shows "rt_triple (\<lambda>s. P (pends s)) (create_orders ctx sched request)
    (\<lambda>acks s. P (pends s) \<and> all_covered CreateOrder (map create_identity (crs_orders request)) acks (pends s))
    (\<lambda>s. P (pends s))"
proof -
  let ?hydrate = "hydrate_create_request_with_batch_id (crs_request_id request)"
  have one: "covers CreateOrder (create_identity order) (create_order ctx (?hydrate order))" for order
    using covers_commands(1) [of "?hydrate order" ctx]
    by (simp add: covers_def hydrated_identity covered_request_id)
  show ?thesis
    unfolding create_orders_def
    by (rule triple_first [OF keeps_validations(1)],
        rule triple_batch_case [where Q = "\<lambda>orders acks s. P (pends s) \<and>
            all_covered CreateOrder (map create_identity orders) acks (pends s)"
          and many = "\<lambda>orders. rt_bind (create_orders_placed ctx sched (crs_request_id request) (enumerate 0 orders)
            (replicate (length orders) None)) (\<lambda>acks. rt_lift (collect_batch_acks acks ''create_orders''))"])
      (simp_all add: single_covers [OF one assms] finish_batch [OF create_orders_covers _ assms])
qed

lemma amend_orders_triple:
  assumes "upward P"
  shows "rt_triple (\<lambda>s. P (pends s)) (amend_orders ctx sched request)
    (\<lambda>acks s. P (pends s) \<and> all_covered AmendOrder (map amend_identity (ams_orders request)) acks (pends s))
    (\<lambda>s. P (pends s))"
proof -
  let ?hydrate = "hydrate_amend_request_with_batch_id (ams_request_id request)"
  have one: "covers AmendOrder (amend_identity order) (amend_order ctx (?hydrate order))" for order
    using covers_commands(2) [of "?hydrate order" ctx]
    by (simp add: covers_def hydrated_identity covered_request_id)
  show ?thesis
    unfolding amend_orders_def
    by (rule triple_first [OF keeps_validations(2)],
        rule triple_batch_case [where Q = "\<lambda>orders acks s. P (pends s) \<and>
            all_covered AmendOrder (map amend_identity orders) acks (pends s)"
          and many = "\<lambda>orders. rt_bind (amend_orders_placed ctx sched (ams_request_id request) (enumerate 0 orders)
            (replicate (length orders) None)) (\<lambda>acks. rt_lift (collect_batch_acks acks ''amend_orders''))"])
      (simp_all add: single_covers [OF one assms] finish_batch [OF amend_orders_covers _ assms])
qed

lemma cancel_orders_triple:
  assumes "upward P"
  shows "rt_triple (\<lambda>s. P (pends s)) (cancel_orders ctx sched request)
    (\<lambda>acks s. P (pends s) \<and> all_covered CancelOrder (map (cancel_identity None) (cos_orders request)) acks (pends s))
    (\<lambda>s. P (pends s))"
proof (cases "validate_cancel_orders request = Ok ()")
  case True
  then have ids: "list_all (\<lambda>t. by_order_id t \<or> by_client_id t) (cos_orders request)"
    by (auto simp: validate_cancel_orders_def config_error_def by_order_id_def by_client_id_def list_all_iff list_ex_iff
        split: if_splits)
  show ?thesis
    unfolding cancel_orders_def
    by (rule triple_first [OF rt_keeps_lift],
        rule triple_batch_case [where Q = "\<lambda>orders acks s. P (pends s) \<and>
            all_covered CancelOrder (map (cancel_identity None) orders) acks (pends s)"
          and many = "\<lambda>targets. rt_bind (cancel_orders_placed ctx sched (cos_request_id request) (enumerate 0 targets)
            (replicate (length targets) None)) (\<lambda>acks. rt_lift (collect_batch_acks acks ''cancel_orders''))"])
      (simp_all add: single_covers [OF covers_commands(3) assms] finish_batch [OF cancel_orders_covers [OF ids] _ assms])
next
  case False
  then obtain f where "validate_cancel_orders request = Inl f"
    by (cases "validate_cancel_orders request") auto
  then show ?thesis by (simp add: cancel_orders_def rt_triple_def rt_bind_def rt_lift_def)
qed


section \<open>What every command keeps\<close>

lemma keeps_join_from:
  assumes "list_all (\<lambda>(run, cut). rt_keeps I run \<and> rt_keeps I cut) jobs" and "\<forall>i\<in>set order. i < length jobs"
  shows "rt_keeps I (join_from jobs sent got order)"
  using assms(2)
proof (induction order arbitrary: got)
  case Nil
  show ?case by (simp add: rt_keeps_def)
next
  case (Cons i order)
  have job: "rt_keeps I (fst (jobs ! j)) \<and> rt_keeps I (snd (jobs ! j))" if "j < length jobs" for j
    using assms(1) that by (auto simp: list_all_length case_prod_beta)
  have cuts: "rt_keeps I (rt_for (filter (\<lambda>j. j \<in> set sent) order) (\<lambda>j _. snd (jobs ! j)) ())"
    by (rule keeps_for_in) (use Cons.prems job in auto)
  show ?case
    unfolding rt_keeps_def
  proof (intro allI impI)
    fix s
    assume "I s"
    obtain r s1 where run: "fst (jobs ! i) s = (r, s1)" by fastforce
    with job [of i] Cons.prems \<open>I s\<close> have "I s1" by (auto dest: rt_keepsD)
    then show "I (snd (join_from jobs sent got (i # order) s))"
      using run rt_keepsD [OF cuts] rt_keepsD [OF Cons.IH] Cons.prems by (cases r) simp_all
  qed
qed

lemma keeps_try_join:
  assumes "\<And>x. rt_keeps I (fst (job x)) \<and> rt_keeps I (snd (job x))"
  shows "rt_keeps I (try_join_all sched (map (\<lambda>(i, x). job (f x)) chunk))"
  unfolding try_join_all_def
  by (intro rt_keeps_bind rt_keeps_return keeps_join_from)
    (use assms in \<open>auto simp: list_all_iff join_order_set case_prod_beta\<close>)

lemma keeps_run_chunks: "(\<And>chunk. rt_keeps I (run chunk)) \<Longrightarrow> rt_keeps I (run_chunks n run indexed acks)"
  unfolding run_chunks_def by (intro rt_keeps_control)

lemma keeps_emit_checked:
  "rt_keeps I submission \<Longrightarrow> (\<And>receipts transport. rt_keeps I (emit receipts transport)) \<Longrightarrow>
    rt_keeps I (emit_checked what n emit submission)"
  unfolding emit_checked_def by (intro rt_keeps_control)

lemma keeps_batch_case:
  assumes "\<And>x. rt_keeps I (one x)" and "rt_keeps I (many orders)"
  shows "rt_keeps I (case orders of [x] \<Rightarrow> one x | xs \<Rightarrow> many xs)"
  using assms by (simp split: list.split) force

lemmas chunk_defs = binance_create_chunk_def bybit_create_chunk_def mexc_create_chunk_def binance_amend_chunk_def
  bybit_amend_chunk_def binance_cancel_chunk_def bybit_cancel_chunk_def mexc_cancel_chunk_def

context command_keeper
begin

lemma keeps_emits:
  "rt_keeps I (cache_and_emit_create_receipts ctx receipts creates transport)"
  "rt_keeps I (cache_and_emit_amend_receipts ctx receipts amends transport)"
  "rt_keeps I (cache_and_emit_cancel_receipts ctx receipts targets transport)"
  unfolding cache_and_emit_create_receipts_def cache_and_emit_amend_receipts_def cache_and_emit_cancel_receipts_def
  by (rule keeps_batch_receipts)+

lemmas keeps_chunk_rules = keeps_emit_checked keeps_emits keeps_batch_rules keeps_run_chunks

lemma keeps_any_amend_submission: "rt_keeps I (amend_order_submission ctx request)"
  unfolding amend_submission_defs resolve_order_for_amend_def
  by (intro keeps_submission keeps_transport keeps_refreshes(4))

lemma keeps_validates:
  "rt_keeps I (validate_create_order ctx create)"
  "rt_keeps I (validate_amend_order ctx amend)"
  by (simp_all add: rt_keeps_def validate_pure validate_amend_pure)

lemma keeps_amend: "rt_keeps I (amend_order ctx request)"
  unfolding amend_order_def
  by (intro keeper_rules keeps_conclude keeps_acquire keeps_any_amend_submission keeps_validates)

lemma keeps_jobs:
  "rt_keeps I (fst (create_order_job ctx create)) \<and> rt_keeps I (snd (create_order_job ctx create))"
  "rt_keeps I (fst (amend_order_job ctx amend)) \<and> rt_keeps I (snd (amend_order_job ctx amend))"
  "rt_keeps I (fst (cancel_order_job ctx cancel)) \<and> rt_keeps I (snd (cancel_order_job ctx cancel))"
  unfolding create_order_job_def amend_order_job_def cancel_order_job_def fst_conv snd_conv
  by (intro conjI keeps_single_commands keeps_amend keeps_abandoned rt_keeps_bind keeps_validates
      keeps_acquire keeps_create_submission keeps_any_amend_submission
      keeps_cancel_submission rt_keeps_require_spec)+


lemma keeps_chunks:
  "rt_keeps I (binance_create_chunk_joined ctx sched rid creates)"
  "rt_keeps I (binance_create_chunk ctx rid creates)"
  "rt_keeps I (bybit_create_chunk ctx rid creates)"
  "rt_keeps I (mexc_create_chunk ctx rid creates)"
  "rt_keeps I (binance_amend_chunk_joined ctx sched rid amends)"
  "rt_keeps I (binance_amend_chunk ctx rid amends)"
  "rt_keeps I (bybit_amend_chunk ctx rid amends)"
  "rt_keeps I (cancel_joined ctx sched rid cancels)"
  "rt_keeps I (binance_cancel_chunk ctx native_symbol cancels)"
  "rt_keeps I (bybit_cancel_chunk ctx cancels)"
  "rt_keeps I (mexc_cancel_chunk ctx rid all_ids cancels)"
  unfolding chunk_defs binance_create_chunk_joined_def binance_amend_chunk_joined_def cancel_joined_def Let_def
  by (rule keeps_try_join keeps_jobs | intro keeps_chunk_rules)+

lemma keeps_orders:
  "rt_keeps I (create_orders ctx sched creates)"
  "rt_keeps I (amend_orders ctx sched amends)"
  "rt_keeps I (cancel_orders ctx sched cancels)"
proof -
  note rules = rt_keeps_control keeps_single_commands keeps_amend keeps_run_chunks keeps_chunks
  show "rt_keeps I (create_orders ctx sched creates)"
    unfolding create_orders_def create_orders_placed_def
    by (rule rt_keeps_bind [OF keeps_validations(1)],
        rule keeps_batch_case [where many = "\<lambda>orders. rt_bind (create_orders_placed ctx sched (crs_request_id creates) (enumerate 0 orders)
            (replicate (length orders) None)) (\<lambda>acks. rt_lift (collect_batch_acks acks ''create_orders''))",
          unfolded create_orders_placed_def]) (intro rules)+
  show "rt_keeps I (amend_orders ctx sched amends)"
    unfolding amend_orders_def amend_orders_placed_def
    by (rule rt_keeps_bind [OF keeps_validations(2)],
        rule keeps_batch_case [where many = "\<lambda>orders. rt_bind (amend_orders_placed ctx sched (ams_request_id amends) (enumerate 0 orders)
            (replicate (length orders) None)) (\<lambda>acks. rt_lift (collect_batch_acks acks ''amend_orders''))",
          unfolded amend_orders_placed_def]) (intro rules)+
  show "rt_keeps I (cancel_orders ctx sched cancels)"
    unfolding cancel_orders_def cancel_orders_placed_def binance_cancel_group_def
    by (rule rt_keeps_bind [OF rt_keeps_lift],
        rule keeps_batch_case [where many = "\<lambda>orders. rt_bind (cancel_orders_placed ctx sched (cos_request_id cancels) (enumerate 0 orders)
            (replicate (length orders) None)) (\<lambda>acks. rt_lift (collect_batch_acks acks ''cancel_orders''))",
          unfolded cancel_orders_placed_def binance_cancel_group_def]) (intro rules)+
qed


end

section \<open>Properties\<close>

text \<open>
  C3. Batches keep track of every order.  When a batch of new orders, amendments or
  cancellations is acknowledged, there is one acknowledgement per order, in the order of the
  request, and each one with an unknown outcome has its command on the pending list; whether
  the batch is acknowledged or fails, no pending command is lost.  This holds for every venue,
  every way the batch is cut into requests and every order in which joined commands finish.
\<close>

theorem batch_outcomes_tracked:
  "batch_tracked CreateOrder (map create_identity (crs_orders creates)) s (create_orders ctx sched creates s) \<and>
   batch_tracked AmendOrder (map amend_identity (ams_orders amends)) s (amend_orders ctx sched amends s) \<and>
   batch_tracked CancelOrder (map (cancel_identity None) (cos_orders cancels)) s (cancel_orders ctx sched cancels s)"
  using batch_tracked_triple [OF create_orders_triple [of _ ctx sched creates]]
    batch_tracked_triple [OF amend_orders_triple [of _ ctx sched amends]]
    batch_tracked_triple [OF cancel_orders_triple [of _ ctx sched cancels]]
  by blast

text \<open>
  A failed join forgets what it had sent.  When the first of two joined orders fails while
  the second has sent its request, the batch fails with the first order's error; the second
  order's request has gone out, yet the pending list and the command channel are as before the
  batch, so nobody will look for the second order.
\<close>

theorem failed_join_forgets_sent_order:
  "case create_order ctx first s of
     (Inr _, _) \<Rightarrow> True
   | (Inl f, s1) \<Rightarrow>
       (let s2 = snd (snd (create_order_job ctx second) s1) in
        try_join_all \<lparr>js_order = [0, 1], js_sent = [1]\<rparr> [create_order_job ctx first, create_order_job ctx second] s =
          (Inl f, s2) \<and>
        ledger s2 = ledger s)"
proof (cases "create_order ctx first s")
  case (Pair r s1)
  show ?thesis
  proof (cases r)
    case (Inl f)
    have "ledger s1 = ledger s"
      using tripleD [OF create_order_triple [of "ledger s" ctx first], of s] Pair Inl by simp
    moreover have "ledger (snd (snd (create_order_job ctx second) s1)) = ledger s1"
      using dropped_jobs_keep_ledger(1) [of "ledger s1" ctx second] by (simp add: rt_keeps_def)
    moreover have "fst (create_order_job ctx first) s = (Inl f, s1)"
      using Pair Inl by (simp add: create_order_job_def)
    ultimately show ?thesis
      using Pair Inl by (simp add: try_join_all_def join_order_def rt_bind_def rt_return_def Let_def eval_nat_numeral
          split: prod.split sum.split)
  qed (use Pair in simp)
qed

end
