(* ===== verification/Position_Commands.thy ===== *)
theory Position_Commands
  imports Batch_Commands
begin

text \<open>
  Commands about positions and the account in \<^verbatim>\<open>bat-markets/src/runtime.rs\<close>: closing a position,
  leverage, margin mode, position mode and the venue's own validation of an order.
\<close>

section \<open>Closing a position\<close>

definition filter_option :: "('a \<Rightarrow> bool) \<Rightarrow> 'a option \<Rightarrow> 'a option" where
  "filter_option keep v = Option.bind v (\<lambda>x. if keep x then Some x else None)"

definition cached_position :: "'d EngineState \<Rightarrow> InstrumentId \<Rightarrow> 'd Position option" where
  "cached_position st iid = find (\<lambda>p. pos_instrument_id p = iid) (engine_positions st)"

definition close_position_cache_is_actionable ::
  "'d Decimal_ops \<Rightarrow> 'd Position \<Rightarrow> 'd ClosePositionRequest \<Rightarrow> bool" where
  "close_position_cache_is_actionable D position request \<longleftrightarrow>
     \<not> dec_is_zero D (decimal (pos_size position)) \<and>
     (case cp_quantity request of
        None \<Rightarrow> True
      | Some quantity \<Rightarrow> \<not> dec_less D (decimal (pos_size position)) (decimal quantity))"

definition resolve_close_position :: "'d LiveContext \<Rightarrow> 'd ClosePositionRequest \<Rightarrow> ('d, 'd Position) rt" where
  "resolve_close_position ctx request =
     rt_bind (rt_read (\<lambda>s. cached_position (engine_of s) (cp_instrument_id request))) (\<lambda>cached.
       case filter_option (\<lambda>p. close_position_cache_is_actionable (lc_decimal ctx) p request) cached of
           Some position \<Rightarrow> rt_return position
         | None \<Rightarrow>
             rt_bind (refresh_positions ctx) (\<lambda>refreshed.
               rt_lift (ok_or (market_error ConfigError
                 (''no refreshed position found for '' @ as_str (cp_instrument_id request) @
                  ''; start private stream or call refresh_positions before close_position''))
                 (find (\<lambda>p. pos_instrument_id p = cp_instrument_id request) refreshed))))"

definition already_flat :: "InstrumentId \<Rightarrow> MarketError" where
  "already_flat iid = market_error ConfigError (''position '' @ as_str iid @ '' is already flat'')"

text \<open>The reduce-only order that closes the position, or why there is none.\<close>

definition close_order ::
  "'d Decimal_ops \<Rightarrow> 'd Position \<Rightarrow> 'd ClosePositionRequest \<Rightarrow> 'd CreateOrderRequest result" where
  "close_order D position request =
     (if dec_is_zero D (decimal (pos_size position)) then Err (already_flat (cp_instrument_id request))
      else
        (let quantity = (case cp_quantity request of None \<Rightarrow> pos_size position | Some q \<Rightarrow> q) in
         if dec_less D (decimal (pos_size position)) (decimal quantity)
         then config_error ''close_position quantity exceeds current position size''
         else
           (case pos_direction position of
              Flat \<Rightarrow> Err (already_flat (cp_instrument_id request))
            | direction \<Rightarrow> Ok
                \<lparr>cr_request_id = cp_request_id request, cr_instrument_id = cp_instrument_id request,
                 cr_client_order_id = cp_client_order_id request,
                 cr_side = (if direction = Long then Sell else Buy),
                 cr_order_type = (if cp_price request \<noteq> None then Limit else Market),
                 cr_time_in_force = cp_time_in_force request, cr_quantity = quantity, cr_price = cp_price request,
                 cr_trigger_price = None, cr_trigger_type = None, cr_reduce_only = True,
                 cr_post_only = cp_post_only request\<rparr>)))"

text \<open>Unlike the order commands this one falls back to REST in the websocket-only mode too.\<close>

definition submit_close ::
  "'d LiveContext \<Rightarrow> RequestId option \<Rightarrow> ('d, CommandWsRequestError + string) rt \<Rightarrow> ('d, string) rt \<Rightarrow>
     ('d, CommandReceipt \<times> CommandTransport) rt" where
  "submit_close ctx rid ws_call rest_call =
     (let rest = submit_rest ctx ClosePosition rid rest_call in
      if lc_ws_order_entry ctx
      then submit_ws (ctx\<lparr>lc_mode := CommandTransportMode.Auto\<rparr>) ClosePosition rid ws_call rest
      else rest)"

definition bybit_close_body :: "'d Decimal_ops \<Rightarrow> string \<Rightarrow> 'd CreateOrderRequest \<Rightarrow> Json" where
  "bybit_close_body D native_symbol order =
     json_object
       [(''category'', JString ''linear''), (''symbol'', JString native_symbol),
        (''side'', JString (bybit_side (cr_side order))),
        (''orderType'', JString (bybit_order_type (cr_order_type order))),
        (''qty'', JString (format_quantity D (cr_quantity order))),
        (''price'', json_option (map_option (format_price D) (cr_price order))),
        (''timeInForce'', json_option (map_option (\<lambda>t. bybit_time_in_force t (cr_post_only order)) (cr_time_in_force order))),
        (''orderLinkId'', json_option (map_option as_str (cr_client_order_id order))),
        (''reduceOnly'', JBool True)]"

definition close_submission ::
  "'d LiveContext \<Rightarrow> 'd CreateOrderRequest \<Rightarrow> ('d, CommandReceipt \<times> CommandTransport) rt" where
  "close_submission ctx order =
     (case cfg_venue (lc_config ctx) of
        Binance \<Rightarrow>
          rt_bind (require_spec ctx (cr_instrument_id order)) (\<lambda>spec.
            let pairs = build_binance_create_pairs (lc_decimal ctx) (is_native_symbol spec) order in
            submit_close ctx (cr_request_id order)
              (binance_signed_ws_request_text ctx ''order.place'' pairs ''binance.close_position_ws'')
              (binance_signed_request_text ctx ''POST'' ''/fapi/v1/order'' pairs ''binance.close_position''))
      | Bybit \<Rightarrow>
          rt_bind (require_spec ctx (cr_instrument_id order)) (\<lambda>spec.
            let body = bybit_close_body (lc_decimal ctx) (is_native_symbol spec) order in
            submit_close ctx (cr_request_id order)
              (bybit_trade_ws_request_text ctx ''order.create'' [body] ''bybit.close_position_ws'')
              (rt_bind (rt_lift (serialize_body ctx ''bybit close-position'' body)) (\<lambda>payload.
                bybit_signed_post_text ctx ''/v5/order/create'' payload ''bybit.close_position'')))
      | Mexc \<Rightarrow>
          (if lc_mode ctx = WebSocketOnly then rt_lift (Err (unsupported_ws_command ctx ''mexc.close_position_ws''))
           else
             rt_bind (build_mexc_create_order_object ctx order) (\<lambda>body.
             rt_bind (rt_lift (serialize_body ctx ''mexc close position'' body)) (\<lambda>payload.
               submit_rest ctx ClosePosition (cr_request_id order)
                   (mexc_signed_post_text ctx ''/api/v1/private/order/submit'' payload ''mexc.close_position'')))))"

definition close_position :: "'d LiveContext \<Rightarrow> 'd ClosePositionRequest \<Rightarrow> ('d, CommandAck) rt" where
  "close_position ctx request =
     rt_bind (resolve_close_position ctx request) (\<lambda>position.
     rt_bind (rt_lift (close_order (lc_decimal ctx) position request)) (\<lambda>order.
     rt_bind (validate_create_order ctx order) (\<lambda>_.
     rt_bind (rt_acquire) (\<lambda>_.
     rt_bind (close_submission ctx order) (\<lambda>(receipt, transport).
       conclude_command ctx ClosePosition (cr_instrument_id order) None (cr_client_order_id order) receipt transport)))))"

section \<open>Leverage\<close>

text \<open>The receipt of a REST command, an uncertain failure being classified without a payload.\<close>

definition rest_receipt ::
  "'d LiveContext \<Rightarrow> CommandOperation \<Rightarrow> RequestId option \<Rightarrow> ('d, string) rt \<Rightarrow> ('d, CommandReceipt) rt" where
  "rest_receipt ctx operation rid call =
     rt_bind (submit_rest ctx operation rid call) (\<lambda>(receipt, _). rt_return receipt)"

definition acknowledge_rest :: "'d LiveContext \<Rightarrow> CommandReceipt \<Rightarrow> ('d, CommandReceipt) rt" where
  "acknowledge_rest ctx receipt =
     rt_bind (apply_command_receipt ctx receipt Rest) (\<lambda>_. rt_return receipt)"

definition mexc_leverage_json_value :: "string \<Rightarrow> Json result" where
  "mexc_leverage_json_value leverage =
     (case parse_i64 leverage of
        None \<Rightarrow> config_error (''mexc leverage must be an integer: '' @ parse_signed_error 64 leverage)
      | Some n \<Rightarrow> Ok (json_i64 n))"

fun mexc_margin_mode_open_type :: "MarginMode \<Rightarrow> i64" where
  "mexc_margin_mode_open_type Isolated = 1"
| "mexc_margin_mode_open_type Cross = 2"

definition mexc_position_id_value :: "PositionId \<Rightarrow> Json" where
  "mexc_position_id_value pid =
     (case parse_i64 (as_str pid) of None \<Rightarrow> JString (as_str pid) | Some n \<Rightarrow> json_i64 n)"

definition mexc_cached_positions :: "'d EngineState \<Rightarrow> InstrumentId \<Rightarrow> 'd Position list" where
  "mexc_cached_positions st iid =
     filter (\<lambda>p. pos_instrument_id p = iid \<and> as_str (pos_position_id p) \<noteq> ''0'') (engine_positions st)"

definition mexc_change_leverage_bodies ::
  "'d LiveContext \<Rightarrow> InstrumentId \<Rightarrow> string \<Rightarrow> MarginMode option \<Rightarrow> ('d, Json list) rt" where
  "mexc_change_leverage_bodies ctx iid leverage margin_mode =
     rt_bind (require_spec ctx iid) (\<lambda>spec.
     rt_bind (rt_lift (mexc_leverage_json_value leverage)) (\<lambda>value.
     rt_bind (rt_read engine_of) (\<lambda>st.
       (let open_type = json_i64 (case margin_mode of
                None \<Rightarrow> mexc_open_type_for_order st iid
              | Some mode \<Rightarrow> mexc_margin_mode_open_type mode);
              fresh = (\<lambda>position_type. json_object
                [(''openType'', open_type), (''leverage'', value), (''symbol'', JString (mexc_wire_symbol spec)),
                 (''positionType'', json_i64 position_type)]) in
          rt_return
            (case mexc_cached_positions st iid of
               [] \<Rightarrow> [fresh 1, fresh 2]
             | positions \<Rightarrow> map (\<lambda>p. json_object
                 [(''positionId'', mexc_position_id_value (pos_position_id p)), (''leverage'', value),
                  (''openType'', open_type)]) positions)))))"

definition mexc_merge_command_receipts ::
  "'d LiveContext \<Rightarrow> CommandOperation \<Rightarrow> RequestId option \<Rightarrow> CommandReceipt list \<Rightarrow> CommandReceipt" where
  "mexc_merge_command_receipts ctx operation rid receipts =
     (case or_else (find (\<lambda>r. rcp_status r = CommandStatus.Rejected) receipts)
         (or_else (find (\<lambda>r. rcp_status r = CommandStatus.UnknownExecution) receipts)
           (if receipts = [] then None else Some (last receipts))) of
        Some receipt \<Rightarrow> receipt
      | None \<Rightarrow> accepted_receipt ctx operation rid)"

text \<open>Every body is sent; the first rejection, else the first unknown outcome, speaks for all.\<close>

definition mexc_change_leverage ::
  "'d LiveContext \<Rightarrow> CommandOperation \<Rightarrow> RequestId option \<Rightarrow> string \<Rightarrow> string \<Rightarrow> Json list \<Rightarrow> ('d, CommandReceipt) rt" where
  "mexc_change_leverage ctx operation rid what label bodies =
     rt_bind (rt_collect (\<lambda>body.
           rt_bind (rt_lift (serialize_body ctx (''mexc '' @ what) body)) (\<lambda>payload.
             rest_receipt ctx operation rid
               (mexc_signed_post_text ctx ''/api/v1/private/position/change_leverage'' payload label))) bodies) (\<lambda>receipts.
       rt_return (mexc_merge_command_receipts ctx operation rid receipts))"

definition set_leverage_submission :: "'d LiveContext \<Rightarrow> 'd SetLeverageRequest \<Rightarrow> string \<Rightarrow> string \<Rightarrow> ('d, CommandReceipt) rt" where
  "set_leverage_submission ctx request native_symbol leverage =
     (let receipt = rest_receipt ctx SetLeverage (sl_request_id request) in
      case cfg_venue (lc_config ctx) of
        Binance \<Rightarrow> receipt (binance_signed_request_text ctx ''POST'' ''/fapi/v1/leverage''
          [(''symbol'', native_symbol), (''leverage'', leverage)] ''binance.set_leverage'')
      | Bybit \<Rightarrow>
          rt_bind (rt_lift (serialize_body ctx ''bybit set-leverage'' (string_object
              [(''category'', ''linear''), (''symbol'', native_symbol), (''buyLeverage'', leverage),
               (''sellLeverage'', leverage)]))) (\<lambda>payload.
            receipt (bybit_signed_post_text ctx ''/v5/position/set-leverage'' payload ''bybit.set_leverage''))
      | Mexc \<Rightarrow>
          rt_bind (mexc_change_leverage_bodies ctx (sl_instrument_id request) leverage None)
            (mexc_change_leverage ctx SetLeverage (sl_request_id request) ''set leverage'' ''mexc.set_leverage''))"

definition set_leverage :: "'d LiveContext \<Rightarrow> 'd SetLeverageRequest \<Rightarrow> ('d, CommandReceipt) rt" where
  "set_leverage ctx request =
     rt_bind (require_spec ctx (sl_instrument_id request)) (\<lambda>spec.
     rt_bind (rt_acquire) (\<lambda>_.
     rt_bind (set_leverage_submission ctx request (is_native_symbol spec)
           (dec_to_string (lc_decimal ctx) (dec_normalize (lc_decimal ctx) (decimal (sl_leverage request))))) (\<lambda>receipt.
       acknowledge_rest ctx receipt)))"

section \<open>Margin mode\<close>

definition value_to_string :: "'d LiveContext \<Rightarrow> Json \<Rightarrow> string" where
  "value_to_string ctx v =
     (case v of
        JString raw \<Rightarrow> raw
      | JNumber raw _ \<Rightarrow> raw
      | JBool b \<Rightarrow> (if b then ''true'' else ''false'')
      | JNull \<Rightarrow> []
      | _ \<Rightarrow> (case lc_json ctx v of Inl _ \<Rightarrow> [] | Inr rendered \<Rightarrow> rendered))"

definition mexc_leverage_of_answer :: "'d LiveContext \<Rightarrow> string \<Rightarrow> string result" where
  "mexc_leverage_of_answer ctx payload =
     and_then (map_err (\<lambda>err. market_error DecodeError (''failed to parse mexc leverage response: '' @ err))
         (lc_parse_json ctx payload)) (\<lambda>value.
       ok_or (with_context ctx (market_error DecodeError ''mexc leverage response missing leverage''))
         (filter_option (\<lambda>raw. raw \<noteq> [] \<and> raw \<noteq> ''null'')
           (map_option (value_to_string ctx)
             (Option.bind (Option.bind (Option.bind (json_get ''data'' value) json_elements)
               (\<lambda>items. nth_option items 0)) (json_get ''leverage'')))))"

definition mexc_fetch_current_leverage :: "'d LiveContext \<Rightarrow> InstrumentId \<Rightarrow> ('d, string) rt" where
  "mexc_fetch_current_leverage ctx iid =
     rt_bind (rt_read (\<lambda>s. Option.bind (cached_position (engine_of s) iid) pos_leverage)) (\<lambda>known.
       case known of
           Some leverage \<Rightarrow>
             rt_return (dec_to_string (lc_decimal ctx) (dec_normalize (lc_decimal ctx) (decimal leverage)))
         | None \<Rightarrow>
             rt_bind (require_spec ctx iid) (\<lambda>spec.
             rt_bind (mexc_signed_get_text ctx ''/api/v1/private/position/leverage''
                 [(''symbol'', is_native_symbol spec)] ''mexc.position.leverage'') (\<lambda>payload.
               rt_lift (mexc_leverage_of_answer ctx payload))))"

definition set_margin_mode_submission :: "'d LiveContext \<Rightarrow> SetMarginModeRequest \<Rightarrow> ('d, CommandReceipt) rt" where
  "set_margin_mode_submission ctx request =
     (let receipt = rest_receipt ctx SetMarginMode (sm_request_id request) in
      case cfg_venue (lc_config ctx) of
        Binance \<Rightarrow>
          rt_bind (require_spec ctx (sm_instrument_id request)) (\<lambda>spec.
            receipt (binance_signed_request_text ctx ''POST'' ''/fapi/v1/marginType''
              [(''symbol'', is_native_symbol spec),
               (''marginType'', case sm_margin_mode request of Cross \<Rightarrow> ''CROSSED'' | Isolated \<Rightarrow> ''ISOLATED'')]
              ''binance.set_margin_mode''))
      | Bybit \<Rightarrow>
          rt_bind (rt_lift (serialize_body ctx ''bybit set-margin-mode'' (string_object
              [(''setMarginMode'', case sm_margin_mode request of
                  Cross \<Rightarrow> ''REGULAR_MARGIN'' | Isolated \<Rightarrow> ''ISOLATED_MARGIN'')]))) (\<lambda>payload.
            receipt (bybit_signed_post_text ctx ''/v5/account/set-margin-mode'' payload ''bybit.set_margin_mode''))
      | Mexc \<Rightarrow>
          rt_bind (mexc_fetch_current_leverage ctx (sm_instrument_id request)) (\<lambda>leverage.
          rt_bind (mexc_change_leverage_bodies ctx (sm_instrument_id request) leverage (Some (sm_margin_mode request))) (\<lambda>bodies.
            mexc_change_leverage ctx SetMarginMode (sm_request_id request) ''set margin mode'' ''mexc.set_margin_mode'' bodies)))"

definition set_margin_mode :: "'d LiveContext \<Rightarrow> SetMarginModeRequest \<Rightarrow> ('d, CommandReceipt) rt" where
  "set_margin_mode ctx request =
     rt_bind (rt_acquire) (\<lambda>_.
     rt_bind (set_margin_mode_submission ctx request) (\<lambda>receipt.
     rt_bind ((if cfg_venue (lc_config ctx) = Bybit
               then rt_modify (\<lambda>s. s\<lparr>lr_bybit_account_context := None\<rparr>) else rt_return ())) (\<lambda>_.
       acknowledge_rest ctx receipt)))"

section \<open>Validation by the venue\<close>

definition validate_order_call :: "'d LiveContext \<Rightarrow> 'd InstrumentSpec \<Rightarrow> 'd CreateOrderRequest \<Rightarrow> ('d, string) rt" where
  "validate_order_call ctx spec order =
     (case cfg_venue (lc_config ctx) of
        Binance \<Rightarrow> binance_signed_request_text ctx ''POST'' ''/fapi/v1/order/test''
          (build_binance_create_pairs (lc_decimal ctx) (is_native_symbol spec) order) ''binance.validate_order''
      | Bybit \<Rightarrow>
          rt_bind (rt_lift (serialize_body ctx ''bybit validate order''
              (bybit_create_body (lc_decimal ctx) (is_native_symbol spec) order))) (\<lambda>payload.
            bybit_signed_post_text ctx ''/v5/order/pre-check'' payload ''bybit.validate_order'')
      | Mexc \<Rightarrow> rt_lift (Err (unsupported_mexc_command ctx ''validate_order''
          ''official MEXC futures docs do not expose a dry-run or precheck endpoint for regular orders'')))"

definition validate_order :: "'d LiveContext \<Rightarrow> 'd ValidateOrderRequest \<Rightarrow> ('d, CommandReceipt) rt" where
  "validate_order ctx request =
     (let order = vo_order request in
      rt_bind (validate_create_order ctx order) (\<lambda>_.
      rt_bind (rt_acquire) (\<lambda>_.
      rt_bind (require_spec ctx (cr_instrument_id order)) (\<lambda>spec.
      rt_bind (validate_order_call ctx spec order) (\<lambda>_.
        acknowledge_rest ctx
            ((accepted_receipt ctx ValidateOrder (or_else (vo_request_id request) (cr_request_id order)))
              \<lparr>rcp_instrument_id := Some (is_instrument_id spec),
               rcp_client_order_id := cr_client_order_id order, rcp_message := Some ''validated''\<rparr>))))))"

section \<open>Position mode\<close>

definition set_position_mode_call :: "'d LiveContext \<Rightarrow> SetPositionModeRequest \<Rightarrow> ('d, string) rt" where
  "set_position_mode_call ctx request =
     (case cfg_venue (lc_config ctx) of
        Binance \<Rightarrow> binance_signed_request_text ctx ''POST'' ''/fapi/v1/positionSide/dual''
          [(''dualSidePosition'', case sp_position_mode request of OneWay \<Rightarrow> ''false'' | Hedge \<Rightarrow> ''true'')]
          ''binance.set_position_mode''
      | Bybit \<Rightarrow>
          rt_bind ((case sp_instrument_id request of
                  Some iid \<Rightarrow> rt_bind (require_spec ctx iid) (\<lambda>spec. rt_return (''symbol'', JString (is_native_symbol spec)))
                | None \<Rightarrow> rt_return (''coin'', JString ''USDT''))) (\<lambda>scope.
          rt_bind (rt_lift (serialize_body ctx ''bybit set-position-mode'' (json_object
                [(''category'', JString ''linear''),
                 (''mode'', json_i64 (case sp_position_mode request of OneWay \<Rightarrow> 0 | Hedge \<Rightarrow> 3)), scope]))) (\<lambda>payload.
            bybit_signed_post_text ctx ''/v5/position/switch-mode'' payload ''bybit.set_position_mode''))
      | Mexc \<Rightarrow>
          rt_bind (rt_lift (serialize_body ctx ''mexc set position mode''
              (json_object [(''positionMode'', json_i64 (mexc_position_mode (sp_position_mode request)))]))) (\<lambda>payload.
            mexc_signed_post_text ctx ''/api/v1/private/position/change_position_mode'' payload ''mexc.set_position_mode''))"

definition set_position_mode :: "'d LiveContext \<Rightarrow> SetPositionModeRequest \<Rightarrow> ('d, CommandReceipt) rt" where
  "set_position_mode ctx request =
     rt_bind (rt_acquire) (\<lambda>_.
     rt_bind (set_position_mode_call ctx request) (\<lambda>payload.
     rt_bind (classify_answer ctx SetPositionMode (sp_request_id request) payload) (\<lambda>receipt.
       acknowledge_rest ctx receipt)))"

end
