(* ===== verification/Position_Laws.thy ===== *)
theory Position_Laws
  imports Batch_Laws Position_Commands
begin

text \<open>
  Laws of the commands about positions and the account: closing a position only ever reduces
  it and keeps track of an unknown outcome; the settings never touch the pending list, and two
  of the commands pass an uncertain failure on as an error.
\<close>

section \<open>Closing a position\<close>

lemma close_order_Ok:
  assumes "close_order D position request = Ok order"
  shows "cr_instrument_id order = cp_instrument_id request" "cr_client_order_id order = cp_client_order_id request"
    "cr_reduce_only order" "cr_side order = (if pos_direction position = Long then Sell else Buy)"
    "pos_direction position \<noteq> Flat" "\<not> dec_less D (decimal (pos_size position)) (decimal (cr_quantity order))"
    "\<not> dec_is_zero D (decimal (pos_size position))"
  using assms
  by (auto simp: close_order_def config_error_def Let_def split: if_splits PositionDirection.splits)

lemma ledger_from_parts:
  "(\<And>ps. rt_keeps (pending_is ps) m) \<Longrightarrow> (\<And>es. rt_keeps (commands_are es) m) \<Longrightarrow> rt_keeps (ledger_is l) m"
  by (cases l) (auto simp: rt_keeps_def ledger_def)

lemma keeps_resolve_close: "rt_keeps (ledger_is l) (resolve_close_position ctx request)"
  unfolding resolve_close_position_def
  by (intro rt_keeps_control ledger_from_parts pending_refreshes(2) commands_keeper.keeps_refreshes(1))

lemma keeps_submit_close:
  "rt_keeps I ws_call \<Longrightarrow> rt_keeps I rest_call \<Longrightarrow> rt_keeps I (submit_close ctx rid ws_call rest_call)"
  unfolding submit_close_def Let_def by (intro rt_keeps_if keeps_submit_ws keeps_submit_rest)

context network_blind
begin

lemma keeps_close_submission: "rt_keeps I (close_submission ctx order)"
  unfolding close_submission_def build_mexc_create_order_object_def
  by (intro keeps_submission keeps_submit_close keeps_transport)

end

lemma close_position_triple:
  "rt_triple (ledger_is l) (close_position ctx request)
    (concluded ClosePosition (cp_instrument_id request) None (cp_client_order_id request) l) (ledger_is l)"
proof -
  have order: "rt_triple (ledger_is l) (rt_lift (close_order (lc_decimal ctx) position request))
      (\<lambda>order s. ledger_is l s \<and> (cr_instrument_id order = cp_instrument_id request \<and>
        cr_client_order_id order = cp_client_order_id request)) (ledger_is l)" for position
    unfolding rt_triple_def rt_lift_def using close_order_Ok(1,2) by (auto split: sum.split)
  have validate: "rt_keeps (ledger_is l) (validate_create_order ctx order)" for order
    by (simp add: rt_keeps_def validate_pure)
  show ?thesis
    unfolding close_position_def
    by (rule triple_first [OF keeps_resolve_close], rule triple_bind [OF order], rule triple_pure,
        rule triple_first [OF validate], rule triple_first [OF ledger_blind.keeps_acquire],
        rule triple_first [OF ledger_blind.keeps_close_submission])
      (simp add: conclude_triple split: prod.split)
qed

section \<open>Settings\<close>

lemma keeps_rest_receipt: "rt_keeps I call \<Longrightarrow> rt_keeps I (rest_receipt ctx operation rid call)"
  unfolding rest_receipt_def by (intro rt_keeps_bind keeps_submit_rest rt_keeps_pair rt_keeps_return)

context network_blind
begin

lemmas keeps_settings_rules = rt_keeps_control keeps_transport keeps_acquire keeps_rest_receipt keeps_collect

lemma keeps_leverage: "rt_keeps I (set_leverage_submission ctx request native_symbol leverage)"
  unfolding set_leverage_submission_def mexc_change_leverage_bodies_def mexc_change_leverage_def Let_def
  by (intro keeps_settings_rules)

lemma keeps_margin_mode: "rt_keeps I (set_margin_mode_submission ctx margin)"
  unfolding set_margin_mode_submission_def mexc_fetch_current_leverage_def mexc_change_leverage_bodies_def
    mexc_change_leverage_def Let_def
  by (intro keeps_settings_rules)

lemma keeps_account_calls:
  "rt_keeps I (validate_order_call ctx spec order)"
  "rt_keeps I (set_position_mode_call ctx mode)"
  "rt_keeps I (cancel_all_submission ctx cancel_all)"
  unfolding validate_order_call_def set_position_mode_call_def cancel_all_submission_def binance_cancel_symbol_def
    classify_answer_def
  by (intro keeps_settings_rules)+

end


text \<open>A setting acknowledges its receipt and leaves the pending commands alone.\<close>

lemma pending_acknowledge: "rt_keeps (pending_is ps) (acknowledge_rest ctx receipt)"
  unfolding acknowledge_rest_def apply_command_receipt_def
  by (intro rt_keeps_control pending_write) (simp add: rt_keeps_def rt_emit_def)+

lemma pending_settings:
  "rt_keeps (pending_is ps) (set_leverage ctx leverage)"
  "rt_keeps (pending_is ps) (set_margin_mode ctx margin)"
  "rt_keeps (pending_is ps) (set_position_mode ctx mode)"
  "rt_keeps (pending_is ps) (validate_order ctx order)"
  "rt_keeps (pending_is ps) (cancel_all_orders ctx cancel_all)"
proof -
  have context_reset: "rt_keeps (pending_is ps) (rt_modify (\<lambda>s. s\<lparr>lr_bybit_account_context := None\<rparr>))"
    by (simp add: rt_keeps_def rt_modify_def)
  have validate: "rt_keeps (pending_is ps) (validate_create_order ctx create)" for create
    by (simp add: rt_keeps_def validate_pure)
  have ack: "rt_keeps (pending_is ps) (apply_command_receipt ctx receipt transport)" for receipt transport
    unfolding apply_command_receipt_def by (intro rt_keeps_control pending_write) (simp add: rt_keeps_def rt_emit_def)+
  note rules = pending_blind.keeps_settings_rules pending_blind.keeps_leverage pending_blind.keeps_margin_mode
    pending_blind.keeps_account_calls pending_acknowledge context_reset validate ack
  show "rt_keeps (pending_is ps) (set_leverage ctx leverage)" unfolding set_leverage_def by (intro rules)
  show "rt_keeps (pending_is ps) (set_margin_mode ctx margin)" unfolding set_margin_mode_def by (intro rules)
  show "rt_keeps (pending_is ps) (set_position_mode ctx mode)"
    unfolding set_position_mode_def classify_answer_def by (intro rules)
  show "rt_keeps (pending_is ps) (validate_order ctx order)" unfolding validate_order_def Let_def by (intro rules)
  show "rt_keeps (pending_is ps) (cancel_all_orders ctx cancel_all)" unfolding cancel_all_orders_def by (intro rules)
qed

section \<open>What every command keeps\<close>

context command_keeper
begin

lemma keeps_positions:
  "rt_keeps I (close_position ctx close)"
  "rt_keeps I (set_leverage ctx leverage)"
  "rt_keeps I (set_margin_mode ctx margin)"
  "rt_keeps I (set_position_mode ctx mode)"
  "rt_keeps I (validate_order ctx order)"
  "rt_keeps I (cancel_all_orders ctx cancel_all)"
proof -
  note rules = keeps_settings_rules keeps_leverage keeps_margin_mode keeps_account_calls keeps_notes keeps_validate
    keeps_apply_receipt keeps_close_submission keeps_conclude keeps_refreshes(1)
  have ack: "rt_keeps I (acknowledge_rest ctx receipt)" for receipt
    unfolding acknowledge_rest_def by (intro rules)
  show "rt_keeps I (close_position ctx close)"
    unfolding close_position_def resolve_close_position_def by (intro rules)
  show "rt_keeps I (set_leverage ctx leverage)" unfolding set_leverage_def by (intro rules ack)
  show "rt_keeps I (set_margin_mode ctx margin)" unfolding set_margin_mode_def by (intro rules ack)
  show "rt_keeps I (set_position_mode ctx mode)"
    unfolding set_position_mode_def classify_answer_def by (intro rules ack)
  show "rt_keeps I (validate_order ctx order)" unfolding validate_order_def Let_def by (intro rules ack)
  show "rt_keeps I (cancel_all_orders ctx cancel_all)" unfolding cancel_all_orders_def by (intro rules)
qed

end

section \<open>A venue that does not answer\<close>

definition rt_fails :: "('d, 'a) rt \<Rightarrow> bool" where
  "rt_fails m \<longleftrightarrow> (\<forall>s. \<exists>f. fst (m s) = Inl f)"

lemma fails_bind: "rt_fails m \<or> (\<forall>x. rt_fails (k x)) \<Longrightarrow> rt_fails (rt_bind m k)"
  unfolding rt_fails_def rt_bind_def
  by (auto split: prod.split sum.split) (metis fst_conv sum.distinct(1) surj_pair)+

lemma fails_lift: "rt_fails (rt_lift (Err e))"
  by (simp add: rt_fails_def rt_lift_def)

lemma fails_venue:
  "rt_fails a \<Longrightarrow> rt_fails b \<Longrightarrow> rt_fails c \<Longrightarrow> rt_fails (case v of Binance \<Rightarrow> a | Bybit \<Rightarrow> b | Mexc \<Rightarrow> c)"
  by (cases v) simp_all

abbreviation silent :: "bool \<Rightarrow> string \<Rightarrow> 'd LiveContext \<Rightarrow> 'd LiveContext" where
  "silent is_timeout err ctx \<equiv> ctx\<lparr>lc_http := \<lambda>_ _. HttpFailed is_timeout err\<rparr>"

lemma fails_silent:
  "rt_fails (binance_signed_request_text (silent t err ctx) meth path pairs operation)"
  "rt_fails (bybit_signed_post_text (silent t err ctx) path body operation)"
  "rt_fails (mexc_signed_post_text (silent t err ctx) path body operation)"
proof -
  have "rt_fails (send_call (silent t err ctx) operation call)" for call
    by (simp add: rt_fails_def send_call_def rt_bind_def rt_http_def rt_lift_def response_text_def)
  then show "rt_fails (binance_signed_request_text (silent t err ctx) meth path pairs operation)"
    "rt_fails (bybit_signed_post_text (silent t err ctx) path body operation)"
    "rt_fails (mexc_signed_post_text (silent t err ctx) path body operation)"
    unfolding binance_signed_request_text_def bybit_signed_post_text_def mexc_signed_post_text_def Let_def split_def
    by (auto intro!: fails_bind)
qed

section \<open>Properties\<close>


text \<open>
  Account settings hide uncertainty.  They never change the pending list, whatever their
  outcome; and when the venue does not answer at all, changing the position mode and cancelling
  all orders of an instrument report an error, with nothing pending, although their request may
  have been carried out.
\<close>

theorem settings_hide_uncertainty:
  "lr_pending (snd (set_leverage ctx leverage s)) = lr_pending s \<and>
   lr_pending (snd (set_margin_mode ctx margin s)) = lr_pending s \<and>
   lr_pending (snd (set_position_mode ctx mode s)) = lr_pending s \<and>
   lr_pending (snd (cancel_all_orders ctx cancel_all s)) = lr_pending s \<and>
   (\<exists>f. fst (set_position_mode (silent is_timeout err ctx) mode s) = Inl f) \<and>
   (\<exists>f. fst (cancel_all_orders (silent is_timeout err ctx) (cancel_all\<lparr>ca_instrument_id := Some iid\<rparr>) s) = Inl f)"
proof -
  have "rt_fails (set_position_mode (silent is_timeout err ctx) mode)"
    unfolding set_position_mode_def set_position_mode_call_def
    by (auto intro!: fails_bind fails_venue fails_silent)
  moreover have "rt_fails (cancel_all_orders (silent is_timeout err ctx) (cancel_all\<lparr>ca_instrument_id := Some iid\<rparr>))"
    unfolding cancel_all_orders_def cancel_all_submission_def binance_cancel_symbol_def
    by (cases "cfg_venue (lc_config ctx)"; auto intro!: fails_bind fails_silent fails_lift)
  ultimately show ?thesis
    using rt_keepsD [OF pending_settings(1) [of "lr_pending s" ctx leverage] refl] rt_keepsD [OF pending_settings(2) [of "lr_pending s" ctx margin] refl]
      rt_keepsD [OF pending_settings(3) [of "lr_pending s" ctx mode] refl] rt_keepsD [OF pending_settings(5) [of "lr_pending s" ctx cancel_all] refl]
    by (simp add: rt_fails_def)
qed

end
