(* ===== verification/Market_Data.thy ===== *)
theory Market_Data
  imports Streams_Laws Position_Laws
begin

text \<open>
  Market data and executions over REST in \<^verbatim>\<open>bat-markets/src/runtime.rs\<close>: tickers, mark prices,
  funding rates, trades, order books, candles, cached liquidations and the execution history.
  A fetched mark price or funding rate is applied to the engine like a streamed one; the other
  market data only tells that REST works.
\<close>

section \<open>Executions\<close>

text \<open>The instruments whose executions Binance is asked for.\<close>

definition execution_instruments :: "'d EngineState \<Rightarrow> InstrumentId list" where
  "execution_instruments st =
     map fst (bt_extend (\<lambda>iid. iid) (\<lambda>_. ()) []
       (map pos_instrument_id (engine_positions st) @ map ord_instrument_id (engine_orders st)))"

definition execution_specs :: "'d LiveContext \<Rightarrow> ListExecutionsRequest option \<Rightarrow> ('d, 'd InstrumentSpec list) rt" where
  "execution_specs ctx request =
     (case Option.bind request le_instrument_id of
        Some iid \<Rightarrow> rt_bind (require_spec ctx iid) (\<lambda>spec. rt_return [spec])
      | None \<Rightarrow>
          rt_read (\<lambda>s. bt_values (foldl (\<lambda>specs iid. case catalog_get (lr_catalog s) iid of
              None \<Rightarrow> specs | Some spec \<Rightarrow> bt_insert iid spec specs)
            [] (execution_instruments (engine_of s) @ map pu_instrument_id (lr_pending s)))))"

definition bybit_executions_query ::
  "'d LiveContext \<Rightarrow> ListExecutionsRequest option \<Rightarrow> ('d, (string \<times> string) list) rt" where
  "bybit_executions_query ctx request =
     (case request of
        None \<Rightarrow> rt_return [(''category'', ''linear''), (''settleCoin'', ''USDT''), (''limit'', ''100'')]
      | Some req \<Rightarrow>
          rt_bind (case le_instrument_id req of
              Some iid \<Rightarrow> rt_bind (require_spec ctx iid) (\<lambda>spec. rt_return (''symbol'', is_native_symbol spec))
            | None \<Rightarrow> rt_return (''settleCoin'', ''USDT'')) (\<lambda>scope.
            rt_return ([(''category'', ''linear''), scope] @ when_some (le_limit req) (\<lambda>n. (''limit'', show_nat n)))))"

definition mexc_executions_query ::
  "'d LiveContext \<Rightarrow> ListExecutionsRequest option \<Rightarrow> ('d, (string \<times> string) list) rt" where
  "mexc_executions_query ctx request =
     rt_bind (case Option.bind request le_instrument_id of
         Some iid \<Rightarrow> rt_bind (require_spec ctx iid) (\<lambda>spec. rt_return [(''symbol'', is_native_symbol spec)])
       | None \<Rightarrow> rt_return []) (\<lambda>symbol.
       let limit = Option.bind request le_limit;
           query = symbol @ when_some limit (\<lambda>n. (''page_size'', show_nat (min n 100))) @ [(''page_num'', ''1'')] in
       rt_return (query @ (if limit = None then [(''page_size'', ''100'')] else [])))"

definition fetch_executions :: "'d LiveContext \<Rightarrow> ListExecutionsRequest option \<Rightarrow> ('d, 'd Execution list) rt" where
  "fetch_executions ctx request =
     (case venue_of ctx of
        Binance \<Rightarrow>
          rt_bind (execution_specs ctx request) (\<lambda>specs.
            rt_for specs (\<lambda>spec found.
                rt_bind (binance_signed_request_text ctx ''GET'' ''/fapi/v1/userTrades''
                    [(''symbol'', is_native_symbol spec),
                     (''limit'', show_nat (case Option.bind request le_limit of None \<Rightarrow> 100 | Some n \<Rightarrow> n))]
                    ''binance.executions'') (\<lambda>payload.
                rt_bind (rt_parse ctx (\<lambda>p. pa_executions p payload)) (\<lambda>more. rt_return (found @ more)))) [])
      | Bybit \<Rightarrow>
          rt_bind (bybit_executions_query ctx request) (\<lambda>query.
          rt_bind (bybit_signed_get_text ctx ''/v5/execution/list'' query ''bybit.executions'') (\<lambda>payload.
            rt_parse ctx (\<lambda>p. pa_executions p payload)))
      | Mexc \<Rightarrow>
          rt_bind (mexc_executions_query ctx request) (\<lambda>query.
          rt_bind (mexc_signed_get_text ctx ''/api/v1/private/order/list/order_deals'' query ''mexc.executions'') (\<lambda>payload.
            rt_parse ctx (\<lambda>p. pa_executions p payload))))"

definition refresh_executions :: "'d LiveContext \<Rightarrow> ListExecutionsRequest option \<Rightarrow> ('d, 'd Execution list) rt" where
  "refresh_executions ctx request =
     rt_bind (fetch_executions ctx request) (\<lambda>executions.
     rt_bind (rt_write (\<lambda>st. mark_rest_ok (merge_executions executions st))) (\<lambda>_.
       rt_return executions))"

section \<open>Snapshots\<close>

definition rest_ok :: "'a \<Rightarrow> ('d, 'a) rt" where
  "rest_ok x = rt_bind (rt_write mark_rest_ok) (\<lambda>_. rt_return x)"

definition fetch_ticker_payload :: "'d LiveContext \<Rightarrow> 'd InstrumentSpec \<Rightarrow> ('d, string) rt" where
  "fetch_ticker_payload ctx spec =
     (case venue_of ctx of
        Binance \<Rightarrow> public_get_with_retry ctx ''/fapi/v1/ticker/24hr''
          [(''symbol'', is_native_symbol spec)] ''binance.fetch_ticker''
      | Bybit \<Rightarrow> public_get_with_retry ctx ''/v5/market/tickers''
          [(''category'', ''linear''), (''symbol'', is_native_symbol spec)] ''bybit.fetch_ticker''
      | Mexc \<Rightarrow> public_get_with_retry ctx ''/api/v1/contract/ticker''
          [(''symbol'', mexc_wire_symbol spec)] ''mexc.fetch_ticker'')"

definition fetch_ticker :: "'d LiveContext \<Rightarrow> InstrumentId \<Rightarrow> ('d, 'd Ticker) rt" where
  "fetch_ticker ctx iid =
     rt_bind (require_spec ctx iid) (\<lambda>spec.
     rt_bind (fetch_ticker_payload ctx spec) (\<lambda>payload.
     rt_bind (rt_parse ctx (\<lambda>p. pa_ticker p payload iid spec)) (\<lambda>ticker.
       rest_ok ticker)))"

definition fetch_tickers :: "'d LiveContext \<Rightarrow> FetchTickersRequest \<Rightarrow> ('d, 'd Ticker list) rt" where
  "fetch_tickers ctx request =
     rt_bind (rt_lift (tickers_instrument_ids request)) (rt_collect (fetch_ticker ctx))"

text \<open>MEXC is asked for the mark price by the native symbol, not by the wire symbol of the other requests.\<close>

definition fetch_mark_price_payload :: "'d LiveContext \<Rightarrow> 'd InstrumentSpec \<Rightarrow> ('d, string) rt" where
  "fetch_mark_price_payload ctx spec =
     (case venue_of ctx of
        Binance \<Rightarrow> public_get_with_retry ctx ''/fapi/v1/premiumIndex''
          [(''symbol'', is_native_symbol spec)] ''binance.fetch_mark_price''
      | Bybit \<Rightarrow> public_get_with_retry ctx ''/v5/market/tickers''
          [(''category'', ''linear''), (''symbol'', is_native_symbol spec)] ''bybit.fetch_mark_price''
      | Mexc \<Rightarrow> public_get_with_retry ctx ''/api/v1/contract/ticker''
          [(''symbol'', is_native_symbol spec)] ''mexc.fetch_mark_price'')"

definition fetch_mark_price :: "'d LiveContext \<Rightarrow> InstrumentId \<Rightarrow> ('d, 'd MarkPrice) rt" where
  "fetch_mark_price ctx iid =
     rt_bind (require_spec ctx iid) (\<lambda>spec.
     rt_bind (fetch_mark_price_payload ctx spec) (\<lambda>payload.
     rt_bind (rt_now ctx) (\<lambda>now.
     rt_bind (rt_parse ctx (\<lambda>p. pa_mark_price p payload spec now)) (\<lambda>mark_price.
     rt_bind (rt_lift (price_quantize (lc_decimal ctx) (mp_price mark_price) (is_price_scale spec))) (\<lambda>fast.
     rt_bind (rt_public_event ctx (PublicLaneEvent.MarkPrice
           \<lparr>fmp_instrument_id = mp_instrument_id mark_price, fmp_price = fast,
            fmp_funding_rate = mp_funding_rate mark_price, fmp_event_time = mp_event_time mark_price\<rparr>)) (\<lambda>_.
       rest_ok mark_price))))))"

definition fetch_funding_rate_payload :: "'d LiveContext \<Rightarrow> 'd InstrumentSpec \<Rightarrow> ('d, string) rt" where
  "fetch_funding_rate_payload ctx spec =
     (case venue_of ctx of
        Binance \<Rightarrow> public_get_with_retry ctx ''/fapi/v1/premiumIndex''
          [(''symbol'', is_native_symbol spec)] ''binance.fetch_funding_rate''
      | Bybit \<Rightarrow> public_get_with_retry ctx ''/v5/market/tickers''
          [(''category'', ''linear''), (''symbol'', is_native_symbol spec)] ''bybit.fetch_funding_rate''
      | Mexc \<Rightarrow> public_get_with_retry ctx ''/api/v1/contract/funding_rate''
          [(''symbol'', mexc_wire_symbol spec)] ''mexc.fetch_funding_rate'')"

definition fetch_funding_rate :: "'d LiveContext \<Rightarrow> InstrumentId \<Rightarrow> ('d, 'd FundingRate) rt" where
  "fetch_funding_rate ctx iid =
     rt_bind (require_spec ctx iid) (\<lambda>spec.
     rt_bind (fetch_funding_rate_payload ctx spec) (\<lambda>payload.
     rt_bind (rt_now ctx) (\<lambda>now.
     rt_bind (rt_parse ctx (\<lambda>p. pa_funding_rate p payload spec now)) (\<lambda>rate.
     rt_bind (rt_public_event ctx (PublicLaneEvent.FundingRate rate)) (\<lambda>_.
       rest_ok rate)))))"

definition limit_pair :: "usize option \<Rightarrow> (string \<times> string) list" where
  "limit_pair limit = when_some limit (\<lambda>n. (''limit'', show_nat n))"

definition fetch_trades_payload :: "'d LiveContext \<Rightarrow> 'd InstrumentSpec \<Rightarrow> usize option \<Rightarrow> ('d, string) rt" where
  "fetch_trades_payload ctx spec limit =
     (case venue_of ctx of
        Binance \<Rightarrow> public_get_with_retry ctx ''/fapi/v1/aggTrades''
          ([(''symbol'', is_native_symbol spec)] @ limit_pair limit) ''binance.fetch_trades''
      | Bybit \<Rightarrow> public_get_with_retry ctx ''/v5/market/recent-trade''
          ([(''category'', ''linear''), (''symbol'', is_native_symbol spec)] @ limit_pair limit) ''bybit.fetch_trades''
      | Mexc \<Rightarrow> public_get_with_retry ctx (''/api/v1/contract/deals/'' @ mexc_wire_symbol spec)
          (limit_pair limit) ''mexc.fetch_trades'')"

definition fetch_trades :: "'d LiveContext \<Rightarrow> FetchTradesRequest \<Rightarrow> ('d, 'd TradeTick list) rt" where
  "fetch_trades ctx request =
     rt_bind (require_spec ctx (ftq_instrument_id request)) (\<lambda>spec.
     rt_bind (rt_lift (trades_validated_limit request)) (\<lambda>limit.
     rt_bind (fetch_trades_payload ctx spec limit) (\<lambda>payload.
     rt_bind (rt_parse ctx (\<lambda>p. pa_trades p payload request spec)) (\<lambda>trades.
       rest_ok trades))))"

definition fetch_order_book_payload :: "'d LiveContext \<Rightarrow> 'd InstrumentSpec \<Rightarrow> usize option \<Rightarrow> ('d, string) rt" where
  "fetch_order_book_payload ctx spec limit =
     (case venue_of ctx of
        Binance \<Rightarrow> public_get_with_retry ctx ''/fapi/v1/depth''
          ([(''symbol'', is_native_symbol spec)] @ limit_pair limit) ''binance.fetch_order_book''
      | Bybit \<Rightarrow> public_get_with_retry ctx ''/v5/market/orderbook''
          ([(''category'', ''linear''), (''symbol'', is_native_symbol spec)] @ limit_pair limit) ''bybit.fetch_order_book''
      | Mexc \<Rightarrow> public_get_with_retry ctx (''/api/v1/contract/depth/'' @ mexc_wire_symbol spec)
          (limit_pair limit) ''mexc.fetch_order_book'')"

text \<open>Unlike the other snapshots the order book leaves the engine untouched altogether.\<close>

definition fetch_order_book :: "'d LiveContext \<Rightarrow> FetchOrderBookRequest \<Rightarrow> ('d, 'd OrderBookSnapshot) rt" where
  "fetch_order_book ctx request =
     rt_bind (require_spec ctx (fbq_instrument_id request)) (\<lambda>spec.
     rt_bind (rt_lift (order_book_validated_limit request)) (\<lambda>limit.
     rt_bind (fetch_order_book_payload ctx spec limit) (\<lambda>payload.
     rt_bind (rt_now ctx) (\<lambda>now.
       rt_parse ctx (\<lambda>p. pa_order_book p payload spec now)))))"

text \<open>The last \<open>limit\<close> cached liquidations, oldest first.\<close>

definition fetch_liquidations :: "'d LiveContext \<Rightarrow> InstrumentId \<Rightarrow> usize option \<Rightarrow> ('d, 'd Liquidation list) rt" where
  "fetch_liquidations ctx iid limit =
     rt_bind (rt_read (\<lambda>s. engine_liquidations (engine_of s) iid)) (\<lambda>cached.
     rt_bind (rt_lift (ok_or (market_error TemporaryUnavailable
           (''no cached liquidation events for '' @ as_str iid @ ''; subscribe to watch_liquidations() first'')) cached)) (\<lambda>liquidations.
       (let n = (case limit of None \<Rightarrow> length liquidations | Some k \<Rightarrow> k) in
          rt_return (rev (take n (rev liquidations))))))"

section \<open>Candles\<close>

definition time_pair :: "string \<Rightarrow> TimestampMs option \<Rightarrow> (string \<times> string) list" where
  "time_pair key t = when_some t (\<lambda>v. (key, show_int (timestamp_value v)))"

definition seconds_pair :: "string \<Rightarrow> TimestampMs option \<Rightarrow> (string \<times> string) list" where
  "seconds_pair key t = when_some t (\<lambda>v. (key, show_int (trunc_div (timestamp_value v) 1000)))"

definition fetch_ohlcv_payload ::
  "'d LiveContext \<Rightarrow> 'd InstrumentSpec \<Rightarrow> KlineInterval \<Rightarrow> FetchOhlcvRequest \<Rightarrow> ('d, string) rt" where
  "fetch_ohlcv_payload ctx spec interval request =
     (case venue_of ctx of
        Binance \<Rightarrow> public_get_with_retry ctx ''/fapi/v1/klines''
          ([(''symbol'', is_native_symbol spec), (''interval'', as_binance_str interval)] @
            limit_pair (fo_limit request) @ time_pair ''startTime'' (fo_start_time request) @
            time_pair ''endTime'' (fo_end_time request)) ''binance.fetch_ohlcv''
      | Bybit \<Rightarrow> public_get_with_retry ctx ''/v5/market/kline''
          ([(''symbol'', is_native_symbol spec), (''interval'', as_bybit_str interval)] @
            limit_pair (fo_limit request) @ [(''category'', ''linear'')] @ time_pair ''start'' (fo_start_time request) @
            time_pair ''end'' (fo_end_time request)) ''bybit.fetch_ohlcv''
      | Mexc \<Rightarrow>
          rt_bind (rt_lift (mexc_interval_str interval)) (\<lambda>name.
            public_get_with_retry ctx (''/api/v1/contract/kline/'' @ mexc_wire_symbol spec)
              ([(''interval'', name)] @ seconds_pair ''start'' (fo_start_time request) @
                seconds_pair ''end'' (fo_end_time request)) ''mexc.fetch_ohlcv''))"

definition fetch_ohlcv_single :: "'d LiveContext \<Rightarrow> FetchOhlcvRequest \<Rightarrow> ('d, 'd Kline list) rt" where
  "fetch_ohlcv_single ctx request =
     rt_bind (rt_lift (single_instrument_id request)) (\<lambda>iid.
     rt_bind (require_spec ctx iid) (\<lambda>spec.
     rt_bind (rt_lift (parse_kline_interval (fo_interval request) (venue_of ctx) ''fetch_ohlcv.interval'')) (\<lambda>interval.
     rt_bind (fetch_ohlcv_payload ctx spec interval request) (\<lambda>payload.
     rt_bind (rt_parse ctx (\<lambda>p. pa_ohlcv p payload request)) (\<lambda>klines.
       rest_ok klines)))))"

definition fetch_ohlcv :: "'d LiveContext \<Rightarrow> FetchOhlcvRequest \<Rightarrow> ('d, 'd Kline list) rt" where
  "fetch_ohlcv ctx request =
     rt_bind (rt_lift (ohlcv_instrument_ids request)) (\<lambda>iids.
       if length iids = 1 then fetch_ohlcv_single ctx request
       else rt_for iids (\<lambda>iid klines.
         rt_bind (fetch_ohlcv_single ctx (ohlcv_for_instrument iid (fo_interval request)
             (fo_start_time request) (fo_end_time request) (fo_limit request))) (\<lambda>more.
           rt_return (klines @ more))) [])"

end
