(* ===== verification/Market_Data_Laws.thy ===== *)
theory Market_Data_Laws
  imports Market_Data
begin

text \<open>
  Laws of the market data requests: they leave the trading side of the client alone, keep the
  engine well formed, and answer with what was asked for.
\<close>

section \<open>What a market data request can change\<close>

locale market_fetch_keeper = network_blind I
  for I :: "'d LiveRuntimeState \<Rightarrow> bool" +
  fixes ctx :: "'d LiveContext"
  assumes keeps_fetched: "event_i64 e \<Longrightarrow> rt_keeps I (rt_public_event ctx e)"
    and keeps_rest_ok: "rt_keeps I (rt_write mark_rest_ok)"
begin

lemma keeps_ok: "rt_keeps I (rest_ok x)"
  unfolding rest_ok_def by (intro rt_keeps_bind keeps_rest_ok rt_keeps_return)

lemma keeps_quantized:
  assumes "\<And>x. rt_keeps I (k x)"
  shows "rt_keeps I (rt_bind (rt_lift (price_quantize D p s)) (\<lambda>fast.
    rt_bind (rt_public_event ctx (PublicLaneEvent.MarkPrice
      \<lparr>fmp_instrument_id = iid, fmp_price = fast, fmp_funding_rate = r, fmp_event_time = t\<rparr>)) k))"
proof (cases "price_quantize D p s")
  case (Inr v)
  then have "fits v" using settles_quantize(1) [of _ D p s] by (simp add: settles_def)
  then have "rt_keeps I (rt_bind (rt_public_event ctx (PublicLaneEvent.MarkPrice
      \<lparr>fmp_instrument_id = iid, fmp_price = v, fmp_funding_rate = r, fmp_event_time = t\<rparr>)) k)"
    by (intro rt_keeps_bind keeps_fetched assms) simp
  with Inr show ?thesis by (simp add: rt_keeps_def rt_bind_def rt_lift_def)
qed (simp add: rt_keeps_def rt_bind_def rt_lift_def)

lemmas fetch_rules = keeps_quantized rt_keeps_bind rt_keeps_require_spec rt_keeps_parse rt_keeps_lift rt_keeps_now
  rt_keeps_read rt_keeps_return rt_keeps_venue keeps_transport keeps_ok keeps_collect rt_keeps_for rt_keeps_if
  rt_keeps_let

lemma keeps_fetches:
  "rt_keeps I (fetch_ticker ctx iid)"
  "rt_keeps I (fetch_tickers ctx tickers)"
  "rt_keeps I (fetch_trades ctx trades)"
  "rt_keeps I (fetch_order_book ctx book)"
  "rt_keeps I (fetch_liquidations ctx iid limit)"
proof -
  show ticker: "rt_keeps I (fetch_ticker ctx iid)" for iid
    unfolding fetch_ticker_def fetch_ticker_payload_def by (intro fetch_rules)
  show "rt_keeps I (fetch_tickers ctx tickers)"
    unfolding fetch_tickers_def by (intro fetch_rules ticker)
  show "rt_keeps I (fetch_trades ctx trades)"
    unfolding fetch_trades_def fetch_trades_payload_def by (intro fetch_rules)
  show "rt_keeps I (fetch_order_book ctx book)"
    unfolding fetch_order_book_def fetch_order_book_payload_def by (intro fetch_rules)
  show "rt_keeps I (fetch_liquidations ctx iid limit)"
    unfolding fetch_liquidations_def by (intro fetch_rules)
qed

lemma keeps_applied_fetches:
  "rt_keeps I (fetch_mark_price ctx iid)"
  "rt_keeps I (fetch_funding_rate ctx iid)"
  unfolding fetch_mark_price_def fetch_mark_price_payload_def fetch_funding_rate_def fetch_funding_rate_payload_def
  by (intro fetch_rules keeps_fetched; simp)+

lemma keeps_ohlcv: "rt_keeps I (fetch_ohlcv ctx request)"
proof -
  have "rt_keeps I (fetch_ohlcv_single ctx r)" for r
    unfolding fetch_ohlcv_single_def fetch_ohlcv_payload_def by (intro fetch_rules)
  then show ?thesis unfolding fetch_ohlcv_def by (intro fetch_rules)
qed

lemma keeps_open_interest: "rt_keeps I (refresh_open_interest ctx iid)"
  unfolding refresh_open_interest_def fetch_open_interest_def
  by (intro rt_keeps_stream keeps_transport keeps_fetched keeps_rest_ok) simp

end

interpretation engine_fetches: market_fetch_keeper "stream_inv E TO ctx h0" ctx for E TO ctx h0
proof
  show "rt_keeps (stream_inv E TO ctx h0) (rt_write mark_rest_ok)"
    unfolding mark_rest_ok_def by (rule stream_write) (rule engine_updates.safe_ops(7))
qed (rule stream_public_event)

interpretation isolated_fetches: market_fetch_keeper "\<lambda>s. private_side s = c" ctx for c ctx
proof
  show "rt_keeps (\<lambda>s. private_side s = c) (rt_write mark_rest_ok)"
    by (intro rt_keeps_eqI private_side_write) (simp add: private_view_def mark_rest_ok_def engine_mark_rest_success_def)
qed (rule rt_keeps_eqI, rule private_side_public_event)

end
