(* ===== verification/Candle_Window.thy ===== *)
theory Candle_Window
  imports Market_Data_Laws "HOL-Library.Multiset"
begin

text \<open>
  Paging over a bounded window of candles: \<^verbatim>\<open>fetch_ohlcv\<close> and \<^verbatim>\<open>fetch_ohlcv_window\<close> of
  \<^verbatim>\<open>bat-markets/src/facade.rs\<close>.

  The loop asks for pages until one is empty or reaches the end of the window.  Nothing in the
  source bounds the number of pages, so the model counts them: \<open>None\<close> means that the loop has not
  returned within the given number, and its termination is a theorem.  One page is an argument,
  which the client instantiates with the single request of the runtime.
\<close>

section \<open>One page\<close>

type_synonym 'd candle_map = "(InstrumentId, 'd Kline list) btree_map"

definition open_ms :: "'d Kline \<Rightarrow> i64" where
  "open_ms k = timestamp_value (kl_open_time k)"

definition unexpected_instrument :: "'d Kline \<Rightarrow> MarketError" where
  "unexpected_instrument k =
     market_error TransportError (''fetch_ohlcv returned unexpected instrument '' @ as_str (kl_instrument_id k))"

text \<open>The loop over the candles of a page: the latest and earliest opening time, and the collected candles.\<close>

fun collect_page ::
  "i64 \<Rightarrow> i64 \<Rightarrow> 'd Kline list \<Rightarrow> i64 \<Rightarrow> i64 \<Rightarrow> 'd candle_map \<Rightarrow> (i64 \<times> i64 \<times> 'd candle_map) result" where
  "collect_page start_time end_time [] max_open min_open m = Ok (max_open, min_open, m)"
| "collect_page start_time end_time (k # page) max_open min_open m =
     (if open_ms k < start_time \<or> open_ms k > end_time then collect_page start_time end_time page max_open min_open m
      else case bt_get m (kl_instrument_id k) of
        None \<Rightarrow> Err (unexpected_instrument k)
      | Some candles \<Rightarrow>
          collect_page start_time end_time page (max max_open (open_ms k)) (min min_open (open_ms k))
            (bt_insert (kl_instrument_id k) (candles @ [k]) m))"

text \<open>Where the next page starts and ends; \<open>None\<close> ends the loop.\<close>

definition next_page ::
  "('t, 'date) Time_ops \<Rightarrow> Venue \<Rightarrow> KlineInterval \<Rightarrow> string \<Rightarrow> i64 \<Rightarrow> i64 \<Rightarrow> i64 \<Rightarrow> i64 \<Rightarrow> i64 \<Rightarrow> i64
     \<Rightarrow> (i64 \<times> i64) option result" where
  "next_page TO venue interval name start_time end_time next_start next_end max_open min_open =
     (if venue = Bybit then
        (if min_open \<le> start_time \<or> min_open = i64_max then Ok None
         else Ok (Some (next_start, i64_wrap (min_open - 1))))
      else
        (case close_time_ms TO interval max_open of
           None \<Rightarrow> Err (market_error DecodeError (''failed to derive OHLCV close time for interval '' @ quoted name))
         | Some max_close \<Rightarrow>
             if max_close \<ge> end_time then Ok None else Ok (Some (i64_wrap (max_close + 1), next_end))))"

section \<open>The loop\<close>

fun window_loop ::
  "nat \<Rightarrow> ('t, 'date) Time_ops \<Rightarrow> Venue \<Rightarrow> (FetchOhlcvRequest \<Rightarrow> ('d, 'd Kline list) rt) \<Rightarrow> FetchOhlcvRequest
     \<Rightarrow> KlineInterval \<Rightarrow> i64 \<Rightarrow> i64 \<Rightarrow> i64 \<Rightarrow> i64 \<Rightarrow> 'd candle_map \<Rightarrow> ('d, 'd candle_map option) rt" where
  "window_loop 0 TO venue fetch_page request interval start_time end_time next_start next_end m = rt_return None"
| "window_loop (Suc pages) TO venue fetch_page request interval start_time end_time next_start next_end m =
     rt_bind (fetch_page (ohlcv_for_instruments (fo_instrument_ids request) (fo_interval request)
         (Some (TimestampMs next_start)) (Some (TimestampMs next_end)) (fo_limit request))) (\<lambda>page.
       if page = [] then rt_return (Some m)
       else rt_bind (rt_lift (collect_page start_time end_time page next_start i64_max m)) (\<lambda>(max_open, min_open, m').
         rt_bind (rt_lift (next_page TO venue interval (fo_interval request) start_time end_time
             next_start next_end max_open min_open)) (\<lambda>cursor.
           case cursor of
             None \<Rightarrow> rt_return (Some m')
           | Some (next_start', next_end') \<Rightarrow>
               window_loop pages TO venue fetch_page request interval start_time end_time next_start' next_end' m')))"

text \<open>\<^verbatim>\<open>dedup_by_key\<close> and the loop that flattens the map; a second removal of an instrument panics.\<close>

fun dedup_by_key :: "('a \<Rightarrow> 'k) \<Rightarrow> 'a list \<Rightarrow> 'a list" where
  "dedup_by_key key [] = []"
| "dedup_by_key key [x] = [x]"
| "dedup_by_key key (x # y # xs) =
     (if key x = key y then dedup_by_key key (x # xs) else x # dedup_by_key key (y # xs))"

fun flatten_candles :: "InstrumentId list \<Rightarrow> 'd candle_map \<Rightarrow> 'd Kline list result" where
  "flatten_candles [] m = Ok []"
| "flatten_candles (iid # iids) m =
     and_then (or_panic (bt_get m iid)) (\<lambda>candles.
       and_then (flatten_candles iids (bt_remove iid m)) (\<lambda>more.
         Ok (dedup_by_key open_ms (sort_key open_ms candles) @ more)))"

definition fetch_ohlcv_window ::
  "nat \<Rightarrow> ('t, 'date) Time_ops \<Rightarrow> Venue \<Rightarrow> (FetchOhlcvRequest \<Rightarrow> ('d, 'd Kline list) rt) \<Rightarrow> FetchOhlcvRequest
     \<Rightarrow> ('d, 'd Kline list option) rt" where
  "fetch_ohlcv_window pages TO venue fetch_page request =
     rt_bind (rt_lift (ohlcv_instrument_ids request)) (\<lambda>iids.
     rt_bind (rt_lift (ok_or (market_error ConfigError ''fetch_ohlcv requires request.start_time'')
       (fo_start_time request))) (\<lambda>start_time.
     rt_bind (rt_lift (ok_or (market_error ConfigError ''fetch_ohlcv requires request.end_time'')
       (fo_end_time request))) (\<lambda>end_time.
       if timestamp_value end_time < timestamp_value start_time
       then rt_lift (Err (market_error ConfigError ''fetch_ohlcv requires end_time >= start_time''))
       else rt_bind (rt_lift (ok_or (market_error Unsupported (''unsupported OHLCV interval '' @ quoted (fo_interval request)))
         (interval_parse (fo_interval request)))) (\<lambda>interval.
       rt_bind (window_loop pages TO venue fetch_page request interval
           (timestamp_value start_time) (timestamp_value end_time) (timestamp_value start_time) (timestamp_value end_time)
           (foldl (\<lambda>m iid. bt_insert iid [] m) [] iids)) (\<lambda>collected.
         case collected of
           None \<Rightarrow> rt_return None
         | Some m \<Rightarrow> rt_bind (rt_lift (flatten_candles iids m)) (\<lambda>klines. rt_return (Some klines)))))))"

text \<open>\<^verbatim>\<open>fetch_ohlcv\<close> of the client: only a request with both ends of the window is paged.\<close>

definition client_fetch_ohlcv ::
  "nat \<Rightarrow> ('t, 'date) Time_ops \<Rightarrow> 'd LiveContext \<Rightarrow> FetchOhlcvRequest \<Rightarrow> ('d, 'd Kline list option) rt" where
  "client_fetch_ohlcv pages TO ctx request =
     (case (fo_start_time request, fo_end_time request) of
        (Some _, Some _) \<Rightarrow> fetch_ohlcv_window pages TO (venue_of ctx) (fetch_ohlcv ctx) request
      | _ \<Rightarrow> rt_bind (fetch_ohlcv ctx request) (\<lambda>klines. rt_return (Some klines)))"

section \<open>Laws of one page\<close>

text \<open>The collected candles are those of their instrument within the window.\<close>

definition in_window :: "i64 \<Rightarrow> i64 \<Rightarrow> 'd Kline \<Rightarrow> bool" where
  "in_window a b k \<longleftrightarrow> a \<le> open_ms k \<and> open_ms k \<le> b"

definition window_map :: "i64 \<Rightarrow> i64 \<Rightarrow> 'd candle_map \<Rightarrow> bool" where
  "window_map a b m \<longleftrightarrow> bt_wf m \<and>
     (\<forall>iid cs. bt_get m iid = Some cs \<longrightarrow> list_all (\<lambda>k. kl_instrument_id k = iid \<and> in_window a b k) cs)"

abbreviation belongs :: "i64 \<Rightarrow> i64 \<Rightarrow> InstrumentId \<Rightarrow> 'd Kline \<Rightarrow> bool" where
  "belongs a b iid k \<equiv> kl_instrument_id k = iid \<and> in_window a b k"

lemma window_map_get: "window_map a b m \<Longrightarrow> bt_get m iid = Some cs \<Longrightarrow> list_all (belongs a b iid) cs"
  by (simp add: window_map_def)

lemma window_map_insert: "window_map a b m \<Longrightarrow> list_all (belongs a b iid) cs \<Longrightarrow> window_map a b (bt_insert iid cs m)"
  by (simp add: window_map_def bt.wf_insert bt.get_insert)

lemma window_map_start: "window_map a b (foldl (\<lambda>m iid. bt_insert iid [] m) [] iids)"
proof -
  have "window_map a b m \<Longrightarrow> window_map a b (foldl (\<lambda>m iid. bt_insert iid [] m) m iids)" for m :: "'a candle_map"
    by (induction iids arbitrary: m) (simp_all add: window_map_insert)
  moreover have "window_map a b ([] :: 'a candle_map)" by (simp add: window_map_def bt.wf_empty bt.get_empty)
  ultimately show ?thesis by blast
qed

lemma collect_page_in:
  assumes "collect_page a b (k # page) mx mn m = Ok r"
  obtains "\<not> in_window a b k" "collect_page a b page mx mn m = Ok r"
  | cs where "in_window a b k" "bt_get m (kl_instrument_id k) = Some cs"
      "collect_page a b page (max mx (open_ms k)) (min mn (open_ms k)) (bt_insert (kl_instrument_id k) (cs @ [k]) m) = Ok r"
proof (cases "in_window a b k")
  case True
  then have "\<not> (open_ms k < a \<or> open_ms k > b)" by (auto simp: in_window_def)
  with assms that(2) [OF True] show thesis by (simp del: not_less split: option.splits)
next
  case False
  then have "open_ms k < a \<or> open_ms k > b" by (auto simp: in_window_def)
  with assms that(1) [OF False] show thesis by simp
qed

lemma collect_page_map:
  "collect_page a b page mx mn m = Ok (mx', mn', m') \<Longrightarrow> window_map a b m \<Longrightarrow> window_map a b m'"
proof (induction page arbitrary: mx mn m)
  case (Cons k page)
  from Cons.prems(1) show ?case
  proof (cases rule: collect_page_in)
    case 1
    with Cons show ?thesis by blast
  next
    case (2 cs)
    with Cons.prems(2) have "window_map a b (bt_insert (kl_instrument_id k) (cs @ [k]) m)"
      by (intro window_map_insert) (simp_all add: window_map_get)
    with 2(3) Cons.IH show ?thesis by blast
  qed
qed simp

lemma collect_page_bounds:
  "collect_page a b page mx mn m = Ok (mx', mn', m') \<Longrightarrow>
    mx \<le> mx' \<and> (mx' = mx \<or> mx' \<le> b) \<and> (mn' = mn \<or> mn' \<in> open_ms ` set page)"
proof (induction page arbitrary: mx mn m)
  case (Cons k page)
  from Cons.prems show ?case
  proof (cases rule: collect_page_in)
    case 1
    with Cons.IH [of mx mn m] show ?thesis by auto
  next
    case (2 cs)
    with Cons.IH [OF 2(3)] show ?thesis by (auto simp: in_window_def max_def min_def split: if_splits)
  qed
qed simp

lemma loop_map:
  "fst (window_loop pages TO venue page request interval a b ns ne m s) = Ok (Some m') \<Longrightarrow>
    window_map a b m \<Longrightarrow> window_map a b m'"
proof (induction pages arbitrary: ns ne m s)
  case (Suc pages)
  then show ?case
    by (auto simp: rt_bind_def rt_lift_def rt_return_def dest: collect_page_map split: prod.splits sum.splits if_splits option.splits)
qed (simp add: rt_return_def)

section \<open>Flattening\<close>

lemma dedup_props:
  "set (dedup_by_key f xs) \<subseteq> set xs"
  "sorted (map f xs) \<Longrightarrow> sorted_wrt (<) (map f (dedup_by_key f xs)) \<and>
    (case xs of [] \<Rightarrow> True | x # _ \<Rightarrow> dedup_by_key f xs \<noteq> [] \<and> f (hd (dedup_by_key f xs)) = f x)"
  for f :: "'a \<Rightarrow> 'k::linorder"
proof -
  show "set (dedup_by_key f xs) \<subseteq> set xs"
    by (induction f xs rule: dedup_by_key.induct) auto
  show "sorted (map f xs) \<Longrightarrow> sorted_wrt (<) (map f (dedup_by_key f xs)) \<and>
    (case xs of [] \<Rightarrow> True | x # _ \<Rightarrow> dedup_by_key f xs \<noteq> [] \<and> f (hd (dedup_by_key f xs)) = f x)"
  proof (induction f xs rule: dedup_by_key.induct)
    case (3 f x y xs)
    show ?case
    proof (cases "f x = f y")
      case True
      with 3 show ?thesis by simp
    next
      case False
      with 3(3) have lt: "f x < f y" by (simp add: less_le)
      from 3(2) [OF False] 3(3) have ih: "sorted_wrt (<) (map f (dedup_by_key f (y # xs)))"
        "dedup_by_key f (y # xs) \<noteq> []" "f (hd (dedup_by_key f (y # xs))) = f y" by simp_all
      then obtain z zs where z: "dedup_by_key f (y # xs) = z # zs" "f z = f y"
        by (cases "dedup_by_key f (y # xs)") auto
      with ih(1) lt have "\<forall>w\<in>set (z # zs). f x < f w" by auto
      with False ih(1) z show ?thesis by simp
    qed
  qed simp_all
qed

lemma dedup_strict: "sorted_wrt (<) (map f xs) \<Longrightarrow> dedup_by_key f xs = xs" for f :: "'a \<Rightarrow> 'k::linorder"
  by (induction f xs rule: dedup_by_key.induct) auto

definition window_of :: "i64 \<Rightarrow> i64 \<Rightarrow> InstrumentId \<Rightarrow> 'd Kline list \<Rightarrow> bool" where
  "window_of a b iid cs \<longleftrightarrow> sorted_wrt (<) (map open_ms cs) \<and>
     list_all (\<lambda>k. kl_instrument_id k = iid \<and> in_window a b k) cs"

lemma window_of_flat:
  assumes "list_all (\<lambda>k. kl_instrument_id k = iid \<and> in_window a b k) cs"
  shows "window_of a b iid (dedup_by_key open_ms (sort_key open_ms cs))"
  using dedup_props(2) [of open_ms "sort_key open_ms cs"] dedup_props(1) [of open_ms "sort_key open_ms cs"] assms
  by (auto simp: window_of_def list_all_iff)

lemma window_map_remove: "window_map a b m \<Longrightarrow> window_map a b (bt_remove iid m)"
  by (auto simp: window_map_def bt.wf_remove bt.get_remove)

lemma flatten_windows:
  "flatten_candles iids m = Ok ks \<Longrightarrow> window_map a b m \<Longrightarrow>
    distinct iids \<and> set iids \<subseteq> dom (bt_get m) \<and> (\<exists>css. ks = concat css \<and> list_all2 (window_of a b) iids css)"
proof (induction iids arbitrary: m ks)
  case (Cons iid iids)
  from Cons.prems(1) obtain cs more where cs: "bt_get m iid = Some cs"
    and more: "flatten_candles iids (bt_remove iid m) = Ok more"
    and ks: "ks = dedup_by_key open_ms (sort_key open_ms cs) @ more"
    by (auto simp: and_then_Ok_iff or_panic_def split: option.splits)
  from Cons.IH [OF more window_map_remove [OF Cons.prems(2)]] obtain css where
    ih: "distinct iids" "set iids \<subseteq> dom (bt_get (bt_remove iid m))" "more = concat css"
      "list_all2 (window_of a b) iids css" by blast
  from Cons.prems(2) have "bt_get (bt_remove iid m) = (bt_get m)(iid := None)"
    by (simp add: window_map_def bt.get_remove)
  with ih(2) have "iid \<notin> set iids" "set iids \<subseteq> dom (bt_get m)" by (auto split: if_splits)
  moreover have "window_of a b iid (dedup_by_key open_ms (sort_key open_ms cs))"
    using Cons.prems(2) cs by (intro window_of_flat) (auto simp: window_map_def)
  with ih(4) have "list_all2 (window_of a b) (iid # iids) (dedup_by_key open_ms (sort_key open_ms cs) # css)" by simp
  ultimately show ?case using ih(1,3) ks cs by (fastforce intro!: exI [of _ "dedup_by_key open_ms (sort_key open_ms cs) # css"])
qed simp

section \<open>The loop ends\<close>

definition respects_end :: "(FetchOhlcvRequest \<Rightarrow> ('d, 'd Kline list) rt) \<Rightarrow> bool" where
  "respects_end fetch_page \<longleftrightarrow>
     (\<forall>request e s page s'. fo_end_time request = Some (TimestampMs e) \<longrightarrow> fetch_page request s = (Ok page, s') \<longrightarrow>
        (\<forall>k\<in>set page. open_ms k \<le> e))"

lemma window_loop_continues:
  assumes "fst (window_loop (Suc n) TO venue fetch_page request interval a b ns ne m s) = Ok None"
  obtains page s1 mx mn m' ns' ne' where
    "fetch_page (ohlcv_for_instruments (fo_instrument_ids request) (fo_interval request)
       (Some (TimestampMs ns)) (Some (TimestampMs ne)) (fo_limit request)) s = (Ok page, s1)"
    "collect_page a b page ns i64_max m = Ok (mx, mn, m')"
    "next_page TO venue interval (fo_interval request) a b ns ne mx mn = Ok (Some (ns', ne'))"
    "fst (window_loop n TO venue fetch_page request interval a b ns' ne' m' s1) = Ok None"
proof -
  let ?request = "ohlcv_for_instruments (fo_instrument_ids request) (fo_interval request)
       (Some (TimestampMs ns)) (Some (TimestampMs ne)) (fo_limit request)"
  obtain r s1 where fetched: "fetch_page ?request s = (r, s1)" by fastforce
  with assms obtain page where r: "r = Ok page" "page \<noteq> []"
    by (cases r) (auto simp: rt_bind_def rt_return_def split: if_splits)
  obtain c where c: "collect_page a b page ns i64_max m = c" by simp
  with assms fetched r obtain mx mn m' where collected: "c = Ok (mx, mn, m')"
    by (cases c) (auto simp: rt_bind_def rt_lift_def)
  obtain q where q: "next_page TO venue interval (fo_interval request) a b ns ne mx mn = q" by simp
  with assms fetched r c collected obtain ns' ne' where "q = Ok (Some (ns', ne'))"
      "fst (window_loop n TO venue fetch_page request interval a b ns' ne' m' s1) = Ok None"
    by (cases q) (auto simp: rt_bind_def rt_lift_def rt_return_def split: option.splits)
  with that fetched r c collected q show thesis by blast
qed

lemma forward_close:
  assumes "duration_ms interval = Some d" and "in_i64 a" and "a \<le> t" and "t \<le> b" and "in_i64 (b + d)"
  shows "close_time_ms TO interval t = Some (t + d - 1)" "i64_wrap (t + d - 1 + 1) = t + d"
proof -
  have "in_i64 t" "in_i64 (t + d)" using assms duration_pos [OF assms(1)] by (auto simp: in_i64_def)
  then show "close_time_ms TO interval t = Some (t + d - 1)" "i64_wrap (t + d - 1 + 1) = t + d"
    using close_time_fixed [OF assms(1)] by (simp_all add: i64_wrap_id)
qed

lemma forward_cursor:
  assumes "venue \<noteq> Bybit" and "duration_ms interval = Some d" and "in_i64 a" and "in_i64 (b + d)"
    and "a \<le> mx" and "mx \<le> b"
  shows "next_page TO venue interval name a b ns ne mx mn =
    Ok (if mx + d - 1 \<ge> b then None else Some (mx + d, ne))"
  using forward_close(1) [OF assms(2,3,5,6,4), of TO] forward_close(2) [OF assms(2,3,5,6,4)] assms(1)
  by (simp add: next_page_def)

lemma forward_ends:
  assumes "venue \<noteq> Bybit" and "duration_ms interval = Some d" and "in_i64 a" and "in_i64 (b + d)"
  shows "a \<le> ns \<Longrightarrow> ns \<le> b \<Longrightarrow> b - ns < int n \<Longrightarrow>
    fst (window_loop n TO venue fetch_page request interval a b ns ne m s) \<noteq> Ok None"
proof (induction n arbitrary: ns ne m s)
  case (Suc n)
  show ?case
  proof
    assume "fst (window_loop (Suc n) TO venue fetch_page request interval a b ns ne m s) = Ok None"
    then obtain page s1 mx mn m' ns' ne' where
      page: "collect_page a b page ns i64_max m = Ok (mx, mn, m')"
      and cursor: "next_page TO venue interval (fo_interval request) a b ns ne mx mn = Ok (Some (ns', ne'))"
      and more: "fst (window_loop n TO venue fetch_page request interval a b ns' ne' m' s1) = Ok None"
      by (rule window_loop_continues)
    from collect_page_bounds [OF page] Suc.prems have mx: "ns \<le> mx" "mx \<le> b" by auto
    with cursor forward_cursor [OF assms, of mx TO "fo_interval request" ns ne mn] Suc.prems(1)
    have ns': "ns' = mx + d" "mx + d \<le> b" by (auto split: if_splits)
    with mx duration_pos [OF assms(2)] Suc.prems more Suc.IH [of ns' ne' m' s1] show False by auto
  qed
qed simp

lemma backward_ends:
  assumes "respects_end fetch_page" and "in_i64 a" and "in_i64 b"
  shows "a \<le> ne \<Longrightarrow> ne \<le> b \<Longrightarrow> ne - a < int n \<Longrightarrow>
    fst (window_loop n TO Bybit fetch_page request interval a b ns ne m s) \<noteq> Ok None"
proof (induction n arbitrary: ns ne m s)
  case (Suc n)
  show ?case
  proof
    assume "fst (window_loop (Suc n) TO Bybit fetch_page request interval a b ns ne m s) = Ok None"
    then obtain page s1 mx mn m' ns' ne' where
      fetched: "fetch_page (ohlcv_for_instruments (fo_instrument_ids request) (fo_interval request)
        (Some (TimestampMs ns)) (Some (TimestampMs ne)) (fo_limit request)) s = (Ok page, s1)"
      and page: "collect_page a b page ns i64_max m = Ok (mx, mn, m')"
      and cursor: "next_page TO Bybit interval (fo_interval request) a b ns ne mx mn = Ok (Some (ns', ne'))"
      and more: "fst (window_loop n TO Bybit fetch_page request interval a b ns' ne' m' s1) = Ok None"
      by (rule window_loop_continues)
    from cursor have mn: "a < mn" "mn \<noteq> i64_max" "ne' = i64_wrap (mn - 1)"
      by (auto simp: next_page_def split: if_splits)
    have "\<forall>k\<in>set page. open_ms k \<le> ne"
      using assms(1) fetched unfolding respects_end_def
      by (metis (no_types, lifting) FetchOhlcvRequest.select_convs(4) ohlcv_for_instruments_def)
    with collect_page_bounds [OF page] mn have "mn \<le> ne" by auto
    with mn Suc.prems assms have "ne' = mn - 1" "in_i64 (mn - 1)" by (auto simp: in_i64_def i64_wrap_id)
    with mn \<open>mn \<le> ne\<close> Suc.prems more Suc.IH [of ne' ns' m' s1] show False by auto
  qed
qed simp

section \<open>Complete histories\<close>

text \<open>
  A venue that keeps a history of candles and answers a request with the first, or for Bybit the
  last, \<open>n\<close> candles of the requested range.
\<close>

definition requested_range :: "FetchOhlcvRequest \<Rightarrow> 'd Kline \<Rightarrow> bool" where
  "requested_range request k \<longleftrightarrow>
     (case (fo_start_time request, fo_end_time request) of
        (Some a, Some b) \<Rightarrow> in_window (timestamp_value a) (timestamp_value b) k
      | _ \<Rightarrow> False)"

definition history_page ::
  "Venue \<Rightarrow> nat \<Rightarrow> 'd Kline list \<Rightarrow> FetchOhlcvRequest \<Rightarrow> ('d, 'd Kline list) rt" where
  "history_page venue n history request =
     (let hits = filter (requested_range request) history in
      rt_return (if venue = Bybit then drop (length hits - n) hits else take n hits))"

definition history_of :: "InstrumentId \<Rightarrow> i64 \<Rightarrow> 'd Kline list \<Rightarrow> bool" where
  "history_of iid d history \<longleftrightarrow>
     list_all (\<lambda>k. kl_instrument_id k = iid) history \<and> sorted_wrt (\<lambda>k k'. open_ms k + d \<le> open_ms k') history"

lemma collect_all:
  "list_all (belongs a b iid) page \<Longrightarrow> bt_wf m \<Longrightarrow> bt_get m iid = Some cs \<Longrightarrow>
    \<exists>m'. collect_page a b page mx mn m = Ok (foldl max mx (map open_ms page), foldl min mn (map open_ms page), m') \<and>
      bt_wf m' \<and> bt_get m' iid = Some (cs @ page)"
proof (induction page arbitrary: mx mn m cs)
  case (Cons k page)
  then have k: "kl_instrument_id k = iid" "\<not> (open_ms k < a \<or> open_ms k > b)" by (auto simp: in_window_def)
  let ?m = "bt_insert iid (cs @ [k]) m"
  have "list_all (belongs a b iid) page" "bt_wf ?m" "bt_get ?m iid = Some (cs @ [k])"
    using Cons.prems by (simp_all add: bt.wf_insert bt.get_insert)
  from Cons.IH [OF this, of "max mx (open_ms k)" "min mn (open_ms k)"] k Cons.prems(3) show ?case
    by (simp del: not_less)
qed simp

lemma foldl_max_sorted: "sorted_wrt (<) xs \<Longrightarrow> list_all (\<lambda>x. i \<le> x) xs \<Longrightarrow> foldl max i xs = (if xs = [] then i else last xs)" for i :: int
proof (induction xs arbitrary: i)
  case (Cons x xs)
  then have "list_all (\<lambda>y. x \<le> y) xs" by (auto simp: list_all_iff)
  with Cons show ?case by (simp add: max_def)
qed simp

lemma foldl_min_sorted: "sorted_wrt (<) xs \<Longrightarrow> list_all (\<lambda>x. x \<le> i) xs \<Longrightarrow> foldl min i xs = (if xs = [] then i else hd xs)" for i :: int
proof -
  have "foldl min i xs = i" if "list_all (\<lambda>x. i \<le> x) xs" for i :: int and xs
    using that by (induction xs) (simp_all add: min_def)
  then show "sorted_wrt (<) xs \<Longrightarrow> list_all (\<lambda>x. x \<le> i) xs \<Longrightarrow> ?thesis"
    by (cases xs) (force simp: min_def list_all_iff)+
qed

lemma filter_split:
  "sorted_wrt (\<lambda>x y. f x < f y) xs \<Longrightarrow>
    filter (\<lambda>x. P x \<and> f x < t) xs @ filter (\<lambda>x. t \<le> f x \<and> Q x) xs =
    filter (\<lambda>x. if f x < t then P x else Q x) xs" for f :: "'a \<Rightarrow> int"
proof (induction xs)
  case (Cons x xs)
  show ?case
  proof (cases "f x < t")
    case False
    with Cons.prems have "filter (\<lambda>x. P x \<and> f x < t) xs = []" by (auto simp: filter_empty_conv)
    with False Cons show ?thesis by auto
  qed (use Cons in auto)
qed simp

lemma take_prefix:
  fixes f :: "'a \<Rightarrow> int"
  assumes "sorted_wrt (\<lambda>x y. f x < f y) xs" and "take n xs \<noteq> []"
  shows "take n xs = filter (\<lambda>x. f x \<le> f (last (take n xs))) xs"
proof -
  let ?t = "f (last (take n xs))"
  have "sorted_wrt (\<lambda>x y. f x < f y) (take n xs @ drop n xs)" using assms(1) by simp
  then have parts: "sorted_wrt (\<lambda>x y. f x < f y) (take n xs)" "\<forall>x\<in>set (take n xs). \<forall>y\<in>set (drop n xs). f x < f y"
    unfolding sorted_wrt_append by blast+
  have "sorted_wrt (\<lambda>x y. f x < f y) (butlast (take n xs) @ [last (take n xs)])"
    using parts(1) append_butlast_last_id [OF assms(2)] by simp
  then have "\<forall>x\<in>set (butlast (take n xs)). f x < ?t" unfolding sorted_wrt_append by simp
  then have "\<forall>x\<in>set (butlast (take n xs) @ [last (take n xs)]). f x \<le> ?t" by auto
  then have "filter (\<lambda>x. f x \<le> ?t) (take n xs) = take n xs"
    using append_butlast_last_id [OF assms(2)] by (simp add: filter_id_conv)
  moreover have "filter (\<lambda>x. f x \<le> ?t) (drop n xs) = []"
    using parts(2) last_in_set [OF assms(2)] by (fastforce simp: filter_empty_conv)
  ultimately show ?thesis
    using filter_append [of "\<lambda>x. f x \<le> ?t" "take n xs" "drop n xs"] by simp
qed

lemma drop_suffix:
  fixes f :: "'a \<Rightarrow> int"
  assumes "sorted_wrt (\<lambda>x y. f x < f y) xs" and "drop n xs \<noteq> []"
  shows "drop n xs = filter (\<lambda>x. f (hd (drop n xs)) \<le> f x) xs"
proof -
  let ?t = "f (hd (drop n xs))"
  have "sorted_wrt (\<lambda>x y. f x < f y) (take n xs @ drop n xs)" using assms(1) by simp
  then have parts: "sorted_wrt (\<lambda>x y. f x < f y) (drop n xs)" "\<forall>x\<in>set (take n xs). \<forall>y\<in>set (drop n xs). f x < f y"
    unfolding sorted_wrt_append by blast+
  then have "filter (\<lambda>x. ?t \<le> f x) (drop n xs) = drop n xs"
    using assms(2) by (cases "drop n xs") (auto simp: filter_id_conv)
  moreover have "filter (\<lambda>x. ?t \<le> f x) (take n xs) = []"
    using parts(2) hd_in_set [OF assms(2)] by (fastforce simp: filter_empty_conv)
  ultimately show ?thesis
    using filter_append [of "\<lambda>x. ?t \<le> f x" "take n xs" "drop n xs"] by simp
qed

lemma history_page_window:
  "history_page venue n history (ohlcv_for_instruments ids name (Some (TimestampMs x)) (Some (TimestampMs y)) limit) s =
    (Ok (let hits = filter (in_window x y) history in if venue = Bybit then drop (length hits - n) hits else take n hits), s)"
proof -
  have "requested_range (ohlcv_for_instruments ids name (Some (TimestampMs x)) (Some (TimestampMs y)) limit) =
      (in_window x y :: 'a Kline \<Rightarrow> bool)"
    by (simp add: fun_eq_iff requested_range_def ohlcv_for_instruments_def)
  then show ?thesis by (simp only: history_page_def Let_def rt_return_def)
qed

lemma window_loop_step:
  assumes "fetch_page (ohlcv_for_instruments (fo_instrument_ids request) (fo_interval request)
       (Some (TimestampMs ns)) (Some (TimestampMs ne)) (fo_limit request)) s = (Ok page, s1)" and "page \<noteq> []"
    and "collect_page a b page ns i64_max m = Ok (mx, mn, m')"
    and "next_page TO venue interval (fo_interval request) a b ns ne mx mn = Ok cursor"
  shows "window_loop (Suc n) TO venue fetch_page request interval a b ns ne m s =
    (case cursor of None \<Rightarrow> (Ok (Some m'), s1)
     | Some (ns', ne') \<Rightarrow> window_loop n TO venue fetch_page request interval a b ns' ne' m' s1)"
  using assms by (simp add: rt_bind_def rt_lift_def rt_return_def split: option.split)

lemma history_sorted:
  assumes "history_of iid d cs" and "0 < d"
  shows "sorted_wrt (\<lambda>x y. open_ms x < open_ms y) (filter P cs)" "list_all (\<lambda>k. kl_instrument_id k = iid) (filter P cs)"
proof -
  have "sorted_wrt (\<lambda>x y. open_ms x + d \<le> open_ms y) (filter P cs)"
    using assms(1) by (simp add: history_of_def sorted_wrt_filter)
  then show "sorted_wrt (\<lambda>x y. open_ms x < open_ms y) (filter P cs)"
    by (rule sorted_wrt_mono_rel [rotated]) (use assms(2) in simp)
  show "list_all (\<lambda>k. kl_instrument_id k = iid) (filter P cs)"
    using assms(1) by (simp add: history_of_def list_all_iff)
qed

lemma history_spaced:
  assumes "history_of iid d cs" and "x \<in> set cs" and "y \<in> set cs" and "open_ms x < open_ms y" and "0 < d"
  shows "open_ms x + d \<le> open_ms y"
proof -
  from assms(2,3) obtain i j where ij: "i < length cs" "cs ! i = x" "j < length cs" "cs ! j = y"
    by (auto simp: in_set_conv_nth)
  from assms(1) have nth: "i < j \<Longrightarrow> j < length cs \<Longrightarrow> open_ms (cs ! i) + d \<le> open_ms (cs ! j)" for i j
    by (simp add: history_of_def sorted_wrt_iff_nth_less)
  show ?thesis using nth [of i j] nth [of j i] ij assms(4,5) by (cases i j rule: linorder_cases) auto
qed

lemma page_max:
  assumes "sorted_wrt (\<lambda>x y. open_ms x < open_ms y) page" and "page \<noteq> []" and "list_all (in_window ns b) page"
  shows "foldl max ns (map open_ms page) = open_ms (last page)"
  using assms foldl_max_sorted [of "map open_ms page" ns]
  by (simp add: sorted_wrt_map last_map list_all_iff in_window_def)

lemma forward_complete:
  assumes "venue \<noteq> Bybit" and "duration_ms interval = Some d" and "in_i64 a" and "in_i64 (b + d)"
    and history: "history_of iid d cs" and "0 < limit"
  shows "a \<le> ns \<Longrightarrow> ns \<le> b \<Longrightarrow> b - ns < int n \<Longrightarrow> bt_wf m \<Longrightarrow>
    bt_get m iid = Some (filter (\<lambda>k. a \<le> open_ms k \<and> open_ms k < ns) cs) \<Longrightarrow>
    \<exists>m'. window_loop n TO venue (history_page venue limit cs) request interval a b ns b m s = (Ok (Some m'), s) \<and>
      bt_get m' iid = Some (filter (in_window a b) cs)"
proof (induction n arbitrary: ns m)
  case (Suc n)
  have d: "0 < d" using duration_pos [OF assms(2)] by simp
  let ?hits = "filter (in_window ns b) cs"
  let ?page = "take limit ?hits"
  note fetched = history_page_window [of venue limit cs "fo_instrument_ids request" "fo_interval request" ns b
      "fo_limit request" s, unfolded Let_def if_not_P [OF assms(1)]]
  show ?case
  proof (cases "?page = []")
    case True
    with assms(6) have "?hits = []" by simp
    then have "filter (\<lambda>k. a \<le> open_ms k \<and> open_ms k < ns) cs = filter (in_window a b) cs"
      using Suc.prems(1,2) by (intro filter_cong) (auto simp: filter_empty_conv in_window_def)
    with True fetched Suc.prems(5) show ?thesis by (simp add: rt_bind_def rt_return_def)
  next
    case False
    let ?mx = "open_ms (last ?page)"
    have sorted: "sorted_wrt (\<lambda>x y. open_ms x < open_ms y) ?hits"
      "sorted_wrt (\<lambda>x y. open_ms x < open_ms y) ?page"
      using history_sorted [OF history d] by (auto simp: sorted_wrt_take)
    have last: "last ?page \<in> set cs" "in_window ns b (last ?page)"
      using last_in_set [OF False] set_take_subset [of limit ?hits] by auto
    then have mx: "ns \<le> ?mx" "?mx \<le> b" by (simp_all add: in_window_def)
    have "list_all (belongs a b iid) ?page"
      using history_sorted(2) [OF history d, of "in_window ns b"] set_take_subset [of limit ?hits] Suc.prems(1)
      by (auto simp: list_all_iff in_window_def dest!: subsetD)
    from collect_all [OF this Suc.prems(4,5), of ns i64_max] obtain mn m' where
      collected: "collect_page a b ?page ns i64_max m = Ok (foldl max ns (map open_ms ?page), mn, m')"
      and m': "bt_wf m'" "bt_get m' iid = Some (filter (\<lambda>k. a \<le> open_ms k \<and> open_ms k < ns) cs @ ?page)"
      by blast
    have "list_all (in_window ns b) ?page" using set_take_subset [of limit ?hits] by (auto simp: list_all_iff)
    from page_max [OF sorted(2) False this] collected
    have collected: "collect_page a b ?page ns i64_max m = Ok (?mx, mn, m')" by simp
    have "?page = filter (\<lambda>k. ns \<le> open_ms k \<and> open_ms k \<le> b \<and> open_ms k \<le> ?mx) cs"
      using take_prefix [OF sorted(1) False] by (simp add: in_window_def conj_ac)
    then have "filter (\<lambda>k. a \<le> open_ms k \<and> open_ms k < ns) cs @ ?page =
        filter (\<lambda>k. if open_ms k < ns then a \<le> open_ms k else open_ms k \<le> b \<and> open_ms k \<le> ?mx) cs"
      using filter_split [of open_ms cs "\<lambda>k. a \<le> open_ms k" ns "\<lambda>k. open_ms k \<le> b \<and> open_ms k \<le> ?mx"]
        history_sorted(1) [OF history d, of "\<lambda>_. True"] by simp
    also have "\<dots> = filter (\<lambda>k. a \<le> open_ms k \<and> open_ms k \<le> ?mx) cs"
      using mx Suc.prems(1) by (intro filter_cong) auto
    finally have kept: "bt_get m' iid = Some (filter (\<lambda>k. a \<le> open_ms k \<and> open_ms k \<le> ?mx) cs)" using m' by simp
    have spaced: "open_ms k \<le> ?mx \<longleftrightarrow> open_ms k < ?mx + d" if "k \<in> set cs" for k
      using history_spaced [OF history last(1) that _ d] d by force
    note step = window_loop_step [where fetch_page = "history_page venue limit cs", OF fetched False collected
        forward_cursor [OF assms(1-4), of ?mx TO "fo_interval request" ns b mn], of n]
    show ?thesis
    proof (cases "?mx + d - 1 \<ge> b")
      case True
      have "open_ms k \<le> ?mx \<longleftrightarrow> open_ms k \<le> b" if "k \<in> set cs" for k
        using spaced [OF that] True mx by linarith
      then have "filter (\<lambda>k. a \<le> open_ms k \<and> open_ms k \<le> ?mx) cs = filter (in_window a b) cs"
        by (intro filter_cong) (auto simp: in_window_def)
      with step True mx Suc.prems(1) kept show ?thesis by simp
    next
      case False
      have "filter (\<lambda>k. a \<le> open_ms k \<and> open_ms k \<le> ?mx) cs = filter (\<lambda>k. a \<le> open_ms k \<and> open_ms k < ?mx + d) cs"
        using spaced by (intro filter_cong) auto
      with Suc.IH [of "?mx + d" m'] False mx d Suc.prems(1,3) kept m'(1) step show ?thesis by simp
    qed
  qed
qed simp

lemma mset_filter_disj:
  "(\<And>x. x \<in> set xs \<Longrightarrow> \<not> (P x \<and> Q x)) \<Longrightarrow> mset (filter P xs) + mset (filter Q xs) = mset (filter (\<lambda>x. P x \<or> Q x) xs)"
  by (induction xs) auto

lemma page_min:
  assumes "sorted_wrt (\<lambda>x y. open_ms x < open_ms y) page" and "page \<noteq> []" and "list_all (\<lambda>k. open_ms k \<le> t) page"
  shows "foldl min t (map open_ms page) = open_ms (hd page)"
  using assms foldl_min_sorted [of "map open_ms page" t] by (simp add: sorted_wrt_map hd_map list_all_iff)

lemma backward_complete:
  assumes "in_i64 a" and "b < i64_max" and history: "history_of iid d cs" and d: "0 < d" and "0 < limit"
  shows "a \<le> ne \<Longrightarrow> ne \<le> b \<Longrightarrow> ne - a < int n \<Longrightarrow> bt_wf m \<Longrightarrow> bt_get m iid = Some cs0 \<Longrightarrow>
    mset cs0 = mset (filter (\<lambda>k. ne < open_ms k \<and> open_ms k \<le> b) cs) \<Longrightarrow>
    \<exists>m' cs1. window_loop n TO Bybit (history_page Bybit limit cs) request interval a b a ne m s = (Ok (Some m'), s) \<and>
      bt_get m' iid = Some cs1 \<and> mset cs1 = mset (filter (in_window a b) cs)"
proof (induction n arbitrary: ne m cs0)
  case (Suc n)
  let ?hits = "filter (in_window a ne) cs"
  let ?page = "drop (length ?hits - limit) ?hits"
  note fetched = history_page_window [of Bybit limit cs "fo_instrument_ids request" "fo_interval request" a ne
      "fo_limit request" s, unfolded Let_def if_P [OF refl]]
  show ?case
  proof (cases "?page = []")
    case True
    with assms(5) have "?hits = []" by (cases ?hits) auto
    then have "filter (\<lambda>k. ne < open_ms k \<and> open_ms k \<le> b) cs = filter (in_window a b) cs"
      using Suc.prems(1,2) by (intro filter_cong) (auto simp: filter_empty_conv in_window_def)
    with True fetched Suc.prems(5,6) show ?thesis by (simp add: rt_bind_def rt_return_def)
  next
    case False
    let ?mn = "open_ms (hd ?page)"
    have sorted: "sorted_wrt (\<lambda>x y. open_ms x < open_ms y) ?hits"
      "sorted_wrt (\<lambda>x y. open_ms x < open_ms y) ?page"
      using history_sorted [OF history d] by (auto simp: sorted_wrt_drop)
    have "in_window a ne (hd ?page)"
      using hd_in_set [OF False] set_drop_subset [of "length ?hits - limit" ?hits] by auto
    then have mn: "a \<le> ?mn" "?mn \<le> ne" by (simp_all add: in_window_def)
    have "list_all (belongs a b iid) ?page"
      using history_sorted(2) [OF history d, of "in_window a ne"] set_drop_subset [of "length ?hits - limit" ?hits] Suc.prems(2)
      by (auto simp: list_all_iff in_window_def dest!: subsetD)
    from collect_all [OF this Suc.prems(4,5), of a i64_max] obtain mx m' where
      collected: "collect_page a b ?page a i64_max m = Ok (mx, foldl min i64_max (map open_ms ?page), m')"
      and m': "bt_wf m'" "bt_get m' iid = Some (cs0 @ ?page)"
      by blast
    have "list_all (\<lambda>k. open_ms k \<le> i64_max) ?page"
      using set_drop_subset [of "length ?hits - limit" ?hits] assms(2) Suc.prems(2)
      by (auto simp: list_all_iff in_window_def dest!: subsetD)
    from page_min [OF sorted(2) False this] collected
    have collected: "collect_page a b ?page a i64_max m = Ok (mx, ?mn, m')" by simp
    have "?page = filter (\<lambda>k. ?mn \<le> open_ms k \<and> a \<le> open_ms k \<and> open_ms k \<le> ne) cs"
      using drop_suffix [OF sorted(1) False] by (simp add: in_window_def conj_ac)
    moreover have "mset (filter (\<lambda>k. ne < open_ms k \<and> open_ms k \<le> b) cs) +
        mset (filter (\<lambda>k. ?mn \<le> open_ms k \<and> a \<le> open_ms k \<and> open_ms k \<le> ne) cs) =
        mset (filter (\<lambda>k. ne < open_ms k \<and> open_ms k \<le> b \<or> ?mn \<le> open_ms k \<and> a \<le> open_ms k \<and> open_ms k \<le> ne) cs)"
      by (rule mset_filter_disj) auto
    moreover have "filter (\<lambda>k. ne < open_ms k \<and> open_ms k \<le> b \<or> ?mn \<le> open_ms k \<and> a \<le> open_ms k \<and> open_ms k \<le> ne) cs =
        filter (in_window ?mn b) cs"
      using mn Suc.prems(2) by (intro filter_cong) (auto simp: in_window_def)
    ultimately have kept: "mset (cs0 @ ?page) = mset (filter (in_window ?mn b) cs)" using Suc.prems(6) by simp
    have wrap: "i64_wrap (?mn - 1) = ?mn - 1" if "a < ?mn"
      using that mn Suc.prems(2) assms(1,2) by (intro i64_wrap_id) (auto simp: in_i64_def)
    have "next_page TO Bybit interval (fo_interval request) a b a ne mx ?mn =
        Ok (if ?mn \<le> a then None else Some (a, ?mn - 1))"
      using wrap mn Suc.prems(2) assms(2) by (auto simp: next_page_def)
    note step = window_loop_step [where fetch_page = "history_page Bybit limit cs", OF fetched False collected this, of n]
    show ?thesis
    proof (cases "?mn \<le> a")
      case True
      with mn have "?mn = a" by simp
      with step kept m'(2) show ?thesis by simp
    next
      case False
      have "filter (in_window ?mn b) cs = filter (\<lambda>k. ?mn - 1 < open_ms k \<and> open_ms k \<le> b) cs"
        by (intro filter_cong) (auto simp: in_window_def)
      with Suc.IH [OF _ _ _ m', of "?mn - 1"] False mn Suc.prems(2,3) kept step show ?thesis by simp
    qed
  qed
qed simp

lemma sort_strict:
  assumes "mset xs = mset ys" and "sorted_wrt (\<lambda>x y. f x < f y) ys"
  shows "sort_key f xs = ys"
proof (rule properties_for_sort_key)
  show "sorted (map f ys)" using assms(2) by (auto simp: sorted_wrt_map intro: sorted_wrt_mono_rel [rotated] less_imp_le)
  show "mset ys = mset xs" using assms(1) by simp
  show "filter (\<lambda>x. f k = f x) ys = filter (\<lambda>x. f k = f x) xs" if "k \<in> set ys" for k
  proof -
    have one: "length (filter (\<lambda>x. f k = f x) ys) \<le> 1"
      using assms(2) by (induction ys) (auto simp: filter_empty_conv)
    have "mset (filter (\<lambda>x. f k = f x) ys) = mset (filter (\<lambda>x. f k = f x) xs)"
      using assms(1) by (simp only: mset_filter)
    then have "mset (filter (\<lambda>x. f k = f x) xs) = mset (filter (\<lambda>x. f k = f x) ys)" by simp
    moreover obtain z where "filter (\<lambda>x. f k = f x) ys = [] \<or> filter (\<lambda>x. f k = f x) ys = [z]"
      using one by (cases "filter (\<lambda>x. f k = f x) ys") auto
    ultimately show ?thesis by (auto simp del: mset_filter simp: mset_single_iff)
  qed
qed

lemma flatten_one:
  assumes "bt_get m iid = Some cs1" and "mset cs1 = mset (filter P cs)" and "history_of iid d cs" and "0 < d"
  shows "flatten_candles [iid] m = Ok (filter P cs)"
proof -
  note sorted = history_sorted(1) [OF assms(3,4), of P]
  from sorted have "sorted_wrt (<) (map open_ms (filter P cs))" by (simp add: sorted_wrt_map)
  then show ?thesis
    using assms(1) sort_strict [OF assms(2) sorted] by (simp add: or_panic_def dedup_strict)
qed

section \<open>Properties\<close>

text \<open>The bounds of a request that is paged.\<close>

abbreviation window_request :: "FetchOhlcvRequest \<Rightarrow> i64 \<Rightarrow> i64 \<Rightarrow> bool" where
  "window_request request a b \<equiv>
     fo_start_time request = Some (TimestampMs a) \<and> fo_end_time request = Some (TimestampMs b)"

text \<open>
  C17. What a bounded candle request returns: for every requested instrument, in the order of the
  request and each of them once, the candles of that instrument with strictly increasing opening
  times, all within the window.
\<close>

theorem window_candles_ordered:
  "case (fst (fetch_ohlcv_window pages TO venue fetch_page request s), fo_start_time request, fo_end_time request) of
     (Inr (Some klines), Some a, Some b) \<Rightarrow>
       distinct (fo_instrument_ids request) \<and>
       (\<exists>css. klines = concat css \<and>
          list_all2 (window_of (timestamp_value a) (timestamp_value b)) (fo_instrument_ids request) css)
   | (Inr (Some klines), _, _) \<Rightarrow> False
   | _ \<Rightarrow> True"
proof (cases "fst (fetch_ohlcv_window pages TO venue fetch_page request s)")
  case (Inr r)
  show ?thesis
  proof (cases r)
    case (Some klines)
    let ?iids = "fo_instrument_ids request"
    from Inr Some obtain a b interval m s' where
      window: "fo_start_time request = Some a" "fo_end_time request = Some b"
      and loop: "window_loop pages TO venue fetch_page request interval (timestamp_value a) (timestamp_value b)
        (timestamp_value a) (timestamp_value b) (foldl (\<lambda>m iid. bt_insert iid [] m) [] ?iids) s = (Ok (Some m), s')"
      and flat: "flatten_candles ?iids m = Ok klines"
      by (auto simp: fetch_ohlcv_window_def rt_bind_def rt_lift_def rt_return_def ok_or_def ohlcv_instrument_ids_def
          split: prod.splits sum.splits if_splits option.splits)
    from loop_map [of pages TO venue fetch_page request interval "timestamp_value a" "timestamp_value b"] loop window_map_start
    have "window_map (timestamp_value a) (timestamp_value b) m" by (metis fst_conv)
    from flatten_windows [OF flat this] Inr Some window show ?thesis by simp
  qed (use Inr in simp)
qed simp

lemma fetch_window_known:
  assumes "window_request request a b" and "a \<le> b" and "interval_parse (fo_interval request) = Some interval"
    and "ohlcv_instrument_ids request = Ok iids"
  shows "fetch_ohlcv_window pages TO venue fetch_page request s =
    rt_bind (window_loop pages TO venue fetch_page request interval a b a b (foldl (\<lambda>m iid. bt_insert iid [] m) [] iids))
      (\<lambda>collected. case collected of None \<Rightarrow> rt_return None
         | Some m \<Rightarrow> rt_bind (rt_lift (flatten_candles iids m)) (\<lambda>klines. rt_return (Some klines))) s"
  using assms by (simp add: fetch_ohlcv_window_def rt_bind_def rt_lift_def ok_or_def)

text \<open>
  C18. Paging ends.  With candles of a fixed duration the loop asks for at most one page per
  millisecond of the window, whatever the venue answers on Binance and MEXC; on Bybit the venue
  has to keep to the end of the requested range.
\<close>

theorem window_paging_ends:
  assumes "window_request request a b" and "in_i64 a" and "in_i64 (b + d)"
    and "interval_parse (fo_interval request) = Some interval" and "duration_ms interval = Some d"
    and "venue = Bybit \<Longrightarrow> respects_end fetch_page" and "b - a < int pages"
  shows "fst (fetch_ohlcv_window pages TO venue fetch_page request s) \<noteq> Ok None"
proof (cases "a \<le> b \<and> ohlcv_instrument_ids request = Ok (fo_instrument_ids request)")
  case True
  have b: "in_i64 b" using True assms(2,3) duration_pos [OF assms(5)] by (auto simp: in_i64_def)
  let ?m = "foldl (\<lambda>m iid. bt_insert iid [] m) [] (fo_instrument_ids request) :: 'a candle_map"
  have "fst (window_loop pages TO venue fetch_page request interval a b a b ?m s) \<noteq> Ok None"
    using forward_ends [OF _ assms(5,2,3), of venue a pages TO fetch_page request b ?m s]
      backward_ends [OF assms(6) assms(2) b, of b pages TO request interval a ?m s] True assms(7)
    by (cases "venue = Bybit") simp_all
  then show ?thesis
    using True fetch_window_known [OF assms(1) _ assms(4), of "fo_instrument_ids request" pages TO venue fetch_page s]
    by (auto simp: rt_bind_def rt_lift_def rt_return_def split: prod.split sum.split option.split)
next
  case False
  then show ?thesis using assms(1)
    by (auto simp: fetch_ohlcv_window_def rt_bind_def rt_lift_def ok_or_def ohlcv_instrument_ids_def split: if_splits)
qed

text \<open>
  C16. For one instrument paging loses nothing: when the venue answers every page with the first
  (on Bybit the last) candles of the requested range of its history, the result is exactly the
  history within the window, whatever the page size.
\<close>

theorem one_instrument_window_complete:
  assumes "window_request request a b" and "a \<le> b" and "in_i64 a" and "in_i64 (b + d)"
    and "interval_parse (fo_interval request) = Some interval" and "duration_ms interval = Some d"
    and "fo_instrument_ids request = [iid]" and "history_of iid d history" and "0 < limit" and "b - a < int pages"
  shows "fetch_ohlcv_window pages TO venue (history_page venue limit history) request s =
    (Ok (Some (filter (in_window a b) history)), s)"
proof -
  let ?loop = "window_loop pages TO venue (history_page venue limit history) request interval a b a b (bt_insert iid [] [])"
  have d: "0 < d" "b < i64_max" using duration_pos [OF assms(6)] assms(4) by (auto simp: in_i64_def)
  have m: "bt_wf (bt_insert iid [] [] :: 'a candle_map)" "bt_get (bt_insert iid [] [] :: 'a candle_map) iid = Some []"
    by (simp_all add: bt.wf_insert bt.wf_empty bt_get_def)
  have "\<exists>m' cs1. ?loop s = (Ok (Some m'), s) \<and> bt_get m' iid = Some cs1 \<and> mset cs1 = mset (filter (in_window a b) history)"
  proof (cases "venue = Bybit")
    case True
    have "filter (\<lambda>k. b < open_ms k \<and> open_ms k \<le> b) history = []" by (auto simp: filter_empty_conv)
    with backward_complete [OF assms(3) d(2) assms(8) d(1) assms(9) assms(2) order_refl assms(10) m] True
    show ?thesis by simp
  next
    case False
    have "filter (\<lambda>k. a \<le> open_ms k \<and> open_ms k < a) history = []" by (auto simp: filter_empty_conv)
    with forward_complete [OF False assms(6,3,4,8,9) order_refl assms(2,10) m(1)] m(2) show ?thesis by force
  qed
  then obtain m' cs1 where run: "?loop s = (Ok (Some m'), s)" "bt_get m' iid = Some cs1"
    "mset cs1 = mset (filter (in_window a b) history)" by blast
  from flatten_one [OF run(2,3) assms(8) d(1)] run(1)
    fetch_window_known [OF assms(1,2,5), of "[iid]" pages TO venue "history_page venue limit history" s] assms(7)
  show ?thesis by (simp add: ohlcv_instrument_ids_def rt_bind_def rt_lift_def rt_return_def FETCH_OHLCV_MAX_INSTRUMENTS_PER_CALL_def)
qed


section \<open>Concrete instances\<close>

definition candle_at :: "string \<Rightarrow> i64 \<Rightarrow> (int \<times> u32) Kline" where
  "candle_at name t =
     \<lparr>kl_instrument_id = StringId name, kl_interval = ''1m'', kl_open = DecimalValue (1, 0), kl_high = DecimalValue (1, 0),
      kl_low = DecimalValue (1, 0), kl_close = DecimalValue (1, 0), kl_volume = DecimalValue (1, 0),
      kl_open_time = TimestampMs t, kl_close_time = TimestampMs (t + 59999), kl_closed = True\<rparr>"

definition minute_request :: "string list \<Rightarrow> i64 \<Rightarrow> FetchOhlcvRequest" where
  "minute_request names b = ohlcv_for_instruments (map StringId names) ''1m'' (Some (TimestampMs 0)) (Some (TimestampMs b)) (Some 1)"

theorem window_paging_ends_witness:
  "\<exists>TO :: (int, int) Time_ops. fst (fetch_ohlcv_window 7 TO Bybit (history_page Bybit 1 [candle_at ''A'' 0])
     (minute_request [''A''] 5) (sample_runtime sample_engine [])) \<noteq> Ok None"
proof -
  have "respects_end (history_page Bybit 1 [candle_at ''A'' 0])"
    by (auto simp: respects_end_def history_page_def Let_def rt_return_def requested_range_def in_window_def
        dest!: in_set_dropD split: option.splits if_splits)
  then show ?thesis
    by (intro exI, intro window_paging_ends [where a = 0 and b = 5 and d = 60000 and interval = Minute1])
      (simp_all add: minute_request_def ohlcv_for_instruments_def in_i64_def i64_min_def i64_max_def interval_parse_def)
qed

theorem one_instrument_window_complete_witness:
  "\<exists>TO :: (int, int) Time_ops.
     fetch_ohlcv_window 60001 TO Binance (history_page Binance 1 [candle_at ''A'' 0, candle_at ''A'' 60000, candle_at ''A'' 120000])
       (minute_request [''A''] 60000) (sample_runtime sample_engine []) =
     (Ok (Some [candle_at ''A'' 0, candle_at ''A'' 60000]), sample_runtime sample_engine [])"
  by (rule exI)
    (use one_instrument_window_complete [of "minute_request [''A''] 60000" 0 60000 60000 Minute1 "StringId ''A''"
       "[candle_at ''A'' 0, candle_at ''A'' 60000, candle_at ''A'' 120000]" 1 60001 _ Binance "sample_runtime sample_engine []"]
     in \<open>simp add: minute_request_def ohlcv_for_instruments_def in_i64_def i64_min_def i64_max_def interval_parse_def
      history_of_def candle_at_def open_ms_def in_window_def\<close>)

text \<open>
  Several instruments share the cursor.  A venue that answers every instrument with the first
  candle of the requested range of its history:
\<close>

definition first_of_each :: "(int \<times> u32) Kline list \<Rightarrow> FetchOhlcvRequest \<Rightarrow> (int \<times> u32, (int \<times> u32) Kline list) rt" where
  "first_of_each history request =
     rt_return (concat (map (\<lambda>iid. take 1 (filter (\<lambda>k. kl_instrument_id k = iid \<and> requested_range request k) history))
       (fo_instrument_ids request)))"

text \<open>
  Paging over several instruments can lose candles: when one instrument starts later than
  another, the first page moves the shared cursor past candles of the other that were not on
  it.  Here the candle of \<^verbatim>\<open>A\<close> at one minute is in the history and in the window, but not in
  the result.
\<close>

theorem shared_cursor_skips_candles:
  "fetch_ohlcv_window 1 TO Binance
     (first_of_each [candle_at ''A'' 0, candle_at ''A'' 60000, candle_at ''A'' 120000, candle_at ''B'' 120000])
     (minute_request [''A'', ''B''] 120000) s =
   (Ok (Some [candle_at ''A'' 0, candle_at ''B'' 120000]), s)"
proof -
  have window: "window_request (minute_request [''A'', ''B''] 120000) 0 120000" "(0::int) \<le> 120000"
    "interval_parse (fo_interval (minute_request [''A'', ''B''] 120000)) = Some Minute1"
    "ohlcv_instrument_ids (minute_request [''A'', ''B''] 120000) = Ok [StringId ''A'', StringId ''B'']"
    by (simp_all add: minute_request_def ohlcv_for_instruments_def interval_parse_def ohlcv_instrument_ids_def
        FETCH_OHLCV_MAX_INSTRUMENTS_PER_CALL_def)
  show ?thesis
    unfolding fetch_window_known [OF window]
    by (simp add: rt_bind_def rt_lift_def rt_return_def minute_request_def ohlcv_for_instruments_def first_of_each_def
        candle_at_def requested_range_def in_window_def open_ms_def next_page_def close_time_ms_def i64_wrap_def
        bt_get_def bt_remove_def or_panic_def)
qed

text \<open>Naming an instrument twice panics once the pages are fetched.\<close>

theorem repeated_instrument_panics:
  "fetch_ohlcv_window 1 TO Binance (first_of_each []) (minute_request [''A'', ''A''] 120000) s = (Panic, s)"
  by (simp add: fetch_ohlcv_window_def minute_request_def ohlcv_for_instruments_def first_of_each_def rt_bind_def rt_lift_def
      rt_return_def ok_or_def interval_parse_def ohlcv_instrument_ids_def FETCH_OHLCV_MAX_INSTRUMENTS_PER_CALL_def
      bt_get_def bt_remove_def or_panic_def)

end
