(* ===== verification/Websocket_Only.thy ===== *)
theory Websocket_Only
  imports Batch_Laws
begin

text \<open>
  The websocket-only order commands: whatever the websocket does, none of them changes anything
  at the venue by REST.  A command that finds no websocket path is refused; amending on Binance
  may still read the order it amends by REST.
\<close>

section \<open>REST calls other than reads\<close>

definition rest_writes :: "'d LiveRuntimeState \<Rightarrow> HttpCall list" where
  "rest_writes s = filter (\<lambda>call. hc_method call \<noteq> ''GET'') (lr_calls s)"

abbreviation writes_are :: "HttpCall list \<Rightarrow> 'd LiveRuntimeState \<Rightarrow> bool" where
  "writes_are ws s \<equiv> rest_writes s = ws"

lemma writes_basic:
  "rt_keeps (writes_are ws) (rt_write f)"
  "rt_keeps (writes_are ws) (rt_emit e)"
  "rt_keeps (writes_are ws) (rt_private_event pe)"
  "rt_keeps (writes_are ws) rt_acquire"
  "rt_keeps (writes_are ws) (rt_next_request_id prefix)"
  "rt_keeps (writes_are ws) (rt_ws_request ctx request)"
  "rt_keeps (writes_are ws) (rt_modify (cache_pending_unknown c))"
  by (simp_all add: rt_keeps_def rest_writes_def rt_write_def rt_emit_def rt_private_event_def rt_acquire_def
      rt_next_request_id_def rt_ws_request_def rt_modify_def cache_pending_unknown_def Let_def split: prod.split)

lemma writes_ws:
  "rt_keeps (writes_are ws) (binance_signed_ws_request_text ctx meth params operation)"
  "rt_keeps (writes_are ws) (bybit_trade_ws_request_text ctx op_name args operation)"
proof -
  have frame: "rt_keeps (writes_are ws) (send_ws_frame ctx rid operation label frame)" for rid operation label frame
    unfolding send_ws_frame_def by (cases "lc_json ctx frame") (simp_all add: rt_keeps_return writes_basic)
  show "rt_keeps (writes_are ws) (binance_signed_ws_request_text ctx meth params operation)"
    "rt_keeps (writes_are ws) (bybit_trade_ws_request_text ctx op_name args operation)"
    unfolding binance_signed_ws_request_text_def bybit_trade_ws_request_text_def Let_def split_def
    by (intro rt_keeps_or_unavailable rt_keeps_bind rt_keeps_now writes_basic frame)+
qed

lemma writes_send_get: "hc_method call = ''GET'' \<Longrightarrow> rt_keeps (writes_are ws) (send_call ctx operation call)"
  unfolding send_call_def
  by (rule rt_keeps_bind) (simp_all add: rt_keeps_def rt_http_def rest_writes_def rt_lift_def)

lemma writes_get:
  "rt_keeps (writes_are ws) (binance_signed_request_text ctx ''GET'' path pairs operation)"
  "rt_keeps (writes_are ws) (bybit_signed_get_text ctx path pairs operation)"
  "rt_keeps (writes_are ws) (mexc_signed_get_text ctx path pairs operation)"
  unfolding binance_signed_request_text_def bybit_signed_get_text_def mexc_signed_get_text_def Let_def split_def
  by (intro rt_keeps_bind rt_keeps_lift rt_keeps_now writes_send_get; simp)+

lemma writes_get_order: "rt_keeps (writes_are ws) (get_order ctx request)"
  unfolding get_order_def fetch_order_payload_def
  by (intro rt_keeps_control writes_basic writes_get)

lemma writes_conclude: "rt_keeps (writes_are ws) (conclude_command ctx operation iid oid cid receipt transport)"
  unfolding conclude_command_def apply_command_receipt_def rt_cache_pending_def
  by (intro rt_keeps_control writes_basic)

lemma writes_emit:
  "rt_keeps (writes_are ws) (cache_and_emit_create_receipts ctx receipts creates transport)"
  "rt_keeps (writes_are ws) (cache_and_emit_amend_receipts ctx receipts amends transport)"
  "rt_keeps (writes_are ws) (cache_and_emit_cancel_receipts ctx receipts targets transport)"
  unfolding cache_and_emit_create_receipts_def cache_and_emit_amend_receipts_def cache_and_emit_cancel_receipts_def
    cache_and_emit_batch_receipts_def apply_command_receipt_def rt_cache_pending_def
  by (intro rt_keeps_control writes_basic)+

section \<open>Submissions that may only use the websocket\<close>

lemma ws_only_submit:
  assumes "lc_mode ctx = WebSocketOnly" and "rt_keeps I ws_call"
  shows "rt_keeps I (submit_preferring_ws ctx operation rid use_ws name ws_call rest_call)"
proof -
  have "rt_keeps I (submit_ws ctx operation rid ws_call fallback)" for fallback
    using assms unfolding rt_keeps_def submit_ws_def classify_as_def rt_parse_def
    by (auto split: prod.split sum.split CommandWsRequestError.split)
  with assms(1) show ?thesis by (simp add: submit_preferring_ws_def rt_keeps_lift)
qed

lemma ws_only_bybit_batch:
  assumes "lc_mode ctx = WebSocketOnly"
  shows "rt_keeps (writes_are ws) (submit_bybit_batch ctx operation verb ws_name batch identities)"
proof -
  have no_fallback: "submit_batch_ws ctx call classify unknown fallback =
      submit_batch_ws ctx call classify unknown (rt_lift Panic)" for call classify unknown and fallback
    using assms by (simp add: submit_batch_ws_def fun_eq_iff split: prod.split sum.split CommandWsRequestError.split)
  show ?thesis
    unfolding submit_bybit_batch_def Let_def no_fallback [where fallback = "submit_batch_rest _ _ _"]
    using assms by (simp only: refl if_True) (intro rt_keeps_control keeps_batch writes_ws)
qed

text \<open>The submissions of single commands.\<close>

lemma ws_only_submissions:
  assumes mode: "lc_mode ctx = WebSocketOnly"
  shows "rt_keeps (writes_are ws) (create_order_submission ctx create)"
    and "rt_keeps (writes_are ws) (amend_order_submission ctx amend)"
    and "rt_keeps (writes_are ws) (cancel_order_submission ctx spec cancel)"
  unfolding create_submission_defs amend_submission_defs cancel_submission_defs resolve_order_for_amend_def
    mode simp_thms(6) if_True Let_def
  by (intro rt_keeps_control ws_only_submit [OF mode] writes_ws writes_get_order)+


section \<open>The commands\<close>

lemma ws_only_single:
  assumes mode: "lc_mode ctx = WebSocketOnly"
  shows "rt_keeps (writes_are ws) (create_order ctx create)"
    and "rt_keeps (writes_are ws) (amend_order ctx amend)"
    and "rt_keeps (writes_are ws) (cancel_order ctx cancel)"
proof -
  have validate: "rt_keeps (writes_are ws) (validate_create_order ctx create)"
    "rt_keeps (writes_are ws) (validate_amend_order ctx amend)"
    by (simp_all add: rt_keeps_def validate_pure validate_amend_pure)
  show "rt_keeps (writes_are ws) (create_order ctx create)" "rt_keeps (writes_are ws) (amend_order ctx amend)"
    "rt_keeps (writes_are ws) (cancel_order ctx cancel)"
    unfolding create_order_def amend_order_def cancel_order_def
    by (intro rt_keeps_bind rt_keeps_pair rt_keeps_require_spec validate writes_basic writes_conclude
        ws_only_submissions [OF mode])+
qed

lemma ws_only_jobs:
  assumes mode: "lc_mode ctx = WebSocketOnly"
  shows "rt_keeps (writes_are ws) (fst (create_order_job ctx create)) \<and> rt_keeps (writes_are ws) (snd (create_order_job ctx create))"
    and "rt_keeps (writes_are ws) (fst (amend_order_job ctx amend)) \<and> rt_keeps (writes_are ws) (snd (amend_order_job ctx amend))"
    and "rt_keeps (writes_are ws) (fst (cancel_order_job ctx cancel)) \<and> rt_keeps (writes_are ws) (snd (cancel_order_job ctx cancel))"
proof -
  have validate: "rt_keeps (writes_are ws) (validate_create_order ctx create)"
    "rt_keeps (writes_are ws) (validate_amend_order ctx amend)"
    by (simp_all add: rt_keeps_def validate_pure validate_amend_pure)
  note rules = conjI ws_only_single [OF mode] keeps_abandoned validate rt_keeps_bind rt_keeps_require_spec writes_basic
    ws_only_submissions [OF mode]
  show "rt_keeps (writes_are ws) (fst (create_order_job ctx create)) \<and> rt_keeps (writes_are ws) (snd (create_order_job ctx create))"
    "rt_keeps (writes_are ws) (fst (amend_order_job ctx amend)) \<and> rt_keeps (writes_are ws) (snd (amend_order_job ctx amend))"
    "rt_keeps (writes_are ws) (fst (cancel_order_job ctx cancel)) \<and> rt_keeps (writes_are ws) (snd (cancel_order_job ctx cancel))"
    unfolding create_order_job_def amend_order_job_def cancel_order_job_def fst_conv snd_conv
    by (intro rules)+
qed

text \<open>The chunks that the websocket-only mode can reach.\<close>

lemma keeps_objects:
  "rt_keeps I (build_bybit_batch_create_object ctx order)"
  "rt_keeps I (build_bybit_batch_amend_object ctx change)"
  "rt_keeps I (bybit_cancel_object ctx target)"
  unfolding build_bybit_batch_create_object_def build_bybit_batch_amend_object_def bybit_cancel_object_def
  by (intro rt_keeps_control)+

lemma ws_only_chunks:
  assumes mode: "lc_mode ctx = WebSocketOnly"
  shows "rt_keeps (writes_are ws) (binance_create_chunk_joined ctx sched rid creates)"
    and "rt_keeps (writes_are ws) (binance_amend_chunk_joined ctx sched rid amends)"
    and "rt_keeps (writes_are ws) (cancel_joined ctx sched rid cancels)"
    and "rt_keeps (writes_are ws) (bybit_create_chunk ctx rid creates)"
    and "rt_keeps (writes_are ws) (bybit_amend_chunk ctx rid amends)"
    and "rt_keeps (writes_are ws) (bybit_cancel_chunk ctx cancels)"
proof -
  show "rt_keeps (writes_are ws) (binance_create_chunk_joined ctx sched rid creates)"
    "rt_keeps (writes_are ws) (binance_amend_chunk_joined ctx sched rid amends)"
    "rt_keeps (writes_are ws) (cancel_joined ctx sched rid cancels)"
    unfolding binance_create_chunk_joined_def binance_amend_chunk_joined_def cancel_joined_def
    by (rule keeps_try_join, rule ws_only_jobs [OF mode])+
  show "rt_keeps (writes_are ws) (bybit_create_chunk ctx rid creates)"
    "rt_keeps (writes_are ws) (bybit_amend_chunk ctx rid amends)"
    "rt_keeps (writes_are ws) (bybit_cancel_chunk ctx cancels)"
    unfolding bybit_create_chunk_def bybit_amend_chunk_def bybit_cancel_chunk_def Let_def
    by (intro rt_keeps_bind writes_basic keeps_collect keeps_objects keeps_emit_checked writes_emit
        ws_only_bybit_batch [OF mode])+
qed

lemma ws_only_placed:
  assumes mode: "lc_mode ctx = WebSocketOnly"
  shows "rt_keeps (writes_are ws) (create_orders_placed ctx sched rid creates acks)"
    and "rt_keeps (writes_are ws) (amend_orders_placed ctx sched rid amends acks)"
    and "rt_keeps (writes_are ws) (cancel_orders_placed ctx sched rid cancels acks)"
  unfolding create_orders_placed_def amend_orders_placed_def cancel_orders_placed_def mode simp_thms(6) if_True Let_def
  by (intro rt_keeps_venue rt_keeps_if rt_keeps_lift keeps_run_chunks ws_only_chunks [OF mode])+

lemma ws_only_batches:
  assumes mode: "lc_mode ctx = WebSocketOnly"
  shows "rt_keeps (writes_are ws) (create_orders ctx sched creates)"
    and "rt_keeps (writes_are ws) (amend_orders ctx sched amends)"
    and "rt_keeps (writes_are ws) (cancel_orders ctx sched cancels)"
  unfolding create_orders_def amend_orders_def cancel_orders_def
  by (intro rt_keeps_bind keeps_validations rt_keeps_lift;
      auto intro!: rt_keeps_bind rt_keeps_return rt_keeps_lift ws_only_single [OF mode] ws_only_placed [OF mode]
        split: list.split)+

section \<open>Properties\<close>

text \<open>
  C13. A websocket-only command never falls back to REST: creating, amending or cancelling an
  order, a batch of orders or everything makes no REST call but reads, whatever the websocket
  sessions answer.
\<close>

theorem websocket_only_never_writes_rest:
  "let wso = ctx\<lparr>lc_mode := WebSocketOnly\<rparr> in
    rest_writes (snd (create_order wso create s)) = rest_writes s \<and>
    rest_writes (snd (amend_order wso amend s)) = rest_writes s \<and>
    rest_writes (snd (cancel_order wso cancel s)) = rest_writes s \<and>
    rest_writes (snd (create_orders wso sched creates s)) = rest_writes s \<and>
    rest_writes (snd (amend_orders wso sched amends s)) = rest_writes s \<and>
    rest_writes (snd (cancel_orders wso sched cancels s)) = rest_writes s \<and>
    rest_writes (snd (cancel_all_orders wso cancel_all s)) = rest_writes s"
proof -
  have mode: "lc_mode (ctx\<lparr>lc_mode := WebSocketOnly\<rparr>) = WebSocketOnly" by simp
  show ?thesis
    unfolding Let_def
    using rt_keepsD [OF ws_only_single(1) [OF mode]] rt_keepsD [OF ws_only_single(2) [OF mode]]
      rt_keepsD [OF ws_only_single(3) [OF mode]] rt_keepsD [OF ws_only_batches(1) [OF mode]]
      rt_keepsD [OF ws_only_batches(2) [OF mode]] rt_keepsD [OF ws_only_batches(3) [OF mode]]
    by (simp add: cancel_all_orders_def rt_lift_def)
qed

end
