(* ===== verification/Facade.thy ===== *)
theory Facade
  imports Entry Watchers Candle_Window Websocket_Only
begin

text \<open>
  The client as an application sees it: how \<^verbatim>\<open>bat-markets/src/client.rs\<close> builds it, and the
  command methods of \<^verbatim>\<open>bat-markets/src/facade.rs\<close>, which run a command of the runtime under a
  transport mode and hand out a handle that listens since before the command.
\<close>

section \<open>Building a client\<close>

text \<open>
  The world around a client, given as a context: network, clock, environment, decimals and parsers of
  documents.  The adapter handle fixes the venue's decoders and its initial instruments;
  \<open>http_error\<close> answers whether the HTTP client can be constructed.
\<close>

definition adapter_instruments :: "'d Decimal_ops \<Rightarrow> Venue \<Rightarrow> 'd InstrumentSpec list option" where
  "adapter_instruments D venue =
     (case venue of Binance \<Rightarrow> binance_instruments D | Bybit \<Rightarrow> bybit_instruments D | Mexc \<Rightarrow> mexc_instruments D)"

definition live_context_with_command_transport :: "CommandTransportMode \<Rightarrow> 'd LiveContext \<Rightarrow> 'd LiveContext" where
  "live_context_with_command_transport mode ctx = ctx\<lparr>lc_mode := mode\<rparr>"

definition live_context :: "'d LiveContext \<Rightarrow> 'd LiveContext" where
  "live_context ctx = live_context_with_command_transport CommandTransportMode.Auto ctx"

definition from_handle ::
  "'d AdapterEnv \<Rightarrow> ('t, 'date) Time_ops \<Rightarrow> 'd LiveContext \<Rightarrow> string option \<Rightarrow> BatMarketsConfig \<Rightarrow> 'd InstrumentSpec list
     \<Rightarrow> ('d LiveContext \<times> 'd LiveRuntimeState) result" where
  "from_handle E TO world http_error config instruments =
     (let catalog = catalog_new instruments;
          (api_key, signer) = resolve_auth (lc_env world) config in
      case http_error of
        Some error \<Rightarrow>
          Err (with_venue (cfg_venue config) (cfg_product config)
            (market_error TransportError (''failed to construct reqwest client: '' @ error)))
      | None \<Rightarrow>
          Ok (live_context (world\<lparr>lc_config := config, lc_api_key := api_key, lc_signer := signer,
                lc_parsers := adapter_parsers E TO (cfg_venue config)\<rparr>),
              \<lparr>lr_shared = shared_new (engine_new (cfg_venue config) (cfg_product config) (cfg_state config)
                  (catalog_all catalog)),
               lr_catalog = catalog, lr_pending = [], lr_bybit_account_context = None, lr_calls = [],
               lr_sleeps = [], lr_ws = hub_new, lr_permits = 0, lr_ticker_cache = []\<rparr>))"

definition build ::
  "'d AdapterEnv \<Rightarrow> ('t, 'date) Time_ops \<Rightarrow> 'd LiveContext \<Rightarrow> string option \<Rightarrow> BatMarketsBuilder
     \<Rightarrow> ('d LiveContext \<times> 'd LiveRuntimeState) result" where
  "build E TO world http_error b =
     and_then (resolve_config False b) (\<lambda>config.
     and_then (or_panic (adapter_instruments (lc_decimal world) (cfg_venue config)))
       (from_handle E TO world http_error config))"

definition build_live ::
  "'d AdapterEnv \<Rightarrow> ('t, 'date) Time_ops \<Rightarrow> 'd LiveContext \<Rightarrow> string option \<Rightarrow> BatMarketsBuilder
     \<Rightarrow> ('d LiveContext \<times> 'd LiveRuntimeState) result" where
  "build_live E TO world http_error b =
     and_then (resolve_config True b) (\<lambda>config.
     and_then (or_panic (adapter_instruments (lc_decimal world) (cfg_venue config))) (\<lambda>instruments.
     and_then (from_handle E TO world http_error config instruments) (\<lambda>(ctx, s).
       case bootstrap_live ctx s of
         (Inl f, _) \<Rightarrow> Inl f
       | (Inr _, s') \<Rightarrow> Ok (ctx, s'))))"

section \<open>Handles\<close>

text \<open>
  A receiver is the number of events published when it was created; a receiver that does not lag
  delivers everything published since.
\<close>

record ClientHandle =
  kh_ack :: CommandAck
  kh_receiver :: nat

definition heard_since :: "nat \<Rightarrow> 'd SharedState \<Rightarrow> Delivery list" where
  "heard_since receiver shared = map Delivered (drop receiver (sh_command_events shared))"

definition handle_in :: "'d SharedState \<Rightarrow> ClientHandle \<Rightarrow> PendingCommandHandle" where
  "handle_in shared h = from_ack (kh_ack h) (heard_since (kh_receiver h) shared)"

definition subscribe_command_events :: "('d, nat) rt" where
  "subscribe_command_events = rt_read (\<lambda>s. length (sh_command_events (lr_shared s)))"

definition pre_subscribe_command_receivers :: "nat \<Rightarrow> ('d, nat list) rt" where
  "pre_subscribe_command_receivers n =
     rt_read (\<lambda>s. replicate n (length (sh_command_events (lr_shared s))))"

definition command_handle_from_ack :: "CommandAck \<Rightarrow> nat \<Rightarrow> ClientHandle" where
  "command_handle_from_ack ack receiver = \<lparr>kh_ack = ack, kh_receiver = receiver\<rparr>"

definition command_handle_from_receipt :: "i64 \<Rightarrow> CommandReceipt \<Rightarrow> CommandTransport \<Rightarrow> nat \<Rightarrow> ClientHandle" where
  "command_handle_from_receipt now receipt transport receiver =
     \<lparr>kh_ack = \<lparr>ack_receipt = receipt, ack_transport = transport, ack_acknowledged_at = TimestampMs now\<rparr>,
      kh_receiver = receiver\<rparr>"

definition command_handles_from_acks :: "CommandAck list \<Rightarrow> nat list \<Rightarrow> ClientHandle list" where
  "command_handles_from_acks acks receivers = map (\<lambda>(ack, receiver). command_handle_from_ack ack receiver) (zip acks receivers)"

text \<open>The three shapes of a command method; \<open>made_at\<close> is the clock when the handle is made.\<close>

definition with_ack :: "('d, CommandAck) rt \<Rightarrow> ('d, ClientHandle) rt" where
  "with_ack command =
     rt_bind subscribe_command_events (\<lambda>receiver.
     rt_bind command (\<lambda>ack. rt_return (command_handle_from_ack ack receiver)))"

definition with_acks :: "nat \<Rightarrow> ('d, CommandAck list) rt \<Rightarrow> ('d, ClientHandle list) rt" where
  "with_acks n command =
     rt_bind (pre_subscribe_command_receivers n) (\<lambda>receivers.
     rt_bind command (\<lambda>acks. rt_return (command_handles_from_acks acks receivers)))"

definition with_receipt :: "i64 \<Rightarrow> CommandTransport \<Rightarrow> ('d, CommandReceipt) rt \<Rightarrow> ('d, ClientHandle) rt" where
  "with_receipt made_at transport command =
     rt_bind subscribe_command_events (\<lambda>receiver.
     rt_bind command (\<lambda>receipt. rt_return (command_handle_from_receipt made_at receipt transport receiver)))"

section \<open>Command methods\<close>

definition client_create_order :: "'d LiveContext \<Rightarrow> 'd CreateOrderRequest \<Rightarrow> ('d, ClientHandle) rt" where
  "client_create_order ctx request = with_ack (create_order (live_context ctx) request)"

definition client_create_orders ::
  "'d LiveContext \<Rightarrow> (nat \<Rightarrow> JoinSchedule) \<Rightarrow> 'd CreateOrdersRequest \<Rightarrow> ('d, ClientHandle list) rt" where
  "client_create_orders ctx sched request =
     with_acks (length (crs_orders request)) (create_orders (live_context ctx) sched request)"

definition client_edit_order :: "'d LiveContext \<Rightarrow> 'd AmendOrderRequest \<Rightarrow> ('d, ClientHandle) rt" where
  "client_edit_order ctx request = with_ack (amend_order (live_context ctx) request)"

definition client_edit_orders ::
  "'d LiveContext \<Rightarrow> (nat \<Rightarrow> JoinSchedule) \<Rightarrow> 'd AmendOrdersRequest \<Rightarrow> ('d, ClientHandle list) rt" where
  "client_edit_orders ctx sched request =
     with_acks (length (ams_orders request)) (amend_orders (live_context ctx) sched request)"

definition client_cancel_order :: "'d LiveContext \<Rightarrow> CancelOrderRequest \<Rightarrow> ('d, ClientHandle) rt" where
  "client_cancel_order ctx request = with_ack (cancel_order (live_context ctx) request)"

definition client_cancel_orders ::
  "'d LiveContext \<Rightarrow> (nat \<Rightarrow> JoinSchedule) \<Rightarrow> CancelOrdersRequest \<Rightarrow> ('d, ClientHandle list) rt" where
  "client_cancel_orders ctx sched request =
     with_acks (length (cos_orders request)) (cancel_orders (live_context ctx) sched request)"

definition client_close_position :: "'d LiveContext \<Rightarrow> 'd ClosePositionRequest \<Rightarrow> ('d, ClientHandle) rt" where
  "client_close_position ctx request = with_ack (close_position (live_context ctx) request)"

definition client_cancel_all_orders :: "i64 \<Rightarrow> 'd LiveContext \<Rightarrow> CancelAllOrdersRequest \<Rightarrow> ('d, ClientHandle) rt" where
  "client_cancel_all_orders made_at ctx request =
     with_receipt made_at Rest (cancel_all_orders (live_context ctx) request)"

definition client_validate_order :: "i64 \<Rightarrow> 'd LiveContext \<Rightarrow> 'd ValidateOrderRequest \<Rightarrow> ('d, ClientHandle) rt" where
  "client_validate_order made_at ctx request = with_receipt made_at Rest (validate_order (live_context ctx) request)"

definition client_set_leverage :: "i64 \<Rightarrow> 'd LiveContext \<Rightarrow> 'd SetLeverageRequest \<Rightarrow> ('d, ClientHandle) rt" where
  "client_set_leverage made_at ctx request = with_receipt made_at Rest (set_leverage (live_context ctx) request)"

definition client_set_margin_mode :: "i64 \<Rightarrow> 'd LiveContext \<Rightarrow> SetMarginModeRequest \<Rightarrow> ('d, ClientHandle) rt" where
  "client_set_margin_mode made_at ctx request = with_receipt made_at Rest (set_margin_mode (live_context ctx) request)"

definition client_set_position_mode :: "i64 \<Rightarrow> 'd LiveContext \<Rightarrow> SetPositionModeRequest \<Rightarrow> ('d, ClientHandle) rt" where
  "client_set_position_mode made_at ctx request = with_receipt made_at Rest (set_position_mode (live_context ctx) request)"

text \<open>The methods that insist on the websocket.\<close>

abbreviation ws_only :: "'d LiveContext \<Rightarrow> 'd LiveContext" where
  "ws_only ctx \<equiv> live_context_with_command_transport WebSocketOnly ctx"

definition client_create_order_ws :: "'d LiveContext \<Rightarrow> 'd CreateOrderRequest \<Rightarrow> ('d, ClientHandle) rt" where
  "client_create_order_ws ctx request = with_ack (create_order (ws_only ctx) request)"

definition client_create_orders_ws ::
  "'d LiveContext \<Rightarrow> (nat \<Rightarrow> JoinSchedule) \<Rightarrow> 'd CreateOrdersRequest \<Rightarrow> ('d, ClientHandle list) rt" where
  "client_create_orders_ws ctx sched request =
     with_acks (length (crs_orders request)) (create_orders (ws_only ctx) sched request)"

definition client_edit_order_ws :: "'d LiveContext \<Rightarrow> 'd AmendOrderRequest \<Rightarrow> ('d, ClientHandle) rt" where
  "client_edit_order_ws ctx request = with_ack (amend_order (ws_only ctx) request)"

definition client_edit_orders_ws ::
  "'d LiveContext \<Rightarrow> (nat \<Rightarrow> JoinSchedule) \<Rightarrow> 'd AmendOrdersRequest \<Rightarrow> ('d, ClientHandle list) rt" where
  "client_edit_orders_ws ctx sched request =
     with_acks (length (ams_orders request)) (amend_orders (ws_only ctx) sched request)"

definition client_cancel_order_ws :: "'d LiveContext \<Rightarrow> CancelOrderRequest \<Rightarrow> ('d, ClientHandle) rt" where
  "client_cancel_order_ws ctx request = with_ack (cancel_order (ws_only ctx) request)"

definition client_cancel_orders_ws ::
  "'d LiveContext \<Rightarrow> (nat \<Rightarrow> JoinSchedule) \<Rightarrow> CancelOrdersRequest \<Rightarrow> ('d, ClientHandle list) rt" where
  "client_cancel_orders_ws ctx sched request =
     with_acks (length (cos_orders request)) (cancel_orders (ws_only ctx) sched request)"

definition client_cancel_all_orders_ws :: "i64 \<Rightarrow> 'd LiveContext \<Rightarrow> CancelAllOrdersRequest \<Rightarrow> ('d, ClientHandle) rt" where
  "client_cancel_all_orders_ws made_at ctx request =
     with_receipt made_at WebSocket (cancel_all_orders (ws_only ctx) request)"

section \<open>Requests and watches\<close>

text \<open>
  The methods that read: each builds its request from the arguments and runs it in the client's
  context.  A method on one instrument watches the list of that one.
\<close>

definition load_markets :: "'d LiveContext \<Rightarrow> ('d, 'd InstrumentSpec list) rt" where
  "load_markets ctx = refresh_metadata (live_context ctx)"

definition client_fetch_ticker :: "'d LiveContext \<Rightarrow> InstrumentId \<Rightarrow> ('d, 'd Ticker) rt" where
  "client_fetch_ticker ctx iid = fetch_ticker (live_context ctx) iid"

definition client_fetch_tickers :: "'d LiveContext \<Rightarrow> InstrumentId list \<Rightarrow> ('d, 'd Ticker list) rt" where
  "client_fetch_tickers ctx iids = fetch_tickers (live_context ctx) \<lparr>ftk_instrument_ids = iids\<rparr>"

definition client_fetch_order_book ::
  "'d LiveContext \<Rightarrow> InstrumentId \<Rightarrow> usize option \<Rightarrow> ('d, 'd OrderBookSnapshot) rt" where
  "client_fetch_order_book ctx iid limit =
     fetch_order_book (live_context ctx) \<lparr>fbq_instrument_id = iid, fbq_limit = limit\<rparr>"

definition client_fetch_trades :: "'d LiveContext \<Rightarrow> InstrumentId \<Rightarrow> usize option \<Rightarrow> ('d, 'd TradeTick list) rt" where
  "client_fetch_trades ctx iid limit =
     fetch_trades (live_context ctx) \<lparr>ftq_instrument_id = iid, ftq_limit = limit\<rparr>"

definition client_fetch_mark_price :: "'d LiveContext \<Rightarrow> InstrumentId \<Rightarrow> ('d, 'd MarkPrice) rt" where
  "client_fetch_mark_price ctx iid = fetch_mark_price (live_context ctx) iid"

definition client_fetch_funding_rate :: "'d LiveContext \<Rightarrow> InstrumentId \<Rightarrow> ('d, 'd FundingRate) rt" where
  "client_fetch_funding_rate ctx iid = fetch_funding_rate (live_context ctx) iid"

definition client_fetch_open_interest :: "'d LiveContext \<Rightarrow> InstrumentId \<Rightarrow> ('d, 'd OpenInterest) rt" where
  "client_fetch_open_interest ctx iid = refresh_open_interest (live_context ctx) iid"

definition client_fetch_liquidations ::
  "'d LiveContext \<Rightarrow> InstrumentId \<Rightarrow> usize option \<Rightarrow> ('d, 'd Liquidation list) rt" where
  "client_fetch_liquidations ctx iid limit = fetch_liquidations (live_context ctx) iid limit"

definition client_fetch_balance :: "'d LiveContext \<Rightarrow> ('d, 'd AccountSnapshot) rt" where
  "client_fetch_balance ctx = fetch_balance (live_context ctx)"

definition client_fetch_positions :: "'d LiveContext \<Rightarrow> ('d, 'd Position list) rt" where
  "client_fetch_positions ctx = refresh_positions (live_context ctx)"

definition client_fetch_open_orders ::
  "'d LiveContext \<Rightarrow> ListOpenOrdersRequest option \<Rightarrow> ('d, 'd Order list) rt" where
  "client_fetch_open_orders ctx request = refresh_open_orders (live_context ctx) request"

definition client_fetch_order :: "'d LiveContext \<Rightarrow> GetOrderRequest \<Rightarrow> ('d, 'd Order) rt" where
  "client_fetch_order ctx request = get_order (live_context ctx) request"

definition client_fetch_my_trades ::
  "'d LiveContext \<Rightarrow> ListExecutionsRequest option \<Rightarrow> ('d, 'd Execution list) rt" where
  "client_fetch_my_trades ctx request = refresh_executions (live_context ctx) request"

definition client_watch_ohlcv ::
  "Venue \<Rightarrow> spawn_env \<Rightarrow> InstrumentId list \<Rightarrow> string \<Rightarrow> 'd SharedState \<Rightarrow> PublicSubscriptionHub
     \<Rightarrow> (InstrumentFilter \<times> string) Watch result \<times> PublicSubscriptionHub" where
  "client_watch_ohlcv venue spawn iids interval =
     watch_ohlcv venue spawn (watch_ohlcv_for_instruments iids interval)"

definition client_watch_order_book ::
  "Venue \<Rightarrow> spawn_env \<Rightarrow> InstrumentId \<Rightarrow> usize option \<Rightarrow> 'd SharedState \<Rightarrow> PublicSubscriptionHub
     \<Rightarrow> InstrumentId Watch result \<times> PublicSubscriptionHub" where
  "client_watch_order_book venue spawn iid limit =
     watch_order_book venue spawn \<lparr>wob_instrument_id = iid, wob_limit = limit\<rparr>"

section \<open>A built client\<close>

lemma scales_28: "(2::u32) \<le> 28" "(3::u32) \<le> 28" "(5::u32) \<le> 28" "(0::u32) \<le> 28" "(2 + 0 :: u32) \<le> 28"
  by (simp_all add: word_le_nat_alt)

lemma adapter_instruments_ok:
  assumes "adapter_instruments D venue = Some instruments"
  shows "list_all scales_ok instruments"
  using assms
  by (cases venue)
    (auto simp: adapter_instruments_def binance_instruments_def bybit_instruments_def mexc_instruments_def
      binance_instrument_spec_def bybit_instrument_spec_def mexc_fixture_spec_def scales_ok_def scales_28
      bind_eq_Some_conv)

lemma adapter_instruments_total:
  assumes "decimal_laws D"
  shows "\<exists>instruments. adapter_instruments D venue = Some instruments"
proof -
  have new: "\<exists>d. dec_new D m s = Some d" if "in_i64 m" "s \<le> 28" for m s
    using decimal_laws_new [OF assms that] by blast
  have "\<exists>d. dec_new D 1 2 = Some d" "\<exists>d. dec_new D 1 3 = Some d" "\<exists>d. dec_new D 5 5 = Some d"
    "\<exists>d. dec_new D 125 0 = Some d" "\<exists>d. dec_new D 100 0 = Some d" "\<exists>d. dec_new D 50 0 = Some d"
    "\<exists>d. dec_new D 1 1 = Some d" "\<exists>d. dec_new D 1 0 = Some d"
    by (rule new; simp add: in_i64_def i64_min_def i64_max_def word_le_nat_alt)+
  moreover have "fixture_decimal D ''0.1'' = dec_new D 1 1" "fixture_decimal D ''1'' = dec_new D 1 0"
    "fixture_decimal D ''0.01'' = dec_new D 1 2"
    by (simp_all add: fixture_decimal_def decimal_places_def parse_i64_def parse_signed_def Let_def read_nat_def digit_value_def)
  ultimately show ?thesis
    by (cases venue)
      (auto simp: adapter_instruments_def binance_instruments_def bybit_instruments_def mexc_instruments_def
        binance_instrument_spec_def bybit_instrument_spec_def mexc_fixture_spec_def)
qed

lemma find_member: "find P xs = Some x \<Longrightarrow> x \<in> set xs"
  by (induction xs) (auto split: if_splits)

lemma catalog_all_specs: "spec \<in> set (catalog_all (catalog_new specs)) \<Longrightarrow> spec \<in> set specs"
  by (auto simp: catalog_all_def catalog_new_indexes bt.vals_iff bt_get_collect dest!: find_member)

lemma new_engine_specs:
  assumes "list_all scales_ok specs"
  shows "specs_ok (engine_new venue product policy specs)"
  using assms
  by (auto simp: specs_ok_def instrument_specs_def engine_new_def list_all_iff bt.vals_iff bt_get_collect
      dest!: find_member)

lemma from_handle_Ok:
  assumes "from_handle E TO world http_error config instruments = Ok (ctx, s)" and "list_all scales_ok instruments"
  shows "cfg_venue (lc_config ctx) = cfg_venue config \<and> lc_decimal ctx = lc_decimal world \<and>
    lc_mode ctx = CommandTransportMode.Auto \<and>
    lc_parsers ctx = adapter_parsers E TO (venue_of ctx) \<and> catalog_wf (lr_catalog s) \<and>
    lr_pending s = [] \<and> lr_calls s = [] \<and>
    engine_wf (engine_of s) \<and> specs_ok (engine_of s) \<and> lr_shared s = shared_new (engine_of s)"
proof -
  have "list_all scales_ok (catalog_all (catalog_new instruments))"
    using assms(2) catalog_all_specs by (auto simp: list_all_iff)
  from new_engine_specs [OF this] assms(1) show ?thesis
    by (auto simp: from_handle_def Let_def split_def live_context_def live_context_with_command_transport_def
        catalog_new_wf engine_new_wf shared_new_def split: option.splits)
qed


section \<open>What a handle hears\<close>

lemma with_ack_Ok:
  assumes "with_ack command s = (Ok h, s1)"
  shows "command s = (Ok (kh_ack h), s1)" "kh_receiver h = length (sh_command_events (lr_shared s))"
  using assms
  by (auto simp: with_ack_def subscribe_command_events_def rt_bind_def rt_read_def rt_return_def command_handle_from_ack_def
      split: prod.splits sum.splits)

lemma with_receipt_Ok:
  assumes "with_receipt made_at transport command s = (Ok h, s1)"
  shows "command s = (Ok (ack_receipt (kh_ack h)), s1)" "kh_receiver h = length (sh_command_events (lr_shared s))"
    "ack_transport (kh_ack h) = transport" "ack_acknowledged_at (kh_ack h) = TimestampMs made_at"
  using assms
  by (auto simp: with_receipt_def subscribe_command_events_def rt_bind_def rt_read_def rt_return_def
      command_handle_from_receipt_def split: prod.splits sum.splits)

text \<open>A handle that waits for the recovery of a command acknowledged as \<open>sent\<close>.\<close>

lemma resolved_after_recovery:
  assumes "sh_command_events (lr_shared s1) = sh_command_events (lr_shared s) @ acknowledged sent"
    and "kh_receiver h = length (sh_command_events (lr_shared s))"
    and "rcp_status (ack_receipt (kh_ack h)) = CommandStatus.UnknownExecution"
  shows "fst (resolved (handle_in (lr_shared (snd (recovery_task ctx sent s1))) h)) =
    (case fst (reconcile_private ctx ReconcileTrigger.UnknownExecution s1) of
       Inr report \<Rightarrow> if sent = kh_ack h then Some (Ok (receipt_after_recovery (ack_receipt (kh_ack h)) report)) else None
     | Inl _ \<Rightarrow> None)"
proof -
  let ?heard = "drop (kh_receiver h) (sh_command_events (lr_shared (snd (recovery_task ctx sent s1))))"
  have "?heard = acknowledged sent @
      (case fst (reconcile_private ctx ReconcileTrigger.UnknownExecution s1) of
         Inr report \<Rightarrow> [Lifecycle (RecoveryCompleted sent report)] | Inl f \<Rightarrow> [])"
    using assms(1,2) by (simp add: recovery_events)
  then have "fst (await_recovery (kh_ack h) (map Delivered ?heard)) =
      (case fst (reconcile_private ctx ReconcileTrigger.UnknownExecution s1) of
         Inr report \<Rightarrow> if sent = kh_ack h then Some (Ok (receipt_after_recovery (ack_receipt (kh_ack h)) report)) else None
       | Inl _ \<Rightarrow> None)"
    by (simp only: await_recovery_first) (auto simp: acknowledged_def List.map_filter_simps split: sum.split)
  with assms(3) show ?thesis
    by (simp add: resolved_def handle_in_def heard_since_def from_ack_def split_def Let_def)
qed

text \<open>A setting announces an acknowledgement with its receipt, stamped by the runtime.\<close>

abbreviation announced :: "CommandLaneEvent list \<Rightarrow> CommandReceipt \<Rightarrow> 'd LiveRuntimeState \<Rightarrow> bool" where
  "announced es receipt s \<equiv>
     (\<exists>sent. ack_receipt sent = receipt \<and> ack_transport sent = Rest \<and> sh_command_events (lr_shared s) = es @ acknowledged sent)"

lemma acknowledge_triple:
  "rt_triple (commands_are es) (acknowledge_rest ctx receipt) (announced es) (\<lambda>s. True)"
proof -
  have "case acknowledge_rest ctx receipt s of (Inr r, s') \<Rightarrow> announced es r s' | (Inl f, s') \<Rightarrow> True"
    if es: "commands_are es s" for s
  proof -
    obtain ack s' where "apply_command_receipt ctx receipt Rest s = (Ok ack, s')" "ack_receipt ack = receipt"
      "ack_transport ack = Rest" "sh_command_events (lr_shared s') = es @ acknowledged ack"
      using apply_receipt_outcome [of ctx receipt Rest s] es by auto
    then show ?thesis by (auto simp: acknowledge_rest_def rt_bind_def rt_return_def)
  qed
  then show ?thesis by (simp add: rt_triple_def)
qed

lemma triple_quiet: "rt_keeps I m \<Longrightarrow> (\<And>x. rt_triple I (k x) Q (\<lambda>_. True)) \<Longrightarrow> rt_triple I (rt_bind m k) Q (\<lambda>_. True)"
  by (rule triple_bind [where Q = "\<lambda>_. I"]) (fastforce simp: rt_keeps_def rt_triple_def split: prod.split sum.split)

lemma settings_announced:
  "rt_triple (commands_are es) (set_leverage ctx leverage) (announced es) (\<lambda>_. True)"
  "rt_triple (commands_are es) (set_margin_mode ctx margin) (announced es) (\<lambda>_. True)"
proof -
  have reset: "rt_keeps (commands_are es) (rt_modify (\<lambda>s. s\<lparr>lr_bybit_account_context := None\<rparr>))"
    by (simp add: rt_keeps_def rt_modify_def)
  show "rt_triple (commands_are es) (set_leverage ctx leverage) (announced es) (\<lambda>_. True)"
    unfolding set_leverage_def
    by (intro triple_quiet acknowledge_triple rt_keeps_require_spec commands_keeper.keeps_acquire
        commands_keeper.keeps_leverage)
  show "rt_triple (commands_are es) (set_margin_mode ctx margin) (announced es) (\<lambda>_. True)"
    unfolding set_margin_mode_def
    by (intro triple_quiet acknowledge_triple commands_keeper.keeps_acquire commands_keeper.keeps_margin_mode
        rt_keeps_if reset rt_keeps_return)
qed

section \<open>What the handles promise\<close>

definition order_handle_resolves ::
  "'d LiveContext \<Rightarrow> 'd LiveRuntimeState \<Rightarrow> ClientHandle result \<times> 'd LiveRuntimeState \<Rightarrow> bool" where
  "order_handle_resolves ctx s answer \<longleftrightarrow>
     (case answer of
        (Inr h, s1) \<Rightarrow>
          (if rcp_status (ack_receipt (kh_ack h)) = CommandStatus.UnknownExecution
           then fst (resolved (handle_in (lr_shared (snd (recovery_task ctx (kh_ack h) s1))) h)) =
             (case fst (reconcile_private ctx ReconcileTrigger.UnknownExecution s1) of
                Inr report \<Rightarrow> Some (Ok (receipt_after_recovery (ack_receipt (kh_ack h)) report))
              | Inl _ \<Rightarrow> None)
           else fst (resolved (handle_in (lr_shared s1) h)) = Some (Ok (ack_receipt (kh_ack h))))
      | (Inl _, s1) \<Rightarrow> ledger s1 = ledger s)"

lemma handle_resolves_by:
  assumes "\<And>ack s1. command s = (Ok ack, s1) \<Longrightarrow>
      sh_command_events (lr_shared s1) = sh_command_events (lr_shared s) @ acknowledged ack"
    and "\<And>f s1. command s = (Inl f, s1) \<Longrightarrow> ledger s1 = ledger s"
  shows "order_handle_resolves ctx s (with_ack command s)"
proof (cases "with_ack command s")
  case (Pair r s1)
  show ?thesis
  proof (cases r)
    case (Inl f)
    with Pair have "command s = (Inl f, s1)"
      by (auto simp: with_ack_def subscribe_command_events_def rt_bind_def rt_read_def rt_return_def split: prod.splits sum.splits)
    with assms(2) Pair Inl show ?thesis by (simp add: order_handle_resolves_def)
  next
    case (Inr h)
    from with_ack_Ok [OF Pair [unfolded Inr]] have h: "command s = (Ok (kh_ack h), s1)"
      "kh_receiver h = length (sh_command_events (lr_shared s))" .
    from resolved_after_recovery [OF assms(1) [OF h(1)] h(2), of ctx] Pair Inr show ?thesis
      by (simp only: order_handle_resolves_def prod.case sum.case simp_thms(6) if_True)
        (simp add: resolved_def handle_in_def from_ack_def)
  qed
qed

definition setting_handle_resolves ::
  "i64 \<Rightarrow> 'd LiveContext \<Rightarrow> 'd LiveRuntimeState \<Rightarrow> ClientHandle result \<times> 'd LiveRuntimeState \<Rightarrow> bool" where
  "setting_handle_resolves made_at ctx s answer \<longleftrightarrow>
     (case answer of
        (Inr h, s1) \<Rightarrow>
          (\<exists>sent. ack_receipt sent = ack_receipt (kh_ack h) \<and>
             sh_command_events (lr_shared s1) = sh_command_events (lr_shared s) @ acknowledged sent \<and>
             (if rcp_status (ack_receipt sent) = CommandStatus.UnknownExecution
              then fst (resolved (handle_in (lr_shared (snd (recovery_task ctx sent s1))) h)) =
                (case fst (reconcile_private ctx ReconcileTrigger.UnknownExecution s1) of
                   Inr report \<Rightarrow>
                     if ack_acknowledged_at sent = TimestampMs made_at
                     then Some (Ok (receipt_after_recovery (ack_receipt sent) report)) else None
                 | Inl _ \<Rightarrow> None)
              else True))
      | (Inl _, _) \<Rightarrow> True)"

lemma setting_resolves_by:
  assumes "rt_triple (commands_are (sh_command_events (lr_shared s))) command (announced (sh_command_events (lr_shared s))) (\<lambda>_. True)"
  shows "setting_handle_resolves made_at ctx s (with_receipt made_at Rest command s)"
proof (cases "with_receipt made_at Rest command s")
  case (Pair r s1)
  show ?thesis
  proof (cases r)
    case (Inr h)
    note h = with_receipt_Ok [OF Pair [unfolded Inr]]
    from tripleD [OF assms refl] h(1) obtain sent where
      sent: "ack_receipt sent = ack_receipt (kh_ack h)" "ack_transport sent = Rest"
        "sh_command_events (lr_shared s1) = sh_command_events (lr_shared s) @ acknowledged sent" by auto
    then have same: "sent = kh_ack h \<longleftrightarrow> ack_acknowledged_at sent = TimestampMs made_at"
      using h(3,4) by (auto intro: CommandAck.equality)
    have "fst (resolved (handle_in (lr_shared (snd (recovery_task ctx sent s1))) h)) =
        (case fst (reconcile_private ctx ReconcileTrigger.UnknownExecution s1) of
           Inr report \<Rightarrow> if ack_acknowledged_at sent = TimestampMs made_at
             then Some (Ok (receipt_after_recovery (ack_receipt sent) report)) else None
         | Inl _ \<Rightarrow> None)" if "rcp_status (ack_receipt sent) = CommandStatus.UnknownExecution"
      using resolved_after_recovery [OF sent(3) h(2), of ctx] that sent(1) same by (auto split: sum.split)
    moreover have guard: "(c \<Longrightarrow> A) \<Longrightarrow> (if c then A else True)" for c A by simp
    ultimately show ?thesis
      unfolding Pair Inr setting_handle_resolves_def prod.case sum.case
      by (intro exI [of _ sent] conjI sent(1) sent(3) guard)
  qed (use Pair in \<open>simp add: setting_handle_resolves_def\<close>)
qed

definition batch_handles :: "nat \<Rightarrow> 'd LiveRuntimeState \<Rightarrow> CommandAck list result \<Rightarrow> ClientHandle list result \<Rightarrow> bool" where
  "batch_handles n s acks handles \<longleftrightarrow>
     (case (acks, handles) of
        (Inr acks, Inr hs) \<Rightarrow> length hs = n \<and> map kh_ack hs = acks \<and>
          set (map kh_receiver hs) \<subseteq> {length (sh_command_events (lr_shared s))}
      | (Inl f, Inl g) \<Rightarrow> f = g
      | _ \<Rightarrow> False)"

lemma batch_handles_by:
  assumes "\<And>acks s1. command s = (Ok acks, s1) \<Longrightarrow> length acks = n"
  shows "batch_handles n s (fst (command s)) (fst (with_acks n command s))"
proof (cases "command s")
  case (Pair r s1)
  show ?thesis
  proof (cases r)
    case (Inr acks)
    with assms Pair have "length acks = n" by blast
    moreover have "map (kh_ack \<circ> (\<lambda>(ack, receiver). command_handle_from_ack ack receiver)) (zip acks (replicate (length acks) t)) = acks"
      "set (map (kh_receiver \<circ> (\<lambda>(ack, receiver). command_handle_from_ack ack receiver)) (zip acks (replicate (length acks) t))) \<subseteq> {t}" for t
      by (induction acks) (auto simp: command_handle_from_ack_def)
    ultimately show ?thesis using Pair Inr
      by (auto simp: batch_handles_def with_acks_def pre_subscribe_command_receivers_def rt_bind_def rt_read_def
          rt_return_def command_handles_from_acks_def)
  qed (simp add: Pair batch_handles_def with_acks_def pre_subscribe_command_receivers_def rt_bind_def rt_read_def)
qed

lemma batch_length:
  assumes "batch_tracked operation (map f orders) s (m s)" and "m s = (Ok acks, s1)"
  shows "length acks = length orders"
  using assms by (auto simp: batch_tracked_def all_covered_def dest: list_all2_lengthD)

section \<open>Properties\<close>

text \<open>
  C10. The client's order methods, over REST or websocket only: a handle on an order whose outcome is
  unknown resolves to the report of the recovery that the client starts for this order, and keeps
  waiting exactly when that recovery fails; a refused order leaves the pending list and the
  command channel as they were.
\<close>

theorem order_handles_resolve:
  "order_handle_resolves (live_context ctx) s (client_create_order ctx create s) \<and>
   order_handle_resolves (live_context ctx) s (client_create_order_ws ctx create s) \<and>
   order_handle_resolves (live_context ctx) s (client_cancel_order ctx cancel s) \<and>
   order_handle_resolves (live_context ctx) s (client_cancel_order_ws ctx cancel s) \<and>
   order_handle_resolves (live_context ctx) s (client_close_position ctx close s)"
proof -
  have heard: "sh_command_events (lr_shared s1) = sh_command_events (lr_shared s) @ acknowledged ack"
    if "rt_triple (ledger_is (ledger s)) m (concluded operation iid oid cid (ledger s)) (ledger_is (ledger s))"
      and "m s = (Ok ack, s1)" for operation iid oid cid and m :: "('a, CommandAck) rt" and ack s1
    using tripleD [OF that(1), of s] that(2) by (simp add: concluded_def ledger_def)
  have refused: "ledger s1 = ledger s"
    if "rt_triple (ledger_is (ledger s)) m (concluded operation iid oid cid (ledger s)) (ledger_is (ledger s))"
      and "m s = (Inl f, s1)" for operation iid oid cid and m :: "('a, CommandAck) rt" and f s1
    using tripleD [OF that(1), of s] that(2) by simp
  note triples = create_order_triple cancel_order_triple close_position_triple
  show ?thesis
    unfolding client_create_order_def client_create_order_ws_def client_cancel_order_def client_cancel_order_ws_def
      client_close_position_def
    by (intro conjI handle_resolves_by; (erule heard [OF triples(1)] heard [OF triples(2)] heard [OF triples(3)]
        refused [OF triples(1)] refused [OF triples(2)] refused [OF triples(3)])?)
qed

text \<open>
  A handle on a leverage or margin change misses its own recovery.  The runtime stamps and
  announces one acknowledgement, the handle carries another one with the time it was made, and a
  recovery is matched by the whole acknowledgement: with an unknown outcome the handle resolves only
  when both were made in the same millisecond, and otherwise waits although the recovery has
  completed.
\<close>

theorem setting_handles_miss_recovery:
  "setting_handle_resolves made_at (live_context ctx) s (client_set_leverage made_at ctx leverage s) \<and>
   setting_handle_resolves made_at (live_context ctx) s (client_set_margin_mode made_at ctx margin s)"
  unfolding client_set_leverage_def client_set_margin_mode_def
  by (intro conjI setting_resolves_by settings_announced)

text \<open>
  C31. A batch yields one handle per order, in the order of the request, each with the
  acknowledgement of its order, listening since before the batch was sent.
\<close>

theorem batch_handles_complete:
  "batch_handles (length (crs_orders creates)) s (fst (create_orders (live_context ctx) sched creates s))
     (fst (client_create_orders ctx sched creates s)) \<and>
   batch_handles (length (ams_orders amends)) s (fst (amend_orders (live_context ctx) sched amends s))
     (fst (client_edit_orders ctx sched amends s)) \<and>
   batch_handles (length (cos_orders cancels)) s (fst (cancel_orders (live_context ctx) sched cancels s))
     (fst (client_cancel_orders ctx sched cancels s))"
  unfolding client_create_orders_def client_edit_orders_def client_cancel_orders_def
  by (intro conjI batch_handles_by; erule batch_length [OF batch_tracked_triple, rotated])
    (erule create_orders_triple amend_orders_triple cancel_orders_triple)+


section \<open>The advanced surface\<close>

text \<open>A command response handed in as text: classified, applied to the state and published, without an acknowledgement.\<close>

definition classify_command_json ::
  "'d LiveContext \<Rightarrow> CommandOperation \<Rightarrow> string option \<Rightarrow> RequestId option \<Rightarrow> ('d, CommandReceipt) rt" where
  "classify_command_json ctx operation payload request_id =
     rt_bind (rt_parse ctx (\<lambda>p. pa_classify_command p operation payload request_id)) (\<lambda>receipt.
     rt_bind (rt_write (engine_apply_command_receipt receipt)) (\<lambda>_.
     rt_bind (rt_emit (CommandLaneEvent.Receipt receipt)) (\<lambda>_.
       rt_return receipt)))"

definition advanced_reconcile :: "'d LiveContext \<Rightarrow> ('d, ReconcileReport) rt" where
  "advanced_reconcile ctx = reconcile_private (live_context ctx) ReconcileTrigger.Manual"

end
