(* ===== verification/Client_Machine.thy ===== *)
theory Client_Machine
  imports Facade
begin

text \<open>
  The whole client as one machine.  Its inputs are everything an application, the background tasks
  and the venue can make it do: commands in any transport mode, requests, reconciliations and
  recoveries, and runs of the public and the private streams with whatever happens on them.
\<close>

section \<open>Inputs\<close>

datatype 'd TradingInput =
    DoRefreshAccount
  | DoRefreshPositions
  | DoRefreshOpenOrders "ListOpenOrdersRequest option"
  | DoGetOrder GetOrderRequest
  | DoRefreshExecutions "ListExecutionsRequest option"
  | DoReconcile ReconcileTrigger
  | DoCreateOrder "'d CreateOrderRequest"
  | DoCreateOrders "nat \<Rightarrow> JoinSchedule" "'d CreateOrdersRequest"
  | DoAmendOrder "'d AmendOrderRequest"
  | DoAmendOrders "nat \<Rightarrow> JoinSchedule" "'d AmendOrdersRequest"
  | DoCancelOrder CancelOrderRequest
  | DoCancelOrders "nat \<Rightarrow> JoinSchedule" CancelOrdersRequest
  | DoCancelAllOrders CancelAllOrdersRequest
  | DoClosePosition "'d ClosePositionRequest"
  | DoSetLeverage "'d SetLeverageRequest"
  | DoSetMarginMode SetMarginModeRequest
  | DoSetPositionMode SetPositionModeRequest
  | DoValidateOrder "'d ValidateOrderRequest"
  | DoRecovery CommandAck
  | DoPrivateStream "StreamAttempt list"

datatype MarketInput =
    DoRefreshMetadata
  | DoFetchTicker InstrumentId
  | DoFetchTickers FetchTickersRequest
  | DoFetchOrderBook FetchOrderBookRequest
  | DoFetchOhlcv nat FetchOhlcvRequest
  | DoFetchTrades FetchTradesRequest
  | DoFetchMarkPrice InstrumentId
  | DoFetchFundingRate InstrumentId
  | DoFetchOpenInterest InstrumentId
  | DoFetchLiquidations InstrumentId "usize option"
  | DoPublicStream PublicStreamRoute PublicSubscription "StreamAttempt list"

datatype 'd ClientInput =
    Bootstrap
  | Trading CommandTransportMode "'d TradingInput"
  | Market_Data MarketInput

section \<open>Steps\<close>

fun trading_step :: "'d LiveContext \<Rightarrow> 'd TradingInput \<Rightarrow> 'd LiveRuntimeState \<Rightarrow> 'd LiveRuntimeState" where
  "trading_step ctx DoRefreshAccount s = snd (refresh_account ctx s)"
| "trading_step ctx DoRefreshPositions s = snd (refresh_positions ctx s)"
| "trading_step ctx (DoRefreshOpenOrders request) s = snd (refresh_open_orders ctx request s)"
| "trading_step ctx (DoGetOrder request) s = snd (get_order ctx request s)"
| "trading_step ctx (DoRefreshExecutions request) s = snd (refresh_executions ctx request s)"
| "trading_step ctx (DoReconcile trigger) s = snd (reconcile_private ctx trigger s)"
| "trading_step ctx (DoCreateOrder request) s = snd (create_order ctx request s)"
| "trading_step ctx (DoCreateOrders sched request) s = snd (create_orders ctx sched request s)"
| "trading_step ctx (DoAmendOrder request) s = snd (amend_order ctx request s)"
| "trading_step ctx (DoAmendOrders sched request) s = snd (amend_orders ctx sched request s)"
| "trading_step ctx (DoCancelOrder request) s = snd (cancel_order ctx request s)"
| "trading_step ctx (DoCancelOrders sched request) s = snd (cancel_orders ctx sched request s)"
| "trading_step ctx (DoCancelAllOrders request) s = snd (cancel_all_orders ctx request s)"
| "trading_step ctx (DoClosePosition request) s = snd (close_position ctx request s)"
| "trading_step ctx (DoSetLeverage request) s = snd (set_leverage ctx request s)"
| "trading_step ctx (DoSetMarginMode request) s = snd (set_margin_mode ctx request s)"
| "trading_step ctx (DoSetPositionMode request) s = snd (set_position_mode ctx request s)"
| "trading_step ctx (DoValidateOrder request) s = snd (validate_order ctx request s)"
| "trading_step ctx (DoRecovery ack) s = snd (recovery_task ctx ack s)"
| "trading_step ctx (DoPrivateStream attempts) s = snd (run_private_stream ctx attempts s)"

fun market_step ::
  "('t, 'date) Time_ops \<Rightarrow> 'd LiveContext \<Rightarrow> MarketInput \<Rightarrow> 'd LiveRuntimeState \<Rightarrow> 'd LiveRuntimeState" where
  "market_step TO ctx DoRefreshMetadata s = snd (refresh_metadata ctx s)"
| "market_step TO ctx (DoFetchTicker iid) s = snd (fetch_ticker ctx iid s)"
| "market_step TO ctx (DoFetchTickers request) s = snd (fetch_tickers ctx request s)"
| "market_step TO ctx (DoFetchOrderBook request) s = snd (fetch_order_book ctx request s)"
| "market_step TO ctx (DoFetchOhlcv pages request) s = snd (client_fetch_ohlcv pages TO ctx request s)"
| "market_step TO ctx (DoFetchTrades request) s = snd (fetch_trades ctx request s)"
| "market_step TO ctx (DoFetchMarkPrice iid) s = snd (fetch_mark_price ctx iid s)"
| "market_step TO ctx (DoFetchFundingRate iid) s = snd (fetch_funding_rate ctx iid s)"
| "market_step TO ctx (DoFetchOpenInterest iid) s = snd (refresh_open_interest ctx iid s)"
| "market_step TO ctx (DoFetchLiquidations iid limit) s = snd (fetch_liquidations ctx iid limit s)"
| "market_step TO ctx (DoPublicStream route sub attempts) s = snd (run_public_stream ctx route sub attempts s)"

fun client_step ::
  "('t, 'date) Time_ops \<Rightarrow> 'd LiveContext \<Rightarrow> 'd LiveRuntimeState \<Rightarrow> 'd ClientInput \<Rightarrow> 'd LiveRuntimeState" where
  "client_step TO ctx s Bootstrap = snd (bootstrap_live ctx s)"
| "client_step TO ctx s (Trading mode input) = trading_step (live_context_with_command_transport mode ctx) input s"
| "client_step TO ctx s (Market_Data input) = market_step TO ctx input s"

section \<open>What the inputs keep\<close>

context state_keeper
begin

lemma keeps_executions: "rt_keeps I (refresh_executions ctx request)"
  unfolding refresh_executions_def fetch_executions_def execution_specs_def bybit_executions_query_def
    mexc_executions_query_def Let_def
  by (intro keeper_rules)

end

context command_keeper
begin

lemma keeps_trading:
  assumes "\<And>attempts. rt_keeps I (run_private_stream ctx attempts)" and "I s"
  shows "I (trading_step ctx input s)"
  by (cases input) (simp_all add: assms(2) rt_keepsD [OF assms(1)] rt_keepsD [OF keeps_account] rt_keepsD [OF keeps_refreshes(1)]
      rt_keepsD [OF keeps_refreshes(3)] rt_keepsD [OF keeps_refreshes(4)] rt_keepsD [OF keeps_executions]
      rt_keepsD [OF keeps_reconcile] rt_keepsD [OF keeps_single_commands(1)] rt_keepsD [OF keeps_single_commands(2)]
      rt_keepsD [OF keeps_amend] rt_keepsD [OF keeps_orders(1)] rt_keepsD [OF keeps_orders(2)] rt_keepsD [OF keeps_orders(3)]
      rt_keepsD [OF keeps_positions(1)] rt_keepsD [OF keeps_positions(2)] rt_keepsD [OF keeps_positions(3)]
      rt_keepsD [OF keeps_positions(4)] rt_keepsD [OF keeps_positions(5)] rt_keepsD [OF keeps_positions(6)]
      rt_keepsD [OF keeps_recovery])

end

context market_fetch_keeper
begin

lemma keeps_window:
  assumes "\<And>request. rt_keeps I (fetch_page request)"
  shows "rt_keeps I (fetch_ohlcv_window pages TO venue fetch_page request)"
proof -
  have loop: "rt_keeps I (window_loop pages TO venue fetch_page request interval a b ns ne m)" for interval a b ns ne m
  proof (induction pages arbitrary: ns ne m)
    case (Suc pages)
    then show ?case
      by (auto intro!: rt_keeps_bind assms rt_keeps_return rt_keeps_lift split: option.split)
  qed (simp add: rt_keeps_return)
  show ?thesis
    unfolding fetch_ohlcv_window_def
    by (auto intro!: rt_keeps_bind loop rt_keeps_return rt_keeps_lift split: option.split)
qed

lemma keeps_client_ohlcv: "rt_keeps I (client_fetch_ohlcv pages TO ctx request)"
  by (auto simp: client_fetch_ohlcv_def intro!: keeps_window rt_keeps_bind keeps_ohlcv rt_keeps_return split: option.split)

lemma keeps_market:
  assumes "rt_keeps I (refresh_metadata ctx)" and "\<And>route sub attempts. rt_keeps I (run_public_stream ctx route sub attempts)"
    and "I s"
  shows "I (market_step TO ctx input s)"
  by (cases input) (simp_all add: assms(3) rt_keepsD [OF assms(1)] rt_keepsD [OF assms(2)] rt_keepsD [OF keeps_fetches(1)]
      rt_keepsD [OF keeps_fetches(2)] rt_keepsD [OF keeps_fetches(3)] rt_keepsD [OF keeps_fetches(4)]
      rt_keepsD [OF keeps_fetches(5)] rt_keepsD [OF keeps_applied_fetches(1)] rt_keepsD [OF keeps_applied_fetches(2)]
      rt_keepsD [OF keeps_client_ohlcv] rt_keepsD [OF keeps_open_interest])

end

section \<open>The engine invariant and the lanes\<close>

interpretation client_commands: command_keeper "stream_inv E TO ctx h0" engine_safe for E TO ctx h0
proof
  show "rt_keeps (stream_inv E TO ctx h0) (rt_emit e)" for e
    using runtime_emit [of "lc_decimal ctx" h0 e] by (simp add: rt_keeps_def rt_emit_def stream_inv_def)
qed

interpretation isolated_commands: command_keeper "\<lambda>s. market_side s = c" market_neutral for c
  by unfold_locales (simp add: rt_keeps_def rt_emit_def market_side_def emit_command_event_def)

lemma stream_bootstrap: "rt_keeps (stream_inv E TO ctx h0) (bootstrap_live ctx)"
  unfolding bootstrap_live_def sync_server_time_def
  by (intro private_streams.keeper_rules stream_metadata private_streams.keeps_account_context)

text \<open>The private stream of a context with another transport mode keeps the same invariant.\<close>

lemma stream_inv_step:
  assumes "stream_inv E TO ctx h0 s"
  shows "stream_inv E TO ctx h0 (client_step TO' ctx s input)"
proof (cases input)
  case Bootstrap
  with rt_keepsD [OF stream_bootstrap assms] show ?thesis by simp
next
  case (Trading mode i)
  with client_commands.keeps_trading [OF private_streams.keeps_private_stream assms] show ?thesis by simp
next
  case (Market_Data i)
  with engine_fetches.keeps_market [OF stream_metadata public_streams.keeps_public_stream assms] show ?thesis by simp
qed

interpretation client: reactive_machine "client_step TO' ctx" "stream_inv E TO ctx h0" for TO' E TO ctx h0
  by unfold_locales (rule stream_inv_step)

lemma market_inputs_isolated: "private_side (market_step TO ctx input s) = private_side s"
  by (rule isolated_fetches.keeps_market [OF private_side_metadata public_isolated.keeps_public_stream refl])

lemma trading_inputs_isolated: "market_side (trading_step ctx input s) = market_side s"
  by (rule isolated_commands.keeps_trading [OF private_isolated.keeps_private_stream refl])

lemma build_Ok:
  assumes "build E TO world http_error b = Ok (ctx, s)"
  shows "lc_decimal ctx = lc_decimal world \<and> lc_mode ctx = CommandTransportMode.Auto \<and>
    lc_parsers ctx = adapter_parsers E TO (venue_of ctx) \<and> catalog_wf (lr_catalog s) \<and>
    lr_pending s = [] \<and> lr_calls s = [] \<and>
    engine_wf (engine_of s) \<and> specs_ok (engine_of s) \<and> lr_shared s = shared_new (engine_of s)"
proof -
  from assms obtain config instruments where
    "adapter_instruments (lc_decimal world) (cfg_venue config) = Some instruments"
    "from_handle E TO world http_error config instruments = Ok (ctx, s)"
    by (auto simp: build_def and_then_Ok_iff or_panic_def split: option.splits)
  from from_handle_Ok [OF this(2) adapter_instruments_ok [OF this(1)]] show ?thesis by blast
qed

section \<open>Properties\<close>

text \<open>
  Building a client never panics.  A built client has not called the venue, has no pending
  command, a well-formed catalog and a well-formed engine with the venue's initial instruments, and
  publishes the engine's health; without a venue, or without an HTTP client, building fails.
\<close>

theorem built_client_is_ready:
  assumes "decimal_laws (lc_decimal world)"
  shows "case build E TO world http_error b of
      Inr (ctx, s) \<Rightarrow>
        lr_calls s = [] \<and> lr_pending s = [] \<and> catalog_wf (lr_catalog s) \<and>
        engine_wf (engine_of s) \<and> specs_ok (engine_of s) \<and>
        published (sh_health_watch (lr_shared s)) = published (health_snapshot (lr_shared s)) \<and>
        http_error = None \<and> bb_venue b \<noteq> None
    | Inl f \<Rightarrow> f \<noteq> Panicked \<and> (http_error \<noteq> None \<or> bb_venue b = None)"
proof (cases "resolve_config False b")
  case (Inl f)
  then show ?thesis by (auto simp: build_def resolve_config_def ok_or_def split: option.splits)
next
  case (Inr config)
  then have venue: "bb_venue b \<noteq> None" by (auto simp: resolve_config_def ok_or_def split: option.splits)
  obtain instruments where instruments: "adapter_instruments (lc_decimal world) (cfg_venue config) = Some instruments"
    using adapter_instruments_total [OF assms] by blast
  with Inr have built: "build E TO world http_error b = from_handle E TO world http_error config instruments"
    by (simp add: build_def or_panic_def)
  show ?thesis
  proof (cases http_error)
    case None
    then obtain ctx s where ok: "from_handle E TO world http_error config instruments = Ok (ctx, s)"
      by (auto simp: from_handle_def Let_def split_def)
    with build_Ok [of E TO world http_error b ctx s] built have "lr_shared s = shared_new (engine_of s)" by simp
    then have "published (sh_health_watch (lr_shared s)) = published (health_snapshot (lr_shared s))"
      by (simp add: shared_new_def health_snapshot_def shared_read_def) (metis SharedState.select_convs)
    with build_Ok [of E TO world http_error b ctx s] built ok venue None show ?thesis by simp
  next
    case (Some error)
    with built venue show ?thesis by (simp add: from_handle_def Let_def split_def)
  qed
qed


text \<open>
  C30. Trading and market data never interfere.  No sequence of market data requests, metadata
  refreshes and public streams changes the account, positions, orders, executions, pending commands
  or the private and command channels; no sequence of commands, private refreshes, reconciliations,
  recoveries and private streams changes the market data, the catalog or the public channel.
\<close>

theorem lanes_isolated:
  "private_side (foldl (client_step TO ctx) s (map Market_Data ms)) = private_side s \<and>
   market_side (foldl (client_step TO ctx) s (map (\<lambda>(mode, i). Trading mode i) ts)) = market_side s"
proof
  show "private_side (foldl (client_step TO ctx) s (map Market_Data ms)) = private_side s"
    by (induction ms arbitrary: s) (simp_all add: market_inputs_isolated)
  show "market_side (foldl (client_step TO ctx) s (map (\<lambda>(mode, i). Trading mode i) ts)) = market_side s"
    by (induction ts arbitrary: s) (auto simp: trading_inputs_isolated)
qed

section \<open>Concrete instances\<close>

lemma sample_builder_builds:
  "\<exists>ctx s. build mute_env TO (sample_context Bybit) None (builder_venue Bybit builder_default) = Ok (ctx, s)"
proof -
  obtain instruments where "adapter_instruments (lc_decimal (sample_context Bybit)) Bybit = Some instruments"
    using adapter_instruments_total [OF sample_context_ok(3)] by blast
  then show ?thesis
    by (simp add: build_def resolve_config_def builder_venue_def builder_default_def config_new_def or_panic_def
        from_handle_def Let_def split_def)
qed

theorem built_client_is_ready_witness:
  "case build mute_env TO (sample_context Bybit) None (builder_venue Bybit builder_default) of
     Inr (ctx, s) \<Rightarrow> engine_wf (engine_of s) \<and> lr_pending s = [] | Inl f \<Rightarrow> False"
proof -
  obtain ctx s where built: "build mute_env TO (sample_context Bybit) None (builder_venue Bybit builder_default) = Ok (ctx, s)"
    using sample_builder_builds by blast
  have "decimal_laws (lc_decimal (sample_context Bybit))" by (rule sample_context_ok(3))
  from built_client_is_ready [OF this, where E = mute_env and TO = TO and http_error = None
      and b = "builder_venue Bybit builder_default"]
  show ?thesis unfolding built by simp
qed



end
