(* ===== verification/Diagnostics.thy ===== *)
theory Diagnostics
  imports Prelude "HOL-Library.Multiset"
begin

text \<open>
  The counters of \<^verbatim>\<open>bat-markets/src/diagnostics.rs\<close>: what one observation adds, the snapshots, and
  the atomic accesses an observation is made of.  The counters are relaxed atomics that many
  tasks update at once without a lock, so the accesses are also given as a step relation, in
  which the loop of \<^verbatim>\<open>update_max\<close> can read outdated values and its exchange can fail for no reason.
\<close>

section \<open>Snapshots\<close>

record LockDiagnosticsSnapshot =
  ld_operations :: u64
  ld_wait_total_ns :: u64
  ld_wait_max_ns :: u64
  ld_hold_total_ns :: u64
  ld_hold_max_ns :: u64

record LatencyDiagnosticsSnapshot =
  la_operations :: u64
  la_total_ns :: u64
  la_max_ns :: u64

definition average_of :: "u64 \<Rightarrow> u64 \<Rightarrow> u64" where
  "average_of total_ns operations = (if operations = 0 then 0 else total_ns div operations)"

definition average_wait_ns :: "LockDiagnosticsSnapshot \<Rightarrow> u64" where
  "average_wait_ns d = average_of (ld_wait_total_ns d) (ld_operations d)"

definition average_hold_ns :: "LockDiagnosticsSnapshot \<Rightarrow> u64" where
  "average_hold_ns d = average_of (ld_hold_total_ns d) (ld_operations d)"

definition average_ns :: "LatencyDiagnosticsSnapshot \<Rightarrow> u64" where
  "average_ns d = average_of (la_total_ns d) (la_operations d)"

text \<open>A duration is its number of nanoseconds.\<close>

definition duration_ns :: "nat \<Rightarrow> u64" where
  "duration_ns duration = of_nat (min duration (2 ^ 64 - 1))"

section \<open>Observations\<close>

text \<open>What an observation does to the counters when it runs alone; \<^verbatim>\<open>fetch_add\<close> wraps.\<close>

definition latency_observe :: "nat \<Rightarrow> LatencyDiagnosticsSnapshot \<Rightarrow> LatencyDiagnosticsSnapshot" where
  "latency_observe elapsed d =
     (let elapsed_ns = duration_ns elapsed in
      \<lparr>la_operations = la_operations d + 1, la_total_ns = la_total_ns d + elapsed_ns,
       la_max_ns = max (la_max_ns d) elapsed_ns\<rparr>)"

definition lock_observe :: "nat \<times> nat \<Rightarrow> LockDiagnosticsSnapshot \<Rightarrow> LockDiagnosticsSnapshot" where
  "lock_observe wait_hold d =
     (let wait_ns = duration_ns (fst wait_hold); hold_ns = duration_ns (snd wait_hold) in
      \<lparr>ld_operations = ld_operations d + 1, ld_wait_total_ns = ld_wait_total_ns d + wait_ns,
       ld_wait_max_ns = max (ld_wait_max_ns d) wait_ns, ld_hold_total_ns = ld_hold_total_ns d + hold_ns,
       ld_hold_max_ns = max (ld_hold_max_ns d) hold_ns\<rparr>)"

datatype RuntimeOperation =
    RefreshMetadata | FetchTicker | FetchMarkPrice | FetchFundingRate | FetchTrades | FetchOrderBook
  | FetchLiquidations | FetchOhlcv | RefreshAccount | RefreshPositions | RefreshOpenOrders | RefreshExecutions
  | GetOrder | CreateOrder | CreateOrders | AmendOrder | AmendOrders | CancelOrder | CancelOrders
  | CancelAllOrders | ClosePosition | ValidateOrder | SetLeverage | SetMarginMode | SetPositionMode
  | ReconcilePrivate | RefreshOpenInterest

text \<open>One latency counter per operation.\<close>

type_synonym RuntimeDiagnosticsState = "RuntimeOperation \<Rightarrow> LatencyDiagnosticsSnapshot"

definition runtime_observe :: "RuntimeOperation \<times> nat \<Rightarrow> RuntimeDiagnosticsState \<Rightarrow> RuntimeDiagnosticsState" where
  "runtime_observe sample d =
     d(fst sample := latency_observe (snd sample) (d (fst sample)))"

record SharedStateDiagnostics =
  sd_reads :: LockDiagnosticsSnapshot
  sd_writes :: LockDiagnosticsSnapshot

definition observe_read :: "nat \<times> nat \<Rightarrow> SharedStateDiagnostics \<Rightarrow> SharedStateDiagnostics" where
  "observe_read wait_hold d = d\<lparr>sd_reads := lock_observe wait_hold (sd_reads d)\<rparr>"

definition observe_write :: "nat \<times> nat \<Rightarrow> SharedStateDiagnostics \<Rightarrow> SharedStateDiagnostics" where
  "observe_write wait_hold d = d\<lparr>sd_writes := lock_observe wait_hold (sd_writes d)\<rparr>"

record RuntimeDiagnosticsSnapshot =
  rd_state_reads :: LockDiagnosticsSnapshot
  rd_state_writes :: LockDiagnosticsSnapshot
  rd_latencies :: RuntimeDiagnosticsState

text \<open>What \<^verbatim>\<open>advanced().diagnostics()\<close> reports.\<close>

definition diagnostics :: "SharedStateDiagnostics \<Rightarrow> RuntimeDiagnosticsState \<Rightarrow> RuntimeDiagnosticsSnapshot" where
  "diagnostics locks latencies =
     \<lparr>rd_state_reads = sd_reads locks, rd_state_writes = sd_writes locks, rd_latencies = latencies\<rparr>"

section \<open>Atomic accesses\<close>

text \<open>
  The cells of the two structures.  A cell that \<^verbatim>\<open>update_max\<close> writes keeps the values it held
  before: a relaxed load may still return one of them.
\<close>

datatype Counter = Operations | TotalNs | WaitTotalNs | HoldTotalNs
datatype Peak = MaxNs | WaitMaxNs | HoldMaxNs

record Cells =
  ce_counters :: "Counter \<Rightarrow> u64"
  ce_peaks :: "Peak \<Rightarrow> u64"
  ce_outdated :: "Peak \<Rightarrow> u64 list"

datatype Access = FetchAdd Counter u64 | UpdateMax Peak u64

definition store_peak :: "Peak \<Rightarrow> u64 \<Rightarrow> Cells \<Rightarrow> Cells" where
  "store_peak p v s =
     s\<lparr>ce_peaks := (ce_peaks s)(p := v), ce_outdated := (ce_outdated s)(p := ce_peaks s p # ce_outdated s p)\<rparr>"

text \<open>An access that runs alone.\<close>

fun perform :: "Access \<Rightarrow> Cells \<Rightarrow> Cells" where
  "perform (FetchAdd c v) s = s\<lparr>ce_counters := (ce_counters s)(c := ce_counters s c + v)\<rparr>"
| "perform (UpdateMax p v) s = (if ce_peaks s p < v then store_peak p v s else s)"

definition latency_accesses :: "nat \<Rightarrow> Access list" where
  "latency_accesses elapsed =
     [FetchAdd Operations 1, FetchAdd TotalNs (duration_ns elapsed), UpdateMax MaxNs (duration_ns elapsed)]"

definition lock_accesses :: "nat \<times> nat \<Rightarrow> Access list" where
  "lock_accesses wait_hold =
     [FetchAdd Operations 1, FetchAdd WaitTotalNs (duration_ns (fst wait_hold)),
      FetchAdd HoldTotalNs (duration_ns (snd wait_hold)), UpdateMax WaitMaxNs (duration_ns (fst wait_hold)),
      UpdateMax HoldMaxNs (duration_ns (snd wait_hold))]"

definition latency_snapshot :: "Cells \<Rightarrow> LatencyDiagnosticsSnapshot" where
  "latency_snapshot s =
     \<lparr>la_operations = ce_counters s Operations, la_total_ns = ce_counters s TotalNs, la_max_ns = ce_peaks s MaxNs\<rparr>"

definition lock_snapshot :: "Cells \<Rightarrow> LockDiagnosticsSnapshot" where
  "lock_snapshot s =
     \<lparr>ld_operations = ce_counters s Operations, ld_wait_total_ns = ce_counters s WaitTotalNs,
      ld_wait_max_ns = ce_peaks s WaitMaxNs, ld_hold_total_ns = ce_counters s HoldTotalNs,
      ld_hold_max_ns = ce_peaks s HoldMaxNs\<rparr>"

section \<open>Tasks in parallel\<close>

text \<open>
  A task is the accesses it still has to make and, inside the loop of \<^verbatim>\<open>update_max\<close>, the value it
  holds as current.  A successful exchange acts on the latest value of the cell; a load, and the
  failing exchange, may return any value the cell ever held.
\<close>

type_synonym task = "Access list \<times> u64 option"

inductive access_step :: "Cells \<times> task \<Rightarrow> Cells \<times> task \<Rightarrow> bool" where
  fetch_add: "access_step (s, FetchAdd c v # rest, None) (perform (FetchAdd c v) s, rest, None)"
| load: "current \<in> set (ce_peaks s p # ce_outdated s p) \<Longrightarrow>
    access_step (s, UpdateMax p v # rest, None) (s, UpdateMax p v # rest, Some current)"
| leave: "\<not> current < v \<Longrightarrow>
    access_step (s, UpdateMax p v # rest, Some current) (s, rest, None)"
| exchange: "current < v \<Longrightarrow> ce_peaks s p = current \<Longrightarrow>
    access_step (s, UpdateMax p v # rest, Some current) (store_peak p v s, rest, None)"
| retry: "current < v \<Longrightarrow> observed \<in> set (ce_peaks s p # ce_outdated s p) \<Longrightarrow>
    access_step (s, UpdateMax p v # rest, Some current) (s, UpdateMax p v # rest, Some observed)"

inductive_cases access_stepE: "access_step (s, t) (s', t')"

inductive parallel_step :: "Cells \<times> task list \<Rightarrow> Cells \<times> task list \<Rightarrow> bool" where
  run_task: "i < length ts \<Longrightarrow> access_step (s, ts ! i) (s', t') \<Longrightarrow> parallel_step (s, ts) (s', ts[i := t'])"

inductive_cases parallel_stepE: "parallel_step (s, ts) (s', ts')"

definition tasks_of :: "Access list list \<Rightarrow> task list" where
  "tasks_of programs = map (\<lambda>accesses. (accesses, None)) programs"

definition finished :: "task list \<Rightarrow> bool" where
  "finished ts \<longleftrightarrow> list_all (\<lambda>t. t = ([], None)) ts"

definition new_cells :: Cells where
  "new_cells = \<lparr>ce_counters = (\<lambda>_. 0), ce_peaks = (\<lambda>_. 0), ce_outdated = (\<lambda>_. [])\<rparr>"

text \<open>The cells after the tasks of the programs, started together on new cells, have all finished.\<close>

definition completes :: "Access list list \<Rightarrow> Cells \<Rightarrow> bool" where
  "completes programs s \<longleftrightarrow>
     (\<exists>ts. parallel_step\<^sup>*\<^sup>* (new_cells, tasks_of programs) (s, ts) \<and> finished ts)"

section \<open>Commuting updates\<close>

text \<open>
  Updates that commute can be made in any order: making one of the first updates of some
  lists ahead of everything else changes nothing.
\<close>

locale commuting_updates =
  fixes update :: "'a \<Rightarrow> 's \<Rightarrow> 's"
  assumes commute: "update a (update b s) = update b (update a s)"
begin

lemma fold_permuted: "mset as = mset bs \<Longrightarrow> fold update as = fold update bs"
  by (rule fold_multiset_equiv) (auto simp: commute fun_eq_iff)

lemma mset_concat_update:
  assumes "i < length ps" and "ps ! i = a # rest"
  shows "mset (concat ps) = mset (a # concat (ps[i := rest]))"
  using assms
proof (induction ps arbitrary: i)
  case (Cons p ps)
  then show ?case by (cases i) simp_all
qed simp

lemma ahead_of_all:
  assumes "i < length ps" and "ps ! i = a # rest"
  shows "fold update (concat ps) s = fold update (concat (ps[i := rest])) (update a s)"
  using fold_permuted [OF mset_concat_update [OF assms]] by simp

end

text \<open>The latest values of the cells, without the outdated ones.\<close>

type_synonym cell_values = "(Counter \<Rightarrow> u64) \<times> (Peak \<Rightarrow> u64)"

definition values_of :: "Cells \<Rightarrow> cell_values" where
  "values_of s = (ce_counters s, ce_peaks s)"

fun effect :: "Access \<Rightarrow> cell_values \<Rightarrow> cell_values" where
  "effect (FetchAdd c v) (counters, peaks) = (counters(c := counters c + v), peaks)"
| "effect (UpdateMax p v) (counters, peaks) = (counters, peaks(p := max (peaks p) v))"

lemma effect_commute: "effect a (effect b s) = effect b (effect a s)"
  by (cases a; cases b; cases s) (auto simp: fun_eq_iff max.left_commute max.commute ac_simps)

interpretation cells: commuting_updates effect
  by unfold_locales (rule effect_commute)

lemma values_of_store [simp]: "values_of (store_peak p v s) = (ce_counters s, (ce_peaks s)(p := v))"
  by (simp add: values_of_def store_peak_def)

lemma values_of_perform: "values_of (perform a s) = effect a (values_of s)"
  by (cases a) (auto simp: values_of_def store_peak_def fun_eq_iff max_def)

lemma perform_values:
  "ce_counters (perform a s) = fst (effect a (ce_counters s, ce_peaks s))"
  "ce_peaks (perform a s) = snd (effect a (ce_counters s, ce_peaks s))"
  using values_of_perform [of a s] by (simp_all add: values_of_def prod_eq_iff)

section \<open>No update is lost\<close>

text \<open>An outdated value is at most the latest one, and so is the value a task holds as current.\<close>

definition cells_wf :: "Cells \<Rightarrow> bool" where
  "cells_wf s \<longleftrightarrow> (\<forall>p. list_all (\<lambda>v. v \<le> ce_peaks s p) (ce_outdated s p))"

fun task_wf :: "Cells \<Rightarrow> task \<Rightarrow> bool" where
  "task_wf s (accesses, None) \<longleftrightarrow> True"
| "task_wf s (UpdateMax p v # rest, Some current) \<longleftrightarrow> current \<le> ce_peaks s p"
| "task_wf s (accesses, Some current) \<longleftrightarrow> False"

lemma new_cells_wf [simp]: "cells_wf new_cells"
  by (simp add: cells_wf_def new_cells_def)

lemma held_le:
  assumes "cells_wf s" and "v \<in> set (ce_peaks s p # ce_outdated s p)"
  shows "v \<le> ce_peaks s p"
  using assms by (auto simp: cells_wf_def list_all_iff)

text \<open>Peaks only grow, so what held for a task before a step of another one still holds.\<close>

lemma store_peak_wf: "cells_wf s \<Longrightarrow> ce_peaks s p < v \<Longrightarrow> cells_wf (store_peak p v s)"
  by (simp add: cells_wf_def store_peak_def list_all_iff) (meson order.trans less_imp_le)

lemma counters_wf [simp]: "cells_wf (s\<lparr>ce_counters := counters\<rparr>) = cells_wf s"
  by (simp add: cells_wf_def)

lemma store_peak_simps [simp]: "ce_peaks (store_peak p v s) = (ce_peaks s)(p := v)"
  "ce_counters (store_peak p v s) = ce_counters s"
  by (simp_all add: store_peak_def)

lemma access_step_grows:
  assumes "access_step (s, t) (s', t')" and "cells_wf s"
  shows "cells_wf s' \<and> (\<forall>p. ce_peaks s p \<le> ce_peaks s' p)"
  using assms by (elim access_stepE) (auto simp: store_peak_wf)

lemma task_wf_grows: "task_wf s t \<Longrightarrow> \<forall>p. ce_peaks s p \<le> ce_peaks s' p \<Longrightarrow> task_wf s' t"
  by (induction s t rule: task_wf.induct) (auto intro: order.trans)

lemma access_step_wf:
  assumes "access_step (s, t) (s', t')" and "cells_wf s" and "task_wf s t"
  shows "task_wf s' t'"
  using assms by (auto elim!: access_stepE simp: cells_wf_def list_all_iff)

text \<open>A step makes the next access of its task or leaves the latest values alone.\<close>

lemma raised_already: "v \<le> peaks p \<Longrightarrow> (counters, peaks) = effect (UpdateMax p v) (counters, peaks)"
  by (simp add: max_absorb1)

lemma access_step_effect:
  assumes "access_step (s, t) (s', t')" and "task_wf s t"
  shows "(fst t' = fst t \<and> values_of s' = values_of s) \<or>
    (\<exists>a. fst t = a # fst t' \<and> values_of s' = effect a (values_of s))"
  using assms(1)
proof (elim access_stepE)
  fix current v p rest
  assume "t = (UpdateMax p v # rest, Some current)" "s' = s" "t' = (rest, None)" "\<not> current < v"
  moreover from this assms(2) have "v \<le> ce_peaks s p" by simp
  ultimately show ?thesis
    using raised_already by (auto simp: values_of_def simp del: effect.simps)
qed (auto simp: values_of_def max_absorb2 [OF less_imp_le])

text \<open>What is left to do, done in sequence, always gives the same values.\<close>

definition run_wf :: "Cells \<times> task list \<Rightarrow> bool" where
  "run_wf st \<longleftrightarrow> cells_wf (fst st) \<and> list_all (task_wf (fst st)) (snd st)"

definition outcome :: "Cells \<times> task list \<Rightarrow> cell_values" where
  "outcome st = fold effect (concat (map fst (snd st))) (values_of (fst st))"

lemma parallel_step_keeps:
  assumes "parallel_step (s, ts) (s', ts')" and "run_wf (s, ts)"
  shows "run_wf (s', ts') \<and> outcome (s', ts') = outcome (s, ts)"
proof -
  obtain i t' where run_task: "ts' = ts[i := t']" "i < length ts" "access_step (s, ts ! i) (s', t')"
    using assms(1) by (elim parallel_stepE)
  have wf: "cells_wf s" "task_wf s (ts ! i)" "list_all (task_wf s) ts"
    using assms(2) run_task(2) by (simp_all add: run_wf_def list_all_length)
  note grows = access_step_grows [OF run_task(3) wf(1)]
  have "list_all (task_wf s') ts"
    using wf(3) grows by (auto simp: list_all_iff intro: task_wf_grows)
  with access_step_wf [OF run_task(3) wf(1,2)] have "list_all (task_wf s') ts'"
    unfolding run_task(1) by (auto simp: list_all_iff dest!: set_update_subset_insert [THEN subsetD])
  with grows have run: "run_wf (s', ts')" by (simp add: run_wf_def)
  from access_step_effect [OF run_task(3) wf(2)] have "outcome (s', ts') = outcome (s, ts)"
  proof
    assume "fst t' = fst (ts ! i) \<and> values_of s' = values_of s"
    then show ?thesis
      using run_task(2) by (simp add: outcome_def run_task(1) map_update list_update_same_conv [THEN iffD2])
  next
    assume "\<exists>a. fst (ts ! i) = a # fst t' \<and> values_of s' = effect a (values_of s)"
    then obtain a where "fst (ts ! i) = a # fst t'" and "values_of s' = effect a (values_of s)" by blast
    then show ?thesis
      using cells.ahead_of_all [of i "map fst ts" a "fst t'" "values_of s"] run_task(2)
      by (simp add: outcome_def run_task(1) map_update)
  qed
  with run show ?thesis ..
qed

lemma parallel_run_keeps:
  assumes "parallel_step\<^sup>*\<^sup>* st st'" and "run_wf st"
  shows "run_wf st' \<and> outcome st' = outcome st"
  using assms
proof (induction rule: rtranclp_induct)
  case (step st' st'')
  then show ?case
    using parallel_step_keeps [of "fst st'" "snd st'" "fst st''" "snd st''"] by simp
qed simp

lemma finished_outcome: "finished ts \<Longrightarrow> outcome (s, ts) = values_of s"
  by (induction ts) (auto simp: finished_def outcome_def)

lemma completes_values:
  assumes "completes programs s"
  shows "values_of s = fold effect (concat programs) (values_of new_cells)"
proof -
  obtain ts where run: "parallel_step\<^sup>*\<^sup>* (new_cells, tasks_of programs) (s, ts)" and fin: "finished ts"
    using assms by (auto simp: completes_def)
  have "run_wf (new_cells, tasks_of programs)"
    by (simp add: run_wf_def tasks_of_def list_all_iff)
  then have "outcome (s, ts) = outcome (new_cells, tasks_of programs)"
    using parallel_run_keeps [OF run] by simp
  then show ?thesis
    by (simp add: finished_outcome [OF fin]) (simp add: outcome_def tasks_of_def comp_def)
qed

section \<open>Tasks can always finish\<close>

text \<open>Running alone, a task needs no more than three steps for an access.\<close>

lemma parallel_step_at:
  assumes "access_step (s, t) (s', t')"
  shows "parallel_step (s, ts @ t # us) (s', ts @ t' # us)"
  using run_task [of "length ts" "ts @ t # us" s s' t'] assms by simp

lemma update_max_alone:
  "parallel_step\<^sup>*\<^sup>* (s, ts @ (UpdateMax p v # rest, None) # us) (perform (UpdateMax p v) s, ts @ (rest, None) # us)"
proof -
  let ?at = "\<lambda>s t. (s, ts @ t # us)"
  have "parallel_step (?at s (UpdateMax p v # rest, None)) (?at s (UpdateMax p v # rest, Some (ce_peaks s p)))"
    by (rule parallel_step_at [OF load]) simp
  moreover have "parallel_step (?at s (UpdateMax p v # rest, Some (ce_peaks s p))) (?at (perform (UpdateMax p v) s) (rest, None))"
    by (cases "ce_peaks s p < v") (auto intro!: parallel_step_at exchange leave)
  ultimately show ?thesis by (meson converse_rtranclp_into_rtranclp rtranclp.rtrancl_refl)
qed

lemma accesses_alone:
  "parallel_step\<^sup>*\<^sup>* (s, ts @ (accesses, None) # us) (fold perform accesses s, ts @ ([], None) # us)"
proof (induction accesses arbitrary: s)
  case (Cons a accesses)
  have "parallel_step\<^sup>*\<^sup>* (s, ts @ (a # accesses, None) # us) (perform a s, ts @ (accesses, None) # us)"
  proof (cases a)
    case (FetchAdd c v)
    show ?thesis
      unfolding FetchAdd by (rule r_into_rtranclp, rule parallel_step_at, rule fetch_add)
  next
    case (UpdateMax p v)
    show ?thesis unfolding UpdateMax by (rule update_max_alone)
  qed
  also have "parallel_step\<^sup>*\<^sup>* \<dots> (fold perform accesses (perform a s), ts @ ([], None) # us)"
    by (rule Cons.IH)
  finally show ?case by simp
qed simp

lemma tasks_in_turn:
  "parallel_step\<^sup>*\<^sup>* (s, replicate n ([], None) @ tasks_of programs)
    (fold perform (concat programs) s, replicate (n + length programs) ([], None))"
proof (induction programs arbitrary: s n)
  case (Cons accesses programs)
  have "parallel_step\<^sup>*\<^sup>* (s, replicate n ([], None) @ tasks_of (accesses # programs))
      (fold perform accesses s, replicate (Suc n) ([], None) @ tasks_of programs)"
    using accesses_alone [of s "replicate n ([], None)" accesses "tasks_of programs"]
    by (simp add: tasks_of_def replicate_app_Cons_same)
  with Cons.IH [of "fold perform accesses s" "Suc n"] show ?case by (auto intro: rtranclp_trans)
qed (simp add: tasks_of_def)

lemma observers_can_finish: "completes programs (fold perform (concat programs) new_cells)"
  using tasks_in_turn [of new_cells 0 programs]
  by (auto simp: completes_def finished_def list_all_iff)

section \<open>Properties\<close>

lemma latency_fold:
  "values_of s = fold effect (concat (map latency_accesses samples)) (values_of s0) \<Longrightarrow>
    latency_snapshot s = fold latency_observe samples (latency_snapshot s0)"
proof (induction samples arbitrary: s0)
  case Nil
  then show ?case by (simp add: values_of_def latency_snapshot_def)
next
  case (Cons sample samples)
  let ?s1 = "fold perform (latency_accesses sample) s0"
  have "values_of ?s1 = fold effect (latency_accesses sample) (values_of s0)"
    by (simp add: latency_accesses_def values_of_perform del: perform.simps effect.simps)
  moreover have "latency_snapshot ?s1 = latency_observe sample (latency_snapshot s0)"
    by (simp add: latency_snapshot_def latency_observe_def latency_accesses_def Let_def perform_values del: perform.simps)
  ultimately show ?case using Cons.IH [of ?s1] Cons.prems by simp
qed

lemma lock_fold:
  "values_of s = fold effect (concat (map lock_accesses samples)) (values_of s0) \<Longrightarrow>
    lock_snapshot s = fold lock_observe samples (lock_snapshot s0)"
proof (induction samples arbitrary: s0)
  case Nil
  then show ?case by (simp add: values_of_def lock_snapshot_def)
next
  case (Cons sample samples)
  let ?s1 = "fold perform (lock_accesses sample) s0"
  have "values_of ?s1 = fold effect (lock_accesses sample) (values_of s0)"
    by (simp add: lock_accesses_def values_of_perform del: perform.simps effect.simps)
  moreover have "lock_snapshot ?s1 = lock_observe sample (lock_snapshot s0)"
    by (simp add: lock_snapshot_def lock_observe_def lock_accesses_def Let_def perform_values del: perform.simps)
  ultimately show ?case using Cons.IH [of ?s1] Cons.prems by simp
qed

text \<open>
  C19. The lock-free counters lose no observation.  However the atomic accesses of any number of
  observations interleave, with outdated loads and spuriously failing exchanges, once they have
  all finished the counters are those of the observations made one after the other.
\<close>

theorem observations_linearize:
  "(completes (map latency_accesses elapsed) s \<longrightarrow>
      latency_snapshot s = fold latency_observe elapsed (latency_snapshot new_cells)) \<and>
   (completes (map lock_accesses waits) s \<longrightarrow>
      lock_snapshot s = fold lock_observe waits (lock_snapshot new_cells))"
  using completes_values latency_fold lock_fold by blast

theorem observations_linearize_witness:
  "\<exists>s. completes (map latency_accesses [100, 300, 200]) s \<and> latency_snapshot s = \<lparr>la_operations = 3, la_total_ns = 600, la_max_ns = 300\<rparr>"
proof -
  let ?s = "fold perform (concat (map latency_accesses [100, 300, 200])) new_cells"
  have ran: "completes (map latency_accesses [100, 300, 200]) ?s" by (rule observers_can_finish)
  have "latency_snapshot ?s = fold latency_observe [100, 300, 200] (latency_snapshot new_cells)"
    using observations_linearize [where elapsed = "[100, 300, 200]" and s = ?s and waits = "[]"] ran by blast
  also have "\<dots> = \<lparr>la_operations = 3, la_total_ns = 600, la_max_ns = 300\<rparr>"
    by (simp add: latency_observe_def duration_ns_def latency_snapshot_def new_cells_def)
  finally show ?thesis using ran by blast
qed

end
