(* ===== verification/Stub_Server.thy ===== *)
theory Stub_Server
  imports Batch_Commands Streams
begin

text \<open>
  The local servers of \<^verbatim>\<open>bat-markets-testing/src/lib.rs\<close> that stand in for a venue: the REST stub
  with its HTTP framing over a byte stream, and the command websocket stub.  A byte is a
  \<^verbatim>\<open>char\<close>.  The fixture files and \<^verbatim>\<open>String::from_utf8_lossy\<close> are arguments.
\<close>

section \<open>Bytes\<close>

fun find_bytes :: "string \<Rightarrow> string \<Rightarrow> nat option" where
  "find_bytes [] needle = None"
| "find_bytes (c # cs) needle =
     (if take (length needle) (c # cs) = needle then Some 0 else map_option Suc (find_bytes cs needle))"

text \<open>\<^verbatim>\<open>str::lines\<close>: a line ends at a line feed, and a carriage return before it is not part of it.\<close>

definition strip_cr :: "string \<Rightarrow> string" where
  "strip_cr line = (if line \<noteq> [] \<and> last line = CHR 0x0D then butlast line else line)"

function str_lines :: "string \<Rightarrow> string list" where
  "str_lines raw =
     (if raw = [] then []
      else let line = takeWhile (\<lambda>c. c \<noteq> CHR 0x0A) raw; rest = dropWhile (\<lambda>c. c \<noteq> CHR 0x0A) raw in
        if rest = [] then [line] else strip_cr line # str_lines (tl rest))"
  by pat_completeness auto

termination
proof (relation "measure length")
  fix raw line rest :: string
  assume "rest = dropWhile (\<lambda>c. c \<noteq> CHR 0x0A) raw" "rest \<noteq> []"
  moreover have "length (dropWhile (\<lambda>c. c \<noteq> CHR 0x0A) raw) \<le> length raw" by (rule length_dropWhile_le)
  ultimately have "length rest \<le> length raw" and "0 < length rest" by simp_all
  then show "(tl rest, raw) \<in> measure length" by (cases rest) simp_all
qed simp

declare str_lines.simps [simp del]

definition split_once :: "char \<Rightarrow> string \<Rightarrow> (string \<times> string) option" where
  "split_once sep raw =
     (if sep \<in> set raw then Some (takeWhile (\<lambda>c. c \<noteq> sep) raw, tl (dropWhile (\<lambda>c. c \<noteq> sep) raw)) else None)"

fun split_whitespace_at :: "string \<Rightarrow> string \<Rightarrow> string list" where
  "split_whitespace_at word [] = (if word = [] then [] else [rev word])"
| "split_whitespace_at word (c # cs) =
     (if is_whitespace c then (if word = [] then split_whitespace_at [] cs else rev word # split_whitespace_at [] cs)
      else split_whitespace_at (c # word) cs)"

definition split_whitespace :: "string \<Rightarrow> string list" where
  "split_whitespace raw = split_whitespace_at [] raw"

text \<open>\<^verbatim>\<open>str::parse::<usize>()\<close>.\<close>

definition parse_usize :: "string \<Rightarrow> nat option" where
  "parse_usize raw =
     (let digits = (if raw \<noteq> [] \<and> hd raw = CHR ''+'' then tl raw else raw) in
      if digits \<noteq> [] \<and> list_all (\<lambda>c. c \<in> set ''0123456789'') digits \<and> read_nat digits < 2 ^ 64
      then Some (read_nat digits) else None)"

section \<open>The REST stub\<close>

definition CRLF :: string where
  "CRLF = [CHR 0x0D, CHR 0x0A]"

datatype StubBody = BodyFile Venue string | BodyText string

definition runtime_stub_response :: "string \<Rightarrow> string \<Rightarrow> string \<times> StubBody" where
  "runtime_stub_response http_method target =
     (let path = takeWhile (\<lambda>c. c \<noteq> CHR ''?'') target;
          found = (\<lambda>body. (''HTTP/1.1 200 OK'', body)) in
      if (http_method, path) = (''POST'', ''/fapi/v1/order/test'') then found (BodyText ''{}'')
      else if (http_method, path) = (''POST'', ''/fapi/v1/order'') then found (BodyFile Binance ''command_create_ok'')
      else if (http_method, path) = (''PUT'', ''/fapi/v1/order'') then found (BodyFile Binance ''command_amend_ok'')
      else if (http_method, path) = (''DELETE'', ''/fapi/v1/order'') then found (BodyFile Binance ''command_create_ok'')
      else if (http_method, path) = (''POST'', ''/fapi/v1/batchOrders'') then found (BodyFile Binance ''command_batch_create_ok'')
      else if (http_method, path) = (''PUT'', ''/fapi/v1/batchOrders'') then found (BodyFile Binance ''command_batch_amend_ok'')
      else if (http_method, path) = (''DELETE'', ''/fapi/v1/batchOrders'') then found (BodyFile Binance ''command_batch_cancel_ok'')
      else if (http_method, path) = (''POST'', ''/v5/order/pre-check'')
        then found (BodyText ''{\"retCode\":0,\"retMsg\":\"OK\",\"result\":{}}'')
      else if (http_method, path) = (''POST'', ''/v5/order/create'') then found (BodyFile Bybit ''command_create_ok'')
      else if (http_method, path) = (''POST'', ''/v5/order/amend'') then found (BodyFile Bybit ''command_amend_ok'')
      else if (http_method, path) = (''POST'', ''/v5/order/cancel'') then found (BodyFile Bybit ''command_create_ok'')
      else if (http_method, path) = (''POST'', ''/v5/order/create-batch'') then found (BodyFile Bybit ''command_batch_create_ok'')
      else if (http_method, path) = (''POST'', ''/v5/order/amend-batch'') then found (BodyFile Bybit ''command_batch_amend_ok'')
      else if (http_method, path) = (''POST'', ''/v5/order/cancel-batch'') then found (BodyFile Bybit ''command_batch_cancel_ok'')
      else (''HTTP/1.1 404 Not Found'', BodyText ''{\"error\":\"unsupported runtime stub path\"}''))"

text \<open>The files read at compile time and the decoding of a header.\<close>

record StubFiles =
  sf_fixture :: "Venue \<Rightarrow> string \<Rightarrow> string"
  sf_lossy :: "string \<Rightarrow> string"

fun body_text :: "StubFiles \<Rightarrow> StubBody \<Rightarrow> string" where
  "body_text F (BodyFile venue name) = sf_fixture F venue name"
| "body_text F (BodyText text) = text"

text \<open>The first line with a well-formed length decides; a malformed one is passed over.\<close>

definition content_length :: "string \<Rightarrow> nat" where
  "content_length header =
     (case List.map_filter (\<lambda>line. Option.bind (split_once (CHR '':'') line) (\<lambda>(name, value).
              if to_ascii_lowercase name = ''content-length'' then parse_usize (str_trim value) else None))
            (str_lines header) of
        [] \<Rightarrow> 0 | n # _ \<Rightarrow> n)"

definition stub_answer :: "StubFiles \<Rightarrow> string \<Rightarrow> string" where
  "stub_answer F header =
     (let words = split_whitespace (case str_lines header of [] \<Rightarrow> [] | line # _ \<Rightarrow> line);
          http_method = (case words of w # _ \<Rightarrow> w | [] \<Rightarrow> []);
          target = (case words of _ # w # _ \<Rightarrow> w | _ \<Rightarrow> []);
          (status_line, body) = runtime_stub_response http_method target in
      status_line @ CRLF @ ''content-type: application/json'' @ CRLF @ ''content-length: '' @
        show_nat (length (body_text F body)) @ CRLF @ ''connection: keep-alive'' @ CRLF @ CRLF @ body_text F body)"

text \<open>
  What reading from the socket can yield: some bytes (none when the peer has closed), nothing
  within the timeout, or an error.  An empty list of reads is a timeout.
  The handler ends when the peer is silent or gone, with an error, or in a panic: a test build
  checks the addition of the lengths.
\<close>

datatype StubRead = ReadBytes string | ReadTimedOut | ReadFailed string

datatype StubEnd = StubClosed | StubFailed string | StubPanicked

fun read_until :: "(string \<Rightarrow> 'r option) \<Rightarrow> string \<Rightarrow> StubRead list \<Rightarrow> StubEnd + ('r \<times> string \<times> StubRead list)" where
  "read_until ready buffer [] =
     (case ready buffer of Some r \<Rightarrow> Inr (r, buffer, []) | None \<Rightarrow> Inl StubClosed)"
| "read_until ready buffer (ReadBytes bytes # reads) =
     (case ready buffer of
        Some r \<Rightarrow> Inr (r, buffer, ReadBytes bytes # reads)
      | None \<Rightarrow> if bytes = [] then Inl StubClosed else read_until ready (buffer @ bytes) reads)"
| "read_until ready buffer (ReadTimedOut # reads) =
     (case ready buffer of Some r \<Rightarrow> Inr (r, buffer, ReadTimedOut # reads) | None \<Rightarrow> Inl StubClosed)"
| "read_until ready buffer (ReadFailed err # reads) =
     (case ready buffer of Some r \<Rightarrow> Inr (r, buffer, ReadFailed err # reads) | None \<Rightarrow> Inl (StubFailed err))"

fun bytes_read :: "StubRead \<Rightarrow> string" where
  "bytes_read (ReadBytes bytes) = bytes"
| "bytes_read _ = []"

definition header_end :: "string \<Rightarrow> nat option" where
  "header_end buffer = map_option (\<lambda>index. index + 4) (find_bytes buffer (CRLF @ CRLF))"

definition request_complete :: "nat \<Rightarrow> string \<Rightarrow> unit option" where
  "request_complete n buffer = (if length buffer < n then None else Some ())"

lemma read_until_bytes:
  "read_until ready buffer reads = Inr (r, buffer', reads') \<Longrightarrow>
    ready buffer' = Some r \<and> buffer' @ concat (map bytes_read reads') = buffer @ concat (map bytes_read reads)"
  by (induction ready buffer reads rule: read_until.induct) (auto split: option.splits if_splits)

lemma find_bytes_length: "find_bytes hay needle = Some i \<Longrightarrow> i + length needle \<le> length hay"
  by (induction hay arbitrary: i)
    (fastforce simp: min_def dest: arg_cong [of _ _ length] split: if_splits)+

lemma header_end_length: "header_end buffer = Some n \<Longrightarrow> 4 \<le> n \<and> n \<le> length buffer"
  by (auto simp: header_end_def CRLF_def dest: find_bytes_length)

text \<open>\<open>writes k\<close> is the error of writing the \<open>k\<close>-th response, if any; the responses written come first.\<close>

function handle_runtime_stub_connection ::
  "StubFiles \<Rightarrow> (nat \<Rightarrow> string option) \<Rightarrow> nat \<Rightarrow> string \<Rightarrow> StubRead list \<Rightarrow> string list \<times> StubEnd" where
  "handle_runtime_stub_connection F writes k buffer reads =
     (case read_until header_end buffer reads of
        Inl stop \<Rightarrow> ([], stop)
      | Inr (request_end, buffer1, reads1) \<Rightarrow>
          (let header = sf_lossy F (take request_end buffer1);
               n = request_end + content_length header in
           if 2 ^ 64 \<le> n then ([], StubPanicked) else
           case read_until (request_complete n) buffer1 reads1 of
             Inl stop \<Rightarrow> ([], stop)
           | Inr (_, buffer2, reads2) \<Rightarrow>
               (case writes k of
                  Some err \<Rightarrow> ([], StubFailed err)
                | None \<Rightarrow>
                    (let (answers, result) = handle_runtime_stub_connection F writes (Suc k) (drop n buffer2) reads2 in
                     (stub_answer F header # answers, result)))))"
  by pat_completeness auto

termination
proof (relation "measure (\<lambda>(F, writes, k, buffer, reads). length (buffer @ concat (map bytes_read reads)))")
  fix F :: StubFiles and writes :: "nat \<Rightarrow> string option" and k :: nat and buffer and reads
    and x :: "nat \<times> string \<times> StubRead list" and request_end y buffer1 reads1 header and n :: nat and z u v buffer2 reads2
  assume "read_until header_end buffer reads = Inr x" "(request_end, y) = x" "(buffer1, reads1) = y"
    and "n = request_end + content_length header"
    and "read_until (request_complete n) buffer1 reads1 = Inr z" "(u, v) = z" "(buffer2, reads2) = v"
  then have reads: "read_until header_end buffer reads = Inr (request_end, buffer1, reads1)"
      "read_until (request_complete n) buffer1 reads1 = Inr (u, buffer2, reads2)" and n: "request_end \<le> n"
    by auto
  have "4 \<le> n" and "n \<le> length buffer2"
    using read_until_bytes [OF reads(1)] read_until_bytes [OF reads(2)] n header_end_length [of buffer1 request_end]
    by (auto simp: request_complete_def split: if_splits)
  moreover have "length (buffer2 @ concat (map bytes_read reads2)) = length (buffer @ concat (map bytes_read reads))"
    using read_until_bytes [OF reads(1)] read_until_bytes [OF reads(2)] by simp
  ultimately show "((F, writes, Suc k, drop n buffer2, reads2), (F, writes, k, buffer, reads))
      \<in> measure (\<lambda>(F, writes, k, buffer, reads). length (buffer @ concat (map bytes_read reads)))"
    by simp
qed simp

declare handle_runtime_stub_connection.simps [simp del]

section \<open>The servers\<close>

text \<open>
  The accept loop.  A connection comes with the stop flag as it is read after the accept; a
  failed accept ends the list.  What the handler returns is dropped, a panic ends the thread.
\<close>

record StubConnection =
  sc_stopped :: bool
  sc_writes :: "nat \<Rightarrow> string option"
  sc_reads :: "StubRead list"

fun run_runtime_rest_stub :: "StubFiles \<Rightarrow> StubConnection list \<Rightarrow> string list list" where
  "run_runtime_rest_stub F [] = []"
| "run_runtime_rest_stub F (conn # conns) =
     (if sc_stopped conn then []
      else let (answers, result) = handle_runtime_stub_connection F (sc_writes conn) 0 [] (sc_reads conn) in
        answers # (if result = StubPanicked then [] else run_runtime_rest_stub F conns))"

section \<open>The command websocket stub\<close>

fun runtime_value_as_string :: "Json \<Rightarrow> string option" where
  "runtime_value_as_string (JString raw) = Some raw"
| "runtime_value_as_string (JNumber raw _) = Some raw"
| "runtime_value_as_string _ = None"

definition runtime_value_as_i64 :: "Json \<Rightarrow> int option" where
  "runtime_value_as_i64 v = or_else (json_as_i64 v) (Option.bind (json_as_str v) parse_i64)"

definition unwrap_or :: "'a \<Rightarrow> 'a option \<Rightarrow> 'a" where
  "unwrap_or dflt x = (case x of None \<Rightarrow> dflt | Some v \<Rightarrow> v)"

lemma unwrap_or_simps [simp]: "unwrap_or dflt None = dflt" "unwrap_or dflt (Some v) = v"
  by (simp_all add: unwrap_or_def)

definition runtime_command_ws_response_binance :: "Json \<Rightarrow> Json option" where
  "runtime_command_ws_response_binance value =
     Option.bind (json_get ''id'' value) (\<lambda>rid.
     Option.bind (Option.bind (json_get ''method'' value) json_as_str) (\<lambda>http_method.
     Option.bind (json_get ''params'' value) (\<lambda>params.
       case params of JObject _ \<Rightarrow>
         (let symbol = unwrap_or ''BTCUSDT'' (Option.bind (json_get ''symbol'' params) json_as_str);
              order_id = unwrap_or 123456 (Option.bind (json_get ''orderId'' params) runtime_value_as_i64);
              client_order_id = unwrap_or (''stub-'' @ http_method @ ''-'' @ show_int order_id)
                (Option.bind (or_else (json_get ''newClientOrderId'' params) (json_get ''origClientOrderId'' params))
                  runtime_value_as_string) in
          Some (json_object [(''id'', rid), (''status'', json_i64 200),
            (''result'', json_object [(''symbol'', JString symbol), (''orderId'', json_i64 order_id),
               (''clientOrderId'', JString client_order_id)])]))
       | _ \<Rightarrow> None)))"

text \<open>The accepted answer of Bybit with its result and, for a batch, the codes of the items.\<close>

definition bybit_stub_ok :: "string \<Rightarrow> string \<Rightarrow> Json \<Rightarrow> (string \<times> Json) list \<Rightarrow> Json" where
  "bybit_stub_ok req_id op result extra =
     json_object ([(''reqId'', JString req_id), (''op'', JString op), (''retCode'', json_i64 0),
       (''retMsg'', JString ''OK''), (''result'', result)] @ extra @ [(''connId'', JString ''stub-bybit'')])"

definition bybit_stub_order :: "string \<Rightarrow> (string \<Rightarrow> string) \<Rightarrow> Json \<Rightarrow> Json" where
  "bybit_stub_order default_link default_id item =
     (let symbol = unwrap_or ''BTCUSDT'' (Option.bind (json_get ''symbol'' item) json_as_str);
          order_link_id = unwrap_or default_link
            (Option.bind (or_else (json_get ''orderLinkId'' item) (json_get ''orderLinkID'' item)) runtime_value_as_string);
          order_id = unwrap_or (default_id order_link_id) (Option.bind (json_get ''orderId'' item) runtime_value_as_string) in
      json_object [(''symbol'', JString symbol), (''orderId'', JString order_id), (''orderLinkId'', JString order_link_id)])"

definition bybit_stub_batch :: "string \<Rightarrow> string \<Rightarrow> Json list \<Rightarrow> Json" where
  "bybit_stub_batch req_id op items =
     (let results = map (\<lambda>(index, item). bybit_stub_order (''stub-bybit-'' @ show_nat index)
            (\<lambda>_. op @ ''-'' @ show_nat index) item) (enumerate 0 items) in
      bybit_stub_ok req_id op (json_object [(''list'', JArray results)])
        [(''retExtInfo'', json_object [(''list'',
            JArray (map (\<lambda>_. json_object [(''code'', json_i64 0), (''msg'', JString ''OK'')]) results))])])"

definition runtime_command_ws_response_bybit :: "Json \<Rightarrow> Json option" where
  "runtime_command_ws_response_bybit value =
     Option.bind (Option.bind (json_get ''op'' value) json_as_str) (\<lambda>op.
     Option.bind (Option.bind (or_else (json_get ''reqId'' value) (json_get ''req_id'' value)) runtime_value_as_string) (\<lambda>req_id.
       if op = ''auth'' then
         Some (json_object [(''reqId'', JString req_id), (''op'', JString ''auth''), (''success'', JBool True),
           (''retCode'', json_i64 0), (''retMsg'', JString ''OK''), (''connId'', JString ''stub-bybit'')])
       else if op = ''ping'' then Some (json_object [(''op'', JString ''pong'')])
       else
         Option.bind (Option.bind (json_get ''args'' value) json_elements) (\<lambda>args.
           case args of [] \<Rightarrow> None
           | first # _ \<Rightarrow> Some
               (if op \<in> {''order.create'', ''order.amend'', ''order.cancel''} then
                  bybit_stub_ok req_id op (bybit_stub_order ''stub-bybit-1'' (\<lambda>link. op @ ''-'' @ link) first) []
                else if op \<in> {''order.create-batch'', ''order.amend-batch'', ''order.cancel-batch''} then
                  bybit_stub_batch req_id op
                    (unwrap_or [] (Option.bind (json_get ''request'' first) json_elements))
                else bybit_stub_ok req_id op (json_object []) []))))"

definition runtime_command_ws_response :: "json_parser \<Rightarrow> (Json \<Rightarrow> string) \<Rightarrow> Venue \<Rightarrow> string \<Rightarrow> string option" where
  "runtime_command_ws_response parse render venue payload =
     (case parse payload of
        Inl _ \<Rightarrow> None
      | Inr value \<Rightarrow>
          (case venue of
             Binance \<Rightarrow> map_option render (runtime_command_ws_response_binance value)
           | Bybit \<Rightarrow> map_option render (runtime_command_ws_response_bybit value)
           | Mexc \<Rightarrow> None))"

datatype StubFrame =
    StubText string | StubPing string | StubClosing | StubOtherFrame | StubQuiet | StubBroken string

datatype StubSent = SentText string | SentPong string

text \<open>\<open>fails k\<close> is the error of the \<open>k\<close>-th send, if any.  An empty list of frames is a timeout.\<close>

fun command_ws_frames ::
  "(string \<Rightarrow> string option) \<Rightarrow> (nat \<Rightarrow> string option) \<Rightarrow> nat \<Rightarrow> StubFrame list \<Rightarrow> StubSent list \<times> StubEnd" where
  "command_ws_frames respond fails k [] = ([], StubClosed)"
| "command_ws_frames respond fails k (StubText payload # frames) =
     (case respond payload of
        None \<Rightarrow> command_ws_frames respond fails k frames
      | Some response \<Rightarrow>
          (case fails k of
             Some err \<Rightarrow> ([], StubFailed (''websocket send failed: '' @ err))
           | None \<Rightarrow> apfst (Cons (SentText response)) (command_ws_frames respond fails (Suc k) frames)))"
| "command_ws_frames respond fails k (StubPing payload # frames) =
     (case fails k of
        Some err \<Rightarrow> ([], StubFailed (''websocket pong failed: '' @ err))
      | None \<Rightarrow> apfst (Cons (SentPong payload)) (command_ws_frames respond fails (Suc k) frames))"
| "command_ws_frames respond fails k (StubClosing # frames) = ([], StubClosed)"
| "command_ws_frames respond fails k (StubOtherFrame # frames) = command_ws_frames respond fails k frames"
| "command_ws_frames respond fails k (StubQuiet # frames) = ([], StubClosed)"
| "command_ws_frames respond fails k (StubBroken err # frames) = ([], StubFailed (''websocket read failed: '' @ err))"

definition handle_runtime_command_ws_connection ::
  "json_parser \<Rightarrow> (Json \<Rightarrow> string) \<Rightarrow> Venue \<Rightarrow> string option \<Rightarrow> (nat \<Rightarrow> string option) \<Rightarrow> StubFrame list \<Rightarrow>
     StubSent list \<times> StubEnd" where
  "handle_runtime_command_ws_connection parse render venue accepted fails frames =
     (case accepted of
        Some err \<Rightarrow> ([], StubFailed (''websocket accept failed: '' @ err))
      | None \<Rightarrow> command_ws_frames (runtime_command_ws_response parse render venue) fails 0 frames)"

section \<open>Framing\<close>

text \<open>
  The answers to a sequence of bytes that is there as a whole: one for each complete
  request, in order, up to a length that cannot be added.
\<close>

function answers_to :: "StubFiles \<Rightarrow> string \<Rightarrow> string list \<times> StubEnd" where
  "answers_to F bytes =
     (case header_end bytes of
        None \<Rightarrow> ([], StubClosed)
      | Some request_end \<Rightarrow>
          (let header = sf_lossy F (take request_end bytes);
               n = request_end + content_length header in
           if 2 ^ 64 \<le> n then ([], StubPanicked)
           else if length bytes < n then ([], StubClosed)
           else (let (answers, result) = answers_to F (drop n bytes) in (stub_answer F header # answers, result))))"
  by pat_completeness auto

termination
  by (relation "measure (\<lambda>(F, bytes). length bytes)") (auto dest!: header_end_length)

declare answers_to.simps [simp del]

lemma find_bytes_append: "find_bytes hay needle = Some i \<Longrightarrow> find_bytes (hay @ later) needle = Some i"
proof (induction hay arbitrary: i)
  case (Cons c cs)
  show ?case
  proof (cases "take (length needle) (c # cs) = needle")
    case True
    then have "length needle \<le> length (c # cs)" by (metis length_take min.cobounded1 nat_le_linear take_all)
    then have "take (length needle) ((c # cs) @ later) = take (length needle) (c # cs)"
      unfolding take_append by simp
    with True have "take (length needle) (c # cs @ later) = needle" by (simp only: append_Cons)
    with True Cons.prems show ?thesis by simp
  next
    case False
    with Cons.prems obtain j where j: "find_bytes cs needle = Some j" "i = Suc j" by auto
    then have len: "length needle \<le> length (c # cs)" using find_bytes_length [of cs needle j] by simp
    then have "take (length needle) ((c # cs) @ later) = take (length needle) (c # cs)"
      unfolding take_append by simp
    with False have "take (length needle) (c # cs @ later) \<noteq> needle"
      by (simp only: append_Cons not_False_eq_True)
    with j Cons.IH show ?thesis by simp
  qed
qed simp

lemma header_end_append: "header_end bytes = Some n \<Longrightarrow> header_end (bytes @ later) = Some n"
  by (auto simp: header_end_def find_bytes_append)

lemma request_complete_append: "request_complete n bytes = Some r \<Longrightarrow> request_complete n (bytes @ later) = Some r"
  by (auto simp: request_complete_def split: if_splits)

text \<open>
  Reading until a condition holds that stays true as bytes arrive: when it does not hold for
  all the bytes there are, the loop ends with a timeout, otherwise it holds at its end.
\<close>

definition data_reads :: "string list \<Rightarrow> StubRead list" where
  "data_reads pieces = map ReadBytes (filter (\<lambda>piece. piece \<noteq> []) pieces)"

lemma data_reads_simps [simp]:
  "data_reads [] = []"
  "data_reads (piece # pieces) = (if piece = [] then data_reads pieces else ReadBytes piece # data_reads pieces)"
  by (simp_all add: data_reads_def)

lemma read_until_data:
  assumes mono: "\<And>bytes later r. ready bytes = Some r \<Longrightarrow> ready (bytes @ later) = Some r"
  shows "case ready (buffer @ concat pieces) of
      None \<Rightarrow> read_until ready buffer (data_reads pieces) = Inl StubClosed
    | Some r \<Rightarrow> \<exists>buffer' pieces'. read_until ready buffer (data_reads pieces) = Inr (r, buffer', data_reads pieces') \<and>
        buffer' @ concat pieces' = buffer @ concat pieces \<and> ready buffer' = Some r"
proof (induction pieces arbitrary: buffer)
  case Nil
  then show ?case by (auto split: option.split intro!: exI [of _ "[]"])
next
  case (Cons piece pieces)
  consider (skip) "piece = []" | (ready) r where "piece \<noteq> []" "ready buffer = Some r"
    | (wait) "piece \<noteq> []" "ready buffer = None"
    by (cases "ready buffer") auto
  then show ?case
  proof cases
    case skip
    then have "data_reads (piece # pieces) = data_reads pieces" "concat (piece # pieces) = concat pieces" by simp_all
    then show ?thesis using Cons.IH [of buffer] by (simp only:)
  next
    case ready
    then show ?thesis
      using mono [OF ready(2)] by (auto intro!: exI [of _ "piece # pieces"])
  next
    case wait
    then have "read_until ready buffer (data_reads (piece # pieces)) = read_until ready (buffer @ piece) (data_reads pieces)"
      and "buffer @ concat (piece # pieces) = (buffer @ piece) @ concat pieces" by simp_all
    then show ?thesis using Cons.IH [of "buffer @ piece"] by (simp only:)
  qed
qed

lemma connection_answers:
  "handle_runtime_stub_connection F (\<lambda>_. None) k buffer (data_reads pieces) =
     answers_to F (buffer @ concat pieces)"
proof (induction "length (buffer @ concat pieces)" arbitrary: k buffer pieces rule: less_induct)
  case less
  define all where "all = buffer @ concat pieces"
  note step = handle_runtime_stub_connection.simps [of F "\<lambda>_. None" k buffer "data_reads pieces"]
    answers_to.simps [of F all]
  note start = read_until_data [of header_end buffer pieces, OF header_end_append, folded all_def]
  show ?case unfolding all_def [symmetric]
  proof (cases "header_end all")
    case None
    with start show "handle_runtime_stub_connection F (\<lambda>_. None) k buffer (data_reads pieces) = answers_to F all"
      by (simp add: step)
  next
    case (Some request_end)
    with start obtain buffer1 pieces1
      where read1: "read_until header_end buffer (data_reads pieces) = Inr (request_end, buffer1, data_reads pieces1)"
        and all1: "buffer1 @ concat pieces1 = all" and end1: "header_end buffer1 = Some request_end"
      by auto
    have header: "take request_end buffer1 = take request_end all"
      using header_end_length [OF end1] unfolding all1 [symmetric] by simp
    define n where "n = request_end + content_length (sf_lossy F (take request_end all))"
    note body = read_until_data [of "request_complete n" buffer1 pieces1, OF request_complete_append, unfolded all1]
    consider (panic) "2 ^ 64 \<le> n" | (short) "n < 2 ^ 64" "length all < n" | (full) "n < 2 ^ 64" "n \<le> length all"
      by linarith
    then show "handle_runtime_stub_connection F (\<lambda>_. None) k buffer (data_reads pieces) = answers_to F all"
    proof cases
      case panic
      with Some read1 show ?thesis by (simp add: step header Let_def n_def [symmetric])
    next
      case short
      then have "read_until (request_complete n) buffer1 (data_reads pieces1) = Inl StubClosed"
        using body by (simp add: request_complete_def)
      with short Some read1 show ?thesis by (simp add: step header Let_def n_def [symmetric])
    next
      case full
      then have "request_complete n all = Some ()" by (simp add: request_complete_def)
      with body obtain buffer2 pieces2
        where read2: "read_until (request_complete n) buffer1 (data_reads pieces1) = Inr ((), buffer2, data_reads pieces2)"
          and all2: "buffer2 @ concat pieces2 = all" and end2: "n \<le> length buffer2"
        by (auto simp: request_complete_def split: if_splits)
      have rest: "drop n buffer2 @ concat pieces2 = drop n all"
        using end2 unfolding all2 [symmetric] by simp
      have "0 < n" using header_end_length [OF end1] by (simp add: n_def)
      with full have "length (drop n all) < length all" by simp
      then have "handle_runtime_stub_connection F (\<lambda>_. None) (Suc k) (drop n buffer2) (data_reads pieces2) =
          answers_to F (drop n all)"
        using less.hyps [of "drop n buffer2" pieces2 "Suc k"] unfolding rest all_def [symmetric] by simp
      with full Some read1 read2 show ?thesis by (simp add: step header Let_def n_def [symmetric])
    qed
  qed
qed

section \<open>What the runtime makes of the stub\<close>

lemma json_get_object:
  "json_get key (json_object entries) = bt_get (bt_extend fst snd [] entries) key"
  by (simp add: json_object_def)

lemmas json_object_eval = json_object_def bt_extend_def bt_get_def

lemma bybit_stub_batch_fields:
  "json_get ''reqId'' (bybit_stub_batch req_id op items) = Some (JString req_id)"
  "json_get ''retCode'' (bybit_stub_batch req_id op items) = Some (json_i64 0)"
  "length (json_list_at ''result'' (bybit_stub_batch req_id op items)) = length items"
  "json_list_at ''retExtInfo'' (bybit_stub_batch req_id op items) =
     replicate (length items) (json_object [(''code'', json_i64 0), (''msg'', JString ''OK'')])"
  by (simp_all add: bybit_stub_batch_def bybit_stub_ok_def json_list_at_def json_object_eval json_elements_def
      Let_def map_replicate_const)

text \<open>The frame the runtime sends for a batch, and what the stub answers to it.\<close>

definition bybit_batch_frame :: "string \<Rightarrow> Json \<Rightarrow> string \<Rightarrow> Json list \<Rightarrow> Json" where
  "bybit_batch_frame req_id header verb batch =
     json_object [(''reqId'', JString req_id), (''header'', header), (''op'', JString (''order.'' @ verb @ ''-batch'')),
       (''args'', JArray [json_object [(''category'', JString ''linear''), (''request'', JArray batch)]])]"

lemma bybit_batch_frame_answer:
  assumes "verb \<in> {''create'', ''amend'', ''cancel''}"
  shows "runtime_command_ws_response_bybit (bybit_batch_frame req_id header verb batch) =
    Some (bybit_stub_batch req_id (''order.'' @ verb @ ''-batch'') batch)"
  using assms by (auto simp: runtime_command_ws_response_bybit_def bybit_batch_frame_def json_object_eval
      json_elements_def or_else_def)

lemma stub_batch_receipt:
  "Option.bind (json_get ''code'' (json_object [(''code'', json_i64 0), (''msg'', JString ''OK'')])) value_as_i64 = Some 0"
  by (simp add: json_object_eval value_as_i64_def json_i64_def)

lemma bybit_stub_classified:
  assumes reply: "lc_parse_json ctx payload = Inr (bybit_stub_batch req_id op items)"
    and len: "length identities = length items"
  shows "\<exists>receipts. classify_bybit_batch_payload ctx operation identities payload s = (Ok receipts, s) \<and>
    map rcp_request_id receipts = map bi_request_id identities \<and> list_all (\<lambda>r. rcp_status r = Accepted) receipts"
proof -
  let ?reply = "bybit_stub_batch req_id op items"
  let ?receipts = "\<lambda>catalog. map (\<lambda>(index, identity).
      bybit_batch_receipt ctx catalog operation ?reply (nth_option (json_list_at ''result'' ?reply) index)
        (nth_option (json_list_at ''retExtInfo'' ?reply) index) identity) (enumerate 0 identities)"
  have "classify_bybit_batch_payload ctx operation identities payload s = (Ok (?receipts (lr_catalog s)), s)"
    by (simp add: classify_bybit_batch_payload_def reply map_err_def rt_bind_def rt_lift_def rt_read_def rt_return_def
        bybit_stub_batch_fields len value_as_i64_def json_i64_def Let_def)
  moreover have "map rcp_request_id (?receipts catalog) = map bi_request_id identities" for catalog
    by (rule nth_equalityI) (simp_all add: bybit_batch_receipt_def Let_def nth_enumerate_eq)
  moreover have "list_all (\<lambda>r. rcp_status r = Accepted) (?receipts catalog)" for catalog
    using len by (simp add: list_all_length bybit_batch_receipt_def Let_def nth_enumerate_eq bybit_stub_batch_fields
        nth_option_def stub_batch_receipt)
  ultimately show ?thesis by blast
qed

text \<open>
  The answer of the command websocket stub to a Bybit batch frame carries the request id of the
  frame, and the runtime classifies it into one accepted receipt per order, in the order of the
  request and with its request id, leaving the state as it is.
\<close>

theorem stub_batch_accepted:
  "list_all (\<lambda>verb.
     case runtime_command_ws_response_bybit (bybit_batch_frame req_id header verb (map fst orders)) of
       None \<Rightarrow> False
     | Some reply \<Rightarrow>
         json_get ''reqId'' reply = Some (JString req_id) \<and>
         (\<exists>receipts. classify_bybit_batch_payload (ctx\<lparr>lc_parse_json := \<lambda>_. Inr reply\<rparr>) operation (map snd orders) payload s =
              (Ok receipts, s) \<and>
            map rcp_request_id receipts = map (bi_request_id \<circ> snd) orders \<and>
            list_all (\<lambda>r. rcp_status r = Accepted) receipts))
   [''create'', ''amend'', ''cancel'']"
  using bybit_stub_classified [of "ctx\<lparr>lc_parse_json := \<lambda>_. Inr (bybit_stub_batch req_id op (map fst orders))\<rparr>" payload req_id op
      "map fst orders" "map snd orders" operation s for op]
  by (simp add: bybit_batch_frame_answer bybit_stub_batch_fields)

text \<open>
  C40. The REST stub answers a byte stream request by request whatever way the bytes are cut into
  reads: the responses and the end are those of the bytes as a whole.
\<close>

theorem stub_framing_exact:
  "handle_runtime_stub_connection F (\<lambda>_. None) k [] (data_reads pieces) = answers_to F (concat pieces)"
  using connection_answers [of F k "[]" pieces] by simp

end
