(* ===== verification/Stub_Clients.thy ===== *)
theory Stub_Clients
  imports Stub_Server Facade
begin

text \<open>
  The clients of \<^verbatim>\<open>bat-markets-testing/src/lib.rs\<close>: the endpoints of the live tests, taken from the
  environment, the clients that talk to the local stubs and the requests they send.
  \<^verbatim>\<open>std::env::var\<close> is an argument, \<open>None\<close> for a variable that is not set or not unicode.
\<close>

section \<open>Live test configuration\<close>

datatype LiveTestEndpointMode = Sandbox | Mainnet

fun live_test_auth_config :: "Venue \<Rightarrow> AuthConfig" where
  "live_test_auth_config Binance = Env ''BINANCE_API_KEY'' ''BINANCE_API_SECRET''"
| "live_test_auth_config Bybit = Env ''BYBIT_API_KEY'' ''BYBIT_API_SECRET''"
| "live_test_auth_config Mexc = Env ''MEXC_API_KEY'' ''MEXC_API_SECRET''"

fun live_test_rest_base_var :: "Venue \<Rightarrow> string" where
  "live_test_rest_base_var Binance = ''BINANCE_BASE_URL''"
| "live_test_rest_base_var Bybit = ''BYBIT_BASE_URL''"
| "live_test_rest_base_var Mexc = ''MEXC_BASE_URL''"

fun live_test_public_ws_vars :: "Venue \<Rightarrow> string list" where
  "live_test_public_ws_vars Binance =
     [''BINANCE_PUBLIC_WS_BASE_URL'', ''BINANCE_PUBLIC_WS_URL'', ''BINANCE_WS_PUBLIC_URL'']"
| "live_test_public_ws_vars Bybit =
     [''BYBIT_PUBLIC_WS_BASE_URL'', ''BYBIT_PUBLIC_WS_URL'', ''BYBIT_WS_PUBLIC_URL'']"
| "live_test_public_ws_vars Mexc =
     [''MEXC_PUBLIC_WS_BASE_URL'', ''MEXC_PUBLIC_WS_URL'', ''MEXC_WS_PUBLIC_URL'']"

fun live_test_private_ws_vars :: "Venue \<Rightarrow> string list" where
  "live_test_private_ws_vars Binance =
     [''BINANCE_PRIVATE_WS_BASE_URL'', ''BINANCE_PRIVATE_WS_URL'', ''BINANCE_WS_PRIVATE_URL'']"
| "live_test_private_ws_vars Bybit =
     [''BYBIT_PRIVATE_WS_BASE_URL'', ''BYBIT_PRIVATE_WS_URL'', ''BYBIT_WS_PRIVATE_URL'']"
| "live_test_private_ws_vars Mexc =
     [''MEXC_PRIVATE_WS_BASE_URL'', ''MEXC_PRIVATE_WS_URL'', ''MEXC_WS_PRIVATE_URL'']"

fun live_test_command_ws_vars :: "Venue \<Rightarrow> string list" where
  "live_test_command_ws_vars Binance =
     [''BINANCE_COMMAND_WS_BASE_URL'', ''BINANCE_COMMAND_WS_URL'', ''BINANCE_WS_COMMAND_URL'']"
| "live_test_command_ws_vars Bybit =
     [''BYBIT_COMMAND_WS_BASE_URL'', ''BYBIT_COMMAND_WS_URL'', ''BYBIT_WS_COMMAND_URL'']"
| "live_test_command_ws_vars Mexc =
     [''MEXC_COMMAND_WS_BASE_URL'', ''MEXC_COMMAND_WS_URL'', ''MEXC_WS_COMMAND_URL'']"

definition str_contains :: "string \<Rightarrow> string \<Rightarrow> bool" where
  "str_contains raw needle \<longleftrightarrow> find_bytes raw needle \<noteq> None"

definition infer_live_test_endpoint_mode :: "string option \<Rightarrow> LiveTestEndpointMode \<Rightarrow> LiveTestEndpointMode" where
  "infer_live_test_endpoint_mode rest_base default_mode =
     (case rest_base of
        None \<Rightarrow> default_mode
      | Some raw \<Rightarrow>
          (let rest_base = to_ascii_lowercase (str_trim raw) in
           if str_contains rest_base ''testnet'' \<or> str_contains rest_base ''demo-'' \<or> str_contains rest_base ''demo.''
           then Sandbox else Mainnet))"

definition env_var_non_empty :: "(string \<Rightarrow> string option) \<Rightarrow> string \<Rightarrow> string option" where
  "env_var_non_empty env name =
     Option.bind (map_option str_trim (env name)) (\<lambda>value. if value = [] then None else Some value)"

definition first_non_empty_env :: "(string \<Rightarrow> string option) \<Rightarrow> string list \<Rightarrow> string option" where
  "first_non_empty_env env candidates =
     (case List.map_filter (env_var_non_empty env) candidates of [] \<Rightarrow> None | value # _ \<Rightarrow> Some value)"

definition live_test_endpoint_config ::
  "(string \<Rightarrow> string option) \<Rightarrow> Venue \<Rightarrow> LiveTestEndpointMode \<Rightarrow> EndpointConfig" where
  "live_test_endpoint_config env venue default_mode =
     (let rest_base = env_var_non_empty env (live_test_rest_base_var venue);
          endpoints =
            (case infer_live_test_endpoint_mode rest_base default_mode of
               Sandbox \<Rightarrow> sandbox_defaults venue | Mainnet \<Rightarrow> mainnet_defaults venue) in
      endpoints
        \<lparr>ep_rest_base := unwrap_or (ep_rest_base endpoints) rest_base,
         ep_public_ws_base := unwrap_or (ep_public_ws_base endpoints)
           (first_non_empty_env env (live_test_public_ws_vars venue)),
         ep_private_ws_base := unwrap_or (ep_private_ws_base endpoints)
           (first_non_empty_env env (live_test_private_ws_vars venue)),
         ep_command_ws_base := unwrap_or (ep_command_ws_base endpoints)
           (first_non_empty_env env (live_test_command_ws_vars venue))\<rparr>)"

definition live_test_config :: "(string \<Rightarrow> string option) \<Rightarrow> Venue \<Rightarrow> LiveTestEndpointMode \<Rightarrow> BatMarketsConfig" where
  "live_test_config env venue default_mode =
     (config_new venue LinearUsdt)
       \<lparr>cfg_auth := live_test_auth_config venue, cfg_endpoints := live_test_endpoint_config env venue default_mode\<rparr>"

definition live_test_uses_sandbox :: "(string \<Rightarrow> string option) \<Rightarrow> Venue \<Rightarrow> LiveTestEndpointMode \<Rightarrow> bool" where
  "live_test_uses_sandbox env venue default_mode \<longleftrightarrow> ep_sandbox (live_test_endpoint_config env venue default_mode)"

section \<open>Stub clients\<close>

fun debug_venue :: "Venue \<Rightarrow> string" where
  "debug_venue Binance = ''Binance''"
| "debug_venue Bybit = ''Bybit''"
| "debug_venue Mexc = ''Mexc''"

text \<open>The two stub clients differ in the command endpoint only.\<close>

definition stub_client_config :: "Venue \<Rightarrow> string \<Rightarrow> string \<Rightarrow> BatMarketsConfig" where
  "stub_client_config venue rest_base command_ws_base =
     (config_new venue LinearUsdt)
       \<lparr>cfg_auth := Inline (debug_venue venue @ ''-bench-key'') (debug_venue venue @ ''-bench-secret''),
        cfg_endpoints := \<lparr>ep_rest_base = rest_base, ep_public_ws_base = ''ws://127.0.0.1/unused-public'',
          ep_private_ws_base = ''ws://127.0.0.1/unused-private'', ep_command_ws_base = command_ws_base,
          ep_sandbox = True\<rparr>,
        cfg_rate_limits := \<lparr>rl_command_burst = 10000, rl_command_refill_per_second = 10000\<rparr>,
        cfg_timeouts := \<lparr>to_connect_ms = 250, to_request_ms = 500, to_command_ms = 500,
          to_ws_handshake_ms = 500, to_ws_idle_ms = 1000\<rparr>\<rparr>"

text \<open>\<^verbatim>\<open>unwrap_or_else(|error| panic!(...))\<close>.\<close>

definition expect_built :: "'a result \<Rightarrow> 'a result" where
  "expect_built r = (case r of Inl _ \<Rightarrow> Panic | Inr x \<Rightarrow> Ok x)"

definition build_runtime_dual_stub_client ::
  "'d AdapterEnv \<Rightarrow> ('t, 'date) Time_ops \<Rightarrow> 'd LiveContext \<Rightarrow> string option \<Rightarrow> Venue \<Rightarrow> string \<Rightarrow> string
     \<Rightarrow> ('d LiveContext \<times> 'd LiveRuntimeState) result" where
  "build_runtime_dual_stub_client E TO world http_error venue rest_base command_ws_base =
     expect_built (build E TO world http_error
       (builder_config (stub_client_config venue rest_base command_ws_base) builder_default))"

definition build_runtime_stub_client ::
  "'d AdapterEnv \<Rightarrow> ('t, 'date) Time_ops \<Rightarrow> 'd LiveContext \<Rightarrow> string option \<Rightarrow> Venue \<Rightarrow> string
     \<Rightarrow> ('d LiveContext \<times> 'd LiveRuntimeState) result" where
  "build_runtime_stub_client E TO world http_error venue rest_base =
     expect_built (build E TO world http_error
       (builder_config (stub_client_config venue rest_base ''ws://127.0.0.1/unused-command'') builder_default))"

definition build_fixture_client ::
  "'d AdapterEnv \<Rightarrow> ('t, 'date) Time_ops \<Rightarrow> 'd LiveContext \<Rightarrow> string option \<Rightarrow> Venue
     \<Rightarrow> ('d LiveContext \<times> 'd LiveRuntimeState) result" where
  "build_fixture_client E TO world http_error venue =
     expect_built (build E TO world http_error (builder_product LinearUsdt (builder_venue venue builder_default)))"

section \<open>Stub requests\<close>

definition runtime_stub_identity :: "Venue \<Rightarrow> InstrumentId \<times> string" where
  "runtime_stub_identity venue =
     (StringId ''BTC/USDT:USDT'',
      (case venue of Binance \<Rightarrow> ''stub-binance'' | Bybit \<Rightarrow> ''stub-bybit'' | Mexc \<Rightarrow> ''stub-mexc''))"

definition stub_create_order :: "'d Decimal_ops \<Rightarrow> Venue \<Rightarrow> string \<Rightarrow> i64 \<Rightarrow> 'd CreateOrderRequest option" where
  "stub_create_order D venue suffix price_value =
     (let (instrument_id, prefix) = runtime_stub_identity venue in
      Option.bind (dec_new D 1 3) (\<lambda>quantity.
      map_option (\<lambda>price.
        \<lparr>cr_request_id = None, cr_instrument_id = instrument_id,
         cr_client_order_id = Some (StringId (prefix @ suffix)),
         cr_side = Buy, cr_order_type = Limit, cr_time_in_force = Some Gtc,
         cr_quantity = DecimalValue quantity, cr_price = Some (DecimalValue price),
         cr_trigger_price = None, cr_trigger_type = None, cr_reduce_only = False, cr_post_only = True\<rparr>)
        (dec_new D price_value 0)))"

definition runtime_stub_batch_create_request :: "'d Decimal_ops \<Rightarrow> Venue \<Rightarrow> 'd CreateOrdersRequest option" where
  "runtime_stub_batch_create_request D venue =
     Option.bind (stub_create_order D venue ''-1'' 70000) (\<lambda>first.
     map_option (\<lambda>second. \<lparr>crs_request_id = None, crs_orders = [first, second]\<rparr>)
       (stub_create_order D venue ''-2'' 69990))"

definition runtime_stub_batch_cancel_request :: "'d Decimal_ops \<Rightarrow> Venue \<Rightarrow> CancelOrdersRequest option" where
  "runtime_stub_batch_cancel_request D venue =
     map_option (\<lambda>create. \<lparr>cos_request_id = None,
         cos_orders = map (\<lambda>order. \<lparr>ot_instrument_id = cr_instrument_id order, ot_order_id = None,
           ot_client_order_id = cr_client_order_id order\<rparr>) (crs_orders create)\<rparr>)
       (runtime_stub_batch_create_request D venue)"

definition runtime_stub_validate_requests :: "'d Decimal_ops \<Rightarrow> Venue \<Rightarrow> 'd ValidateOrderRequest list option" where
  "runtime_stub_validate_requests D venue =
     map_option (\<lambda>create. map (\<lambda>order. \<lparr>vo_request_id = None, vo_order = order\<rparr>) (crs_orders create))
       (runtime_stub_batch_create_request D venue)"

end
