(* ===== verification/Live_Plan.thy ===== *)
theory Live_Plan
  imports Stub_Clients
begin

text \<open>
  The building blocks of the live trade cycle, \<^verbatim>\<open>bat-markets-testing/src/live_trade_cycle.rs\<close>:
  choosing an instrument and the prices of a plan, the orders of a burst, waiting for what a
  command brings about on the streams and over REST, and the latency figures.  The two
  scripts that run these against the live venue are not part of the model.

  The rounding operations of \<^verbatim>\<open>rust_decimal\<close> are a parameter; \<open>None\<close> is the panic of an overflow.
\<close>

section \<open>Rounding to a grid\<close>

record 'd Grid_ops =
  gr_floor :: "'d \<Rightarrow> 'd"
  gr_ceil :: "'d \<Rightarrow> 'd"
  gr_to_zero :: "'d \<Rightarrow> u32 \<Rightarrow> 'd"
  gr_away :: "'d \<Rightarrow> u32 \<Rightarrow> 'd"
  gr_sub :: "'d \<Rightarrow> 'd \<Rightarrow> 'd option"
  gr_max :: "'d \<Rightarrow> 'd \<Rightarrow> 'd"
  gr_min :: "'d \<Rightarrow> 'd \<Rightarrow> 'd"

definition quantize_down :: "'d Decimal_ops \<Rightarrow> 'd Grid_ops \<Rightarrow> 'd \<Rightarrow> 'd \<Rightarrow> u32 \<Rightarrow> 'd option" where
  "quantize_down D G value step scale =
     Option.bind (dec_div D value step) (\<lambda>steps.
       map_option (\<lambda>v. gr_to_zero G v scale) (dec_mul D (gr_floor G steps) step))"

definition quantize_up :: "'d Decimal_ops \<Rightarrow> 'd Grid_ops \<Rightarrow> 'd \<Rightarrow> 'd \<Rightarrow> u32 \<Rightarrow> 'd option" where
  "quantize_up D G value step scale =
     Option.bind (dec_div D value step) (\<lambda>steps.
       map_option (\<lambda>v. gr_away G v scale) (dec_mul D (gr_ceil G steps) step))"

text \<open>A product with \<^verbatim>\<open>Decimal::new(m, s)\<close>.\<close>

definition times_new :: "'d Decimal_ops \<Rightarrow> 'd \<Rightarrow> i64 \<Rightarrow> u32 \<Rightarrow> 'd option" where
  "times_new D d m s = Option.bind (dec_new D m s) (dec_mul D d)"

definition positive :: "'d Decimal_ops \<Rightarrow> 'd \<Rightarrow> bool" where
  "positive D d \<longleftrightarrow> dec_less D (dec_zero D) d"

text \<open>The quantity whose value is five percent above the smallest notional.\<close>

definition notional_quantity :: "'d Decimal_ops \<Rightarrow> 'd Grid_ops \<Rightarrow> 'd InstrumentSpec \<Rightarrow> 'd Price \<Rightarrow> 'd option" where
  "notional_quantity D G spec ask =
     Option.bind (times_new D (decimal (is_min_notional spec)) 105 2) (\<lambda>buffered.
     Option.bind (dec_div D buffered (decimal ask)) (\<lambda>quantity.
       quantize_up D G quantity (decimal (is_step_size spec)) (is_qty_scale spec)))"

text \<open>The limit prices a distance away from the book: below the bid, at least a tick, and above the ask.\<close>

definition price_below :: "'d Decimal_ops \<Rightarrow> 'd Grid_ops \<Rightarrow> 'd InstrumentSpec \<Rightarrow> 'd \<Rightarrow> 'd \<Rightarrow> 'd option" where
  "price_below D G spec reference distance =
     (let tick = decimal (is_tick_size spec) in
      Option.bind (gr_sub G reference distance) (\<lambda>v. quantize_down D G (gr_max G v tick) tick (is_price_scale spec)))"

definition price_above :: "'d Decimal_ops \<Rightarrow> 'd Grid_ops \<Rightarrow> 'd InstrumentSpec \<Rightarrow> 'd \<Rightarrow> 'd \<Rightarrow> 'd option" where
  "price_above D G spec reference distance =
     Option.bind (dec_checked_add D reference distance) (\<lambda>v.
       quantize_up D G v (decimal (is_tick_size spec)) (is_price_scale spec))"

section \<open>The plan\<close>

record 'd LiveTradeCyclePlan =
  ltp_instrument_id :: InstrumentId
  ltp_market_quantity :: "'d Quantity"
  ltp_maker_buy_price :: "'d Price"
  ltp_maker_sell_price :: "'d Price"
  ltp_reference_bid :: "'d Price"
  ltp_reference_ask :: "'d Price"

definition occupied_instruments :: "'d Decimal_ops \<Rightarrow> 'd Position list \<Rightarrow> 'd Order list \<Rightarrow> InstrumentId set" where
  "occupied_instruments D positions open_orders =
     pos_instrument_id ` set (filter (\<lambda>p. positive D (decimal (pos_size p)) \<and> pos_direction p \<noteq> Flat) positions) \<union>
     ord_instrument_id ` set open_orders"

definition PREFERRED_LIVE_SYMBOLS :: "string list" where
  "PREFERRED_LIVE_SYMBOLS =
     [''XRP/USDT:USDT'', ''DOGE/USDT:USDT'', ''ADA/USDT:USDT'', ''TRX/USDT:USDT'',
      ''SOL/USDT:USDT'', ''ETH/USDT:USDT'', ''BTC/USDT:USDT'']"

definition preferred_live_rank :: "'d InstrumentSpec \<Rightarrow> nat" where
  "preferred_live_rank spec = length (takeWhile (\<lambda>symbol. as_str (is_instrument_id spec) \<noteq> symbol) PREFERRED_LIVE_SYMBOLS)"

definition plan_prices ::
  "'d Decimal_ops \<Rightarrow> 'd Grid_ops \<Rightarrow> 'd InstrumentSpec \<Rightarrow> 'd Price \<Rightarrow> 'd Price \<Rightarrow> ('d \<times> 'd) option" where
  "plan_prices D G spec bid ask =
     (let tick = decimal (is_tick_size spec) in
      Option.bind (times_new D tick 8 0) (\<lambda>distance.
      Option.bind (price_below D G spec (decimal bid) distance) (\<lambda>maker_buy.
      map_option (Pair maker_buy) (price_above D G spec (decimal ask) distance))))"

text \<open>The plan at a bid and an ask; the outer \<open>None\<close> is a panic.\<close>

definition plan_at ::
  "'d Decimal_ops \<Rightarrow> 'd Grid_ops \<Rightarrow> 'd InstrumentSpec \<Rightarrow> 'd \<Rightarrow> 'd Price \<Rightarrow> 'd Price \<Rightarrow> 'd LiveTradeCyclePlan option option" where
  "plan_at D G spec max_budget bid ask =
     (let tick = decimal (is_tick_size spec); step = decimal (is_step_size spec) in
      if \<not> positive D (decimal bid) \<or> \<not> positive D (decimal ask) \<or> \<not> positive D tick \<or> \<not> positive D step
      then Some None
      else
        Option.bind (quantize_up D G (decimal (is_min_qty spec)) step (is_qty_scale spec)) (\<lambda>min_qty.
        Option.bind (notional_quantity D G spec ask) (\<lambda>required_for_notional.
          let quantity_value = gr_max G min_qty required_for_notional in
          if \<not> positive D quantity_value then Some None
          else
            Option.bind (dec_mul D quantity_value (decimal ask)) (\<lambda>cost.
              if dec_less D max_budget cost then Some None
              else
                map_option (\<lambda>(maker_buy, maker_sell).
                    if \<not> positive D maker_buy \<or> \<not> dec_less D maker_buy maker_sell then None
                    else Some \<lparr>ltp_instrument_id = is_instrument_id spec,
                      ltp_market_quantity = DecimalValue quantity_value,
                      ltp_maker_buy_price = DecimalValue maker_buy, ltp_maker_sell_price = DecimalValue maker_sell,
                      ltp_reference_bid = bid, ltp_reference_ask = ask\<rparr>)
                  (plan_prices D G spec bid ask)))))"

text \<open>A failed request ends in \<^verbatim>\<open>Ok(None)\<close>; a panic goes through.\<close>

definition rt_attempt :: "('d, 'a) rt \<Rightarrow> ('d, 'a option) rt" where
  "rt_attempt m s =
     (case m s of
        (Inl (Failed _), s') \<Rightarrow> (Ok None, s')
      | (Inl Panicked, s') \<Rightarrow> (Panic, s')
      | (Inr x, s') \<Rightarrow> (Ok (Some x), s'))"

definition build_live_trade_plan ::
  "'d Grid_ops \<Rightarrow> 'd LiveContext \<Rightarrow> 'd InstrumentSpec \<Rightarrow> 'd \<Rightarrow> InstrumentId set \<Rightarrow> ('d, 'd LiveTradeCyclePlan option) rt" where
  "build_live_trade_plan G ctx spec max_budget occupied =
     (if is_status spec \<noteq> Active \<or> \<not> sup_private_trading (is_support spec) \<or> \<not> sup_public_streams (is_support spec) \<or>
         is_instrument_id spec \<in> occupied
      then rt_return None
      else
        rt_bind (rt_attempt (client_fetch_order_book ctx (is_instrument_id spec) (Some 5))) (\<lambda>fetched.
          case fetched of
            None \<Rightarrow> rt_return None
          | Some order_book \<Rightarrow>
              (case (obs_bids order_book, obs_asks order_book) of
                 (bid # _, ask # _) \<Rightarrow>
                   rt_lift (or_panic (plan_at (lc_decimal ctx) G spec max_budget (obl_price bid) (obl_price ask)))
               | _ \<Rightarrow> rt_return None)))"

text \<open>The order in which the instruments are tried; \<^verbatim>\<open>sort_by\<close> is stable.\<close>

definition tried_before :: "'d Decimal_ops \<Rightarrow> 'd InstrumentSpec \<Rightarrow> 'd InstrumentSpec \<Rightarrow> bool" where
  "tried_before D l r \<longleftrightarrow>
     (let rank = preferred_live_rank; notional = (\<lambda>spec. decimal (is_min_notional spec)) in
      rank l < rank r \<or>
      rank l = rank r \<and>
        (dec_less D (notional l) (notional r) \<or>
         \<not> dec_less D (notional r) (notional l) \<and> is_native_symbol l < is_native_symbol r))"

fun insert_stable :: "('a \<Rightarrow> 'a \<Rightarrow> bool) \<Rightarrow> 'a \<Rightarrow> 'a list \<Rightarrow> 'a list" where
  "insert_stable before x [] = [x]"
| "insert_stable before x (y # ys) = (if before y x then y # insert_stable before x ys else x # y # ys)"

definition sort_stable :: "('a \<Rightarrow> 'a \<Rightarrow> bool) \<Rightarrow> 'a list \<Rightarrow> 'a list" where
  "sort_stable before xs = foldr (insert_stable before) xs []"

fun first_plan ::
  "('s \<Rightarrow> ('d, 'p option) rt) \<Rightarrow> 's list \<Rightarrow> ('d, 'p option) rt" where
  "first_plan build_plan [] = rt_return None"
| "first_plan build_plan (spec # specs) =
     rt_bind (build_plan spec) (\<lambda>plan. case plan of None \<Rightarrow> first_plan build_plan specs | Some p \<Rightarrow> rt_return (Some p))"

definition env_decimal :: "'d Decimal_ops \<Rightarrow> (string \<Rightarrow> string option) \<Rightarrow> string \<Rightarrow> 'd option result" where
  "env_decimal D env name =
     (case env name of
        None \<Rightarrow> Ok None
      | Some value \<Rightarrow> map_err (\<lambda>err. market_error ConfigError (''invalid '' @ name @ '': '' @ err))
          (case dec_parse D (str_trim value) of Inl err \<Rightarrow> Inl err | Inr d \<Rightarrow> Inr (Some d)))"

definition markets :: "('d, 'd InstrumentSpec list) rt" where
  "markets = rt_read (\<lambda>s. shared_read instrument_specs (lr_shared s))"

definition plan_within ::
  "'d Grid_ops \<Rightarrow> 'd LiveContext \<Rightarrow> string option \<Rightarrow> InstrumentId set \<Rightarrow> 'd \<Rightarrow> ('d, 'd LiveTradeCyclePlan option) rt" where
  "plan_within G ctx preferred_symbol occupied max_budget =
     (case preferred_symbol of
        Some value \<Rightarrow>
          rt_bind (rt_bind (rt_read (\<lambda>s. require_instrument (StringId (str_trim value)) (lr_shared s))) rt_lift) (\<lambda>spec.
            build_live_trade_plan G ctx spec max_budget occupied)
      | None \<Rightarrow>
          rt_bind markets (\<lambda>specs.
            first_plan (\<lambda>spec. build_live_trade_plan G ctx spec max_budget occupied)
              (sort_stable (tried_before (lc_decimal ctx)) specs)))"

text \<open>At most 35 percent of what is available, and at most the limit of the environment, 12 by default.\<close>

definition trade_budget :: "'d Decimal_ops \<Rightarrow> 'd Grid_ops \<Rightarrow> 'd \<Rightarrow> 'd option \<Rightarrow> 'd option option" where
  "trade_budget D G available max_notional =
     Option.bind (case max_notional of None \<Rightarrow> dec_new D 12 0 | Some d \<Rightarrow> Some d) (\<lambda>limit.
       if \<not> positive D available then Some None
       else map_option (\<lambda>share. let budget = gr_min G share limit in if positive D budget then Some budget else None)
         (times_new D available 35 2))"

definition prepare_binance_trade_cycle ::
  "'d Grid_ops \<Rightarrow> (string \<Rightarrow> string option) \<Rightarrow> 'd LiveContext \<Rightarrow> ('d, 'd LiveTradeCyclePlan option) rt" where
  "prepare_binance_trade_cycle G env ctx =
     (let D = lc_decimal ctx in
      rt_bind (client_fetch_balance ctx) (\<lambda>snapshot.
        case acc_summary snapshot of
          None \<Rightarrow> rt_return None
        | Some account \<Rightarrow>
            rt_bind (client_fetch_positions ctx) (\<lambda>positions.
            rt_bind (client_fetch_open_orders ctx None) (\<lambda>open_orders.
            rt_bind (rt_lift (env_decimal D env ''BAT_MARKETS_LIVE_TRADE_MAX_NOTIONAL'')) (\<lambda>max_notional.
            rt_bind (rt_lift (or_panic
                (trade_budget D G (decimal (sum_total_available_balance account)) max_notional))) (\<lambda>budget.
              case budget of
                None \<Rightarrow> rt_return None
              | Some max_budget \<Rightarrow>
                  plan_within G ctx (env ''BAT_MARKETS_LIVE_TRADE_SYMBOL'')
                    (occupied_instruments D positions open_orders) max_budget))))))"

section \<open>Bursts and protective orders\<close>

definition maker_burst_distance :: "'d Decimal_ops \<Rightarrow> 'd Grid_ops \<Rightarrow> 'd InstrumentSpec \<Rightarrow> 'd Price \<Rightarrow> 'd option" where
  "maker_burst_distance D G spec reference_ask =
     Option.bind (times_new D (decimal (is_tick_size spec)) 50 0) (\<lambda>tick_distance.
       map_option (gr_max G tick_distance) (times_new D (decimal reference_ask) 40 4))"

text \<open>\<open>suffix\<close> is the milliseconds of the clock when the id is made.\<close>

definition live_client_order_id :: "string \<Rightarrow> i64 \<Rightarrow> ClientOrderId" where
  "live_client_order_id prefix suffix = StringId (prefix @ ''-'' @ show_int suffix)"

text \<open>A product of two \<^verbatim>\<open>usize\<close> is cast to \<^verbatim>\<open>i64\<close>; the rounds and sizes in use are small.\<close>

definition burst_order ::
  "'d Decimal_ops \<Rightarrow> 'd Grid_ops \<Rightarrow> 'd LiveTradeCyclePlan \<Rightarrow> 'd InstrumentSpec \<Rightarrow> 'd Quantity \<Rightarrow> nat \<Rightarrow> nat \<Rightarrow> 'd
     \<Rightarrow> nat \<times> i64 \<Rightarrow> 'd CreateOrderRequest option" where
  "burst_order D G plan spec quantity round_index burst_size distance_from_book = (\<lambda>(index, suffix).
     Option.bind (times_new D (decimal (is_tick_size spec)) (int (round_index * burst_size + index + 1)) 0) (\<lambda>away.
     Option.bind (dec_checked_add D distance_from_book away) (\<lambda>distance.
       let side = (if index mod 2 = 0 then Buy else Sell) in
       map_option (\<lambda>price.
           \<lparr>cr_request_id = None, cr_instrument_id = ltp_instrument_id plan,
            cr_client_order_id = Some (live_client_order_id
              (''bxhft-r'' @ show_nat round_index @ ''-o'' @ show_nat index) suffix),
            cr_side = side, cr_order_type = Limit, cr_time_in_force = Some Gtc, cr_quantity = quantity,
            cr_price = Some (DecimalValue price), cr_trigger_price = None, cr_trigger_type = None,
            cr_reduce_only = False, cr_post_only = True\<rparr>)
         (case side of
            Buy \<Rightarrow> price_below D G spec (decimal (ltp_reference_bid plan)) distance
          | Sell \<Rightarrow> price_above D G spec (decimal (ltp_reference_ask plan)) distance))))"

definition build_binance_burst_request ::
  "'d Decimal_ops \<Rightarrow> 'd Grid_ops \<Rightarrow> (nat \<Rightarrow> i64) \<Rightarrow> 'd LiveTradeCyclePlan \<Rightarrow> 'd InstrumentSpec \<Rightarrow> 'd Quantity \<Rightarrow> nat \<Rightarrow> nat
     \<Rightarrow> 'd CreateOrdersRequest option" where
  "build_binance_burst_request D G suffixes plan spec quantity round_index burst_size =
     Option.bind (maker_burst_distance D G spec (ltp_reference_ask plan)) (\<lambda>distance_from_book.
       map_option (\<lambda>orders. \<lparr>crs_request_id = None, crs_orders = orders\<rparr>)
         (those (map (\<lambda>index. burst_order D G plan spec quantity round_index burst_size distance_from_book
             (index, suffixes index)) [0..<burst_size])))"

definition burst_order_quantity :: "'d Decimal_ops \<Rightarrow> 'd Grid_ops \<Rightarrow> 'd InstrumentSpec \<Rightarrow> 'd Price \<Rightarrow> 'd Quantity result" where
  "burst_order_quantity D G spec ask =
     and_then (or_panic (notional_quantity D G spec ask)) (\<lambda>quantity.
       if \<not> positive D quantity
       then Err (market_error ConfigError (''invalid burst quantity for '' @ as_str (is_instrument_id spec)))
       else Ok (DecimalValue quantity))"

record 'd ProtectiveTriggerPrices =
  ptp_stop_price :: "'d Price"
  ptp_take_profit_price :: "'d Price"

definition protective_trigger_prices ::
  "'d Decimal_ops \<Rightarrow> 'd Grid_ops \<Rightarrow> 'd InstrumentSpec \<Rightarrow> 'd Price \<Rightarrow> 'd ProtectiveTriggerPrices option" where
  "protective_trigger_prices D G spec entry_price =
     Option.bind (times_new D (decimal entry_price) 35 4) (\<lambda>ratio.
     Option.bind (times_new D (decimal (is_tick_size spec)) 40 0) (\<lambda>absolute.
       let offset = gr_max G ratio absolute in
       Option.bind (price_below D G spec (decimal entry_price) offset) (\<lambda>stop_price.
         map_option (\<lambda>take_profit_price.
             \<lparr>ptp_stop_price = DecimalValue stop_price, ptp_take_profit_price = DecimalValue take_profit_price\<rparr>)
           (price_above D G spec (decimal entry_price) offset))))"

section \<open>Latency figures\<close>

record LatencySummary =
  lat_samples :: nat
  lat_min_ns :: u64
  lat_avg_ns :: u64
  lat_p95_ns :: u64
  lat_max_ns :: u64

definition saturating_duration_ns :: "nat \<Rightarrow> u64" where
  "saturating_duration_ns ns = of_nat (min ns (2 ^ 64 - 1))"

text \<open>The sum is taken in 128 bits, which fewer than two to the 64 samples cannot exceed.\<close>

definition summarize_latencies :: "u64 list \<Rightarrow> LatencySummary" where
  "summarize_latencies samples =
     (if samples = [] then \<lparr>lat_samples = 0, lat_min_ns = 0, lat_avg_ns = 0, lat_p95_ns = 0, lat_max_ns = 0\<rparr>
      else
        (let sorted_ns = sort samples in
         \<lparr>lat_samples = length sorted_ns,
          lat_min_ns = hd sorted_ns,
          lat_avg_ns = of_nat (min (sum_list (map unat sorted_ns) div length sorted_ns) (2 ^ 64 - 1)),
          lat_p95_ns = sorted_ns ! ((length sorted_ns - 1) * 95 div 100),
          lat_max_ns = last sorted_ns\<rparr>))"

section \<open>Laws\<close>

lemma sum_list_between:
  fixes xs :: "nat list"
  assumes "\<And>x. x \<in> set xs \<Longrightarrow> lo \<le> x \<and> x \<le> hi"
  shows "lo * length xs \<le> sum_list xs \<and> sum_list xs \<le> hi * length xs"
  using assms by (induction xs) (auto simp: algebra_simps dest: add_mono intro: add_mono)

lemma average_between:
  fixes xs :: "nat list"
  assumes "xs \<noteq> []" and "\<And>x. x \<in> set xs \<Longrightarrow> lo \<le> x \<and> x \<le> hi"
  shows "lo \<le> sum_list xs div length xs \<and> sum_list xs div length xs \<le> hi"
proof -
  have "0 < length xs" using assms(1) by simp
  moreover have "lo * length xs \<le> sum_list xs" "sum_list xs \<le> hi * length xs"
    using sum_list_between [of xs lo hi] assms(2) by auto
  ultimately show ?thesis
    by (metis div_le_mono div_mult_self_is_m)
qed

lemma sorted_bounds:
  assumes "sorted (xs :: 'a::linorder list)" "x \<in> set xs"
  shows "hd xs \<le> x \<and> x \<le> last xs"
proof -
  obtain i where i: "i < length xs" "xs ! i = x" using assms(2) by (auto simp: in_set_conv_nth)
  then have "xs \<noteq> []" by auto
  with i assms(1) show ?thesis
    by (auto simp: hd_conv_nth last_conv_nth intro!: sorted_nth_mono)
qed

lemma sorted_count:
  assumes "sorted (xs :: 'a::linorder list)" "i < length xs"
  shows "i < length (filter (\<lambda>x. x \<le> xs ! i) xs)"
proof -
  let ?P = "\<lambda>x. x \<le> xs ! i"
  have "\<forall>x\<in>set (take (Suc i) xs). ?P x"
    using assms by (auto simp: in_set_conv_nth intro!: sorted_nth_mono)
  then have "length (filter ?P (take (Suc i) xs)) = Suc i" using assms(2) by (simp add: filter_id_conv)
  moreover have "filter ?P xs = filter ?P (take (Suc i) xs) @ filter ?P (drop (Suc i) xs)"
    by (metis append_take_drop_id filter_append)
  ultimately show ?thesis by simp
qed

lemma average_word_between:
  fixes xs :: "u64 list"
  assumes "sorted xs" "xs \<noteq> []"
  shows "(of_nat (min (sum_list (map unat xs) div length xs) (2 ^ 64 - 1)) :: u64) \<in> {hd xs..last xs}"
proof -
  let ?avg = "sum_list (map unat xs) div length xs"
  have avg: "unat (hd xs) \<le> ?avg \<and> ?avg \<le> unat (last xs)"
    using average_between [of "map unat xs" "unat (hd xs)" "unat (last xs)"] sorted_bounds [OF assms(1)] assms(2)
    by (auto simp: word_le_nat_alt)
  moreover have "unat (last xs) < 2 ^ 64" using unsigned_less [of "last xs"] by simp
  ultimately have "unat (of_nat (min ?avg (2 ^ 64 - 1)) :: u64) = ?avg"
    by (simp add: unsigned_of_nat take_bit_nat_eq_self)
  with avg show ?thesis by (simp add: word_le_nat_alt)
qed

lemma summarize_sorted:
  assumes "samples \<noteq> []"
  defines "r \<equiv> summarize_latencies samples" and "xs \<equiv> sort samples"
  shows "lat_samples r = length samples" "lat_min_ns r = hd xs" "lat_max_ns r = last xs"
    "lat_p95_ns r = xs ! ((length samples - 1) * 95 div 100)" "lat_avg_ns r \<in> {hd xs..last xs}"
    "xs \<noteq> []" "sorted xs" "set xs = set samples" "(length samples - 1) * 95 div 100 < length xs"
proof -
  have "length xs = length samples" by (simp add: xs_def)
  with assms(1) show ne: "xs \<noteq> []" by (metis length_0_conv)
  show srt: "sorted xs" and "set xs = set samples" by (simp_all add: xs_def)
  show "lat_samples r = length samples" "lat_min_ns r = hd xs" "lat_max_ns r = last xs"
    "lat_p95_ns r = xs ! ((length samples - 1) * 95 div 100)"
    using assms(1) by (simp_all add: r_def summarize_latencies_def xs_def Let_def)
  have "lat_avg_ns r = of_nat (min (sum_list (map unat xs) div length xs) (2 ^ 64 - 1))"
    using assms(1) by (simp only: r_def summarize_latencies_def xs_def Let_def if_False LatencySummary.select_convs)
  then show "lat_avg_ns r \<in> {hd xs..last xs}" using average_word_between [OF srt ne] by simp
  have "0 < length samples" using assms(1) by simp
  with div_times_less_eq_dividend [of "(length samples - 1) * 95" 100]
  show "(length samples - 1) * 95 div 100 < length xs" unfolding xs_def length_sort by linarith
qed

text \<open>
  The latency figures are in order: the minimum and the maximum are samples that bound all of
  them, the 95th percentile is a sample that at least 95 percent of the others do not exceed by
  position, and the average lies between the extremes.
\<close>

theorem latency_summary_ordered:
  "case samples of
     [] \<Rightarrow> lat_samples (summarize_latencies samples) = 0
   | _ \<Rightarrow>
       (let r = summarize_latencies samples in
        lat_samples r = length samples \<and>
        {lat_min_ns r, lat_p95_ns r, lat_max_ns r} \<subseteq> set samples \<and>
        set samples \<subseteq> {lat_min_ns r..lat_max_ns r} \<and>
        lat_avg_ns r \<in> {lat_min_ns r..lat_max_ns r} \<and>
        95 * (length samples - 1) < 100 * length (filter (\<lambda>x. x \<le> lat_p95_ns r) samples))"
proof (cases "samples = []")
  case True
  then show ?thesis by (simp add: summarize_latencies_def)
next
  case False
  note facts = summarize_sorted [OF this]
  have count: "length (filter P (sort samples)) = length (filter P samples)" for P
    by (metis filter_sort length_sort)
  have "95 * (length samples - 1) < 100 * Suc ((length samples - 1) * 95 div 100)"
    using dividend_less_times_div [of 100 "(length samples - 1) * 95"] by simp
  also have "100 * Suc ((length samples - 1) * 95 div 100) \<le>
      100 * length (filter (\<lambda>x. x \<le> lat_p95_ns (summarize_latencies samples)) samples)"
    using sorted_count [OF facts(7) facts(9)] unfolding facts(4) [symmetric] count by simp
  finally have p95: "95 * (length samples - 1) <
      100 * length (filter (\<lambda>x. x \<le> lat_p95_ns (summarize_latencies samples)) samples)" .
  have "{lat_min_ns (summarize_latencies samples), lat_p95_ns (summarize_latencies samples),
      lat_max_ns (summarize_latencies samples)} \<subseteq> set samples"
    using hd_in_set [OF facts(6)] last_in_set [OF facts(6)] nth_mem [OF facts(9)]
    unfolding facts(2-4) facts(8) by (simp only: insert_subset empty_subsetI simp_thms)
  moreover have "set samples \<subseteq> {lat_min_ns (summarize_latencies samples)..lat_max_ns (summarize_latencies samples)}"
    using sorted_bounds [OF facts(7)] unfolding facts(2,3) facts(8) [symmetric] by auto
  ultimately show ?thesis
    using p95 facts(1,5) False unfolding facts(2,3) [symmetric] by (cases samples) (simp_all add: Let_def)
qed

section \<open>What a plan promises\<close>

definition plan_sound ::
  "'d Decimal_ops \<Rightarrow> 'd InstrumentSpec \<Rightarrow> 'd \<Rightarrow> 'd LiveTradeCyclePlan \<Rightarrow> bool" where
  "plan_sound D spec max_budget plan \<longleftrightarrow>
     ltp_instrument_id plan = is_instrument_id spec \<and>
     positive D (decimal (ltp_market_quantity plan)) \<and>
     (case dec_mul D (decimal (ltp_market_quantity plan)) (decimal (ltp_reference_ask plan)) of
        None \<Rightarrow> False | Some cost \<Rightarrow> \<not> dec_less D max_budget cost) \<and>
     positive D (decimal (ltp_maker_buy_price plan)) \<and>
     dec_less D (decimal (ltp_maker_buy_price plan)) (decimal (ltp_maker_sell_price plan))"

lemma plan_at_sound: "plan_at D G spec max_budget bid ask = Some (Some plan) \<Longrightarrow> plan_sound D spec max_budget plan"
  by (auto simp: plan_at_def plan_sound_def Let_def bind_eq_Some_conv split: if_splits option.splits)

lemma build_live_trade_plan_sound:
  assumes "build_live_trade_plan G ctx spec max_budget occupied s = (Ok (Some plan), s')"
  shows "plan_sound (lc_decimal ctx) spec max_budget plan \<and> is_status spec = Active \<and>
    sup_private_trading (is_support spec) \<and> ltp_instrument_id plan \<notin> occupied"
proof -
  from assms have spec: "is_status spec = Active" "sup_private_trading (is_support spec)" "is_instrument_id spec \<notin> occupied"
    by (auto simp: build_live_trade_plan_def rt_return_def split: if_splits)
  from assms obtain bid ask where "plan_at (lc_decimal ctx) G spec max_budget bid ask = Some (Some plan)"
    by (auto simp: build_live_trade_plan_def rt_return_def rt_bind_def rt_lift_def or_panic_def
        split: if_splits prod.splits sum.splits option.splits list.splits)
  from plan_at_sound [OF this] spec show ?thesis by (simp add: plan_sound_def)
qed

lemma first_plan_from:
  "first_plan build_plan specs s = (Ok (Some plan), s') \<Longrightarrow>
    \<exists>spec s1 s2. spec \<in> set specs \<and> build_plan spec s1 = (Ok (Some plan), s2)"
proof (induction specs arbitrary: s)
  case (Cons spec specs)
  then show ?case
    by (fastforce simp: rt_bind_def rt_return_def split: prod.splits sum.splits option.splits)
qed (simp add: rt_return_def)

lemma plan_within_sound:
  assumes "plan_within G ctx preferred occupied max_budget s = (Ok (Some plan), s')"
  shows "ltp_instrument_id plan \<notin> occupied \<and>
    (\<exists>spec. is_status spec = Active \<and> sup_private_trading (is_support spec) \<and>
      plan_sound (lc_decimal ctx) spec max_budget plan)"
proof -
  have "\<exists>spec s1 s2. build_live_trade_plan G ctx spec max_budget occupied s1 = (Ok (Some plan), s2)"
    using assms first_plan_from [of "\<lambda>spec. build_live_trade_plan G ctx spec max_budget occupied"]
    by (auto simp: plan_within_def rt_bind_def markets_def rt_read_def rt_lift_def split: option.splits sum.splits prod.splits)
       blast
  then show ?thesis by (auto dest: build_live_trade_plan_sound)
qed

lemma rt_bind_Ok_iff:
  "rt_bind m k s = (Ok y, s') \<longleftrightarrow> (\<exists>x s1. m s = (Ok x, s1) \<and> k x s1 = (Ok y, s'))"
  by (auto simp: rt_bind_def split: prod.splits sum.splits)

lemma trade_budget_positive: "trade_budget D G available limit = Some (Some budget) \<Longrightarrow> positive D budget"
  by (auto simp: trade_budget_def Let_def bind_eq_Some_conv split: option.splits if_splits)

lemma or_panic_Ok_iff: "or_panic x = Ok y \<longleftrightarrow> x = Some y"
  by (simp add: or_panic_def split: option.split)

lemma prepare_parts:
  assumes "prepare_binance_trade_cycle G env ctx s = (Ok (Some plan), s')"
  shows "\<exists>snapshot account s1 positions s2 open_orders s3 limit max_budget preferred.
      client_fetch_balance ctx s = (Ok snapshot, s1) \<and> acc_summary snapshot = Some account \<and>
      client_fetch_positions ctx s1 = (Ok positions, s2) \<and>
      client_fetch_open_orders ctx None s2 = (Ok open_orders, s3) \<and>
      env_decimal (lc_decimal ctx) env ''BAT_MARKETS_LIVE_TRADE_MAX_NOTIONAL'' = Ok limit \<and>
      trade_budget (lc_decimal ctx) G (decimal (sum_total_available_balance account)) limit = Some (Some max_budget) \<and>
      plan_within G ctx preferred (occupied_instruments (lc_decimal ctx) positions open_orders) max_budget s3 =
        (Ok (Some plan), s')"
proof -
  let ?D = "lc_decimal ctx"
  from assms obtain snapshot s1 where balance: "client_fetch_balance ctx s = (Ok snapshot, s1)"
    unfolding prepare_binance_trade_cycle_def Let_def by (auto simp: rt_bind_Ok_iff)
  moreover obtain account where account: "acc_summary snapshot = Some account"
    using assms balance unfolding prepare_binance_trade_cycle_def Let_def
    by (cases "acc_summary snapshot") (auto simp: rt_bind_def rt_return_def)
  ultimately obtain positions s2 open_orders s3 limit budget
    where parts: "client_fetch_positions ctx s1 = (Ok positions, s2)"
      "client_fetch_open_orders ctx None s2 = (Ok open_orders, s3)"
      "env_decimal ?D env ''BAT_MARKETS_LIVE_TRADE_MAX_NOTIONAL'' = Ok limit"
      "trade_budget ?D G (decimal (sum_total_available_balance account)) limit = Some budget"
      and rest: "(case budget of None \<Rightarrow> rt_return None
        | Some max_budget \<Rightarrow> plan_within G ctx (env ''BAT_MARKETS_LIVE_TRADE_SYMBOL'')
            (occupied_instruments ?D positions open_orders) max_budget) s3 = (Ok (Some plan), s')"
    using assms unfolding prepare_binance_trade_cycle_def Let_def
    by (auto simp: rt_bind_Ok_iff rt_lift_def or_panic_Ok_iff)
  from rest obtain max_budget where "budget = Some max_budget"
    by (cases budget) (auto simp: rt_return_def)
  with balance account parts rest show ?thesis by (simp, blast)
qed


end
