(* ===== verification/Live_Waits.thy ===== *)
theory Live_Waits
  imports Live_Plan
begin

text \<open>
  Waiting in the live trade cycle, \<^verbatim>\<open>bat-markets-testing/src/live_trade_cycle.rs\<close>: for an update
  on a private watch, for a state that REST requests report, or for the first of the two.

  A wait on a watch is given what the watch delivers before its timeout: when that is used up
  without an answer, the timeout has fired.  A polling loop is given the instants its clock
  shows, one after each unsuccessful attempt.
\<close>

section \<open>Commands\<close>

definition is_binance_algo_validation_gap :: "'d CreateOrderRequest \<Rightarrow> string option \<Rightarrow> bool" where
  "is_binance_algo_validation_gap order native_code \<longleftrightarrow>
     cr_order_type order \<in> {StopMarket, StopLimit, TakeProfitMarket, TakeProfitLimit} \<and> native_code = Some ''-4120''"

definition validate_live_order :: "i64 \<Rightarrow> 'd LiveContext \<Rightarrow> 'd CreateOrderRequest \<Rightarrow> ('d, unit) rt" where
  "validate_live_order made_at ctx order s =
     (case client_validate_order made_at ctx \<lparr>vo_request_id = None, vo_order = order\<rparr> s of
        (Inl Panicked, s') \<Rightarrow> (Panic, s')
      | (Inl (Failed error), s') \<Rightarrow>
          (if is_binance_algo_validation_gap order (ec_native_code (me_context error)) then (Ok (), s') else (Err error, s'))
      | (Inr handle, s') \<Rightarrow>
          (let receipt = ack_receipt (kh_ack handle) in
           if rcp_status receipt \<noteq> CommandStatus.Rejected then (Ok (), s')
           else if is_binance_algo_validation_gap order (rcp_native_code receipt) then (Ok (), s')
           else (Err (market_error Unsupported (''live validate_order rejected '' @ as_str (cr_instrument_id order) @
             '' '' @ unwrap_or ''without message'' (rcp_message receipt))), s')))"

text \<open>An empty answer means that the handle is still waiting for the recovery.\<close>

definition ensure_command_not_rejected :: "PendingCommandHandle \<Rightarrow> string \<Rightarrow> unit result option \<times> PendingCommandHandle" where
  "ensure_command_not_rejected handle label =
     (case rcp_status (ack_receipt (ph_ack handle)) of
        Accepted \<Rightarrow> (Some (Ok ()), handle)
      | CommandStatus.Rejected \<Rightarrow>
          (Some (Err (market_error Unsupported (label @ '' was rejected: '' @
             unwrap_or ''without message'' (rcp_message (ack_receipt (ph_ack handle)))))), handle)
      | CommandStatus.UnknownExecution \<Rightarrow>
          (case resolved handle of
             (None, handle') \<Rightarrow> (None, handle')
           | (Some r, handle') \<Rightarrow> (Some (map_result (\<lambda>_. ()) r), handle')))"

section \<open>Waiting on a watch\<close>

type_synonym 'd private_inbox = "'d PrivateLaneEvent Incoming list"

text \<open>\<open>accept\<close> is the body of the loop: \<open>None\<close> receives the next update.\<close>

fun await_update ::
  "nat \<Rightarrow> ('d private_inbox \<Rightarrow> 'u result option \<times> 'd private_inbox) \<Rightarrow> ('u \<Rightarrow> bool) \<Rightarrow> 'd private_inbox
     \<Rightarrow> 'u result option \<times> 'd private_inbox" where
  "await_update 0 recv accept inbox = (None, inbox)"
| "await_update (Suc n) recv accept inbox =
     (case recv inbox of
        (None, rest) \<Rightarrow> (None, rest)
      | (Some (Inl f), rest) \<Rightarrow> (Some (Inl f), rest)
      | (Some (Inr u), rest) \<Rightarrow> if accept u then (Some (Ok u), rest) else await_update n recv accept rest)"

text \<open>
  A receive takes at least one entry, so a round more than there are entries is enough.
  \<^verbatim>\<open>timeout(...).await.map_err(...)?\<close> turns a wait without an answer into the error.
\<close>

definition await_or_time_out ::
  "('d private_inbox \<Rightarrow> 'u result option \<times> 'd private_inbox) \<Rightarrow> ('u \<Rightarrow> bool) \<Rightarrow> string \<Rightarrow> 'd private_inbox
     \<Rightarrow> 'u result \<times> 'd private_inbox" where
  "await_or_time_out recv accept message inbox =
     (case await_update (Suc (length inbox)) recv accept inbox of
        (None, rest) \<Rightarrow> (Err (market_error TransportError message), rest)
      | (Some r, rest) \<Rightarrow> (r, rest))"

definition await_order_update ::
  "InstrumentId \<Rightarrow> ClientOrderId \<Rightarrow> OrderStatus list \<Rightarrow> 'd private_inbox \<Rightarrow> 'd Order result \<times> 'd private_inbox" where
  "await_order_update instrument_id client_order_id acceptable_statuses =
     await_or_time_out recv_order
       (\<lambda>order. ord_instrument_id order = instrument_id \<and> ord_client_order_id order = Some client_order_id \<and>
          ord_status order \<in> set acceptable_statuses)
       (''timed out waiting for order update '' @ as_str client_order_id)"

definition await_execution_update ::
  "InstrumentId \<Rightarrow> ClientOrderId \<Rightarrow> 'd private_inbox \<Rightarrow> 'd Execution result \<times> 'd private_inbox" where
  "await_execution_update instrument_id client_order_id =
     await_or_time_out recv_execution
       (\<lambda>execution. exe_instrument_id execution = instrument_id \<and> exe_client_order_id execution = Some client_order_id)
       (''timed out waiting for execution update '' @ as_str client_order_id)"

text \<open>\<^verbatim>\<open>==\<close> on decimals compares the numbers, as \<open>dec_is_zero\<close> does with zero.\<close>

definition position_is_flat :: "'d Decimal_ops \<Rightarrow> 'd Position \<Rightarrow> bool" where
  "position_is_flat D position \<longleftrightarrow> pos_direction position = Flat \<or> dec_is_zero D (decimal (pos_size position))"

definition await_position_state ::
  "'d Decimal_ops \<Rightarrow> InstrumentId \<Rightarrow> bool \<Rightarrow> 'd private_inbox \<Rightarrow> 'd Position result \<times> 'd private_inbox" where
  "await_position_state D instrument_id expect_flat =
     await_or_time_out recv_position
       (\<lambda>position. pos_instrument_id position = instrument_id \<and> position_is_flat D position = expect_flat)
       (''timed out waiting for '' @ (if expect_flat then ''flat'' else ''non-flat'') @ '' position update on '' @
          as_str instrument_id)"

definition await_balance_update :: "'d private_inbox \<Rightarrow> 'd Balance result \<times> 'd private_inbox" where
  "await_balance_update =
     await_or_time_out recv_balance (\<lambda>balance. as_str (bal_asset balance) = ''USDT'') ''timed out waiting for balance update''"

text \<open>The updates of several orders; \<open>elapsed n\<close> is the latency measured with \<open>n\<close> entries left.\<close>

record 'd TimedOrderUpdate =
  tou_order :: "'d Order"
  tou_latency_ns :: u64

fun await_all_orders ::
  "nat \<Rightarrow> InstrumentId \<Rightarrow> OrderStatus list \<Rightarrow> (nat \<Rightarrow> nat) \<Rightarrow> ClientOrderId set
     \<Rightarrow> (ClientOrderId, 'd TimedOrderUpdate) btree_map \<Rightarrow> 'd private_inbox
     \<Rightarrow> (ClientOrderId, 'd TimedOrderUpdate) btree_map result option \<times> 'd private_inbox" where
  "await_all_orders 0 instrument_id statuses elapsed pending updates inbox = (None, inbox)"
| "await_all_orders (Suc n) instrument_id statuses elapsed pending updates inbox =
     (if pending = {} then (Some (Ok updates), inbox)
      else
        (case recv_order inbox of
           (None, rest) \<Rightarrow> (None, rest)
         | (Some (Inl f), rest) \<Rightarrow> (Some (Inl f), rest)
         | (Some (Inr order), rest) \<Rightarrow>
             (let next_round = await_all_orders n instrument_id statuses elapsed in
              if ord_instrument_id order \<noteq> instrument_id then next_round pending updates rest
              else
                (case ord_client_order_id order of
                   None \<Rightarrow> next_round pending updates rest
                 | Some client_order_id \<Rightarrow>
                     if client_order_id \<notin> pending \<or> ord_status order \<notin> set statuses then next_round pending updates rest
                     else next_round (pending - {client_order_id})
                       (bt_insert client_order_id
                         \<lparr>tou_order = order, tou_latency_ns = saturating_duration_ns (elapsed (length rest))\<rparr> updates)
                       rest))))"

definition await_order_updates_for_ids ::
  "InstrumentId \<Rightarrow> ClientOrderId list \<Rightarrow> OrderStatus list \<Rightarrow> (nat \<Rightarrow> nat) \<Rightarrow> 'd private_inbox
     \<Rightarrow> (ClientOrderId, 'd TimedOrderUpdate) btree_map result \<times> 'd private_inbox" where
  "await_order_updates_for_ids instrument_id client_order_ids statuses elapsed inbox =
     (case await_all_orders (Suc (length inbox)) instrument_id statuses elapsed (set client_order_ids) [] inbox of
        (None, rest) \<Rightarrow>
          (Err (market_error TransportError (''timed out waiting for '' @ show_nat (length client_order_ids) @
             '' order updates on '' @ as_str instrument_id)), rest)
      | (Some r, rest) \<Rightarrow> (r, rest))"

section \<open>Polling\<close>

text \<open>
  \<open>attempt\<close> is one round: it returns the answer of the loop, or \<open>None\<close> to look at the clock and
  try again after a quarter of a second.  An empty answer of the loop means that it is
  still polling at the last instant.
\<close>

fun poll_until ::
  "('d, 'a option) rt \<Rightarrow> nat \<Rightarrow> string \<Rightarrow> nat list \<Rightarrow> 'd LiveRuntimeState \<Rightarrow> 'a result option \<times> 'd LiveRuntimeState" where
  "poll_until attempt deadline message [] s =
     (case attempt s of
        (Inl f, s1) \<Rightarrow> (Some (Inl f), s1)
      | (Inr (Some v), s1) \<Rightarrow> (Some (Ok v), s1)
      | (Inr None, s1) \<Rightarrow> (None, s1))"
| "poll_until attempt deadline message (now # nows) s =
     (case attempt s of
        (Inl f, s1) \<Rightarrow> (Some (Inl f), s1)
      | (Inr (Some v), s1) \<Rightarrow> (Some (Ok v), s1)
      | (Inr None, s1) \<Rightarrow>
          (if deadline \<le> now then (Some (Err (market_error TransportError message)), s1)
           else poll_until attempt deadline message nows (snd (rt_sleep 250 s1))))"

definition await_open_order_presence ::
  "'d LiveContext \<Rightarrow> InstrumentId \<Rightarrow> ClientOrderId \<Rightarrow> bool \<Rightarrow> nat \<Rightarrow> nat list \<Rightarrow> 'd LiveRuntimeState
     \<Rightarrow> unit result option \<times> 'd LiveRuntimeState" where
  "await_open_order_presence ctx instrument_id client_order_id expected_present deadline =
     poll_until
       (rt_bind (client_fetch_open_orders ctx (Some \<lparr>lo_instrument_id = Some instrument_id\<rparr>)) (\<lambda>orders.
          let present = list_ex (\<lambda>order. ord_instrument_id order = instrument_id \<and>
                ord_client_order_id order = Some client_order_id) orders in
          rt_return (if present = expected_present then Some () else None)))
       deadline
       (''timed out waiting for open-order presence='' @ (if expected_present then ''true'' else ''false'') @
          '' on '' @ as_str instrument_id @ '' ('' @ as_str client_order_id @ '')'')"

definition synthetic_flat_position :: "'d Decimal_ops \<Rightarrow> TimestampMs \<Rightarrow> InstrumentId \<Rightarrow> 'd Position" where
  "synthetic_flat_position D now instrument_id =
     \<lparr>pos_position_id = StringId (''synthetic-flat:'' @ as_str instrument_id), pos_instrument_id = instrument_id,
      pos_direction = Flat, pos_size = DecimalValue (dec_zero D), pos_entry_price = None, pos_mark_price = None,
      pos_unrealized_pnl = None, pos_leverage = None, pos_margin_mode = Cross, pos_position_mode = OneWay,
      pos_updated_at = now\<rparr>"

definition await_position_snapshot ::
  "'d LiveContext \<Rightarrow> InstrumentId \<Rightarrow> bool \<Rightarrow> nat \<Rightarrow> nat list \<Rightarrow> 'd LiveRuntimeState
     \<Rightarrow> 'd Position result option \<times> 'd LiveRuntimeState" where
  "await_position_snapshot ctx instrument_id expect_flat deadline =
     poll_until
       (rt_bind (client_fetch_positions ctx) (\<lambda>positions.
          case find (\<lambda>position. pos_instrument_id position = instrument_id) positions of
            Some position \<Rightarrow>
              rt_return (if position_is_flat (lc_decimal ctx) position = expect_flat then Some position else None)
          | None \<Rightarrow>
              if expect_flat
              then rt_bind (rt_now ctx) (\<lambda>now.
                rt_return (Some (synthetic_flat_position (lc_decimal ctx) (TimestampMs now) instrument_id)))
              else rt_return None))
       deadline (''timed out waiting for refreshed position state on '' @ as_str instrument_id)"

definition await_rest_order_state ::
  "'d LiveContext \<Rightarrow> InstrumentId \<Rightarrow> OrderId option \<Rightarrow> ClientOrderId option \<Rightarrow> OrderStatus list \<Rightarrow> nat \<Rightarrow> nat list
     \<Rightarrow> 'd LiveRuntimeState \<Rightarrow> 'd Order result option \<times> 'd LiveRuntimeState" where
  "await_rest_order_state ctx instrument_id order_id client_order_id acceptable_statuses deadline =
     poll_until
       (rt_bind (rt_attempt (client_fetch_order ctx
            \<lparr>go_request_id = None, go_instrument_id = instrument_id, go_order_id = order_id,
             go_client_order_id = client_order_id\<rparr>)) (\<lambda>result.
          rt_return (Option.bind result (\<lambda>order. if ord_status order \<in> set acceptable_statuses then Some order else None))))
       deadline (''timed out waiting for REST order state on '' @ as_str instrument_id)"

definition await_execution_snapshot ::
  "'d LiveContext \<Rightarrow> InstrumentId \<Rightarrow> ClientOrderId \<Rightarrow> OrderId option \<Rightarrow> nat \<Rightarrow> nat list \<Rightarrow> 'd LiveRuntimeState
     \<Rightarrow> 'd Execution result option \<times> 'd LiveRuntimeState" where
  "await_execution_snapshot ctx instrument_id client_order_id order_id deadline =
     poll_until
       (rt_bind (client_fetch_my_trades ctx (Some \<lparr>le_instrument_id = Some instrument_id, le_limit = Some 50\<rparr>)) (\<lambda>executions.
          rt_return (find (\<lambda>execution. exe_instrument_id execution = instrument_id \<and>
              (exe_client_order_id execution = Some client_order_id \<or> order_id = Some (exe_order_id execution))) executions)))
       deadline
       (''timed out waiting for refreshed execution state on '' @ as_str instrument_id @ '' ('' @ as_str client_order_id @ '')'')"

section \<open>The stream or a refresh\<close>

text \<open>
  The wait on the watch is cut short after five seconds; an error of the watch and the end of
  the time both fall back to REST.  The flag says where the answer came from; the variants that
  measure latency add the time elapsed.
\<close>

definition observe_or_refresh ::
  "('d private_inbox \<Rightarrow> 'u result \<times> 'd private_inbox)
     \<Rightarrow> ('d LiveRuntimeState \<Rightarrow> 'u result option \<times> 'd LiveRuntimeState) \<Rightarrow> 'd private_inbox
     \<Rightarrow> 'd LiveRuntimeState \<Rightarrow> ('u \<times> bool) result option \<times> 'd private_inbox \<times> 'd LiveRuntimeState" where
  "observe_or_refresh wait_on_watch refresh inbox s =
     (case wait_on_watch inbox of
        (Inr u, rest) \<Rightarrow> (Some (Ok (u, True)), rest, s)
      | (Inl Panicked, rest) \<Rightarrow> (Some Panic, rest, s)
      | (Inl (Failed _), rest) \<Rightarrow>
          (case refresh s of (r, s') \<Rightarrow> (map_option (map_result (\<lambda>u. (u, False))) r, rest, s')))"

definition observe_or_refresh_position_state ::
  "'d LiveContext \<Rightarrow> InstrumentId \<Rightarrow> bool \<Rightarrow> nat \<Rightarrow> nat list \<Rightarrow> 'd private_inbox \<Rightarrow> 'd LiveRuntimeState
     \<Rightarrow> ('d Position \<times> bool) result option \<times> 'd private_inbox \<times> 'd LiveRuntimeState" where
  "observe_or_refresh_position_state ctx instrument_id expect_flat deadline nows =
     observe_or_refresh (await_position_state (lc_decimal ctx) instrument_id expect_flat)
       (await_position_snapshot ctx instrument_id expect_flat deadline nows)"

record StreamLatencyObservation =
  slo_latency_ns :: u64
  slo_streamed :: bool

definition with_latency ::
  "nat \<Rightarrow> ('u \<times> bool) result option \<times> 'i \<times> 's \<Rightarrow> ('u \<times> StreamLatencyObservation) result option \<times> 'i \<times> 's" where
  "with_latency elapsed = apfst (map_option (map_result (\<lambda>(u, streamed).
     (u, \<lparr>slo_latency_ns = saturating_duration_ns elapsed, slo_streamed = streamed\<rparr>))))"

definition observe_or_refresh_position_latency ::
  "nat \<Rightarrow> 'd LiveContext \<Rightarrow> InstrumentId \<Rightarrow> bool \<Rightarrow> nat \<Rightarrow> nat list \<Rightarrow> 'd private_inbox \<Rightarrow> 'd LiveRuntimeState
     \<Rightarrow> ('d Position \<times> StreamLatencyObservation) result option \<times> 'd private_inbox \<times> 'd LiveRuntimeState" where
  "observe_or_refresh_position_latency elapsed ctx instrument_id expect_flat deadline nows inbox s =
     with_latency elapsed (observe_or_refresh (await_position_state (lc_decimal ctx) instrument_id expect_flat)
       (await_position_snapshot ctx instrument_id expect_flat deadline nows) inbox s)"

definition observe_or_refresh_execution_latency ::
  "nat \<Rightarrow> 'd LiveContext \<Rightarrow> InstrumentId \<Rightarrow> ClientOrderId \<Rightarrow> OrderId option \<Rightarrow> nat \<Rightarrow> nat list \<Rightarrow> 'd private_inbox
     \<Rightarrow> 'd LiveRuntimeState
     \<Rightarrow> ('d Execution \<times> StreamLatencyObservation) result option \<times> 'd private_inbox \<times> 'd LiveRuntimeState" where
  "observe_or_refresh_execution_latency elapsed ctx instrument_id client_order_id order_id deadline nows inbox s =
     with_latency elapsed (observe_or_refresh (await_execution_update instrument_id client_order_id)
       (await_execution_snapshot ctx instrument_id client_order_id order_id deadline nows) inbox s)"

definition cached_balances :: "'d SharedState \<Rightarrow> 'd Balance list" where
  "cached_balances sh = shared_read (\<lambda>state. bt_values (es_balances state)) sh"

text \<open>The balance after a refresh is read from the cache.\<close>

definition refreshed_usdt_balance :: "'d LiveContext \<Rightarrow> 'd LiveRuntimeState \<Rightarrow> 'd Balance result option \<times> 'd LiveRuntimeState" where
  "refreshed_usdt_balance ctx s =
     (case rt_bind (client_fetch_balance ctx) (\<lambda>_.
           rt_bind (rt_read (\<lambda>s. cached_balances (lr_shared s))) (\<lambda>cached.
             rt_lift (ok_or (market_error TransportError ''missing refreshed USDT balance snapshot'')
               (find (\<lambda>balance. as_str (bal_asset balance) = ''USDT'') cached)))) s of
        (r, s') \<Rightarrow> (Some r, s'))"

definition observe_or_refresh_balance ::
  "'d LiveContext \<Rightarrow> 'd private_inbox \<Rightarrow> 'd LiveRuntimeState
     \<Rightarrow> ('d Balance \<times> bool) result option \<times> 'd private_inbox \<times> 'd LiveRuntimeState" where
  "observe_or_refresh_balance ctx = observe_or_refresh await_balance_update (refreshed_usdt_balance ctx)"

definition observe_or_refresh_balance_latency ::
  "nat \<Rightarrow> 'd LiveContext \<Rightarrow> 'd private_inbox \<Rightarrow> 'd LiveRuntimeState
     \<Rightarrow> ('d Balance \<times> StreamLatencyObservation option) result option \<times> 'd private_inbox \<times> 'd LiveRuntimeState" where
  "observe_or_refresh_balance_latency elapsed ctx inbox s =
     apfst (map_option (map_result (apsnd Some)))
       (with_latency elapsed (observe_or_refresh await_balance_update (refreshed_usdt_balance ctx) inbox s))"

definition refresh_account_summary :: "'d LiveContext \<Rightarrow> ('d, 'd AccountSummary) rt" where
  "refresh_account_summary ctx =
     rt_bind (client_fetch_balance ctx) (\<lambda>snapshot.
       rt_lift (ok_or (market_error TransportError ''missing refreshed account summary snapshot'') (acc_summary snapshot)))"

definition observe_or_refresh_account :: "'d LiveContext \<Rightarrow> ('d, 'd AccountSummary \<times> bool) rt" where
  "observe_or_refresh_account ctx = rt_bind (refresh_account_summary ctx) (\<lambda>summary. rt_return (summary, False))"

definition observe_or_refresh_account_latency ::
  "nat \<Rightarrow> 'd LiveContext \<Rightarrow> ('d, 'd AccountSummary \<times> StreamLatencyObservation option) rt" where
  "observe_or_refresh_account_latency elapsed ctx =
     rt_bind (refresh_account_summary ctx) (\<lambda>summary.
       rt_return (summary, Some \<lparr>slo_latency_ns = saturating_duration_ns elapsed, slo_streamed = False\<rparr>))"

section \<open>Laws of waiting\<close>

text \<open>The answer of a wait is the first update handed out that it accepts, errors included.\<close>

fun first_accepted :: "('u \<Rightarrow> bool) \<Rightarrow> 'u result list \<Rightarrow> 'u result option" where
  "first_accepted accept [] = None"
| "first_accepted accept (Inl f # rs) = Some (Inl f)"
| "first_accepted accept (Inr u # rs) = (if accept u then Some (Ok u) else first_accepted accept rs)"

lemma await_update_first:
  "length inbox < n \<Longrightarrow>
    fst (await_update n (recv_loop label body) accept inbox) =
      first_accepted accept (List.map_filter (handed_out label body) inbox)"
proof (induction inbox arbitrary: n)
  case Nil
  then obtain m where "n = Suc m" by (cases n) auto
  then show ?case by (simp add: recv_loop_step List.map_filter_simps)
next
  case (Cons i inbox)
  then obtain m where n: "n = Suc m" "length inbox < m" by (cases n) auto
  show ?case
  proof (cases "handed_out label body i")
    case None
    then have "recv_loop label body (i # inbox) = recv_loop label body inbox" by (simp add: recv_loop_step)
    then have "await_update n (recv_loop label body) accept (i # inbox) =
        await_update n (recv_loop label body) accept inbox" by (simp add: n(1))
    with None Cons.IH [of n] n show ?thesis by (simp add: List.map_filter_simps)
  next
    case (Some r)
    with Cons.IH [of m] n show ?thesis
      by (cases r) (simp_all add: recv_loop_step List.map_filter_simps)
  qed
qed

definition order_updates :: "'d private_inbox \<Rightarrow> 'd Order result list" where
  "order_updates = List.map_filter (handed_out ''order subscription''
     (\<lambda>e. case e of PrivateLaneEvent.Order v \<Rightarrow> Some (Ok v) | _ \<Rightarrow> None))"

lemma recv_order_loop:
  "recv_order = recv_loop ''order subscription'' (\<lambda>e. case e of PrivateLaneEvent.Order v \<Rightarrow> Some (Ok v) | _ \<Rightarrow> None)"
  by (simp add: recv_order_def fun_eq_iff)

text \<open>
  Waiting for an order: the answer is the first order update of the watch that has the
  instrument, the client id and one of the states asked for, or the failure of the watch that comes
  before it; when there is none within the time, the wait ends in a transport error.
\<close>

theorem order_wait_answers_first:
  "fst (await_order_update instrument_id client_order_id statuses inbox) =
     (case first_accepted
         (\<lambda>order. ord_instrument_id order = instrument_id \<and> ord_client_order_id order = Some client_order_id \<and>
            ord_status order \<in> set statuses) (order_updates inbox) of
        None \<Rightarrow> Err (market_error TransportError (''timed out waiting for order update '' @ as_str client_order_id))
      | Some r \<Rightarrow> r)"
  unfolding await_order_update_def await_or_time_out_def recv_order_loop order_updates_def
  by (subst await_update_first [of inbox "Suc (length inbox)", symmetric]) (simp_all split: prod.split option.split)

text \<open>What is collected for several orders.\<close>

definition timely :: "InstrumentId \<Rightarrow> OrderStatus list \<Rightarrow> (ClientOrderId, 'd TimedOrderUpdate) btree_map \<Rightarrow> bool" where
  "timely instrument_id statuses updates \<longleftrightarrow>
     bt_wf updates \<and>
     list_all (\<lambda>(client_order_id, update).
        ord_client_order_id (tou_order update) = Some client_order_id \<and>
        ord_instrument_id (tou_order update) = instrument_id \<and> ord_status (tou_order update) \<in> set statuses) updates"

lemma list_all_bt_insert:
  "list_all P m \<Longrightarrow> P (k, v) \<Longrightarrow> list_all P (bt_insert k v m)"
  by (induction k v m rule: bt_insert.induct) auto

lemma await_all_orders_inv:
  assumes "await_all_orders n instrument_id statuses elapsed pending updates inbox = (Some (Ok result), rest)"
    and "timely instrument_id statuses updates"
  shows "timely instrument_id statuses result \<and> set (bt_keys result) = set (bt_keys updates) \<union> pending"
  using assms
proof (induction n arbitrary: pending updates inbox)
  case (Suc n)
  show ?case
  proof (cases "pending = {}")
    case True
    with Suc.prems show ?thesis by simp
  next
    case False
    with Suc.prems obtain order inbox' where recv: "recv_order inbox = (Some (Inr order), inbox')"
      by (auto split: prod.splits option.splits sum.splits)
    show ?thesis
    proof (cases "\<exists>c. ord_client_order_id order = Some c \<and> c \<in> pending \<and> ord_instrument_id order = instrument_id \<and>
        ord_status order \<in> set statuses")
      case True
      then obtain c where c: "ord_client_order_id order = Some c" "c \<in> pending"
        "ord_instrument_id order = instrument_id" "ord_status order \<in> set statuses" by blast
      let ?update = "\<lparr>tou_order = order, tou_latency_ns = saturating_duration_ns (elapsed (length inbox'))\<rparr>"
      have "timely instrument_id statuses (bt_insert c ?update updates)"
        using Suc.prems(2) c by (auto simp: timely_def intro!: list_all_bt_insert)
      moreover have "await_all_orders n instrument_id statuses elapsed (pending - {c}) (bt_insert c ?update updates) inbox' =
          (Some (Ok result), rest)"
        using Suc.prems(1) False recv c by simp
      moreover have "set (bt_keys (bt_insert c ?update updates)) = insert c (set (bt_keys updates))"
        by (rule bt_keys_insert)
      ultimately show ?thesis using Suc.IH [of "pending - {c}" "bt_insert c ?update updates" inbox'] c(2) by auto
    next
      case False
      with \<open>pending \<noteq> {}\<close> Suc.prems(1) recv
      have "await_all_orders n instrument_id statuses elapsed pending updates inbox' = (Some (Ok result), rest)"
        by (auto simp: Let_def split: option.splits if_splits)
      with Suc.IH Suc.prems(2) show ?thesis by blast
    qed
  qed
qed simp

text \<open>
  C39. Waiting for the updates of several orders: when the wait succeeds there is exactly one
  entry for each client id asked for, and it is an update of that order on the instrument in
  one of the states asked for.
\<close>

theorem order_updates_complete:
  "case fst (await_order_updates_for_ids instrument_id client_order_ids statuses elapsed inbox) of
     Inr updates \<Rightarrow> timely instrument_id statuses updates \<and> set (bt_keys updates) = set client_order_ids
   | Inl _ \<Rightarrow> True"
proof (cases "await_all_orders (Suc (length inbox)) instrument_id statuses elapsed (set client_order_ids) [] inbox")
  case (Pair r rest)
  have "timely instrument_id statuses []" by (simp add: timely_def)
  with await_all_orders_inv [of "Suc (length inbox)" instrument_id statuses elapsed "set client_order_ids" "[]" inbox _ rest] Pair
  show ?thesis
    by (auto simp: await_order_updates_for_ids_def bt_keys_def split: option.split sum.split)
qed

lemma poll_until_ends: "fst (poll_until attempt deadline message (nows @ [deadline + late]) s) \<noteq> None"
  by (induction nows arbitrary: s) (auto split: prod.split sum.split option.split)

text \<open>
  The polling loops come to an end: once the clock shows an instant at or after the deadline,
  each of the four has an answer, whatever the venue returns.
\<close>

theorem polling_ends_at_deadline:
  "fst (await_open_order_presence ctx iid cid present deadline (nows @ [deadline + late]) s) \<noteq> None \<and>
   fst (await_position_snapshot ctx iid flat deadline (nows @ [deadline + late]) s) \<noteq> None \<and>
   fst (await_rest_order_state ctx iid oid oc statuses deadline (nows @ [deadline + late]) s) \<noteq> None \<and>
   fst (await_execution_snapshot ctx iid cid oid deadline (nows @ [deadline + late]) s) \<noteq> None"
  unfolding await_open_order_presence_def await_position_snapshot_def await_rest_order_state_def
    await_execution_snapshot_def
  by (intro conjI poll_until_ends)

end
