(* ===== verification/Spec2Isabelle.thy ===== *)
theory Spec2Isabelle
  imports Spelling Client_Machine Diagnostics Live_Waits
begin

text \<open>
  \<^bold>\<open>Verification of bat-markets\<close>, a headless engine for linear futures at Binance, Bybit and MEXC,
  written in Rust.  The program decodes market data and account frames of a venue into one state,
  sends commands over REST or a command websocket, and repairs its view of the account whenever the
  outcome of a command is unknown or a stream had a gap.  Everything below is translated from the
  sources under \<^verbatim>\<open>src/crates\<close>; the name of a definition is the name of the Rust item where HOL
  allows it.

  \<^bold>\<open>Core crate\<close> (\<^verbatim>\<open>bat-markets-core/src\<close>).

    \<^item> \<^verbatim>\<open>Prelude\<close>, \<^verbatim>\<open>BTree_Map\<close>: machine integers, decimal printing, the ordered map of the standard library
      (locale \<open>ordered_map\<close>, interpreted on \<open>bt_get\<close>, \<open>bt_insert\<close> and the others), and the locales of reactive machines
      (\<open>reactive_machine\<close>, \<open>guarded_machine\<close>, \<open>observed_machine\<close>) that every component's invariant rests on.
    \<^item> \<^verbatim>\<open>Core_Types\<close>, \<^verbatim>\<open>Numeric\<close>, \<^verbatim>\<open>Instrument\<close>, \<^verbatim>\<open>Market\<close>, \<^verbatim>\<open>Interval\<close>, \<^verbatim>\<open>Domain\<close>, \<^verbatim>\<open>Config\<close>:
      \<^verbatim>\<open>types.rs\<close>, \<^verbatim>\<open>ids.rs\<close>, \<^verbatim>\<open>error.rs\<close>, \<^verbatim>\<open>numeric.rs\<close>, \<^verbatim>\<open>instrument.rs\<close>, \<^verbatim>\<open>catalog.rs\<close>, \<^verbatim>\<open>market.rs\<close>,
      the private data and requests, \<^verbatim>\<open>config.rs\<close>, \<^verbatim>\<open>capability.rs\<close>.
    \<^item> \<^verbatim>\<open>Health\<close> (\<^verbatim>\<open>health.rs\<close>) and \<^verbatim>\<open>Engine_State\<close> (\<^verbatim>\<open>state.rs\<close>): the engine's state as one record, each
      method as a function on it; \<^verbatim>\<open>Engine_Laws\<close> proves the invariant \<open>engine_wf\<close>, that failed calls change nothing,
      that the two lanes do not interfere, idempotence and exact replacement.

  \<^bold>\<open>Adapters\<close> (\<^verbatim>\<open>bat-markets-binance\<close>, \<^verbatim>\<open>bat-markets-bybit\<close>, \<^verbatim>\<open>bat-markets-mexc\<close>).

    \<^item> \<^verbatim>\<open>Json_Value\<close>: the accessors of JSON values and the readers serde derives; \<^verbatim>\<open>Binance_Native\<close>,
      \<^verbatim>\<open>Bybit_Native\<close>, \<^verbatim>\<open>Mexc_Native\<close> (\<^verbatim>\<open>native.rs\<close> of each venue): every message struct with its reader.
    \<^item> \<^verbatim>\<open>Adapter\<close>, \<^verbatim>\<open>Binance_Adapter\<close>, \<^verbatim>\<open>Bybit_Adapter\<close>, \<^verbatim>\<open>Mexc_Adapter\<close> (\<^verbatim>\<open>lib.rs\<close> of each venue): decoding,
      command classification, initial instruments.  The trait \<^verbatim>\<open>VenueAdapter\<close> is the locale \<open>venue_adapter\<close> (with
      \<open>total_adapter\<close> for the two that never panic), interpreted on each venue; \<^verbatim>\<open>Adapters\<close> picks the venue's adapter.

  \<^bold>\<open>Client crate\<close> (\<^verbatim>\<open>bat-markets/src\<close>).

    \<^item> \<^verbatim>\<open>Shared_State\<close> (\<^verbatim>\<open>client.rs\<close>, \<^verbatim>\<open>advanced.rs\<close>): the locked engine state with its event channels, the
      health publication, batches, the resolution of configuration.
    \<^item> \<^verbatim>\<open>Subscriptions\<close> (\<^verbatim>\<open>subscriptions.rs\<close>): merging and routing of subscriptions and the hub tasks.
    \<^item> \<^verbatim>\<open>Command_Ws\<close> (\<^verbatim>\<open>transport.rs\<close>): the hub of command websockets and the session task.
    \<^item> \<^verbatim>\<open>Http\<close>, \<^verbatim>\<open>Sequence\<close>, \<^verbatim>\<open>Reconcile\<close>, \<^verbatim>\<open>Commands\<close>, \<^verbatim>\<open>Batch_Commands\<close>, \<^verbatim>\<open>Position_Commands\<close>, \<^verbatim>\<open>Market_Data\<close>,
      \<^verbatim>\<open>Streams\<close> (\<^verbatim>\<open>runtime.rs\<close>): signed and public calls with their retries, the gap tracker, refreshes and repair, every
      command, every market data request, and the websocket streams with their reconnect loops.
    \<^item> \<^verbatim>\<open>Watchers\<close> (\<^verbatim>\<open>stream.rs\<close>), \<^verbatim>\<open>Entry\<close> (\<^verbatim>\<open>entry.rs\<close>), \<^verbatim>\<open>Candle_Window\<close> and \<^verbatim>\<open>Facade\<close> (\<^verbatim>\<open>facade.rs\<close>):
      typed receivers and watches, command handles, candle paging, the methods of the client and how it is built.
    \<^item> \<^verbatim>\<open>Diagnostics\<close> (\<^verbatim>\<open>diagnostics.rs\<close>): the counters and their lock-free update.
    \<^item> \<^verbatim>\<open>Client_Machine\<close>: all of it as one machine over arbitrary sequences of inputs.

  \<^bold>\<open>Test crate\<close> (\<^verbatim>\<open>bat-markets-testing/src\<close>).

    \<^item> \<^verbatim>\<open>Stub_Server\<close>, \<^verbatim>\<open>Stub_Clients\<close> (\<^verbatim>\<open>lib.rs\<close>): the REST stub with its HTTP framing, the command websocket stub, the
      configuration of live tests, the clients and requests of the stubs.
    \<^item> \<^verbatim>\<open>Live_Plan\<close>, \<^verbatim>\<open>Live_Waits\<close> (\<^verbatim>\<open>live_trade_cycle.rs\<close>): the planning of a live trade, bursts and protective
      prices, latency figures, and the waits on streams and over REST.

  \<^bold>\<open>How state and effects correspond.\<close>  A runtime action is a function of type \<open>('d, 'a) rt\<close>: from the runtime state
  (\<open>LiveRuntimeState\<close>: shared state, catalog, pending commands, caches, the REST calls made and the frames handed to websocket
  sessions) to a result and the new state; every early return, error and panic of the source is a value of the result, and a
  failed action still returns its state.  A panic is the failure \<open>Panicked\<close>.  Integers keep their width (\<open>w word\<close>, or \<open>int\<close> with
  \<open>i64_wrap\<close> for \<^verbatim>\<open>i64\<close>) with the wrapping of release builds; in the test
  crate, which is compiled with overflow checks, an overflow is a panic.

  \<^bold>\<open>What is a parameter.\<close>  Code that is not in the repository is an argument: decimal arithmetic (\<open>Decimal_ops\<close>, with the
  documented laws \<open>decimal_laws\<close>, instantiated on scaled integers), the JSON text layer, calendar functions (\<open>Time_ops\<close>), HMAC and URL
  encoding, the environment.  The network and the clock are functions of the calls made so far; a stream is a
  list of connection attempts, each with the events its \<^verbatim>\<open>select!\<close> loop sees; the order in which the futures of \<^verbatim>\<open>try_join_all\<close> run is
  a schedule; connecting a stream may fail at every attempt.  The theorems quantify over all of them.

  \<^bold>\<open>Groups of laws.\<close>  The \<^verbatim>\<open>_Laws\<close> theories carry the proofs.  \<open>network_blind\<close>, \<open>update_class\<close> and \<open>state_keeper\<close>
  (\<^verbatim>\<open>Http\<close>, \<^verbatim>\<open>Reconcile_Laws\<close>) say once what a call, a state update and an action keep; \<open>command_keeper\<close>,
  \<open>public_stream_keeper\<close>, \<open>private_stream_keeper\<close> and \<open>market_fetch_keeper\<close> lift this to the commands, the streams and the
  requests, and each is interpreted several times: for the engine invariant, for the isolation of the lanes, for what is
  published.  \<^verbatim>\<open>Command_Laws\<close>, \<^verbatim>\<open>Batch_Laws\<close> (locale \<open>chunk_handler\<close>, interpreted on every way a batch is sent) and
  \<^verbatim>\<open>Position_Laws\<close> show what becomes of a command: at most one submission, an unknown outcome remembered and announced.
  \<^verbatim>\<open>Websocket_Only\<close> shows what the websocket-only mode never does, \<^verbatim>\<open>Spelling\<close> that both directions of a venue's vocabulary agree.

  \<^bold>\<open>Bounds and fuel.\<close>  Loops recurse on their data.  Only the paging of candles has fuel, a number of pages whose exhaustion is
  the value \<open>None\<close>; \<open>window_paging_ends\<close> shows that one page per millisecond of the window is enough.  The waits of the test
  crate get one round more than there are updates to receive.  A stream ends with its list of attempts, and its \<^verbatim>\<open>select!\<close> loop with the list of events of an attempt.  The command websocket session ends with its list of inputs.
  A hub task handles one message at a time.

  \<^bold>\<open>Not modelled.\<close>

    \<^item> The waiting time of the command rate limiter, which is computed in \<^verbatim>\<open>f64\<close>; the permits are counted.
    \<^item> \<^verbatim>\<open>StatusWatch\<close> and the accessors that only hand out a field or a receiver; the receivers of \<^verbatim>\<open>stream.rs\<close> that exist only for
      tests (book top, fast feed); the re-exports of \<^verbatim>\<open>native.rs\<close> in the client crate.
    \<^item> The locks and channels of tokio themselves: a lock is the atomicity of a step, a channel the list of what was
      sent on it, and a receiver that lags is an input of the receiver.
    \<^item> In \<^verbatim>\<open>bat-markets-testing\<close>, the texts of the fixtures and the three scripts of \<^verbatim>\<open>live_trade_cycle.rs\<close> (\<^verbatim>\<open>run_binance_trade_cycle\<close>,
      \<^verbatim>\<open>run_binance_extended_stress\<close>, \<^verbatim>\<open>run_binance_burst_round\<close>), which call the modelled parts one after the other against the live venue.
\<close>

end
